(* ===== verification/Js_Prelude.thy ===== *)
theory Js_Prelude
  imports Main "HOL-Library.AList" "HOL-Library.Monad_Syntax" "HOL-Library.Multiset"
begin

text \<open>
  Shared vocabulary of the development: the parts of the JavaScript standard library
  (and of lodash) the modelled sources rely on, and the generic interfaces the component
  theories instantiate.

  \<^item> \<^emph>\<open>Dictionaries.\<close> A JavaScript \<^verbatim>\<open>Map\<close>, \<^verbatim>\<open>Record\<close> or plain object is an association
    list in insertion order. Setting an existing key keeps its position, a new key goes to
    the end, which is \<^term>\<open>AList.update\<close>. (Plain objects list integer-like keys first;
    every key of the modelled objects is a name, an identifier or an invoice.)
  \<^item> \<^emph>\<open>Strings of numbers\<close>: template literals over counters, with injectivity.
  \<^item> \<^emph>\<open>Sorting\<close>: lodash \<^verbatim>\<open>orderBy(xs, key, 'desc')\<close>, a stable descending sort.
  \<^item> \<^emph>\<open>Machines\<close>: the locale of a state, an event type and an invariant that every event
    keeps, used by every reducer slice and by the wallet-service simulator.
\<close>

named_theorems js_simps \<open>rewrite rules of the JavaScript vocabulary\<close>
named_theorems inv_intros \<open>introduction rules for component invariants\<close>

type_synonym ('k, 'v) jsmap = "('k \<times> 'v) list"

section \<open>Dictionaries\<close>

definition jm_get :: "('k, 'v) jsmap \<Rightarrow> 'k \<Rightarrow> 'v option" where
  "jm_get m k = map_of m k"

definition jm_set :: "'k \<Rightarrow> 'v \<Rightarrow> ('k, 'v) jsmap \<Rightarrow> ('k, 'v) jsmap" where
  "jm_set k v m = AList.update k v m"

definition jm_del :: "'k \<Rightarrow> ('k, 'v) jsmap \<Rightarrow> ('k, 'v) jsmap" where
  "jm_del k m = AList.delete k m"

definition jm_keys :: "('k, 'v) jsmap \<Rightarrow> 'k list" where
  "jm_keys m = map fst m"

definition jm_values :: "('k, 'v) jsmap \<Rightarrow> 'v list" where
  "jm_values m = map snd m"

text \<open>The spread \<^verbatim>\<open>{ ...m, k1: v1, ..., kn: vn }\<close>: the listed fields in order over \<open>m\<close>.\<close>

definition jm_spread :: "('k, 'v) jsmap \<Rightarrow> ('k \<times> 'v) list \<Rightarrow> ('k, 'v) jsmap" where
  "jm_spread m kvs = fold (\<lambda>(k, v) acc. jm_set k v acc) kvs m"

text \<open>Rest destructuring \<^verbatim>\<open>const { k1, ..., kn, ...rest } = m\<close> and lodash \<^verbatim>\<open>omit\<close>.\<close>

definition jm_omit :: "'k list \<Rightarrow> ('k, 'v) jsmap \<Rightarrow> ('k, 'v) jsmap" where
  "jm_omit ks m = fold jm_del ks m"

text \<open>
  What a client of a dictionary may rely on. The derived laws on whole sequences of writes
  (a spread, a rest pattern) are proved once here and reach the components through the
  interpretation below.
\<close>

locale dictionary =
  fixes get :: "'m \<Rightarrow> 'k \<Rightarrow> 'v option"
    and set_at :: "'k \<Rightarrow> 'v \<Rightarrow> 'm \<Rightarrow> 'm"
    and del_at :: "'k \<Rightarrow> 'm \<Rightarrow> 'm"
  assumes get_set: "get (set_at k v m) k' = (if k' = k then Some v else get m k')"
    and get_del: "get (del_at k m) k' = (if k' = k then None else get m k')"
begin

lemma get_set_same: "get (set_at k v m) k = Some v"
  by (simp add: get_set)

lemma get_set_other: "k' \<noteq> k \<Longrightarrow> get (set_at k v m) k' = get m k'"
  by (simp add: get_set)

lemma get_fold_set:
  "get (fold (\<lambda>(k, v) acc. set_at k v acc) kvs m) k =
     (case map_of (rev kvs) k of Some v \<Rightarrow> Some v | None \<Rightarrow> get m k)"
  by (induction kvs arbitrary: m) (auto simp: get_set map_add_def split: option.splits)

lemma get_fold_del:
  "get (fold del_at ks m) k = (if k \<in> set ks then None else get m k)"
  by (induction ks arbitrary: m) (auto simp: get_del)

lemma set_then_del: "get (del_at k (set_at k v m)) k' = get (del_at k m) k'"
  by (simp add: get_set get_del)

end

interpretation jsd: dictionary jm_get jm_set jm_del
  by unfold_locales
    (auto simp: jm_get_def jm_set_def jm_del_def update_conv' delete_conv')

lemma map_of_rev_distinct: "distinct (map fst m) \<Longrightarrow> map_of (rev m) = map_of m"
  by (subst map_of_inject_set) (simp_all add: rev_map [symmetric])

lemma jm_get_Nil [simp]: "jm_get [] k = None"
  by (simp add: jm_get_def)

lemma jm_get_Cons: "jm_get ((k, v) # m) k' = (if k' = k then Some v else jm_get m k')"
  by (simp add: jm_get_def)

lemmas jm_get_set [simp, js_simps] = jsd.get_set
lemmas jm_get_del [simp, js_simps] = jsd.get_del

lemma jm_get_spread [js_simps]:
  "jm_get (jm_spread m kvs) k =
     (case map_of (rev kvs) k of Some v \<Rightarrow> Some v | None \<Rightarrow> jm_get m k)"
  by (simp add: jm_spread_def jsd.get_fold_set)

lemma jm_get_omit [js_simps]:
  "jm_get (jm_omit ks m) k = (if k \<in> set ks then None else jm_get m k)"
  by (simp add: jm_omit_def jsd.get_fold_del)

lemma jm_keys_set: "set (jm_keys (jm_set k v m)) = insert k (set (jm_keys m))"
  using dom_update [of k v m] by (simp add: jm_keys_def jm_set_def)

lemma jm_distinct_set: "distinct (jm_keys m) \<Longrightarrow> distinct (jm_keys (jm_set k v m))"
  by (simp add: jm_keys_def jm_set_def distinct_update)

lemma jm_distinct_del: "distinct (jm_keys m) \<Longrightarrow> distinct (jm_keys (jm_del k m))"
  by (simp add: jm_keys_def jm_del_def distinct_delete)

lemma jm_get_iff_mem: "distinct (jm_keys m) \<Longrightarrow> jm_get m k = Some v \<longleftrightarrow> (k, v) \<in> set m"
  by (simp add: jm_get_def jm_keys_def)

lemma jm_get_mem: "jm_get m k = Some v \<Longrightarrow> (k, v) \<in> set m"
  by (simp add: jm_get_def map_of_SomeD)

lemma jm_set_mem: "(k', v') \<in> set (jm_set k v m) \<Longrightarrow> (k', v') = (k, v) \<or> (k', v') \<in> set m"
  unfolding jm_set_def by (induction m) (auto split: if_splits)

section \<open>Lists\<close>

text \<open>\<^verbatim>\<open>Array.from(new Set(xs))\<close>: first occurrences, in order.\<close>

fun js_uniq :: "'a list \<Rightarrow> 'a list" where
  "js_uniq [] = []"
| "js_uniq (x # xs) = x # filter (\<lambda>y. y \<noteq> x) (js_uniq xs)"

lemma set_js_uniq [simp]: "set (js_uniq xs) = set xs"
  by (induction xs) auto

lemma distinct_js_uniq [simp]: "distinct (js_uniq xs)"
  by (induction xs) auto

text \<open>\<^verbatim>\<open>Set.add\<close> on a set kept in insertion order.\<close>

definition js_set_add :: "'a \<Rightarrow> 'a list \<Rightarrow> 'a list" where
  "js_set_add x xs = (if x \<in> set xs then xs else xs @ [x])"

lemma set_js_set_add [simp]: "set (js_set_add x xs) = insert x (set xs)"
  by (auto simp: js_set_add_def)

lemma distinct_js_set_add: "distinct xs \<Longrightarrow> distinct (js_set_add x xs)"
  by (simp add: js_set_add_def)

text \<open>Assign through the object found by the first match (\<^verbatim>\<open>xs.find(p)\<close> then mutate it).\<close>

fun update_first :: "('a \<Rightarrow> bool) \<Rightarrow> ('a \<Rightarrow> 'a) \<Rightarrow> 'a list \<Rightarrow> 'a list" where
  "update_first p f [] = []"
| "update_first p f (x # xs) = (if p x then f x # xs else x # update_first p f xs)"

lemma length_update_first [simp]: "length (update_first p f xs) = length xs"
  by (induction xs) auto

lemma map_update_first:
  "(\<And>x. p x \<Longrightarrow> g (f x) = g x) \<Longrightarrow> map g (update_first p f xs) = map g xs"
  by (induction xs) auto

lemma update_first_all:
  "list_all q xs \<Longrightarrow> (\<And>x. p x \<Longrightarrow> q x \<Longrightarrow> q (f x)) \<Longrightarrow> list_all q (update_first p f xs)"
  by (induction xs) auto

lemma update_first_none: "find p xs = None \<Longrightarrow> update_first p f xs = xs"
  by (induction xs) (auto split: if_splits)

lemma find_update_first:
  "(\<And>x. p x \<Longrightarrow> p (f x)) \<Longrightarrow> find p (update_first p f xs) = map_option f (find p xs)"
  by (induction xs) auto

lemma option_eqI:
  assumes "\<And>x. a = Some x \<longleftrightarrow> b = Some x"
  shows "a = b"
  using assms by (cases a; cases b) force+

lemma find_hd_filter: "find p xs = (if filter p xs = [] then None else Some (hd (filter p xs)))"
  by (induction xs) auto

lemma find_Some_mem: "find p xs = Some x \<Longrightarrow> x \<in> set xs \<and> p x"
  by (auto simp: find_Some_iff)

section \<open>Stable descending sort\<close>

definition orderBy_desc :: "('a \<Rightarrow> int) \<Rightarrow> 'a list \<Rightarrow> 'a list" where
  "orderBy_desc key xs = sort_key (\<lambda>x. - key x) xs"

lemma set_orderBy_desc [simp]: "set (orderBy_desc key xs) = set xs"
  by (simp add: orderBy_desc_def)

lemma length_orderBy_desc [simp]: "length (orderBy_desc key xs) = length xs"
  by (simp add: orderBy_desc_def)

lemma distinct_map_orderBy_desc:
  "distinct (map f (orderBy_desc key xs)) = distinct (map f xs)"
proof -
  have "mset (map f (orderBy_desc key xs)) = mset (map f xs)"
    by (simp add: orderBy_desc_def)
  then show ?thesis by (metis mset_eq_imp_distinct_iff)
qed

lemma sorted_orderBy_desc: "sorted (map (\<lambda>x. - key x) (orderBy_desc key xs))"
  by (simp add: orderBy_desc_def)

lemma orderBy_desc_nth:
  assumes "i < j" "j < length xs"
  shows "key (orderBy_desc key xs ! j) \<le> key (orderBy_desc key xs ! i)"
  using sorted_nth_mono [OF sorted_orderBy_desc, of i j key xs] assms by simp

lemma orderBy_desc_stable:
  "filter (\<lambda>x. key x = c) (orderBy_desc key xs) = filter (\<lambda>x. key x = c) xs"
proof -
  have "filter (\<lambda>x. - key x = - c) (sort_key (\<lambda>x. - key x) xs) = filter (\<lambda>x. - key x = - c) xs"
    by (rule sort_key_stable)
  then show ?thesis by (simp add: orderBy_desc_def)
qed

section \<open>Decimal and hexadecimal strings\<close>

definition digit_char :: "nat \<Rightarrow> char" where
  "digit_char d = char_of (if d < 10 then 48 + d else 87 + d)"

fun nat_str :: "nat \<Rightarrow> string" where
  "nat_str n = (if n < 10 then [digit_char n] else nat_str (n div 10) @ [digit_char (n mod 10)])"

declare nat_str.simps [simp del]

text \<open>\<^verbatim>\<open>n.toString(16)\<close> on a non-negative integer.\<close>

function hex_str :: "int \<Rightarrow> string" where
  "hex_str n = (if n < 16 then [digit_char (nat n)]
     else hex_str (n div 16) @ [digit_char (nat (n mod 16))])"
  by auto
termination by (relation "measure nat") auto

declare hex_str.simps [simp del]

definition int_str :: "int \<Rightarrow> string" where
  "int_str i = (if i < 0 then CHR ''-'' # nat_str (nat (- i)) else nat_str (nat i))"

definition str_nat :: "string \<Rightarrow> nat" where
  "str_nat s = foldl (\<lambda>a c. 10 * a + (of_char c - 48)) 0 s"

lemma of_char_digit: "d < 10 \<Longrightarrow> (of_char (digit_char d) :: nat) = 48 + d"
  by (simp add: digit_char_def)

lemma str_nat_nat_str [simp]: "str_nat (nat_str n) = n"
proof (induction n rule: nat_str.induct)
  case (1 n)
  show ?case
  proof (cases "n < 10")
    case True
    then show ?thesis by (simp add: nat_str.simps [of n] str_nat_def of_char_digit)
  next
    case False
    with 1 have "str_nat (nat_str (n div 10)) = n div 10" by simp
    with False show ?thesis
      by (simp add: nat_str.simps [of n] str_nat_def of_char_digit)
  qed
qed

lemma inj_nat_str: "inj nat_str"
  by (metis injI str_nat_nat_str)

lemma nat_str_eq_iff [simp]: "nat_str m = nat_str n \<longleftrightarrow> m = n"
  by (metis str_nat_nat_str)

section \<open>Machines with an invariant\<close>

text \<open>
  A component with a state, well formed events and an invariant. The lemma on whole runs is proved once;
  every interpretation discharges the one-step law for its own reducer or handler.
\<close>

fun run :: "('s \<Rightarrow> 'e \<Rightarrow> 's) \<Rightarrow> 's \<Rightarrow> 'e list \<Rightarrow> 's" where
  "run step s [] = s"
| "run step s (e # es) = run step (step s e) es"

lemma run_append: "run step s (xs @ ys) = run step (run step s xs) ys"
  by (induction xs arbitrary: s) auto

locale invariant_machine =
  fixes step :: "'s \<Rightarrow> 'e \<Rightarrow> 's"
    and ok :: "'e \<Rightarrow> bool"
    and inv :: "'s \<Rightarrow> bool"
  assumes step_inv: "inv s \<Longrightarrow> ok e \<Longrightarrow> inv (step s e)"
begin

lemma run_inv: "inv s \<Longrightarrow> list_all ok es \<Longrightarrow> inv (run step s es)"
  by (induction es arbitrary: s) (auto intro: step_inv)

lemma run_prefix_inv: "inv s \<Longrightarrow> list_all ok (es @ fs) \<Longrightarrow> inv (run step s es)"
  by (simp add: run_inv)

end

end
