(* ===== verification/Vector_Diff_Stream.thy ===== *)
theory Vector_Diff_Stream
  imports Js_Prelude
begin

text \<open>
  \<^verbatim>\<open>ui/common/utils/stream.ts\<close>: the lists the bridge streams to the UI (rooms, timelines,
  members) arrive as sequences of vector diffs. The theory models the four functions of the
  file, an abstract vector they refine, and proves that mapping diffs commutes with applying
  them and that no item appears in a list unless the stream delivered it.
\<close>

section \<open>Diffs\<close>

text \<open>
  \<^verbatim>\<open>VectorDiff<T>\<close> of the generated bindings. \<open>UnknownDiff\<close> stands for any value outside that
  union: the final \<^verbatim>\<open>else\<close> of the source throws on it.
\<close>

datatype 'a VectorDiff =
    Append "'a list"
  | Clear
  | PushFront 'a
  | PushBack 'a
  | PopFront
  | PopBack
  | InsertAt nat 'a
  | SetAt nat 'a
  | RemoveAt nat
  | Truncate nat
  | Reset "'a list"
  | UnknownDiff

datatype stream_error = UnknownUpdateType

fun applyStreamUpdate :: "'a list \<Rightarrow> 'a VectorDiff \<Rightarrow> stream_error + 'a list" where
  "applyStreamUpdate prev Clear = Inr []"
| "applyStreamUpdate prev PopFront = Inr (drop 1 prev)"
| "applyStreamUpdate prev PopBack = Inr (take (length prev - 1) prev)"
| "applyStreamUpdate prev (Append vs) = Inr (prev @ vs)"
| "applyStreamUpdate prev (PushFront v) = Inr (v # prev)"
| "applyStreamUpdate prev (PushBack v) = Inr (prev @ [v])"
| "applyStreamUpdate prev (InsertAt i v) = Inr (take i prev @ v # drop i prev)"
| "applyStreamUpdate prev (SetAt i v) = Inr (take i prev @ v # drop (i + 1) prev)"
| "applyStreamUpdate prev (RemoveAt i) = Inr (take i prev @ drop (i + 1) prev)"
| "applyStreamUpdate prev (Truncate n) = Inr (take n prev)"
| "applyStreamUpdate prev (Reset vs) = Inr vs"
| "applyStreamUpdate prev UnknownDiff = Inl UnknownUpdateType"

fun applyStreamUpdates :: "'a list \<Rightarrow> 'a VectorDiff list \<Rightarrow> stream_error + 'a list" where
  "applyStreamUpdates original [] = Inr original"
| "applyStreamUpdates original (u # us) =
     (case applyStreamUpdate original u of
        Inl e \<Rightarrow> Inl e
      | Inr prev \<Rightarrow> applyStreamUpdates prev us)"

fun mapStreamUpdate :: "'a VectorDiff \<Rightarrow> ('a \<Rightarrow> 'b) \<Rightarrow> stream_error + 'b VectorDiff" where
  "mapStreamUpdate Clear f = Inr Clear"
| "mapStreamUpdate PopFront f = Inr PopFront"
| "mapStreamUpdate PopBack f = Inr PopBack"
| "mapStreamUpdate (Append vs) f = Inr (Append (map f vs))"
| "mapStreamUpdate (PushFront v) f = Inr (PushFront (f v))"
| "mapStreamUpdate (PushBack v) f = Inr (PushBack (f v))"
| "mapStreamUpdate (InsertAt i v) f = Inr (InsertAt i (f v))"
| "mapStreamUpdate (SetAt i v) f = Inr (SetAt i (f v))"
| "mapStreamUpdate (RemoveAt i) f = Inr (RemoveAt i)"
| "mapStreamUpdate (Truncate n) f = Inr (Truncate n)"
| "mapStreamUpdate (Reset vs) f = Inr (Reset (map f vs))"
| "mapStreamUpdate UnknownDiff f = Inl UnknownUpdateType"

fun mapStreamUpdates :: "'a VectorDiff list \<Rightarrow> ('a \<Rightarrow> 'b) \<Rightarrow> stream_error + 'b VectorDiff list" where
  "mapStreamUpdates [] f = Inr []"
| "mapStreamUpdates (u # us) f =
     (case mapStreamUpdate u f of
        Inl e \<Rightarrow> Inl e
      | Inr u' \<Rightarrow>
          (case mapStreamUpdates us f of Inl e \<Rightarrow> Inl e | Inr us' \<Rightarrow> Inr (u' # us')))"

text \<open>
  \<^verbatim>\<open>getNewStreamIds\<close>: \<open>getId\<close> returns a string or a falsy value, so \<open>None\<close> and the empty
  string are both skipped (\<^verbatim>\<open>if (id) ids.add(id)\<close>). The result is a JavaScript set.
\<close>

definition add_id :: "('a \<Rightarrow> string option) \<Rightarrow> string list \<Rightarrow> 'a \<Rightarrow> string list" where
  "add_id getId ids v =
     (case getId v of
        None \<Rightarrow> ids
      | Some i \<Rightarrow> if i = [] then ids else js_set_add i ids)"

fun newIdsOf :: "('a \<Rightarrow> string option) \<Rightarrow> string list \<Rightarrow> 'a VectorDiff \<Rightarrow> string list" where
  "newIdsOf getId ids (InsertAt i v) = add_id getId ids v"
| "newIdsOf getId ids (PushFront v) = add_id getId ids v"
| "newIdsOf getId ids (PushBack v) = add_id getId ids v"
| "newIdsOf getId ids (SetAt i v) = add_id getId ids v"
| "newIdsOf getId ids (Append vs) = foldl (add_id getId) ids vs"
| "newIdsOf getId ids (Reset vs) = foldl (add_id getId) ids vs"
| "newIdsOf getId ids u = ids"

definition getNewStreamIds :: "'a VectorDiff list \<Rightarrow> ('a \<Rightarrow> string option) \<Rightarrow> string list" where
  "getNewStreamIds us getId = foldl (newIdsOf getId) [] us"

section \<open>The abstract vector\<close>

text \<open>
  The contract of an observable vector: each operation is defined on its valid positions
  only. \<open>vector_op\<close> is \<open>None\<close> where the producer would have panicked.
\<close>

fun insert_nth :: "nat \<Rightarrow> 'a \<Rightarrow> 'a list \<Rightarrow> 'a list option" where
  "insert_nth 0 v xs = Some (v # xs)"
| "insert_nth (Suc i) v [] = None"
| "insert_nth (Suc i) v (x # xs) = map_option (Cons x) (insert_nth i v xs)"

fun remove_nth :: "nat \<Rightarrow> 'a list \<Rightarrow> 'a list option" where
  "remove_nth i [] = None"
| "remove_nth 0 (x # xs) = Some xs"
| "remove_nth (Suc i) (x # xs) = map_option (Cons x) (remove_nth i xs)"

fun vector_op :: "'a list \<Rightarrow> 'a VectorDiff \<Rightarrow> 'a list option" where
  "vector_op xs (Append vs) = Some (xs @ vs)"
| "vector_op xs Clear = Some []"
| "vector_op xs (PushFront v) = Some (v # xs)"
| "vector_op xs (PushBack v) = Some (xs @ [v])"
| "vector_op xs PopFront = (case xs of [] \<Rightarrow> None | _ # ys \<Rightarrow> Some ys)"
| "vector_op xs PopBack = (if xs = [] then None else Some (butlast xs))"
| "vector_op xs (InsertAt i v) = insert_nth i v xs"
| "vector_op xs (SetAt i v) = (if i < length xs then Some (xs[i := v]) else None)"
| "vector_op xs (RemoveAt i) = remove_nth i xs"
| "vector_op xs (Truncate n) = Some (take n xs)"
| "vector_op xs (Reset vs) = Some vs"
| "vector_op xs UnknownDiff = None"

fun vector_ops :: "'a list \<Rightarrow> 'a VectorDiff list \<Rightarrow> 'a list option" where
  "vector_ops xs [] = Some xs"
| "vector_ops xs (u # us) = (case vector_op xs u of None \<Rightarrow> None | Some ys \<Rightarrow> vector_ops ys us)"

section \<open>Lemmas\<close>

lemma insert_nth_take_drop: "insert_nth i v xs = Some ys \<Longrightarrow> ys = take i xs @ v # drop i xs"
  by (induction i v xs arbitrary: ys rule: insert_nth.induct) auto

lemma remove_nth_take_drop: "remove_nth i xs = Some ys \<Longrightarrow> ys = take i xs @ drop (Suc i) xs"
  by (induction i xs arbitrary: ys rule: remove_nth.induct) auto

lemma vector_op_refined: "vector_op xs u = Some ys \<Longrightarrow> applyStreamUpdate xs u = Inr ys"
  by (cases u)
    (auto dest: insert_nth_take_drop remove_nth_take_drop
      simp: upd_conv_take_nth_drop butlast_conv_take split: list.splits if_splits)

lemma apply_map_one:
  "(case mapStreamUpdate u f of
      Inl e \<Rightarrow> Inl e | Inr u' \<Rightarrow> applyStreamUpdate (map f prev) u') =
   map_sum id (map f) (applyStreamUpdate prev u)"
  by (cases u) (auto simp: take_map drop_map)

lemma mapStreamUpdate_fails: "mapStreamUpdate u f = Inl e \<longleftrightarrow> applyStreamUpdate prev u = Inl e"
  by (cases u; cases e) auto

text \<open>The values a diff brings into the list.\<close>

fun delivered :: "'a VectorDiff \<Rightarrow> 'a set" where
  "delivered (Append vs) = set vs"
| "delivered (Reset vs) = set vs"
| "delivered (PushFront v) = {v}"
| "delivered (PushBack v) = {v}"
| "delivered (InsertAt i v) = {v}"
| "delivered (SetAt i v) = {v}"
| "delivered u = {}"

lemma applyStreamUpdate_items:
  "applyStreamUpdate prev u = Inr xs \<Longrightarrow> set xs \<subseteq> set prev \<union> delivered u"
  by (cases u) (auto dest: in_set_takeD in_set_dropD)

lemma applyStreamUpdates_items:
  "applyStreamUpdates prev us = Inr xs \<Longrightarrow> set xs \<subseteq> set prev \<union> (\<Union>u\<in>set us. delivered u)"
proof (induction us arbitrary: prev)
  case Nil
  then show ?case by simp
next
  case (Cons u us)
  then obtain p where p: "applyStreamUpdate prev u = Inr p" "applyStreamUpdates p us = Inr xs"
    by (auto split: sum.splits)
  from applyStreamUpdate_items [OF p(1)] Cons.IH [OF p(2)] show ?case by auto
qed

lemma set_add_id:
  "set (add_id getId ids v) = set ids \<union> {i. getId v = Some i \<and> i \<noteq> []}"
  by (auto simp: add_id_def split: option.splits)

lemma set_foldl_add_id:
  "set (foldl (add_id getId) ids vs) = set ids \<union> {i. \<exists>v\<in>set vs. getId v = Some i \<and> i \<noteq> []}"
  by (induction vs arbitrary: ids) (auto simp: set_add_id)

lemma set_newIdsOf:
  "set (newIdsOf getId ids u) = set ids \<union> {i. \<exists>v\<in>delivered u. getId v = Some i \<and> i \<noteq> []}"
  by (cases u) (auto simp: set_add_id set_foldl_add_id)

lemma set_foldl_newIdsOf:
  "set (foldl (newIdsOf getId) ids us) =
     set ids \<union> {i. \<exists>u\<in>set us. \<exists>v\<in>delivered u. getId v = Some i \<and> i \<noteq> []}"
  by (induction us arbitrary: ids) (auto simp: set_newIdsOf)

lemma distinct_foldl_add_id: "distinct ids \<Longrightarrow> distinct (foldl (add_id getId) ids vs)"
  by (induction vs arbitrary: ids) (auto simp: add_id_def distinct_js_set_add split: option.splits)

lemma distinct_newIdsOf: "distinct ids \<Longrightarrow> distinct (newIdsOf getId ids u)"
  by (cases u)
    (auto simp: add_id_def distinct_js_set_add distinct_foldl_add_id split: option.splits)

lemma distinct_foldl_newIdsOf: "distinct ids \<Longrightarrow> distinct (foldl (newIdsOf getId) ids us)"
  by (induction us arbitrary: ids) (auto simp: distinct_newIdsOf)

section \<open>Properties\<close>

text \<open>
  C1. On every sequence of diffs that is valid for the abstract vector, the TypeScript list
  ends in exactly the abstract vector: no diff throws and none is misapplied.
\<close>

theorem applyStreamUpdates_refines_vector:
  assumes "vector_ops xs us = Some ys"
  shows "applyStreamUpdates xs us = Inr ys"
  using assms
proof (induction us arbitrary: xs)
  case Nil
  then show ?case by simp
next
  case (Cons u us)
  then obtain zs where "vector_op xs u = Some zs" "vector_ops zs us = Some ys"
    by (auto split: option.splits)
  with Cons.IH show ?case by (simp add: vector_op_refined)
qed

theorem applyStreamUpdates_refines_vector_witness:
  "vector_ops [10, 20, 30 :: nat] [InsertAt 1 15, SetAt 0 11, RemoveAt 3, PopFront, PushBack 7]
     = Some [15, 20, 7] \<and>
   applyStreamUpdates [10, 20, 30 :: nat]
     [InsertAt 1 15, SetAt 0 11, RemoveAt 3, PopFront, PushBack 7] = Inr [15, 20, 7]"
proof -
  have h: "vector_ops [10, 20, 30 :: nat]
      [InsertAt 1 15, SetAt 0 11, RemoveAt 3, PopFront, PushBack 7] = Some [15, 20, 7]"
    by (simp add: numeral_eq_Suc)
  from h applyStreamUpdates_refines_vector [OF h] show ?thesis by simp
qed

text \<open>
  Mapping the diffs and then applying them is the same as applying them and mapping the
  list, error for error: the UI may convert bridge rows before or after the merge.
\<close>

theorem mapStreamUpdates_commutes:
  "(case mapStreamUpdates us f of
      Inl e \<Rightarrow> Inl e
    | Inr us' \<Rightarrow> applyStreamUpdates (map f prev) us') =
   map_sum id (map f) (applyStreamUpdates prev us)"
proof (induction us arbitrary: prev)
  case Nil
  show ?case by simp
next
  case (Cons u us)
  show ?case
  proof (cases "mapStreamUpdate u f")
    case (Inl e)
    then have "applyStreamUpdate prev u = Inl e"
      using mapStreamUpdate_fails [of u f e prev] by blast
    with Inl show ?thesis by simp
  next
    case (Inr u')
    obtain p where p: "applyStreamUpdate prev u = Inr p"
      using Inr mapStreamUpdate_fails [of u f _ prev] by (cases "applyStreamUpdate prev u") auto
    have "applyStreamUpdate (map f prev) u' = Inr (map f p)"
      using apply_map_one [where u = u and f = f and prev = prev] Inr p by simp
    with Inr p Cons.IH [of p] show ?thesis by (auto split: sum.splits)
  qed
qed

text \<open>
  \<^verbatim>\<open>getNewStreamIds\<close> misses nothing: every identifier that is in the list after the
  updates was there before them or is reported as new, and each new one is reported once.
\<close>

theorem getNewStreamIds_complete:
  assumes "applyStreamUpdates prev us = Inr xs"
    and "x \<in> set xs" and "getId x = Some i" and "i \<noteq> []"
  shows "((\<exists>y\<in>set prev. getId y = Some i) \<or> i \<in> set (getNewStreamIds us getId)) \<and>
    distinct (getNewStreamIds us getId)"
proof

  from applyStreamUpdates_items [OF assms(1)] assms(2)
  have "x \<in> set prev \<or> (\<exists>u\<in>set us. x \<in> delivered u)" by auto
  then show "(\<exists>y\<in>set prev. getId y = Some i) \<or> i \<in> set (getNewStreamIds us getId)"
    using assms(3,4) by (auto simp: getNewStreamIds_def set_foldl_newIdsOf)
  show "distinct (getNewStreamIds us getId)"
    by (simp add: getNewStreamIds_def distinct_foldl_newIdsOf)
qed

theorem getNewStreamIds_complete_witness:
  "applyStreamUpdates [''a''] [PushBack ''b'', PopFront] = Inr [''b''] \<and>
   ((\<exists>y\<in>set [''a'']. Some y = Some ''b'') \<or>
     ''b'' \<in> set (getNewStreamIds [PushBack ''b'', PopFront] Some))"
proof -
  have h: "applyStreamUpdates [''a''] [PushBack ''b'', PopFront] = Inr [''b'']" by simp
  from h getNewStreamIds_complete [OF h, of "''b''" Some "''b''"] show ?thesis by simp
qed

end
