(* ===== verification/Js_Value.thy ===== *)
theory Js_Value
  imports Js_Prelude "HOL-Library.Product_Lexorder"
begin

text \<open>
  Dynamic JavaScript values, for the code that handles JSON of unknown age: property access
  with the \<^verbatim>\<open>TypeError\<close> it raises on \<^verbatim>\<open>undefined\<close> and \<^verbatim>\<open>null\<close>, truthiness, \<^verbatim>\<open>Object.entries\<close>,
  string conversion, lodash's ordering of keys, and a small language of TypeScript types with
  an executable conformance check.

  A function that may throw returns an \<open>option\<close>, \<open>None\<close> being the exception. Numbers are
  integers (versions, counters, timestamps); \<open>JNaN\<close> is the not-a-number value.
\<close>

datatype jv =
    JUndef
  | JNull
  | JNaN
  | JBool bool
  | JNum int
  | JStr string
  | JArr "jv list"
  | JObj "(string \<times> jv) list"

type_synonym obj = "(string, jv) jsmap"

section \<open>Operations\<close>

fun truthy :: "jv \<Rightarrow> bool" where
  "truthy JUndef = False"
| "truthy JNull = False"
| "truthy JNaN = False"
| "truthy (JBool b) = b"
| "truthy (JNum i) = (i \<noteq> 0)"
| "truthy (JStr s) = (s \<noteq> [])"
| "truthy (JArr xs) = True"
| "truthy (JObj o') = True"

definition js_or :: "jv \<Rightarrow> jv \<Rightarrow> jv" where
  "js_or a b = (if truthy a then a else b)"

text \<open>Nullish coalescing \<^verbatim>\<open>a ?? b\<close>.\<close>

definition js_nullish :: "jv \<Rightarrow> jv \<Rightarrow> jv" where
  "js_nullish a b = (if a = JUndef \<or> a = JNull then b else a)"

definition obj_get :: "obj \<Rightarrow> string \<Rightarrow> jv" where
  "obj_get o' k = (case jm_get o' k of None \<Rightarrow> JUndef | Some v \<Rightarrow> v)"

definition index_entries :: "jv list \<Rightarrow> (string \<times> jv) list" where
  "index_entries xs = zip (map nat_str [0..<length xs]) xs"

text \<open>The own enumerable properties, as a spread \<^verbatim>\<open>...v\<close> copies them.\<close>

fun own_entries :: "jv \<Rightarrow> (string \<times> jv) list" where
  "own_entries (JObj o') = o'"
| "own_entries (JArr xs) = index_entries xs"
| "own_entries (JStr s) = index_entries (map (\<lambda>c. JStr [c]) s)"
| "own_entries v = []"

text \<open>\<^verbatim>\<open>v.k\<close> (throws on \<^verbatim>\<open>undefined\<close> and \<^verbatim>\<open>null\<close>) and \<^verbatim>\<open>v?.k\<close>.\<close>

fun js_prop :: "jv \<Rightarrow> string \<Rightarrow> jv option" where
  "js_prop JUndef k = None"
| "js_prop JNull k = None"
| "js_prop v k = Some (obj_get (own_entries v) k)"

definition opt_prop :: "jv \<Rightarrow> string \<Rightarrow> jv" where
  "opt_prop v k = (case js_prop v k of None \<Rightarrow> JUndef | Some r \<Rightarrow> r)"

text \<open>\<^verbatim>\<open>Object.entries\<close> and \<^verbatim>\<open>Object.keys\<close>.\<close>

definition js_entries :: "jv \<Rightarrow> (string \<times> jv) list option" where
  "js_entries v = (if v = JUndef \<or> v = JNull then None else Some (own_entries v))"

text \<open>Calling an array method on anything but an array is a \<^verbatim>\<open>TypeError\<close>.\<close>

fun as_array :: "jv \<Rightarrow> jv list option" where
  "as_array (JArr xs) = Some xs"
| "as_array v = None"

text \<open>What lodash iterates over when it is given a collection.\<close>

fun collection :: "jv \<Rightarrow> jv list" where
  "collection (JArr xs) = xs"
| "collection v = map snd (own_entries v)"

text \<open>\<^verbatim>\<open>===\<close> on primitive values.\<close>

definition js_seq :: "jv \<Rightarrow> jv \<Rightarrow> bool" where
  "js_seq a b = (a = b \<and> a \<noteq> JNaN)"

fun to_num :: "jv \<Rightarrow> int option" where
  "to_num (JNum i) = Some i"
| "to_num JNull = Some 0"
| "to_num (JBool b) = Some (if b then 1 else 0)"
| "to_num v = None"

definition js_gt :: "jv \<Rightarrow> jv \<Rightarrow> bool" where
  "js_gt a b = (case (to_num a, to_num b) of (Some x, Some y) \<Rightarrow> y < x | _ \<Rightarrow> False)"

definition js_min :: "jv \<Rightarrow> jv \<Rightarrow> jv" where
  "js_min a b = (case (to_num a, to_num b) of (Some x, Some y) \<Rightarrow> JNum (min x y) | _ \<Rightarrow> JNaN)"

text \<open>String conversion, as template literals and property keys apply it.\<close>

fun join_comma :: "string list \<Rightarrow> string" where
  "join_comma [] = []"
| "join_comma [s] = s"
| "join_comma (s # t # ss) = s @ '','' @ join_comma (t # ss)"

fun js_str :: "jv \<Rightarrow> string" where
  "js_str JUndef = ''undefined''"
| "js_str JNull = ''null''"
| "js_str JNaN = ''NaN''"
| "js_str (JBool b) = (if b then ''true'' else ''false'')"
| "js_str (JNum i) = int_str i"
| "js_str (JStr s) = s"
| "js_str (JArr xs) =
     join_comma (map (\<lambda>x. if x = JUndef \<or> x = JNull then [] else js_str x) xs)"
| "js_str (JObj o') = ''[object Object]''"

text \<open>
  lodash \<^verbatim>\<open>orderBy(xs, [key], ['desc'])\<close>: a stable sort in which, descending, not-a-number
  comes first, then \<^verbatim>\<open>undefined\<close>, then \<^verbatim>\<open>null\<close>, then the numbers from the largest down.
\<close>

fun desc_rank :: "jv \<Rightarrow> nat \<times> int" where
  "desc_rank JNaN = (0, 0)"
| "desc_rank JUndef = (1, 0)"
| "desc_rank JNull = (2, 0)"
| "desc_rank (JNum i) = (3, - i)"
| "desc_rank v = (3, 0)"

definition orderBy_jv :: "('a \<Rightarrow> jv) \<Rightarrow> 'a list \<Rightarrow> 'a list" where
  "orderBy_jv key xs = sort_key (\<lambda>x. desc_rank (key x)) xs"

text \<open>\<^verbatim>\<open>reduce\<close> with a callback that may throw.\<close>

fun reduceM :: "('a \<Rightarrow> 'b \<Rightarrow> 'a option) \<Rightarrow> 'a \<Rightarrow> 'b list \<Rightarrow> 'a option" where
  "reduceM f acc [] = Some acc"
| "reduceM f acc (x # xs) = do { acc' \<leftarrow> f acc x; reduceM f acc' xs }"

text \<open>\<^verbatim>\<open>map\<close>, \<^verbatim>\<open>filter\<close> and \<^verbatim>\<open>find\<close> with a callback that may throw.\<close>

fun mapM :: "('a \<Rightarrow> 'b option) \<Rightarrow> 'a list \<Rightarrow> 'b list option" where
  "mapM f [] = Some []"
| "mapM f (x # xs) = do { y \<leftarrow> f x; ys \<leftarrow> mapM f xs; Some (y # ys) }"

fun filterM :: "('a \<Rightarrow> bool option) \<Rightarrow> 'a list \<Rightarrow> 'a list option" where
  "filterM p [] = Some []"
| "filterM p (x # xs) = do { b \<leftarrow> p x; ys \<leftarrow> filterM p xs; Some (if b then x # ys else ys) }"

fun findM :: "(jv \<Rightarrow> bool option) \<Rightarrow> jv list \<Rightarrow> jv option" where
  "findM p [] = Some JUndef"
| "findM p (x # xs) = do { b \<leftarrow> p x; if b then Some x else findM p xs }"

section \<open>Types\<close>

text \<open>
  The TypeScript types the stored-state interfaces use. \<open>TMsg\<close> is a legacy chat message that
  is addressed, to a group or from one member to another; \<open>TAny\<close> is a type the modelled code
  only copies.
\<close>

datatype jty =
    TAny | TUndef | TNull | TBool | TNum | TStr | TMsg
  | TLit string
  | TArr jty
  | TRec jty
  | TFields "(string \<times> jty) list"
  | TUnion jty jty

fun is_num :: "jv \<Rightarrow> bool" where
  "is_num (JNum _) = True"
| "is_num _ = False"

fun is_str :: "jv \<Rightarrow> bool" where
  "is_str (JStr _) = True"
| "is_str _ = False"

definition addressed :: "jv \<Rightarrow> bool" where
  "addressed m = (truthy (opt_prop m ''sentIn'') \<or>
     (truthy (opt_prop m ''sentTo'') \<and> truthy (opt_prop m ''sentBy'')))"

definition payment_ok :: "jv \<Rightarrow> bool" where
  "payment_ok p = (case p of
     JUndef \<Rightarrow> True
   | JObj o' \<Rightarrow> obj_get o' ''updatedAt'' = JUndef \<or> is_num (obj_get o' ''updatedAt'')
   | _ \<Rightarrow> False)"

definition is_message :: "jv \<Rightarrow> bool" where
  "is_message m = (case m of
     JObj o' \<Rightarrow> is_str (obj_get o' ''id'') \<and> is_num (obj_get o' ''sentAt'') \<and>
       addressed m \<and> payment_ok (obj_get o' ''payment'')
   | _ \<Rightarrow> False)"

fun has_ty :: "jty \<Rightarrow> jv \<Rightarrow> bool" where
  "has_ty TAny v = True"
| "has_ty TUndef v = (v = JUndef)"
| "has_ty TNull v = (v = JNull)"
| "has_ty TBool v = (case v of JBool _ \<Rightarrow> True | _ \<Rightarrow> False)"
| "has_ty TNum v = is_num v"
| "has_ty TStr v = is_str v"
| "has_ty TMsg v = is_message v"
| "has_ty (TLit s) v = (v = JStr s)"
| "has_ty (TArr t) v = (case v of JArr xs \<Rightarrow> list_all (has_ty t) xs | _ \<Rightarrow> False)"
| "has_ty (TRec t) v = (case v of JObj o' \<Rightarrow> list_all (\<lambda>p. has_ty t (snd p)) o' | _ \<Rightarrow> False)"
| "has_ty (TFields fs) v =
     (case v of JObj o' \<Rightarrow> list_all (\<lambda>(k, t). has_ty t (obj_get o' k)) fs | _ \<Rightarrow> False)"
| "has_ty (TUnion s t) v = (has_ty s v \<or> has_ty t v)"

definition fields_ok :: "(string \<times> jty) list \<Rightarrow> obj \<Rightarrow> bool" where
  "fields_ok fs o' = list_all (\<lambda>(k, t). has_ty t (obj_get o' k)) fs"

section \<open>Lemmas\<close>

lemma payment_ok_iff:
  "payment_ok p \<longleftrightarrow> p = JUndef \<or>
     (\<exists>o'. p = JObj o' \<and> (obj_get o' ''updatedAt'' = JUndef \<or> is_num (obj_get o' ''updatedAt'')))"
  by (cases p) (auto simp: payment_ok_def)

lemma obj_get_set [simp, js_simps]: "obj_get (jm_set k v o') k' = (if k' = k then v else obj_get o' k')"
  by (simp add: obj_get_def)

lemma obj_get_spread [js_simps]:
  "obj_get (jm_spread o' kvs) k = (case map_of (rev kvs) k of Some v \<Rightarrow> v | None \<Rightarrow> obj_get o' k)"
  by (auto simp: obj_get_def jm_get_spread split: option.splits)

lemma obj_get_omit [js_simps]:
  "obj_get (jm_omit ks o') k = (if k \<in> set ks then JUndef else obj_get o' k)"
  by (auto simp: obj_get_def jm_get_omit)

lemma obj_get_Nil [simp]: "obj_get [] k = JUndef"
  by (simp add: obj_get_def)

lemma obj_get_Cons: "obj_get ((k, v) # o') k' = (if k' = k then v else obj_get o' k')"
  by (simp add: obj_get_def jm_get_Cons)

lemma js_prop_JObj [simp]: "js_prop (JObj o') k = Some (obj_get o' k)"
  by simp

lemma opt_prop_JObj [simp]: "opt_prop (JObj o') k = obj_get o' k"
  by (simp add: opt_prop_def)

lemma set_orderBy_jv [simp]: "set (orderBy_jv key xs) = set xs"
  by (simp add: orderBy_jv_def)

lemma mset_orderBy_jv [simp]: "mset (orderBy_jv key xs) = mset xs"
  by (simp add: orderBy_jv_def)

lemma distinct_map_orderBy_jv [simp]:
  "distinct (map f (orderBy_jv key xs)) = distinct (map f xs)"
proof -
  have "mset (map f (orderBy_jv key xs)) = mset (map f xs)" by simp
  then show ?thesis by (metis mset_eq_imp_distinct_iff)
qed

lemma sorted_orderBy_jv: "sorted (map (\<lambda>x. desc_rank (key x)) (orderBy_jv key xs))"
  by (simp add: orderBy_jv_def)

declare has_ty.simps(9-11) [simp del]

lemma TArr_JArr [simp]: "has_ty (TArr t) (JArr xs) = list_all (has_ty t) xs"
  by (simp add: has_ty.simps)

lemma TRec_JObj [simp]: "has_ty (TRec t) (JObj o') = list_all (\<lambda>p. has_ty t (snd p)) o'"
  by (simp add: has_ty.simps)

lemma TFields_JObj [simp]: "has_ty (TFields fs) (JObj o') = fields_ok fs o'"
  by (simp add: has_ty.simps fields_ok_def)

lemma has_ty_TFieldsE:
  assumes "has_ty (TFields fs) v"
  obtains o' where "v = JObj o'" "fields_ok fs o'"
  using assms by (cases v) (auto simp: has_ty.simps fields_ok_def)

lemma has_ty_TRecE:
  assumes "has_ty (TRec t) v"
  obtains o' where "v = JObj o'" "\<And>k x. (k, x) \<in> set o' \<Longrightarrow> has_ty t x"
  using assms by (cases v) (force simp: has_ty.simps list_all_iff)+

lemma has_ty_TArrE:
  assumes "has_ty (TArr t) v"
  obtains xs where "v = JArr xs" "\<And>x. x \<in> set xs \<Longrightarrow> has_ty t x"
  using assms by (cases v) (auto simp: has_ty.simps list_all_iff)

lemma has_ty_TRec_set:
  "has_ty (TRec t) (JObj o') \<Longrightarrow> has_ty t v \<Longrightarrow> has_ty (TRec t) (JObj (jm_set k v o'))"
  by (auto simp: list_all_iff dest!: jm_set_mem)

lemma fields_ok_get: "fields_ok fs o' \<Longrightarrow> (k, t) \<in> set fs \<Longrightarrow> has_ty t (obj_get o' k)"
  by (auto simp: fields_ok_def list_all_iff)

lemma fields_ok_append [simp]: "fields_ok (fs @ gs) o' \<longleftrightarrow> fields_ok fs o' \<and> fields_ok gs o'"
  by (simp add: fields_ok_def)

lemma fields_ok_Nil [simp]: "fields_ok [] o'"
  by (simp add: fields_ok_def)

lemma fields_ok_Cons [simp]: "fields_ok ((k, t) # fs) o' \<longleftrightarrow> has_ty t (obj_get o' k) \<and> fields_ok fs o'"
  by (simp add: fields_ok_def)

lemma fields_ok_cong:
  "fields_ok fs o' \<Longrightarrow> (\<And>k. k \<in> fst ` set fs \<Longrightarrow> obj_get o'' k = obj_get o' k) \<Longrightarrow> fields_ok fs o''"
  by (auto simp: fields_ok_def list_all_iff rev_image_eqI)

lemma reduceM_inv:
  assumes "P acc" and "\<And>a x. P a \<Longrightarrow> x \<in> set xs \<Longrightarrow> \<exists>a'. f a x = Some a' \<and> P a'"
  shows "\<exists>r. reduceM f acc xs = Some r \<and> P r"
  using assms
proof (induction xs arbitrary: acc)
  case Nil
  then show ?case by simp
next
  case (Cons x xs)
  then obtain a' where a': "f acc x = Some a'" "P a'" by (metis list.set_intros(1))
  with Cons.IH [of a'] Cons.prems(2) obtain r where "reduceM f a' xs = Some r" "P r"
    by (metis list.set_intros(2))
  with a' show ?case by simp
qed

lemma mapM_all:
  assumes "\<And>x. x \<in> set xs \<Longrightarrow> \<exists>y. f x = Some y \<and> Q y"
  shows "\<exists>ys. mapM f xs = Some ys \<and> list_all Q ys"
  using assms
proof (induction xs)
  case Nil
  then show ?case by simp
next
  case (Cons x xs)
  then obtain y ys where "f x = Some y" "Q y" "mapM f xs = Some ys" "list_all Q ys"
    by (metis list.set_intros)
  then show ?case by simp
qed

lemma filterM_total:
  "(\<And>x. x \<in> set xs \<Longrightarrow> p x = Some (q x)) \<Longrightarrow> filterM p xs = Some (filter q xs)"
  by (induction xs) auto

lemma findM_total:
  assumes "\<And>x. x \<in> set xs \<Longrightarrow> p x = Some (q x)"
  shows "findM p xs = Some (case find q xs of None \<Rightarrow> JUndef | Some x \<Rightarrow> x)"
  using assms by (induction xs) auto

end
