(* ===== verification/Legacy_Chat.thy ===== *)
theory Legacy_Chat
  imports Js_Value
begin

text \<open>
  \<^verbatim>\<open>ui/common/utils/chat.ts\<close>, the part the storage migrations use: which chat a legacy message
  belongs to, the latest message or payment update of a list, and the per-chat indices of both.
  The functions work on stored JSON, so a malformed message makes them throw (\<open>None\<close>).
\<close>

datatype ChatType = chat_direct | chat_group

definition getChatInfoFromMessage :: "jv \<Rightarrow> jv \<Rightarrow> (jv \<times> ChatType) option" where
  "getChatInfoFromMessage message myId = do {
     sentTo \<leftarrow> js_prop message ''sentTo'';
     sentIn \<leftarrow> js_prop message ''sentIn'';
     sentBy \<leftarrow> js_prop message ''sentBy'';
     if truthy sentIn then Some (sentIn, chat_group)
     else if truthy sentTo \<and> truthy sentBy
     then Some (if js_seq sentBy myId then sentTo else sentBy, chat_direct)
     else None }"

definition sent_at :: "jv \<Rightarrow> jv option" where
  "sent_at m = do { t \<leftarrow> js_prop m ''sentAt''; Some (js_or t (JNum 0)) }"

definition getLatestMessage :: "jv \<Rightarrow> jv option" where
  "getLatestMessage messages = do {
     xs \<leftarrow> as_array messages;
     r \<leftarrow> reduceM (\<lambda>prev msg. do {
            p \<leftarrow> sent_at prev;
            q \<leftarrow> sent_at msg;
            Some (if js_gt p q then prev else msg) })
          (case xs of [] \<Rightarrow> JUndef | x # _ \<Rightarrow> x) xs;
     Some (js_or r JNull) }"

text \<open>\<^verbatim>\<open>m.payment?.updatedAt || 0\<close>\<close>

definition payment_updated_at :: "jv \<Rightarrow> jv option" where
  "payment_updated_at m = do {
     p \<leftarrow> js_prop m ''payment'';
     Some (js_or (opt_prop p ''updatedAt'') (JNum 0)) }"

definition has_payment :: "jv \<Rightarrow> bool option" where
  "has_payment m = do { p \<leftarrow> js_prop m ''payment''; Some (truthy p) }"

definition getLatestPaymentUpdate :: "jv \<Rightarrow> jv option" where
  "getLatestPaymentUpdate messages = do {
     xs \<leftarrow> as_array messages;
     ps \<leftarrow> filterM has_payment xs;
     r \<leftarrow> reduceM (\<lambda>prev msg. do {
            p \<leftarrow> payment_updated_at prev;
            q \<leftarrow> payment_updated_at msg;
            Some (if js_gt p q then prev else msg) })
          (case ps of [] \<Rightarrow> JUndef | x # _ \<Rightarrow> x) ps;
     Some (js_or r JNull) }"

text \<open>The first message of each chat, in the order given, under a key derived from it.\<close>

definition index_chat :: "(jv \<Rightarrow> jv option) \<Rightarrow> jv \<Rightarrow> obj \<Rightarrow> jv \<Rightarrow> obj option" where
  "index_chat value myId readMsgIds msg = do {
     (cid, _) \<leftarrow> getChatInfoFromMessage msg myId;
     if \<not> truthy (obj_get readMsgIds (js_str cid))
     then do { v \<leftarrow> value msg; Some (jm_set (js_str cid) v readMsgIds) }
     else Some readMsgIds }"

definition getLatestMessageIdsForChats :: "jv \<Rightarrow> jv \<Rightarrow> obj option" where
  "getLatestMessageIdsForChats messages myId =
     reduceM (index_chat (\<lambda>m. js_prop m ''id'') myId) []
       (orderBy_jv (\<lambda>m. opt_prop m ''sentAt'') (collection messages))"

text \<open>The identifier of a payment update: the message's identifier and the update time.\<close>

definition payment_update_id :: "jv \<Rightarrow> jv option" where
  "payment_update_id m = do {
     i \<leftarrow> js_prop m ''id'';
     u \<leftarrow> payment_updated_at m;
     Some (JStr (js_str i @ ''_'' @ js_str u)) }"

definition getLatestPaymentUpdateIdsForChats :: "jv \<Rightarrow> jv \<Rightarrow> obj option" where
  "getLatestPaymentUpdateIdsForChats messages myId = do {
     xs \<leftarrow> as_array messages;
     ps \<leftarrow> filterM has_payment xs;
     reduceM (index_chat payment_update_id myId) []
       (orderBy_jv (\<lambda>m. opt_prop (opt_prop m ''payment'') ''updatedAt'') ps) }"

section \<open>Lemmas on well-formed messages\<close>

lemma is_messageE:
  assumes "is_message m"
  obtains o' where "m = JObj o'" "is_str (obj_get o' ''id'')" "is_num (obj_get o' ''sentAt'')"
    "addressed m" "payment_ok (obj_get o' ''payment'')"
  using assms by (cases m) (auto simp: is_message_def)

lemma getChatInfo_total: "is_message m \<Longrightarrow> \<exists>cid ty. getChatInfoFromMessage m myId = Some (cid, ty)"
  by (erule is_messageE) (auto simp: getChatInfoFromMessage_def addressed_def)

lemma index_chat_total:
  assumes "is_message m" and "value m = Some v"
    and "list_all (\<lambda>p. is_str (snd p)) r" and "is_str v"
  shows "\<exists>r'. index_chat value myId r m = Some r' \<and> list_all (\<lambda>p. is_str (snd p)) r'"
proof -
  obtain cid ty where "getChatInfoFromMessage m myId = Some (cid, ty)"
    using getChatInfo_total [OF assms(1)] by blast
  with assms(2-4) show ?thesis
    by (auto simp: index_chat_def list_all_iff dest!: jm_set_mem)
qed

lemma message_id: "is_message m \<Longrightarrow> \<exists>s. js_prop m ''id'' = Some (JStr s)"
  by (erule is_messageE) (auto elim: is_str.elims)

lemma message_sent_at: "is_message m \<Longrightarrow> \<exists>i. sent_at m = Some (JNum i)"
  by (erule is_messageE) (auto simp: sent_at_def js_or_def elim!: is_num.elims)

lemma message_updated_at: "is_message m \<Longrightarrow> \<exists>i. payment_updated_at m = Some (JNum i)"
proof (erule is_messageE)
  fix o'
  assume "m = JObj o'" "payment_ok (obj_get o' ''payment'')"
  then show "\<exists>i. payment_updated_at m = Some (JNum i)"
    by (auto simp: payment_ok_iff payment_updated_at_def js_or_def opt_prop_def elim!: is_num.elims)
qed

lemma message_has_payment: "is_message m \<Longrightarrow> has_payment m = Some (truthy (opt_prop m ''payment''))"
  by (erule is_messageE) (simp add: has_payment_def)

lemma message_truthy: "is_message m \<Longrightarrow> truthy m"
  by (erule is_messageE) simp

lemma getLatestMessageIds_total:
  assumes "\<And>m. m \<in> set xs \<Longrightarrow> is_message m"
  shows "\<exists>r. getLatestMessageIdsForChats (JArr xs) myId = Some r \<and> has_ty (TRec TStr) (JObj r)"
proof -
  have "\<exists>r. reduceM (index_chat (\<lambda>m. js_prop m ''id'') myId) []
      (orderBy_jv (\<lambda>m. opt_prop m ''sentAt'') xs) = Some r \<and> list_all (\<lambda>p. is_str (snd p)) r"
  proof (rule reduceM_inv)
    show "list_all (\<lambda>p. is_str (snd p)) ([] :: obj)" by simp
  next
    fix a :: obj and x
    assume a: "list_all (\<lambda>p. is_str (snd p)) a"
      and "x \<in> set (orderBy_jv (\<lambda>m. opt_prop m ''sentAt'') xs)"
    then have "is_message x" using assms by simp
    with a show "\<exists>a'. index_chat (\<lambda>m. js_prop m ''id'') myId a x = Some a' \<and>
        list_all (\<lambda>p. is_str (snd p)) a'"
      using message_id [OF \<open>is_message x\<close>] by (auto intro: index_chat_total)
  qed
  then show ?thesis by (simp add: getLatestMessageIdsForChats_def)
qed

lemma reduce_latest_total:
  assumes "\<And>m. m \<in> set xs \<Longrightarrow> is_message m"
    and "\<And>m. is_message m \<Longrightarrow> \<exists>i. time m = Some (JNum i)"
  shows "\<exists>r. reduceM (\<lambda>prev msg. do { p \<leftarrow> time prev; q \<leftarrow> time msg;
             Some (if js_gt p q then prev else msg) })
           (case xs of [] \<Rightarrow> JUndef | x # _ \<Rightarrow> x) xs = Some r \<and>
         (if xs = [] then r = JUndef else is_message r)"
proof (cases xs)
  case Nil
  then show ?thesis by simp
next
  case (Cons y ys)
  have "\<exists>r. reduceM (\<lambda>prev msg. do { p \<leftarrow> time prev; q \<leftarrow> time msg;
             Some (if js_gt p q then prev else msg) }) y xs = Some r \<and> is_message r"
  proof (rule reduceM_inv)
    show "is_message y" using assms(1) Cons by simp
  next
    fix a x
    assume "is_message a" "x \<in> set xs"
    then have "is_message a" "is_message x" using assms(1) by auto
    then show "\<exists>a'. (do { p \<leftarrow> time a; q \<leftarrow> time x; Some (if js_gt p q then a else x) }) = Some a' \<and>
        is_message a'"
      using assms(2) [of a] assms(2) [of x] by auto
  qed
  with Cons show ?thesis by simp
qed

lemma getLatestMessage_total:
  assumes "\<And>m. m \<in> set xs \<Longrightarrow> is_message m"
  shows "\<exists>r. getLatestMessage (JArr xs) = Some r \<and> (r = JNull \<or> is_message r)"
proof -
  obtain r where "reduceM (\<lambda>prev msg. do { p \<leftarrow> sent_at prev; q \<leftarrow> sent_at msg;
        Some (if js_gt p q then prev else msg) }) (case xs of [] \<Rightarrow> JUndef | x # _ \<Rightarrow> x) xs = Some r"
    and "if xs = [] then r = JUndef else is_message r"
    using reduce_latest_total [of xs sent_at] assms message_sent_at by blast
  then show ?thesis
    by (cases "xs = []") (simp_all add: getLatestMessage_def js_or_def message_truthy)
qed

lemma filter_messages:
  assumes "\<And>m. m \<in> set xs \<Longrightarrow> is_message m"
  shows "filterM has_payment xs = Some (filter (\<lambda>m. truthy (opt_prop m ''payment'')) xs)"
  by (rule filterM_total) (simp add: assms message_has_payment)

lemma getLatestPaymentUpdate_total:
  assumes "\<And>m. m \<in> set xs \<Longrightarrow> is_message m"
  shows "\<exists>r. getLatestPaymentUpdate (JArr xs) = Some r \<and> (r = JNull \<or> is_message r)"
proof -
  let ?ps = "filter (\<lambda>m. truthy (opt_prop m ''payment'')) xs"
  have "m \<in> set ?ps \<Longrightarrow> is_message m" for m using assms by simp
  then obtain r where "reduceM (\<lambda>prev msg. do { p \<leftarrow> payment_updated_at prev; q \<leftarrow> payment_updated_at msg;
        Some (if js_gt p q then prev else msg) }) (case ?ps of [] \<Rightarrow> JUndef | x # _ \<Rightarrow> x) ?ps = Some r"
    and "if ?ps = [] then r = JUndef else is_message r"
    using reduce_latest_total [of ?ps payment_updated_at] message_updated_at by blast
  then show ?thesis
    by (cases "?ps = []")
      (simp_all add: getLatestPaymentUpdate_def filter_messages [OF assms] js_or_def message_truthy
        del: filter_empty_conv)
qed

lemma payment_update_id_total: "is_message m \<Longrightarrow> \<exists>s. payment_update_id m = Some (JStr s)"
  using message_id [of m] message_updated_at [of m] by (auto simp: payment_update_id_def)

lemma getLatestPaymentUpdateIds_total:
  assumes "\<And>m. m \<in> set xs \<Longrightarrow> is_message m"
  shows "\<exists>r. getLatestPaymentUpdateIdsForChats (JArr xs) myId = Some r \<and> has_ty (TRec TStr) (JObj r)"
proof -
  let ?key = "\<lambda>m. opt_prop (opt_prop m ''payment'') ''updatedAt''"
  let ?ps = "filter (\<lambda>m. truthy (opt_prop m ''payment'')) xs"
  have "\<exists>r. reduceM (index_chat payment_update_id myId) [] (orderBy_jv ?key ?ps) = Some r \<and>
      list_all (\<lambda>p. is_str (snd p)) r"
  proof (rule reduceM_inv)
    show "list_all (\<lambda>p. is_str (snd p)) ([] :: obj)" by simp
  next
    fix a :: obj and x
    assume a: "list_all (\<lambda>p. is_str (snd p)) a" and "x \<in> set (orderBy_jv ?key ?ps)"
    then have "is_message x" using assms by simp
    with a show "\<exists>a'. index_chat payment_update_id myId a x = Some a' \<and>
        list_all (\<lambda>p. is_str (snd p)) a'"
      using payment_update_id_total [OF \<open>is_message x\<close>] by (auto intro: index_chat_total)
  qed
  then show ?thesis by (simp add: getLatestPaymentUpdateIdsForChats_def filter_messages [OF assms])
qed

end
