(* ===== verification/Stored_State.thy ===== *)
theory Stored_State
  imports Legacy_Chat
begin

text \<open>
  \<^verbatim>\<open>ui/common/types/storage.ts\<close>: the fifty versions of the state the app persists. Each
  interface extends the previous one by omitting some fields and declaring others; the theory
  keeps exactly that shape, so the required fields of version \<open>k\<close> are computed by folding the
  first \<open>k + 1\<close> interfaces. An optional field (\<^verbatim>\<open>field?: T\<close>) is listed only where the migrations
  write it (\<^verbatim>\<open>showFiatTxnAmounts\<close>, of type \<open>TOrUndef TBool\<close>).
\<close>

section \<open>Field types\<close>

abbreviation "TOpt t \<equiv> TUnion t TNull"
abbreviation "TOrUndef t \<equiv> TUnion t TUndef"

definition ChatMember_ty :: jty where
  "ChatMember_ty = TFields [(''id'', TStr)]"

definition ChatGroup_ty :: jty where
  "ChatGroup_ty = TFields [(''id'', TStr)]"

definition chat_base :: "(string \<times> jty) list" where
  "chat_base =
     [(''authenticatedMember'', TOpt ChatMember_ty),
      (''messages'', TArr TMsg),
      (''groups'', TArr ChatGroup_ty)]"

definition chat_V2 :: jty where
  "chat_V2 = TRec (TOrUndef (TFields chat_base))"

definition chat_V3_fields :: "(string \<times> jty) list" where
  "chat_V3_fields = chat_base @
     [(''lastReadMessageIds'', TRec (TOrUndef TStr)),
      (''lastSeenMessageId'', TOpt TStr)]"

definition chat_V3 :: jty where
  "chat_V3 = TRec (TOrUndef (TFields chat_V3_fields))"

definition chat_V4_fields :: "(string \<times> jty) list" where
  "chat_V4_fields = chat_V3_fields @ [(''groupAffiliations'', TRec (TOrUndef TStr))]"

definition chat_V4 :: jty where
  "chat_V4 = TRec (TOrUndef (TFields chat_V4_fields))"

definition chat_V10_fields :: "(string \<times> jty) list" where
  "chat_V10_fields = chat_V4_fields @
     [(''lastReadPaymentUpdateIds'', TRec (TOrUndef TStr)),
      (''lastSeenPaymentUpdateId'', TOpt TStr)]"

definition chat_V10 :: jty where
  "chat_V10 = TRec (TOrUndef (TFields chat_V10_fields))"

definition chat_V14 :: jty where
  "chat_V14 = TRec (TOrUndef (TFields (chat_base @
     [(''groupAffiliations'', TRec (TOrUndef TStr)),
      (''lastReadMessageTimestamps'', TRec (TOrUndef TNum)),
      (''lastSeenMessageTimestamp'', TOpt TNum)])))"

definition support_ty :: jty where
  "support_ty = TFields
     [(''supportPermissionGranted'', TBool), (''zendeskPushNotificationToken'', TOpt TStr)]"

definition features_ty :: "string list \<Rightarrow> jty" where
  "features_ty ks = TFields (map (\<lambda>k. (k, TBool)) ks)"

definition reminder_ty :: jty where
  "reminder_ty = TFields
     [(''countdownStartedAt'', TOpt TNum), (''hasReachedThresholds'', TBool)]"

definition display_ty :: jty where
  "display_ty = TUnion (TLit ''sats'') (TLit ''fiat'')"

text \<open>\<^verbatim>\<open>HomeNavigationTab\<close> of \<^verbatim>\<open>types/linking.ts\<close>.\<close>

definition tab_ty :: jty where
  "tab_ty = TUnion (TUnion (TLit ''home'') (TLit ''chat'')) (TUnion (TLit ''miniapps'') (TLit ''wallets''))"

section \<open>The interfaces\<close>

text \<open>
  One entry per version: the omitted fields and the declared ones. \<^verbatim>\<open>version\<close> is omitted and
  redeclared by every interface and is tracked apart. Versions 12 and 24 inherit
  \<^verbatim>\<open>chat\<close> and \<^verbatim>\<open>nuxSteps\<close> unchanged; the fields are repeated there because the migrations to
  those versions rewrite them.
\<close>

type_synonym interface = "string list \<times> (string \<times> jty) list"

definition StoredStateV0_V9 :: "interface list" where
  "StoredStateV0_V9 =
    [([], []),
     ([], [(''language'', TOpt TStr), (''currency'', TOpt TAny), (''activeFederationId'', TOpt TStr),
           (''authenticatedGuardian'', TOpt TAny),
           (''chatIdentities'', TRec (TOrUndef ChatMember_ty))]),
     ([''chatIdentities''], [(''chat'', chat_V2)]),
     ([''chat''], [(''chat'', chat_V3)]),
     ([''chat''], [(''chat'', chat_V4)]),
     ([], [(''externalMeta'', TRec TAny)]),
     ([], [(''btcExchangeRates'', TRec TNum)]),
     ([], [(''onchainDepositsEnabled'', TBool), (''developerMode'', TBool)]),
     ([''btcExchangeRates''], [(''btcUsdRate'', TNum), (''fiatUsdRates'', TRec (TOrUndef TNum))]),
     ([], [(''stableBalanceEnabled'', TBool)])]"

definition StoredStateV10_V20 :: "interface list" where
  "StoredStateV10_V20 =
    [([], [(''chat'', chat_V10)]),
     ([], [(''nuxSteps'', TRec (TOrUndef TBool))]),
     ([], [(''chat'', chat_V10)]),
     ([], [(''showFiatTxnAmounts'', TOrUndef TBool)]),
     ([''chat''], [(''chat'', chat_V14)]),
     ([], [(''matrixAuth'', TOpt (TFields [(''userId'', TStr), (''deviceId'', TStr)]))]),
     ([], [(''deviceId'', TOrUndef TStr)]),
     ([], [(''protectedFeatures'', features_ty [''app'', ''changePin''])]),
     ([], [(''customGlobalMods'', TRec TAny), (''customGlobalModVisibility'', TRec TAny),
           (''suggestedGlobalModVisibility'', TRec TAny)]),
     ([''customGlobalModVisibility'', ''suggestedGlobalModVisibility''],
        [(''modVisibility'', TRec TAny)]),
     ([], [(''protectedFeatures'', features_ty [''app'', ''changePin'', ''nostrSettings''])])]"

definition StoredStateV21_V33 :: "interface list" where
  "StoredStateV21_V33 =
    [([''chat''], []),
     ([], [(''support'', support_ty)]),
     ([], [(''customFederationCurrencies'', TRec TAny)]),
     ([], [(''nuxSteps'', TRec (TOrUndef TBool))]),
     ([], [(''chatDrafts'', TRec TStr)]),
     ([], [(''seenFederationRatings'', TArr TStr)]),
     ([], [(''lastShownSurveyTimestamp'', TOpt TNum)]),
     ([''activeFederationId''],
        [(''lastUsedFederationId'', TOpt TStr), (''lastSelectedCommunityId'', TOpt TStr)]),
     ([''externalMeta''], []),
     ([], [(''previouslyAutojoinedCommunities'', TRec TNum)]),
     ([], [(''autojoinNoticesToDisplay'', TArr TStr)]),
     ([''lastUsedFederationId''], [(''recentlyUsedFederationIds'', TArr TStr)]),
     ([], [(''analyticsId'', TOpt TStr), (''hasConsentedToAnalytics'', TOpt TBool),
           (''sessionCount'', TNum)])]"

definition StoredStateV34_V49 :: "interface list" where
  "StoredStateV34_V49 =
    [([], [(''hasSeenAnalyticsConsentModal'', TBool)]),
     ([], [(''showFiatTotalBalance'', TBool)]),
     ([], [(''surveyCompletions'', TRec (TOrUndef
             (TFields [(''isCompleted'', TBool), (''timesDismissed'', TNum)]))),
           (''lastShownSurveyTimestamp'', TNum)]),
     ([''showFiatTxnAmounts''], [(''transactionDisplayType'', display_ty)]),
     ([], [(''newMods'', TArr TStr)]),
     ([], [(''miniAppPermissions'', TRec TAny)]),
     ([], [(''miniAppOrder'', TArr TStr)]),
     ([''showFiatTotalBalance''], [(''balanceDisplay'', TUnion display_ty (TLit ''hidden''))]),
     ([], [(''lastUsedTab'', tab_ty)]),
     ([], [(''rejectedRoomInvites'', TArr TStr)]),
     ([], [(''paymentType'', TUnion (TLit ''bitcoin'') (TLit ''stable-balance'')),
           (''selectedFederationId'', TOpt TStr)]),
     ([], [(''seenRoomInvites'', TArr TStr)]),
     ([], [(''latestAwareReleaseTag'', TOpt TStr)]),
     ([], [(''seenKnockRequests'', TRec (TArr TStr))]),
     ([], [(''protectedFeatures'',
             features_ty [''app'', ''changePin'', ''nostrSettings'', ''personalBackup''])]),
     ([], [(''personalBackupReminder'', reminder_ty)])]"

definition StoredStateVersions :: "interface list" where
  "StoredStateVersions =
     StoredStateV0_V9 @ StoredStateV10_V20 @ StoredStateV21_V33 @ StoredStateV34_V49"

definition extend_interface :: "(string \<times> jty) list \<Rightarrow> interface \<Rightarrow> (string \<times> jty) list" where
  "extend_interface fs i =
     filter (\<lambda>(k, t). k \<notin> set (fst i) \<and> k \<notin> fst ` set (snd i)) fs @ snd i"

fun schema :: "nat \<Rightarrow> (string \<times> jty) list" where
  "schema 0 = snd (StoredStateVersions ! 0)"
| "schema (Suc k) = extend_interface (schema k) (StoredStateVersions ! Suc k)"

definition latest_version :: nat where
  "latest_version = 49"

text \<open>A value of the interface \<open>StoredStateV\<close>\<open>k\<close>.\<close>

definition stored_ok :: "nat \<Rightarrow> obj \<Rightarrow> bool" where
  "stored_ok k m = (obj_get m ''version'' = JNum (int k) \<and> fields_ok (schema k) m)"

section \<open>Lemmas\<close>

lemma fields_ok_interface:
  assumes "fields_ok fs m"
    and "fields_ok (snd i) m'"
    and "\<And>k. k \<notin> set (fst i) \<Longrightarrow> k \<notin> fst ` set (snd i) \<Longrightarrow> k \<in> fst ` set fs \<Longrightarrow>
          obj_get m' k = obj_get m k"
  shows "fields_ok (extend_interface fs i) m'"
  using assms by (force simp: extend_interface_def fields_ok_def list_all_iff)

text \<open>No interface declares the field \<^verbatim>\<open>version\<close> among its own.\<close>

lemma version_not_declared:
  "i \<in> set StoredStateVersions \<Longrightarrow> ''version'' \<notin> fst ` set (snd i)"
  by (auto simp: StoredStateVersions_def StoredStateV0_V9_def StoredStateV10_V20_def
      StoredStateV21_V33_def StoredStateV34_V49_def)

lemma length_versions: "length StoredStateVersions = 50"
  by (simp add: StoredStateVersions_def StoredStateV0_V9_def StoredStateV10_V20_def
      StoredStateV21_V33_def StoredStateV34_V49_def)

lemma version_not_in_schema: "k < 50 \<Longrightarrow> ''version'' \<notin> fst ` set (schema k)"
proof (induction k)
  case 0
  have "StoredStateVersions ! 0 \<in> set StoredStateVersions" by (simp add: length_versions)
  from version_not_declared [OF this] show ?case by simp
next
  case (Suc k)
  have "StoredStateVersions ! Suc k \<in> set StoredStateVersions"
    using Suc.prems by (simp add: length_versions)
  from version_not_declared [OF this] Suc show ?case
    by (auto simp: extend_interface_def image_iff)
qed

text \<open>
  The shape of almost every migration: fields are dropped, then a literal is spread over the
  rest. It takes version \<open>k\<close> to version \<open>k + 1\<close> when it touches only fields the next interface
  omits or redeclares and gives every declared field a value of its type.
\<close>

lemma migrate_spread_ok:
  assumes "stored_ok k m" and "Suc k < 50"
    and i: "i = StoredStateVersions ! Suc k"
    and kvs: "map_of (rev kvs) ''version'' = Some (JNum (int (Suc k)))"
    and touched: "set ks \<union> fst ` set kvs \<subseteq> insert ''version'' (set (fst i) \<union> fst ` set (snd i))"
    and typed: "fields_ok (snd i) (jm_spread (jm_omit ks m) kvs)"
  shows "stored_ok (Suc k) (jm_spread (jm_omit ks m) kvs)"
proof -
  have "obj_get (jm_spread (jm_omit ks m) kvs) x = obj_get m x"
    if "x \<notin> set (fst i)" "x \<notin> fst ` set (snd i)" "x \<in> fst ` set (schema k)" for x
  proof -
    have "x \<noteq> ''version''" using that(3) version_not_in_schema [of k] Suc_lessD [OF assms(2)] by blast
    with that touched have "x \<notin> set ks" "x \<notin> fst ` set (rev kvs)" by auto
    then have "map_of (rev kvs) x = None" by (simp only: map_of_eq_None_iff not_False_eq_True)
    with \<open>x \<notin> set ks\<close> show ?thesis by (simp add: obj_get_spread obj_get_omit)
  qed
  then have "fields_ok (schema (Suc k)) (jm_spread (jm_omit ks m) kvs)"
    using fields_ok_interface [of "schema k" m i] assms(1) typed i by (simp add: stored_ok_def)
  with kvs show ?thesis by (simp add: stored_ok_def obj_get_spread)
qed

lemma stored_ok_version: "stored_ok k m \<Longrightarrow> obj_get m ''version'' = JNum (int k)"
  by (simp add: stored_ok_def)

end
