(* ===== verification/Storage_Migration.thy ===== *)
theory Storage_Migration
  imports Stored_State
begin

text \<open>
  \<^verbatim>\<open>ui/common/utils/storage.ts\<close>, \<^verbatim>\<open>migrateStoredState\<close> and \<^verbatim>\<open>getStoredState\<close>: the chain of
  forty-nine migrations that brings a state written by any earlier release to the latest
  version. One definition per \<^verbatim>\<open>if (migrationState.version === k)\<close> block, composed in the
  source's order; \<open>None\<close> is a rejected promise. The platform's key-value store
  (\<^verbatim>\<open>StorageApi\<close>), the clock and \<^verbatim>\<open>JSON.parse\<close> are arguments.
\<close>

section \<open>Versions 0 to 9\<close>

definition migrateV0 :: "obj \<Rightarrow> obj option" where
  "migrateV0 m = Some (jm_spread m
     [(''version'', JNum 1), (''language'', JNull), (''currency'', JNull),
      (''activeFederationId'', JNull), (''authenticatedGuardian'', JNull),
      (''chatIdentities'', JObj [])])"

definition initial_chat :: "jv \<Rightarrow> jv" where
  "initial_chat authenticatedMember = JObj
     [(''authenticatedMember'', authenticatedMember), (''messages'', JArr []),
      (''groups'', JArr []), (''members'', JArr []), (''lastFetchedMessageId'', JNull)]"

definition migrateV1 :: "obj \<Rightarrow> obj option" where
  "migrateV1 m = do {
     entries \<leftarrow> js_entries (obj_get m ''chatIdentities'');
     chat \<leftarrow> reduceM (\<lambda>chat (federationId, authenticatedMember).
         Some (if truthy authenticatedMember
               then jm_set federationId (initial_chat authenticatedMember) chat else chat))
       [] entries;
     Some (jm_spread (jm_omit [''chatIdentities''] m)
       [(''version'', JNum 2), (''chat'', JObj chat)]) }"

definition migrateChatV2 :: "obj \<Rightarrow> string \<times> jv \<Rightarrow> obj option" where
  "migrateChatV2 prevChat = (\<lambda>(federationId, chatState).
     if \<not> truthy chatState then Some prevChat
     else do {
       member \<leftarrow> js_prop chatState ''authenticatedMember'';
       let myId = opt_prop member ''id'';
       if \<not> truthy myId then Some prevChat
       else do {
         messages \<leftarrow> js_prop chatState ''messages'';
         lastReadMessageIds \<leftarrow> getLatestMessageIdsForChats messages myId;
         latest \<leftarrow> getLatestMessage messages;
         let lastSeenMessageId = js_or (opt_prop latest ''id'') JNull;
         Some (jm_set federationId (JObj (jm_spread (own_entries chatState)
           [(''lastReadMessageIds'', JObj lastReadMessageIds),
            (''lastSeenMessageId'', lastSeenMessageId)])) prevChat) } })"

definition migrateV2 :: "obj \<Rightarrow> obj option" where
  "migrateV2 m = do {
     entries \<leftarrow> js_entries (obj_get m ''chat'');
     newChat \<leftarrow> reduceM migrateChatV2 [] entries;
     Some (jm_spread m [(''version'', JNum 3), (''chat'', JObj newChat)]) }"

text \<open>The callback returns a fresh one-entry object and drops what it had accumulated.\<close>

definition groupAffiliation :: "obj \<Rightarrow> string \<times> jv \<Rightarrow> obj" where
  "groupAffiliation prevGroup = (\<lambda>(groupId, role).
     if \<not> truthy role then prevGroup
     else [(groupId, JStr (if js_seq role (JStr ''moderator'') then ''owner'' else ''none''))])"

definition migrateChatV3 :: "obj \<Rightarrow> string \<times> jv \<Rightarrow> obj option" where
  "migrateChatV3 prevChat = (\<lambda>(federationId, chatState).
     if \<not> truthy chatState then Some prevChat
     else do {
       roles \<leftarrow> js_prop chatState ''groupRoles'';
       if \<not> truthy roles then Some prevChat
       else do {
         entries \<leftarrow> js_entries roles;
         let groupAffiliations = foldl groupAffiliation [] entries;
         Some (jm_set federationId (JObj (jm_spread (own_entries chatState)
           [(''groupAffiliations'', JObj groupAffiliations)])) prevChat) } })"

definition migrateV3 :: "obj \<Rightarrow> obj option" where
  "migrateV3 m = do {
     entries \<leftarrow> js_entries (obj_get m ''chat'');
     newChat \<leftarrow> reduceM migrateChatV3 [] entries;
     Some (jm_spread m [(''version'', JNum 4), (''chat'', JObj newChat)]) }"

definition migrateV4 :: "obj \<Rightarrow> obj option" where
  "migrateV4 m = Some (jm_spread m [(''version'', JNum 5), (''externalMeta'', JObj [])])"

definition migrateV5 :: "obj \<Rightarrow> obj option" where
  "migrateV5 m = Some (jm_spread m [(''version'', JNum 6), (''btcExchangeRates'', JObj [])])"

definition migrateV6 :: "obj \<Rightarrow> obj option" where
  "migrateV6 m = Some (jm_spread m
     [(''version'', JNum 7), (''onchainDepositsEnabled'', JBool False),
      (''developerMode'', JBool False)])"

definition migrateV7 :: "obj \<Rightarrow> obj option" where
  "migrateV7 m = do {
     usd \<leftarrow> js_prop (obj_get m ''btcExchangeRates'') ''USD'';
     let btcUsdRate = js_or usd (JNum 0);
     Some (jm_spread (jm_omit [''btcExchangeRates''] m)
       [(''version'', JNum 8), (''btcUsdRate'', btcUsdRate), (''fiatUsdRates'', JObj [])]) }"

definition migrateV8 :: "obj \<Rightarrow> obj option" where
  "migrateV8 m = Some (jm_spread m
     [(''version'', JNum 9), (''stableBalanceEnabled'', JBool False)])"

definition migrateChatV9 :: "obj \<Rightarrow> string \<times> jv \<Rightarrow> obj option" where
  "migrateChatV9 prevChat = (\<lambda>(federationId, chatState).
     if \<not> truthy chatState then Some prevChat
     else do {
       member \<leftarrow> js_prop chatState ''authenticatedMember'';
       let myId = opt_prop member ''id'';
       if \<not> truthy myId then Some prevChat
       else do {
         messages \<leftarrow> js_prop chatState ''messages'';
         lastReadPaymentUpdateIds \<leftarrow> getLatestPaymentUpdateIdsForChats messages myId;
         update \<leftarrow> getLatestPaymentUpdate messages;
         let lastSeenPaymentUpdateId =
           (if truthy (opt_prop update ''id'')
            then JStr (js_str (opt_prop update ''id'') @ ''_'' @
                   js_str (js_or (opt_prop (opt_prop update ''payment'') ''updatedAt'') (JNum 0)))
            else JNull);
         Some (jm_set federationId (JObj (jm_spread (own_entries chatState)
           [(''lastReadPaymentUpdateIds'', JObj lastReadPaymentUpdateIds),
            (''lastSeenPaymentUpdateId'', lastSeenPaymentUpdateId)])) prevChat) } })"

definition migrateV9 :: "obj \<Rightarrow> obj option" where
  "migrateV9 m = do {
     entries \<leftarrow> js_entries (obj_get m ''chat'');
     newChat \<leftarrow> reduceM migrateChatV9 [] entries;
     Some (jm_spread m [(''version'', JNum 10), (''chat'', JObj newChat)]) }"

section \<open>Versions 10 to 20\<close>

definition migrateV10 :: "obj \<Rightarrow> obj option" where
  "migrateV10 m = Some (jm_spread m [(''version'', JNum 11), (''nuxSteps'', JObj [])])"

text \<open>The earliest message sent in the group, or now.\<close>

definition groupJoinedAt :: "int \<Rightarrow> jv list \<Rightarrow> jv \<Rightarrow> jv option" where
  "groupJoinedAt now messages grp =
     reduceM (\<lambda>joinedAt msg. do {
         sentIn \<leftarrow> js_prop msg ''sentIn'';
         gid \<leftarrow> js_prop grp ''id'';
         if \<not> js_seq sentIn gid then Some joinedAt
         else do { t \<leftarrow> js_prop msg ''sentAt''; Some (js_min joinedAt t) } })
       (JNum now) messages"

definition migrateGroupV11 :: "int \<Rightarrow> jv \<Rightarrow> jv \<Rightarrow> jv option" where
  "migrateGroupV11 now chatState grp = do {
     messages \<leftarrow> js_prop chatState ''messages'';
     msgs \<leftarrow> as_array messages;
     joinedAt \<leftarrow> groupJoinedAt now msgs grp;
     Some (JObj (jm_spread (own_entries grp) [(''joinedAt'', joinedAt)])) }"

definition migrateChatV11 :: "int \<Rightarrow> obj \<Rightarrow> string \<times> jv \<Rightarrow> obj option" where
  "migrateChatV11 now prevChat = (\<lambda>(federationId, chatState).
     if \<not> truthy chatState then Some prevChat
     else do {
       groups \<leftarrow> js_prop chatState ''groups'';
       gs \<leftarrow> as_array groups;
       gs' \<leftarrow> mapM (migrateGroupV11 now chatState) gs;
       Some (jm_set federationId (JObj (jm_spread (own_entries chatState)
         [(''groups'', JArr gs')])) prevChat) })"

definition migrateV11 :: "int \<Rightarrow> obj \<Rightarrow> obj option" where
  "migrateV11 now m = do {
     entries \<leftarrow> js_entries (obj_get m ''chat'');
     newChat \<leftarrow> reduceM (migrateChatV11 now) (own_entries (obj_get m ''chat'')) entries;
     Some (jm_spread m [(''version'', JNum 12), (''chat'', JObj newChat)]) }"

definition migrateV12 :: "obj \<Rightarrow> obj option" where
  "migrateV12 m = Some (jm_spread m
     [(''version'', JNum 13), (''showFiatTxnAmounts'', JBool True)])"

text \<open>\<^verbatim>\<open>chatState.messages.find(m => m.id === id)\<close>\<close>

definition findMessage :: "jv \<Rightarrow> jv \<Rightarrow> jv option" where
  "findMessage messages i = do {
     xs \<leftarrow> as_array messages;
     findM (\<lambda>m. do { mid \<leftarrow> js_prop m ''id''; Some (js_seq mid i) }) xs }"

text \<open>
  The time of the message, or of the payment update when that one is later; \<open>None\<close> inside the
  option when there is no such message.
\<close>

definition messageTimestamp :: "jv \<Rightarrow> jv \<Rightarrow> jv option option" where
  "messageTimestamp message update =
     (if \<not> truthy message then Some None
      else do {
        sentAt \<leftarrow> js_prop message ''sentAt'';
        let updatedAt = opt_prop (opt_prop update ''payment'') ''updatedAt'';
        Some (Some (if truthy update \<and> truthy updatedAt \<and> js_gt updatedAt sentAt
                    then updatedAt else sentAt)) })"

definition readTimestamp :: "jv \<Rightarrow> jv \<Rightarrow> jv \<Rightarrow> obj \<Rightarrow> string \<times> jv \<Rightarrow> obj option" where
  "readTimestamp messages readIds updateIds result = (\<lambda>(chatId, _). do {
     msgId \<leftarrow> js_prop readIds chatId;
     paymentUpdateId \<leftarrow> js_prop updateIds chatId;
     message \<leftarrow> findMessage messages msgId;
     update \<leftarrow> findMessage messages paymentUpdateId;
     t \<leftarrow> messageTimestamp message update;
     Some (case t of None \<Rightarrow> result | Some ts \<Rightarrow> jm_set chatId ts result) })"

definition migrateChatV13 :: "obj \<Rightarrow> string \<times> jv \<Rightarrow> obj option" where
  "migrateChatV13 prevChat = (\<lambda>(federationId, chatState).
     if \<not> truthy chatState then Some prevChat
     else do {
       member \<leftarrow> js_prop chatState ''authenticatedMember'';
       if \<not> truthy (opt_prop member ''id'') then Some prevChat
       else do {
         readIds \<leftarrow> js_prop chatState ''lastReadMessageIds'';
         updateIds \<leftarrow> js_prop chatState ''lastReadPaymentUpdateIds'';
         seenId \<leftarrow> js_prop chatState ''lastSeenMessageId'';
         seenUpdateId \<leftarrow> js_prop chatState ''lastSeenPaymentUpdateId'';
         messages \<leftarrow> js_prop chatState ''messages'';
         entries \<leftarrow> js_entries readIds;
         timestamps \<leftarrow> reduceM (readTimestamp messages readIds updateIds) [] entries;
         message \<leftarrow> findMessage messages seenId;
         update \<leftarrow> findMessage messages seenUpdateId;
         t \<leftarrow> messageTimestamp message update;
         let lastSeenMessageTimestamp = (case t of None \<Rightarrow> JNull | Some ts \<Rightarrow> ts);
         let migratedChatState = jm_omit
           [''lastReadMessageIds'', ''lastReadPaymentUpdateIds'',
            ''lastSeenMessageId'', ''lastSeenPaymentUpdateId''] (own_entries chatState);
         Some (jm_set federationId (JObj (jm_spread migratedChatState
           [(''lastReadMessageTimestamps'', JObj timestamps),
            (''lastSeenMessageTimestamp'', lastSeenMessageTimestamp)])) prevChat) } })"

definition migrateV13 :: "obj \<Rightarrow> obj option" where
  "migrateV13 m = do {
     entries \<leftarrow> js_entries (obj_get m ''chat'');
     newChat \<leftarrow> reduceM migrateChatV13 [] entries;
     Some (jm_spread m [(''version'', JNum 14), (''chat'', JObj newChat)]) }"

definition migrateV14 :: "obj \<Rightarrow> obj option" where
  "migrateV14 m = Some (jm_spread m [(''version'', JNum 15), (''matrixAuth'', JNull)])"

text \<open>\<^verbatim>\<open>legacyDeviceId || undefined\<close>, the device identifier of releases before version 16.\<close>

definition migrateV15 :: "(string \<Rightarrow> string option) \<Rightarrow> obj \<Rightarrow> obj option" where
  "migrateV15 getItem m = Some (jm_spread m
     [(''version'', JNum 16),
      (''deviceId'', (case getItem ''deviceId'' of
          None \<Rightarrow> JUndef
        | Some s \<Rightarrow> if s = [] then JUndef else JStr s))])"

definition migrateV16 :: "obj \<Rightarrow> obj option" where
  "migrateV16 m = Some (jm_spread m
     [(''version'', JNum 17),
      (''protectedFeatures'', JObj [(''app'', JBool True), (''changePin'', JBool True)])])"

definition migrateV17 :: "obj \<Rightarrow> obj option" where
  "migrateV17 m = Some (jm_spread m
     [(''version'', JNum 18), (''customGlobalMods'', JObj []),
      (''customGlobalModVisibility'', JObj []), (''suggestedGlobalModVisibility'', JObj [])])"

definition entries_or_empty :: "jv \<Rightarrow> (string \<times> jv) list" where
  "entries_or_empty v = own_entries (js_nullish v (JObj []))"

definition suggestedVisibility :: "jv \<Rightarrow> obj" where
  "suggestedVisibility v =
     foldl (\<lambda>acc (modId, visibility).
         jm_set modId (JObj (jm_spread (own_entries visibility) [(''isGlobal'', JBool True)])) acc)
       [] (entries_or_empty v)"

definition customModsVisibility :: "jv \<Rightarrow> obj" where
  "customModsVisibility v =
     foldl (\<lambda>acc (modId, mod').
         if \<not> truthy mod' then acc
         else jm_set modId (JObj [(''isHidden'', JBool False), (''isCustom'', JBool True)]) acc)
       [] (entries_or_empty v)"

definition customVisibility :: "jv \<Rightarrow> obj" where
  "customVisibility v =
     foldl (\<lambda>acc (modId, visibility).
         if \<not> truthy visibility then acc
         else jm_set modId (JObj (jm_spread (own_entries visibility) [(''isCustom'', JBool True)])) acc)
       [] (entries_or_empty v)"

definition migrateV18 :: "obj \<Rightarrow> obj option" where
  "migrateV18 m =
     (let customGlobalModVisibility = obj_get m ''customGlobalModVisibility'';
          suggestedGlobalModVisibility = obj_get m ''suggestedGlobalModVisibility'';
          modVisibility =
            jm_spread (jm_spread (suggestedVisibility suggestedGlobalModVisibility)
                (customModsVisibility (obj_get m ''customGlobalMods'')))
              (customVisibility customGlobalModVisibility)
      in Some (jm_spread
           (jm_omit [''customGlobalModVisibility'', ''suggestedGlobalModVisibility''] m)
           [(''version'', JNum 19), (''modVisibility'', JObj modVisibility)]))"

definition migrateV19 :: "obj \<Rightarrow> obj option" where
  "migrateV19 m = Some (jm_spread m
     [(''version'', JNum 20),
      (''protectedFeatures'', JObj (jm_spread (own_entries (obj_get m ''protectedFeatures''))
         [(''nostrSettings'', JBool True)]))])"

section \<open>Versions 20 to 33\<close>

definition migrateV20 :: "obj \<Rightarrow> obj option" where
  "migrateV20 m = Some (jm_spread (jm_omit [''chat''] m) [(''version'', JNum 21)])"

definition migrateV21 :: "obj \<Rightarrow> obj option" where
  "migrateV21 m = Some (jm_spread m
     [(''version'', JNum 22),
      (''support'', JObj [(''supportPermissionGranted'', JBool False),
                          (''zendeskPushNotificationToken'', JNull)])])"

definition migrateV22 :: "obj \<Rightarrow> obj option" where
  "migrateV22 m = Some (jm_spread m
     [(''version'', JNum 23), (''customFederationCurrencies'', JObj [])])"

definition migrateV23 :: "obj \<Rightarrow> obj option" where
  "migrateV23 m = Some (jm_spread m
     [(''version'', JNum 24),
      (''nuxSteps'', JObj (jm_spread (own_entries (obj_get m ''nuxSteps''))
         [(''displayNameModal'', JBool True), (''communityModal'', JBool True),
          (''chatModal'', JBool True), (''modsModal'', JBool True)]))])"

definition migrateV24 :: "obj \<Rightarrow> obj option" where
  "migrateV24 m = Some (jm_spread m [(''version'', JNum 25), (''chatDrafts'', JObj [])])"

definition migrateV25 :: "obj \<Rightarrow> obj option" where
  "migrateV25 m = Some (jm_spread m [(''version'', JNum 26), (''seenFederationRatings'', JArr [])])"

definition migrateV26 :: "obj \<Rightarrow> obj option" where
  "migrateV26 m = Some (jm_spread m
     [(''version'', JNum 27), (''lastShownSurveyTimestamp'', JNum (- 1))])"

definition migrateV27 :: "obj \<Rightarrow> obj option" where
  "migrateV27 m = Some (jm_spread (jm_omit [''activeFederationId''] m)
     [(''version'', JNum 28), (''lastUsedFederationId'', JNull),
      (''lastSelectedCommunityId'', JNull)])"

definition migrateV28 :: "obj \<Rightarrow> obj option" where
  "migrateV28 m = Some (jm_spread (jm_omit [''externalMeta'', ''version''] m)
     [(''version'', JNum 29)])"

definition migrateV29 :: "obj \<Rightarrow> obj option" where
  "migrateV29 m = Some (jm_spread m
     [(''version'', JNum 30), (''previouslyAutojoinedCommunities'', JObj [])])"

definition migrateV30 :: "obj \<Rightarrow> obj option" where
  "migrateV30 m = Some (jm_spread m
     [(''version'', JNum 31), (''autojoinNoticesToDisplay'', JArr [])])"

definition migrateV31 :: "obj \<Rightarrow> obj option" where
  "migrateV31 m = Some (jm_spread m
     [(''version'', JNum 32),
      (''recentlyUsedFederationIds'',
         if truthy (obj_get m ''lastUsedFederationId'')
         then JArr [obj_get m ''lastUsedFederationId''] else JArr [])])"

definition migrateV32 :: "obj \<Rightarrow> obj option" where
  "migrateV32 m = Some (jm_spread m
     [(''version'', JNum 33), (''analyticsId'', JNull), (''hasConsentedToAnalytics'', JNull),
      (''sessionCount'', JNum 0)])"

section \<open>Versions 33 to 49\<close>

definition migrateV33 :: "obj \<Rightarrow> obj option" where
  "migrateV33 m = Some (jm_spread m
     [(''version'', JNum 34), (''hasSeenAnalyticsConsentModal'', JBool False)])"

definition migrateV34 :: "obj \<Rightarrow> obj option" where
  "migrateV34 m = Some (jm_spread m
     [(''version'', JNum 35), (''showFiatTotalBalance'', JBool False)])"

definition migrateV35 :: "obj \<Rightarrow> obj option" where
  "migrateV35 m = Some (jm_spread m
     [(''version'', JNum 36), (''surveyCompletions'', JObj []),
      (''lastShownSurveyTimestamp'', JNum (- 1))])"

definition migrateV36 :: "obj \<Rightarrow> obj option" where
  "migrateV36 m = Some (jm_spread m
     [(''version'', JNum 37),
      (''transactionDisplayType'',
         if js_seq (obj_get m ''showFiatTxnAmounts'') (JBool False)
         then JStr ''sats'' else JStr ''fiat'')])"

definition migrateV37 :: "obj \<Rightarrow> obj option" where
  "migrateV37 m = Some (jm_spread m [(''version'', JNum 38), (''newMods'', JArr [])])"

definition migrateV38 :: "obj \<Rightarrow> obj option" where
  "migrateV38 m = Some (jm_spread m [(''version'', JNum 39), (''miniAppPermissions'', JObj [])])"

definition migrateV39 :: "obj \<Rightarrow> obj option" where
  "migrateV39 m = Some (jm_spread m [(''version'', JNum 40), (''miniAppOrder'', JArr [])])"

definition migrateV40 :: "obj \<Rightarrow> obj option" where
  "migrateV40 m = Some (jm_spread (jm_omit [''showFiatTotalBalance''] m)
     [(''version'', JNum 41), (''balanceDisplay'', JStr ''sats'')])"

definition migrateV41 :: "obj \<Rightarrow> obj option" where
  "migrateV41 m = Some (jm_spread m [(''version'', JNum 42), (''lastUsedTab'', JStr ''home'')])"

definition migrateV42 :: "obj \<Rightarrow> obj option" where
  "migrateV42 m = Some (jm_spread m [(''version'', JNum 43), (''rejectedRoomInvites'', JArr [])])"

definition migrateV43 :: "obj \<Rightarrow> obj option" where
  "migrateV43 m = do {
     first \<leftarrow> js_prop (obj_get m ''recentlyUsedFederationIds'') ''0'';
     Some (jm_spread m
       [(''version'', JNum 44), (''paymentType'', JStr ''bitcoin''),
        (''selectedFederationId'', js_nullish first JNull)]) }"

definition migrateV44 :: "obj \<Rightarrow> obj option" where
  "migrateV44 m = Some (jm_spread m [(''version'', JNum 45), (''seenRoomInvites'', JArr [])])"

definition migrateV45 :: "obj \<Rightarrow> obj option" where
  "migrateV45 m = Some (jm_spread m [(''version'', JNum 46), (''latestAwareReleaseTag'', JNull)])"

definition migrateV46 :: "obj \<Rightarrow> obj option" where
  "migrateV46 m = Some (jm_spread m [(''version'', JNum 47), (''seenKnockRequests'', JObj [])])"

definition migrateV47 :: "obj \<Rightarrow> obj option" where
  "migrateV47 m = Some (jm_spread m
     [(''version'', JNum 48),
      (''protectedFeatures'', JObj (jm_spread (own_entries (obj_get m ''protectedFeatures''))
         [(''personalBackup'', JBool True)]))])"

definition migrateV48 :: "obj \<Rightarrow> obj option" where
  "migrateV48 m = Some (jm_spread m
     [(''version'', JNum 49),
      (''personalBackupReminder'', JObj [(''countdownStartedAt'', JNull),
                                         (''hasReachedThresholds'', JBool False)])])"

section \<open>The chain\<close>

definition migrations :: "int \<Rightarrow> (string \<Rightarrow> string option) \<Rightarrow> (obj \<Rightarrow> obj option) list" where
  "migrations now getItem =
     [migrateV0, migrateV1, migrateV2, migrateV3, migrateV4, migrateV5, migrateV6, migrateV7,
      migrateV8, migrateV9, migrateV10, migrateV11 now, migrateV12, migrateV13, migrateV14,
      migrateV15 getItem, migrateV16, migrateV17, migrateV18, migrateV19, migrateV20, migrateV21,
      migrateV22, migrateV23, migrateV24, migrateV25, migrateV26, migrateV27, migrateV28,
      migrateV29, migrateV30, migrateV31, migrateV32, migrateV33, migrateV34, migrateV35,
      migrateV36, migrateV37, migrateV38, migrateV39, migrateV40, migrateV41, migrateV42,
      migrateV43, migrateV44, migrateV45, migrateV46, migrateV47, migrateV48]"

text \<open>\<^verbatim>\<open>if (migrationState.version === k) { ... }\<close>, for every block from the \<open>k\<close>-th on.\<close>

fun run_migrations :: "nat \<Rightarrow> (obj \<Rightarrow> obj option) list \<Rightarrow> obj \<Rightarrow> obj option" where
  "run_migrations k [] m = Some m"
| "run_migrations k (f # fs) m =
     (if js_seq (obj_get m ''version'') (JNum (int k))
      then do { m' \<leftarrow> f m; run_migrations (Suc k) fs m' }
      else run_migrations (Suc k) fs m)"

definition migrateStoredState :: "int \<Rightarrow> (string \<Rightarrow> string option) \<Rightarrow> jv \<Rightarrow> obj option" where
  "migrateStoredState now getItem state =
     run_migrations 0 (migrations now getItem) (own_entries state)"

text \<open>
  \<^verbatim>\<open>getStoredState\<close>: outer \<open>None\<close> is a rejected promise, \<open>Some None\<close> the \<^verbatim>\<open>null\<close> result.
\<close>

definition getStoredState ::
  "(string \<Rightarrow> jv option) \<Rightarrow> int \<Rightarrow> (string \<Rightarrow> string option) \<Rightarrow> obj option option" where
  "getStoredState parse now getItem =
     (case getItem ''fedi:state'' of
        None \<Rightarrow> Some None
      | Some serializedState \<Rightarrow>
          if serializedState = [] then Some None
          else do {
            storedState \<leftarrow> parse serializedState;
            m \<leftarrow> migrateStoredState now getItem storedState;
            Some (Some m) })"

end
