(* ===== verification/Storage_Migration_Proofs.thy ===== *)
theory Storage_Migration_Proofs
  imports Storage_Migration
begin

text \<open>
  Correctness of the storage migrations: the interface of a chain of versioned migrations as a
  locale, its interpretation on the forty-nine blocks of \<^verbatim>\<open>migrateStoredState\<close>, and what
  follows for every state an earlier release can have written.
\<close>

section \<open>Chains of migrations\<close>

locale migration_chain =
  fixes migs :: "(obj \<Rightarrow> obj option) list"
    and ok :: "nat \<Rightarrow> obj \<Rightarrow> bool"
  assumes ok_version: "ok k m \<Longrightarrow> obj_get m ''version'' = JNum (int k)"
    and step: "k < length migs \<Longrightarrow> ok k m \<Longrightarrow> \<exists>m'. (migs ! k) m = Some m' \<and> ok (Suc k) m'"
begin

lemma run_at:
  assumes "ok k m" and "k + length fs = length migs" and "fs = drop k migs"
  shows "\<exists>m'. run_migrations k fs m = Some m' \<and> ok (length migs) m'"
  using assms
proof (induction fs arbitrary: k m)
  case Nil
  then show ?case by simp
next
  case (Cons f fs)
  have k: "k < length migs" using Cons.prems(2) by simp
  have f: "migs ! k = f" using nth_via_drop [OF Cons.prems(3) [symmetric]] .
  have fs: "fs = drop (Suc k) migs"
    using Cons.prems(3) by (metis drop_Suc drop_tl list.sel(3))
  from step [OF k Cons.prems(1)] obtain m' where m': "f m = Some m'" "ok (Suc k) m'"
    unfolding f by blast
  with Cons.IH [OF m'(2)] fs Cons.prems(2) ok_version [OF Cons.prems(1)] show ?case
    by (simp add: js_seq_def)
qed

lemma run_skips:
  assumes "ok k m" and "j \<le> k" and "k \<le> length migs" and "fs = drop j migs"
  shows "run_migrations j fs m = run_migrations k (drop k migs) m"
  using assms(2-)
proof (induction fs arbitrary: j)
  case Nil
  then show ?case by simp
next
  case (Cons f fs)
  show ?case
  proof (cases "j = k")
    case True
    with Cons.prems show ?thesis by simp
  next
    case False
    then have "\<not> js_seq (obj_get m ''version'') (JNum (int j))"
      using ok_version [OF assms(1)] by (simp add: js_seq_def)
    moreover have "fs = drop (Suc j) migs"
      using Cons.prems(3) by (metis drop_Suc drop_tl list.sel(3))
    moreover have "run_migrations (Suc j) fs m = run_migrations k (drop k migs) m"
      using Cons.IH [of "Suc j"] Cons.prems False calculation(2) by simp
    ultimately show ?thesis by (simp only: run_migrations.simps if_False)
  qed
qed

lemma run_chain:
  assumes "ok k m" and "k \<le> length migs"
  shows "\<exists>m'. run_migrations 0 migs m = Some m' \<and> ok (length migs) m'"
  using run_skips [OF assms(1) _ assms(2), of 0 migs] run_at [OF assms(1), of "drop k migs"] assms(2)
  by simp

lemma run_latest: "ok (length migs) m \<Longrightarrow> run_migrations 0 migs m = Some m"
  using run_skips [of "length migs" m 0 migs] by simp

end

section \<open>Each block\<close>

definition step_ok :: "nat \<Rightarrow> obj option \<Rightarrow> bool" where
  "step_ok k r = (\<exists>m'. r = Some m' \<and> stored_ok (Suc k) m')"

definition touches_only :: "string list \<Rightarrow> (string \<times> jv) list \<Rightarrow> interface \<Rightarrow> bool" where
  "touches_only ks kvs i = (\<forall>k \<in> set ks \<union> fst ` set kvs.
     k = ''version'' \<or> k \<in> set (fst i) \<or> k \<in> fst ` set (snd i))"

lemma step_ok_omit:
  assumes "stored_ok k m" and "Suc k < 50"
    and "map_of (rev kvs) ''version'' = Some (JNum (int (Suc k)))"
    and "touches_only ks kvs (StoredStateVersions ! Suc k)"
    and "fields_ok (snd (StoredStateVersions ! Suc k)) (jm_spread (jm_omit ks m) kvs)"
  shows "step_ok k (Some (jm_spread (jm_omit ks m) kvs))"
  using migrate_spread_ok [OF assms(1,2) refl assms(3) _ assms(5)] assms(4)
  by (auto simp: step_ok_def touches_only_def)

lemma step_ok_spread:
  assumes "stored_ok k m" and "Suc k < 50"
    and "map_of (rev kvs) ''version'' = Some (JNum (int (Suc k)))"
    and "touches_only [] kvs (StoredStateVersions ! Suc k)"
    and "fields_ok (snd (StoredStateVersions ! Suc k)) (jm_spread m kvs)"
  shows "step_ok k (Some (jm_spread m kvs))"
  using step_ok_omit [of k m kvs "[]"] assms by (simp add: jm_omit_def)

lemmas interfaces = StoredStateVersions_def StoredStateV0_V9_def StoredStateV10_V20_def
  StoredStateV21_V33_def StoredStateV34_V49_def

lemmas type_defs = chat_V2_def chat_V3_def support_ty_def features_ty_def reminder_ty_def
  display_ty_def tab_ty_def

lemmas step_simps = interfaces touches_only_def obj_get_spread obj_get_omit obj_get_Cons type_defs

lemma migrateV0_ok: "stored_ok 0 m \<Longrightarrow> step_ok 0 (migrateV0 m)"
  unfolding migrateV0_def
  by (erule step_ok_spread) (simp_all add: step_simps)

lemma migrateV4_ok: "stored_ok 4 m \<Longrightarrow> step_ok 4 (migrateV4 m)"
  unfolding migrateV4_def
  by (erule step_ok_spread) (simp_all add: step_simps)

lemma migrateV5_ok: "stored_ok 5 m \<Longrightarrow> step_ok 5 (migrateV5 m)"
  unfolding migrateV5_def
  by (erule step_ok_spread) (simp_all add: step_simps)

lemma migrateV6_ok: "stored_ok 6 m \<Longrightarrow> step_ok 6 (migrateV6 m)"
  unfolding migrateV6_def
  by (erule step_ok_spread) (simp_all add: step_simps)

lemma migrateV8_ok: "stored_ok 8 m \<Longrightarrow> step_ok 8 (migrateV8 m)"
  unfolding migrateV8_def
  by (erule step_ok_spread) (simp_all add: step_simps)

lemma migrateV10_ok: "stored_ok 10 m \<Longrightarrow> step_ok 10 (migrateV10 m)"
  unfolding migrateV10_def
  by (erule step_ok_spread) (simp_all add: step_simps)

lemma migrateV12_ok: "stored_ok 12 m \<Longrightarrow> step_ok 12 (migrateV12 m)"
  unfolding migrateV12_def
  by (erule step_ok_spread) (simp_all add: step_simps)

lemma migrateV14_ok: "stored_ok 14 m \<Longrightarrow> step_ok 14 (migrateV14 m)"
  unfolding migrateV14_def
  by (erule step_ok_spread) (simp_all add: step_simps)

lemma migrateV15_ok: "stored_ok 15 m \<Longrightarrow> step_ok 15 (migrateV15 getItem m)"
  unfolding migrateV15_def
  by (erule step_ok_spread) (simp_all add: step_simps split: option.split)

lemma migrateV16_ok: "stored_ok 16 m \<Longrightarrow> step_ok 16 (migrateV16 m)"
  unfolding migrateV16_def
  by (erule step_ok_spread) (simp_all add: step_simps)

lemma migrateV17_ok: "stored_ok 17 m \<Longrightarrow> step_ok 17 (migrateV17 m)"
  unfolding migrateV17_def
  by (erule step_ok_spread) (simp_all add: step_simps)

lemma migrateV20_ok: "stored_ok 20 m \<Longrightarrow> step_ok 20 (migrateV20 m)"
  unfolding migrateV20_def
  by (erule step_ok_omit) (simp_all add: step_simps)

lemma migrateV21_ok: "stored_ok 21 m \<Longrightarrow> step_ok 21 (migrateV21 m)"
  unfolding migrateV21_def
  by (erule step_ok_spread) (simp_all add: step_simps)

lemma migrateV22_ok: "stored_ok 22 m \<Longrightarrow> step_ok 22 (migrateV22 m)"
  unfolding migrateV22_def
  by (erule step_ok_spread) (simp_all add: step_simps)

lemma migrateV24_ok: "stored_ok 24 m \<Longrightarrow> step_ok 24 (migrateV24 m)"
  unfolding migrateV24_def
  by (erule step_ok_spread) (simp_all add: step_simps)

lemma migrateV25_ok: "stored_ok 25 m \<Longrightarrow> step_ok 25 (migrateV25 m)"
  unfolding migrateV25_def
  by (erule step_ok_spread) (simp_all add: step_simps)

lemma migrateV26_ok: "stored_ok 26 m \<Longrightarrow> step_ok 26 (migrateV26 m)"
  unfolding migrateV26_def
  by (erule step_ok_spread) (simp_all add: step_simps)

lemma migrateV27_ok: "stored_ok 27 m \<Longrightarrow> step_ok 27 (migrateV27 m)"
  unfolding migrateV27_def
  by (erule step_ok_omit) (simp_all add: step_simps)

lemma migrateV28_ok: "stored_ok 28 m \<Longrightarrow> step_ok 28 (migrateV28 m)"
  unfolding migrateV28_def
  by (erule step_ok_omit) (simp_all add: step_simps)

lemma migrateV29_ok: "stored_ok 29 m \<Longrightarrow> step_ok 29 (migrateV29 m)"
  unfolding migrateV29_def
  by (erule step_ok_spread) (simp_all add: step_simps)

lemma migrateV30_ok: "stored_ok 30 m \<Longrightarrow> step_ok 30 (migrateV30 m)"
  unfolding migrateV30_def
  by (erule step_ok_spread) (simp_all add: step_simps)

lemma migrateV32_ok: "stored_ok 32 m \<Longrightarrow> step_ok 32 (migrateV32 m)"
  unfolding migrateV32_def
  by (erule step_ok_spread) (simp_all add: step_simps)

lemma migrateV33_ok: "stored_ok 33 m \<Longrightarrow> step_ok 33 (migrateV33 m)"
  unfolding migrateV33_def
  by (erule step_ok_spread) (simp_all add: step_simps)

lemma migrateV34_ok: "stored_ok 34 m \<Longrightarrow> step_ok 34 (migrateV34 m)"
  unfolding migrateV34_def
  by (erule step_ok_spread) (simp_all add: step_simps)

lemma migrateV35_ok: "stored_ok 35 m \<Longrightarrow> step_ok 35 (migrateV35 m)"
  unfolding migrateV35_def
  by (erule step_ok_spread) (simp_all add: step_simps)

lemma migrateV36_ok: "stored_ok 36 m \<Longrightarrow> step_ok 36 (migrateV36 m)"
  unfolding migrateV36_def
  by (erule step_ok_spread) (simp_all add: step_simps)

lemma migrateV37_ok: "stored_ok 37 m \<Longrightarrow> step_ok 37 (migrateV37 m)"
  unfolding migrateV37_def
  by (erule step_ok_spread) (simp_all add: step_simps)

lemma migrateV38_ok: "stored_ok 38 m \<Longrightarrow> step_ok 38 (migrateV38 m)"
  unfolding migrateV38_def
  by (erule step_ok_spread) (simp_all add: step_simps)

lemma migrateV39_ok: "stored_ok 39 m \<Longrightarrow> step_ok 39 (migrateV39 m)"
  unfolding migrateV39_def
  by (erule step_ok_spread) (simp_all add: step_simps)

lemma migrateV40_ok: "stored_ok 40 m \<Longrightarrow> step_ok 40 (migrateV40 m)"
  unfolding migrateV40_def
  by (erule step_ok_omit) (simp_all add: step_simps)

lemma migrateV41_ok: "stored_ok 41 m \<Longrightarrow> step_ok 41 (migrateV41 m)"
  unfolding migrateV41_def
  by (erule step_ok_spread) (simp_all add: step_simps)

lemma migrateV42_ok: "stored_ok 42 m \<Longrightarrow> step_ok 42 (migrateV42 m)"
  unfolding migrateV42_def
  by (erule step_ok_spread) (simp_all add: step_simps)

lemma migrateV44_ok: "stored_ok 44 m \<Longrightarrow> step_ok 44 (migrateV44 m)"
  unfolding migrateV44_def
  by (erule step_ok_spread) (simp_all add: step_simps)

lemma migrateV45_ok: "stored_ok 45 m \<Longrightarrow> step_ok 45 (migrateV45 m)"
  unfolding migrateV45_def
  by (erule step_ok_spread) (simp_all add: step_simps)

lemma migrateV46_ok: "stored_ok 46 m \<Longrightarrow> step_ok 46 (migrateV46 m)"
  unfolding migrateV46_def
  by (erule step_ok_spread) (simp_all add: step_simps)

lemma migrateV48_ok: "stored_ok 48 m \<Longrightarrow> step_ok 48 (migrateV48 m)"
  unfolding migrateV48_def
  by (erule step_ok_spread) (simp_all add: step_simps)


section \<open>The blocks that compute\<close>

lemma stored_field:
  "stored_ok k m \<Longrightarrow> map_of (schema k) f = Some t \<Longrightarrow> has_ty t (obj_get m f)"
  by (auto simp: stored_ok_def dest: map_of_SomeD intro: fields_ok_get)

lemma schema_fields:
  "map_of (schema 1) ''chatIdentities'' = Some (TRec (TOrUndef ChatMember_ty))"
  "map_of (schema 2) ''chat'' = Some chat_V2"
  "map_of (schema 3) ''chat'' = Some chat_V3"
  "map_of (schema 7) ''btcExchangeRates'' = Some (TRec TNum)"
  "map_of (schema 9) ''chat'' = Some chat_V4"
  "map_of (schema 11) ''chat'' = Some chat_V10"
  "map_of (schema 13) ''chat'' = Some chat_V10"
  "map_of (schema 19) ''protectedFeatures'' = Some (features_ty [''app'', ''changePin''])"
  "map_of (schema 23) ''nuxSteps'' = Some (TRec (TOrUndef TBool))"
  "map_of (schema 31) ''lastUsedFederationId'' = Some (TOpt TStr)"
  "map_of (schema 43) ''recentlyUsedFederationIds'' = Some (TArr TStr)"
  "map_of (schema 47) ''protectedFeatures'' =
     Some (features_ty [''app'', ''changePin'', ''nostrSettings''])"
  by code_simp+

lemma migrateV7_ok:
  assumes "stored_ok 7 m" shows "step_ok 7 (migrateV7 m)"
proof -
  have "has_ty (TRec TNum) (obj_get m ''btcExchangeRates'')"
    by (rule stored_field [OF assms]) (rule schema_fields)
  then obtain r where r: "obj_get m ''btcExchangeRates'' = JObj r"
    and t: "\<And>k x. (k, x) \<in> set r \<Longrightarrow> is_num x"
    by (auto elim!: has_ty_TRecE)
  have "is_num (js_or (obj_get r ''USD'') (JNum 0))"
    using t by (auto simp: js_or_def obj_get_def dest: jm_get_mem split: option.splits)
  with assms show ?thesis
    unfolding migrateV7_def r js_prop_JObj Option.bind.simps Let_def
    by (intro step_ok_omit) (simp_all add: step_simps)
qed

lemma features_spread:
  assumes "has_ty (features_ty ks) v" and "k \<notin> set ks"
  shows "has_ty (features_ty (ks @ [k])) (JObj (jm_spread (own_entries v) [(k, JBool True)]))"
proof -
  obtain r where r: "v = JObj r" "fields_ok (map (\<lambda>k. (k, TBool)) ks) r"
    using assms(1) by (auto simp: features_ty_def elim!: has_ty_TFieldsE)
  have "fields_ok (map (\<lambda>k. (k, TBool)) ks) (jm_spread r [(k, JBool True)])"
    using r(2) by (rule fields_ok_cong) (use assms(2) in \<open>auto simp: obj_get_spread\<close>)
  then show ?thesis by (simp add: features_ty_def r(1) obj_get_spread)
qed

lemma migrateV19_ok:
  assumes "stored_ok 19 m" shows "step_ok 19 (migrateV19 m)"
proof -
  have "has_ty (features_ty ([''app'', ''changePin''] @ [''nostrSettings'']))
      (JObj (jm_spread (own_entries (obj_get m ''protectedFeatures'')) [(''nostrSettings'', JBool True)]))"
    by (rule features_spread [OF stored_field [OF assms schema_fields(8)]]) simp
  with assms show ?thesis
    unfolding migrateV19_def
    by (intro step_ok_spread) (simp_all add: interfaces touches_only_def obj_get_spread)
qed

lemma migrateV47_ok:
  assumes "stored_ok 47 m" shows "step_ok 47 (migrateV47 m)"
proof -
  have "has_ty (features_ty ([''app'', ''changePin'', ''nostrSettings''] @ [''personalBackup'']))
      (JObj (jm_spread (own_entries (obj_get m ''protectedFeatures'')) [(''personalBackup'', JBool True)]))"
    by (rule features_spread [OF stored_field [OF assms schema_fields(12)]]) simp
  with assms show ?thesis
    unfolding migrateV47_def
    by (intro step_ok_spread) (simp_all add: interfaces touches_only_def obj_get_spread)
qed

lemma TRec_spread:
  assumes "has_ty (TRec t) (JObj r)" and "\<And>k v. (k, v) \<in> set kvs \<Longrightarrow> has_ty t v"
  shows "has_ty (TRec t) (JObj (jm_spread r kvs))"
  using assms
proof (induction kvs arbitrary: r)
  case Nil
  then show ?case by (simp add: jm_spread_def)
next
  case (Cons p kvs)
  obtain k v where p: "p = (k, v)" by (cases p)
  have "has_ty t v" using Cons.prems(2) [of k v] p by simp
  then have "has_ty (TRec t) (JObj (jm_set k v r))"
    using has_ty_TRec_set [OF Cons.prems(1)] by blast
  moreover have "\<And>k v. (k, v) \<in> set kvs \<Longrightarrow> has_ty t v"
    using Cons.prems(2) by (meson list.set_intros(2))
  ultimately have "has_ty (TRec t) (JObj (jm_spread (jm_set k v r) kvs))" by (rule Cons.IH)
  then show ?case by (simp add: jm_spread_def p)
qed

lemma migrateV23_ok:
  assumes "stored_ok 23 m" shows "step_ok 23 (migrateV23 m)"
proof -
  have "has_ty (TRec (TOrUndef TBool)) (obj_get m ''nuxSteps'')"
    by (rule stored_field [OF assms]) (rule schema_fields)
  then obtain r where r: "obj_get m ''nuxSteps'' = JObj r" "has_ty (TRec (TOrUndef TBool)) (JObj r)"
    by (metis has_ty_TRecE)
  have "has_ty (TRec (TOrUndef TBool)) (JObj (jm_spread r
      [(''displayNameModal'', JBool True), (''communityModal'', JBool True),
       (''chatModal'', JBool True), (''modsModal'', JBool True)]))"
    by (rule TRec_spread [OF r(2)]) auto
  with assms show ?thesis
    unfolding migrateV23_def r(1) own_entries.simps
    by (intro step_ok_spread)
      (simp_all add: interfaces touches_only_def obj_get_spread del: TRec_JObj)
qed

lemma migrateV18_ok: "stored_ok 18 m \<Longrightarrow> step_ok 18 (migrateV18 m)"
  unfolding migrateV18_def Let_def
  by (erule step_ok_omit) (simp_all add: step_simps list_all_iff)

lemma migrateV31_ok:
  assumes "stored_ok 31 m" shows "step_ok 31 (migrateV31 m)"
proof -
  have "has_ty (TOpt TStr) (obj_get m ''lastUsedFederationId'')"
    by (rule stored_field [OF assms]) (rule schema_fields)
  then have "has_ty (TArr TStr) (if truthy (obj_get m ''lastUsedFederationId'')
      then JArr [obj_get m ''lastUsedFederationId''] else JArr [])"
    by auto
  with assms show ?thesis
    unfolding migrateV31_def by (intro step_ok_spread) (simp_all add: step_simps)
qed

lemma index_entries_0: "obj_get (index_entries xs) ''0'' = (case xs of [] \<Rightarrow> JUndef | x # _ \<Rightarrow> x)"
proof (cases xs)
  case Nil
  then show ?thesis by (simp add: index_entries_def)
next
  case (Cons x ys)
  have "nat_str 0 = ''0''" by code_simp
  with Cons show ?thesis by (simp add: index_entries_def upt_conv_Cons obj_get_Cons del: upt_Suc)
qed

lemma migrateV43_ok:
  assumes "stored_ok 43 m" shows "step_ok 43 (migrateV43 m)"
proof -
  have "has_ty (TArr TStr) (obj_get m ''recentlyUsedFederationIds'')"
    by (rule stored_field [OF assms]) (rule schema_fields)
  then obtain xs where xs: "obj_get m ''recentlyUsedFederationIds'' = JArr xs"
    and t: "\<And>x. x \<in> set xs \<Longrightarrow> is_str x"
    by (auto elim!: has_ty_TArrE)
  have "has_ty (TOpt TStr) (js_nullish (obj_get (index_entries xs) ''0'') JNull)"
    using t by (cases xs) (auto simp: index_entries_0 js_nullish_def)
  with assms show ?thesis
    unfolding migrateV43_def xs js_prop.simps own_entries.simps Option.bind.simps
    by (intro step_ok_spread) (simp_all add: step_simps)
qed


section \<open>The blocks that migrate the legacy chat\<close>

text \<open>
  All chat migrations fold a per-federation callback over the entries of \<^verbatim>\<open>chat\<close>; the callback
  keeps the accumulated record well typed.
\<close>

lemma chat_reduce_ok:
  assumes "has_ty (TRec t) (JObj acc)"
    and "\<And>prev p. has_ty (TRec t') (JObj prev) \<Longrightarrow> p \<in> set entries \<Longrightarrow>
           \<exists>r. f prev p = Some r \<and> has_ty (TRec t') (JObj r)"
    and "has_ty (TRec t') (JObj acc)"
  shows "\<exists>r. reduceM f acc entries = Some r \<and> has_ty (TRec t') (JObj r)"
  by (rule reduceM_inv [where P = "\<lambda>r. has_ty (TRec t') (JObj r)"]) (use assms in auto)

lemma entries_typed:
  assumes "has_ty (TRec t) v"
  obtains es where "js_entries v = Some es" "own_entries v = es"
    "\<And>k x. (k, x) \<in> set es \<Longrightarrow> has_ty t x"
  using assms by (auto simp: js_entries_def elim!: has_ty_TRecE)

lemma truthy_entries: "truthy v \<Longrightarrow> js_entries v = Some (own_entries v)"
  by (cases v) (simp_all add: js_entries_def)

lemma TOrUndef_truthy: "has_ty (TOrUndef t) v \<Longrightarrow> truthy v \<Longrightarrow> has_ty t v"
  by auto

lemma migrateV1_ok:
  assumes "stored_ok 1 m" shows "step_ok 1 (migrateV1 m)"
proof -
  have "has_ty (TRec (TOrUndef ChatMember_ty)) (obj_get m ''chatIdentities'')"
    by (rule stored_field [OF assms]) (rule schema_fields)
  then obtain es where es: "js_entries (obj_get m ''chatIdentities'') = Some es"
    and t: "\<And>k x. (k, x) \<in> set es \<Longrightarrow> has_ty (TOrUndef ChatMember_ty) x"
    by (rule entries_typed) blast
  let ?f = "\<lambda>chat (federationId, authenticatedMember).
         Some (if truthy authenticatedMember
               then jm_set federationId (initial_chat authenticatedMember) chat else chat)"
  have "\<exists>r. reduceM ?f [] es = Some r \<and> has_ty chat_V2 (JObj r)"
    unfolding chat_V2_def
  proof (rule chat_reduce_ok)
    fix prev :: obj and p :: "string \<times> jv"
    assume prev: "has_ty (TRec (TOrUndef (TFields chat_base))) (JObj prev)" and "p \<in> set es"
    then have "truthy (snd p) \<Longrightarrow> has_ty ChatMember_ty (snd p)"
      using t [of "fst p" "snd p"] TOrUndef_truthy by simp
    then have "truthy (snd p) \<Longrightarrow> has_ty (TOrUndef (TFields chat_base)) (initial_chat (snd p))"
      by (simp add: initial_chat_def chat_base_def obj_get_Cons)
    with prev show "\<exists>r. ?f prev p = Some r \<and>
        has_ty (TRec (TOrUndef (TFields chat_base))) (JObj r)"
      by (auto simp: split_beta simp del: TRec_JObj intro: has_ty_TRec_set)
  qed simp_all
  then obtain chat where "reduceM ?f [] es = Some chat" and "has_ty chat_V2 (JObj chat)" by blast
  with assms es show ?thesis
    unfolding migrateV1_def
    by (simp, intro step_ok_omit) (simp_all add: interfaces touches_only_def obj_get_spread obj_get_omit)
qed

text \<open>One lemma for the callbacks: the callback's record update keeps the types it does not touch.\<close>

lemma chat_base_messages:
  assumes "fields_ok fs cs" and "set chat_base \<subseteq> set fs"
  obtains xs gs where "obj_get cs ''messages'' = JArr xs" "\<And>x. x \<in> set xs \<Longrightarrow> is_message x"
    "obj_get cs ''groups'' = JArr gs" "\<And>g. g \<in> set gs \<Longrightarrow> has_ty ChatGroup_ty g"
    "has_ty (TOpt ChatMember_ty) (obj_get cs ''authenticatedMember'')"
proof -
  have "has_ty (TArr TMsg) (obj_get cs ''messages'')"
    and "has_ty (TArr ChatGroup_ty) (obj_get cs ''groups'')"
    and "has_ty (TOpt ChatMember_ty) (obj_get cs ''authenticatedMember'')"
    by (rule fields_ok_get [OF assms(1)], use assms(2) in \<open>simp add: chat_base_def\<close>)+
  then show ?thesis by (auto elim!: has_ty_TArrE intro: that)
qed

lemma fields_ok_spread:
  assumes "fields_ok fs cs" and "\<And>k. k \<in> fst ` set kvs \<Longrightarrow> k \<notin> fst ` set fs"
  shows "fields_ok fs (jm_spread cs kvs)"
proof (rule fields_ok_cong [OF assms(1)])
  fix k assume "k \<in> fst ` set fs"
  with assms(2) have "k \<notin> fst ` set (rev kvs)" by auto
  then show "obj_get (jm_spread cs kvs) k = obj_get cs k"
    by (simp add: obj_get_spread map_of_eq_None_iff [THEN iffD2])
qed

lemmas chat_type_defs = chat_V3_fields_def chat_V4_fields_def chat_V10_fields_def chat_base_def

lemma migrateChatV2_ok:
  assumes prev: "has_ty chat_V3 (JObj prev)" and p: "has_ty (TOrUndef (TFields chat_base)) (snd p)"
  shows "\<exists>r. migrateChatV2 prev p = Some r \<and> has_ty chat_V3 (JObj r)"
proof (cases "truthy (snd p)")
  case False
  with prev show ?thesis by (cases p) (simp add: migrateChatV2_def)
next
  case True
  obtain cs where cs: "snd p = JObj cs" "fields_ok chat_base cs"
    using TOrUndef_truthy [OF p True] by (rule has_ty_TFieldsE)
  obtain xs where xs: "obj_get cs ''messages'' = JArr xs" "\<And>x. x \<in> set xs \<Longrightarrow> is_message x"
    using chat_base_messages [OF cs(2)] by (metis order_refl)
  let ?myId = "opt_prop (obj_get cs ''authenticatedMember'') ''id''"
  show ?thesis
  proof (cases "truthy ?myId")
    case False
    with prev cs True show ?thesis by (cases p) (simp add: migrateChatV2_def Let_def)
  next
    case myId: True
    obtain ids where ids: "getLatestMessageIdsForChats (JArr xs) ?myId = Some ids"
      "has_ty (TRec TStr) (JObj ids)"
      using getLatestMessageIds_total [of xs ?myId] xs(2) by blast
    obtain latest where latest: "getLatestMessage (JArr xs) = Some latest"
      "latest = JNull \<or> is_message latest"
      using getLatestMessage_total [of xs] xs(2) by blast
    have seen: "has_ty (TOpt TStr) (js_or (opt_prop latest ''id'') JNull)"
      using latest(2) by (auto simp: js_or_def opt_prop_def elim!: is_messageE)
    have "has_ty (TFields chat_V3_fields) (JObj (jm_spread cs
        [(''lastReadMessageIds'', JObj ids),
         (''lastSeenMessageId'', js_or (opt_prop latest ''id'') JNull)]))"
      using cs(2) ids(2) seen
      by (auto simp: chat_V3_fields_def obj_get_spread list_all_iff intro!: fields_ok_spread
          simp: chat_base_def)
    then have "has_ty chat_V3 (JObj (jm_set (fst p) (JObj (jm_spread cs
        [(''lastReadMessageIds'', JObj ids),
         (''lastSeenMessageId'', js_or (opt_prop latest ''id'') JNull)])) prev))"
      using prev unfolding chat_V3_def by (intro has_ty_TRec_set) simp_all
    with True myId cs xs ids(1) latest(1) show ?thesis
      by (cases p) (simp add: migrateChatV2_def Let_def)
  qed
qed


lemma chat_fold_ok:
  assumes chat: "has_ty (TRec s) (obj_get m ''chat'')"
    and cb: "\<And>prev p. has_ty c (JObj prev) \<Longrightarrow> has_ty s (snd p) \<Longrightarrow>
          \<exists>r. f prev p = Some r \<and> has_ty c (JObj r)"
    and init: "has_ty c (JObj init)"
  shows "\<exists>es r. js_entries (obj_get m ''chat'') = Some es \<and> reduceM f init es = Some r \<and>
    has_ty c (JObj r)"
proof -
  obtain es where es: "js_entries (obj_get m ''chat'') = Some es"
    and t: "\<And>k x. (k, x) \<in> set es \<Longrightarrow> has_ty s x"
    using chat by (rule entries_typed) blast
  have "\<exists>r. reduceM f init es = Some r \<and> has_ty c (JObj r)"
  proof (rule reduceM_inv [where P = "\<lambda>r. has_ty c (JObj r)"])
    show "has_ty c (JObj init)" by (rule init)
  next
    fix a p assume "has_ty c (JObj a)" "p \<in> set es"
    then show "\<exists>a'. f a p = Some a' \<and> has_ty c (JObj a')"
      using cb [of a p] t [of "fst p" "snd p"] by simp
  qed
  with es show ?thesis by blast
qed

lemma empty_chat: "has_ty (TRec t) (JObj [])"
  by simp

lemma chat_step_ok:
  assumes "stored_ok k m" and "Suc k < 50"
    and "''chat'' \<in> fst ` set (snd (StoredStateVersions ! Suc k))"
    and "\<And>m'. obj_get m' ''chat'' = JObj chat \<Longrightarrow> fields_ok (snd (StoredStateVersions ! Suc k)) m'"
  shows "step_ok k (Some (jm_spread m [(''version'', JNum (int (Suc k))), (''chat'', JObj chat)]))"
  using assms by (intro step_ok_spread) (auto simp: touches_only_def obj_get_spread)

lemma migrateV2_ok:
  assumes "stored_ok 2 m" shows "step_ok 2 (migrateV2 m)"
proof -
  have "has_ty (TRec (TOrUndef (TFields chat_base))) (obj_get m ''chat'')"
    using stored_field [OF assms schema_fields(2)] by (simp only: chat_V2_def)
  moreover have "has_ty chat_V3 (JObj [])" unfolding chat_V3_def by (rule empty_chat)
  ultimately obtain es chat where es: "js_entries (obj_get m ''chat'') = Some es"
    and chat: "reduceM migrateChatV2 [] es = Some chat" "has_ty chat_V3 (JObj chat)"
    using chat_fold_ok [where f = migrateChatV2 and c = chat_V3 and init = "[]"] migrateChatV2_ok
    by blast
  have "step_ok 2 (Some (jm_spread m [(''version'', JNum (int (Suc 2))), (''chat'', JObj chat)]))"
    by (rule chat_step_ok [OF assms]) (simp_all add: interfaces chat)
  then show ?thesis unfolding migrateV2_def es by (simp add: chat)
qed


lemma TRec_weaken: "has_ty (TRec s) v \<Longrightarrow> (\<And>x. has_ty s x \<Longrightarrow> has_ty t x) \<Longrightarrow> has_ty (TRec t) v"
  by (auto simp: list_all_iff elim!: has_ty_TRecE)

lemma groupAffiliations_ok: "has_ty (TRec (TOrUndef TStr)) (JObj (foldl groupAffiliation [] es))"
proof -
  have "has_ty (TRec (TOrUndef TStr)) (JObj (foldl groupAffiliation acc es))"
    if "has_ty (TRec (TOrUndef TStr)) (JObj acc)" for acc
    using that by (induction es arbitrary: acc) (auto simp: groupAffiliation_def)
  then show ?thesis by simp
qed

lemma migrateChatV3_ok:
  assumes prev: "has_ty chat_V4 (JObj prev)" and p: "has_ty (TOrUndef (TFields chat_V3_fields)) (snd p)"
  shows "\<exists>r. migrateChatV3 prev p = Some r \<and> has_ty chat_V4 (JObj r)"
proof (cases "truthy (snd p)")
  case False
  with prev show ?thesis by (cases p) (simp add: migrateChatV3_def)
next
  case True
  obtain cs where cs: "snd p = JObj cs" "fields_ok chat_V3_fields cs"
    using TOrUndef_truthy [OF p True] by (rule has_ty_TFieldsE)
  show ?thesis
  proof (cases "truthy (obj_get cs ''groupRoles'')")
    case False
    with prev cs show ?thesis by (cases p) (simp add: migrateChatV3_def)
  next
    case roles: True
    then obtain es where es: "js_entries (obj_get cs ''groupRoles'') = Some es"
      using truthy_entries by blast
    have "has_ty (TFields chat_V4_fields) (JObj (jm_spread cs
        [(''groupAffiliations'', JObj (foldl groupAffiliation [] es))]))"
      using fields_ok_spread [OF cs(2), of "[(''groupAffiliations'', JObj (foldl groupAffiliation [] es))]"]
        groupAffiliations_ok [of es]
      by (simp add: chat_type_defs obj_get_spread)
    then have "has_ty chat_V4 (JObj (jm_set (fst p) (JObj (jm_spread cs
        [(''groupAffiliations'', JObj (foldl groupAffiliation [] es))])) prev))"
      using prev unfolding chat_V4_def by (intro has_ty_TRec_set) simp_all
    with roles cs es show ?thesis by (cases p) (simp add: migrateChatV3_def Let_def)
  qed
qed

lemma migrateV3_ok:
  assumes "stored_ok 3 m" shows "step_ok 3 (migrateV3 m)"
proof -
  have "has_ty (TRec (TOrUndef (TFields chat_V3_fields))) (obj_get m ''chat'')"
    using stored_field [OF assms schema_fields(3)] by (simp only: chat_V3_def)
  moreover have "has_ty chat_V4 (JObj [])" unfolding chat_V4_def by (rule empty_chat)
  ultimately obtain es chat where es: "js_entries (obj_get m ''chat'') = Some es"
    and chat: "reduceM migrateChatV3 [] es = Some chat" "has_ty chat_V4 (JObj chat)"
    using chat_fold_ok [where f = migrateChatV3 and c = chat_V4 and init = "[]"] migrateChatV3_ok
    by blast
  have "step_ok 3 (Some (jm_spread m [(''version'', JNum (int (Suc 3))), (''chat'', JObj chat)]))"
    by (rule chat_step_ok [OF assms]) (simp_all add: interfaces chat)
  then show ?thesis unfolding migrateV3_def es by (simp add: chat)
qed

lemma migrateChatV9_ok:
  assumes prev: "has_ty chat_V10 (JObj prev)" and p: "has_ty (TOrUndef (TFields chat_V4_fields)) (snd p)"
  shows "\<exists>r. migrateChatV9 prev p = Some r \<and> has_ty chat_V10 (JObj r)"
proof (cases "truthy (snd p)")
  case False
  with prev show ?thesis by (cases p) (simp add: migrateChatV9_def)
next
  case True
  obtain cs where cs: "snd p = JObj cs" "fields_ok chat_V4_fields cs"
    using TOrUndef_truthy [OF p True] by (rule has_ty_TFieldsE)
  have "set chat_base \<subseteq> set chat_V4_fields" by (auto simp: chat_V4_fields_def chat_V3_fields_def)
  then obtain xs where xs: "obj_get cs ''messages'' = JArr xs" "\<And>x. x \<in> set xs \<Longrightarrow> is_message x"
    using chat_base_messages [OF cs(2)] by metis
  let ?myId = "opt_prop (obj_get cs ''authenticatedMember'') ''id''"
  show ?thesis
  proof (cases "truthy ?myId")
    case False
    with prev cs True show ?thesis by (cases p) (simp add: migrateChatV9_def Let_def)
  next
    case myId: True
    obtain ids where ids: "getLatestPaymentUpdateIdsForChats (JArr xs) ?myId = Some ids"
      "has_ty (TRec TStr) (JObj ids)"
      using getLatestPaymentUpdateIds_total [of xs ?myId] xs(2) by blast
    obtain upd where upd: "getLatestPaymentUpdate (JArr xs) = Some upd"
      using getLatestPaymentUpdate_total [of xs] xs(2) by blast
    define seen where "seen = (if truthy (opt_prop upd ''id'')
            then JStr (js_str (opt_prop upd ''id'') @ ''_'' @
                   js_str (js_or (opt_prop (opt_prop upd ''payment'') ''updatedAt'') (JNum 0)))
            else JNull)"
    have ids': "has_ty (TRec (TOrUndef TStr)) (JObj ids)"
      using ids(2) by (rule TRec_weaken) simp
    have "has_ty (TFields chat_V10_fields) (JObj (jm_spread cs
        [(''lastReadPaymentUpdateIds'', JObj ids), (''lastSeenPaymentUpdateId'', seen)]))"
      using cs(2) ids'
      by (simp add: chat_type_defs obj_get_spread seen_def del: TRec_JObj)
    then have "has_ty chat_V10 (JObj (jm_set (fst p) (JObj (jm_spread cs
        [(''lastReadPaymentUpdateIds'', JObj ids), (''lastSeenPaymentUpdateId'', seen)])) prev))"
      using prev unfolding chat_V10_def by (intro has_ty_TRec_set) simp_all
    with True myId cs xs ids(1) upd(1) show ?thesis
      by (cases p) (simp add: migrateChatV9_def Let_def seen_def)
  qed
qed

lemma migrateV9_ok:
  assumes "stored_ok 9 m" shows "step_ok 9 (migrateV9 m)"
proof -
  have "has_ty (TRec (TOrUndef (TFields chat_V4_fields))) (obj_get m ''chat'')"
    using stored_field [OF assms schema_fields(5)] by (simp only: chat_V4_def)
  moreover have "has_ty chat_V10 (JObj [])" unfolding chat_V10_def by (rule empty_chat)
  ultimately obtain es chat where es: "js_entries (obj_get m ''chat'') = Some es"
    and chat: "reduceM migrateChatV9 [] es = Some chat" "has_ty chat_V10 (JObj chat)"
    using chat_fold_ok [where f = migrateChatV9 and c = chat_V10 and init = "[]"] migrateChatV9_ok
    by blast
  have "step_ok 9 (Some (jm_spread m [(''version'', JNum (int (Suc 9))), (''chat'', JObj chat)]))"
    by (rule chat_step_ok [OF assms]) (simp_all add: interfaces chat)
  then show ?thesis unfolding migrateV9_def es by (simp add: chat)
qed


lemma groupJoinedAt_total:
  assumes "\<And>x. x \<in> set xs \<Longrightarrow> is_message x" and "has_ty ChatGroup_ty g"
  shows "\<exists>i. groupJoinedAt now xs g = Some (JNum i)"
proof -
  obtain go where g: "g = JObj go" using assms(2) by (auto simp: ChatGroup_ty_def elim!: has_ty_TFieldsE)
  have "\<exists>r. groupJoinedAt now xs g = Some r \<and> is_num r"
    unfolding groupJoinedAt_def
  proof (rule reduceM_inv)
    show "is_num (JNum now)" by simp
  next
    fix a x assume a: "is_num a" and "x \<in> set xs"
    then obtain xo where "x = JObj xo" "is_num (obj_get xo ''sentAt'')"
      using assms(1) by (blast elim: is_messageE)
    with a g show "\<exists>a'. (do {
         sentIn \<leftarrow> js_prop x ''sentIn'';
         gid \<leftarrow> js_prop g ''id'';
         if \<not> js_seq sentIn gid then Some a
         else do { t \<leftarrow> js_prop x ''sentAt''; Some (js_min a t) } }) = Some a' \<and> is_num a'"
      by (auto simp: js_min_def elim!: is_num.elims)
  qed
  then show ?thesis by (metis is_num.elims(2))
qed

lemma migrateChatV11_ok:
  assumes prev: "has_ty chat_V10 (JObj prev)" and p: "has_ty (TOrUndef (TFields chat_V10_fields)) (snd p)"
  shows "\<exists>r. migrateChatV11 now prev p = Some r \<and> has_ty chat_V10 (JObj r)"
proof (cases "truthy (snd p)")
  case False
  with prev show ?thesis by (cases p) (simp add: migrateChatV11_def)
next
  case True
  obtain cs where cs: "snd p = JObj cs" "fields_ok chat_V10_fields cs"
    using TOrUndef_truthy [OF p True] by (rule has_ty_TFieldsE)
  have "set chat_base \<subseteq> set chat_V10_fields"
    by (auto simp: chat_V10_fields_def chat_V4_fields_def chat_V3_fields_def)
  then obtain xs gs where xs: "obj_get cs ''messages'' = JArr xs" "\<And>x. x \<in> set xs \<Longrightarrow> is_message x"
    and gs: "obj_get cs ''groups'' = JArr gs" "\<And>g. g \<in> set gs \<Longrightarrow> has_ty ChatGroup_ty g"
    using chat_base_messages [OF cs(2)] by metis
  have "\<exists>gs'. mapM (migrateGroupV11 now (snd p)) gs = Some gs' \<and> list_all (has_ty ChatGroup_ty) gs'"
  proof (rule mapM_all)
    fix g assume g: "g \<in> set gs"
    then obtain go where go: "g = JObj go" "is_str (obj_get go ''id'')"
      using gs(2) by (fastforce simp: ChatGroup_ty_def elim!: has_ty_TFieldsE)
    obtain i where "groupJoinedAt now xs g = Some (JNum i)"
      using groupJoinedAt_total [of xs g now] xs(2) gs(2) g by blast
    with go xs cs(1) show "\<exists>g'. migrateGroupV11 now (snd p) g = Some g' \<and> has_ty ChatGroup_ty g'"
      by (simp add: migrateGroupV11_def ChatGroup_ty_def obj_get_spread)
  qed
  then obtain gs' where gs': "mapM (migrateGroupV11 now (snd p)) gs = Some gs'"
    "list_all (has_ty ChatGroup_ty) gs'" by blast
  have "has_ty (TFields chat_V10_fields) (JObj (jm_spread cs [(''groups'', JArr gs')]))"
    using cs(2) gs'(2) by (simp add: chat_type_defs obj_get_spread)
  then have "has_ty chat_V10 (JObj (jm_set (fst p) (JObj (jm_spread cs [(''groups'', JArr gs')])) prev))"
    using prev unfolding chat_V10_def by (intro has_ty_TRec_set) simp_all
  with True cs gs(1) gs'(1) show ?thesis
    by (cases p) (simp add: migrateChatV11_def)
qed

lemma migrateV11_ok:
  assumes "stored_ok 11 m" shows "step_ok 11 (migrateV11 now m)"
proof -
  have c: "has_ty chat_V10 (obj_get m ''chat'')"
    by (rule stored_field [OF assms schema_fields(6)])
  then have "has_ty (TRec (TOrUndef (TFields chat_V10_fields))) (obj_get m ''chat'')"
    by (simp only: chat_V10_def)
  moreover from this obtain co where "obj_get m ''chat'' = JObj co" by (rule has_ty_TRecE)
  moreover have "has_ty chat_V10 (JObj (own_entries (obj_get m ''chat'')))"
    using c calculation(2) by simp
  ultimately obtain es chat where es: "js_entries (obj_get m ''chat'') = Some es"
    and chat: "reduceM (migrateChatV11 now) (own_entries (obj_get m ''chat'')) es = Some chat"
      "has_ty chat_V10 (JObj chat)"
    using chat_fold_ok [where f = "migrateChatV11 now" and c = chat_V10] migrateChatV11_ok
    by blast
  have "step_ok 11 (Some (jm_spread m [(''version'', JNum (int (Suc 11))), (''chat'', JObj chat)]))"
    by (rule chat_step_ok [OF assms]) (simp_all add: interfaces chat)
  then show ?thesis unfolding migrateV11_def es by (simp add: chat)
qed


lemma findMessage_total:
  assumes "\<And>x. x \<in> set xs \<Longrightarrow> is_message x"
  shows "\<exists>r. findMessage (JArr xs) i = Some r \<and> (r = JUndef \<or> is_message r)"
proof -
  have "findM (\<lambda>m. do { mid \<leftarrow> js_prop m ''id''; Some (js_seq mid i) }) xs =
      Some (case find (\<lambda>m. js_seq (opt_prop m ''id'') i) xs of None \<Rightarrow> JUndef | Some x \<Rightarrow> x)"
    by (rule findM_total) (use assms message_id in \<open>force simp: opt_prop_def\<close>)
  then show ?thesis using assms
    by (auto simp: findMessage_def split: option.split dest: find_Some_mem)
qed

lemma messageTimestamp_total:
  assumes "x = JUndef \<or> is_message x" and "u = JUndef \<or> is_message u"
  shows "\<exists>t. messageTimestamp x u = Some t \<and> (\<forall>ts. t = Some ts \<longrightarrow> is_num ts)"
proof (cases "truthy x")
  case False
  then show ?thesis by (simp add: messageTimestamp_def)
next
  case True
  with assms(1) have "is_message x" by auto
  then obtain xo where x: "x = JObj xo" "is_num (obj_get xo ''sentAt'')" by (blast elim: is_messageE)
  have "is_num (opt_prop (opt_prop u ''payment'') ''updatedAt'')"
    if "truthy u" "truthy (opt_prop (opt_prop u ''payment'') ''updatedAt'')"
  proof -
    from that(1) assms(2) have "is_message u" by auto
    then obtain uo where "u = JObj uo" "payment_ok (obj_get uo ''payment'')" by (blast elim: is_messageE)
    with that(2) show ?thesis by (auto simp: payment_ok_iff opt_prop_def)
  qed
  with True x show ?thesis by (simp add: messageTimestamp_def Let_def)
qed

lemma readTimestamp_ok:
  assumes "\<And>x. x \<in> set xs \<Longrightarrow> is_message x"
    and "has_ty (TRec (TOrUndef TNum)) (JObj res)"
  shows "\<exists>r. readTimestamp (JArr xs) (JObj ro) (JObj uo) res p = Some r \<and>
    has_ty (TRec (TOrUndef TNum)) (JObj r)"
proof -
  obtain x where x: "findMessage (JArr xs) (obj_get ro (fst p)) = Some x" "x = JUndef \<or> is_message x"
    using findMessage_total [OF assms(1)] by blast
  obtain u where u: "findMessage (JArr xs) (obj_get uo (fst p)) = Some u" "u = JUndef \<or> is_message u"
    using findMessage_total [OF assms(1)] by blast
  obtain t where t: "messageTimestamp x u = Some t" "\<forall>ts. t = Some ts \<longrightarrow> is_num ts"
    using messageTimestamp_total [OF x(2) u(2)] by blast
  have "has_ty (TRec (TOrUndef TNum)) (JObj (case t of None \<Rightarrow> res | Some ts \<Rightarrow> jm_set (fst p) ts res))"
    using assms(2) t(2) by (cases t) (auto simp del: TRec_JObj intro: has_ty_TRec_set)
  with x u t show ?thesis by (simp add: readTimestamp_def split_beta)
qed

lemma migrateChatV13_ok:
  assumes prev: "has_ty chat_V14 (JObj prev)" and p: "has_ty (TOrUndef (TFields chat_V10_fields)) (snd p)"
  shows "\<exists>r. migrateChatV13 prev p = Some r \<and> has_ty chat_V14 (JObj r)"
proof (cases "truthy (snd p)")
  case False
  with prev show ?thesis by (cases p) (simp add: migrateChatV13_def)
next
  case True
  obtain cs where cs: "snd p = JObj cs" "fields_ok chat_V10_fields cs"
    using TOrUndef_truthy [OF p True] by (rule has_ty_TFieldsE)
  have "set chat_base \<subseteq> set chat_V10_fields"
    by (auto simp: chat_V10_fields_def chat_V4_fields_def chat_V3_fields_def)
  then obtain xs where xs: "obj_get cs ''messages'' = JArr xs" "\<And>x. x \<in> set xs \<Longrightarrow> is_message x"
    using chat_base_messages [OF cs(2)] by metis
  obtain ro uo where ro: "obj_get cs ''lastReadMessageIds'' = JObj ro"
    and uo: "obj_get cs ''lastReadPaymentUpdateIds'' = JObj uo"
    using cs(2) by (auto simp: chat_type_defs elim!: has_ty_TRecE)
  obtain stamps where stamps: "reduceM (readTimestamp (JArr xs) (JObj ro) (JObj uo)) [] ro = Some stamps"
    "has_ty (TRec (TOrUndef TNum)) (JObj stamps)"
    using reduceM_inv [where P = "\<lambda>r. has_ty (TRec (TOrUndef TNum)) (JObj r)"
        and f = "readTimestamp (JArr xs) (JObj ro) (JObj uo)" and acc = "[]" and xs = ro]
      readTimestamp_ok [of xs] xs(2) empty_chat by blast
  obtain x where x: "findMessage (JArr xs) (obj_get cs ''lastSeenMessageId'') = Some x"
    "x = JUndef \<or> is_message x"
    using findMessage_total [OF xs(2)] by blast
  obtain u where u: "findMessage (JArr xs) (obj_get cs ''lastSeenPaymentUpdateId'') = Some u"
    "u = JUndef \<or> is_message u"
    using findMessage_total [OF xs(2)] by blast
  obtain t where t: "messageTimestamp x u = Some t" "\<forall>ts. t = Some ts \<longrightarrow> is_num ts"
    using messageTimestamp_total [OF x(2) u(2)] by blast
  define seen where "seen = (case t of None \<Rightarrow> JNull | Some ts \<Rightarrow> ts)"
  have seen: "has_ty (TOpt TNum) seen" using t(2) by (cases t) (auto simp: seen_def)
  define cs' where "cs' = jm_spread (jm_omit
           [''lastReadMessageIds'', ''lastReadPaymentUpdateIds'',
            ''lastSeenMessageId'', ''lastSeenPaymentUpdateId''] cs)
           [(''lastReadMessageTimestamps'', JObj stamps), (''lastSeenMessageTimestamp'', seen)]"
  have "has_ty (TOrUndef (TFields (chat_base @
     [(''groupAffiliations'', TRec (TOrUndef TStr)),
      (''lastReadMessageTimestamps'', TRec (TOrUndef TNum)),
      (''lastSeenMessageTimestamp'', TOpt TNum)]))) (JObj cs')"
    using cs(2) stamps(2) seen
    by (simp add: chat_type_defs obj_get_spread obj_get_omit cs'_def del: TRec_JObj)
  then have c: "has_ty chat_V14 (JObj (jm_set (fst p) (JObj cs') prev))"
    using prev unfolding chat_V14_def by (intro has_ty_TRec_set)
  show ?thesis
  proof (cases "truthy (opt_prop (obj_get cs ''authenticatedMember'') ''id'')")
    case False
    with prev cs show ?thesis by (cases p) (simp add: migrateChatV13_def)
  next
    case myId: True
    have "migrateChatV13 prev p = Some (jm_set (fst p) (JObj cs') prev)"
      using True myId cs(1) xs(1) ro uo stamps(1) x(1) u(1) t(1)
      by (cases p) (simp add: migrateChatV13_def Let_def js_entries_def cs'_def seen_def)
    with c show ?thesis by blast
  qed
qed

lemma migrateV13_ok:
  assumes "stored_ok 13 m" shows "step_ok 13 (migrateV13 m)"
proof -
  have "has_ty (TRec (TOrUndef (TFields chat_V10_fields))) (obj_get m ''chat'')"
    using stored_field [OF assms schema_fields(7)] by (simp only: chat_V10_def)
  moreover have "has_ty chat_V14 (JObj [])" unfolding chat_V14_def by (rule empty_chat)
  ultimately obtain es chat where es: "js_entries (obj_get m ''chat'') = Some es"
    and chat: "reduceM migrateChatV13 [] es = Some chat" "has_ty chat_V14 (JObj chat)"
    using chat_fold_ok [where f = migrateChatV13 and c = chat_V14 and init = "[]"] migrateChatV13_ok
    by blast
  have "step_ok 13 (Some (jm_spread m [(''version'', JNum (int (Suc 13))), (''chat'', JObj chat)]))"
    by (rule chat_step_ok [OF assms]) (simp_all add: interfaces chat)
  then show ?thesis unfolding migrateV13_def es by (simp add: chat)
qed

section \<open>The chain\<close>

lemmas migrate_oks = migrateV0_ok migrateV1_ok migrateV2_ok migrateV3_ok migrateV4_ok migrateV5_ok
  migrateV6_ok migrateV7_ok migrateV8_ok migrateV9_ok migrateV10_ok migrateV11_ok migrateV12_ok
  migrateV13_ok migrateV14_ok migrateV15_ok migrateV16_ok migrateV17_ok migrateV18_ok migrateV19_ok
  migrateV20_ok migrateV21_ok migrateV22_ok migrateV23_ok migrateV24_ok migrateV25_ok migrateV26_ok
  migrateV27_ok migrateV28_ok migrateV29_ok migrateV30_ok migrateV31_ok migrateV32_ok migrateV33_ok
  migrateV34_ok migrateV35_ok migrateV36_ok migrateV37_ok migrateV38_ok migrateV39_ok migrateV40_ok
  migrateV41_ok migrateV42_ok migrateV43_ok migrateV44_ok migrateV45_ok migrateV46_ok migrateV47_ok
  migrateV48_ok

lemma length_migrations: "length (migrations now getItem) = latest_version"
  by (simp add: migrations_def latest_version_def)

lemma all_below_49:
  "k < (49::nat) \<Longrightarrow> k \<in> set [0,1,2,3,4,5,6,7,8,9,10,11,12,13,14,15,16,17,18,19,20,21,22,23,24,
     25,26,27,28,29,30,31,32,33,34,35,36,37,38,39,40,41,42,43,44,45,46,47,48]"
  by (simp, presburger)

lemma migrations_step:
  assumes "k < 49" and "stored_ok k m"
  shows "step_ok k ((migrations now getItem ! k) m)"
  using all_below_49 [OF assms(1)] assms(2)
  unfolding list.set insert_iff empty_iff
  by (elim disjE FalseE; hypsubst; simp add: migrations_def migrate_oks [simplified])


interpretation stored: migration_chain "migrations now getItem" stored_ok for now getItem
proof
  fix k m assume "stored_ok k m"
  then show "obj_get m ''version'' = JNum (int k)" by (rule stored_ok_version)
next
  fix k m assume "k < length (migrations now getItem)" "stored_ok k m"
  then show "\<exists>m'. (migrations now getItem ! k) m = Some m' \<and> stored_ok (Suc k) m'"
    using migrations_step [of k m now getItem]
    by (simp add: length_migrations latest_version_def step_ok_def)
qed

section \<open>Fields no migration touches\<close>

text \<open>
  Preferences that every version from 1 on carries under the same name: the language, the
  currency override, the guardian session, the community mini-apps and the input unit.
\<close>

definition carried :: "string list" where
  "carried = [''language'', ''currency'', ''authenticatedGuardian'', ''customFediMods'',
     ''amountInputType'']"

definition frames :: "(obj \<Rightarrow> obj option) \<Rightarrow> bool" where
  "frames g = (\<forall>m m' f. g m = Some m' \<longrightarrow> f \<in> set carried \<longrightarrow> obj_get m' f = obj_get m f)"

lemmas migrate_defs = migrateV1_def migrateV2_def migrateV3_def migrateV4_def migrateV5_def
  migrateV6_def migrateV7_def migrateV8_def migrateV9_def migrateV10_def migrateV11_def migrateV12_def
  migrateV13_def migrateV14_def migrateV15_def migrateV16_def migrateV17_def migrateV18_def migrateV19_def
  migrateV20_def migrateV21_def migrateV22_def migrateV23_def migrateV24_def migrateV25_def migrateV26_def
  migrateV27_def migrateV28_def migrateV29_def migrateV30_def migrateV31_def migrateV32_def migrateV33_def
  migrateV34_def migrateV35_def migrateV36_def migrateV37_def migrateV38_def migrateV39_def migrateV40_def
  migrateV41_def migrateV42_def migrateV43_def migrateV44_def migrateV45_def migrateV46_def migrateV47_def
  migrateV48_def

definition not_carried :: "string \<Rightarrow> bool" where
  "not_carried x = (x \<notin> set carried)"

lemma not_carried_iff:
  "not_carried x \<longleftrightarrow> x \<noteq> ''language'' \<and> x \<noteq> ''currency'' \<and> x \<noteq> ''authenticatedGuardian'' \<and>
     x \<noteq> ''customFediMods'' \<and> x \<noteq> ''amountInputType''"
  by (simp add: not_carried_def carried_def)

lemma frames_spread:
  assumes "list_all (\<lambda>p. not_carried (fst p)) kvs" and "f \<in> set carried"
  shows "obj_get (jm_spread m kvs) f = obj_get m f"
proof -
  have "f \<notin> fst ` set (rev kvs)" using assms by (auto simp: list_all_iff not_carried_def)
  then have "map_of (rev kvs) f = None" by (simp only: map_of_eq_None_iff not_False_eq_True)
  then show ?thesis by (simp add: obj_get_spread)
qed

lemma frames_omit:
  "list_all not_carried ks \<Longrightarrow> f \<in> set carried \<Longrightarrow> obj_get (jm_omit ks m) f = obj_get m f"
  by (auto simp: obj_get_omit list_all_iff not_carried_def)

lemma migrations_frame: "g \<in> set (tl (migrations now getItem)) \<Longrightarrow> frames g"
  unfolding migrations_def list.sel list.set insert_iff empty_iff
  by (elim disjE FalseE; hypsubst; unfold frames_def migrate_defs Let_def;
      clarsimp simp: bind_eq_Some_conv frames_spread frames_omit not_carried_iff)

lemma run_migrations_frame:
  assumes "\<And>g. g \<in> set fs \<Longrightarrow> frames g" and "f \<in> set carried"
    and "run_migrations k fs m = Some m'"
  shows "obj_get m' f = obj_get m f"
  using assms(1,3)
proof (induction fs arbitrary: k m)
  case Nil
  then show ?case by simp
next
  case (Cons g fs)
  show ?case
  proof (cases "js_seq (obj_get m ''version'') (JNum (int k))")
    case True
    with Cons.prems(2) obtain m1 where m1: "g m = Some m1" "run_migrations (Suc k) fs m1 = Some m'"
      by (auto simp: bind_eq_Some_conv)
    have "obj_get m1 f = obj_get m f"
      using Cons.prems(1) [of g] m1(1) assms(2) by (simp add: frames_def)
    with Cons.IH [OF _ m1(2)] Cons.prems(1) show ?thesis by simp
  next
    case False
    with Cons show ?thesis by simp
  qed
qed

section \<open>Properties\<close>


definition v1_example :: obj where
  "v1_example =
     [(''version'', JNum 1), (''language'', JStr ''en''), (''currency'', JNull),
      (''activeFederationId'', JStr ''fed1''), (''authenticatedGuardian'', JNull),
      (''chatIdentities'', JObj [(''fed1'', JObj [(''id'', JStr ''alice'')])])]"


text \<open>A state that is already of the latest version is returned as it is.\<close>

theorem migrateStoredState_latest:
  assumes "stored_ok latest_version m"
  shows "migrateStoredState now getItem (JObj m) = Some m"
  using stored.run_latest [of now getItem m] assms
  by (simp add: migrateStoredState_def length_migrations)


theorem migrateStoredState_latest_witness:
  "stored_ok latest_version (the (migrateStoredState 0 (\<lambda>_. None) (JObj [(''version'', JNum 0)]))) \<and>
   migrateStoredState 5 (\<lambda>_. Some ''x'')
     (JObj (the (migrateStoredState 0 (\<lambda>_. None) (JObj [(''version'', JNum 0)])))) =
   migrateStoredState 0 (\<lambda>_. None) (JObj [(''version'', JNum 0)])"
proof -
  have z: "stored_ok 0 [(''version'', JNum 0)]" by code_simp
  have le: "0 \<le> latest_version" by simp
  obtain m' where m': "migrateStoredState 0 (\<lambda>_. None) (JObj [(''version'', JNum 0)]) = Some m'"
    and ok: "stored_ok latest_version m'"
    using stored.run_chain [of 0 _ 0 "\<lambda>_. None", OF z] le
    by (auto simp: migrateStoredState_def length_migrations)
  from m' ok migrateStoredState_latest [OF ok, of 5 "\<lambda>_. Some ''x''"] show ?thesis by simp
qed

text \<open>
  No preference is lost on the way: from version 1 on, the language, the currency override,
  the guardian session, the community mini-apps and the amount input unit of the migrated state
  are the ones that were stored.
\<close>

theorem migrateStoredState_keeps_preferences:
  assumes "obj_get m ''version'' \<noteq> JNum 0" and "f \<in> set carried"
    and "migrateStoredState now getItem (JObj m) = Some m'"
  shows "obj_get m' f = obj_get m f"
proof -
  have "migrations now getItem = hd (migrations now getItem) # tl (migrations now getItem)"
    by (simp add: migrations_def)
  then have "run_migrations 0 (migrations now getItem) m =
      run_migrations (Suc 0) (tl (migrations now getItem)) m"
    using assms(1) by (metis int_ops(1) js_seq_def run_migrations.simps(2))
  with assms(3) have "run_migrations (Suc 0) (tl (migrations now getItem)) m = Some m'"
    by (simp add: migrateStoredState_def)
  then show ?thesis
    by (rule run_migrations_frame [rotated 2]) (use migrations_frame assms(2) in auto)
qed

theorem migrateStoredState_keeps_preferences_witness:
  "\<exists>m'. migrateStoredState 7 (\<lambda>_. None) (JObj v1_example) = Some m' \<and>
     obj_get m' ''language'' = JStr ''en''"
proof -
  have h: "stored_ok 1 v1_example" by code_simp
  obtain m' where m': "migrateStoredState 7 (\<lambda>_. None) (JObj v1_example) = Some m'"
    using stored.run_chain [of 1 _ 7 "\<lambda>_. None", OF h]
    by (auto simp: migrateStoredState_def length_migrations latest_version_def)
  have "obj_get v1_example ''version'' \<noteq> JNum 0" by code_simp
  moreover have "''language'' \<in> set carried" by code_simp
  moreover have "obj_get v1_example ''language'' = JStr ''en''" by code_simp
  ultimately show ?thesis
    using migrateStoredState_keeps_preferences [OF _ _ m'] m' by metis
qed

text \<open>
  The migration to version 4 keeps the affiliation of at most one group of each chat: the
  reducing callback returns a fresh object and drops the entries it had accumulated.
\<close>

theorem groupAffiliations_at_most_one:
  "length (foldl groupAffiliation [] roles) \<le> 1"
proof -
  have "length acc \<le> 1 \<Longrightarrow> length (foldl groupAffiliation acc roles) \<le> 1" for acc
    by (induction roles arbitrary: acc) (auto simp: groupAffiliation_def split: prod.splits)
  then show ?thesis by simp
qed

text \<open>
  The migration to version 14 never finds a payment update: version 10 stored the update as
  the message's identifier followed by an underscore and a time, and version 14 looks for a
  message whose identifier is that whole string. With message identifiers that contain no
  underscore the search always comes back empty.
\<close>

theorem payment_update_never_found:
  assumes "\<And>x. x \<in> set xs \<Longrightarrow> is_message x"
    and "\<And>x s. x \<in> set xs \<Longrightarrow> js_prop x ''id'' = Some (JStr s) \<Longrightarrow> CHR ''_'' \<notin> set s"
    and "payment_update_id m = Some u"
  shows "findMessage (JArr xs) u = Some JUndef"
proof -
  obtain w where w: "u = JStr w" "CHR ''_'' \<in> set w"
    using assms(3) by (auto simp: payment_update_id_def bind_eq_Some_conv)
  let ?q = "\<lambda>m. js_seq (opt_prop m ''id'') u"
  have "findM (\<lambda>m. do { mid \<leftarrow> js_prop m ''id''; Some (js_seq mid u) }) xs =
      Some (case find ?q xs of None \<Rightarrow> JUndef | Some x \<Rightarrow> x)"
    by (rule findM_total) (use assms(1) message_id in \<open>force simp: opt_prop_def\<close>)
  moreover have "\<not> ?q x" if "x \<in> set xs" for x
    using message_id [OF assms(1) [OF that]] assms(2) [OF that] w
    by (auto simp: js_seq_def opt_prop_def)
  then have "find ?q xs = None" by (simp add: find_None_iff)
  ultimately show ?thesis by (simp add: findMessage_def)
qed

definition payment_message :: jv where
  "payment_message = JObj [(''id'', JStr ''m1''), (''sentAt'', JNum 10), (''sentBy'', JStr ''bob''),
     (''sentTo'', JStr ''alice''), (''payment'', JObj [(''updatedAt'', JNum 20)])]"

theorem payment_update_never_found_witness:
  "payment_update_id payment_message = Some (JStr ''m1_20'') \<and>
   findMessage (JArr [payment_message]) (JStr ''m1_20'') = Some JUndef"
proof -
  have m: "is_message payment_message" by code_simp
  have u: "payment_update_id payment_message = Some (JStr ''m1_20'')" by code_simp
  have i: "js_prop payment_message ''id'' = Some (JStr ''m1'')" by code_simp
  have "findMessage (JArr [payment_message]) (JStr ''m1_20'') = Some JUndef"
    by (rule payment_update_never_found [OF _ _ u]) (use m i in auto)
  with u show ?thesis by simp
qed

end
