(* ===== verification/State_Persistence.thy ===== *)
theory State_Persistence
  imports Stored_State
begin

text \<open>
  \<^verbatim>\<open>ui/common/utils/storage.ts\<close>, the writing side: \<^verbatim>\<open>transformStateToStorage\<close>, which picks the
  persisted fields out of the Redux state, and \<^verbatim>\<open>hasStorageStateChanged\<close>, which decides after
  every action whether to write at all.

  The latter compares by reference (\<^verbatim>\<open>!==\<close>), so the state is modelled over references: a slice
  maps a key to a reference of an arbitrary type \<open>'r\<close> whose equality is JavaScript's \<^verbatim>\<open>===\<close>;
  a missing key is \<^verbatim>\<open>undefined\<close> (\<open>None\<close>).
\<close>

type_synonym 'r CommonState = "string \<Rightarrow> string \<Rightarrow> 'r option"

datatype 'r stored_field =
    Version nat
  | Ref "'r option"
  | Nested "(string \<times> 'r option) list"

text \<open>Where each field of the latest stored state comes from: slice and key.\<close>

definition persisted_paths :: "(string \<times> string \<times> string) list" where
  "persisted_paths =
    [(''onchainDepositsEnabled'', ''environment'', ''onchainDepositsEnabled''),
     (''developerMode'', ''environment'', ''developerMode''),
     (''stableBalanceEnabled'', ''environment'', ''stableBalanceEnabled''),
     (''language'', ''environment'', ''language''),
     (''amountInputType'', ''environment'', ''amountInputType''),
     (''transactionDisplayType'', ''environment'', ''transactionDisplayType''),
     (''deviceId'', ''environment'', ''deviceId''),
     (''currency'', ''currency'', ''overrideCurrency''),
     (''btcUsdRate'', ''currency'', ''btcUsdRate''),
     (''fiatUsdRates'', ''currency'', ''fiatUsdRates''),
     (''customFederationCurrencies'', ''currency'', ''customFederationCurrencies''),
     (''authenticatedGuardian'', ''federation'', ''authenticatedGuardian''),
     (''customFediMods'', ''federation'', ''customFediMods''),
     (''nuxSteps'', ''nux'', ''steps''),
     (''matrixAuth'', ''matrix'', ''auth''),
     (''protectedFeatures'', ''security'', ''protectedFeatures''),
     (''customGlobalMods'', ''mod'', ''customGlobalMods''),
     (''miniAppPermissions'', ''mod'', ''miniAppPermissions''),
     (''miniAppOrder'', ''mod'', ''miniAppOrder''),
     (''modVisibility'', ''mod'', ''modVisibility''),
     (''newMods'', ''mod'', ''newMods''),
     (''chatDrafts'', ''matrix'', ''drafts''),
     (''seenFederationRatings'', ''federation'', ''seenFederationRatings''),
     (''lastShownSurveyTimestamp'', ''survey'', ''lastShownSurveyTimestamp''),
     (''surveyCompletions'', ''survey'', ''surveyCompletions''),
     (''lastSelectedCommunityId'', ''federation'', ''lastSelectedCommunityId''),
     (''recentlyUsedFederationIds'', ''federation'', ''recentlyUsedFederationIds''),
     (''previouslyAutojoinedCommunities'', ''federation'', ''previouslyAutojoinedCommunities''),
     (''autojoinNoticesToDisplay'', ''federation'', ''autojoinNoticesToDisplay''),
     (''analyticsId'', ''analytics'', ''analyticsId''),
     (''hasConsentedToAnalytics'', ''analytics'', ''hasConsentedToAnalytics''),
     (''sessionCount'', ''environment'', ''sessionCount''),
     (''hasSeenAnalyticsConsentModal'', ''analytics'', ''hasSeenAnalyticsConsentModal''),
     (''balanceDisplay'', ''currency'', ''balanceDisplay''),
     (''lastUsedTab'', ''environment'', ''lastUsedTab''),
     (''rejectedRoomInvites'', ''matrix'', ''rejectedRoomInvites''),
     (''seenRoomInvites'', ''matrix'', ''seenRoomInvites''),
     (''seenKnockRequests'', ''matrix'', ''seenKnockRequests''),
     (''paymentType'', ''environment'', ''paymentType''),
     (''selectedFederationId'', ''federation'', ''selectedFederationId''),
     (''latestAwareReleaseTag'', ''environment'', ''latestAwareReleaseTag'')]"

definition transformStateToStorage :: "'r CommonState \<Rightarrow> (string \<times> 'r stored_field) list" where
  "transformStateToStorage state =
     (''version'', Version 49) #
     (''personalBackupReminder'', Nested
        [(''countdownStartedAt'', state ''personalBackupReminder'' ''countdownStartedAt''),
         (''hasReachedThresholds'', state ''personalBackupReminder'' ''hasReachedThresholds'')]) #
     (''support'', Nested
        [(''supportPermissionGranted'', state ''support'' ''supportPermissionGranted''),
         (''zendeskPushNotificationToken'', state ''support'' ''zendeskPushNotificationToken'')]) #
     map (\<lambda>(f, slice, key). (f, Ref (state slice key))) persisted_paths"

definition keysetsToCheck :: "(string \<times> string) list" where
  "keysetsToCheck =
    [(''environment'', ''language''), (''environment'', ''amountInputType''),
     (''environment'', ''onchainDepositsEnabled''), (''environment'', ''developerMode''),
     (''environment'', ''stableBalanceEnabled''), (''environment'', ''transactionDisplayType''),
     (''environment'', ''deviceId''), (''environment'', ''sessionCount''),
     (''environment'', ''lastUsedTab''), (''environment'', ''paymentType''),
     (''environment'', ''latestAwareReleaseTag''), (''currency'', ''overrideCurrency''),
     (''currency'', ''customFederationCurrencies''), (''currency'', ''prices''),
     (''currency'', ''balanceDisplay''), (''federation'', ''recentlyUsedFederationIds''),
     (''federation'', ''lastSelectedCommunityId''), (''federation'', ''authenticatedGuardian''),
     (''federation'', ''seenFederationRatings''), (''federation'', ''previouslyAutojoinedCommunities''),
     (''federation'', ''autojoinNoticesToDisplay''), (''federation'', ''selectedFederationId''),
     (''matrix'', ''drafts''), (''matrix'', ''rejectedRoomInvites''), (''matrix'', ''seenRoomInvites''),
     (''matrix'', ''seenKnockRequests''), (''federation'', ''customFediMods''), (''matrix'', ''auth''),
     (''nux'', ''steps''), (''personalBackupReminder'', ''countdownStartedAt''),
     (''personalBackupReminder'', ''hasReachedThresholds''), (''security'', ''protectedFeatures''),
     (''mod'', ''customGlobalMods''), (''mod'', ''miniAppOrder''), (''mod'', ''modVisibility''),
     (''mod'', ''newMods''), (''mod'', ''miniAppPermissions''),
     (''support'', ''supportPermissionGranted''), (''support'', ''zendeskPushNotificationToken''),
     (''survey'', ''lastShownSurveyTimestamp''), (''survey'', ''surveyCompletions''),
     (''analytics'', ''analyticsId''), (''analytics'', ''hasConsentedToAnalytics''),
     (''analytics'', ''hasSeenAnalyticsConsentModal'')]"

definition hasStorageStateChanged :: "'r CommonState \<Rightarrow> 'r CommonState \<Rightarrow> bool" where
  "hasStorageStateChanged oldState newState =
     list_ex (\<lambda>(slice, key). oldState slice key \<noteq> newState slice key) keysetsToCheck"

section \<open>Lemmas\<close>

definition watched :: "string \<Rightarrow> string \<Rightarrow> bool" where
  "watched slice key = ((slice, key) \<in> set keysetsToCheck)"

lemma unchanged_watched:
  "\<not> hasStorageStateChanged s t \<Longrightarrow> watched slice key \<Longrightarrow> s slice key = t slice key"
  by (force simp: hasStorageStateChanged_def watched_def list_ex_iff)

lemma persisted_watched:
  "list_all (\<lambda>(f, slice, key). watched slice key \<or> f = ''btcUsdRate'' \<or> f = ''fiatUsdRates'') persisted_paths"
  by code_simp

lemma nested_watched:
  "watched ''personalBackupReminder'' ''countdownStartedAt''"
  "watched ''personalBackupReminder'' ''hasReachedThresholds''"
  "watched ''support'' ''supportPermissionGranted''"
  "watched ''support'' ''zendeskPushNotificationToken''"
  by code_simp+

lemma stored_names:
  "map fst (transformStateToStorage state) =
     ''version'' # ''personalBackupReminder'' # ''support'' # map fst persisted_paths"
  by (simp add: transformStateToStorage_def split_beta comp_def)

lemma distinct_stored_names: "distinct (map fst (transformStateToStorage state))"
  unfolding stored_names by code_simp

text \<open>What the detector does not report, the writer would write the same.\<close>

lemma unchanged_fields:
  assumes "\<not> hasStorageStateChanged s t" and "f \<noteq> ''btcUsdRate''" and "f \<noteq> ''fiatUsdRates''"
  shows "map_of (transformStateToStorage s) f = map_of (transformStateToStorage t) f"
proof -
  have "map_of (map (\<lambda>(f, slice, key). (f, Ref (s slice key))) ps) f =
        map_of (map (\<lambda>(f, slice, key). (f, Ref (t slice key))) ps) f"
    if "list_all (\<lambda>(f, slice, key). watched slice key \<or> f = ''btcUsdRate'' \<or> f = ''fiatUsdRates'') ps"
    for ps
    using that
    by (induction ps) (auto simp: assms(2,3) dest: unchanged_watched [OF assms(1)])
  from this [OF persisted_watched] show ?thesis
    using nested_watched [THEN unchanged_watched [OF assms(1)]]
    by (simp add: transformStateToStorage_def)
qed

section \<open>Properties\<close>

text \<open>
  Every field the latest stored-state interface requires is written, under its own name and
  exactly once, and the version written is the latest one.
\<close>

theorem transformStateToStorage_covers_schema:
  "distinct (map fst (transformStateToStorage state)) \<and>
   fst ` set (schema latest_version) \<subseteq> fst ` set (transformStateToStorage state) \<and>
   map_of (transformStateToStorage state) ''version'' = Some (Version latest_version)"
proof -
  let ?names = "''version'' # ''personalBackupReminder'' # ''support'' # map fst persisted_paths"
  have n: "map fst (transformStateToStorage state) = ?names"
    by (simp add: transformStateToStorage_def split_beta comp_def)
  have "distinct ?names" by code_simp
  moreover have "list_all (\<lambda>f. f \<in> set ?names) (map fst (schema latest_version))" by code_simp
  then have "fst ` set (schema latest_version) \<subseteq> set ?names"
    by (auto simp: list_all_iff)
  moreover have "fst ` set (transformStateToStorage state) = set ?names"
    using n by (metis list.set_map)
  moreover have "map_of (transformStateToStorage state) ''version'' = Some (Version latest_version)"
    by (simp add: transformStateToStorage_def latest_version_def)
  ultimately show ?thesis by (simp only: n simp_thms)
qed

text \<open>
  The change detector is sound for everything but the exchange rates: when it reports no
  change, every stored field except the two rates is the same in both states, so skipping the
  write loses nothing else.
\<close>

theorem hasStorageStateChanged_sound:
  assumes "\<not> hasStorageStateChanged s t" and "f \<noteq> ''btcUsdRate''" and "f \<noteq> ''fiatUsdRates''"
  shows "map_of (transformStateToStorage s) f = map_of (transformStateToStorage t) f"
  by (rule unchanged_fields [OF assms])

theorem hasStorageStateChanged_sound_witness:
  "\<not> hasStorageStateChanged (\<lambda>_ _. Some (1::nat)) ((\<lambda>_ _. Some 1) (''toast'' := (\<lambda>_. Some 2))) \<and>
   map_of (transformStateToStorage (\<lambda>_ _. Some (1::nat))) ''language'' =
   map_of (transformStateToStorage ((\<lambda>_ _. Some 1) (''toast'' := (\<lambda>_. Some 2)))) ''language''"
proof -
  have h: "\<not> hasStorageStateChanged (\<lambda>_ _. Some (1::nat)) ((\<lambda>_ _. Some 1) (''toast'' := (\<lambda>_. Some 2)))"
    by code_simp
  from h hasStorageStateChanged_sound [OF h, of "''language''"] show ?thesis by simp
qed

text \<open>
  The exchange rates are outside what the detector watches: it looks at a key \<^verbatim>\<open>prices\<close> of
  the currency slice, while the fields that are stored are \<^verbatim>\<open>btcUsdRate\<close> and \<^verbatim>\<open>fiatUsdRates\<close>. Two
  states that differ in the stored rate are reported as unchanged.
\<close>

theorem exchange_rates_not_watched:
  "\<exists>s t :: nat CommonState. \<not> hasStorageStateChanged s t \<and>
     map_of (transformStateToStorage s) ''btcUsdRate'' \<noteq>
     map_of (transformStateToStorage t) ''btcUsdRate''"
proof -
  let ?s = "\<lambda>_ _. Some (1::nat)"
  let ?t = "\<lambda>slice key. if key = ''btcUsdRate'' then Some (2::nat) else Some 1"
  have "\<not> hasStorageStateChanged ?s ?t" by code_simp
  moreover have "map_of (transformStateToStorage ?s) ''btcUsdRate'' \<noteq>
     map_of (transformStateToStorage ?t) ''btcUsdRate''" by code_simp
  ultimately show ?thesis by blast
qed

end
