(* ===== verification/Redux_Utils.thy ===== *)
theory Redux_Utils
  imports Js_Value
begin

text \<open>
  \<^verbatim>\<open>ui/common/utils/redux.ts\<close>: the upserts the reducers use to merge entities into lists and
  records. Entities are JavaScript objects, so the spreads are the ones of the source; the deep
  comparison \<^verbatim>\<open>isEqual\<close> is lodash's and a parameter of every definition. The only law of it
  that the lemmas use is that a value is equal to itself.
\<close>

section \<open>Definitions\<close>

text \<open>\<^verbatim>\<open>{ ...oldItem, ...item }\<close> with the listed fields merged one level deeper.\<close>

definition nested_merge :: "obj \<Rightarrow> obj \<Rightarrow> string \<Rightarrow> obj \<Rightarrow> obj" where
  "nested_merge oldItem item field updated =
     jm_set field
       (JObj (jm_spread (own_entries (obj_get oldItem field)) (own_entries (obj_get item field))))
       updated"

definition updatedEntity :: "string list option \<Rightarrow> obj \<Rightarrow> obj \<Rightarrow> obj" where
  "updatedEntity nestedFields oldItem item =
     (case nestedFields of
        None \<Rightarrow> jm_spread oldItem item
      | Some fields \<Rightarrow> fold (nested_merge oldItem item) fields (jm_spread oldItem item))"

text \<open>The callback of \<^verbatim>\<open>list.map\<close> and the two flags it assigns.\<close>

fun upsert_visit ::
  "(obj \<Rightarrow> obj \<Rightarrow> bool) \<Rightarrow> string list option \<Rightarrow> obj \<Rightarrow> obj \<Rightarrow> bool \<times> bool \<times> obj list \<Rightarrow>
   bool \<times> bool \<times> obj list" where
  "upsert_visit isEqual nestedFields item oldItem (addToEnd, wasEqual, newList) =
     (if \<not> js_seq (obj_get oldItem ''id'') (obj_get item ''id'')
      then (addToEnd, wasEqual, newList @ [oldItem])
      else let updated = updatedEntity nestedFields oldItem item
           in (False, isEqual oldItem updated, newList @ [updated]))"

definition upsertListItem ::
  "(obj \<Rightarrow> obj \<Rightarrow> bool) \<Rightarrow> obj list option \<Rightarrow> obj \<Rightarrow> string list option \<Rightarrow>
   (obj list \<Rightarrow> obj list) option \<Rightarrow> obj list" where
  "upsertListItem isEqual list_arg item nestedFields sort_arg =
     (let items = (case list_arg of None \<Rightarrow> [] | Some xs \<Rightarrow> xs);
          (addToEnd, wasEqual, newList) =
            fold (upsert_visit isEqual nestedFields item) items (True, False, [])
      in if \<not> addToEnd \<and> wasEqual then items
         else let newList = (if addToEnd then newList @ [item] else newList)
              in (case sort_arg of None \<Rightarrow> newList | Some f \<Rightarrow> f newList))"

definition upsertRecordEntityId ::
  "(jv \<Rightarrow> jv \<Rightarrow> bool) \<Rightarrow> obj option \<Rightarrow> jv \<Rightarrow> string \<Rightarrow> obj" where
  "upsertRecordEntityId isEqual record_arg entity entityId =
     (let rec = (case record_arg of None \<Rightarrow> [] | Some r \<Rightarrow> r); old = obj_get rec entityId
      in if truthy old \<and> isEqual old entity then rec
         else jm_set entityId
                (JObj (jm_spread (own_entries (js_or old (JObj []))) (own_entries entity))) rec)"

definition upsertRecordEntity ::
  "(jv \<Rightarrow> jv \<Rightarrow> bool) \<Rightarrow> obj option \<Rightarrow> obj \<Rightarrow> obj" where
  "upsertRecordEntity isEqual record_arg entity =
     (let rec = (case record_arg of None \<Rightarrow> [] | Some r \<Rightarrow> r);
          i = js_str (obj_get entity ''id''); old = obj_get rec i
      in if truthy old \<and> isEqual old (JObj entity) then rec
         else jm_set i (JObj (jm_spread (own_entries (js_or old (JObj []))) entity)) rec)"

definition upsertRecordList ::
  "('a list \<Rightarrow> 'a list \<Rightarrow> bool) \<Rightarrow> (string, 'a list) jsmap option \<Rightarrow> 'a list \<Rightarrow> string \<Rightarrow>
   (string, 'a list) jsmap" where
  "upsertRecordList isEqual record_arg entity entityId =
     (let rec = (case record_arg of None \<Rightarrow> [] | Some r \<Rightarrow> r)
      in case jm_get rec entityId of
           Some old \<Rightarrow>
             if isEqual old entity then rec else jm_set entityId (old @ entity) rec
         | None \<Rightarrow> jm_set entityId entity rec)"

section \<open>Lemmas\<close>

abbreviation item_id :: "obj \<Rightarrow> jv" where
  "item_id x \<equiv> obj_get x ''id''"

lemma obj_get_updatedEntity_other:
  assumes "\<And>fs. nestedFields = Some fs \<Longrightarrow> k \<notin> set fs"
  shows "obj_get (updatedEntity nestedFields oldItem item) k = obj_get (jm_spread oldItem item) k"
proof -
  have "k \<notin> set fs \<Longrightarrow> obj_get (fold (nested_merge oldItem item) fs acc) k = obj_get acc k" for fs acc
    by (induction fs arbitrary: acc) (auto simp: nested_merge_def)
  with assms show ?thesis by (auto simp: updatedEntity_def split: option.splits)
qed

text \<open>The fold of the callback: the flags and the list of the whole pass.\<close>

lemma fold_upsert_visit:
  "fold (upsert_visit isEqual nestedFields item) items (a, w, acc) =
     (let hits = filter (\<lambda>x. js_seq (item_id x) (item_id item)) items in
       (a \<and> hits = [],
        (if hits = [] then w else isEqual (last hits) (updatedEntity nestedFields (last hits) item)),
        acc @ map (\<lambda>x. if js_seq (item_id x) (item_id item)
                       then updatedEntity nestedFields x item else x) items))"
  by (induction items arbitrary: a w acc) (auto simp: Let_def)

lemma upsertListItem_cases:
  assumes hits: "hits = filter (\<lambda>x. js_seq (item_id x) (item_id item)) items"
  shows "upsertListItem isEqual (Some items) item nestedFields None =
    (if hits = [] then items @ [item]
     else if isEqual (last hits) (updatedEntity nestedFields (last hits) item) then items
     else map (\<lambda>x. if js_seq (item_id x) (item_id item)
                   then updatedEntity nestedFields x item else x) items)"
proof -
  have none: "map (\<lambda>x. if js_seq (item_id x) (item_id item)
      then updatedEntity nestedFields x item else x) items = items" if "hits = []"
    using that hits by (auto simp: filter_empty_conv intro: map_idI)
  show ?thesis
    using none by (auto simp: upsertListItem_def fold_upsert_visit Let_def hits [symmetric])
qed

lemma filter_distinct_singleton:
  assumes "distinct (map f xs)" "x \<in> set xs"
  shows "filter (\<lambda>y. f y = f x) xs = [x]"
  using assms
proof (induction xs)
  case (Cons a xs)
  show ?case
  proof (cases "x = a")
    case True
    have "filter (\<lambda>y. f y = f a) xs = []"
      using Cons.prems(1) by (auto simp: filter_empty_conv) (metis imageI)
    with True show ?thesis by simp
  next
    case False
    with Cons show ?thesis by auto
  qed
qed simp

section \<open>Properties\<close>

text \<open>
  Upserting into a list of entities with distinct identifiers keeps every identifier in its
  place (a new one goes to the end), leaves the other entities as they were, and leaves exactly
  one entity under the identifier: the item itself when it is new, otherwise an entity that is
  deeply equal to the old one overlaid with the item.
\<close>

theorem upsertListItem_spec:
  assumes refl: "\<And>x. isEqual x x"
    and dist: "distinct (map item_id items)"
    and name: "item_id item = JStr i"
    and fields: "\<And>fs. nestedFields = Some fs \<Longrightarrow> ''id'' \<notin> set fs"
    and keys: "distinct (jm_keys item)"
  shows "let r = upsertListItem isEqual (Some items) item nestedFields None in
     map item_id r = js_set_add (JStr i) (map item_id items) \<and>
     filter (\<lambda>x. item_id x \<noteq> JStr i) r = filter (\<lambda>x. item_id x \<noteq> JStr i) items \<and>
     (\<exists>x. filter (\<lambda>x. item_id x = JStr i) r = [x] \<and>
        (case find (\<lambda>x. item_id x = JStr i) items of
           None \<Rightarrow> x = item
         | Some old \<Rightarrow> isEqual x (updatedEntity nestedFields old item)))"
proof -
  define hits where "hits = filter (\<lambda>x. js_seq (item_id x) (item_id item)) items"
  have seq: "js_seq (item_id x) (item_id item) \<longleftrightarrow> item_id x = JStr i" for x
    by (auto simp: js_seq_def name)
  have upd_id: "item_id (updatedEntity nestedFields x item) = JStr i" for x
  proof -
    have "map_of (rev item) ''id'' = map_of item ''id''"
      using keys map_of_rev_distinct [of item] by (simp add: jm_keys_def)
    moreover have "map_of item ''id'' = Some (JStr i)"
      using name by (auto simp: obj_get_def jm_get_def split: option.splits)
    ultimately show ?thesis
      by (subst obj_get_updatedEntity_other) (use fields in \<open>auto simp: obj_get_spread\<close>)
  qed
  show ?thesis
  proof (cases "\<exists>old\<in>set items. item_id old = JStr i")
    case False
    then have "hits = []" "find (\<lambda>x. item_id x = JStr i) items = None"
      by (auto simp: hits_def seq filter_empty_conv find_None_iff)
    with False show ?thesis
      by (auto simp: upsertListItem_cases [OF hits_def] js_set_add_def name filter_empty_conv)
  next
    case True
    then obtain old where old: "old \<in> set items" "item_id old = JStr i" by blast
    with dist have one: "filter (\<lambda>x. item_id x = JStr i) items = [old]"
      using filter_distinct_singleton [of item_id items old] by simp
    then have hits: "hits = [old]" by (simp add: hits_def seq)
    from one have fnd: "find (\<lambda>x. item_id x = JStr i) items = Some old"
      by (simp add: find_hd_filter)
    let ?u = "\<lambda>x. if item_id x = JStr i then updatedEntity nestedFields x item else x"
    have "map item_id (map ?u items) = map item_id items"
      by (auto simp: upd_id)
    moreover have "filter (\<lambda>x. item_id x \<noteq> JStr i) (map ?u items) =
        filter (\<lambda>x. item_id x \<noteq> JStr i) items"
      by (induction items) (auto simp: upd_id)
    moreover have "filter (\<lambda>x. item_id x = JStr i) (map ?u items) =
        map ?u (filter (\<lambda>x. item_id x = JStr i) items)"
      by (induction items) (auto simp: upd_id)
    ultimately show ?thesis
      using old one fnd refl
      by (auto simp: upsertListItem_cases [OF hits_def] hits seq js_set_add_def rev_image_eqI)
  qed
qed

theorem upsertListItem_spec_witness:
  "let item = [(''id'', JStr ''a''), (''n'', JNum 2)];
       r = upsertListItem (=) (Some [[(''id'', JStr ''a''), (''n'', JNum 1)], [(''id'', JStr ''b'')]])
             item None None
   in map item_id r = [JStr ''a'', JStr ''b''] \<and> obj_get (hd r) ''n'' = JNum 2"
proof -
  let ?item = "[(''id'', JStr ''a''), (''n'', JNum 2)]"
  let ?items = "[[(''id'', JStr ''a''), (''n'', JNum 1)], [(''id'', JStr ''b'')]]"
  have "map item_id (upsertListItem (=) (Some ?items) ?item None None) =
      js_set_add (JStr ''a'') (map item_id ?items)"
    using upsertListItem_spec [of "(=)" ?items ?item "''a''" None]
    by (simp add: obj_get_Cons jm_keys_def Let_def)
  moreover have "js_set_add (JStr ''a'') (map item_id ?items) = [JStr ''a'', JStr ''b'']"
    by code_simp
  moreover have "obj_get (hd (upsertListItem (=) (Some ?items) ?item None None)) ''n'' = JNum 2"
    by code_simp
  ultimately show ?thesis by (simp add: Let_def)
qed

end
