(* ===== verification/Transactions.thy ===== *)
theory Transactions
  imports Js_Value
begin

text \<open>
  \<^verbatim>\<open>ui/common/redux/transactions.ts\<close>: the transaction lists, one per federation. A transaction
  is the JavaScript object the bridge sends, so that \<^verbatim>\<open>{ ...t, ...transaction }\<close> is the spread of
  the source. The bridge's \<^verbatim>\<open>listTransactions\<close> is a parameter of \<open>fetchTransactions\<close>; the
  fulfilled thunks reach the reducer as events.

  The invariant of the slice: in every federation the entries are well typed, their identifiers
  are distinct and they are in descending order of creation.
\<close>

section \<open>Definitions\<close>

abbreviation tx_id :: "obj \<Rightarrow> jv" where
  "tx_id t \<equiv> obj_get t ''id''"

abbreviation createdAt :: "obj \<Rightarrow> jv" where
  "createdAt t \<equiv> obj_get t ''createdAt''"

record FederationTransactionsState =
  transactions :: "obj list"

type_synonym TransactionsState = "(string, FederationTransactionsState) jsmap"

definition initialTransactionsState :: FederationTransactionsState where
  "initialTransactionsState = \<lparr> transactions = [] \<rparr>"

definition getFederationTxsState :: "TransactionsState \<Rightarrow> string \<Rightarrow> FederationTransactionsState" where
  "getFederationTxsState state federationId =
     (case jm_get state federationId of None \<Rightarrow> initialTransactionsState | Some s \<Rightarrow> s)"

definition put_new :: "obj \<Rightarrow> (jv, obj) jsmap \<Rightarrow> (jv, obj) jsmap" where
  "put_new tx transactionMap = jm_set (tx_id tx) tx transactionMap"

definition put_old :: "obj \<Rightarrow> (jv, obj) jsmap \<Rightarrow> (jv, obj) jsmap" where
  "put_old tx transactionMap =
     (if jm_get transactionMap (tx_id tx) = None
      then jm_set (tx_id tx) tx transactionMap else transactionMap)"

definition updateTransactions :: "obj list \<Rightarrow> obj list \<Rightarrow> obj list" where
  "updateTransactions newTransactions oldTransactions =
     (let transactionMap = fold put_old oldTransactions (fold put_new newTransactions [])
      in orderBy_jv createdAt (jm_values transactionMap))"

definition updateSingleTransaction :: "obj \<Rightarrow> obj list \<Rightarrow> obj list" where
  "updateSingleTransaction transaction oldTransactions =
     map (\<lambda>t. if js_seq (tx_id t) (tx_id transaction) then jm_spread t transaction else t)
       oldTransactions"

definition set_transactions ::
  "TransactionsState \<Rightarrow> string \<Rightarrow> FederationTransactionsState \<Rightarrow> obj list \<Rightarrow> TransactionsState" where
  "set_transactions state federationId fedTxState txs =
     jm_set federationId (fedTxState\<lparr>transactions := txs\<rparr>) state"

definition updateTransaction :: "TransactionsState \<Rightarrow> string \<Rightarrow> obj \<Rightarrow> TransactionsState" where
  "updateTransaction state federationId transaction =
     (let fedTxState = getFederationTxsState state federationId
      in set_transactions state federationId fedTxState
           (updateSingleTransaction transaction (transactions fedTxState)))"

definition fetchTransactions_fulfilled ::
  "TransactionsState \<Rightarrow> string \<Rightarrow> bool \<Rightarrow> obj list \<Rightarrow> TransactionsState" where
  "fetchTransactions_fulfilled state federationId refresh payload =
     (let fedTxState = getFederationTxsState state federationId
      in set_transactions state federationId fedTxState
           (updateTransactions payload (if refresh then [] else transactions fedTxState)))"

definition updateTransactionNotes_fulfilled ::
  "TransactionsState \<Rightarrow> string \<Rightarrow> string \<Rightarrow> string \<Rightarrow> TransactionsState" where
  "updateTransactionNotes_fulfilled state federationId transactionId notes =
     (let fedTxState = getFederationTxsState state federationId
      in case find (\<lambda>txn. js_seq (tx_id txn) (JStr transactionId)) (transactions fedTxState) of
           None \<Rightarrow> state
         | Some existingTransaction \<Rightarrow>
             set_transactions state federationId fedTxState
               (updateTransactions [jm_spread existingTransaction [(''txnNotes'', JStr notes)]]
                 (transactions fedTxState)))"

text \<open>
  The thunk: the page starts at the oldest cached transaction, entries the bridge could not
  decode are dropped, and so are recurring receives that are not claimed.
\<close>

definition paginationTimestamp :: "bool \<Rightarrow> obj list \<Rightarrow> jv" where
  "paginationTimestamp moreArg cached =
     (if moreArg
      then js_or (if cached = [] then JUndef else createdAt (last cached)) JUndef
      else JUndef)"

definition unclaimed_recurring :: "obj \<Rightarrow> bool" where
  "unclaimed_recurring txn \<longleftrightarrow>
     js_seq (obj_get txn ''kind'') (JStr ''lnRecurringdReceive'') \<and>
     \<not> js_seq (opt_prop (obj_get txn ''state'') ''type'') (JStr ''claimed'')"

definition fetchTransactions ::
  "(string \<Rightarrow> jv \<Rightarrow> nat \<Rightarrow> ('err + obj) list) \<Rightarrow> TransactionsState \<Rightarrow> string \<Rightarrow> nat option \<Rightarrow> bool \<Rightarrow>
   obj list" where
  "fetchTransactions listTransactions state federationId limit moreArg =
     (let cached = transactions (getFederationTxsState state federationId);
          entries = listTransactions federationId (paginationTimestamp moreArg cached)
            (case limit of None \<Rightarrow> 100 | Some n \<Rightarrow> n);
          txns = map projr (filter (\<lambda>e. \<not> isl e) entries)
      in filter (\<lambda>txn. \<not> unclaimed_recurring txn) txns)"

definition selectTransactions :: "TransactionsState \<Rightarrow> string \<Rightarrow> obj list" where
  "selectTransactions state federationId = transactions (getFederationTxsState state federationId)"

definition isStabilityTransactionHistoryEntry :: "obj \<Rightarrow> bool" where
  "isStabilityTransactionHistoryEntry txn =
     (if js_seq (obj_get txn ''kind'') (JStr ''sPV2Withdrawal'') \<and>
         truthy (obj_get txn ''guardian_remittance'') then False
      else list_ex (\<lambda>k. js_seq (obj_get txn ''kind'') (JStr k))
        [''spDeposit'', ''spWithdraw'', ''sPV2Deposit'', ''sPV2Withdrawal'', ''sPV2TransferOut'',
         ''sPV2TransferIn''])"

definition selectStabilityTransactionHistory :: "TransactionsState \<Rightarrow> string \<Rightarrow> obj list" where
  "selectStabilityTransactionHistory state federationId =
     filter isStabilityTransactionHistoryEntry (selectTransactions state federationId)"

text \<open>The slice as a machine over its three actions.\<close>

datatype tx_action =
    UpdateTransaction string obj
  | FetchTransactionsFulfilled string bool "obj list"
  | UpdateTransactionNotesFulfilled string string string

fun transactions_step :: "TransactionsState \<Rightarrow> tx_action \<Rightarrow> TransactionsState" where
  "transactions_step s (UpdateTransaction f t) = updateTransaction s f t"
| "transactions_step s (FetchTransactionsFulfilled f r ts) = fetchTransactions_fulfilled s f r ts"
| "transactions_step s (UpdateTransactionNotesFulfilled f i n) =
     updateTransactionNotes_fulfilled s f i n"

text \<open>
  The types of the payloads: a list entry has an identifier and a creation time; the
  \<^verbatim>\<open>RpcTransaction\<close> of an update has an identifier and no creation time.
\<close>

definition entry_ok :: "obj \<Rightarrow> bool" where
  "entry_ok t \<longleftrightarrow> is_str (tx_id t) \<and> is_num (createdAt t)"

definition transaction_ok :: "obj \<Rightarrow> bool" where
  "transaction_ok t \<longleftrightarrow>
     is_str (tx_id t) \<and> ''createdAt'' \<notin> set (jm_keys t) \<and> distinct (jm_keys t)"

fun tx_action_ok :: "tx_action \<Rightarrow> bool" where
  "tx_action_ok (UpdateTransaction f t) = transaction_ok t"
| "tx_action_ok (FetchTransactionsFulfilled f r ts) = list_all entry_ok ts"
| "tx_action_ok (UpdateTransactionNotesFulfilled f i n) = True"

definition tx_list_ok :: "obj list \<Rightarrow> bool" where
  "tx_list_ok ts \<longleftrightarrow> list_all entry_ok ts \<and> distinct (map tx_id ts) \<and>
     sorted (map (\<lambda>t. desc_rank (createdAt t)) ts)"

definition txs_inv :: "TransactionsState \<Rightarrow> bool" where
  "txs_inv s \<longleftrightarrow> (\<forall>f. tx_list_ok (selectTransactions s f))"

section \<open>The merge\<close>

definition keyed :: "(jv, obj) jsmap \<Rightarrow> bool" where
  "keyed m \<longleftrightarrow> distinct (jm_keys m) \<and> (\<forall>(k, t) \<in> set m. k = tx_id t)"

lemma keyed_set: "keyed m \<Longrightarrow> keyed (jm_set (tx_id t) t m)"
  by (auto simp: keyed_def jm_distinct_set dest!: jm_set_mem)

lemma keyed_put_new: "keyed m \<Longrightarrow> keyed (fold put_new ts m)"
  by (induction ts arbitrary: m) (auto simp: put_new_def keyed_set)

lemma keyed_put_old: "keyed m \<Longrightarrow> keyed (fold put_old ts m)"
  by (induction ts arbitrary: m) (auto simp: put_old_def keyed_set)

lemma get_put_new:
  "jm_get (fold put_new ts m) i =
     (case find (\<lambda>t. tx_id t = i) (rev ts) of Some t \<Rightarrow> Some t | None \<Rightarrow> jm_get m i)"
proof (induction ts arbitrary: m)
  case (Cons t ts)
  have "find p (xs @ [t]) = (case find p xs of None \<Rightarrow> if p t then Some t else None | r \<Rightarrow> r)"
    for p xs by (induction xs) auto
  with Cons show ?case by (auto simp: put_new_def split: option.splits)
qed simp

lemma get_put_old:
  "jm_get (fold put_old ts m) i =
     (case jm_get m i of Some t \<Rightarrow> Some t | None \<Rightarrow> find (\<lambda>t. tx_id t = i) ts)"
  by (induction ts arbitrary: m) (auto simp: put_old_def split: option.splits)

lemma find_keyed_values:
  assumes "keyed m"
  shows "(t \<in> set (jm_values m) \<and> tx_id t = i) \<longleftrightarrow> jm_get m i = Some t"
  using assms by (force simp: keyed_def jm_values_def jm_get_iff_mem)

lemma distinct_keyed_values:
  assumes "keyed m"
  shows "distinct (map tx_id (jm_values m))"
proof -
  have "map tx_id (jm_values m) = jm_keys m"
    using assms by (force simp: keyed_def jm_values_def jm_keys_def)
  with assms show ?thesis by (simp add: keyed_def)
qed

lemma find_distinct:
  assumes "distinct (map f xs)"
  shows "find (\<lambda>t. f t = i) xs = Some t \<longleftrightarrow> t \<in> set xs \<and> f t = i"
proof
  assume "t \<in> set xs \<and> f t = i"
  then obtain t' where t': "find (\<lambda>t. f t = i) xs = Some t'"
    by (cases "find (\<lambda>t. f t = i) xs") (auto simp: find_None_iff)
  with \<open>t \<in> set xs \<and> f t = i\<close> assms have "t' = t"
    by (auto simp: distinct_map dest!: find_Some_mem inj_onD)
  with t' show "find (\<lambda>t. f t = i) xs = Some t" by simp
qed (auto dest: find_Some_mem)

lemma updateTransactions_mem:
  "(t \<in> set (updateTransactions new old) \<and> tx_id t = i) \<longleftrightarrow>
   (case find (\<lambda>t. tx_id t = i) (rev new) of
      Some t' \<Rightarrow> t = t'
    | None \<Rightarrow> find (\<lambda>t. tx_id t = i) old = Some t)"
proof -
  let ?m = "fold put_old old (fold put_new new [])"
  have "keyed ?m"
    by (intro keyed_put_old keyed_put_new) (simp add: keyed_def jm_keys_def)
  from find_keyed_values [OF this] show ?thesis
    by (auto simp: updateTransactions_def Let_def get_put_old get_put_new split: option.splits)
qed

lemma distinct_updateTransactions: "distinct (map tx_id (updateTransactions new old))"
proof -
  have "keyed (fold put_old old (fold put_new new []))"
    by (intro keyed_put_old keyed_put_new) (simp add: keyed_def jm_keys_def)
  from distinct_keyed_values [OF this] show ?thesis
    by (simp add: updateTransactions_def Let_def)
qed

lemma set_updateTransactions: "set (updateTransactions new old) \<subseteq> set new \<union> set old"
proof
  fix t assume "t \<in> set (updateTransactions new old)"
  with updateTransactions_mem [of t new old "tx_id t"] show "t \<in> set new \<union> set old"
    by (auto split: option.splits dest!: find_Some_mem)
qed

lemma tx_list_ok_updateTransactions:
  assumes "list_all entry_ok new" "list_all entry_ok old"
  shows "tx_list_ok (updateTransactions new old)"
proof -
  have "sorted (map (\<lambda>t. desc_rank (createdAt t)) (updateTransactions new old))"
    unfolding updateTransactions_def Let_def by (rule sorted_orderBy_jv)
  with assms show ?thesis
    using set_updateTransactions [of new old] distinct_updateTransactions [of new old]
    by (auto simp: tx_list_ok_def list_all_iff)
qed

section \<open>The invariant\<close>

lemma select_set_transactions [simp]:
  "selectTransactions (set_transactions s f (getFederationTxsState s f) ts) g =
     (if g = f then ts else selectTransactions s g)"
  by (simp add: selectTransactions_def set_transactions_def getFederationTxsState_def)

lemma obj_get_spread_transaction:
  assumes "transaction_ok t"
  shows "obj_get (jm_spread o' t) k = (if k \<in> set (jm_keys t) then obj_get t k else obj_get o' k)"
proof -
  from assms have "map_of (rev t) = map_of t"
    by (intro map_of_rev_distinct) (simp add: transaction_ok_def jm_keys_def)
  then show ?thesis
    using map_of_eq_None_iff [of t k]
    by (cases "map_of t k") (auto simp: obj_get_spread obj_get_def [of t] jm_get_def jm_keys_def)
qed

lemma tx_list_ok_updateSingle:
  assumes t: "transaction_ok t" and ok: "tx_list_ok ts"
  shows "tx_list_ok (updateSingleTransaction t ts)"
proof -
  let ?u = "\<lambda>x. if js_seq (tx_id x) (tx_id t) then jm_spread x t else x"
  have id_key: "''id'' \<in> set (jm_keys t)"
    using t by (auto simp: transaction_ok_def obj_get_def jm_get_def jm_keys_def image_iff
        split: option.splits dest: map_of_SomeD) (metis fst_conv map_of_SomeD)
  have same: "tx_id (?u x) = tx_id x" "createdAt (?u x) = createdAt x" for x
    using t id_key by (auto simp: obj_get_spread_transaction js_seq_def transaction_ok_def)
  have "map tx_id (updateSingleTransaction t ts) = map tx_id ts"
    unfolding updateSingleTransaction_def map_map by (intro map_cong refl) (simp only: o_def same)
  moreover have "map (\<lambda>t. desc_rank (createdAt t)) (updateSingleTransaction t ts) =
      map (\<lambda>t. desc_rank (createdAt t)) ts"
    unfolding updateSingleTransaction_def map_map by (intro map_cong refl) (simp only: o_def same)
  moreover have "list_all entry_ok (updateSingleTransaction t ts)"
  proof -
    have "entry_ok (?u x) = entry_ok x" for x by (simp only: entry_ok_def same)
    then have "list_all entry_ok (map ?u ts) = list_all entry_ok ts"
      by (simp only: list.pred_map o_def)
    with ok show ?thesis by (simp only: updateSingleTransaction_def tx_list_ok_def)
  qed
  ultimately show ?thesis using ok by (simp add: tx_list_ok_def)
qed

lemma transactions_step_inv:
  assumes "txs_inv s" and "tx_action_ok a"
  shows "txs_inv (transactions_step s a)"
proof (cases a)
  case (UpdateTransaction f t)
  with assms show ?thesis
    by (auto simp: txs_inv_def updateTransaction_def Let_def tx_list_ok_updateSingle
        selectTransactions_def [symmetric])
next
  case (FetchTransactionsFulfilled f r ts)
  moreover have "list_all entry_ok (selectTransactions s f)"
    using assms(1) by (simp add: txs_inv_def tx_list_ok_def)
  ultimately show ?thesis
    using assms by (auto simp: txs_inv_def fetchTransactions_fulfilled_def Let_def
        selectTransactions_def [symmetric] intro!: tx_list_ok_updateTransactions)
next
  case (UpdateTransactionNotesFulfilled f i n)
  have old: "list_all entry_ok (selectTransactions s f)"
    using assms(1) by (simp add: txs_inv_def tx_list_ok_def)
  moreover have "list_all entry_ok [jm_spread x [(''txnNotes'', JStr n)]]"
    if "find (\<lambda>txn. js_seq (tx_id txn) (JStr i)) (selectTransactions s f) = Some x" for x
    using old that by (auto simp: list_all_iff entry_ok_def obj_get_spread dest!: find_Some_mem)
  ultimately show ?thesis
    using UpdateTransactionNotesFulfilled assms(1)
    by (auto simp: txs_inv_def updateTransactionNotes_fulfilled_def Let_def
        selectTransactions_def [symmetric] split: option.splits
        intro!: tx_list_ok_updateTransactions)
qed

interpretation txs: invariant_machine transactions_step tx_action_ok txs_inv
  by unfold_locales (rule transactions_step_inv)

section \<open>Properties\<close>

text \<open>
  C38. Merging a page of transactions into the cached ones: the result has one entry for each
  identifier, newest first, and the entry of an identifier is the one the page brings last or,
  when the page has none, the cached one.
\<close>

theorem updateTransactions_merge:
  "distinct (map tx_id (updateTransactions new old)) \<and>
   sorted (map (\<lambda>t. desc_rank (createdAt t)) (updateTransactions new old)) \<and>
   find (\<lambda>t. tx_id t = i) (updateTransactions new old) =
     (case find (\<lambda>t. tx_id t = i) (rev new) of
        Some t \<Rightarrow> Some t
      | None \<Rightarrow> find (\<lambda>t. tx_id t = i) old)"
proof -
  have "sorted (map (\<lambda>t. desc_rank (createdAt t)) (updateTransactions new old))"
    unfolding updateTransactions_def Let_def by (rule sorted_orderBy_jv)
  moreover have "find (\<lambda>t. tx_id t = i) (updateTransactions new old) =
      (case find (\<lambda>t. tx_id t = i) (rev new) of
        Some t \<Rightarrow> Some t
      | None \<Rightarrow> find (\<lambda>t. tx_id t = i) old)"
    by (rule option_eqI, subst find_distinct [OF distinct_updateTransactions], subst updateTransactions_mem)
      (auto split: option.splits)
  ultimately show ?thesis
    using distinct_updateTransactions by simp
qed

text \<open>
  In every state the slice can reach with well typed actions, every federation's list is
  well typed, free of duplicates and sorted from the newest transaction to the oldest.
\<close>

theorem transactions_always_sorted:
  assumes "list_all tx_action_ok actions"
  shows "tx_list_ok (selectTransactions (run transactions_step [] actions) federationId)"
proof -
  have "txs_inv []"
    by (simp add: txs_inv_def selectTransactions_def getFederationTxsState_def
        initialTransactionsState_def tx_list_ok_def)
  from txs.run_inv [OF this assms] show ?thesis by (simp add: txs_inv_def)
qed

theorem transactions_always_sorted_witness:
  "tx_list_ok (selectTransactions (run transactions_step []
     [FetchTransactionsFulfilled ''f'' False
        [[(''id'', JStr ''a''), (''createdAt'', JNum 5)], [(''id'', JStr ''b''), (''createdAt'', JNum 9)]],
      UpdateTransactionNotesFulfilled ''f'' ''a'' ''rent'',
      UpdateTransaction ''f'' [(''id'', JStr ''b''), (''kind'', JStr ''lnPay'')]]) ''f'')"
  by (rule transactions_always_sorted) (simp add: entry_ok_def transaction_ok_def obj_get_Cons jm_keys_def)

text \<open>
  The next page is asked for from the oldest cached transaction: with cached entries in
  slice order, the pagination time is the least creation time of them all.
\<close>

theorem paginationTimestamp_oldest:
  assumes "tx_list_ok cached" and "t \<in> set cached" and "createdAt t = JNum c"
    and "paginationTimestamp True cached = JNum p"
  shows "p \<le> c \<and> (\<exists>t'\<in>set cached. createdAt t' = JNum p)"
proof -
  from assms(2) have ne: "cached \<noteq> []" by auto
  then have l: "createdAt (last cached) = JNum p"
    using assms(4) by (auto simp: paginationTimestamp_def js_or_def split: if_splits)
  from ne have "cached = butlast cached @ [last cached]" by simp
  moreover have "sorted (map (\<lambda>t. desc_rank (createdAt t)) cached)"
    using assms(1) by (simp add: tx_list_ok_def)
  ultimately have "sorted (map (\<lambda>t. desc_rank (createdAt t)) (butlast cached) @
      [desc_rank (createdAt (last cached))])"
    by (metis (no_types, lifting) list.simps(8,9) map_append)
  then have "\<forall>x\<in>set (butlast cached). desc_rank (createdAt x) \<le> (3, - p)"
    by (simp add: sorted_append l)
  moreover have "t \<in> set (butlast cached) \<or> t = last cached"
    using assms(2) ne by (metis in_set_conv_decomp_first append_butlast_last_id UnE set_append empty_iff list.set(1) set_ConsD)
  ultimately have "p \<le> c"
    using assms(3) l by auto
  with l ne show ?thesis using last_in_set by blast
qed

theorem paginationTimestamp_oldest_witness:
  "(3::int) \<le> 7 \<and> (\<exists>t'\<in>set [[(''id'', JStr ''b''), (''createdAt'', JNum 7)],
     [(''id'', JStr ''a''), (''createdAt'', JNum 3)]]. createdAt t' = JNum 3)"
  by (rule paginationTimestamp_oldest [of _ "[(''id'', JStr ''b''), (''createdAt'', JNum 7)]"])
    (simp_all add: tx_list_ok_def entry_ok_def obj_get_Cons paginationTimestamp_def js_or_def)

text \<open>
  Editing the notes of a cached transaction changes the notes of that transaction in that
  federation and nothing else: every other entry, and every other federation, keeps its value.
\<close>

theorem updateTransactionNotes_effect:
  assumes "txs_inv s" and "t \<in> set (selectTransactions s f)" and "tx_id t = JStr i"
  shows "let s' = updateTransactionNotes_fulfilled s f i n in
     set (selectTransactions s' f) =
       insert (jm_spread t [(''txnNotes'', JStr n)]) (set (selectTransactions s f) - {t}) \<and>
     (\<forall>g. g \<noteq> f \<longrightarrow> selectTransactions s' g = selectTransactions s g)"
proof -
  let ?ts = "selectTransactions s f" and ?t' = "jm_spread t [(''txnNotes'', JStr n)]"
  have dist: "distinct (map tx_id ?ts)"
    using assms(1) by (simp add: txs_inv_def tx_list_ok_def)
  have id': "tx_id ?t' = JStr i" using assms(3) by (simp add: obj_get_spread)
  have fnd: "find (\<lambda>x. js_seq (tx_id x) (JStr i)) ?ts = Some t"
  proof -
    have "(\<lambda>x. js_seq (tx_id x) (JStr i)) = (\<lambda>x. tx_id x = JStr i)"
      by (auto simp: js_seq_def)
    then show ?thesis using find_distinct [OF dist, of "JStr i" t] assms(2,3) by simp
  qed
  have "x \<in> set (updateTransactions [?t'] ?ts) \<longleftrightarrow> x \<in> insert ?t' (set ?ts - {t})" for x
  proof -
    have "x \<in> set (updateTransactions [?t'] ?ts) \<longleftrightarrow>
        (if tx_id x = JStr i then x = ?t' else x \<in> set ?ts)"
      using updateTransactions_mem [of x "[?t']" ?ts "tx_id x"] id'
        find_distinct [OF dist, of "tx_id x" x] by auto
    moreover have "x \<in> set ?ts \<Longrightarrow> tx_id x = JStr i \<Longrightarrow> x = t"
      using dist assms(2,3) inj_onD [of tx_id "set ?ts" x t] by (simp add: distinct_map)
    ultimately show ?thesis using id' assms(3) by auto
  qed
  then show ?thesis
    by (auto simp: updateTransactionNotes_fulfilled_def Let_def fnd selectTransactions_def [symmetric])
qed

theorem updateTransactionNotes_effect_witness:
  "let t = [(''id'', JStr ''a''), (''createdAt'', JNum 5)];
       s = [(''f'', \<lparr>transactions = [t]\<rparr>)]
   in set (selectTransactions (updateTransactionNotes_fulfilled s ''f'' ''a'' ''rent'') ''f'') =
        {t @ [(''txnNotes'', JStr ''rent'')]}"
proof -
  let ?t = "[(''id'', JStr ''a''), (''createdAt'', JNum 5)]"
  let ?s = "[(''f'', \<lparr>transactions = [?t]\<rparr>)]"
  have sel: "selectTransactions ?s g = (if g = ''f'' then [?t] else [])" for g
    by (simp add: selectTransactions_def getFederationTxsState_def jm_get_Cons initialTransactionsState_def)
  have "txs_inv ?s"
    by (simp add: txs_inv_def sel tx_list_ok_def entry_ok_def obj_get_Cons)
  from updateTransactionNotes_effect [OF this, of ?t "''f''" "''a''" "''rent''"]
  show ?thesis
    by (simp add: sel Let_def obj_get_Cons jm_spread_def jm_set_def)
qed

end
