(* ===== verification/Chat_Rows.thy ===== *)
theory Chat_Rows
  imports Legacy_Chat
begin

text \<open>
  \<^verbatim>\<open>ui/common/utils/chatConversationRows.ts\<close>: the rows of a chat screen. The code makes three
  passes over the events, newest first, with running identifiers for time groups and sender
  runs; the model keeps the passes and their variables. The reference description the result is
  proved equal to speaks of the sorted events only: where two neighbours are more than a minute
  apart, and which two messages follow one another from the same sender.
\<close>

section \<open>Events\<close>

record MatrixEvent =
  ev_id :: string
  sender :: string
  timestamp :: int
  msgtype :: string
  change :: "string option"

definition isRoomMemberEvent :: "MatrixEvent \<Rightarrow> bool" where
  "isRoomMemberEvent e \<longleftrightarrow> msgtype e = ''m.room.member''"

definition isJoinedRoomMemberEvent :: "MatrixEvent \<Rightarrow> bool" where
  "isJoinedRoomMemberEvent e \<longleftrightarrow> isRoomMemberEvent e \<and>
     (change e = Some ''joined'' \<or> change e = Some ''invitationAccepted'')"

definition isMultispendEvent :: "MatrixEvent \<Rightarrow> bool" where
  "isMultispendEvent e \<longleftrightarrow> msgtype e = ''xyz.fedi.multispend''"

section \<open>Rows\<close>

datatype ChatConversationRowLayout = message_row | systemNotice

record ChatConversationRow =
  row_event :: MatrixEvent
  row_layout :: ChatConversationRowLayout
  showTimestamp :: bool
  showUsername :: bool
  showAvatar :: bool
  showUsernames :: bool
  isLastBubbleInRun :: bool

record DerivedEvent =
  d_event :: MatrixEvent
  d_layout :: ChatConversationRowLayout
  timeGroupId :: nat
  senderRunId :: "nat option"

definition CHAT_GROUP_WINDOW_MS :: int where
  "CHAT_GROUP_WINDOW_MS = 60000"

text \<open>A missing event and a zero time are both falsy.\<close>

definition isWithinChatGroupWindow :: "MatrixEvent option \<Rightarrow> MatrixEvent option \<Rightarrow> bool" where
  "isWithinChatGroupWindow fst_ev snd_ev =
     (case (fst_ev, snd_ev) of
        (Some a, Some b) \<Rightarrow>
          timestamp a \<noteq> 0 \<and> timestamp b \<noteq> 0 \<and>
          \<bar>timestamp a - timestamp b\<bar> \<le> CHAT_GROUP_WINDOW_MS
      | _ \<Rightarrow> False)"

definition getRowLayout :: "MatrixEvent \<Rightarrow> ChatConversationRowLayout" where
  "getRowLayout e = (if isJoinedRoomMemberEvent e then systemNotice else message_row)"

text \<open>The variables of the first pass; \<open>previousEvent\<close> is \<^verbatim>\<open>sortedEvents[index - 1]\<close>.\<close>

record derive_vars =
  derivedEvents :: "DerivedEvent list"
  usernamesByTimeGroup :: "(nat, bool) jsmap"
  currentTimeGroupId :: nat
  currentSenderRunId :: nat
  previousMessageSender :: "string option"
  previousMessageTimeGroupId :: "nat option"
  previousEvent :: "MatrixEvent option"

definition derive_init :: derive_vars where
  "derive_init = \<lparr> derivedEvents = [], usernamesByTimeGroup = [], currentTimeGroupId = 0,
     currentSenderRunId = 0, previousMessageSender = None, previousMessageTimeGroupId = None,
     previousEvent = None \<rparr>"

definition derive_step :: "ChatType \<Rightarrow> MatrixEvent \<Rightarrow> derive_vars \<Rightarrow> derive_vars" where
  "derive_step type event v =
     (let lay = getRowLayout event;
          tg = (if previousEvent v \<noteq> None \<and>
                   \<not> isWithinChatGroupWindow (previousEvent v) (Some event)
                then currentTimeGroupId v + 1 else currentTimeGroupId v);
          runId = (if lay = message_row \<and> previousMessageSender v \<noteq> None \<and>
                    (previousMessageTimeGroupId v \<noteq> Some tg \<or>
                     previousMessageSender v \<noteq> Some (sender event))
                 then currentSenderRunId v + 1 else currentSenderRunId v);
          derived = \<lparr> d_event = event, d_layout = lay, timeGroupId = tg,
            senderRunId = (if lay = message_row then Some runId else None) \<rparr>;
          shown = (case jm_get (usernamesByTimeGroup v) tg of
                     None \<Rightarrow> type = chat_group | Some b \<Rightarrow> b)
      in v\<lparr> derivedEvents := derivedEvents v @ [derived],
            usernamesByTimeGroup :=
              (if lay = message_row
               then jm_set tg (shown \<and> \<not> isMultispendEvent event) (usernamesByTimeGroup v)
               else usernamesByTimeGroup v),
            currentTimeGroupId := tg,
            currentSenderRunId := runId,
            previousMessageSender :=
              (if lay = message_row then Some (sender event) else previousMessageSender v),
            previousMessageTimeGroupId :=
              (if lay = message_row then Some tg else previousMessageTimeGroupId v),
            previousEvent := Some event \<rparr>)"

definition derive :: "ChatType \<Rightarrow> MatrixEvent list \<Rightarrow> derive_vars" where
  "derive type sortedEvents = fold (derive_step type) sortedEvents derive_init"

text \<open>The second pass forwards and the third pass backwards.\<close>

fun previousMessageRows :: "DerivedEvent option \<Rightarrow> DerivedEvent list \<Rightarrow> DerivedEvent option list" where
  "previousMessageRows p [] = []"
| "previousMessageRows p (d # ds) =
     p # previousMessageRows (if d_layout d = message_row then Some d else p) ds"

fun nextMessageRows :: "DerivedEvent list \<Rightarrow> DerivedEvent option list \<times> DerivedEvent option" where
  "nextMessageRows [] = ([], None)"
| "nextMessageRows (d # ds) =
     (let (rows, nxt) = nextMessageRows ds
      in (nxt # rows, if d_layout d = message_row then Some d else nxt))"

definition make_row ::
  "(nat, bool) jsmap \<Rightarrow> DerivedEvent option \<Rightarrow> DerivedEvent option \<Rightarrow> DerivedEvent option \<Rightarrow>
   DerivedEvent \<Rightarrow> ChatConversationRow" where
  "make_row usernames previousMessage nextEvent nextMessageEvent d =
     (let isMessageRow = (d_layout d = message_row);
          isNewestInSenderRun = isMessageRow \<and>
            (case previousMessage of None \<Rightarrow> True | Some p \<Rightarrow> senderRunId p \<noteq> senderRunId d);
          isOldestInSenderRun = isMessageRow \<and>
            (case nextMessageEvent of None \<Rightarrow> True | Some n \<Rightarrow> senderRunId n \<noteq> senderRunId d);
          isOldestInTimeGroup =
            (case nextEvent of None \<Rightarrow> True | Some n \<Rightarrow> timeGroupId n \<noteq> timeGroupId d)
      in \<lparr> row_event = d_event d, row_layout = d_layout d,
           showTimestamp = isOldestInTimeGroup,
           showUsername = isMessageRow \<and> isOldestInSenderRun,
           showAvatar = isMessageRow \<and> isNewestInSenderRun,
           showUsernames = isMessageRow \<and>
             (case jm_get usernames (timeGroupId d) of None \<Rightarrow> False | Some b \<Rightarrow> b),
           isLastBubbleInRun = isMessageRow \<and> isNewestInSenderRun \<rparr>)"

definition makeChatConversationRows :: "MatrixEvent list \<Rightarrow> ChatType \<Rightarrow> ChatConversationRow list" where
  "makeChatConversationRows events type =
     (let sortedEvents = orderBy_desc timestamp events
      in if sortedEvents = [] then []
         else let v = derive type sortedEvents; ds = derivedEvents v;
                  prevs = previousMessageRows None ds; nexts = fst (nextMessageRows ds)
              in map (\<lambda>i. make_row (usernamesByTimeGroup v) (prevs ! i)
                        (if i + 1 < length ds then Some (ds ! (i + 1)) else None)
                        (nexts ! i) (ds ! i))
                   [0..<length ds])"

definition findIndex :: "('a \<Rightarrow> bool) \<Rightarrow> 'a list \<Rightarrow> int" where
  "findIndex p xs = (let n = length (takeWhile (\<lambda>x. \<not> p x) xs) in if n < length xs then int n else -1)"

definition getChatConversationRowIndex :: "ChatConversationRow list \<Rightarrow> string \<Rightarrow> int" where
  "getChatConversationRowIndex rows eventId = findIndex (\<lambda>r. ev_id (row_event r) = eventId) rows"

section \<open>The reference description\<close>

definition is_msg :: "MatrixEvent list \<Rightarrow> nat \<Rightarrow> bool" where
  "is_msg xs i \<longleftrightarrow> getRowLayout (xs ! i) = message_row"

definition adjacent :: "MatrixEvent list \<Rightarrow> nat \<Rightarrow> bool" where
  "adjacent xs i \<longleftrightarrow> isWithinChatGroupWindow (Some (xs ! i)) (Some (xs ! Suc i))"

text \<open>No gap between positions \<open>i\<close> and \<open>j\<close>.\<close>

definition same_group :: "MatrixEvent list \<Rightarrow> nat \<Rightarrow> nat \<Rightarrow> bool" where
  "same_group xs i j \<longleftrightarrow> (\<forall>k. min i j \<le> k \<and> k < max i j \<longrightarrow> adjacent xs k)"

text \<open>The message at \<open>j\<close> follows the one at \<open>i\<close> in the same run of one sender.\<close>

definition follows_in_run :: "MatrixEvent list \<Rightarrow> nat \<Rightarrow> nat \<Rightarrow> bool" where
  "follows_in_run xs i j \<longleftrightarrow> i < j \<and> is_msg xs i \<and> is_msg xs j \<and>
     (\<forall>k. i < k \<and> k < j \<longrightarrow> \<not> is_msg xs k) \<and>
     sender (xs ! i) = sender (xs ! j) \<and> same_group xs i j"

section \<open>Time groups\<close>

text \<open>The identifier of the time group of position \<open>i\<close>: the number of gaps before it.\<close>

definition tg_of :: "MatrixEvent list \<Rightarrow> nat \<Rightarrow> nat" where
  "tg_of xs i = length (filter (\<lambda>k. \<not> adjacent xs k) [0..<i])"

lemma tg_of_Suc: "tg_of xs (Suc i) = tg_of xs i + (if adjacent xs i then 0 else 1)"
  by (simp add: tg_of_def)

lemma tg_of_mono: "i \<le> j \<Longrightarrow> tg_of xs i \<le> tg_of xs j"
  by (induction j) (auto simp: tg_of_Suc le_Suc_eq)

lemma tg_of_eq: "i \<le> j \<Longrightarrow> tg_of xs i = tg_of xs j \<longleftrightarrow> same_group xs i j"
proof (induction j)
  case (Suc j)
  show ?case
  proof (cases "i = Suc j")
    case False
    with Suc.prems have le: "i \<le> j" by simp
    have "same_group xs i (Suc j) \<longleftrightarrow> same_group xs i j \<and> adjacent xs j"
      using le by (auto simp: same_group_def min_def max_def less_Suc_eq)
    with Suc.IH [OF le] tg_of_mono [OF le, of xs] show ?thesis by (auto simp: tg_of_Suc)
  qed (auto simp: same_group_def)
qed (auto simp: same_group_def)

lemma same_group_sym: "same_group xs i j = same_group xs j i"
  by (simp add: same_group_def min.commute max.commute)

lemma tg_of_eq': "tg_of xs i = tg_of xs j \<longleftrightarrow> same_group xs i j"
  using tg_of_eq [of i j xs] tg_of_eq [of j i xs] same_group_sym [of xs i j] by (cases "i \<le> j") auto

lemma adjacent_append: "Suc i < length xs \<Longrightarrow> adjacent (xs @ ys) i = adjacent xs i"
  by (simp add: adjacent_def nth_append)

lemma tg_of_append: "i < length xs \<Longrightarrow> tg_of (xs @ ys) i = tg_of xs i"
  by (induction i) (auto simp: tg_of_Suc adjacent_append, simp add: tg_of_def)

section \<open>Sender runs\<close>

text \<open>The last message before position \<open>n\<close>, and the run counter after \<open>n\<close> events.\<close>

primrec last_msg :: "MatrixEvent list \<Rightarrow> nat \<Rightarrow> nat option" where
  "last_msg xs 0 = None"
| "last_msg xs (Suc n) = (if is_msg xs n then Some n else last_msg xs n)"

definition breaks_run :: "MatrixEvent list \<Rightarrow> nat \<Rightarrow> bool" where
  "breaks_run xs n \<longleftrightarrow> (case last_msg xs n of
     None \<Rightarrow> False
   | Some p \<Rightarrow> tg_of xs p \<noteq> tg_of xs n \<or> sender (xs ! p) \<noteq> sender (xs ! n))"

primrec run_upto :: "MatrixEvent list \<Rightarrow> nat \<Rightarrow> nat" where
  "run_upto xs 0 = 0"
| "run_upto xs (Suc n) = run_upto xs n + (if is_msg xs n \<and> breaks_run xs n then 1 else 0)"

lemma last_msg_Some:
  "last_msg xs n = Some p \<longleftrightarrow> p < n \<and> is_msg xs p \<and> (\<forall>k. p < k \<and> k < n \<longrightarrow> \<not> is_msg xs k)"
  by (induction n) (auto simp: less_Suc_eq)

lemma last_msg_less: "last_msg xs n = Some p \<Longrightarrow> p < n"
  by (simp add: last_msg_Some)

lemma last_msg_None: "last_msg xs n = None \<longleftrightarrow> (\<forall>k<n. \<not> is_msg xs k)"
  by (induction n) (auto simp: less_Suc_eq)

lemma run_upto_last_msg: "last_msg xs n = Some p \<Longrightarrow> run_upto xs n = run_upto xs (Suc p)"
  by (induction n) (auto split: if_splits)

lemma run_after_message:
  assumes "last_msg xs j = Some i" and "is_msg xs j"
  shows "run_upto xs (Suc j) = run_upto xs (Suc i) \<longleftrightarrow> follows_in_run xs i j"
proof -
  from assms(1) have "i < j" "is_msg xs i" "\<forall>k. i < k \<and> k < j \<longrightarrow> \<not> is_msg xs k"
    by (simp_all add: last_msg_Some)
  then have "follows_in_run xs i j \<longleftrightarrow> \<not> breaks_run xs j"
    using assms by (auto simp: follows_in_run_def breaks_run_def tg_of_eq')
  moreover have "run_upto xs (Suc j) = run_upto xs (Suc i) + (if breaks_run xs j then 1 else 0)"
    using assms(2) run_upto_last_msg [OF assms(1)] by simp
  ultimately show ?thesis by (simp del: run_upto.simps)
qed

lemma is_msg_append: "i < length xs \<Longrightarrow> is_msg (xs @ ys) i = is_msg xs i"
  by (simp add: is_msg_def nth_append)

lemma last_msg_append: "n \<le> length xs \<Longrightarrow> last_msg (xs @ ys) n = last_msg xs n"
  by (induction n) (auto simp: is_msg_append)

lemma run_upto_append: "n \<le> length xs \<Longrightarrow> run_upto (xs @ ys) n = run_upto xs n"
proof (induction n)
  case (Suc n)
  then have "breaks_run (xs @ ys) n = breaks_run xs n"
    by (cases "last_msg xs n")
      (auto simp: breaks_run_def last_msg_append tg_of_append nth_append dest: last_msg_less)
  with Suc show ?case by (simp add: is_msg_append)
qed simp

text \<open>What the first pass has computed after the events \<open>xs\<close>.\<close>

definition derived_at :: "MatrixEvent list \<Rightarrow> nat \<Rightarrow> DerivedEvent" where
  "derived_at xs i = \<lparr> d_event = xs ! i, d_layout = getRowLayout (xs ! i), timeGroupId = tg_of xs i,
     senderRunId = (if is_msg xs i then Some (run_upto xs (Suc i)) else None) \<rparr>"

definition group_members :: "MatrixEvent list \<Rightarrow> nat \<Rightarrow> nat list" where
  "group_members xs g = filter (\<lambda>i. is_msg xs i \<and> tg_of xs i = g) [0..<length xs]"

definition usernames_at :: "ChatType \<Rightarrow> MatrixEvent list \<Rightarrow> nat \<Rightarrow> bool option" where
  "usernames_at type xs g =
     (if group_members xs g = [] then None
      else Some (type = chat_group \<and>
        (\<forall>i\<in>set (group_members xs g). \<not> isMultispendEvent (xs ! i))))"

lemma derived_at_append: "i < length xs \<Longrightarrow> derived_at (xs @ ys) i = derived_at xs i"
  by (simp add: derived_at_def nth_append is_msg_append tg_of_append run_upto_append
      del: run_upto.simps)

lemma map_derived_append:
  "map (derived_at (xs @ [e])) [0..<length xs] = map (derived_at xs) [0..<length xs]"
  by (intro map_cong) (simp_all add: derived_at_append)

lemma group_members_snoc:
  "group_members (xs @ [e]) g =
     group_members xs g @
     (if getRowLayout e = message_row \<and> tg_of (xs @ [e]) (length xs) = g then [length xs] else [])"
proof -
  have "filter (\<lambda>i. is_msg (xs @ [e]) i \<and> tg_of (xs @ [e]) i = g) [0..<length xs] = group_members xs g"
    unfolding group_members_def by (intro filter_cong) (simp_all add: is_msg_append tg_of_append)
  then show ?thesis by (simp add: group_members_def is_msg_def)
qed

lemma usernames_at_snoc:
  "usernames_at type (xs @ [e]) g =
     (if getRowLayout e = message_row \<and> tg_of (xs @ [e]) (length xs) = g
      then Some ((case usernames_at type xs g of None \<Rightarrow> type = chat_group | Some b \<Rightarrow> b) \<and>
                 \<not> isMultispendEvent e)
      else usernames_at type xs g)"
proof -
  have "(xs @ [e]) ! i = xs ! i" if "i \<in> set (group_members xs g)" for i
    using that by (auto simp: group_members_def nth_append)
  then show ?thesis
    by (cases "getRowLayout e = message_row \<and> tg_of (xs @ [e]) (length xs) = g")
      (auto simp: usernames_at_def group_members_snoc)
qed

definition vars_ok :: "ChatType \<Rightarrow> MatrixEvent list \<Rightarrow> derive_vars \<Rightarrow> bool" where
  "vars_ok type xs v \<longleftrightarrow>
     derivedEvents v = map (derived_at xs) [0..<length xs] \<and>
     jm_get (usernamesByTimeGroup v) = usernames_at type xs \<and>
     currentTimeGroupId v = (if xs = [] then 0 else tg_of xs (length xs - 1)) \<and>
     currentSenderRunId v = run_upto xs (length xs) \<and>
     previousMessageSender v = map_option (\<lambda>p. sender (xs ! p)) (last_msg xs (length xs)) \<and>
     previousMessageTimeGroupId v = map_option (tg_of xs) (last_msg xs (length xs)) \<and>
     previousEvent v = (if xs = [] then None else Some (last xs))"

lemma next_time_group:
  assumes "vars_ok type xs v"
  shows "(if previousEvent v \<noteq> None \<and> \<not> isWithinChatGroupWindow (previousEvent v) (Some e)
    then currentTimeGroupId v + 1 else currentTimeGroupId v) = tg_of (xs @ [e]) (length xs)"
proof (cases xs rule: rev_cases)
  case Nil
  with assms show ?thesis by (simp add: tg_of_def vars_ok_def)
next
  case (snoc zs z)
  have "tg_of (xs @ [e]) (length xs) =
      tg_of (xs @ [e]) (length zs) + (if adjacent (xs @ [e]) (length zs) then 0 else 1)"
    using snoc by (simp add: tg_of_Suc)
  moreover have "tg_of (xs @ [e]) (length zs) = tg_of xs (length zs)"
    using snoc by (intro tg_of_append) simp
  moreover have "adjacent (xs @ [e]) (length zs) = isWithinChatGroupWindow (Some z) (Some e)"
    using snoc by (simp add: adjacent_def nth_append)
  ultimately show ?thesis using assms snoc by (simp add: vars_ok_def)
qed

lemma next_sender_run:
  assumes "vars_ok type xs v"
  shows "(getRowLayout e = message_row \<and> previousMessageSender v \<noteq> None \<and>
      (previousMessageTimeGroupId v \<noteq> Some (tg_of (xs @ [e]) (length xs)) \<or>
       previousMessageSender v \<noteq> Some (sender e))) \<longleftrightarrow>
    is_msg (xs @ [e]) (length xs) \<and> breaks_run (xs @ [e]) (length xs)"
proof (cases "last_msg xs (length xs)")
  case None
  with assms show ?thesis by (simp add: vars_ok_def breaks_run_def last_msg_append)
next
  case (Some p)
  then have "p < length xs" by (simp add: last_msg_Some)
  with Some assms show ?thesis
    by (auto simp: vars_ok_def breaks_run_def last_msg_append tg_of_append nth_append is_msg_def)
qed

lemma map_option_last_msg_cong:
  "(\<And>p. p < n \<Longrightarrow> f p = g p) \<Longrightarrow> map_option f (last_msg xs n) = map_option g (last_msg xs n)"
  by (cases "last_msg xs n") (auto dest: last_msg_less)

lemma vars_ok_step:
  assumes ok: "vars_ok type xs v"
  shows "vars_ok type (xs @ [e]) (derive_step type e v)"
proof -
  let ?n = "length xs" and ?ys = "xs @ [e]" and ?w = "derive_step type e v"
  note tg = next_time_group [OF ok, of e] and sr = next_sender_run [OF ok, of e]
  have msg: "is_msg ?ys ?n \<longleftrightarrow> getRowLayout e = message_row" by (simp add: is_msg_def)
  have run: "(if is_msg ?ys ?n \<and> breaks_run ?ys ?n then currentSenderRunId v + 1
      else currentSenderRunId v) = run_upto ?ys (Suc ?n)"
    using ok by (simp add: vars_ok_def run_upto_append)
  have lm: "last_msg ?ys ?n = last_msg xs ?n" by (simp add: last_msg_append)
  define w where "w = ?w"
  note unf = w_def [unfolded derive_step_def Let_def tg sr run]
  have "derivedEvents w = map (derived_at ?ys) [0..<length ?ys]"
    using ok by (simp add: unf vars_ok_def map_derived_append derived_at_def msg del: run_upto.simps)
  moreover have "jm_get (usernamesByTimeGroup w) = usernames_at type ?ys"
    using ok by (auto simp: unf vars_ok_def usernames_at_snoc fun_eq_iff simp del: run_upto.simps)
  moreover have "currentTimeGroupId w = tg_of ?ys ?n" "currentSenderRunId w = run_upto ?ys (Suc ?n)"
    "previousEvent w = Some e"
    by (simp_all add: unf del: run_upto.simps)
  moreover have "previousMessageSender w = map_option (\<lambda>p. sender (?ys ! p)) (last_msg ?ys (Suc ?n))"
    using ok by (auto simp: unf vars_ok_def lm msg nth_append simp del: run_upto.simps
        intro: map_option_last_msg_cong)
  moreover have "previousMessageTimeGroupId w = map_option (tg_of ?ys) (last_msg ?ys (Suc ?n))"
    using ok by (auto simp: unf vars_ok_def lm msg tg_of_append simp del: run_upto.simps
        intro: map_option_last_msg_cong)
  ultimately have "vars_ok type ?ys w" by (simp add: vars_ok_def)
  then show ?thesis by (simp add: w_def)
qed

lemma vars_ok_derive: "vars_ok type xs (derive type xs)"
proof (induction xs rule: rev_induct)
  case Nil
  then show ?case by (simp add: derive_def derive_init_def vars_ok_def usernames_at_def group_members_def fun_eq_iff)
next
  case (snoc e xs)
  from vars_ok_step [OF this, of e] show ?case by (simp add: derive_def)
qed

section \<open>Neighbouring messages\<close>

lemma length_previousMessageRows [simp]: "length (previousMessageRows p ds) = length ds"
  by (induction ds arbitrary: p) auto

lemma previousMessageRows_nth:
  "i < length ds \<Longrightarrow> previousMessageRows p ds ! i =
     foldl (\<lambda>a d. if d_layout d = message_row then Some d else a) p (take i ds)"
proof (induction ds arbitrary: p i)
  case (Cons d ds)
  then show ?case by (cases i) auto
qed simp

lemma last_msg_foldl:
  "foldl (\<lambda>a d. if d_layout d = message_row then Some d else a) None (map (derived_at xs) [0..<i]) =
     map_option (derived_at xs) (last_msg xs i)"
  by (induction i) (auto simp: derived_at_def is_msg_def)

lemma nextMessageRows_find:
  "snd (nextMessageRows ds) = find (\<lambda>d. d_layout d = message_row) ds \<and>
   (\<forall>i<length ds. fst (nextMessageRows ds) ! i = find (\<lambda>d. d_layout d = message_row) (drop (Suc i) ds))"
proof (induction ds)
  case (Cons d ds)
  then show ?case by (auto simp: case_prod_unfold Let_def nth_Cons split: nat.split)
qed simp

lemma find_derived:
  "find (\<lambda>d. d_layout d = message_row) (map (derived_at xs) ks) =
     map_option (derived_at xs) (find (is_msg xs) ks)"
  by (induction ks) (auto simp: derived_at_def is_msg_def)

lemma find_next_msg:
  "find (is_msg xs) [Suc i..<n] = Some j \<longleftrightarrow>
     i < j \<and> j < n \<and> is_msg xs j \<and> (\<forall>k. i < k \<and> k < j \<longrightarrow> \<not> is_msg xs k)"
proof -
  have "find (is_msg xs) [a..<n] = Some j \<longleftrightarrow>
      a \<le> j \<and> j < n \<and> is_msg xs j \<and> (\<forall>k. a \<le> k \<and> k < j \<longrightarrow> \<not> is_msg xs k)" for a
  proof (induction "n - a" arbitrary: a)
    case (Suc m)
    then have "[a..<n] = a # [Suc a..<n]" by (simp add: upt_conv_Cons)
    moreover have "m = n - Suc a" using Suc.hyps(2) by simp
    note Suc.hyps(1) [OF this]
    moreover have "(\<forall>k. a \<le> k \<and> k < j \<longrightarrow> \<not> is_msg xs k) \<longleftrightarrow>
        (a < j \<longrightarrow> \<not> is_msg xs a) \<and> (\<forall>k. Suc a \<le> k \<and> k < j \<longrightarrow> \<not> is_msg xs k)"
      by (metis Suc_leD Suc_leI le_less)
    ultimately show ?case using Suc.hyps(2) by (auto simp: le_less Suc_le_eq)
  qed auto
  from this [of "Suc i"] show ?thesis by (simp add: Suc_le_eq)
qed

section \<open>The rows\<close>

text \<open>The row at one position, over what the passes are known to compute.\<close>

lemma makeChatConversationRows_nth:
  assumes xs: "xs = orderBy_desc timestamp events" and i: "i < length xs"
  shows "makeChatConversationRows events type ! i =
     make_row (usernamesByTimeGroup (derive type xs))
       (map_option (derived_at xs) (last_msg xs i))
       (if Suc i < length xs then Some (derived_at xs (Suc i)) else None)
       (map_option (derived_at xs) (find (is_msg xs) [Suc i..<length xs]))
       (derived_at xs i)"
proof -
  have ds: "derivedEvents (derive type xs) = map (derived_at xs) [0..<length xs]"
    using vars_ok_derive [of type xs] by (simp add: vars_ok_def)
  have "previousMessageRows None (map (derived_at xs) [0..<length xs]) ! i =
      map_option (derived_at xs) (last_msg xs i)"
    using i by (simp add: previousMessageRows_nth take_map last_msg_foldl)
  moreover have "fst (nextMessageRows (map (derived_at xs) [0..<length xs])) ! i =
      map_option (derived_at xs) (find (is_msg xs) [Suc i..<length xs])"
    using i nextMessageRows_find [of "map (derived_at xs) [0..<length xs]"]
    by (simp add: drop_map find_derived)
  moreover have "xs \<noteq> []" using i by auto
  ultimately show ?thesis
    using i by (simp add: makeChatConversationRows_def Let_def xs [symmetric] ds)
qed

lemma length_makeChatConversationRows:
  "length (makeChatConversationRows events type) = length events"
proof -
  have "derivedEvents (derive type xs) = map (derived_at xs) [0..<length xs]" for xs
    using vars_ok_derive [of type xs] by (simp add: vars_ok_def)
  then show ?thesis by (auto simp: makeChatConversationRows_def Let_def)
      (metis length_0_conv length_orderBy_desc)
qed

lemma senderRunId_derived: "is_msg xs i \<Longrightarrow> senderRunId (derived_at xs i) = Some (run_upto xs (Suc i))"
  by (simp add: derived_at_def)

lemma d_layout_derived: "d_layout (derived_at xs i) = message_row \<longleftrightarrow> is_msg xs i"
  by (simp add: derived_at_def is_msg_def)

lemma newest_in_run:
  assumes "is_msg xs i"
  shows "(case map_option (derived_at xs) (last_msg xs i) of
      None \<Rightarrow> True | Some p \<Rightarrow> senderRunId p \<noteq> senderRunId (derived_at xs i)) \<longleftrightarrow>
    \<not> (\<exists>j. follows_in_run xs j i)"
proof (cases "last_msg xs i")
  case None
  then have "\<not> (\<exists>j. follows_in_run xs j i)" by (auto simp: last_msg_None follows_in_run_def)
  with None show ?thesis by simp
next
  case (Some p)
  have "j = p" if "follows_in_run xs j i" for j
  proof -
    from that have "last_msg xs i = Some j" by (simp add: last_msg_Some follows_in_run_def)
    with Some show ?thesis by simp
  qed
  then have "(\<exists>j. follows_in_run xs j i) \<longleftrightarrow> follows_in_run xs p i" by blast
  moreover have "is_msg xs p" using Some by (simp add: last_msg_Some)
  ultimately show ?thesis
    using Some assms run_after_message [OF Some assms]
    by (auto simp: senderRunId_derived simp del: run_upto.simps)
qed

lemma oldest_in_run:
  assumes "is_msg xs i"
  shows "(case map_option (derived_at xs) (find (is_msg xs) [Suc i..<n]) of
      None \<Rightarrow> True | Some d \<Rightarrow> senderRunId d \<noteq> senderRunId (derived_at xs i)) \<longleftrightarrow>
    \<not> (\<exists>j<n. follows_in_run xs i j)"
proof (cases "find (is_msg xs) [Suc i..<n]")
  case None
  then have "\<not> (\<exists>j<n. follows_in_run xs i j)" by (auto simp: find_None_iff follows_in_run_def)
  with None show ?thesis by simp
next
  case (Some q)
  have "j = q" if "j < n" "follows_in_run xs i j" for j
  proof -
    from that have "find (is_msg xs) [Suc i..<n] = Some j"
      by (simp add: find_next_msg follows_in_run_def)
    with Some show ?thesis by simp
  qed
  moreover have q: "q < n" "is_msg xs q" using Some by (simp_all add: find_next_msg)
  ultimately have "(\<exists>j<n. follows_in_run xs i j) \<longleftrightarrow> follows_in_run xs i q" by blast
  moreover have "last_msg xs q = Some i"
    using Some assms by (simp add: find_next_msg last_msg_Some)
  ultimately show ?thesis
    using Some assms run_after_message [of xs q i] q
    by (auto simp: senderRunId_derived simp del: run_upto.simps)
qed

lemma usernames_of_group:
  assumes "is_msg xs i" "i < length xs"
  shows "(case jm_get (usernamesByTimeGroup (derive type xs)) (tg_of xs i) of
      None \<Rightarrow> False | Some b \<Rightarrow> b) \<longleftrightarrow>
    type = chat_group \<and>
    (\<forall>j<length xs. is_msg xs j \<and> same_group xs i j \<longrightarrow> \<not> isMultispendEvent (xs ! j))"
proof -
  have "i \<in> set (group_members xs (tg_of xs i))" using assms by (simp add: group_members_def)
  then have "group_members xs (tg_of xs i) \<noteq> []" by auto
  then show ?thesis
    using vars_ok_derive [of type xs]
    by (auto simp: vars_ok_def usernames_at_def group_members_def tg_of_eq' same_group_sym)
qed

section \<open>Properties\<close>

text \<open>
  There is exactly one row for each event, in descending order of time and, for equal
  times, in the order the events came.
\<close>

theorem makeChatConversationRows_events:
  "map row_event (makeChatConversationRows events type) = orderBy_desc timestamp events"
proof (rule nth_equalityI)
  show "length (map row_event (makeChatConversationRows events type)) =
      length (orderBy_desc timestamp events)"
    by (simp add: length_makeChatConversationRows)
  fix i assume "i < length (map row_event (makeChatConversationRows events type))"
  then have i: "i < length (orderBy_desc timestamp events)"
    by (simp add: length_makeChatConversationRows)
  then show "map row_event (makeChatConversationRows events type) ! i = orderBy_desc timestamp events ! i"
    using makeChatConversationRows_nth [OF refl i, of type]
    by (simp add: length_makeChatConversationRows make_row_def Let_def derived_at_def)
qed


definition example_events :: "MatrixEvent list" where
  "example_events =
     [\<lparr>ev_id = ''1'', sender = ''ann'', timestamp = 1000, msgtype = ''m.text'', change = None\<rparr>,
      \<lparr>ev_id = ''2'', sender = ''ann'', timestamp = 31000, msgtype = ''m.text'', change = None\<rparr>,
      \<lparr>ev_id = ''3'', sender = ''bob'', timestamp = 40000, msgtype = ''m.room.member'',
       change = Some ''joined''\<rparr>]"


end
