(* ===== verification/Fi_Scenarios.thy ===== *)
theory Fi_Scenarios
  imports Js_Prelude
begin

text \<open>
  \<^verbatim>\<open>ui/common/utils/fi/scenarios.ts\<close> and \<^verbatim>\<open>mockPayerFederation.ts\<close>: the environments of the
  wallet-service simulator, one constant per scenario, and the mock wallets it can seed. The
  scenario picker's grouping is here too, with the check the source leaves to the type checker:
  every scenario is in exactly one group.
\<close>

section \<open>Scenarios\<close>

datatype FormationPhaseName =
    preparing | awaitingPaymentReadiness | acquiringSeats | preparingDkg | dkgUnderway
  | publishingSeatBindings | formed

definition FORMATION_PHASES :: "FormationPhaseName list" where
  "FORMATION_PHASES = [preparing, awaitingPaymentReadiness, acquiringSeats, preparingDkg,
     dkgUnderway, publishingSeatBindings, formed]"

text \<open>\<^verbatim>\<open>FORMATION_PHASES.indexOf(p)\<close>; every phase is in the list.\<close>

fun phase_pos :: "FormationPhaseName \<Rightarrow> nat" where
  "phase_pos preparing = 0"
| "phase_pos awaitingPaymentReadiness = 1"
| "phase_pos acquiringSeats = 2"
| "phase_pos preparingDkg = 3"
| "phase_pos dkgUnderway = 4"
| "phase_pos publishingSeatBindings = 5"
| "phase_pos formed = 6"

lemma phase_pos_nth: "FORMATION_PHASES ! phase_pos p = p \<and> phase_pos p < length FORMATION_PHASES"
  by (cases p) (simp_all add: FORMATION_PHASES_def)

lemma phase_pos_of_nth: "i < 7 \<Longrightarrow> phase_pos (FORMATION_PHASES ! i) = i"
  by (auto simp: FORMATION_PHASES_def less_Suc_eq numeral_eq_Suc)

lemma length_FORMATION_PHASES [simp]: "length FORMATION_PHASES = 7"
  by (simp add: FORMATION_PHASES_def)

lemma phase_pos_le: "phase_pos p \<le> 6"
  by (cases p) auto

lemma phase_pos_6 [simp]: "phase_pos p = 6 \<longleftrightarrow> p = formed"
  by (cases p) auto

datatype seed_formation = seed_inProgress | seed_formed

text \<open>
  Error codes, networks and identifiers are the strings of the bindings. A latency is in
  milliseconds, a balance in sats.
\<close>

record scenario_payer =
  payer_federationId :: string
  payer_balanceSats :: int

record FiScenario =
  payers :: "scenario_payer list"
  coldPreviewLatencyMs :: int
  warmPreviewLatencyMs :: int
  eligibleFmanCount :: nat
  seenFmanCount :: nat
  previewValiditySecs :: int
  phaseIntervalMs :: int
  failAtPhase :: "FormationPhaseName option"
  failWithCode :: string
  authorizeAtPhase :: "FormationPhaseName option"
  replaceGuardianAtPhase :: "FormationPhaseName option"
  replacementCandidateCount :: nat
  unsyncedAtPhase :: "FormationPhaseName option"
  authorizeAmountSats :: int
  previewFailuresAfterCount :: "nat option"
  rejectSelectionOnPay :: bool
  failPayerLookup :: bool
  failJoinLookup :: bool
  noJoinableWalletServices :: bool
  joinLookupLatencyMs :: int
  admitNewlyJoined :: bool
  seedMockPayers :: bool
  seedFormation :: "seed_formation option"
  liquidityNetwork :: string
  liquidityFailWithCode :: "string option"
  liquidityNoProvider :: bool
  liquidityVerifyAfterPolls :: "nat option"
  liquidityRejectsOnStatus :: bool
  liquidityAlreadyRunning :: bool
  liquidityAlreadyAttached :: bool

definition baseScenario :: FiScenario where
  "baseScenario = \<lparr>
     payers =
       [\<lparr>payer_federationId = ''fed-bitcoin-builders'', payer_balanceSats = 312500\<rparr>,
        \<lparr>payer_federationId = ''fed-community-mint'', payer_balanceSats = 48000\<rparr>],
     coldPreviewLatencyMs = 1000,
     warmPreviewLatencyMs = 400,
     eligibleFmanCount = 30,
     seenFmanCount = 42,
     previewValiditySecs = 120,
     phaseIntervalMs = 2000,
     failAtPhase = None,
     failWithCode = ''fleetManager'',
     authorizeAtPhase = None,
     replaceGuardianAtPhase = None,
     replacementCandidateCount = 5,
     unsyncedAtPhase = None,
     authorizeAmountSats = 6300,
     previewFailuresAfterCount = None,
     rejectSelectionOnPay = False,
     failPayerLookup = False,
     failJoinLookup = False,
     noJoinableWalletServices = False,
     joinLookupLatencyMs = 400,
     admitNewlyJoined = False,
     seedMockPayers = False,
     seedFormation = None,
     liquidityNetwork = ''signet'',
     liquidityFailWithCode = None,
     liquidityNoProvider = False,
     liquidityVerifyAfterPolls = Some 2,
     liquidityRejectsOnStatus = False,
     liquidityAlreadyRunning = False,
     liquidityAlreadyAttached = False \<rparr>"

datatype FiScenarioName =
    happyPath | noEligiblePayers | payerLookupFails | noJoinableServices | joinLookupFails
  | slowJoinLookup | insufficientBalance | notEnoughGuardians | selectionExpiresFast
  | reauthorizationRequired | authorizePayments | formationFails | formationFailsTerminally
  | guardianDroppedOut | guardianDroppedOutNoCandidates | reconnecting | authorizePaymentsShort
  | quoteRefreshLosesGuardians | formationInProgress | alreadyFormed | slowNetwork
  | lightningAttaches | lightningFailsRetryable | lightningFailsTerminally | lightningNoProvider
  | lightningWrongNetwork | lightningRejected | lightningNeverVerifies
  | lightningAlreadyAttaching | lightningAlreadyAttached

fun fiScenarios :: "FiScenarioName \<Rightarrow> FiScenario" where
  "fiScenarios happyPath = baseScenario\<lparr>seedMockPayers := True\<rparr>"
| "fiScenarios noEligiblePayers = baseScenario\<lparr>payers := [], admitNewlyJoined := True\<rparr>"
| "fiScenarios payerLookupFails = baseScenario\<lparr>failPayerLookup := True\<rparr>"
| "fiScenarios noJoinableServices =
     baseScenario\<lparr>payers := [], noJoinableWalletServices := True, admitNewlyJoined := True\<rparr>"
| "fiScenarios joinLookupFails =
     baseScenario\<lparr>payers := [], failJoinLookup := True, admitNewlyJoined := True\<rparr>"
| "fiScenarios slowJoinLookup =
     baseScenario\<lparr>payers := [], joinLookupLatencyMs := 6000, admitNewlyJoined := True\<rparr>"
| "fiScenarios insufficientBalance =
     baseScenario\<lparr>payers :=
       [\<lparr>payer_federationId = ''fed-bitcoin-builders'', payer_balanceSats = 8000\<rparr>]\<rparr>"
| "fiScenarios notEnoughGuardians = baseScenario\<lparr>eligibleFmanCount := 8, seenFmanCount := 11\<rparr>"
| "fiScenarios selectionExpiresFast = baseScenario\<lparr>previewValiditySecs := 5\<rparr>"
| "fiScenarios reauthorizationRequired = baseScenario\<lparr>rejectSelectionOnPay := True\<rparr>"
| "fiScenarios authorizePayments = baseScenario\<lparr>authorizeAtPhase := Some acquiringSeats\<rparr>"
| "fiScenarios formationFails =
     baseScenario\<lparr>failAtPhase := Some dkgUnderway, failWithCode := ''fleetManager''\<rparr>"
| "fiScenarios formationFailsTerminally =
     baseScenario\<lparr>failAtPhase := Some dkgUnderway, failWithCode := ''invalidIntent''\<rparr>"
| "fiScenarios guardianDroppedOut = baseScenario\<lparr>replaceGuardianAtPhase := Some dkgUnderway\<rparr>"
| "fiScenarios guardianDroppedOutNoCandidates =
     baseScenario\<lparr>replaceGuardianAtPhase := Some dkgUnderway, replacementCandidateCount := 0\<rparr>"
| "fiScenarios reconnecting = baseScenario\<lparr>unsyncedAtPhase := Some dkgUnderway\<rparr>"
| "fiScenarios authorizePaymentsShort =
     baseScenario\<lparr>authorizeAtPhase := Some acquiringSeats, authorizeAmountSats := 10000000\<rparr>"
| "fiScenarios quoteRefreshLosesGuardians =
     baseScenario\<lparr>previewValiditySecs := 10, previewFailuresAfterCount := Some 2\<rparr>"
| "fiScenarios formationInProgress = baseScenario\<lparr>seedFormation := Some seed_inProgress\<rparr>"
| "fiScenarios alreadyFormed = baseScenario\<lparr>seedFormation := Some seed_formed\<rparr>"
| "fiScenarios slowNetwork =
     baseScenario\<lparr>coldPreviewLatencyMs := 3000, warmPreviewLatencyMs := 1500,
       phaseIntervalMs := 6000\<rparr>"
| "fiScenarios lightningAttaches = baseScenario\<lparr>seedFormation := Some seed_formed\<rparr>"
| "fiScenarios lightningFailsRetryable =
     baseScenario\<lparr>seedFormation := Some seed_formed, liquidityFailWithCode := Some ''busy''\<rparr>"
| "fiScenarios lightningFailsTerminally =
     baseScenario\<lparr>seedFormation := Some seed_formed,
       liquidityFailWithCode := Some ''capabilityUnavailable''\<rparr>"
| "fiScenarios lightningNoProvider =
     baseScenario\<lparr>seedFormation := Some seed_formed, liquidityNoProvider := True\<rparr>"
| "fiScenarios lightningWrongNetwork =
     baseScenario\<lparr>seedFormation := Some seed_formed, liquidityNetwork := ''bitcoin''\<rparr>"
| "fiScenarios lightningRejected =
     baseScenario\<lparr>seedFormation := Some seed_formed, liquidityRejectsOnStatus := True\<rparr>"
| "fiScenarios lightningNeverVerifies =
     baseScenario\<lparr>seedFormation := Some seed_formed, liquidityVerifyAfterPolls := None\<rparr>"
| "fiScenarios lightningAlreadyAttaching =
     baseScenario\<lparr>seedFormation := Some seed_formed, liquidityAlreadyRunning := True,
       liquidityVerifyAfterPolls := None\<rparr>"
| "fiScenarios lightningAlreadyAttached =
     baseScenario\<lparr>seedFormation := Some seed_formed, liquidityAlreadyAttached := True\<rparr>"

definition DEFAULT_FI_SCENARIO :: FiScenarioName where
  "DEFAULT_FI_SCENARIO = happyPath"

definition FI_SCENARIO_GROUPS :: "(string \<times> FiScenarioName list) list" where
  "FI_SCENARIO_GROUPS =
     [(''Baseline'', [happyPath, slowNetwork]),
      (''Paying for setup'', [noEligiblePayers, payerLookupFails, insufficientBalance]),
      (''Joining a wallet service'', [noJoinableServices, joinLookupFails, slowJoinLookup]),
      (''Selection and quote'',
        [notEnoughGuardians, selectionExpiresFast, reauthorizationRequired,
         quoteRefreshLosesGuardians]),
      (''Payment authorization'', [authorizePayments, authorizePaymentsShort]),
      (''Formation'',
        [formationInProgress, alreadyFormed, formationFails, formationFailsTerminally,
         reconnecting]),
      (''Guardian replacement'', [guardianDroppedOut, guardianDroppedOutNoCandidates]),
      (''Lightning provider'',
        [lightningAttaches, lightningFailsRetryable, lightningFailsTerminally,
         lightningNoProvider, lightningWrongNetwork, lightningRejected, lightningNeverVerifies,
         lightningAlreadyAttaching, lightningAlreadyAttached])]"

section \<open>Mock wallets\<close>

definition SATS_TO_MSATS :: int where
  "SATS_TO_MSATS = 1000"

record MockPayerFederation =
  mock_id :: string
  mock_name :: string
  mock_balanceSats :: int

definition MOCK_PAYER_FEDERATIONS :: "MockPayerFederation list" where
  "MOCK_PAYER_FEDERATIONS =
     [\<lparr>mock_id = ''mock-payer-global-bitcoin'', mock_name = ''Global Bitcoin Federation'',
       mock_balanceSats = 1041000\<rparr>,
      \<lparr>mock_id = ''mock-payer-bitcoin-builders'', mock_name = ''Bitcoin Builders'',
       mock_balanceSats = 312500\<rparr>,
      \<lparr>mock_id = ''mock-payer-victoria'', mock_name = ''Victoria'', mock_balanceSats = 0\<rparr>,
      \<lparr>mock_id = ''mock-payer-pocket-change'', mock_name = ''Pocket Change'',
       mock_balanceSats = 900\<rparr>]"

definition MOCK_PAYER_FEDERATION_IDS :: "string list" where
  "MOCK_PAYER_FEDERATION_IDS = map mock_id MOCK_PAYER_FEDERATIONS"

record MockJoinableWalletService =
  svc_id :: string
  svc_name :: string
  svc_inviteCode :: string
  svc_welcomeMessage :: string

definition MOCK_JOINABLE_WALLET_SERVICES :: "MockJoinableWalletService list" where
  "MOCK_JOINABLE_WALLET_SERVICES =
     [\<lparr>svc_id = ''mock-trusted-lagos-builders'', svc_name = ''Lagos Builders'',
       svc_inviteCode = ''fed1mock-trusted-lagos-builders'',
       svc_welcomeMessage = ''A community wallet service run from Lagos.''\<rparr>,
      \<lparr>svc_id = ''mock-trusted-cape-town-commons'', svc_name = ''Cape Town Commons'',
       svc_inviteCode = ''fed1mock-trusted-cape-town-commons'',
       svc_welcomeMessage = ''Shared savings for the Cape Town commons.''\<rparr>]"

text \<open>
  The redux federation of a mock wallet: the fields that vary and the ones the simulator
  changes. The constant ones (\<^verbatim>\<open>status\<close>, \<^verbatim>\<open>init_state\<close>, \<^verbatim>\<open>nodes\<close> and the like) are left out.
\<close>

record LoadedFederation =
  fed_id :: string
  fed_name :: string
  fed_balance :: int
  fed_network :: string
  fed_inviteCode :: string
  fed_meta :: "(string, string) jsmap"

definition makeMockPayerFederation :: "MockPayerFederation \<Rightarrow> LoadedFederation" where
  "makeMockPayerFederation mock =
     \<lparr> fed_id = mock_id mock, fed_name = mock_name mock,
       fed_balance = mock_balanceSats mock * SATS_TO_MSATS, fed_network = ''bitcoin'',
       fed_inviteCode = [], fed_meta = [] \<rparr>"

section \<open>Lemmas\<close>

definition knobless :: "FiScenario \<Rightarrow> bool" where
  "knobless sc \<longleftrightarrow> failAtPhase sc = None \<and> unsyncedAtPhase sc = None \<and>
     authorizeAtPhase sc = None \<and> replaceGuardianAtPhase sc = None"

lemma scenario_balances_nonneg:
  "p \<in> set (payers (fiScenarios n)) \<Longrightarrow> 0 \<le> payer_balanceSats p"
  by (cases n) (auto simp: baseScenario_def)

end
