(* ===== verification/Fi_Simulator.thy ===== *)
theory Fi_Simulator
  imports Fi_Scenarios "HOL-Library.Word"
begin

text \<open>
  \<^verbatim>\<open>ui/common/utils/fi/simulator.ts\<close>: the in-memory stand-in for the wallet-service half of the
  bridge, one definition per method of the class \<^verbatim>\<open>FiSimulator\<close>, over a record of its fields.

  \<^item> An amount that crosses the RPC boundary as a decimal string (\<^verbatim>\<open>RpcFiMsats\<close>) is the integer
    it denotes. The clock \<^verbatim>\<open>nowSecs()\<close> is the argument \<open>now\<close>.
  \<^item> What the simulator emits is logged: \<open>updates\<close> for the status stream, \<open>events\<close> for the money
    rails and federation announcements. An emitter that is not attached logs nothing.
  \<^item> \<open>phaseTimer\<close> says that a formation timeout is pending; firing it is \<open>phase_timer_fires\<close>. The
    zero-delay timeouts of \<^verbatim>\<open>subscribe\<close> wait in \<open>initialPublishes\<close>.
  \<^item> An \<^verbatim>\<open>async\<close> method with an \<^verbatim>\<open>await\<close> is two definitions: the part before the \<^verbatim>\<open>await\<close> queues a
    continuation with the local variables it captured, and \<open>resume_continuation\<close> runs the part
    after it, in whatever order the timers fire.
  \<^item> A method that throws returns the reply \<open>RThrow\<close>.
  \<^item> Fields with one constant value (the plan, the provider's contact data, the bounds and the
    payload hash of a liquidity operation) are left out of the records.
\<close>

section \<open>Data\<close>

type_synonym msats = int

datatype freshness = fresh | unsynced

datatype seat_phase =
    sp_selected | sp_replacementRequired | sp_quoteReady | sp_acquiring | sp_created
  | sp_guardianCodeReady | sp_dkgUnderway | sp_running

record RpcFiSelectionPreviewSeat =
  ps_fmanId :: string
  ps_fmanName :: string
  ps_advertisedPriceMsats :: msats
  ps_provenance :: string

record RpcFiSelectionPreview =
  previewId :: string
  selected :: nat
  totalAdvertisedMsats :: msats
  seen :: nat
  eligible :: nat
  validUntil :: int
  preview_seats :: "RpcFiSelectionPreviewSeat list"

record RpcFiSeatProgress =
  seat_index :: nat
  seat_fmanId :: "string option"
  seat_fmanName :: "string option"
  seat_locator :: string
  seat_seatId :: "string option"
  seat_guardianCode :: "string option"
  seat_phase :: seat_phase
  seat_freshness :: freshness

record RpcFiSeatPaymentRequirement =
  pay_index :: nat
  pay_fmanId :: "string option"
  pay_fmanName :: "string option"
  pay_quoteId :: string
  paymentFederationId :: string
  pay_amountMsats :: msats

record RpcFiPaymentRequirements =
  authorizationId :: string
  req_totalMsats :: msats
  req_maxTotalMsats :: "msats option"
  req_seats :: "RpcFiSeatPaymentRequirement list"

record RpcFiGuardianReplacementSeat =
  rs_index :: nat
  previousFmanId :: "string option"
  previousFmanName :: "string option"
  previousQuoteId :: string
  previousLocator :: string

record RpcFiGuardianReplacementRequirements =
  replacementId :: string
  replacement_seats :: "RpcFiGuardianReplacementSeat list"

datatype RpcFiFormationActionRequired =
    AuthorizePayments RpcFiPaymentRequirements
  | AuthorizeReplacementPayments RpcFiPaymentRequirements
  | ReplaceGuardians RpcFiGuardianReplacementRequirements

record RpcFiReplacementPreviewSeat =
  rp_index :: nat
  rp_fmanId :: string
  rp_fmanName :: string
  rp_advertisedPriceMsats :: msats
  rp_provenance :: string

record RpcFiReplacementPreview =
  rp_previewId :: string
  rp_requirements :: RpcFiGuardianReplacementRequirements
  rp_totalAdvertisedMsats :: msats
  rp_seats :: "RpcFiReplacementPreviewSeat list"

record RpcFiFormationIntent =
  want_federationName :: "string option"
  want_federationSize :: nat

record RpcFiResolvedFormationIntent =
  federationName :: string
  federationSize :: nat
  guardianFeePpm :: int
  maxTotalMsats :: "msats option"

record RpcFiFormationMilestones =
  ecashSent :: bool
  guardiansConfirmed :: bool
  walletServiceCreated :: bool

record RpcFiFormationSnapshot =
  formationId :: string
  phase :: FormationPhaseName
  intent :: RpcFiResolvedFormationIntent
  seats :: "RpcFiSeatProgress list"
  f_freshness :: freshness
  actionRequired :: "RpcFiFormationActionRequired option"
  paymentOutputsStarted :: bool
  milestones :: RpcFiFormationMilestones
  f_inviteCode :: "string option"
  lastError :: "string option"

datatype RpcFiStatus = status_idle | status_formation RpcFiFormationSnapshot

datatype liquidity_phase = lp_prepared | lp_accepted | lp_rejected

record RpcFiLiquidityOperation =
  operationId :: string
  op_formationId :: string
  op_providerPubkey :: string
  op_phase :: liquidity_phase
  rejectionCode :: "string option"
  gatewayViewVerified :: bool

record RpcFiLiquidityProvider =
  providerPubkey :: string
  supportedNetworks :: "string list"
  displayName :: string
  issuedAt :: int
  expiresAt :: int

datatype RpcFiOperationErrorDetail =
    InsufficientFmanSeats int int int int
  | SelectionReauthorizationRequired string
  | AbandonUnavailable string

record RpcFiOperationError =
  err_code :: string
  err_message :: string
  err_detail :: "RpcFiOperationErrorDetail option"

record PendingDeposit =
  dep_federationId :: "string option"
  dep_amountMsats :: msats

record mock_payer =
  mp_federationId :: string
  mp_balanceSats :: int
  mp_name :: "string option"

text \<open>What the emitters deliver.\<close>

record stream_update =
  su_stream :: nat
  su_sequence :: nat
  su_status :: RpcFiStatus

datatype bridge_event =
    FederationEvent LoadedFederation
  | BalanceEvent string msats
  | TransactionEvent "string option" string string msats int

text \<open>The suspended halves of the asynchronous methods, with what they captured.\<close>

datatype continuation =
    PreviewCont FiScenario nat
  | PayCont string PendingDeposit "string option"
  | SetupCont FiScenario

record FiSimulator =
  scenario :: FiScenario
  status :: RpcFiStatus
  previews :: "(string, RpcFiSelectionPreview) jsmap"
  replacementPreviewId :: "string option"
  previewCount :: nat
  streamIds :: "nat list"
  sequences :: "(nat, nat) jsmap"
  emitStream :: bool
  emitEvent :: bool
  pendingDeposits :: "(string, PendingDeposit) jsmap"
  phaseTimer :: bool
  phaseIndex :: nat
  hasPreviewedOnce :: bool
  joinedFederationIds :: "string list"
  baselineFederationIds :: "string list option"
  mockPayers :: "mock_payer list"
  walletServiceFederation :: "LoadedFederation option"
  nextId :: nat
  liquidityOperation :: "RpcFiLiquidityOperation option"
  liquidityPolls :: nat
  updates :: "stream_update list"
  events :: "bridge_event list"
  initialPublishes :: "nat list"
  inflight :: "continuation list"

datatype rpc_reply =
    RNull
  | RPending
  | RThrow string
  | RSuccess
  | RError RpcFiOperationError
  | RString string
  | RPreimage string
  | RStatus RpcFiStatus
  | RPayers "(string \<times> msats) list"
  | RFederations "(string \<times> string \<times> bool) list"
  | RPreview RpcFiSelectionPreview
  | RReplacementPreview RpcFiReplacementPreview
  | RFederation LoadedFederation
  | RFederationPreview string string "(string, string) jsmap" string
  | RParsedInvite string
  | RGuardianStatus "string list"
  | RDiscovery "RpcFiLiquidityProvider list" "(string \<times> string) list"
  | ROperation RpcFiLiquidityOperation
  | RCurrent "RpcFiLiquidityOperation option"

text \<open>The arguments of an RPC: \<^verbatim>\<open>payload.x\<close> is \<open>None\<close> when the caller passed none.\<close>

record rpc_payload =
  pl_streamId :: "nat option"
  pl_federationId :: "string option"
  pl_invoice :: "string option"
  pl_inviteCode :: "string option"
  pl_amount :: msats
  pl_previewId :: string
  pl_requestSize :: nat
  pl_intent :: RpcFiFormationIntent
  pl_maxTotalMsats :: msats
  pl_authorizationId :: string
  pl_guardianFeePpm :: int
  pl_network :: string

section \<open>Prices, names, identifiers\<close>

definition fi_error :: "string \<Rightarrow> string \<Rightarrow> RpcFiOperationErrorDetail option \<Rightarrow> rpc_reply" where
  "fi_error code message detail =
     RError \<lparr> err_code = code, err_message = message, err_detail = detail \<rparr>"

definition BASE_SEAT_PRICE_MSATS :: int where
  "BASE_SEAT_PRICE_MSATS = 2100000"

definition MAX_GUARDIAN_FEE_PPM :: int where
  "MAX_GUARDIAN_FEE_PPM = 210000"

definition GUARDIAN_FEE_SEND_PPM_META_KEY :: string where
  "GUARDIAN_FEE_SEND_PPM_META_KEY = ''fedi:guardian_fee_send_ppm''"

definition seatPriceMsats :: "nat \<Rightarrow> nat \<Rightarrow> int" where
  "seatPriceMsats index seatCount =
     (let isLastOfOddSet = (int index = int seatCount - 1 \<and> seatCount mod 2 = 1)
      in if isLastOfOddSet then BASE_SEAT_PRICE_MSATS
         else let offset = 50 * SATS_TO_MSATS
              in if index mod 2 = 0 then BASE_SEAT_PRICE_MSATS + offset
                 else BASE_SEAT_PRICE_MSATS - offset)"

definition FMAN_ADJECTIVES :: "string list" where
  "FMAN_ADJECTIVES = [''amber'', ''brisk'', ''candid'', ''dapper'', ''eager'', ''frugal'',
     ''genial'', ''humble'']"

definition FMAN_NOUNS :: "string list" where
  "FMAN_NOUNS = [''alder'', ''basalt'', ''cormorant'', ''dovetail'', ''ember'', ''fathom'',
     ''granite'', ''harbour'']"

text \<open>The digest is an unsigned 32-bit integer: \<^verbatim>\<open>>>> 0\<close> wraps every step.\<close>

definition fman_digest :: "string \<Rightarrow> 32 word" where
  "fman_digest fmanId = foldl (\<lambda>acc c. acc * 33 + of_char c) 5381 fmanId"

definition fmanNameFor :: "string \<Rightarrow> string" where
  "fmanNameFor fmanId =
     (let digest = fman_digest fmanId
      in FMAN_ADJECTIVES ! unat (digest mod 8) @ '' '' @ FMAN_NOUNS ! unat (drop_bit 8 digest mod 8))"

definition hash :: "nat \<Rightarrow> string" where
  "hash index = take 6 (hex_str ((int index + 7) * 2654435761))"

definition padStart2 :: "string \<Rightarrow> string" where
  "padStart2 s = replicate (2 - length s) (CHR ''0'') @ s"

definition fman_id_for :: "nat \<Rightarrow> string" where
  "fman_id_for index = ''fman_'' @ padStart2 (nat_str (index + 1)) @ ''_'' @ hash index"

definition make_seats :: "nat \<Rightarrow> RpcFiSelectionPreviewSeat list" where
  "make_seats n = map (\<lambda>index.
     \<lparr> ps_fmanId = fman_id_for index, ps_fmanName = fmanNameFor (fman_id_for index),
       ps_advertisedPriceMsats = seatPriceMsats index n, ps_provenance = ''fedi_attested'' \<rparr>)
     [0..<n]"

text \<open>\<^verbatim>\<open>JSON.stringify({ v: 1, fmanId })\<close>.\<close>

definition locator_json :: "string \<Rightarrow> string" where
  "locator_json fmanId =
     ''{'' @ [CHR 0x22] @ ''v'' @ [CHR 0x22] @ '':1,'' @ [CHR 0x22] @ ''fmanId'' @ [CHR 0x22] @ '':'' @
     [CHR 0x22] @ fmanId @ [CHR 0x22] @ ''}''"

fun seatPhaseFor :: "FormationPhaseName \<Rightarrow> seat_phase" where
  "seatPhaseFor preparing = sp_selected"
| "seatPhaseFor awaitingPaymentReadiness = sp_selected"
| "seatPhaseFor acquiringSeats = sp_acquiring"
| "seatPhaseFor preparingDkg = sp_guardianCodeReady"
| "seatPhaseFor dkgUnderway = sp_dkgUnderway"
| "seatPhaseFor _ = sp_running"

text \<open>\<^verbatim>\<open>Math.round(amountMsats / SATS_TO_MSATS)\<close>, halves rounded up.\<close>

definition msats_to_sats :: "msats \<Rightarrow> int" where
  "msats_to_sats a = (a + 500) div SATS_TO_MSATS"

section \<open>Emission\<close>

definition emit_event :: "bridge_event \<Rightarrow> FiSimulator \<Rightarrow> FiSimulator" where
  "emit_event e s = (if emitEvent s then s\<lparr>events := events s @ [e]\<rparr> else s)"

definition publishTo :: "nat \<Rightarrow> FiSimulator \<Rightarrow> FiSimulator" where
  "publishTo streamId s =
     (if \<not> emitStream s \<or> streamId \<notin> set (streamIds s) then s
      else let sequence = (case jm_get (sequences s) streamId of None \<Rightarrow> 0 | Some n \<Rightarrow> n)
           in s\<lparr> sequences := jm_set streamId (sequence + 1) (sequences s),
                 updates := updates s @
                   [\<lparr>su_stream = streamId, su_sequence = sequence, su_status = status s\<rparr>] \<rparr>)"

definition publish :: "FiSimulator \<Rightarrow> FiSimulator" where
  "publish s = fold publishTo (streamIds s) s"

definition currentFormation :: "FiSimulator \<Rightarrow> RpcFiFormationSnapshot option" where
  "currentFormation s = (case status s of status_idle \<Rightarrow> None | status_formation f \<Rightarrow> Some f)"

definition set_formation :: "RpcFiFormationSnapshot \<Rightarrow> FiSimulator \<Rightarrow> FiSimulator" where
  "set_formation f s = s\<lparr>status := status_formation f\<rparr>"

definition scheduleNextPhase :: "FiSimulator \<Rightarrow> FiSimulator" where
  "scheduleNextPhase s = s\<lparr>phaseTimer := True\<rparr>"

definition attach :: "bool \<Rightarrow> FiSimulator \<Rightarrow> FiSimulator" where
  "attach withEvents s = s\<lparr>emitStream := True, emitEvent := withEvents\<rparr>"

definition reset :: "FiSimulator \<Rightarrow> FiSimulator" where
  "reset s = publish (s\<lparr> phaseTimer := False, phaseIndex := 0, hasPreviewedOnce := False,
     previewCount := 0, previews := [], pendingDeposits := [], liquidityOperation := None,
     liquidityPolls := 0, walletServiceFederation := None, status := status_idle \<rparr>)"

section \<open>Mock wallets\<close>

definition is_payer :: "string option \<Rightarrow> mock_payer \<Rightarrow> bool" where
  "is_payer fid p \<longleftrightarrow> Some (mp_federationId p) = fid"

definition isMockPayer :: "string option \<Rightarrow> FiSimulator \<Rightarrow> bool" where
  "isMockPayer fid s = list_ex (is_payer fid) (mockPayers s)"

definition emitBalance :: "string option \<Rightarrow> FiSimulator \<Rightarrow> FiSimulator" where
  "emitBalance fid s =
     (case find (is_payer fid) (mockPayers s) of
        None \<Rightarrow> s
      | Some payer \<Rightarrow>
          emit_event (BalanceEvent (mp_federationId payer) (mp_balanceSats payer * SATS_TO_MSATS)) s)"

definition mockPayerName :: "string \<Rightarrow> string option \<Rightarrow> string" where
  "mockPayerName fid name =
     (case name of Some n \<Rightarrow> n
      | None \<Rightarrow> (case find (\<lambda>m. mock_id m = fid) MOCK_PAYER_FEDERATIONS of
          Some m \<Rightarrow> mock_name m | None \<Rightarrow> fid))"

definition addMockPayer :: "string \<Rightarrow> int \<Rightarrow> string option \<Rightarrow> FiSimulator \<Rightarrow> FiSimulator" where
  "addMockPayer fid balanceSats name s =
     (case find (is_payer (Some fid)) (mockPayers s) of
        Some existing \<Rightarrow>
          emitBalance (Some fid) (s\<lparr>mockPayers :=
            update_first (is_payer (Some fid)) (\<lambda>p. p\<lparr>mp_balanceSats := balanceSats\<rparr>) (mockPayers s)\<rparr>)
      | None \<Rightarrow>
          emit_event (FederationEvent (makeMockPayerFederation
              \<lparr>mock_id = fid, mock_name = mockPayerName fid name, mock_balanceSats = balanceSats\<rparr>))
            (s\<lparr>mockPayers := mockPayers s @
              [\<lparr>mp_federationId = fid, mp_balanceSats = balanceSats, mp_name = name\<rparr>]\<rparr>))"

definition clearMockPayers :: "FiSimulator \<Rightarrow> FiSimulator" where
  "clearMockPayers s = s\<lparr>mockPayers := []\<rparr>"

definition clearSimulatedState :: "FiSimulator \<Rightarrow> FiSimulator" where
  "clearSimulatedState s = reset (s\<lparr>mockPayers := []\<rparr>)"

definition listMockFederations :: "FiSimulator \<Rightarrow> LoadedFederation list" where
  "listMockFederations s =
     map (\<lambda>p. makeMockPayerFederation
       \<lparr>mock_id = mp_federationId p, mock_name = mockPayerName (mp_federationId p) (mp_name p),
        mock_balanceSats = mp_balanceSats p\<rparr>) (mockPayers s) @
     (case walletServiceFederation s of None \<Rightarrow> [] | Some f \<Rightarrow> [f])"

definition mockJoinableFor :: "string option \<Rightarrow> MockJoinableWalletService option" where
  "mockJoinableFor inviteCode =
     find (\<lambda>svc. Some (svc_inviteCode svc) = inviteCode) MOCK_JOINABLE_WALLET_SERVICES"

definition observeJoinedFederation :: "string \<Rightarrow> FiSimulator \<Rightarrow> FiSimulator" where
  "observeJoinedFederation fid s =
     (let s1 = (if baselineFederationIds s = None
                then s\<lparr>baselineFederationIds := Some (joinedFederationIds s)\<rparr> else s)
      in if fid \<in> set (joinedFederationIds s1) then s1
         else s1\<lparr>joinedFederationIds := joinedFederationIds s1 @ [fid]\<rparr>)"

definition repoint :: "string \<Rightarrow> RpcFiPaymentRequirements \<Rightarrow> RpcFiPaymentRequirements" where
  "repoint realId r = r\<lparr>req_seats := map (\<lambda>x. x\<lparr>paymentFederationId := realId\<rparr>) (req_seats r)\<rparr>"

definition has_foreign_payer :: "string list \<Rightarrow> RpcFiPaymentRequirements \<Rightarrow> bool" where
  "has_foreign_payer ids r = list_ex (\<lambda>x. paymentFederationId x \<notin> set ids) (req_seats r)"

text \<open>An empty identifier is falsy, so it does not count as a real wallet.\<close>

definition observeFederations :: "string list \<Rightarrow> FiSimulator \<Rightarrow> FiSimulator" where
  "observeFederations ids s =
     (let s1 = s\<lparr> baselineFederationIds :=
                   (if baselineFederationIds s = None then Some ids else baselineFederationIds s),
                 joinedFederationIds := ids \<rparr>
      in case currentFormation s1 of
           None \<Rightarrow> s1
         | Some f \<Rightarrow>
             if ids = [] \<or> hd ids = [] then s1
             else (case actionRequired f of
                 Some (AuthorizePayments r) \<Rightarrow>
                   if has_foreign_payer ids r
                   then publish (set_formation
                     (f\<lparr>actionRequired := Some (AuthorizePayments (repoint (hd ids) r))\<rparr>) s1)
                   else s1
               | Some (AuthorizeReplacementPayments r) \<Rightarrow>
                   if has_foreign_payer ids r
                   then publish (set_formation
                     (f\<lparr>actionRequired :=
                        Some (AuthorizeReplacementPayments (repoint (hd ids) r))\<rparr>) s1)
                   else s1
               | _ \<Rightarrow> s1))"

definition mockFederationPreview :: "string option \<Rightarrow> rpc_reply" where
  "mockFederationPreview inviteCode =
     (case mockJoinableFor inviteCode of
        None \<Rightarrow> RThrow ''not a mock joinable service''
      | Some svc \<Rightarrow> RFederationPreview (svc_id svc) (svc_name svc)
          [(''welcome_message'', svc_welcomeMessage svc)] (svc_inviteCode svc))"

definition joinMockFederation :: "string option \<Rightarrow> FiSimulator \<Rightarrow> FiSimulator \<times> rpc_reply" where
  "joinMockFederation inviteCode s =
     (case mockJoinableFor inviteCode of
        None \<Rightarrow> (s, RThrow ''not a mock joinable service'')
      | Some svc \<Rightarrow>
          let s1 = observeJoinedFederation (svc_id svc) (addMockPayer (svc_id svc) 0 (Some (svc_name svc)) s);
              federation = makeMockPayerFederation
                \<lparr>mock_id = svc_id svc, mock_name = svc_name svc, mock_balanceSats = 0\<rparr>
          in (emit_event (FederationEvent federation) s1, RFederation federation))"

section \<open>The formed wallet service\<close>

text \<open>
  \<^verbatim>\<open>this.walletServiceFederation?.inviteCode === inviteCode\<close>: with no wallet service and no code
  both sides are \<^verbatim>\<open>undefined\<close>.
\<close>

definition isWalletServiceInvite :: "string option \<Rightarrow> FiSimulator \<Rightarrow> bool" where
  "isWalletServiceInvite inviteCode s \<longleftrightarrow>
     map_option fed_inviteCode (walletServiceFederation s) = inviteCode"

definition isWalletServiceFederation :: "string option \<Rightarrow> FiSimulator \<Rightarrow> bool" where
  "isWalletServiceFederation fid s \<longleftrightarrow> map_option fed_id (walletServiceFederation s) = fid"

definition formed_invite :: "string \<Rightarrow> string" where
  "formed_invite fid = ''fed1'' @ ''sim'' @ replicate 37 (CHR ''0'') @ fid"

text \<open>The snapshot with its invite, and the federation that is announced.\<close>

definition markFormed :: "RpcFiFormationSnapshot \<Rightarrow> FiSimulator \<Rightarrow> RpcFiFormationSnapshot \<times> FiSimulator" where
  "markFormed f s =
     (let f' = f\<lparr> milestones := (milestones f)\<lparr>walletServiceCreated := True\<rparr>,
                 f_inviteCode := Some (formed_invite (formationId f)) \<rparr>;
          federation = (makeMockPayerFederation
            \<lparr>mock_id = ''mock-wallet-service-'' @ formationId f,
             mock_name = federationName (intent f), mock_balanceSats = 0\<rparr>)
            \<lparr>fed_network := ''signet'', fed_inviteCode := formed_invite (formationId f)\<rparr>
      in (f', emit_event (FederationEvent federation)
            (s\<lparr>walletServiceFederation := Some federation\<rparr>)))"

definition parseWalletServiceInvite :: "FiSimulator \<Rightarrow> rpc_reply" where
  "parseWalletServiceInvite s =
     (case walletServiceFederation s of
        None \<Rightarrow> RThrow ''no formed wallet service''
      | Some f \<Rightarrow> RParsedInvite (fed_id f))"

definition walletServicePreview :: "FiSimulator \<Rightarrow> rpc_reply" where
  "walletServicePreview s =
     (case walletServiceFederation s of
        None \<Rightarrow> RThrow ''no formed wallet service''
      | Some f \<Rightarrow> RFederationPreview (fed_id f) (fed_name f) (fed_meta f) (fed_inviteCode f))"

definition seat_label :: "RpcFiSeatProgress \<Rightarrow> string" where
  "seat_label seat =
     (case seat_fmanName seat of Some n \<Rightarrow> n
      | None \<Rightarrow> (case seat_fmanId seat of Some i \<Rightarrow> i | None \<Rightarrow> ''seat '' @ nat_str (seat_index seat)))"

definition guardianStatus :: "string option \<Rightarrow> FiSimulator \<Rightarrow> rpc_reply" where
  "guardianStatus fid s =
     (case currentFormation s of
        Some f \<Rightarrow> if isWalletServiceFederation fid s
                  then RGuardianStatus (map seat_label (seats f)) else RGuardianStatus [''sim'']
      | None \<Rightarrow> RGuardianStatus [''sim''])"

section \<open>Money rails\<close>

definition generateInvoice :: "string option \<Rightarrow> msats \<Rightarrow> FiSimulator \<Rightarrow> FiSimulator \<times> rpc_reply" where
  "generateInvoice fid amount s =
     (let invoice = ''lnbcsim'' @ nat_str (nextId s)
      in (s\<lparr> nextId := nextId s + 1,
             pendingDeposits := jm_set invoice
               \<lparr>dep_federationId = fid, dep_amountMsats = amount\<rparr> (pendingDeposits s) \<rparr>,
          RString invoice))"

definition settleDeposit :: "int \<Rightarrow> string \<Rightarrow> PendingDeposit \<Rightarrow> FiSimulator \<Rightarrow> FiSimulator" where
  "settleDeposit now invoice deposit s =
     (let s1 = s\<lparr>mockPayers := update_first (is_payer (dep_federationId deposit))
            (\<lambda>p. p\<lparr>mp_balanceSats := mp_balanceSats p + msats_to_sats (dep_amountMsats deposit)\<rparr>)
            (mockPayers s)\<rparr>;
          s2 = emitBalance (dep_federationId deposit) s1;
          txn = TransactionEvent (dep_federationId deposit) (''txn_sim_'' @ nat_str (nextId s2)) invoice
            (dep_amountMsats deposit) now
      in if emitEvent s2 then emit_event txn (s2\<lparr>nextId := nextId s2 + 1\<rparr>) else s2)"

definition debitMockPayer :: "string option \<Rightarrow> msats \<Rightarrow> FiSimulator \<Rightarrow> FiSimulator" where
  "debitMockPayer fid amountMsats s =
     (if find (is_payer fid) (mockPayers s) = None then s
      else emitBalance fid (s\<lparr>mockPayers := update_first (is_payer fid)
        (\<lambda>p. p\<lparr>mp_balanceSats := max 0 (mp_balanceSats p - msats_to_sats amountMsats)\<rparr>)
        (mockPayers s)\<rparr>))"

text \<open>Before the \<^verbatim>\<open>await\<close>: the deposit is looked up and captured. After it: it is settled.\<close>

definition payInvoice :: "string option \<Rightarrow> string option \<Rightarrow> FiSimulator \<Rightarrow> FiSimulator \<times> rpc_reply" where
  "payInvoice invoice fid s =
     (case Option.bind invoice (jm_get (pendingDeposits s)) of
        None \<Rightarrow> (s, RThrow ''The simulator can only pay invoices it issued. Top up a mock wallet from another mock wallet, or use two real dev federations.'')
      | Some deposit \<Rightarrow>
          (s\<lparr>inflight := inflight s @ [PayCont (the invoice) deposit fid]\<rparr>, RPending))"

definition payInvoice_resume ::
  "int \<Rightarrow> string \<Rightarrow> PendingDeposit \<Rightarrow> string option \<Rightarrow> FiSimulator \<Rightarrow> FiSimulator \<times> rpc_reply" where
  "payInvoice_resume now invoice deposit fid s =
     (let s1 = s\<lparr>pendingDeposits := jm_del invoice (pendingDeposits s)\<rparr>;
          s2 = debitMockPayer fid (dep_amountMsats deposit) s1;
          s3 = settleDeposit now invoice deposit s2
      in (s3\<lparr>nextId := nextId s3 + 1\<rparr>, RPreimage (''preimage_'' @ nat_str (nextId s3))))"

definition settleOpenDeposits :: "int \<Rightarrow> FiSimulator \<Rightarrow> FiSimulator" where
  "settleOpenDeposits now s =
     fold (\<lambda>(invoice, deposit). settleDeposit now invoice deposit) (pendingDeposits s)
       (s\<lparr>pendingDeposits := []\<rparr>)"

definition newly_joined :: "FiSimulator \<Rightarrow> string list" where
  "newly_joined s = filter (\<lambda>i. case baselineFederationIds s of None \<Rightarrow> True | Some b \<Rightarrow> i \<notin> set b)
     (joinedFederationIds s)"

definition eligiblePayers :: "FiSimulator \<Rightarrow> rpc_reply" where
  "eligiblePayers s =
     (if failPayerLookup (scenario s)
      then fi_error ''registry'' ''trusted setup payment federations unavailable'' None
      else
        let newlyJoined = (if admitNewlyJoined (scenario s)
              then map (\<lambda>i. (i, 0)) (newly_joined s) else []);
            balances = payers (scenario s)
        in if balances = [] then RPayers newlyJoined
           else
             let mocks = filter (\<lambda>p. mp_federationId p \<notin> set (joinedFederationIds s)) (mockPayers s);
                 realIds = (if joinedFederationIds s \<noteq> [] then joinedFederationIds s
                   else if mocks \<noteq> [] then [] else map payer_federationId balances)
             in RPayers (newlyJoined @
                  map (\<lambda>index. (realIds ! index,
                         payer_balanceSats (balances ! (index mod length balances)) * SATS_TO_MSATS))
                    [0..<length realIds] @
                  map (\<lambda>p. (mp_federationId p, mp_balanceSats p * SATS_TO_MSATS)) mocks))"

definition setupPaymentFederations :: "FiSimulator \<Rightarrow> FiSimulator \<times> rpc_reply" where
  "setupPaymentFederations s = (s\<lparr>inflight := inflight s @ [SetupCont (scenario s)]\<rparr>, RPending)"

definition setupPaymentFederations_resume :: "FiScenario \<Rightarrow> FiSimulator \<Rightarrow> rpc_reply" where
  "setupPaymentFederations_resume sc s =
     (if failJoinLookup sc
      then fi_error ''registry'' ''simulated setup-payment lookup failure'' None
      else RFederations (
        map (\<lambda>i. (i, ''fed1mock-joined-'' @ i, True))
          (js_uniq (map mp_federationId (mockPayers s) @ joinedFederationIds s)) @
        map (\<lambda>svc. (svc_id svc, svc_inviteCode svc, False))
          (filter (\<lambda>svc. svc_id svc \<notin> set (joinedFederationIds s))
            (if noJoinableWalletServices sc then [] else MOCK_JOINABLE_WALLET_SERVICES))))"

section \<open>The status stream\<close>

text \<open>Subscriptions always carry the identifier the bridge allotted.\<close>

definition subscribe :: "nat option \<Rightarrow> FiSimulator \<Rightarrow> FiSimulator" where
  "subscribe streamId s = (case streamId of
     None \<Rightarrow> s
   | Some i \<Rightarrow> s\<lparr> streamIds := js_set_add i (streamIds s), sequences := jm_set i 0 (sequences s),
       initialPublishes := initialPublishes s @ [i] \<rparr>)"

definition unsubscribe :: "nat option \<Rightarrow> FiSimulator \<Rightarrow> FiSimulator" where
  "unsubscribe streamId s = (case streamId of
     None \<Rightarrow> s
   | Some i \<Rightarrow> s\<lparr> streamIds := filter (\<lambda>j. j \<noteq> i) (streamIds s), sequences := jm_del i (sequences s) \<rparr>)"

section \<open>Liquidity\<close>

definition liquidityProvider :: "int \<Rightarrow> FiSimulator \<Rightarrow> RpcFiLiquidityProvider" where
  "liquidityProvider now s =
     \<lparr> providerPubkey = ''sim_provider_peerbadge'',
       supportedNetworks = [liquidityNetwork (scenario s)],
       displayName = ''PeerBadge Verified Lightning Provider'',
       issuedAt = now, expiresAt = now + 3600 \<rparr>"

definition liquidityDiscover :: "int \<Rightarrow> string \<Rightarrow> FiSimulator \<Rightarrow> rpc_reply" where
  "liquidityDiscover now network s =
     (case liquidityFailWithCode (scenario s) of
        Some code \<Rightarrow> fi_error code ''simulated liquidity discovery failure'' None
      | None \<Rightarrow>
          if liquidityNoProvider (scenario s) then RDiscovery [] []
          else let provider = liquidityProvider now s
               in if network \<notin> set (supportedNetworks provider)
                  then RDiscovery [] [(providerPubkey provider, ''networkUnsupported'')]
                  else RDiscovery [provider] [])"

definition makeLiquidityOperation ::
  "int \<Rightarrow> bool \<Rightarrow> FiSimulator \<Rightarrow> RpcFiLiquidityOperation \<times> FiSimulator" where
  "makeLiquidityOperation now verified s =
     (\<lparr> operationId = ''liquidity_'' @ nat_str (nextId s),
        op_formationId = (case status s of
          status_formation f \<Rightarrow> formationId f | status_idle \<Rightarrow> ''formation_sim''),
        op_providerPubkey = providerPubkey (liquidityProvider now s),
        op_phase = lp_accepted, rejectionCode = None, gatewayViewVerified = verified \<rparr>,
      s\<lparr>nextId := nextId s + 1\<rparr>)"

definition liquidityStart :: "int \<Rightarrow> FiSimulator \<Rightarrow> FiSimulator \<times> rpc_reply" where
  "liquidityStart now s =
     (case liquidityOperation s of
        Some op \<Rightarrow> (s, ROperation op)
      | None \<Rightarrow> (case liquidityFailWithCode (scenario s) of
          Some code \<Rightarrow> (s, fi_error code ''simulated liquidity start failure'' None)
        | None \<Rightarrow>
            let (op, s1) = makeLiquidityOperation now False (s\<lparr>liquidityPolls := 0\<rparr>)
            in (s1\<lparr>liquidityOperation := Some op\<rparr>, ROperation op)))"

definition liquidityResume :: "FiSimulator \<Rightarrow> rpc_reply" where
  "liquidityResume s =
     (case liquidityOperation s of
        None \<Rightarrow> fi_error ''noActiveFormation'' ''no liquidity operation'' None
      | Some op \<Rightarrow> ROperation op)"

definition liquidityStatus :: "FiSimulator \<Rightarrow> FiSimulator \<times> rpc_reply" where
  "liquidityStatus s =
     (case liquidityOperation s of
        None \<Rightarrow> (s, fi_error ''noActiveFormation'' ''no liquidity operation'' None)
      | Some op \<Rightarrow>
          if liquidityRejectsOnStatus (scenario s)
          then let op' = op\<lparr>op_phase := lp_rejected, rejectionCode := Some ''intentRefused''\<rparr>
               in (s\<lparr>liquidityOperation := Some op'\<rparr>, ROperation op')
          else
            let polls = liquidityPolls s + 1;
                advanced = (case liquidityVerifyAfterPolls (scenario s) of
                    Some n \<Rightarrow> if n \<le> polls then op\<lparr>gatewayViewVerified := True\<rparr> else op
                  | None \<Rightarrow> op)
            in (s\<lparr>liquidityPolls := polls, liquidityOperation := Some advanced\<rparr>, ROperation advanced))"

definition liquidityCurrent :: "FiSimulator \<Rightarrow> rpc_reply" where
  "liquidityCurrent s = RCurrent (liquidityOperation s)"

section \<open>The formation timeline\<close>

definition seat_progress :: "nat \<Rightarrow> RpcFiSelectionPreviewSeat \<Rightarrow> RpcFiSeatProgress" where
  "seat_progress index seat =
     \<lparr> seat_index = index, seat_fmanId = Some (ps_fmanId seat),
       seat_fmanName = Some (ps_fmanName seat), seat_locator = locator_json (ps_fmanId seat),
       seat_seatId = None, seat_guardianCode = None, seat_phase = sp_selected,
       seat_freshness = fresh \<rparr>"

definition buildSnapshot ::
  "RpcFiSelectionPreviewSeat list \<Rightarrow> RpcFiFormationIntent \<Rightarrow> msats \<Rightarrow> FormationPhaseName \<Rightarrow>
   FiSimulator \<Rightarrow> RpcFiFormationSnapshot \<times> FiSimulator" where
  "buildSnapshot pseats want maxTotal ph s =
     (\<lparr> formationId = ''formation_'' @ nat_str (nextId s),
        phase = ph,
        intent = \<lparr> federationName = (case want_federationName want of
                       Some n \<Rightarrow> n | None \<Rightarrow> ''My Wallet Service''),
                   federationSize = want_federationSize want, guardianFeePpm = 0,
                   maxTotalMsats = Some maxTotal \<rparr>,
        seats = map (\<lambda>i. seat_progress i (pseats ! i)) [0..<length pseats],
        f_freshness = fresh, actionRequired = None, paymentOutputsStarted = False,
        milestones = \<lparr>ecashSent = False, guardiansConfirmed = False, walletServiceCreated = False\<rparr>,
        f_inviteCode = None, lastError = None \<rparr>,
      s\<lparr>nextId := nextId s + 1\<rparr>)"

text \<open>\<open>None\<close> when there is no seat to refuse: \<^verbatim>\<open>refused.phase\<close> throws on \<^verbatim>\<open>undefined\<close>.\<close>

definition parkReplacement ::
  "RpcFiFormationSnapshot \<Rightarrow> FiSimulator \<Rightarrow> (RpcFiFormationSnapshot \<times> FiSimulator) option" where
  "parkReplacement f s =
     (case seats f of
        [] \<Rightarrow> None
      | refused # rest \<Rightarrow> Some
         (f\<lparr> seats := refused\<lparr>seat_phase := sp_replacementRequired\<rparr> # rest,
             milestones := (milestones f)\<lparr>guardiansConfirmed := False\<rparr>,
             actionRequired := Some (ReplaceGuardians
               \<lparr> replacementId = ''replacement_'' @ nat_str (nextId s),
                 replacement_seats =
                   [\<lparr> rs_index = seat_index refused, previousFmanId = seat_fmanId refused,
                      previousFmanName = seat_fmanName refused,
                      previousQuoteId = ''quote_'' @ nat_str (seat_index refused),
                      previousLocator = seat_locator refused \<rparr>] \<rparr>) \<rparr>,
          s\<lparr>nextId := nextId s + 1\<rparr>))"

definition authorization_payer :: "FiSimulator \<Rightarrow> string" where
  "authorization_payer s =
     (if joinedFederationIds s \<noteq> [] then hd (joinedFederationIds s)
      else if mockPayers s \<noteq> [] then mp_federationId (hd (mockPayers s))
      else if payers (scenario s) \<noteq> [] then payer_federationId (hd (payers (scenario s)))
      else [])"

definition parkAuthorization ::
  "RpcFiFormationSnapshot \<Rightarrow> FiSimulator \<Rightarrow> RpcFiFormationSnapshot \<times> FiSimulator" where
  "parkAuthorization f s =
     (let payer = authorization_payer s;
          totalMsats = authorizeAmountSats (scenario s) * SATS_TO_MSATS;
          some_seats = take 3 (seats f)
      in (f\<lparr>actionRequired := Some (AuthorizePayments
            \<lparr> authorizationId = ''auth_'' @ nat_str (nextId s),
              req_totalMsats = totalMsats,
              req_maxTotalMsats = maxTotalMsats (intent f),
              req_seats = map (\<lambda>seat.
                \<lparr> pay_index = seat_index seat, pay_fmanId = seat_fmanId seat,
                  pay_fmanName = seat_fmanName seat,
                  pay_quoteId = ''quote_'' @ nat_str (seat_index seat),
                  paymentFederationId = payer,
                  pay_amountMsats = totalMsats div int (length some_seats) \<rparr>) some_seats \<rparr>)\<rparr>,
          s\<lparr>nextId := nextId s + 1\<rparr>))"

text \<open>The snapshot after entering \<open>nextPhase\<close>, before any decision is parked.\<close>

definition enter_phase :: "nat \<Rightarrow> FormationPhaseName \<Rightarrow> RpcFiFormationSnapshot \<Rightarrow> RpcFiFormationSnapshot" where
  "enter_phase nextIndex nextPhase f =
     (let f1 = f\<lparr> phase := nextPhase,
                 seats := map (\<lambda>x. x\<lparr>seat_phase := seatPhaseFor nextPhase\<rparr>) (seats f) \<rparr>;
          f2 = (if phase_pos acquiringSeats \<le> nextIndex
                then f1\<lparr> milestones := (milestones f1)\<lparr>ecashSent := True\<rparr>,
                         paymentOutputsStarted := True \<rparr> else f1)
      in if phase_pos dkgUnderway \<le> nextIndex
         then f2\<lparr>milestones := (milestones f2)\<lparr>guardiansConfirmed := True\<rparr>\<rparr> else f2)"

definition advancePhase :: "FiSimulator \<Rightarrow> FiSimulator" where
  "advancePhase s =
     (case currentFormation s of
        None \<Rightarrow> s
      | Some f \<Rightarrow>
          let nextIndex = phaseIndex s + 1
          in if length FORMATION_PHASES \<le> nextIndex then s
             else
               let nextPhase = FORMATION_PHASES ! nextIndex
               in if failAtPhase (scenario s) = Some nextPhase
                  then publish (set_formation (f\<lparr>lastError := Some (failWithCode (scenario s))\<rparr>) s)
                  else if unsyncedAtPhase (scenario s) = Some nextPhase
                  then publish (set_formation (f\<lparr>f_freshness := unsynced\<rparr>) s)
                  else
                    let f1 = enter_phase nextIndex nextPhase f;
                        s1 = s\<lparr>phaseIndex := nextIndex\<rparr>;
                        (f2, s2) = (if nextPhase = formed then markFormed f1 s1 else (f1, s1))
                    in if replaceGuardianAtPhase (scenario s) = Some nextPhase
                       then (case parkReplacement f2 s2 of
                           None \<Rightarrow> set_formation f2 s2
                         | Some (f3, s3) \<Rightarrow> publish (set_formation f3 s3))
                       else if authorizeAtPhase (scenario s) = Some nextPhase
                       then let (f3, s3) = parkAuthorization f2 s2 in publish (set_formation f3 s3)
                       else
                         let s3 = publish (set_formation f2 s2)
                         in if nextPhase \<noteq> formed then scheduleNextPhase s3 else s3)"

text \<open>The pending timeout fires.\<close>

definition phase_timer_fires :: "FiSimulator \<Rightarrow> FiSimulator" where
  "phase_timer_fires s = (if phaseTimer s then advancePhase (s\<lparr>phaseTimer := False\<rparr>) else s)"

section \<open>Commands\<close>

text \<open>
  The request waits for the cold or the warm latency; the scenario is captured before the wait.
\<close>

definition preview_latency :: "FiSimulator \<Rightarrow> int" where
  "preview_latency s =
     (if hasPreviewedOnce s then warmPreviewLatencyMs (scenario s)
      else coldPreviewLatencyMs (scenario s))"

definition previewSelection :: "nat \<Rightarrow> FiSimulator \<Rightarrow> FiSimulator \<times> rpc_reply" where
  "previewSelection requested s =
     (s\<lparr>inflight := inflight s @ [PreviewCont (scenario s) requested]\<rparr>, RPending)"

definition previewSelection_resume ::
  "int \<Rightarrow> FiScenario \<Rightarrow> nat \<Rightarrow> FiSimulator \<Rightarrow> FiSimulator \<times> rpc_reply" where
  "previewSelection_resume now sc requested s =
     (let s1 = s\<lparr>previewCount := previewCount s + 1, hasPreviewedOnce := True\<rparr>
      in if eligibleFmanCount sc < requested \<or>
            (case previewFailuresAfterCount sc of None \<Rightarrow> False | Some n \<Rightarrow> n < previewCount s1)
         then
           let e = min (int (eligibleFmanCount sc)) (int requested - 1)
           in (s1, fi_error ''selection'' ''not enough verified fleet managers for this size''
                 (Some (InsufficientFmanSeats (int requested) e (int (seenFmanCount sc)) e)))
         else
           let pseats = make_seats requested;
               preview = \<lparr> previewId = ''preview_'' @ nat_str (nextId s1), selected = requested,
                 totalAdvertisedMsats = sum_list (map ps_advertisedPriceMsats pseats),
                 seen = seenFmanCount sc, eligible = eligibleFmanCount sc,
                 validUntil = now + previewValiditySecs sc, preview_seats = pseats \<rparr>
           in (s1\<lparr>nextId := nextId s1 + 1,
                  previews := jm_set (previewId preview) preview (previews s1)\<rparr>, RPreview preview))"

definition payAndCreate ::
  "int \<Rightarrow> string \<Rightarrow> RpcFiFormationIntent \<Rightarrow> msats \<Rightarrow> FiSimulator \<Rightarrow> FiSimulator \<times> rpc_reply" where
  "payAndCreate now pid want maxTotal s =
     (let stale = (\<lambda>reason. (s\<lparr>previews := jm_del pid (previews s)\<rparr>,
            fi_error ''selectionReauthorizationRequired'' ''the sealed selection is no longer valid''
              (Some (SelectionReauthorizationRequired reason))))
      in case jm_get (previews s) pid of
           None \<Rightarrow> stale ''selectedFmanUnavailable''
         | Some preview \<Rightarrow>
             if validUntil preview \<le> now then stale ''previewExpired''
             else if rejectSelectionOnPay (scenario s) then stale ''selectedFmanUnavailable''
             else if maxTotal < totalAdvertisedMsats preview
             then (s, fi_error ''selectionReauthorizationRequired''
                   ''advertised estimate exceeds the approved limit'' None)
             else
               let (f, s1) = buildSnapshot (preview_seats preview) want maxTotal preparing s;
                   s2 = (set_formation f s1)\<lparr>phaseIndex := 0\<rparr>
               in (scheduleNextPhase (publish s2), RSuccess))"

definition resume :: "FiSimulator \<Rightarrow> FiSimulator \<times> rpc_reply" where
  "resume s =
     (case currentFormation s of
        None \<Rightarrow> (s, fi_error ''noActiveFormation'' ''no formation to resume'' None)
      | Some f \<Rightarrow>
          (scheduleNextPhase (publish (set_formation (f\<lparr>lastError := None, f_freshness := fresh\<rparr>) s)),
           RSuccess))"

definition abandon :: "FiSimulator \<Rightarrow> FiSimulator \<times> rpc_reply" where
  "abandon s =
     (case currentFormation s of
        None \<Rightarrow> (s, fi_error ''noActiveFormation'' ''no formation to abandon'' None)
      | Some f \<Rightarrow>
          if paymentOutputsStarted f \<or> phase f = formed
          then (s, fi_error ''abandonUnavailable'' ''this setup can no longer be cancelled''
                 (Some (AbandonUnavailable
                   (if phase f = formed then ''alreadyFormed'' else ''paymentOutputsStarted''))))
          else (reset s, RSuccess))"

fun payment_requirements :: "RpcFiFormationActionRequired \<Rightarrow> RpcFiPaymentRequirements option" where
  "payment_requirements (AuthorizePayments r) = Some r"
| "payment_requirements (AuthorizeReplacementPayments r) = Some r"
| "payment_requirements (ReplaceGuardians r) = None"

fun replacement_requirements ::
  "RpcFiFormationActionRequired \<Rightarrow> RpcFiGuardianReplacementRequirements option" where
  "replacement_requirements (ReplaceGuardians r) = Some r"
| "replacement_requirements _ = None"

definition authorizePayments_cmd :: "string \<Rightarrow> FiSimulator \<Rightarrow> FiSimulator \<times> rpc_reply" where
  "authorizePayments_cmd aid s =
     (case currentFormation s of
        None \<Rightarrow> (s, fi_error ''noActiveFormation'' ''nothing to authorize'' None)
      | Some f \<Rightarrow> (case Option.bind (actionRequired f) payment_requirements of
          None \<Rightarrow> (s, fi_error ''noActiveFormation'' ''nothing to authorize'' None)
        | Some r \<Rightarrow>
            if authorizationId r \<noteq> aid
            then (s, fi_error ''invalidIntent'' ''stale authorization id'' None)
            else (scheduleNextPhase (publish (set_formation
                   (f\<lparr>actionRequired := None, paymentOutputsStarted := True\<rparr>) s)), RSuccess)))"

definition replacement_preview_seat ::
  "nat \<Rightarrow> RpcFiGuardianReplacementSeat \<Rightarrow> RpcFiReplacementPreviewSeat" where
  "replacement_preview_seat requested seat =
     (let fid = ''fman_replacement_'' @ hash (rs_index seat)
      in \<lparr> rp_index = rs_index seat, rp_fmanId = fid, rp_fmanName = fmanNameFor fid,
           rp_advertisedPriceMsats = seatPriceMsats (rs_index seat) requested,
           rp_provenance = ''PeerBadge'' \<rparr>)"

definition previewReplacements :: "FiSimulator \<Rightarrow> FiSimulator \<times> rpc_reply" where
  "previewReplacements s =
     (case Option.bind (currentFormation s)
             (\<lambda>f. Option.bind (actionRequired f) replacement_requirements) of
        None \<Rightarrow> (s, fi_error ''noActiveFormation'' ''nothing to replace'' None)
      | Some r \<Rightarrow>
          let requested = length (replacement_seats r); n = replacementCandidateCount (scenario s)
          in if n < requested
             then (s, fi_error ''selection'' ''not enough verified replacement candidates''
                    (Some (InsufficientFmanSeats (int requested) (int n)
                      (int (seenFmanCount (scenario s))) (int n))))
             else
               let pid = ''replacement_preview_'' @ nat_str (nextId s);
                   pseats = map (replacement_preview_seat requested) (replacement_seats r)
               in (s\<lparr>nextId := nextId s + 1, replacementPreviewId := Some pid\<rparr>,
                   RReplacementPreview \<lparr> rp_previewId = pid, rp_requirements = r,
                     rp_totalAdvertisedMsats = sum_list (map rp_advertisedPriceMsats pseats),
                     rp_seats = pseats \<rparr>))"

definition applyReplacements :: "string \<Rightarrow> FiSimulator \<Rightarrow> FiSimulator \<times> rpc_reply" where
  "applyReplacements pid s =
     (case currentFormation s of
        None \<Rightarrow> (s, fi_error ''noActiveFormation'' ''nothing to replace'' None)
      | Some f \<Rightarrow> (case Option.bind (actionRequired f) replacement_requirements of
          None \<Rightarrow> (s, fi_error ''noActiveFormation'' ''nothing to replace'' None)
        | Some r \<Rightarrow>
            if Some pid \<noteq> replacementPreviewId s
            then (s, fi_error ''invalidIntent'' ''stale replacement preview'' None)
            else
              let f1 = f\<lparr> actionRequired := None,
                    seats := map (\<lambda>seat.
                      if list_ex (\<lambda>x. rs_index x = seat_index seat) (replacement_seats r)
                      then seat\<lparr>seat_phase := sp_dkgUnderway\<rparr> else seat) (seats f) \<rparr>
              in (scheduleNextPhase (publish (set_formation f1 (s\<lparr>replacementPreviewId := None\<rparr>))),
                  RSuccess)))"

definition setWalletServiceMeta :: "string \<Rightarrow> string \<Rightarrow> FiSimulator \<Rightarrow> FiSimulator" where
  "setWalletServiceMeta key value s =
     (case walletServiceFederation s of
        None \<Rightarrow> s
      | Some fed \<Rightarrow>
          s\<lparr>walletServiceFederation := Some (fed\<lparr>fed_meta := jm_set key value (fed_meta fed)\<rparr>)\<rparr>)"

definition setGuardianFee :: "int \<Rightarrow> FiSimulator \<Rightarrow> FiSimulator \<times> rpc_reply" where
  "setGuardianFee ppm s =
     (if MAX_GUARDIAN_FEE_PPM < ppm
      then (s, fi_error ''invalidIntent''
              (''guardian fee ppm must not exceed '' @ int_str MAX_GUARDIAN_FEE_PPM) None)
      else (case currentFormation s of
          None \<Rightarrow> (s, fi_error ''noActiveFormation''
                     ''federation maintenance is available only after creation'' None)
        | Some f \<Rightarrow>
            if phase f \<noteq> formed
            then (s, fi_error ''noActiveFormation''
                    ''federation maintenance is available only after creation'' None)
            else (publish (setWalletServiceMeta GUARDIAN_FEE_SEND_PPM_META_KEY (int_str ppm)
                    (set_formation (f\<lparr>intent := (intent f)\<lparr>guardianFeePpm := ppm\<rparr>\<rparr>) s)),
                  RSuccess)))"

definition updateMetadata :: "FiSimulator \<Rightarrow> rpc_reply" where
  "updateMetadata s =
     (case currentFormation s of
        None \<Rightarrow> fi_error ''noActiveFormation''
                  ''federation maintenance is available only after creation'' None
      | Some f \<Rightarrow> if phase f \<noteq> formed
          then fi_error ''noActiveFormation''
                 ''federation maintenance is available only after creation'' None
          else RSuccess)"

definition unsupported :: "string \<Rightarrow> rpc_reply" where
  "unsupported meth = fi_error ''capabilityUnavailable'' (meth @ '' is not simulated yet'') None"

section \<open>Seeding and scenarios\<close>

definition knob_at_or_before :: "FormationPhaseName option \<Rightarrow> nat \<Rightarrow> bool" where
  "knob_at_or_before knob i = (case knob of None \<Rightarrow> False | Some p \<Rightarrow> phase_pos p \<le> i)"

definition parked :: "RpcFiFormationSnapshot \<Rightarrow> bool" where
  "parked f \<longleftrightarrow> phase f = formed \<or> lastError f \<noteq> None \<or> actionRequired f \<noteq> None \<or>
     f_freshness f = unsynced"

text \<open>The bounded loop that walks a seeded formation until a decision parks it.\<close>

fun seed_walk :: "nat \<Rightarrow> FiSimulator \<Rightarrow> FiSimulator" where
  "seed_walk 0 s = s"
| "seed_walk (Suc n) s =
     (case currentFormation s of
        None \<Rightarrow> s
      | Some f \<Rightarrow> if parked f then s else seed_walk n (advancePhase s))"

definition seeded_formation :: "seed_formation \<Rightarrow> FiSimulator \<Rightarrow> FiSimulator" where
  "seeded_formation seed s =
     (let n = 10;
          (f, s1) = buildSnapshot (make_seats n)
            \<lparr>want_federationName = Some ''My Wallet Service'', want_federationSize = n\<rparr>
            (int n * BASE_SEAT_PRICE_MSATS)
            (if seed = seed_formed then formed else acquiringSeats) s
      in if seed = seed_formed
         then
           let (f2, s2) = markFormed
             (f\<lparr> milestones := \<lparr>ecashSent = True, guardiansConfirmed = True, walletServiceCreated = True\<rparr>,
                 paymentOutputsStarted := True \<rparr>) s1
           in set_formation f2 (s2\<lparr>phaseIndex := phase_pos formed\<rparr>)
         else set_formation
           (f\<lparr> milestones := (milestones f)\<lparr>ecashSent := True\<rparr>, paymentOutputsStarted := True \<rparr>)
           (s1\<lparr>phaseIndex := phase_pos acquiringSeats\<rparr>))"

definition seed_liquidity :: "int \<Rightarrow> FiSimulator \<Rightarrow> FiSimulator" where
  "seed_liquidity now s =
     (if liquidityAlreadyRunning (scenario s) \<or> liquidityAlreadyAttached (scenario s)
      then let (op, s1) = makeLiquidityOperation now (liquidityAlreadyAttached (scenario s)) s
           in s1\<lparr>liquidityOperation := Some op\<rparr>
      else s)"

definition seed_march :: "FiSimulator \<Rightarrow> FiSimulator" where
  "seed_march s =
     (let sc = scenario s
      in if failAtPhase sc = None \<and> unsyncedAtPhase sc = None \<and> authorizeAtPhase sc = None \<and>
            replaceGuardianAtPhase sc = None
         then scheduleNextPhase s
         else (case currentFormation s of
             None \<Rightarrow> s
           | Some f \<Rightarrow>
               if knob_at_or_before (failAtPhase sc) (phaseIndex s)
               then set_formation (f\<lparr>lastError := Some (failWithCode sc)\<rparr>) s
               else if knob_at_or_before (unsyncedAtPhase sc) (phaseIndex s)
               then set_formation (f\<lparr>f_freshness := unsynced\<rparr>) s
               else if knob_at_or_before (authorizeAtPhase sc) (phaseIndex s)
               then let (f1, s1) = parkAuthorization f s in set_formation f1 s1
               else if knob_at_or_before (replaceGuardianAtPhase sc) (phaseIndex s)
               then (case parkReplacement f s of
                   None \<Rightarrow> s
                 | Some (f1, s1) \<Rightarrow> set_formation f1 s1)
               else (seed_walk (length FORMATION_PHASES) s)\<lparr>phaseTimer := False\<rparr>))"

definition seedFromScenario :: "int \<Rightarrow> FiSimulator \<Rightarrow> FiSimulator" where
  "seedFromScenario now s =
     (case seedFormation (scenario s) of
        None \<Rightarrow> s
      | Some seed \<Rightarrow>
          let s1 = seed_liquidity now (seeded_formation seed s)
          in if seed = seed_inProgress then seed_march s1 else s1)"

definition initial_fields :: "FiScenario \<Rightarrow> FiSimulator" where
  "initial_fields sc =
     \<lparr> scenario = sc, status = status_idle, previews = [], replacementPreviewId = None,
       previewCount = 0, streamIds = [], sequences = [], emitStream = False, emitEvent = False,
       pendingDeposits = [], phaseTimer = False, phaseIndex = 0, hasPreviewedOnce = False,
       joinedFederationIds = [], baselineFederationIds = None, mockPayers = [],
       walletServiceFederation = None, nextId = 1, liquidityOperation = None, liquidityPolls = 0,
       updates = [], events = [], initialPublishes = [], inflight = [] \<rparr>"

definition new_FiSimulator :: "int \<Rightarrow> FiScenarioName \<Rightarrow> FiSimulator" where
  "new_FiSimulator now name = seedFromScenario now (initial_fields (fiScenarios name))"

definition setScenario :: "int \<Rightarrow> FiScenarioName \<Rightarrow> FiSimulator \<Rightarrow> FiSimulator" where
  "setScenario now name s =
     (let s1 = (if seedMockPayers (scenario s)
                then s\<lparr>mockPayers := filter (\<lambda>p. mp_federationId p \<notin> set MOCK_PAYER_FEDERATION_IDS)
                  (mockPayers s)\<rparr> else s);
          s2 = seedFromScenario now (reset (s1\<lparr>scenario := fiScenarios name\<rparr>));
          s3 = (if seedMockPayers (scenario s2)
                then fold (\<lambda>m. addMockPayer (mock_id m) (mock_balanceSats m) (Some (mock_name m)))
                  MOCK_PAYER_FEDERATIONS s2
                else s2)
      in publish s3)"

section \<open>Dispatch\<close>

definition starts_with :: "string \<Rightarrow> string \<Rightarrow> bool" where
  "starts_with p s = (take (length p) s = p)"

definition handles :: "string \<Rightarrow> rpc_payload \<Rightarrow> FiSimulator \<Rightarrow> bool" where
  "handles meth pl s =
     (if meth = ''streamCancel'' then (case pl_streamId pl of None \<Rightarrow> False | Some i \<Rightarrow> i \<in> set (streamIds s))
      else if meth = ''generateInvoice'' then isMockPayer (pl_federationId pl) s
      else if meth = ''payInvoice''
      then Option.bind (pl_invoice pl) (jm_get (pendingDeposits s)) \<noteq> None \<or>
           isMockPayer (pl_federationId pl) s
      else if meth = ''joinFederation'' then mockJoinableFor (pl_inviteCode pl) \<noteq> None
      else if meth = ''federationPreview''
      then mockJoinableFor (pl_inviteCode pl) \<noteq> None \<or> isWalletServiceInvite (pl_inviteCode pl) s
      else if meth = ''parseInviteCode'' then isWalletServiceInvite (pl_inviteCode pl) s
      else if meth = ''getGuardianStatus''
      then isMockPayer (pl_federationId pl) s \<or> isWalletServiceFederation (pl_federationId pl) s
      else meth \<noteq> ''fiClientScheduleReset'' \<and> starts_with ''fiClient'' meth)"

definition handle :: "int \<Rightarrow> string \<Rightarrow> rpc_payload \<Rightarrow> FiSimulator \<Rightarrow> FiSimulator \<times> rpc_reply" where
  "handle now meth pl s =
     (if meth = ''generateInvoice'' then generateInvoice (pl_federationId pl) (pl_amount pl) s
      else if meth = ''payInvoice'' then payInvoice (pl_invoice pl) (pl_federationId pl) s
      else if meth = ''federationPreview''
      then (s, if isWalletServiceInvite (pl_inviteCode pl) s then walletServicePreview s
               else mockFederationPreview (pl_inviteCode pl))
      else if meth = ''parseInviteCode'' then (s, parseWalletServiceInvite s)
      else if meth = ''joinFederation'' then joinMockFederation (pl_inviteCode pl) s
      else if meth = ''getGuardianStatus'' then (s, guardianStatus (pl_federationId pl) s)
      else if meth = ''streamCancel'' then (unsubscribe (pl_streamId pl) s, RNull)
      else if meth = ''fiClientStatus'' then (s, RStatus (status s))
      else if meth = ''fiClientSubscribe'' then (subscribe (pl_streamId pl) s, RNull)
      else if meth = ''fiClientEligiblePayers'' then (s, eligiblePayers s)
      else if meth = ''fiClientSetupPaymentFederations'' then setupPaymentFederations s
      else if meth = ''fiClientPreviewSelection'' then previewSelection (pl_requestSize pl) s
      else if meth = ''fiClientPayAndCreate''
      then payAndCreate now (pl_previewId pl) (pl_intent pl) (pl_maxTotalMsats pl) s
      else if meth = ''fiClientResume'' then resume s
      else if meth = ''fiClientAbandon'' then abandon s
      else if meth = ''fiClientAuthorizeReplacementPayments''
      then authorizePayments_cmd (pl_authorizationId pl) s
      else if meth = ''fiClientPreviewReplacements'' then previewReplacements s
      else if meth = ''fiClientApplyReplacements'' then applyReplacements (pl_previewId pl) s
      else if meth = ''fiClientSetGuardianFee'' then setGuardianFee (pl_guardianFeePpm pl) s
      else if meth = ''fiClientUpdateFederationMetadata'' then (s, updateMetadata s)
      else if meth = ''fiClientLiquidityDiscover'' then (s, liquidityDiscover now (pl_network pl) s)
      else if meth = ''fiClientLiquidityStart'' then liquidityStart now s
      else if meth = ''fiClientLiquidityResume'' then (s, liquidityResume s)
      else if meth = ''fiClientLiquidityStatus'' then liquidityStatus s
      else if meth = ''fiClientLiquidityCurrent'' then (s, liquidityCurrent s)
      else (s, unsupported meth))"

fun resume_continuation :: "int \<Rightarrow> continuation \<Rightarrow> FiSimulator \<Rightarrow> FiSimulator \<times> rpc_reply" where
  "resume_continuation now (PreviewCont sc requested) s = previewSelection_resume now sc requested s"
| "resume_continuation now (PayCont invoice deposit fid) s = payInvoice_resume now invoice deposit fid s"
| "resume_continuation now (SetupCont sc) s = (s, setupPaymentFederations_resume sc s)"

section \<open>The machine\<close>

text \<open>
  Everything that can happen to a simulator: an RPC, a suspended method that continues, the
  phase timer, the first publication to a subscriber, and the calls of the transport and of the
  developer screen.
\<close>

datatype sim_event =
    Attach bool
  | Rpc int string rpc_payload
  | Continue int nat
  | PhaseTimer
  | InitialPublish nat
  | ObserveFederations "string list"
  | ObserveJoined string
  | AddMockPayer string int "string option"
  | ClearMockPayers
  | ClearSimulatedState
  | SettleOpenDeposits int
  | SetScenario int FiScenarioName
  | Reset

fun sim_step :: "FiSimulator \<Rightarrow> sim_event \<Rightarrow> FiSimulator" where
  "sim_step s (Attach e) = attach e s"
| "sim_step s (Rpc now meth pl) = (if handles meth pl s then fst (handle now meth pl s) else s)"
| "sim_step s (Continue now k) =
     (if k < length (inflight s)
      then fst (resume_continuation now (inflight s ! k)
        (s\<lparr>inflight := take k (inflight s) @ drop (Suc k) (inflight s)\<rparr>))
      else s)"
| "sim_step s PhaseTimer = phase_timer_fires s"
| "sim_step s (InitialPublish k) =
     (if k < length (initialPublishes s)
      then publishTo (initialPublishes s ! k)
        (s\<lparr>initialPublishes := take k (initialPublishes s) @ drop (Suc k) (initialPublishes s)\<rparr>)
      else s)"
| "sim_step s (ObserveFederations ids) = observeFederations ids s"
| "sim_step s (ObserveJoined i) = observeJoinedFederation i s"
| "sim_step s (AddMockPayer i b n) = addMockPayer i b n s"
| "sim_step s ClearMockPayers = clearMockPayers s"
| "sim_step s ClearSimulatedState = clearSimulatedState s"
| "sim_step s (SettleOpenDeposits now) = settleOpenDeposits now s"
| "sim_step s (SetScenario now n) = setScenario now n s"
| "sim_step s Reset = reset s"

end
