(* ===== verification/Fi_Simulator_Proofs.thy ===== *)
theory Fi_Simulator_Proofs
  imports Fi_Simulator
begin

text \<open>
  Invariants and properties of the wallet-service simulator. The state is split by concern, each
  with an invariant that every event keeps: the status stream, the formation, the money rails
  and the sealed previews. Runs are sequences of \<open>sim_event\<close>, so every interleaving of RPCs,
  timers, suspended methods and developer actions is covered.
\<close>

section \<open>What the small operations leave alone\<close>

lemma emit_event_fields [simp]:
  "scenario (emit_event e s) = scenario s"
  "status (emit_event e s) = status s"
  "previews (emit_event e s) = previews s"
  "replacementPreviewId (emit_event e s) = replacementPreviewId s"
  "previewCount (emit_event e s) = previewCount s"
  "streamIds (emit_event e s) = streamIds s"
  "sequences (emit_event e s) = sequences s"
  "emitStream (emit_event e s) = emitStream s"
  "emitEvent (emit_event e s) = emitEvent s"
  "pendingDeposits (emit_event e s) = pendingDeposits s"
  "phaseTimer (emit_event e s) = phaseTimer s"
  "phaseIndex (emit_event e s) = phaseIndex s"
  "hasPreviewedOnce (emit_event e s) = hasPreviewedOnce s"
  "joinedFederationIds (emit_event e s) = joinedFederationIds s"
  "baselineFederationIds (emit_event e s) = baselineFederationIds s"
  "mockPayers (emit_event e s) = mockPayers s"
  "walletServiceFederation (emit_event e s) = walletServiceFederation s"
  "nextId (emit_event e s) = nextId s"
  "liquidityOperation (emit_event e s) = liquidityOperation s"
  "liquidityPolls (emit_event e s) = liquidityPolls s"
  "updates (emit_event e s) = updates s"
  "initialPublishes (emit_event e s) = initialPublishes s"
  "inflight (emit_event e s) = inflight s"
  by (simp_all add: emit_event_def)

lemma publishTo_fields [simp]:
  "scenario (publishTo i s) = scenario s"
  "status (publishTo i s) = status s"
  "previews (publishTo i s) = previews s"
  "replacementPreviewId (publishTo i s) = replacementPreviewId s"
  "previewCount (publishTo i s) = previewCount s"
  "streamIds (publishTo i s) = streamIds s"
  "emitStream (publishTo i s) = emitStream s"
  "emitEvent (publishTo i s) = emitEvent s"
  "pendingDeposits (publishTo i s) = pendingDeposits s"
  "phaseTimer (publishTo i s) = phaseTimer s"
  "phaseIndex (publishTo i s) = phaseIndex s"
  "hasPreviewedOnce (publishTo i s) = hasPreviewedOnce s"
  "joinedFederationIds (publishTo i s) = joinedFederationIds s"
  "baselineFederationIds (publishTo i s) = baselineFederationIds s"
  "mockPayers (publishTo i s) = mockPayers s"
  "walletServiceFederation (publishTo i s) = walletServiceFederation s"
  "nextId (publishTo i s) = nextId s"
  "liquidityOperation (publishTo i s) = liquidityOperation s"
  "liquidityPolls (publishTo i s) = liquidityPolls s"
  "events (publishTo i s) = events s"
  "initialPublishes (publishTo i s) = initialPublishes s"
  "inflight (publishTo i s) = inflight s"
  by (simp_all add: publishTo_def Let_def)

lemma fold_publishTo_field:
  assumes "\<And>i s. g (publishTo i s) = g s"
  shows "g (fold publishTo is s) = g s"
  by (induction "is" arbitrary: s) (auto simp: assms)

lemma publish_fields [simp]:
  "scenario (publish s) = scenario s"
  "status (publish s) = status s"
  "previews (publish s) = previews s"
  "replacementPreviewId (publish s) = replacementPreviewId s"
  "previewCount (publish s) = previewCount s"
  "streamIds (publish s) = streamIds s"
  "emitStream (publish s) = emitStream s"
  "emitEvent (publish s) = emitEvent s"
  "pendingDeposits (publish s) = pendingDeposits s"
  "phaseTimer (publish s) = phaseTimer s"
  "phaseIndex (publish s) = phaseIndex s"
  "hasPreviewedOnce (publish s) = hasPreviewedOnce s"
  "joinedFederationIds (publish s) = joinedFederationIds s"
  "baselineFederationIds (publish s) = baselineFederationIds s"
  "mockPayers (publish s) = mockPayers s"
  "walletServiceFederation (publish s) = walletServiceFederation s"
  "nextId (publish s) = nextId s"
  "liquidityOperation (publish s) = liquidityOperation s"
  "liquidityPolls (publish s) = liquidityPolls s"
  "events (publish s) = events s"
  "initialPublishes (publish s) = initialPublishes s"
  "inflight (publish s) = inflight s"
  by (simp_all add: publish_def fold_publishTo_field)

lemma emitBalance_fields [simp]:
  "scenario (emitBalance i s) = scenario s"
  "status (emitBalance i s) = status s"
  "previews (emitBalance i s) = previews s"
  "replacementPreviewId (emitBalance i s) = replacementPreviewId s"
  "previewCount (emitBalance i s) = previewCount s"
  "streamIds (emitBalance i s) = streamIds s"
  "sequences (emitBalance i s) = sequences s"
  "emitStream (emitBalance i s) = emitStream s"
  "emitEvent (emitBalance i s) = emitEvent s"
  "pendingDeposits (emitBalance i s) = pendingDeposits s"
  "phaseTimer (emitBalance i s) = phaseTimer s"
  "phaseIndex (emitBalance i s) = phaseIndex s"
  "hasPreviewedOnce (emitBalance i s) = hasPreviewedOnce s"
  "joinedFederationIds (emitBalance i s) = joinedFederationIds s"
  "baselineFederationIds (emitBalance i s) = baselineFederationIds s"
  "mockPayers (emitBalance i s) = mockPayers s"
  "walletServiceFederation (emitBalance i s) = walletServiceFederation s"
  "nextId (emitBalance i s) = nextId s"
  "liquidityOperation (emitBalance i s) = liquidityOperation s"
  "liquidityPolls (emitBalance i s) = liquidityPolls s"
  "updates (emitBalance i s) = updates s"
  "initialPublishes (emitBalance i s) = initialPublishes s"
  "inflight (emitBalance i s) = inflight s"
  by (simp_all add: emitBalance_def split: option.split)

lemma set_formation_fields [simp]:
  "scenario (set_formation f s) = scenario s"
  "previews (set_formation f s) = previews s"
  "replacementPreviewId (set_formation f s) = replacementPreviewId s"
  "previewCount (set_formation f s) = previewCount s"
  "streamIds (set_formation f s) = streamIds s"
  "sequences (set_formation f s) = sequences s"
  "emitStream (set_formation f s) = emitStream s"
  "emitEvent (set_formation f s) = emitEvent s"
  "pendingDeposits (set_formation f s) = pendingDeposits s"
  "phaseTimer (set_formation f s) = phaseTimer s"
  "phaseIndex (set_formation f s) = phaseIndex s"
  "hasPreviewedOnce (set_formation f s) = hasPreviewedOnce s"
  "joinedFederationIds (set_formation f s) = joinedFederationIds s"
  "baselineFederationIds (set_formation f s) = baselineFederationIds s"
  "mockPayers (set_formation f s) = mockPayers s"
  "walletServiceFederation (set_formation f s) = walletServiceFederation s"
  "nextId (set_formation f s) = nextId s"
  "liquidityOperation (set_formation f s) = liquidityOperation s"
  "liquidityPolls (set_formation f s) = liquidityPolls s"
  "updates (set_formation f s) = updates s"
  "events (set_formation f s) = events s"
  "initialPublishes (set_formation f s) = initialPublishes s"
  "inflight (set_formation f s) = inflight s"
  by (simp_all add: set_formation_def)

lemma scheduleNextPhase_fields [simp]:
  "scenario (scheduleNextPhase s) = scenario s"
  "status (scheduleNextPhase s) = status s"
  "previews (scheduleNextPhase s) = previews s"
  "replacementPreviewId (scheduleNextPhase s) = replacementPreviewId s"
  "previewCount (scheduleNextPhase s) = previewCount s"
  "streamIds (scheduleNextPhase s) = streamIds s"
  "sequences (scheduleNextPhase s) = sequences s"
  "emitStream (scheduleNextPhase s) = emitStream s"
  "emitEvent (scheduleNextPhase s) = emitEvent s"
  "pendingDeposits (scheduleNextPhase s) = pendingDeposits s"
  "phaseIndex (scheduleNextPhase s) = phaseIndex s"
  "hasPreviewedOnce (scheduleNextPhase s) = hasPreviewedOnce s"
  "joinedFederationIds (scheduleNextPhase s) = joinedFederationIds s"
  "baselineFederationIds (scheduleNextPhase s) = baselineFederationIds s"
  "mockPayers (scheduleNextPhase s) = mockPayers s"
  "walletServiceFederation (scheduleNextPhase s) = walletServiceFederation s"
  "nextId (scheduleNextPhase s) = nextId s"
  "liquidityOperation (scheduleNextPhase s) = liquidityOperation s"
  "liquidityPolls (scheduleNextPhase s) = liquidityPolls s"
  "updates (scheduleNextPhase s) = updates s"
  "events (scheduleNextPhase s) = events s"
  "initialPublishes (scheduleNextPhase s) = initialPublishes s"
  "inflight (scheduleNextPhase s) = inflight s"
  by (simp_all add: scheduleNextPhase_def)

lemma addMockPayer_fields [simp]:
  "scenario (addMockPayer i b n s) = scenario s"
  "status (addMockPayer i b n s) = status s"
  "previews (addMockPayer i b n s) = previews s"
  "replacementPreviewId (addMockPayer i b n s) = replacementPreviewId s"
  "previewCount (addMockPayer i b n s) = previewCount s"
  "streamIds (addMockPayer i b n s) = streamIds s"
  "sequences (addMockPayer i b n s) = sequences s"
  "emitStream (addMockPayer i b n s) = emitStream s"
  "emitEvent (addMockPayer i b n s) = emitEvent s"
  "pendingDeposits (addMockPayer i b n s) = pendingDeposits s"
  "phaseTimer (addMockPayer i b n s) = phaseTimer s"
  "phaseIndex (addMockPayer i b n s) = phaseIndex s"
  "hasPreviewedOnce (addMockPayer i b n s) = hasPreviewedOnce s"
  "joinedFederationIds (addMockPayer i b n s) = joinedFederationIds s"
  "baselineFederationIds (addMockPayer i b n s) = baselineFederationIds s"
  "walletServiceFederation (addMockPayer i b n s) = walletServiceFederation s"
  "nextId (addMockPayer i b n s) = nextId s"
  "liquidityOperation (addMockPayer i b n s) = liquidityOperation s"
  "liquidityPolls (addMockPayer i b n s) = liquidityPolls s"
  "updates (addMockPayer i b n s) = updates s"
  "initialPublishes (addMockPayer i b n s) = initialPublishes s"
  "inflight (addMockPayer i b n s) = inflight s"
  by (simp_all add: addMockPayer_def split: option.split)

lemma settleDeposit_fields [simp]:
  "scenario (settleDeposit now i d s) = scenario s"
  "status (settleDeposit now i d s) = status s"
  "previews (settleDeposit now i d s) = previews s"
  "replacementPreviewId (settleDeposit now i d s) = replacementPreviewId s"
  "previewCount (settleDeposit now i d s) = previewCount s"
  "streamIds (settleDeposit now i d s) = streamIds s"
  "sequences (settleDeposit now i d s) = sequences s"
  "emitStream (settleDeposit now i d s) = emitStream s"
  "emitEvent (settleDeposit now i d s) = emitEvent s"
  "pendingDeposits (settleDeposit now i d s) = pendingDeposits s"
  "phaseTimer (settleDeposit now i d s) = phaseTimer s"
  "phaseIndex (settleDeposit now i d s) = phaseIndex s"
  "hasPreviewedOnce (settleDeposit now i d s) = hasPreviewedOnce s"
  "joinedFederationIds (settleDeposit now i d s) = joinedFederationIds s"
  "baselineFederationIds (settleDeposit now i d s) = baselineFederationIds s"
  "walletServiceFederation (settleDeposit now i d s) = walletServiceFederation s"
  "liquidityOperation (settleDeposit now i d s) = liquidityOperation s"
  "liquidityPolls (settleDeposit now i d s) = liquidityPolls s"
  "updates (settleDeposit now i d s) = updates s"
  "initialPublishes (settleDeposit now i d s) = initialPublishes s"
  "inflight (settleDeposit now i d s) = inflight s"
  by (simp_all add: settleDeposit_def Let_def)

lemma debitMockPayer_fields [simp]:
  "scenario (debitMockPayer i a s) = scenario s"
  "status (debitMockPayer i a s) = status s"
  "previews (debitMockPayer i a s) = previews s"
  "replacementPreviewId (debitMockPayer i a s) = replacementPreviewId s"
  "previewCount (debitMockPayer i a s) = previewCount s"
  "streamIds (debitMockPayer i a s) = streamIds s"
  "sequences (debitMockPayer i a s) = sequences s"
  "emitStream (debitMockPayer i a s) = emitStream s"
  "emitEvent (debitMockPayer i a s) = emitEvent s"
  "pendingDeposits (debitMockPayer i a s) = pendingDeposits s"
  "phaseTimer (debitMockPayer i a s) = phaseTimer s"
  "phaseIndex (debitMockPayer i a s) = phaseIndex s"
  "hasPreviewedOnce (debitMockPayer i a s) = hasPreviewedOnce s"
  "joinedFederationIds (debitMockPayer i a s) = joinedFederationIds s"
  "baselineFederationIds (debitMockPayer i a s) = baselineFederationIds s"
  "walletServiceFederation (debitMockPayer i a s) = walletServiceFederation s"
  "nextId (debitMockPayer i a s) = nextId s"
  "liquidityOperation (debitMockPayer i a s) = liquidityOperation s"
  "liquidityPolls (debitMockPayer i a s) = liquidityPolls s"
  "updates (debitMockPayer i a s) = updates s"
  "initialPublishes (debitMockPayer i a s) = initialPublishes s"
  "inflight (debitMockPayer i a s) = inflight s"
  by (simp_all add: debitMockPayer_def)

lemma markFormed_fields [simp]:
  "scenario (snd (markFormed f s)) = scenario s"
  "status (snd (markFormed f s)) = status s"
  "previews (snd (markFormed f s)) = previews s"
  "replacementPreviewId (snd (markFormed f s)) = replacementPreviewId s"
  "previewCount (snd (markFormed f s)) = previewCount s"
  "streamIds (snd (markFormed f s)) = streamIds s"
  "sequences (snd (markFormed f s)) = sequences s"
  "emitStream (snd (markFormed f s)) = emitStream s"
  "emitEvent (snd (markFormed f s)) = emitEvent s"
  "pendingDeposits (snd (markFormed f s)) = pendingDeposits s"
  "phaseTimer (snd (markFormed f s)) = phaseTimer s"
  "phaseIndex (snd (markFormed f s)) = phaseIndex s"
  "hasPreviewedOnce (snd (markFormed f s)) = hasPreviewedOnce s"
  "joinedFederationIds (snd (markFormed f s)) = joinedFederationIds s"
  "baselineFederationIds (snd (markFormed f s)) = baselineFederationIds s"
  "mockPayers (snd (markFormed f s)) = mockPayers s"
  "nextId (snd (markFormed f s)) = nextId s"
  "liquidityOperation (snd (markFormed f s)) = liquidityOperation s"
  "liquidityPolls (snd (markFormed f s)) = liquidityPolls s"
  "updates (snd (markFormed f s)) = updates s"
  "initialPublishes (snd (markFormed f s)) = initialPublishes s"
  "inflight (snd (markFormed f s)) = inflight s"
  by (simp_all add: markFormed_def Let_def)

lemma buildSnapshot_fields [simp]:
  "scenario (snd (buildSnapshot ps w m p s)) = scenario s"
  "status (snd (buildSnapshot ps w m p s)) = status s"
  "previews (snd (buildSnapshot ps w m p s)) = previews s"
  "replacementPreviewId (snd (buildSnapshot ps w m p s)) = replacementPreviewId s"
  "previewCount (snd (buildSnapshot ps w m p s)) = previewCount s"
  "streamIds (snd (buildSnapshot ps w m p s)) = streamIds s"
  "sequences (snd (buildSnapshot ps w m p s)) = sequences s"
  "emitStream (snd (buildSnapshot ps w m p s)) = emitStream s"
  "emitEvent (snd (buildSnapshot ps w m p s)) = emitEvent s"
  "pendingDeposits (snd (buildSnapshot ps w m p s)) = pendingDeposits s"
  "phaseTimer (snd (buildSnapshot ps w m p s)) = phaseTimer s"
  "phaseIndex (snd (buildSnapshot ps w m p s)) = phaseIndex s"
  "hasPreviewedOnce (snd (buildSnapshot ps w m p s)) = hasPreviewedOnce s"
  "joinedFederationIds (snd (buildSnapshot ps w m p s)) = joinedFederationIds s"
  "baselineFederationIds (snd (buildSnapshot ps w m p s)) = baselineFederationIds s"
  "mockPayers (snd (buildSnapshot ps w m p s)) = mockPayers s"
  "walletServiceFederation (snd (buildSnapshot ps w m p s)) = walletServiceFederation s"
  "liquidityOperation (snd (buildSnapshot ps w m p s)) = liquidityOperation s"
  "liquidityPolls (snd (buildSnapshot ps w m p s)) = liquidityPolls s"
  "updates (snd (buildSnapshot ps w m p s)) = updates s"
  "events (snd (buildSnapshot ps w m p s)) = events s"
  "initialPublishes (snd (buildSnapshot ps w m p s)) = initialPublishes s"
  "inflight (snd (buildSnapshot ps w m p s)) = inflight s"
  by (simp_all add: buildSnapshot_def)

lemma parkAuthorization_fields [simp]:
  "scenario (snd (parkAuthorization f s)) = scenario s"
  "status (snd (parkAuthorization f s)) = status s"
  "previews (snd (parkAuthorization f s)) = previews s"
  "replacementPreviewId (snd (parkAuthorization f s)) = replacementPreviewId s"
  "previewCount (snd (parkAuthorization f s)) = previewCount s"
  "streamIds (snd (parkAuthorization f s)) = streamIds s"
  "sequences (snd (parkAuthorization f s)) = sequences s"
  "emitStream (snd (parkAuthorization f s)) = emitStream s"
  "emitEvent (snd (parkAuthorization f s)) = emitEvent s"
  "pendingDeposits (snd (parkAuthorization f s)) = pendingDeposits s"
  "phaseTimer (snd (parkAuthorization f s)) = phaseTimer s"
  "phaseIndex (snd (parkAuthorization f s)) = phaseIndex s"
  "hasPreviewedOnce (snd (parkAuthorization f s)) = hasPreviewedOnce s"
  "joinedFederationIds (snd (parkAuthorization f s)) = joinedFederationIds s"
  "baselineFederationIds (snd (parkAuthorization f s)) = baselineFederationIds s"
  "mockPayers (snd (parkAuthorization f s)) = mockPayers s"
  "walletServiceFederation (snd (parkAuthorization f s)) = walletServiceFederation s"
  "liquidityOperation (snd (parkAuthorization f s)) = liquidityOperation s"
  "liquidityPolls (snd (parkAuthorization f s)) = liquidityPolls s"
  "updates (snd (parkAuthorization f s)) = updates s"
  "events (snd (parkAuthorization f s)) = events s"
  "initialPublishes (snd (parkAuthorization f s)) = initialPublishes s"
  "inflight (snd (parkAuthorization f s)) = inflight s"
  by (simp_all add: parkAuthorization_def Let_def)

lemma makeLiquidityOperation_fields [simp]:
  "scenario (snd (makeLiquidityOperation now v s)) = scenario s"
  "status (snd (makeLiquidityOperation now v s)) = status s"
  "previews (snd (makeLiquidityOperation now v s)) = previews s"
  "replacementPreviewId (snd (makeLiquidityOperation now v s)) = replacementPreviewId s"
  "previewCount (snd (makeLiquidityOperation now v s)) = previewCount s"
  "streamIds (snd (makeLiquidityOperation now v s)) = streamIds s"
  "sequences (snd (makeLiquidityOperation now v s)) = sequences s"
  "emitStream (snd (makeLiquidityOperation now v s)) = emitStream s"
  "emitEvent (snd (makeLiquidityOperation now v s)) = emitEvent s"
  "pendingDeposits (snd (makeLiquidityOperation now v s)) = pendingDeposits s"
  "phaseTimer (snd (makeLiquidityOperation now v s)) = phaseTimer s"
  "phaseIndex (snd (makeLiquidityOperation now v s)) = phaseIndex s"
  "hasPreviewedOnce (snd (makeLiquidityOperation now v s)) = hasPreviewedOnce s"
  "joinedFederationIds (snd (makeLiquidityOperation now v s)) = joinedFederationIds s"
  "baselineFederationIds (snd (makeLiquidityOperation now v s)) = baselineFederationIds s"
  "mockPayers (snd (makeLiquidityOperation now v s)) = mockPayers s"
  "walletServiceFederation (snd (makeLiquidityOperation now v s)) = walletServiceFederation s"
  "liquidityOperation (snd (makeLiquidityOperation now v s)) = liquidityOperation s"
  "liquidityPolls (snd (makeLiquidityOperation now v s)) = liquidityPolls s"
  "updates (snd (makeLiquidityOperation now v s)) = updates s"
  "events (snd (makeLiquidityOperation now v s)) = events s"
  "initialPublishes (snd (makeLiquidityOperation now v s)) = initialPublishes s"
  "inflight (snd (makeLiquidityOperation now v s)) = inflight s"
  by (simp_all add: makeLiquidityOperation_def)

lemma setWalletServiceMeta_fields [simp]:
  "scenario (setWalletServiceMeta k v s) = scenario s"
  "status (setWalletServiceMeta k v s) = status s"
  "previews (setWalletServiceMeta k v s) = previews s"
  "replacementPreviewId (setWalletServiceMeta k v s) = replacementPreviewId s"
  "previewCount (setWalletServiceMeta k v s) = previewCount s"
  "streamIds (setWalletServiceMeta k v s) = streamIds s"
  "sequences (setWalletServiceMeta k v s) = sequences s"
  "emitStream (setWalletServiceMeta k v s) = emitStream s"
  "emitEvent (setWalletServiceMeta k v s) = emitEvent s"
  "pendingDeposits (setWalletServiceMeta k v s) = pendingDeposits s"
  "phaseTimer (setWalletServiceMeta k v s) = phaseTimer s"
  "phaseIndex (setWalletServiceMeta k v s) = phaseIndex s"
  "hasPreviewedOnce (setWalletServiceMeta k v s) = hasPreviewedOnce s"
  "joinedFederationIds (setWalletServiceMeta k v s) = joinedFederationIds s"
  "baselineFederationIds (setWalletServiceMeta k v s) = baselineFederationIds s"
  "mockPayers (setWalletServiceMeta k v s) = mockPayers s"
  "nextId (setWalletServiceMeta k v s) = nextId s"
  "liquidityOperation (setWalletServiceMeta k v s) = liquidityOperation s"
  "liquidityPolls (setWalletServiceMeta k v s) = liquidityPolls s"
  "updates (setWalletServiceMeta k v s) = updates s"
  "events (setWalletServiceMeta k v s) = events s"
  "initialPublishes (setWalletServiceMeta k v s) = initialPublishes s"
  "inflight (setWalletServiceMeta k v s) = inflight s"
  by (simp_all add: setWalletServiceMeta_def split: option.split)

lemma set_formation_status [simp]: "status (set_formation f s) = status_formation f"
  by (simp add: set_formation_def)

lemma scheduleNextPhase_timer [simp]: "phaseTimer (scheduleNextPhase s) = True"
  by (simp add: scheduleNextPhase_def)

lemma currentFormation_Some [simp]: "currentFormation s = Some f \<longleftrightarrow> status s = status_formation f"
  by (cases "status s") (auto simp: currentFormation_def)

lemma currentFormation_None [simp]: "currentFormation s = None \<longleftrightarrow> status s = status_idle"
  by (cases "status s") (auto simp: currentFormation_def)

lemma parkReplacement_cases:
  assumes "parkReplacement f s = Some (f', s')"
  shows "s' = s\<lparr>nextId := nextId s + 1\<rparr>" and "phase f' = phase f" and "seats f \<noteq> []"
  using assms by (auto simp: parkReplacement_def split: list.splits)

section \<open>The status stream\<close>

definition seqs :: "nat \<Rightarrow> stream_update list \<Rightarrow> nat list" where
  "seqs i us = map su_sequence (filter (\<lambda>u. su_stream u = i) us)"

text \<open>Each number is one more than the one before it, or starts a subscription over at 0.\<close>

definition gapless :: "nat list \<Rightarrow> bool" where
  "gapless ns \<longleftrightarrow> (\<forall>k<length ns. ns ! k = 0 \<or> (0 < k \<and> ns ! k = Suc (ns ! (k - 1))))"

lemma gapless_Nil [simp]: "gapless []"
  by (simp add: gapless_def)

lemma gapless_snoc:
  "gapless (ns @ [n]) \<longleftrightarrow> gapless ns \<and> (n = 0 \<or> (ns \<noteq> [] \<and> n = Suc (last ns)))"
proof -
  have split: "(\<forall>k<Suc m. P k) \<longleftrightarrow> (\<forall>k<m. P k) \<and> P m" for P and m :: nat
    by (auto simp: less_Suc_eq)
  have "(\<forall>k<length ns. (ns @ [n]) ! k = 0 \<or> (0 < k \<and> (ns @ [n]) ! k = Suc ((ns @ [n]) ! (k - 1)))) \<longleftrightarrow>
      gapless ns"
    unfolding gapless_def by (intro all_cong) (auto simp: nth_append)
  then have "gapless (ns @ [n]) \<longleftrightarrow> gapless ns \<and>
      (n = 0 \<or> (0 < length ns \<and> n = Suc ((ns @ [n]) ! (length ns - 1))))"
    by (simp add: gapless_def [of "ns @ [n]"] split)
  then show ?thesis by (auto simp: nth_append last_conv_nth)
qed

definition stream_ok :: "(nat, nat) jsmap \<Rightarrow> stream_update list \<Rightarrow> bool" where
  "stream_ok sq us \<longleftrightarrow> (\<forall>i. gapless (seqs i us)) \<and>
     (\<forall>i n. jm_get sq i = Some n \<longrightarrow> n = 0 \<or> (seqs i us \<noteq> [] \<and> n = Suc (last (seqs i us))))"

definition stream_inv :: "FiSimulator \<Rightarrow> bool" where
  "stream_inv s \<longleftrightarrow> stream_ok (sequences s) (updates s)"

lemma seqs_snoc: "seqs i (us @ [u]) = seqs i us @ (if su_stream u = i then [su_sequence u] else [])"
  by (simp add: seqs_def)

lemma stream_publishTo [inv_intros]: "stream_inv s \<Longrightarrow> stream_inv (publishTo i s)"
  by (auto simp: stream_inv_def stream_ok_def publishTo_def Let_def seqs_snoc gapless_snoc
      split: option.splits)

lemma stream_publish [inv_intros]: "stream_inv s \<Longrightarrow> stream_inv (publish s)"
proof -
  have "stream_inv s \<Longrightarrow> stream_inv (fold publishTo is s)" for "is"
    by (induction "is" arbitrary: s) (auto intro: stream_publishTo)
  then show "stream_inv s \<Longrightarrow> stream_inv (publish s)" by (simp add: publish_def)
qed

text \<open>An operation that touches neither the counters nor the log keeps the invariant.\<close>

lemma stream_frame:
  "sequences s' = sequences s \<Longrightarrow> updates s' = updates s \<Longrightarrow> stream_inv s' = stream_inv s"
  by (simp add: stream_inv_def)

section \<open>The formation\<close>

definition formation_ok ::
  "nat \<Rightarrow> LoadedFederation option \<Rightarrow> RpcFiFormationSnapshot \<Rightarrow> bool" where
  "formation_ok i wsf f \<longleftrightarrow>
     i = phase_pos (phase f) \<and>
     map seat_index (seats f) = [0..<length (seats f)] \<and>
     (phase_pos acquiringSeats \<le> i \<longrightarrow> paymentOutputsStarted f) \<and>
     (ecashSent (milestones f) \<longleftrightarrow> phase_pos acquiringSeats \<le> i) \<and>
     (guardiansConfirmed (milestones f) \<longrightarrow> phase_pos dkgUnderway \<le> i) \<and>
     (walletServiceCreated (milestones f) \<longleftrightarrow> phase f = formed) \<and>
     f_inviteCode f = (if phase f = formed then Some (formed_invite (formationId f)) else None) \<and>
     (phase f = formed \<longrightarrow>
       map_option fed_inviteCode wsf = f_inviteCode f \<and> map_option fed_network wsf = Some ''signet'')"

definition form_ok :: "RpcFiStatus \<Rightarrow> nat \<Rightarrow> LoadedFederation option \<Rightarrow> bool \<Rightarrow> bool" where
  "form_ok st i wsf timer \<longleftrightarrow>
     (case st of
        status_idle \<Rightarrow> i = 0 \<and> \<not> timer
      | status_formation f \<Rightarrow> formation_ok i wsf f)"

definition form_inv :: "FiSimulator \<Rightarrow> bool" where
  "form_inv s \<longleftrightarrow> form_ok (status s) (phaseIndex s) (walletServiceFederation s) (phaseTimer s)"

lemma form_frame:
  "status s' = status s \<Longrightarrow> phaseIndex s' = phaseIndex s \<Longrightarrow>
   walletServiceFederation s' = walletServiceFederation s \<Longrightarrow> phaseTimer s' = phaseTimer s \<Longrightarrow>
   form_inv s' = form_inv s"
  by (simp add: form_inv_def)

lemma form_inv_formation:
  "status s = status_formation f \<Longrightarrow>
   form_inv s \<longleftrightarrow> formation_ok (phaseIndex s) (walletServiceFederation s) f"
  by (simp add: form_inv_def form_ok_def)

text \<open>Changes of a snapshot that the formation invariant does not look at.\<close>

lemma formation_ok_updates [simp]:
  "formation_ok i w (f\<lparr>lastError := e\<rparr>) = formation_ok i w f"
  "formation_ok i w (f\<lparr>f_freshness := fr\<rparr>) = formation_ok i w f"
  "formation_ok i w (f\<lparr>actionRequired := a\<rparr>) = formation_ok i w f"
  "formation_ok i w (f\<lparr>intent := n\<rparr>) = formation_ok i w f"
  unfolding formation_ok_def by simp_all

lemma formation_ok_payment [simp]:
  "formation_ok i w f \<Longrightarrow> formation_ok i w (f\<lparr>paymentOutputsStarted := True\<rparr>)"
  unfolding formation_ok_def by auto

lemma formation_ok_seats:
  assumes "formation_ok i w f" and "\<And>x. seat_index (g x) = seat_index x"
  shows "formation_ok i w (f\<lparr>seats := map g (seats f)\<rparr>)"
proof -
  have "map seat_index (map g (seats f)) = map seat_index (seats f)"
    by (simp add: assms(2))
  with assms(1) show ?thesis unfolding formation_ok_def by auto
qed

lemma formation_ok_meta [simp]:
  "formation_ok i (Some (w\<lparr>fed_meta := m\<rparr>)) f = formation_ok i (Some w) f"
  unfolding formation_ok_def by simp

lemma formation_ok_parkReplacement:
  assumes "parkReplacement f s = Some (f', s')" and "formation_ok i w f"
  shows "formation_ok i w f'"
proof -
  from assms(1) have "map seat_index (seats f') = map seat_index (seats f)"
    "length (seats f') = length (seats f)" "phase f' = phase f" "formationId f' = formationId f"
    "paymentOutputsStarted f' = paymentOutputsStarted f" "f_inviteCode f' = f_inviteCode f"
    "ecashSent (milestones f') = ecashSent (milestones f)"
    "walletServiceCreated (milestones f') = walletServiceCreated (milestones f)"
    "\<not> guardiansConfirmed (milestones f')"
    by (auto simp: parkReplacement_def split: list.splits)
  with assms(2) show ?thesis unfolding formation_ok_def by simp
qed

lemma formation_ok_parkAuthorization:
  "formation_ok i w f \<Longrightarrow> formation_ok i w (fst (parkAuthorization f s))"
  by (simp add: parkAuthorization_def Let_def)

lemma markFormed_federation [simp]:
  "map_option fed_inviteCode (walletServiceFederation (snd (markFormed f s))) =
     Some (formed_invite (formationId f))"
  "map_option fed_network (walletServiceFederation (snd (markFormed f s))) = Some ''signet''"
  by (simp_all add: markFormed_def Let_def emit_event_def)

lemma phase_nth_pos:
  assumes "Suc i < length FORMATION_PHASES"
  shows "phase_pos (FORMATION_PHASES ! Suc i) = Suc i"
  using assms by (simp add: phase_pos_of_nth)

lemma formation_ok_enter:
  assumes ok: "formation_ok i w f" and i: "Suc i < length FORMATION_PHASES"
    and p: "p = FORMATION_PHASES ! Suc i" and "p \<noteq> formed"
  shows "formation_ok (Suc i) w (enter_phase (Suc i) p f)"
proof -
  have pos: "phase_pos p = Suc i" using i p by (simp add: phase_nth_pos)
  have "phase f \<noteq> formed" using ok i by (auto simp: formation_ok_def)
  with ok pos \<open>p \<noteq> formed\<close> show ?thesis
    by (auto simp: formation_ok_def enter_phase_def Let_def o_def)
qed

lemma formation_ok_enter_formed:
  assumes ok: "formation_ok i w f" and i: "i = 5"
  shows "formation_ok 6 (walletServiceFederation (snd (markFormed (enter_phase 6 formed f) s)))
    (fst (markFormed (enter_phase 6 formed f) s))"
proof -
  have "fst (markFormed (enter_phase 6 formed f) s) =
      (enter_phase 6 formed f)\<lparr>
        milestones := (milestones (enter_phase 6 formed f))\<lparr>walletServiceCreated := True\<rparr>,
        f_inviteCode := Some (formed_invite (formationId f))\<rparr>"
    by (simp add: markFormed_def Let_def enter_phase_def)
  moreover have "formationId (enter_phase 6 formed f) = formationId f"
    by (simp add: enter_phase_def Let_def)
  ultimately show ?thesis
    using ok i by (auto simp: formation_ok_def enter_phase_def Let_def o_def)
qed

lemma form_publish [inv_intros]: "form_inv s \<Longrightarrow> form_inv (publish s)"
  by (simp add: form_inv_def)

lemma form_publishTo [inv_intros]: "form_inv s \<Longrightarrow> form_inv (publishTo i s)"
  by (simp add: form_inv_def)

lemma form_set_formation:
  "formation_ok (phaseIndex s) (walletServiceFederation s) f \<Longrightarrow> form_inv (set_formation f s)"
  by (simp add: form_inv_def form_ok_def)

lemma form_schedule:
  "form_inv s \<Longrightarrow> status s = status_formation f \<Longrightarrow> form_inv (scheduleNextPhase s)"
  by (simp add: form_inv_def form_ok_def)

section \<open>One phase forward\<close>

text \<open>
  The cases of \<open>advancePhase\<close> on a state with a formation, each with the snapshot it leads to.
\<close>

definition entered ::
  "FiSimulator \<Rightarrow> RpcFiFormationSnapshot \<Rightarrow> RpcFiFormationSnapshot \<times> FiSimulator" where
  "entered s f =
     (let i = phaseIndex s + 1; p = FORMATION_PHASES ! i; f1 = enter_phase i p f;
          s1 = s\<lparr>phaseIndex := i\<rparr>
      in if p = formed then markFormed f1 s1 else (f1, s1))"

lemma advancePhase_unfold:
  assumes "status s = status_formation f" and "phaseIndex s < 6"
    and p: "p = FORMATION_PHASES ! (phaseIndex s + 1)" and e: "entered s f = (f2, s2)"
  shows "advancePhase s =
    (if failAtPhase (scenario s) = Some p
     then publish (set_formation (f\<lparr>lastError := Some (failWithCode (scenario s))\<rparr>) s)
     else if unsyncedAtPhase (scenario s) = Some p
     then publish (set_formation (f\<lparr>f_freshness := unsynced\<rparr>) s)
     else if replaceGuardianAtPhase (scenario s) = Some p
     then (case parkReplacement f2 s2 of
         None \<Rightarrow> set_formation f2 s2
       | Some (f3, s3) \<Rightarrow> publish (set_formation f3 s3))
     else if authorizeAtPhase (scenario s) = Some p
     then publish (set_formation (fst (parkAuthorization f2 s2)) (snd (parkAuthorization f2 s2)))
     else if p \<noteq> formed then scheduleNextPhase (publish (set_formation f2 s2))
     else publish (set_formation f2 s2))"
proof -
  from assms(1) have cur: "currentFormation s = Some f" by simp
  have pair: "(if p = formed then markFormed (enter_phase (phaseIndex s + 1) p f)
      (s\<lparr>phaseIndex := phaseIndex s + 1\<rparr>)
      else (enter_phase (phaseIndex s + 1) p f, s\<lparr>phaseIndex := phaseIndex s + 1\<rparr>)) = (f2, s2)"
    using e by (simp only: entered_def Let_def p)
  have short: "(length FORMATION_PHASES \<le> phaseIndex s + 1) = False"
    using assms(2) by simp
  show ?thesis
    unfolding advancePhase_def Let_def p [symmetric] cur option.case short if_False pair prod.case
    by (simp only: case_prod_unfold)
qed

lemma advancePhase_done: "status s = status_formation f \<Longrightarrow> 6 \<le> phaseIndex s \<Longrightarrow> advancePhase s = s"
  by (simp add: advancePhase_def currentFormation_def)

lemma advancePhase_idle: "status s = status_idle \<Longrightarrow> advancePhase s = s"
  by (simp add: advancePhase_def currentFormation_def)

lemma entered_ok:
  assumes "formation_ok (phaseIndex s) (walletServiceFederation s) f" and "phaseIndex s < 6"
    and e: "entered s f = (f2, s2)"
  shows "formation_ok (phaseIndex s2) (walletServiceFederation s2) f2"
    and "phaseIndex s2 = phaseIndex s + 1"
    and "phase f2 = FORMATION_PHASES ! (phaseIndex s + 1)"
proof -
  let ?p = "FORMATION_PHASES ! (phaseIndex s + 1)"
  have pos: "phase_pos ?p = phaseIndex s + 1" using assms(2) by (simp add: phase_pos_of_nth)
  have "formation_ok (phaseIndex s2) (walletServiceFederation s2) f2 \<and>
      phaseIndex s2 = phaseIndex s + 1 \<and> phase f2 = ?p"
  proof (cases "?p = formed")
    case True
    with pos have i: "phaseIndex s = 5" by simp
    have "f2 = fst (markFormed (enter_phase 6 formed f) (s\<lparr>phaseIndex := 6\<rparr>))"
      "s2 = snd (markFormed (enter_phase 6 formed f) (s\<lparr>phaseIndex := 6\<rparr>))"
      using e True i by (simp_all add: entered_def Let_def)
    then show ?thesis
      using formation_ok_enter_formed [of 5 "walletServiceFederation s" f "s\<lparr>phaseIndex := 6\<rparr>"]
        assms(1) i True by (simp add: markFormed_def Let_def enter_phase_def)
  next
    case False
    then have "f2 = enter_phase (Suc (phaseIndex s)) ?p f" "s2 = s\<lparr>phaseIndex := Suc (phaseIndex s)\<rparr>"
      using e by (simp_all add: entered_def Let_def)
    then show ?thesis
      using formation_ok_enter [OF assms(1), of ?p] False assms(2)
      by (simp add: enter_phase_def Let_def)
  qed
  then show "formation_ok (phaseIndex s2) (walletServiceFederation s2) f2"
    "phaseIndex s2 = phaseIndex s + 1" "phase f2 = ?p" by blast+
qed

lemma form_advancePhase [inv_intros]:
  assumes inv: "form_inv s"
  shows "form_inv (advancePhase s)"
proof (cases "status s")
  case status_idle
  with inv show ?thesis by (simp add: advancePhase_idle)
next
  case (status_formation f)
  show ?thesis
  proof (cases "phaseIndex s < 6")
    case False
    with status_formation inv show ?thesis by (simp add: advancePhase_done)
  next
    case True
    obtain f2 s2 where e: "entered s f = (f2, s2)" by (cases "entered s f")
    from inv have ok: "formation_ok (phaseIndex s) (walletServiceFederation s) f"
      by (simp add: form_inv_formation [OF status_formation])
    note ok2 = entered_ok [OF ok True e]
    have park: "form_inv (publish (set_formation f3 s3))" if "parkReplacement f2 s2 = Some (f3, s3)" for f3 s3
    proof (intro form_publish form_set_formation)
      from formation_ok_parkReplacement [OF that ok2(1)] parkReplacement_cases(1) [OF that]
      show "formation_ok (phaseIndex s3) (walletServiceFederation s3) f3" by simp
    qed
    have auth: "form_inv (publish (set_formation (fst (parkAuthorization f2 s2)) (snd (parkAuthorization f2 s2))))"
      using ok2(1) by (intro form_publish form_set_formation) (simp add: formation_ok_parkAuthorization)
    have enter: "form_inv (set_formation f2 s2)" using ok2(1) by (rule form_set_formation)
    then have "form_inv (scheduleNextPhase (publish (set_formation f2 s2)))"
      by (intro form_schedule [where f = f2] form_publish) simp_all
    then show ?thesis
      unfolding advancePhase_unfold [OF status_formation True refl e]
      using park auth enter ok
      by (auto intro!: form_publish form_set_formation split: option.split)
  qed
qed

section \<open>Frames of the operations that never touch the formation or the stream\<close>

text \<open>
  The money rails, the liquidity requests and the previews leave the status, the phase and the
  counters of the stream alone.
\<close>

definition core ::
  "FiSimulator \<Rightarrow> RpcFiStatus \<times> nat \<times> LoadedFederation option \<times> bool \<times> (nat, nat) jsmap \<times>
     stream_update list" where
  "core s = (status s, phaseIndex s, walletServiceFederation s, phaseTimer s, sequences s, updates s)"

lemma core_inv: "core s' = core s \<Longrightarrow> form_inv s' = form_inv s \<and> stream_inv s' = stream_inv s"
  by (simp add: core_def form_inv_def stream_inv_def)

lemma core_observeJoined [simp]: "core (observeJoinedFederation i s) = core s"
  by (simp add: core_def observeJoinedFederation_def Let_def)

lemma core_emit_event [simp]: "core (emit_event e s) = core s"
  by (simp add: core_def)

lemma core_addMockPayer [simp]: "core (addMockPayer i b n s) = core s"
  by (simp add: core_def)

lemma core_settle [simp]: "core (settleDeposit now i d s) = core s"
  by (simp add: core_def)

lemma core_debit [simp]: "core (debitMockPayer i a s) = core s"
  by (simp add: core_def)

lemma core_upd [simp]:
  "core (s\<lparr>nextId := n\<rparr>) = core s" "core (s\<lparr>pendingDeposits := d\<rparr>) = core s"
  "core (s\<lparr>inflight := c\<rparr>) = core s" "core (s\<lparr>mockPayers := m\<rparr>) = core s"
  "core (s\<lparr>liquidityOperation := l\<rparr>) = core s" "core (s\<lparr>liquidityPolls := k\<rparr>) = core s"
  "core (s\<lparr>previews := ps\<rparr>) = core s" "core (s\<lparr>previewCount := pc\<rparr>) = core s"
  "core (s\<lparr>hasPreviewedOnce := h\<rparr>) = core s" "core (s\<lparr>initialPublishes := ip\<rparr>) = core s"
  "core (s\<lparr>replacementPreviewId := r\<rparr>) = core s" "core (s\<lparr>emitStream := e\<rparr>) = core s"
  "core (s\<lparr>emitEvent := e'\<rparr>) = core s" "core (s\<lparr>scenario := sc\<rparr>) = core s"
  "core (s\<lparr>joinedFederationIds := js\<rparr>) = core s" "core (s\<lparr>baselineFederationIds := bs\<rparr>) = core s"
  "core (s\<lparr>streamIds := si\<rparr>) = core s"
  by (simp_all add: core_def)

lemma core_joinMock [simp]: "core (fst (joinMockFederation i s)) = core s"
  by (simp add: joinMockFederation_def Let_def split: option.split)

lemma core_generateInvoice [simp]: "core (fst (generateInvoice i a s)) = core s"
  by (simp add: generateInvoice_def Let_def core_def)

lemma core_payInvoice [simp]: "core (fst (payInvoice i f s)) = core s"
  by (simp add: payInvoice_def split: option.split)

lemma core_payInvoice_resume [simp]: "core (fst (payInvoice_resume now code d f s)) = core s"
  by (simp add: payInvoice_resume_def Let_def)

lemma core_setup [simp]: "core (fst (setupPaymentFederations s)) = core s"
  by (simp add: setupPaymentFederations_def)

lemma core_previewSelection [simp]: "core (fst (previewSelection n s)) = core s"
  by (simp add: previewSelection_def)

lemma core_previewSelection_resume [simp]: "core (fst (previewSelection_resume now sc n s)) = core s"
  by (simp add: previewSelection_resume_def Let_def core_def)

lemma core_previewReplacements [simp]: "core (fst (previewReplacements s)) = core s"
  by (simp add: previewReplacements_def Let_def core_def split: option.split)

lemma core_liquidityStart [simp]: "core (fst (liquidityStart now s)) = core s"
  by (simp add: liquidityStart_def makeLiquidityOperation_def core_def split: option.split)

lemma core_liquidityStatus [simp]: "core (fst (liquidityStatus s)) = core s"
  by (simp add: liquidityStatus_def Let_def core_def split: option.split)

lemma core_fold_settle [simp]: "core (fold (\<lambda>(i, d). settleDeposit now i d) ds s) = core s"
  by (induction ds arbitrary: s) auto

lemma core_settleOpen [simp]: "core (settleOpenDeposits now s) = core s"
  by (simp add: settleOpenDeposits_def)

lemma core_fold_addMockPayer [simp]: "core (fold (\<lambda>m. addMockPayer (f m) (g m) (h m)) ms s) = core s"
  by (induction ms arbitrary: s) auto

lemma core_makeLiquidity [simp]: "core (snd (makeLiquidityOperation now v s)) = core s"
  by (simp add: makeLiquidityOperation_def)

lemma core_seed_liquidity [simp]: "core (seed_liquidity now s) = core s"
  by (simp add: seed_liquidity_def case_prod_unfold Let_def)

text \<open>A predicate that holds now and after every operation holds after the dispatch.\<close>

lemma if_fst: "P (fst a) \<Longrightarrow> P (fst b) \<Longrightarrow> P (fst (if c then a else b))"
  by simp

lemma handle_inv:
  assumes "P s"
    and "\<And>i a. P (fst (generateInvoice i a s))" and "\<And>i f. P (fst (payInvoice i f s))"
    and "\<And>i. P (fst (joinMockFederation i s))" and "\<And>i. P (unsubscribe i s)" and "\<And>i. P (subscribe i s)"
    and "P (fst (setupPaymentFederations s))" and "\<And>n. P (fst (previewSelection n s))"
    and "\<And>pid w m. P (fst (payAndCreate now pid w m s))" and "P (fst (resume s))"
    and "P (fst (abandon s))" and "\<And>a. P (fst (authorizePayments_cmd a s))"
    and "P (fst (previewReplacements s))" and "\<And>pid. P (fst (applyReplacements pid s))"
    and "\<And>ppm. P (fst (setGuardianFee ppm s))" and "P (fst (liquidityStart now s))"
    and "P (fst (liquidityStatus s))"
  shows "P (fst (handle now meth pl s))"
  unfolding handle_def
  by (intro if_fst [where P = P]) (simp_all only: fst_conv assms)

definition observed :: "string list \<Rightarrow> FiSimulator \<Rightarrow> FiSimulator" where
  "observed ids s = s\<lparr> baselineFederationIds :=
     (if baselineFederationIds s = None then Some ids else baselineFederationIds s),
     joinedFederationIds := ids \<rparr>"

lemma core_observed [simp]: "core (observed ids s) = core s"
  by (simp add: observed_def core_def)

text \<open>Observing the joined wallets re-points a parked payment, or only records them.\<close>

lemma observeFederations_cases:
  obtains "observeFederations ids s = observed ids s"
  | f a where "status s = status_formation f"
      "observeFederations ids s = publish (set_formation (f\<lparr>actionRequired := a\<rparr>) (observed ids s))"
proof (cases "status s")
  case status_idle
  then have cur: "currentFormation (observed ids s) = None" by (simp add: observed_def)
  have "observeFederations ids s = observed ids s"
    unfolding observeFederations_def Let_def observed_def [symmetric] cur by simp
  then show ?thesis by (rule that(1))
next
  case (status_formation f)
  then have cur: "currentFormation (observed ids s) = Some f" by (simp add: observed_def)
  have "observeFederations ids s = observed ids s \<or>
      (\<exists>a. observeFederations ids s =
        publish (set_formation (f\<lparr>actionRequired := a\<rparr>) (observed ids s)))"
    unfolding observeFederations_def Let_def observed_def [symmetric] cur
    by (auto split: option.split RpcFiFormationActionRequired.split)
  with status_formation that show ?thesis by blast
qed

section \<open>The stream invariant\<close>

lemma stream_core: "core s' = core s \<Longrightarrow> stream_inv s \<Longrightarrow> stream_inv s'"
  using core_inv [of s' s] by blast

lemma stream_small [simp]:
  "stream_inv (set_formation f s) = stream_inv s"
  "stream_inv (scheduleNextPhase s) = stream_inv s"
  "stream_inv (setWalletServiceMeta k v s) = stream_inv s"
  "stream_inv (snd (markFormed f s)) = stream_inv s"
  "stream_inv (snd (parkAuthorization f s)) = stream_inv s"
  "stream_inv (snd (buildSnapshot ps w m p s)) = stream_inv s"
  by (simp_all add: stream_inv_def)

lemma stream_upd [simp]:
  "stream_inv (s\<lparr>phaseIndex := i\<rparr>) = stream_inv s" "stream_inv (s\<lparr>phaseTimer := b\<rparr>) = stream_inv s"
  "stream_inv (s\<lparr>status := st\<rparr>) = stream_inv s" "stream_inv (s\<lparr>previews := p\<rparr>) = stream_inv s"
  "stream_inv (s\<lparr>replacementPreviewId := r\<rparr>) = stream_inv s"
  "stream_inv (s\<lparr>scenario := sc\<rparr>) = stream_inv s" "stream_inv (s\<lparr>mockPayers := m\<rparr>) = stream_inv s"
  "stream_inv (s\<lparr>initialPublishes := ip\<rparr>) = stream_inv s" "stream_inv (s\<lparr>inflight := c\<rparr>) = stream_inv s"
  "stream_inv (s\<lparr>baselineFederationIds := bs, joinedFederationIds := js\<rparr>) = stream_inv s"
  "stream_inv (s\<lparr>nextId := n\<rparr>) = stream_inv s"
  by (simp_all add: stream_inv_def)

lemma stream_reset [inv_intros]: "stream_inv s \<Longrightarrow> stream_inv (reset s)"
  unfolding reset_def by (rule stream_publish) (simp add: stream_inv_def)

lemma entered_snd:
  assumes "entered s f = (f2, s2)"
  shows "s2 = (if FORMATION_PHASES ! (phaseIndex s + 1) = formed
    then snd (markFormed (enter_phase (phaseIndex s + 1) formed f) (s\<lparr>phaseIndex := phaseIndex s + 1\<rparr>))
    else s\<lparr>phaseIndex := phaseIndex s + 1\<rparr>)"
proof -
  from assms have "s2 = snd (entered s f)" by simp
  then show ?thesis by (simp add: entered_def Let_def)
qed

lemma stream_entered: "entered s f = (f2, s2) \<Longrightarrow> stream_inv s2 = stream_inv s"
  by (drule entered_snd) simp

lemma stream_advancePhase [inv_intros]:
  assumes "stream_inv s"
  shows "stream_inv (advancePhase s)"
proof (cases "status s")
  case status_idle
  with assms show ?thesis by (simp add: advancePhase_idle)
next
  case (status_formation f)
  show ?thesis
  proof (cases "phaseIndex s < 6")
    case False
    with status_formation assms show ?thesis by (simp add: advancePhase_done)
  next
    case True
    obtain f2 s2 where e: "entered s f = (f2, s2)" by (cases "entered s f")
    have "stream_inv s2" using stream_entered [OF e] assms by simp
    with assms show ?thesis
      unfolding advancePhase_unfold [OF status_formation True refl e]
      by (auto intro!: stream_publish dest: parkReplacement_cases(1) split: option.split)
  qed
qed

lemma stream_seed_walk: "stream_inv s \<Longrightarrow> stream_inv (seed_walk n s)"
  by (induction n arbitrary: s) (auto intro: stream_advancePhase split: option.split)

lemma stream_seed [inv_intros]: "stream_inv s \<Longrightarrow> stream_inv (seedFromScenario now s)"
proof -
  assume inv: "stream_inv s"
  have "stream_inv (seeded_formation seed s)" for seed
    using inv by (simp add: seeded_formation_def Let_def case_prod_unfold)
  then have liq: "stream_inv (seed_liquidity now (seeded_formation seed s))" for seed
    by (rule stream_core [rotated]) simp
  have march: "stream_inv s' \<Longrightarrow> stream_inv (seed_march s')" for s'
    by (auto simp: seed_march_def Let_def case_prod_unfold stream_seed_walk
        dest: parkReplacement_cases(1) split: option.split)
  show ?thesis
    using inv liq march by (auto simp: seedFromScenario_def Let_def split: option.split)
qed

lemma stream_setScenario [inv_intros]: "stream_inv s \<Longrightarrow> stream_inv (setScenario now n s)"
  unfolding setScenario_def Let_def
  by (rule stream_publish) (auto intro!: stream_seed stream_reset stream_core [OF core_fold_addMockPayer])

lemma stream_handle: "stream_inv s \<Longrightarrow> stream_inv (fst (handle now meth pl s))"
proof -
  assume inv: "stream_inv s"
  have [simp]: "stream_inv (subscribe i s)" "stream_inv (unsubscribe i s)" for i
    using inv by (auto simp: subscribe_def unsubscribe_def stream_inv_def stream_ok_def
        split: option.split)
  have [simp]: "stream_inv (fst (payAndCreate now pid w m s))" for pid w m
    using inv by (auto simp: payAndCreate_def Let_def case_prod_unfold split: option.split
        intro!: stream_publish)
  have [simp]: "stream_inv (fst (resume s))" "stream_inv (fst (abandon s))"
    "stream_inv (fst (authorizePayments_cmd a s))" "stream_inv (fst (applyReplacements pid s))"
    "stream_inv (fst (setGuardianFee ppm s))" for a pid ppm
    using inv by (auto simp: resume_def abandon_def authorizePayments_cmd_def applyReplacements_def
        setGuardianFee_def Let_def split: option.split intro!: stream_publish stream_reset)
  note core_ops = core_generateInvoice core_payInvoice core_joinMock core_setup core_previewSelection
    core_previewReplacements core_liquidityStart core_liquidityStatus
  note [simp] = core_ops [THEN stream_core, OF inv]
  show ?thesis by (rule handle_inv) (simp_all add: inv)
qed

lemma stream_step: "stream_inv s \<Longrightarrow> stream_inv (sim_step s e)"
proof (cases e)
  case (Attach b)
  moreover assume "stream_inv s"
  ultimately show ?thesis by (simp add: attach_def stream_inv_def)
next
  case (Continue now k)
  moreover assume "stream_inv s"
  moreover have "stream_inv s' \<Longrightarrow> stream_inv (fst (resume_continuation now c s'))" for c s'
    by (cases c) (auto intro: stream_core [rotated])
  ultimately show ?thesis by simp
next
  case (ObserveFederations ids)
  moreover assume inv: "stream_inv s"
  moreover have "stream_inv (observed ids s)" by (rule stream_core [OF core_observed inv])
  ultimately show ?thesis
    by (cases rule: observeFederations_cases [of ids s]) (simp_all add: stream_publish)
next
  case (SettleOpenDeposits now)
  moreover assume "stream_inv s"
  ultimately show ?thesis by (simp add: stream_core [OF core_settleOpen])
qed (auto simp: stream_handle phase_timer_fires_def clearMockPayers_def clearSimulatedState_def
  intro!: stream_publishTo stream_advancePhase stream_reset stream_setScenario
    stream_core [OF core_observeJoined] stream_core [OF core_addMockPayer])

interpretation sim_stream: invariant_machine sim_step "\<lambda>_. True" stream_inv
  by unfold_locales (rule stream_step)

section \<open>The formation invariant\<close>

lemma form_core: "core s' = core s \<Longrightarrow> form_inv s \<Longrightarrow> form_inv s'"
  using core_inv [of s' s] by blast

lemma form_reset [inv_intros]: "form_inv (reset s)"
  by (simp add: reset_def form_inv_def form_ok_def)

lemma reset_status [simp]: "status (reset s) = status_idle"
  by (simp add: reset_def)

lemma buildSnapshot_ok:
  assumes "p \<noteq> formed" and "fst (buildSnapshot ps want m p s) = f"
  shows "formation_ok (phase_pos p) w
    (f\<lparr> milestones := (milestones f)\<lparr>ecashSent := phase_pos acquiringSeats \<le> phase_pos p\<rparr>,
        paymentOutputsStarted := phase_pos acquiringSeats \<le> phase_pos p \<rparr>)"
  using assms by (auto simp: buildSnapshot_def formation_ok_def o_def seat_progress_def)

lemma buildSnapshot_preparing_ok:
  "formation_ok 0 w (fst (buildSnapshot ps want m preparing s))"
  by (simp add: buildSnapshot_def formation_ok_def o_def seat_progress_def)

lemma seeded_ok: "form_inv (seeded_formation seed s)"
proof (cases seed)
  case seed_inProgress
  let ?n = "10 :: nat"
  let ?f = "fst (buildSnapshot (make_seats ?n)
    \<lparr>want_federationName = Some ''My Wallet Service'', want_federationSize = ?n\<rparr>
    (int ?n * BASE_SEAT_PRICE_MSATS) acquiringSeats s)"
  have "formation_ok 2 w (?f\<lparr> milestones := (milestones ?f)\<lparr>ecashSent := True\<rparr>,
      paymentOutputsStarted := True \<rparr>)" for w
    using buildSnapshot_ok [of acquiringSeats, OF _ refl] by simp
  with seed_inProgress show ?thesis
    by (simp add: seeded_formation_def Let_def case_prod_unfold form_set_formation)
next
  case seed_formed
  have idx: "map seat_index (seats f') = [0..<length (seats f')]"
    if "f' = fst (buildSnapshot ps w m p s)" for f' ps w m p
    using that by (simp add: buildSnapshot_def o_def seat_progress_def)
  have ph: "phase (fst (buildSnapshot ps w m p s)) = p" for ps w m p
    by (simp add: buildSnapshot_def)
  from seed_formed show ?thesis
    unfolding seeded_formation_def Let_def case_prod_unfold
    by (simp add: form_inv_def form_ok_def formation_ok_def markFormed_def Let_def ph
        idx [OF refl] emit_event_def)
qed

lemma form_seed_walk: "form_inv s \<Longrightarrow> form_inv (seed_walk n s)"
  by (induction n arbitrary: s) (auto intro: form_advancePhase split: option.split)

lemma form_timer_off: "form_inv s \<Longrightarrow> form_inv (s\<lparr>phaseTimer := False\<rparr>)"
  by (auto simp: form_inv_def form_ok_def split: RpcFiStatus.split)

lemma form_seed_march:
  assumes inv: "form_inv s" and st: "status s = status_formation f"
  shows "form_inv (seed_march s)"
proof -
  have ok: "formation_ok (phaseIndex s) (walletServiceFederation s) f"
    using inv by (simp add: form_inv_formation [OF st])
  have "form_inv (set_formation f1 s1)" if "parkReplacement f s = Some (f1, s1)" for f1 s1
    using formation_ok_parkReplacement [OF that ok] parkReplacement_cases(1) [OF that]
    by (intro form_set_formation) simp
  moreover have "form_inv (set_formation (fst (parkAuthorization f s)) (snd (parkAuthorization f s)))"
    using ok by (intro form_set_formation) (simp add: formation_ok_parkAuthorization)
  moreover have "form_inv (scheduleNextPhase s)" using inv st by (rule form_schedule)
  moreover have "currentFormation s = Some f" using st by simp
  ultimately show ?thesis
    using ok inv form_timer_off [OF form_seed_walk [OF inv]]
    by (auto simp: seed_march_def Let_def case_prod_unfold intro!: form_set_formation split: option.split)
qed

lemma seeded_status: "\<exists>f. status (seed_liquidity now (seeded_formation seed s)) = status_formation f"
proof -
  have "status (seed_liquidity now s') = status s'" for s'
    using core_seed_liquidity [of now s'] by (simp add: core_def)
  then show ?thesis by (simp add: seeded_formation_def Let_def case_prod_unfold)
qed

lemma form_seed [inv_intros]: "form_inv s \<Longrightarrow> form_inv (seedFromScenario now s)"
proof -
  assume inv: "form_inv s"
  have liq: "form_inv (seed_liquidity now (seeded_formation seed s))" for seed
    by (rule form_core [OF core_seed_liquidity seeded_ok])
  then have "form_inv (seed_march (seed_liquidity now (seeded_formation seed s)))" for seed
    using seeded_status form_seed_march by blast
  with liq inv show ?thesis by (auto simp: seedFromScenario_def Let_def split: option.split)
qed

lemma form_setScenario [inv_intros]: "form_inv (setScenario now n s)"
  unfolding setScenario_def Let_def
  by (rule form_publish) (auto intro!: form_seed form_reset form_core [OF core_fold_addMockPayer])

lemma form_payAndCreate: "form_inv s \<Longrightarrow> form_inv (fst (payAndCreate now pid w m s))"
proof -
  assume inv: "form_inv s"
  have "form_inv (scheduleNextPhase (publish ((set_formation f s1)\<lparr>phaseIndex := 0\<rparr>)))"
    if "buildSnapshot ps w m preparing s = (f, s1)" for ps f s1
  proof (rule form_schedule [where f = f])
    from buildSnapshot_preparing_ok [of "walletServiceFederation s1" ps w m s] that
    show "form_inv (publish ((set_formation f s1)\<lparr>phaseIndex := 0\<rparr>))"
      by (intro form_publish) (simp add: form_inv_def form_ok_def)
  qed simp
  moreover have "form_inv (s\<lparr>previews := ps\<rparr>)" for ps
    using inv by (simp add: form_inv_def)
  ultimately show ?thesis
    using inv by (auto simp: payAndCreate_def Let_def split: option.split prod.split)
qed

lemma form_commands:
  assumes inv: "form_inv s"
  shows "form_inv (fst (resume s))" and "form_inv (fst (abandon s))"
    and "form_inv (fst (authorizePayments_cmd a s))" and "form_inv (fst (applyReplacements pid s))"
    and "form_inv (fst (setGuardianFee ppm s))"
proof -
  have go: "form_inv (scheduleNextPhase (publish (set_formation f s')))"
    if "formation_ok (phaseIndex s') (walletServiceFederation s') f" for f s'
    using that by (intro form_schedule [where f = f] form_publish form_set_formation) simp_all
  have ok: "formation_ok (phaseIndex s) (walletServiceFederation s) f"
    if "status s = status_formation f" for f
    using inv that by (simp add: form_inv_formation)
  show "form_inv (fst (resume s))"
    using inv ok by (auto simp: resume_def intro!: go split: option.split)
  show "form_inv (fst (abandon s))"
    using inv by (auto simp: abandon_def form_reset split: option.split)
  show "form_inv (fst (authorizePayments_cmd a s))"
  proof -
    have "formation_ok i w f \<Longrightarrow> formation_ok i w (f\<lparr>actionRequired := None, paymentOutputsStarted := True\<rparr>)"
      for i w f unfolding formation_ok_def by auto
    with inv ok show ?thesis by (auto simp: authorizePayments_cmd_def intro!: go split: option.split)
  qed
  show "form_inv (fst (applyReplacements pid s))"
  proof -
    have "formation_ok i w (f\<lparr>actionRequired := None, seats := map g (seats f)\<rparr>)"
      if "formation_ok i w f" "\<And>x. seat_index (g x) = seat_index x" for i w f g
      using formation_ok_seats [of i w "f\<lparr>actionRequired := None\<rparr>" g] that by simp
    with inv ok show ?thesis
      by (auto simp: applyReplacements_def Let_def intro!: go split: option.split)
  qed
  show "form_inv (fst (setGuardianFee ppm s))"
  proof -
    have "form_inv (setWalletServiceMeta k v (set_formation (f\<lparr>intent := n\<rparr>) s))"
      if "status s = status_formation f" for f k v n
      using ok [OF that]
      by (auto simp: setWalletServiceMeta_def form_inv_def form_ok_def split: option.split)
    with inv show ?thesis
      by (auto simp: setGuardianFee_def intro!: form_publish split: option.split)
  qed
qed

lemma form_handle: "form_inv s \<Longrightarrow> form_inv (fst (handle now meth pl s))"
proof -
  assume inv: "form_inv s"
  have [simp]: "form_inv (subscribe i s)" "form_inv (unsubscribe i s)" for i
    using inv by (auto simp: subscribe_def unsubscribe_def form_inv_def split: option.split)
  note core_ops = core_generateInvoice core_payInvoice core_joinMock core_setup core_previewSelection
    core_previewReplacements core_liquidityStart core_liquidityStatus
  note [simp] = core_ops [THEN form_core, OF inv]
  show ?thesis by (rule handle_inv) (simp_all add: inv form_commands form_payAndCreate)
qed

lemma form_observeFederations: "form_inv s \<Longrightarrow> form_inv (observeFederations ids s)"
proof -
  assume inv: "form_inv s"
  then have inv1: "form_inv (observed ids s)" by (rule form_core [OF core_observed])
  show ?thesis
  proof (cases rule: observeFederations_cases [of ids s])
    case 1
    with inv1 show ?thesis by simp
  next
    case (2 f a)
    have "status (observed ids s) = status_formation f"
      using 2(1) core_observed [of ids s] by (simp add: core_def)
    with inv1 have "formation_ok (phaseIndex (observed ids s)) (walletServiceFederation (observed ids s)) f"
      by (simp add: form_inv_formation)
    with 2(2) show ?thesis by (simp add: form_publish form_set_formation)
  qed
qed

lemma form_step: "form_inv s \<Longrightarrow> form_inv (sim_step s e)"
proof (cases e)
  case (Continue now k)
  moreover assume inv: "form_inv s"
  moreover have "form_inv (s\<lparr>inflight := c\<rparr>)" for c using inv by (simp add: form_inv_def)
  moreover have "form_inv s' \<Longrightarrow> form_inv (fst (resume_continuation now c s'))" for c s'
    by (cases c) (auto intro: form_core [rotated])
  ultimately show ?thesis by simp
next
  case PhaseTimer
  moreover assume inv: "form_inv s"
  ultimately show ?thesis
    by (auto simp: phase_timer_fires_def intro: form_advancePhase form_timer_off)
next
  case (SettleOpenDeposits now)
  moreover assume "form_inv s"
  ultimately show ?thesis by (simp add: form_core [OF core_settleOpen])
next
  case (InitialPublish k)
  moreover assume "form_inv s"
  ultimately show ?thesis by (auto intro!: form_publishTo simp: form_inv_def)
next
  case (Attach b)
  moreover assume "form_inv s"
  ultimately show ?thesis by (simp add: attach_def form_inv_def)
next
  case ClearMockPayers
  moreover assume "form_inv s"
  ultimately show ?thesis by (simp add: clearMockPayers_def form_inv_def)
qed (auto simp: form_handle form_observeFederations clearSimulatedState_def
  intro!: form_reset form_setScenario form_core [OF core_observeJoined] form_core [OF core_addMockPayer])

interpretation sim_form: invariant_machine sim_step "\<lambda>_. True" form_inv
  by unfold_locales (rule form_step)

lemma initial_invs: "stream_inv (initial_fields sc)" "form_inv (initial_fields sc)"
  by (simp_all add: initial_fields_def stream_inv_def stream_ok_def seqs_def form_inv_def form_ok_def)

lemma new_invs: "stream_inv (new_FiSimulator now n)" "form_inv (new_FiSimulator now n)"
  unfolding new_FiSimulator_def by (intro stream_seed form_seed initial_invs)+

section \<open>Fields that formation and seeding do not touch\<close>

text \<open>
  A field that the building blocks of the formation leave alone is left alone by the timer, the
  seeding and the reset-free commands built from them.
\<close>

definition untouched :: "(FiSimulator \<Rightarrow> 'a) \<Rightarrow> bool" where
  "untouched g \<longleftrightarrow>
     (\<forall>f s. g (set_formation f s) = g s) \<and> (\<forall>s. g (publish s) = g s) \<and>
     (\<forall>s. g (scheduleNextPhase s) = g s) \<and> (\<forall>s n. g (s\<lparr>nextId := n\<rparr>) = g s) \<and>
     (\<forall>s i. g (s\<lparr>phaseIndex := i\<rparr>) = g s) \<and> (\<forall>s b. g (s\<lparr>phaseTimer := b\<rparr>) = g s) \<and>
     (\<forall>f s. g (snd (markFormed f s)) = g s) \<and> (\<forall>s l. g (s\<lparr>liquidityOperation := l\<rparr>) = g s)"

lemma untouched_fields:
  "untouched mockPayers" "untouched pendingDeposits" "untouched inflight" "untouched previews"
  "untouched scenario" "untouched streamIds" "untouched emitEvent" "untouched joinedFederationIds"
  "untouched replacementPreviewId"
  by (simp_all add: untouched_def)

lemma untouched_advancePhase:
  assumes g: "untouched g"
  shows "g (advancePhase s) = g s"
proof (cases "status s")
  case status_idle
  then show ?thesis by (simp add: advancePhase_idle)
next
  case (status_formation f)
  show ?thesis
  proof (cases "phaseIndex s < 6")
    case False
    with status_formation show ?thesis by (simp add: advancePhase_done)
  next
    case True
    obtain f2 s2 where e: "entered s f = (f2, s2)" by (cases "entered s f")
    have "g s2 = g s" using g by (simp add: entered_snd [OF e] untouched_def)
    moreover have "g (snd (parkAuthorization f2 s2)) = g s2"
      using g by (simp add: parkAuthorization_def Let_def untouched_def)
    ultimately show ?thesis
      unfolding advancePhase_unfold [OF status_formation True refl e]
      using g by (auto simp: untouched_def dest: parkReplacement_cases(1) split: option.split)
  qed
qed

lemma untouched_seed:
  assumes g: "untouched g"
  shows "g (seedFromScenario now s) = g s"
proof -
  have snapshot: "g (snd (buildSnapshot ps w m p s')) = g s'" for ps w m p s'
    using g by (simp add: buildSnapshot_def untouched_def)
  have "g (seeded_formation seed s') = g s'" for seed s'
    using g snapshot by (simp add: seeded_formation_def Let_def case_prod_unfold untouched_def)
  moreover have "g (seed_liquidity now s') = g s'" for s'
    using g by (simp add: seed_liquidity_def makeLiquidityOperation_def untouched_def)
  moreover have "g (seed_walk n s') = g s'" for n s'
    by (induction n arbitrary: s') (auto simp: untouched_advancePhase [OF g] split: option.split)
  moreover have "g (seed_march s') = g s'" for s'
    using g calculation(3)
    by (auto simp: seed_march_def Let_def parkAuthorization_def untouched_def
        dest: parkReplacement_cases(1) split: option.split)
  ultimately show ?thesis by (auto simp: seedFromScenario_def Let_def split: option.split)
qed

lemmas advance_fields [simp] = untouched_fields [THEN untouched_advancePhase]
lemmas seed_fields [simp] = untouched_fields [THEN untouched_seed]

section \<open>Money\<close>

text \<open>
  Balances never go below zero, a wallet is held once, and no deposit is negative, pending or
  already captured by a suspended payment.
\<close>

definition payers_ok :: "mock_payer list \<Rightarrow> bool" where
  "payers_ok ps \<longleftrightarrow> list_all (\<lambda>p. 0 \<le> mp_balanceSats p) ps \<and> distinct (map mp_federationId ps)"

definition deposits_ok :: "(string, PendingDeposit) jsmap \<Rightarrow> bool" where
  "deposits_ok ds \<longleftrightarrow> (\<forall>k d. (k, d) \<in> set ds \<longrightarrow> 0 \<le> dep_amountMsats d)"

fun cont_ok :: "continuation \<Rightarrow> bool" where
  "cont_ok (PayCont invoice d fid) = (0 \<le> dep_amountMsats d)"
| "cont_ok _ = True"

definition money_inv :: "FiSimulator \<Rightarrow> bool" where
  "money_inv s \<longleftrightarrow> payers_ok (mockPayers s) \<and> deposits_ok (pendingDeposits s) \<and>
     (\<forall>c\<in>set (inflight s). cont_ok c)"

fun sim_event_ok :: "sim_event \<Rightarrow> bool" where
  "sim_event_ok (Rpc now meth pl) = (0 \<le> pl_amount pl)"
| "sim_event_ok (AddMockPayer i b n) = (0 \<le> b)"
| "sim_event_ok _ = True"

lemma msats_to_sats_nonneg: "0 \<le> a \<Longrightarrow> 0 \<le> msats_to_sats a"
  by (simp add: msats_to_sats_def SATS_TO_MSATS_def)

lemma payers_ok_update:
  assumes "payers_ok ps" and "\<And>p. mp_federationId (f p) = mp_federationId p"
    and "\<And>p. 0 \<le> mp_balanceSats p \<Longrightarrow> 0 \<le> mp_balanceSats (f p)"
  shows "payers_ok (update_first q f ps)"
  using assms by (auto simp: payers_ok_def map_update_first intro: update_first_all)

lemma payers_ok_filter: "payers_ok ps \<Longrightarrow> payers_ok (filter q ps)"
  by (auto simp: payers_ok_def list_all_iff distinct_map_filter)

lemma payers_ok_add:
  "payers_ok (mockPayers s) \<Longrightarrow> 0 \<le> b \<Longrightarrow> payers_ok (mockPayers (addMockPayer i b n s))"
proof -
  assume ok: "payers_ok (mockPayers s)" and b: "0 \<le> b"
  show ?thesis
  proof (cases "find (is_payer (Some i)) (mockPayers s)")
    case None
    then have "i \<notin> set (map mp_federationId (mockPayers s))"
      by (auto simp: find_None_iff is_payer_def)
    with None ok b show ?thesis by (auto simp: addMockPayer_def payers_ok_def)
  next
    case (Some p)
    with ok b show ?thesis by (auto simp: addMockPayer_def intro: payers_ok_update)
  qed
qed

lemma payers_ok_settle:
  "payers_ok (mockPayers s) \<Longrightarrow> 0 \<le> dep_amountMsats d \<Longrightarrow> payers_ok (mockPayers (settleDeposit now i d s))"
  by (auto simp: settleDeposit_def Let_def intro!: payers_ok_update msats_to_sats_nonneg add_nonneg_nonneg)

lemma payers_ok_debit:
  "payers_ok (mockPayers s) \<Longrightarrow> payers_ok (mockPayers (debitMockPayer i a s))"
  by (auto simp: debitMockPayer_def intro: payers_ok_update)

lemma deposits_ok_del: "deposits_ok ds \<Longrightarrow> deposits_ok (jm_del k ds)"
  using filter_is_subset by (fastforce simp: deposits_ok_def jm_del_def AList.delete_eq)

lemma deposits_ok_set: "deposits_ok ds \<Longrightarrow> 0 \<le> dep_amountMsats d \<Longrightarrow> deposits_ok (jm_set k d ds)"
  by (auto simp: deposits_ok_def dest!: jm_set_mem)

lemma deposits_ok_get: "deposits_ok ds \<Longrightarrow> jm_get ds k = Some d \<Longrightarrow> 0 \<le> dep_amountMsats d"
  by (auto simp: deposits_ok_def dest: jm_get_mem)

lemma money_frame:
  "mockPayers s' = mockPayers s \<Longrightarrow> pendingDeposits s' = pendingDeposits s \<Longrightarrow>
   inflight s' = inflight s \<Longrightarrow> money_inv s \<Longrightarrow> money_inv s'"
  by (simp add: money_inv_def)

lemma reset_fields [simp]:
  "mockPayers (reset s) = mockPayers s" "pendingDeposits (reset s) = []" "inflight (reset s) = inflight s"
  "previews (reset s) = []" "scenario (reset s) = scenario s" "streamIds (reset s) = streamIds s"
  "replacementPreviewId (reset s) = replacementPreviewId s" "nextId (reset s) = nextId s"
  by (simp_all add: reset_def)

lemma observeJoined_fields [simp]:
  "mockPayers (observeJoinedFederation i s) = mockPayers s"
  "pendingDeposits (observeJoinedFederation i s) = pendingDeposits s"
  "inflight (observeJoinedFederation i s) = inflight s"
  "previews (observeJoinedFederation i s) = previews s"
  by (simp_all add: observeJoinedFederation_def Let_def)

lemma command_fields [simp]:
  "mockPayers (fst (payAndCreate now pid w m s)) = mockPayers s"
  "pendingDeposits (fst (payAndCreate now pid w m s)) = pendingDeposits s"
  "inflight (fst (payAndCreate now pid w m s)) = inflight s"
  "mockPayers (fst (resume s)) = mockPayers s" "pendingDeposits (fst (resume s)) = pendingDeposits s"
  "inflight (fst (resume s)) = inflight s" "previews (fst (resume s)) = previews s"
  "mockPayers (fst (authorizePayments_cmd a s)) = mockPayers s"
  "pendingDeposits (fst (authorizePayments_cmd a s)) = pendingDeposits s"
  "inflight (fst (authorizePayments_cmd a s)) = inflight s"
  "previews (fst (authorizePayments_cmd a s)) = previews s"
  "mockPayers (fst (applyReplacements pid s)) = mockPayers s"
  "pendingDeposits (fst (applyReplacements pid s)) = pendingDeposits s"
  "inflight (fst (applyReplacements pid s)) = inflight s"
  "previews (fst (applyReplacements pid s)) = previews s"
  "mockPayers (fst (setGuardianFee ppm s)) = mockPayers s"
  "pendingDeposits (fst (setGuardianFee ppm s)) = pendingDeposits s"
  "inflight (fst (setGuardianFee ppm s)) = inflight s"
  "previews (fst (setGuardianFee ppm s)) = previews s"
  by (simp_all add: payAndCreate_def resume_def authorizePayments_cmd_def applyReplacements_def
      setGuardianFee_def Let_def case_prod_unfold split: option.split)

lemma request_fields [simp]:
  "mockPayers (fst (previewReplacements s)) = mockPayers s"
  "pendingDeposits (fst (previewReplacements s)) = pendingDeposits s"
  "inflight (fst (previewReplacements s)) = inflight s" "previews (fst (previewReplacements s)) = previews s"
  "mockPayers (fst (liquidityStart now s)) = mockPayers s"
  "pendingDeposits (fst (liquidityStart now s)) = pendingDeposits s"
  "inflight (fst (liquidityStart now s)) = inflight s" "previews (fst (liquidityStart now s)) = previews s"
  "mockPayers (fst (liquidityStatus s)) = mockPayers s"
  "pendingDeposits (fst (liquidityStatus s)) = pendingDeposits s"
  "inflight (fst (liquidityStatus s)) = inflight s" "previews (fst (liquidityStatus s)) = previews s"
  "mockPayers (subscribe i s) = mockPayers s" "pendingDeposits (subscribe i s) = pendingDeposits s"
  "inflight (subscribe i s) = inflight s" "previews (subscribe i s) = previews s"
  "mockPayers (unsubscribe i s) = mockPayers s" "pendingDeposits (unsubscribe i s) = pendingDeposits s"
  "inflight (unsubscribe i s) = inflight s" "previews (unsubscribe i s) = previews s"
  by (simp_all add: previewReplacements_def liquidityStart_def liquidityStatus_def
      makeLiquidityOperation_def subscribe_def unsubscribe_def Let_def split: option.split)

lemma money_handle:
  assumes inv: "money_inv s" and amount: "0 \<le> pl_amount pl"
  shows "money_inv (fst (handle now meth pl s))"
proof -
  from inv have parts: "payers_ok (mockPayers s)" "deposits_ok (pendingDeposits s)"
    "\<forall>c\<in>set (inflight s). cont_ok c" by (simp_all add: money_inv_def)
  have gen: "money_inv (fst (generateInvoice i (pl_amount pl) s))" for i
    using parts amount by (simp add: generateInvoice_def Let_def money_inv_def deposits_ok_set)
  have pay: "money_inv (fst (payInvoice i f s))" for i f
    using parts by (auto simp: payInvoice_def money_inv_def bind_eq_Some_conv
        intro: deposits_ok_get split: option.split)
  have join: "money_inv (fst (joinMockFederation i s))" for i
    using parts by (auto simp: joinMockFederation_def Let_def money_inv_def
        intro: payers_ok_add split: option.split)
  have joinables: "money_inv (fst (setupPaymentFederations s))"
    using parts by (auto simp: setupPaymentFederations_def money_inv_def)
  have preview: "money_inv (fst (previewSelection n s))" for n
    using parts by (auto simp: setupPaymentFederations_def previewSelection_def money_inv_def)
  have quit: "money_inv (fst (abandon s))"
    using parts by (auto simp: abandon_def money_inv_def deposits_ok_def split: option.split)
  note frame = money_frame [OF _ _ _ inv]
  show ?thesis
    unfolding handle_def
    by (intro if_fst [where P = money_inv])
      (simp_all only: fst_conv gen pay join joinables preview quit inv, simp_all add: frame)
qed

lemma money_continue:
  assumes inv: "money_inv s" and c: "cont_ok c"
  shows "money_inv (fst (resume_continuation now c s))"
proof (cases c)
  case (PayCont i d f)
  with inv c show ?thesis
    by (auto simp: payInvoice_resume_def Let_def money_inv_def
        intro!: payers_ok_settle payers_ok_debit deposits_ok_del)
next
  case (PreviewCont sc n)
  with inv show ?thesis by (simp add: previewSelection_resume_def Let_def money_inv_def)
next
  case (SetupCont sc)
  with inv show ?thesis by simp
qed

lemma money_fold_settle:
  assumes "money_inv s" and "deposits_ok ds"
  shows "money_inv (fold (\<lambda>(i, d). settleDeposit now i d) ds s)"
  using assms
proof (induction ds arbitrary: s)
  case (Cons x ds)
  obtain i d where x: "x = (i, d)" by (cases x)
  with Cons.prems have "money_inv (settleDeposit now i d s)" "deposits_ok ds"
    by (auto simp: money_inv_def deposits_ok_def intro!: payers_ok_settle)
  with Cons.IH x show ?case by simp
qed simp

lemma money_fold_add:
  "money_inv s \<Longrightarrow> list_all (\<lambda>m. 0 \<le> mock_balanceSats m) ms \<Longrightarrow>
   money_inv (fold (\<lambda>m. addMockPayer (mock_id m) (mock_balanceSats m) (Some (mock_name m))) ms s)"
proof (induction ms arbitrary: s)
  case (Cons m ms)
  have "money_inv (addMockPayer (mock_id m) (mock_balanceSats m) (Some (mock_name m)) s)"
    using Cons.prems by (simp add: money_inv_def payers_ok_add)
  with Cons show ?case by simp
qed simp

lemma money_setScenario:
  assumes inv: "money_inv s"
  shows "money_inv (setScenario now n s)"
proof -
  let ?s1 = "if seedMockPayers (scenario s) then s\<lparr>mockPayers :=
    filter (\<lambda>p. mp_federationId p \<notin> set MOCK_PAYER_FEDERATION_IDS) (mockPayers s)\<rparr> else s"
  let ?s2 = "seedFromScenario now (reset (?s1\<lparr>scenario := fiScenarios n\<rparr>))"
  have s2: "money_inv ?s2"
    using inv by (auto simp: money_inv_def deposits_ok_def payers_ok_filter)
  have "list_all (\<lambda>m. 0 \<le> mock_balanceSats m) MOCK_PAYER_FEDERATIONS"
    by (simp add: MOCK_PAYER_FEDERATIONS_def)
  note s3 = money_fold_add [OF s2 this]
  have pub: "money_inv s' \<Longrightarrow> money_inv (publish s')" for s' by (simp add: money_inv_def)
  show ?thesis
    unfolding setScenario_def Let_def
    by (rule pub, cases "seedMockPayers (scenario ?s2)") (simp_all only: s2 s3 if_True if_False)
qed

lemma money_step:
  assumes inv: "money_inv s" and ok: "sim_event_ok e"
  shows "money_inv (sim_step s e)"
proof (cases e)
  case (Continue now k)
  show ?thesis
  proof (cases "k < length (inflight s)")
    case True
    let ?s = "s\<lparr>inflight := take k (inflight s) @ drop (Suc k) (inflight s)\<rparr>"
    from True have "inflight s ! k \<in> set (inflight s)" by simp
    then have "cont_ok (inflight s ! k)" using inv by (simp add: money_inv_def)
    moreover have "set (take k (inflight s)) \<union> set (drop (Suc k) (inflight s)) \<subseteq> set (inflight s)"
      by (auto dest: in_set_takeD in_set_dropD)
    then have "money_inv ?s" using inv by (auto simp: money_inv_def)
    ultimately show ?thesis using Continue True by (simp add: money_continue)
  qed (use Continue inv in simp)
next
  case (SettleOpenDeposits now)
  have "money_inv (s\<lparr>pendingDeposits := []\<rparr>)" "deposits_ok (pendingDeposits s)"
    using inv by (simp_all add: money_inv_def deposits_ok_def)
  with SettleOpenDeposits show ?thesis by (simp add: settleOpenDeposits_def money_fold_settle)
next
  case (ObserveFederations ids)
  then show ?thesis
    using inv by (cases rule: observeFederations_cases [of ids s]) (simp_all add: money_inv_def observed_def)
next
  case (AddMockPayer i b n)
  with inv ok show ?thesis by (simp add: money_inv_def payers_ok_add)
next
  case (Rpc now meth pl)
  with inv ok show ?thesis by (simp add: money_handle)
next
  case (SetScenario now n)
  with inv show ?thesis by (simp add: money_setScenario)
next
  case ClearMockPayers
  with inv show ?thesis by (simp add: clearMockPayers_def money_inv_def payers_ok_def)
next
  case ClearSimulatedState
  with inv show ?thesis by (simp add: clearSimulatedState_def money_inv_def payers_ok_def deposits_ok_def)
next
  case Reset
  with inv show ?thesis by (simp add: money_inv_def deposits_ok_def)
qed (use inv in \<open>simp_all add: money_inv_def phase_timer_fires_def attach_def\<close>)

interpretation sim_money: invariant_machine sim_step sim_event_ok money_inv
  by unfold_locales (rule money_step)

section \<open>Seat prices and sealed previews\<close>

lemma seat_price_prefix:
  assumes "k \<le> n"
  shows "sum_list (map (\<lambda>i. seatPriceMsats i n) [0..<k]) =
    int k * BASE_SEAT_PRICE_MSATS + (if k < n \<and> odd k then 50 * SATS_TO_MSATS else 0)"
  using assms
proof (induction k)
  case (Suc k)
  let ?offset = "if k < n \<and> odd k then 50 * SATS_TO_MSATS else 0"
  have IH: "sum_list (map (\<lambda>i. seatPriceMsats i n) [0..<k]) = int k * BASE_SEAT_PRICE_MSATS + ?offset"
    using Suc by simp
  have "?offset + seatPriceMsats k n =
      BASE_SEAT_PRICE_MSATS + (if Suc k < n \<and> odd (Suc k) then 50 * SATS_TO_MSATS else 0)"
    using Suc.prems by (cases "Suc k = n"; cases "even k")
      (auto simp: seatPriceMsats_def Let_def odd_iff_mod_2_eq_one [symmetric]
        even_iff_mod_2_eq_zero [symmetric] simp del: One_nat_def)
  with IH show ?case by (simp add: algebra_simps)
qed simp

lemma seat_price_total:
  "sum_list (map (\<lambda>i. seatPriceMsats i n) [0..<n]) = int n * BASE_SEAT_PRICE_MSATS"
  using seat_price_prefix [of n n] by simp

lemma make_seats_total:
  "sum_list (map ps_advertisedPriceMsats (make_seats n)) = int n * BASE_SEAT_PRICE_MSATS"
  using seat_price_total [of n] by (simp add: make_seats_def o_def)

lemma length_make_seats [simp]: "length (make_seats n) = n"
  by (simp add: make_seats_def)

definition preview_ok :: "string \<Rightarrow> RpcFiSelectionPreview \<Rightarrow> bool" where
  "preview_ok k p \<longleftrightarrow> k = previewId p \<and> preview_seats p = make_seats (selected p) \<and>
     totalAdvertisedMsats p = int (selected p) * BASE_SEAT_PRICE_MSATS"

definition preview_inv :: "FiSimulator \<Rightarrow> bool" where
  "preview_inv s \<longleftrightarrow> (\<forall>k p. (k, p) \<in> set (previews s) \<longrightarrow> preview_ok k p)"

lemma preview_frame: "previews s' = previews s \<Longrightarrow> preview_inv s \<Longrightarrow> preview_inv s'"
  by (simp add: preview_inv_def)

lemma jm_del_mem: "x \<in> set (jm_del k m) \<Longrightarrow> x \<in> set m"
  by (simp add: jm_del_def AList.delete_eq)

lemma money_rail_previews [simp]:
  "previews (fst (generateInvoice i a s)) = previews s" "previews (fst (payInvoice i f s)) = previews s"
  "previews (fst (joinMockFederation i s)) = previews s"
  "previews (fst (setupPaymentFederations s)) = previews s"
  "previews (fst (previewSelection n s)) = previews s"
  "previews (fst (payInvoice_resume now code d f s)) = previews s"
  by (simp_all add: generateInvoice_def payInvoice_def joinMockFederation_def payInvoice_resume_def
      setupPaymentFederations_def previewSelection_def Let_def split: option.split)

lemma fold_addMockPayer_previews [simp]:
  "previews (fold (\<lambda>m. addMockPayer (mock_id m) (mock_balanceSats m) (Some (mock_name m))) ms s) =
     previews s"
  by (induction ms arbitrary: s) auto

lemma preview_step:
  assumes inv: "preview_inv s"
  shows "preview_inv (sim_step s e)"
proof (cases e)
  case (Rpc now meth pl)
  have pay: "preview_inv (fst (payAndCreate now pid w m s))" for pid w m
    using inv by (auto simp: payAndCreate_def preview_inv_def Let_def case_prod_unfold
        dest: jm_del_mem split: option.split)
  have "preview_inv (fst (abandon s))"
    using inv by (auto simp: abandon_def preview_inv_def split: option.split)
  note frame = preview_frame [OF _ inv]
  have "preview_inv (fst (handle now meth pl s))"
    by (rule handle_inv) (simp_all add: inv pay \<open>preview_inv (fst (abandon s))\<close> frame)
  with Rpc inv show ?thesis by simp
next
  case (Continue now k)
  have "preview_inv s' \<Longrightarrow> preview_inv (fst (resume_continuation now c s'))" for c s'
  proof (cases c)
    case (PreviewCont sc n)
    moreover assume "preview_inv s'"
    ultimately show ?thesis
      by (auto simp: previewSelection_resume_def Let_def preview_inv_def preview_ok_def
          make_seats_total dest!: jm_set_mem)
  qed (simp_all add: preview_inv_def)
  moreover have "preview_inv (s\<lparr>inflight := c\<rparr>)" for c using inv by (simp add: preview_inv_def)
  ultimately show ?thesis using Continue inv by simp
next
  case (ObserveFederations ids)
  then show ?thesis
    using inv by (cases rule: observeFederations_cases [of ids s]) (simp_all add: preview_inv_def observed_def)
next
  case (SettleOpenDeposits now)
  have "previews (fold (\<lambda>(i, d). settleDeposit now i d) ds s') = previews s'" for ds s'
    by (induction ds arbitrary: s') auto
  with SettleOpenDeposits inv show ?thesis by (simp add: settleOpenDeposits_def preview_inv_def)
next
  case (SetScenario now n)
  then show ?thesis by (simp add: setScenario_def Let_def preview_inv_def)
qed (use inv in \<open>simp_all add: preview_inv_def phase_timer_fires_def attach_def clearMockPayers_def
  clearSimulatedState_def\<close>)

interpretation sim_preview: invariant_machine sim_step "\<lambda>_. True" preview_inv
  by unfold_locales (rule preview_step)

end
