(* ===== verification/Fi_Simulator_Properties.thy ===== *)
theory Fi_Simulator_Properties
  imports Fi_Simulator_Proofs
begin

text \<open>
  What the wallet-service simulator guarantees over every run of its events, and where the code
  departs from what its comments promise. The runs start from \<open>new_FiSimulator\<close>, the constructor
  of the class on any named scenario.
\<close>

section \<open>Marching through the phases\<close>

text \<open>No decision or failure of the scenario lies beyond position \<open>i\<close>.\<close>

definition clear_ahead :: "FiScenario \<Rightarrow> nat \<Rightarrow> bool" where
  "clear_ahead sc i \<longleftrightarrow> (\<forall>p. i < phase_pos p \<longrightarrow>
     failAtPhase sc \<noteq> Some p \<and> unsyncedAtPhase sc \<noteq> Some p \<and>
     replaceGuardianAtPhase sc \<noteq> Some p \<and> authorizeAtPhase sc \<noteq> Some p)"

lemma clear_ahead_Suc: "clear_ahead sc i \<Longrightarrow> clear_ahead sc (Suc i)"
  by (simp add: clear_ahead_def)

lemma entered_actionRequired:
  assumes "entered s f = (f2, s2)"
  shows "actionRequired f2 = actionRequired f"
proof -
  have "f2 = fst (entered s f)" using assms by simp
  then show ?thesis by (simp add: entered_def Let_def markFormed_def enter_phase_def)
qed

lemma entered_confirmed:
  assumes "entered s f = (f2, s2)" and "4 \<le> phaseIndex s + 1"
  shows "guardiansConfirmed (milestones f2)"
proof -
  have "f2 = fst (entered s f)" using assms by simp
  with assms(2) show ?thesis by (simp add: entered_def Let_def markFormed_def enter_phase_def)
qed

lemma fire_once:
  assumes st: "status s = status_formation f" and inv: "form_inv s" and i: "phaseIndex s < 6"
    and timer: "phaseTimer s" and clear: "clear_ahead (scenario s) (phaseIndex s)"
  obtains f' where "status (sim_step s PhaseTimer) = status_formation f'"
    and "phaseIndex (sim_step s PhaseTimer) = Suc (phaseIndex s)"
    and "phaseTimer (sim_step s PhaseTimer) \<longleftrightarrow> Suc (phaseIndex s) < 6"
    and "actionRequired f' = actionRequired f"
    and "4 \<le> phaseIndex s + 1 \<Longrightarrow> guardiansConfirmed (milestones f')"
    and "scenario (sim_step s PhaseTimer) = scenario s"
proof -
  let ?s = "s\<lparr>phaseTimer := False\<rparr>" and ?p = "FORMATION_PHASES ! (phaseIndex s + 1)"
  have stq: "status ?s = status_formation f" using st by simp
  have invq: "form_inv ?s" using inv by (rule form_timer_off)
  obtain f2 s2 where e: "entered ?s f = (f2, s2)" by (cases "entered ?s f")
  have ok: "formation_ok (phaseIndex ?s) (walletServiceFederation ?s) f"
    using invq by (simp add: form_inv_formation [OF stq])
  have pos: "phase_pos ?p = Suc (phaseIndex s)" using i by (simp add: phase_pos_of_nth)
  have "failAtPhase (scenario s) \<noteq> Some ?p" "unsyncedAtPhase (scenario s) \<noteq> Some ?p"
    "replaceGuardianAtPhase (scenario s) \<noteq> Some ?p" "authorizeAtPhase (scenario s) \<noteq> Some ?p"
    using clear pos by (auto simp: clear_ahead_def)
  then have adv: "advancePhase ?s =
      (if ?p \<noteq> formed then scheduleNextPhase (publish (set_formation f2 s2))
       else publish (set_formation f2 s2))"
    using advancePhase_unfold [OF stq _ refl e] i by simp
  have s2: "phaseIndex s2 = Suc (phaseIndex s)" "phaseTimer s2 = False" "scenario s2 = scenario s"
    using entered_snd [OF e] by simp_all
  have formed: "?p = formed \<longleftrightarrow> \<not> Suc (phaseIndex s) < 6"
    using pos i phase_pos_6 [of ?p] by linarith
  have step: "phase_timer_fires s = advancePhase ?s"
    using timer by (simp add: phase_timer_fires_def)
  show ?thesis
    by (rule that [of f2]) (use adv s2 formed entered_actionRequired [OF e] entered_confirmed [OF e]
      in \<open>simp_all add: step\<close>)
qed

lemma march:
  assumes "status s = status_formation f" and "form_inv s" and "phaseIndex s + n = 6"
    and "0 < n \<Longrightarrow> phaseTimer s" and "n = 0 \<Longrightarrow> \<not> phaseTimer s \<and> guardiansConfirmed (milestones f)"
    and "clear_ahead (scenario s) (phaseIndex s)"
  obtains f' where "status (run sim_step s (replicate n PhaseTimer)) = status_formation f'"
    and "phase f' = formed" and "actionRequired f' = actionRequired f"
    and "milestones f' = \<lparr>ecashSent = True, guardiansConfirmed = True, walletServiceCreated = True\<rparr>"
    and "f_inviteCode f' = Some (formed_invite (formationId f'))"
    and "\<not> phaseTimer (run sim_step s (replicate n PhaseTimer))"
  using assms
proof (induction n arbitrary: s f thesis)
  case 0
  then have ok: "formation_ok 6 (walletServiceFederation s) f"
    by (simp add: form_inv_formation)
  then have "phase f = formed" unfolding formation_ok_def by (metis phase_pos_6)
  with ok 0 show ?case
    by (intro 0(1) [of f]) (simp_all add: formation_ok_def)
next
  case (Suc n)
  have i: "phaseIndex s < 6" and timer: "phaseTimer s" using Suc.prems by simp_all
  from fire_once [OF Suc.prems(2,3) i timer Suc.prems(7)] obtain f1 where
    f1: "status (sim_step s PhaseTimer) = status_formation f1"
      "phaseIndex (sim_step s PhaseTimer) = Suc (phaseIndex s)"
      "phaseTimer (sim_step s PhaseTimer) \<longleftrightarrow> Suc (phaseIndex s) < 6"
      "actionRequired f1 = actionRequired f"
      "4 \<le> phaseIndex s + 1 \<Longrightarrow> guardiansConfirmed (milestones f1)"
      "scenario (sim_step s PhaseTimer) = scenario s" by blast
  show ?case
  proof (rule Suc.IH [of "sim_step s PhaseTimer" f1])
    show "form_inv (sim_step s PhaseTimer)" using Suc.prems(3) by (rule form_step)
    show "clear_ahead (scenario (sim_step s PhaseTimer)) (phaseIndex (sim_step s PhaseTimer))"
      using Suc.prems(7) f1 by (simp add: clear_ahead_Suc)
    fix f' assume "status (run sim_step (sim_step s PhaseTimer) (replicate n PhaseTimer)) = status_formation f'"
      "phase f' = formed" "actionRequired f' = actionRequired f1"
      "milestones f' = \<lparr>ecashSent = True, guardiansConfirmed = True, walletServiceCreated = True\<rparr>"
      "f_inviteCode f' = Some (formed_invite (formationId f'))"
      "\<not> phaseTimer (run sim_step (sim_step s PhaseTimer) (replicate n PhaseTimer))"
    then show thesis using f1(4) by (intro Suc.prems(1) [of f']) simp_all
  qed (use Suc.prems f1 in \<open>simp_all\<close>)
qed

lemma reachable_form: "form_inv (run sim_step (new_FiSimulator now n) es)"
  by (rule sim_form.run_inv [OF new_invs(2)]) (simp add: list_all_iff)

lemma reachable_stream: "stream_inv (run sim_step (new_FiSimulator now n) es)"
  by (rule sim_stream.run_inv [OF new_invs(1)]) (simp add: list_all_iff)

lemma new_fields:
  "mockPayers (new_FiSimulator now n) = []" "pendingDeposits (new_FiSimulator now n) = []"
  "inflight (new_FiSimulator now n) = []" "previews (new_FiSimulator now n) = []"
  "scenario (new_FiSimulator now n) = fiScenarios n"
  by (simp_all add: new_FiSimulator_def, simp_all add: initial_fields_def)

lemma reachable_preview: "preview_inv (run sim_step (new_FiSimulator now n) es)"
  by (rule sim_preview.run_inv) (simp_all add: preview_inv_def new_fields list_all_iff)

section \<open>Properties of the formation\<close>

text \<open>
  C6. In every reachable state the snapshot is consistent with its phase: the phase counter is
  the position of the phase, the payment has been sent exactly from the acquisition of the seats
  on and then no refund by abandoning is on offer, and the wallet service exists, with an invite
  code that the announced federation carries, exactly when the phase is the last one.
\<close>

theorem formation_always_consistent:
  assumes "s = run sim_step (new_FiSimulator now n) es" and "status s = status_formation f"
  shows "phaseIndex s = phase_pos (phase f) \<and>
    map seat_index (seats f) = [0..<length (seats f)] \<and>
    (ecashSent (milestones f) \<longleftrightarrow> phase_pos acquiringSeats \<le> phase_pos (phase f)) \<and>
    (ecashSent (milestones f) \<longrightarrow> paymentOutputsStarted f) \<and>
    (guardiansConfirmed (milestones f) \<longrightarrow> phase_pos dkgUnderway \<le> phase_pos (phase f)) \<and>
    (walletServiceCreated (milestones f) \<longleftrightarrow> phase f = formed) \<and>
    (f_inviteCode f \<noteq> None \<longleftrightarrow> phase f = formed) \<and>
    (phase f = formed \<longrightarrow> map_option fed_inviteCode (walletServiceFederation s) = f_inviteCode f)"
proof -
  have "formation_ok (phaseIndex s) (walletServiceFederation s) f"
    using reachable_form [of now n es] assms by (simp add: form_inv_formation)
  then show ?thesis unfolding formation_ok_def by (auto split: if_splits)
qed

theorem formation_always_consistent_witness:
  "\<exists>f. status (run sim_step (new_FiSimulator 0 alreadyFormed) []) = status_formation f \<and>
     phaseIndex (run sim_step (new_FiSimulator 0 alreadyFormed) []) = phase_pos (phase f)"
proof -
  have "status (new_FiSimulator 0 alreadyFormed) \<noteq> status_idle" by code_simp
  then obtain f where f: "status (run sim_step (new_FiSimulator 0 alreadyFormed) []) = status_formation f"
    by (cases "status (new_FiSimulator 0 alreadyFormed)") auto
  with formation_always_consistent [OF refl f] show ?thesis by blast
qed

text \<open>
  C39. A paid formation completes: in a scenario that asks for no decision and injects no
  failure, six firings of the phase timer take a fresh formation to the last phase, with every
  milestone reached, an invite code, and no timer left behind.
\<close>

theorem formation_completes:
  assumes "s = run sim_step (new_FiSimulator now n) es" and "knobless (scenario s)"
    and "snd (payAndCreate t pid want m s) = RSuccess"
  shows "\<exists>f. status (run sim_step (fst (payAndCreate t pid want m s)) (replicate 6 PhaseTimer)) =
      status_formation f \<and> phase f = formed \<and>
    milestones f = \<lparr>ecashSent = True, guardiansConfirmed = True, walletServiceCreated = True\<rparr> \<and>
    f_inviteCode f = Some (formed_invite (formationId f)) \<and>
    \<not> phaseTimer (run sim_step (fst (payAndCreate t pid want m s)) (replicate 6 PhaseTimer))"
proof -
  let ?s1 = "fst (payAndCreate t pid want m s)"
  from assms(3) obtain pv where pv: "jm_get (previews s) pid = Some pv"
    and ok: "\<not> validUntil pv \<le> t" "\<not> rejectSelectionOnPay (scenario s)" "\<not> m < totalAdvertisedMsats pv"
    by (auto simp: payAndCreate_def Let_def fi_error_def split: option.splits if_splits)
  obtain f s' where b: "buildSnapshot (preview_seats pv) want m preparing s = (f, s')"
    by (cases "buildSnapshot (preview_seats pv) want m preparing s")
  have s': "scenario s' = scenario s"
    using buildSnapshot_fields(1) [of "preview_seats pv" want m preparing s] by (simp add: b)
  have s1: "?s1 = scheduleNextPhase (publish ((set_formation f s')\<lparr>phaseIndex := 0\<rparr>))"
    using pv ok by (simp add: payAndCreate_def Let_def b)
  have inv: "form_inv ?s1" unfolding assms(1) by (rule form_payAndCreate [OF reachable_form])
  have clear: "clear_ahead (scenario ?s1) (phaseIndex ?s1)"
    using assms(2) by (simp add: s1 s' knobless_def clear_ahead_def)
  have "status ?s1 = status_formation f" "phaseIndex ?s1 + 6 = 6" "phaseTimer ?s1"
    by (simp_all add: s1)
  from march [OF this(1) inv this(2) _ _ clear] this(3) show ?thesis
    by (metis zero_neq_numeral)
qed

definition preview_then :: "FiScenarioName \<Rightarrow> sim_event list" where
  "preview_then n =
     [Attach True, SetScenario 0 n,
      Rpc 0 ''fiClientPreviewSelection''
        \<lparr>pl_streamId = None, pl_federationId = None, pl_invoice = None, pl_inviteCode = None,
         pl_amount = 0, pl_previewId = [], pl_requestSize = 1,
         pl_intent = \<lparr>want_federationName = None, want_federationSize = 1\<rparr>, pl_maxTotalMsats = 0,
         pl_authorizationId = [], pl_guardianFeePpm = 0, pl_network = []\<rparr>,
      Continue 0 0]"

abbreviation previewed :: "FiScenarioName \<Rightarrow> FiSimulator" where
  "previewed n \<equiv> run sim_step (new_FiSimulator 0 happyPath) (preview_then n)"

abbreviation some_intent :: RpcFiFormationIntent where
  "some_intent \<equiv> \<lparr>want_federationName = Some ''Test'', want_federationSize = 1\<rparr>"

theorem formation_completes_witness:
  "\<exists>f. status (run sim_step (fst (payAndCreate 1 ''preview_1'' some_intent 2100000 (previewed happyPath)))
      (replicate 6 PhaseTimer)) = status_formation f \<and> phase f = formed"
proof -
  have "knobless (scenario (previewed happyPath))" by code_simp
  moreover have "snd (payAndCreate 1 ''preview_1'' some_intent 2100000 (previewed happyPath)) = RSuccess"
    by code_simp
  ultimately show ?thesis using formation_completes [OF refl] by blast
qed

text \<open>
  C40. Paying is possible exactly for a sealed selection: the preview was handed out and not yet
  dropped, it has not expired, the scenario does not withdraw it and the approved limit covers
  its advertised total; then, in every reachable state, the total is the base price for each
  seat and the new formation starts in the first phase with exactly the previewed guardians.
\<close>

theorem payAndCreate_sealed:
  assumes "s = run sim_step (new_FiSimulator now n) es"
  shows "snd (payAndCreate t pid want m s) = RSuccess \<longleftrightarrow>
     (\<exists>pv. jm_get (previews s) pid = Some pv \<and> t < validUntil pv \<and>
        \<not> rejectSelectionOnPay (scenario s) \<and> int (selected pv) * 2100000 \<le> m \<and>
        (\<exists>f. status (fst (payAndCreate t pid want m s)) = status_formation f \<and> phase f = preparing \<and>
           length (seats f) = selected pv \<and>
           map seat_fmanId (seats f) = map (Some \<circ> ps_fmanId) (preview_seats pv)))"
proof -
  have inv: "preview_inv s" unfolding assms by (rule reachable_preview)
  show ?thesis
  proof (cases "jm_get (previews s) pid")
    case None
    then show ?thesis by (simp add: payAndCreate_def Let_def fi_error_def)
  next
    case (Some pv)
    then have "(pid, pv) \<in> set (previews s)" by (rule jm_get_mem)
    with inv have pv: "preview_seats pv = make_seats (selected pv)"
      "totalAdvertisedMsats pv = int (selected pv) * 2100000"
      by (simp_all add: preview_inv_def preview_ok_def BASE_SEAT_PRICE_MSATS_def)
    have seats: "map seat_fmanId (map (\<lambda>i. seat_progress i (ps ! i)) [0..<length ps]) =
        map (Some \<circ> ps_fmanId) ps" for ps
      by (intro nth_equalityI) (simp_all add: seat_progress_def)
    show ?thesis
      using Some pv seats [of "preview_seats pv"]
      by (auto simp: payAndCreate_def Let_def fi_error_def buildSnapshot_def not_le not_less o_def
          split: if_splits)
  qed
qed

theorem payAndCreate_sealed_witness:
  "\<exists>f. status (fst (payAndCreate 1 ''preview_1'' some_intent 2100000 (previewed happyPath))) =
     status_formation f \<and> phase f = preparing"
proof -
  have "snd (payAndCreate 1 ''preview_1'' some_intent 2100000 (previewed happyPath)) = RSuccess"
    by code_simp
  then show ?thesis using payAndCreate_sealed [OF refl] by blast
qed

text \<open>
  Once the acquisition of the seats has begun there is no way back: in a reachable state
  at or past that phase every attempt to abandon is refused and leaves the state as it was.
\<close>

theorem no_abandon_after_payment:
  assumes "s = run sim_step (new_FiSimulator now n) es" and "status s = status_formation f"
    and "phase_pos acquiringSeats \<le> phase_pos (phase f)"
  shows "fst (abandon s) = s \<and> snd (abandon s) \<noteq> RSuccess"
proof -
  have "formation_ok (phaseIndex s) (walletServiceFederation s) f"
    using reachable_form [of now n es] assms by (simp add: form_inv_formation)
  then have "paymentOutputsStarted f" using assms(3) unfolding formation_ok_def by auto
  then show ?thesis using assms(2) by (auto simp: abandon_def currentFormation_def fi_error_def)
qed

theorem no_abandon_after_payment_witness:
  "fst (abandon (new_FiSimulator 0 formationInProgress)) = new_FiSimulator 0 formationInProgress"
proof -
  let ?s = "new_FiSimulator 0 formationInProgress"
  have "\<exists>f. status ?s = status_formation f \<and> phase f = acquiringSeats"
    by (simp add: new_FiSimulator_def seedFromScenario_def Let_def seeded_formation_def
        initial_fields_def baseScenario_def seed_liquidity_def seed_march_def case_prod_unfold
        buildSnapshot_def)
  then obtain f where "status ?s = status_formation f" "phase f = acquiringSeats" by blast
  with no_abandon_after_payment [of ?s 0 formationInProgress "[]" f] show ?thesis by simp
qed

section \<open>A formation never passes its failure\<close>

lemma advancePhase_index:
  "phaseIndex (advancePhase s) = phaseIndex s \<or>
   (phaseIndex s < 6 \<and> phaseIndex (advancePhase s) = Suc (phaseIndex s) \<and>
    failAtPhase (scenario s) \<noteq> Some (FORMATION_PHASES ! Suc (phaseIndex s)) \<and>
    unsyncedAtPhase (scenario s) \<noteq> Some (FORMATION_PHASES ! Suc (phaseIndex s)))"
proof (cases "status s")
  case status_idle
  then show ?thesis by (simp add: advancePhase_idle)
next
  case (status_formation f)
  show ?thesis
  proof (cases "phaseIndex s < 6")
    case False
    with status_formation show ?thesis by (simp add: advancePhase_done)
  next
    case True
    obtain f2 s2 where e: "entered s f = (f2, s2)" by (cases "entered s f")
    have "phaseIndex s2 = Suc (phaseIndex s)" using entered_snd [OF e] by simp
    with True show ?thesis
      unfolding advancePhase_unfold [OF status_formation True refl e]
      by (auto dest: parkReplacement_cases(1) split: option.split)
  qed
qed

text \<open>
  The scenario is only changed by choosing another, and the phase only moves by the timer, a
  payment, a reset or a seed.
\<close>

lemma scenario_fields [simp]:
  "scenario (observeJoinedFederation i s) = scenario s" "scenario (observed ids s) = scenario s"
  "scenario (fst (generateInvoice j a s)) = scenario s" "scenario (fst (payInvoice j f s)) = scenario s"
  "scenario (fst (joinMockFederation j s)) = scenario s"
  "scenario (fst (setupPaymentFederations s)) = scenario s"
  "scenario (fst (previewSelection k s)) = scenario s"
  "scenario (fst (previewSelection_resume now sc k s)) = scenario s"
  "scenario (fst (payInvoice_resume now code d f s)) = scenario s"
  "scenario (fst (payAndCreate now pid w m s)) = scenario s" "scenario (fst (resume s)) = scenario s"
  "scenario (fst (abandon s)) = scenario s" "scenario (fst (authorizePayments_cmd pid s)) = scenario s"
  "scenario (fst (applyReplacements pid s)) = scenario s" "scenario (fst (setGuardianFee ppm s)) = scenario s"
  "scenario (fst (previewReplacements s)) = scenario s" "scenario (fst (liquidityStart now s)) = scenario s"
  "scenario (fst (liquidityStatus s)) = scenario s" "scenario (subscribe l s) = scenario s"
  "scenario (unsubscribe l s) = scenario s"
  by (simp_all add: observeJoinedFederation_def observed_def generateInvoice_def payInvoice_def
      joinMockFederation_def setupPaymentFederations_def previewSelection_def
      previewSelection_resume_def payInvoice_resume_def payAndCreate_def resume_def abandon_def
      authorizePayments_cmd_def applyReplacements_def setGuardianFee_def previewReplacements_def
      liquidityStart_def liquidityStatus_def makeLiquidityOperation_def subscribe_def
      unsubscribe_def Let_def case_prod_unfold split: option.split)

definition below :: "FiScenario \<Rightarrow> nat \<Rightarrow> FiSimulator \<Rightarrow> bool" where
  "below sc k s \<longleftrightarrow> scenario s = sc \<and> phaseIndex s < k"

lemma below_frame: "scenario s' = scenario s \<Longrightarrow> phaseIndex s' = phaseIndex s \<Longrightarrow> below sc k s \<Longrightarrow> below sc k s'"
  by (simp add: below_def)

lemma below_core: "core s' = core s \<Longrightarrow> scenario s' = scenario s \<Longrightarrow> below sc k s \<Longrightarrow> below sc k s'"
  by (simp add: below_def core_def)

lemma below_handle:
  assumes b: "below sc k s" and k: "0 < k"
  shows "below sc k (fst (handle now meth pl s))"
proof -
  have cmds: "phaseIndex (fst (resume s)) = phaseIndex s"
    "phaseIndex (fst (authorizePayments_cmd a s)) = phaseIndex s"
    "phaseIndex (fst (applyReplacements pid s)) = phaseIndex s"
    "phaseIndex (fst (setGuardianFee ppm s)) = phaseIndex s"
    "phaseIndex (subscribe l s) = phaseIndex s" "phaseIndex (unsubscribe l s) = phaseIndex s" for a pid ppm l
    by (simp_all add: resume_def authorizePayments_cmd_def applyReplacements_def setGuardianFee_def
        subscribe_def unsubscribe_def Let_def split: option.split)
  have zero: "phaseIndex (fst (payAndCreate now pid w m s)) \<in> {0, phaseIndex s}"
    "phaseIndex (fst (abandon s)) \<in> {0, phaseIndex s}" for pid w m
    by (auto simp: payAndCreate_def abandon_def reset_def Let_def case_prod_unfold split: option.split)
  have pay: "below sc k (fst (payAndCreate now pid w m s))" for pid w m
    using zero(1) [of pid w m] b k by (auto simp: below_def)
  have quit: "below sc k (fst (abandon s))" using zero(2) b k by (auto simp: below_def)
  note core_ops = core_generateInvoice core_payInvoice core_joinMock core_setup core_previewSelection
    core_previewReplacements core_liquidityStart core_liquidityStatus
  note [simp] = core_ops [THEN below_core, OF _ b]
  show ?thesis
    by (rule handle_inv [where P = "below sc k"])
      (simp_all add: b pay quit cmds below_frame [OF _ _ b])
qed

fun keeps_scenario :: "sim_event \<Rightarrow> bool" where
  "keeps_scenario (SetScenario now n) = False"
| "keeps_scenario _ = True"

lemma below_step:
  assumes b: "below sc k s" and k: "0 < k" and e: "keeps_scenario e"
    and p: "k < 7 \<Longrightarrow> failAtPhase sc = Some (FORMATION_PHASES ! k) \<or>
      unsyncedAtPhase sc = Some (FORMATION_PHASES ! k)"
  shows "below sc k (sim_step s e)"
proof (cases e)
  case (Continue now i)
  have "below sc k s' \<Longrightarrow> below sc k (fst (resume_continuation now c s'))" for c s'
    by (cases c) (auto intro: below_core [rotated 2])
  moreover have "below sc k (s\<lparr>inflight := c\<rparr>)" for c using b by (simp add: below_def)
  ultimately show ?thesis using Continue b by simp
next
  case PhaseTimer
  let ?s = "s\<lparr>phaseTimer := False\<rparr>"
  have "phaseIndex (advancePhase ?s) < k"
  proof (cases "phaseIndex (advancePhase ?s) = phaseIndex s")
    case True
    with b show ?thesis by (simp add: below_def)
  next
    case False
    with advancePhase_index [of ?s] have moved: "phaseIndex s < 6"
      "phaseIndex (advancePhase ?s) = Suc (phaseIndex s)"
      "failAtPhase (scenario s) \<noteq> Some (FORMATION_PHASES ! Suc (phaseIndex s))"
      "unsyncedAtPhase (scenario s) \<noteq> Some (FORMATION_PHASES ! Suc (phaseIndex s))" by auto
    then have "k \<noteq> Suc (phaseIndex s)" using p b by (auto simp: below_def)
    moreover have "phaseIndex s < k" using b by (simp add: below_def)
    ultimately show ?thesis using moved(2) by linarith
  qed
  with PhaseTimer b show ?thesis by (simp add: phase_timer_fires_def below_def)
next
  case (ObserveFederations ids)
  have "core (observed ids s) = core s" "scenario (observed ids s) = scenario s" by simp_all
  then have "below sc k (observed ids s)" by (rule below_core) (rule b)
  then show ?thesis
    using ObserveFederations by (cases rule: observeFederations_cases [of ids s]) (simp_all add: below_def)
next
  case (SettleOpenDeposits now)
  have "scenario (fold (\<lambda>(i, d). settleDeposit now i d) ds s') = scenario s'" for ds s'
    by (induction ds arbitrary: s') auto
  then have "scenario (settleOpenDeposits now s) = scenario s" by (simp add: settleOpenDeposits_def)
  with SettleOpenDeposits show ?thesis using below_core [OF core_settleOpen _ b] by simp
next
  case (Rpc now meth pl)
  with b k show ?thesis by (simp add: below_handle)
next
  case (ObserveJoined i)
  then show ?thesis using below_core [OF core_observeJoined _ b] by simp
qed (use b k e in \<open>simp_all add: below_def attach_def clearMockPayers_def clearSimulatedState_def reset_def\<close>)

lemma below_run:
  assumes "below sc k s" and "0 < k" and "list_all keeps_scenario es"
    and "k < 7 \<Longrightarrow> failAtPhase sc = Some (FORMATION_PHASES ! k) \<or>
      unsyncedAtPhase sc = Some (FORMATION_PHASES ! k)"
  shows "below sc k (run sim_step s es)"
  using assms(1,3) by (induction es arbitrary: s) (auto intro: below_step [OF _ assms(2) _ assms(4)])

text \<open>
  A scenario that fails or stalls at a phase never lets a formation reach it, whatever the
  user retries: as long as the scenario stays selected, the phase of every formation is before
  the failing one.
\<close>

theorem formation_stops_at_failure:
  assumes "list_all keeps_scenario es" and "seedFormation (fiScenarios n) = None"
    and "failAtPhase (fiScenarios n) = Some p \<or> unsyncedAtPhase (fiScenarios n) = Some p"
    and "p \<noteq> preparing"
    and "status (run sim_step (new_FiSimulator now n) es) = status_formation f"
  shows "phase_pos (phase f) < phase_pos p"
proof -
  have pos: "0 < phase_pos p" using assms(4) by (cases p) auto
  have start: "below (fiScenarios n) (phase_pos p) (new_FiSimulator now n)"
    using assms(2) pos by (simp add: new_FiSimulator_def seedFromScenario_def initial_fields_def below_def)
  have "below (fiScenarios n) (phase_pos p) (run sim_step (new_FiSimulator now n) es)"
    by (rule below_run [OF start pos assms(1)]) (use assms(3) phase_pos_nth [of p] in auto)
  moreover have "formation_ok (phaseIndex (run sim_step (new_FiSimulator now n) es))
      (walletServiceFederation (run sim_step (new_FiSimulator now n) es)) f"
    using reachable_form [of now n es] form_inv_formation [OF assms(5)] by simp
  ultimately show ?thesis unfolding formation_ok_def below_def by simp
qed

abbreviation failing_run :: "sim_event list" where
  "failing_run \<equiv> tl (tl (preview_then happyPath)) @
     [Rpc 0 ''fiClientPayAndCreate''
        \<lparr>pl_streamId = None, pl_federationId = None, pl_invoice = None, pl_inviteCode = None,
         pl_amount = 0, pl_previewId = ''preview_1'', pl_requestSize = 1,
         pl_intent = some_intent, pl_maxTotalMsats = 2100000, pl_authorizationId = [],
         pl_guardianFeePpm = 0, pl_network = []\<rparr>] @ replicate 5 PhaseTimer"

theorem formation_stops_at_failure_witness:
  "\<exists>f. status (run sim_step (new_FiSimulator 0 formationFails) failing_run) = status_formation f \<and>
     phase_pos (phase f) < 4"
proof -
  have "status (run sim_step (new_FiSimulator 0 formationFails) failing_run) \<noteq> status_idle"
    by code_simp
  then obtain f where f: "status (run sim_step (new_FiSimulator 0 formationFails) failing_run) =
      status_formation f"
    by (cases "status (run sim_step (new_FiSimulator 0 formationFails) failing_run)") auto
  have "list_all keeps_scenario failing_run" by (simp add: preview_then_def list_all_iff)
  from formation_stops_at_failure [OF this _ _ _ f, of dkgUnderway] f show ?thesis
    by (simp add: baseScenario_def)
qed

section \<open>Properties of the status stream\<close>

text \<open>
  The bridge never sees a gap: in every run, the sequence numbers delivered to a stream go
  up by one, except where a subscription starts over at 0.
\<close>

theorem stream_sequences_gapless:
  "gapless (seqs streamId (updates (run sim_step (new_FiSimulator now n) es)))"
  using reachable_stream [of now n es] by (simp add: stream_inv_def stream_ok_def)

text \<open>
  Publishing reaches every subscriber: with a stream emitter attached, one publication adds
  exactly one update for each subscribed stream, carrying the current status, and nothing for
  any other stream.
\<close>

theorem publish_reaches_subscribers:
  assumes "emitStream s" and "distinct (streamIds s)"
  shows "map (\<lambda>u. (su_stream u, su_status u)) (updates (publish s)) =
    map (\<lambda>u. (su_stream u, su_status u)) (updates s) @ map (\<lambda>i. (i, status s)) (streamIds s)"
proof -
  have "set is \<subseteq> set (streamIds s') \<Longrightarrow> emitStream s' \<Longrightarrow>
      map (\<lambda>u. (su_stream u, su_status u)) (updates (fold publishTo is s')) =
      map (\<lambda>u. (su_stream u, su_status u)) (updates s') @ map (\<lambda>i. (i, status s')) is" for "is" s'
  proof (induction "is" arbitrary: s')
    case (Cons i "is")
    then have "map (\<lambda>u. (su_stream u, su_status u)) (updates (publishTo i s')) =
        map (\<lambda>u. (su_stream u, su_status u)) (updates s') @ [(i, status s')]"
      by (simp add: publishTo_def Let_def)
    with Cons show ?case by simp
  qed simp
  from this [of "streamIds s" s] assms(1) show ?thesis by (simp add: publish_def)
qed

theorem publish_reaches_subscribers_witness:
  "map su_stream (updates (publish ((initial_fields baseScenario)\<lparr>emitStream := True, streamIds := [4, 7]\<rparr>))) =
     [4, 7]"
proof -
  let ?s = "(initial_fields baseScenario)\<lparr>emitStream := True, streamIds := [4, 7]\<rparr>"
  have "map (\<lambda>u. (su_stream u, su_status u)) (updates (publish ?s)) =
      map (\<lambda>u. (su_stream u, su_status u)) (updates ?s) @ map (\<lambda>i. (i, status ?s)) (streamIds ?s)"
    by (rule publish_reaches_subscribers) simp_all
  then have "map fst (map (\<lambda>u. (su_stream u, su_status u)) (updates (publish ?s))) = [4, 7]"
    by (simp add: initial_fields_def)
  then show ?thesis by (simp add: o_def)
qed

section \<open>Properties of the money rails\<close>

text \<open>
  C7. No mock wallet is ever overdrawn and none is held twice, in any interleaving of payments,
  deposits, seeding and scenario changes with non-negative amounts.
\<close>

theorem balances_never_negative:
  assumes "list_all sim_event_ok es"
    and "p \<in> set (mockPayers (run sim_step (new_FiSimulator now n) es))"
  shows "0 \<le> mp_balanceSats p \<and>
    distinct (map mp_federationId (mockPayers (run sim_step (new_FiSimulator now n) es)))"
proof -
  have "money_inv (new_FiSimulator now n)"
    by (simp add: money_inv_def new_fields payers_ok_def deposits_ok_def)
  from sim_money.run_inv [OF this assms(1)] assms(2) show ?thesis
    by (simp add: money_inv_def payers_ok_def list_all_iff)
qed

theorem balances_never_negative_witness:
  "0 \<le> mp_balanceSats (hd (mockPayers (run sim_step (new_FiSimulator 0 happyPath) [AddMockPayer ''a'' 5 None])))"
proof -
  have "hd (mockPayers (run sim_step (new_FiSimulator 0 happyPath) [AddMockPayer ''a'' 5 None])) \<in>
      set (mockPayers (run sim_step (new_FiSimulator 0 happyPath) [AddMockPayer ''a'' 5 None]))"
    by (simp add: addMockPayer_def new_fields emit_event_def)
  from balances_never_negative [OF _ this] show ?thesis by simp
qed

definition balance_of :: "string \<Rightarrow> FiSimulator \<Rightarrow> int option" where
  "balance_of i s = map_option mp_balanceSats (find (is_payer (Some i)) (mockPayers s))"

lemma find_update_first_other:
  assumes "\<And>p. mp_federationId (f p) = mp_federationId p" and "i \<noteq> j"
  shows "find (is_payer (Some i)) (update_first (is_payer (Some j)) f ps) = find (is_payer (Some i)) ps"
  using assms by (induction ps) (auto simp: is_payer_def)

lemma find_update_first_same:
  assumes "\<And>p. mp_federationId (f p) = mp_federationId p"
  shows "find (is_payer (Some j)) (update_first (is_payer (Some j)) f ps) =
    map_option f (find (is_payer (Some j)) ps)"
  by (rule find_update_first) (simp add: is_payer_def assms)

lemma balance_settle:
  "balance_of i (settleDeposit now code d s) =
     (if dep_federationId d = Some i
      then map_option (\<lambda>b. b + msats_to_sats (dep_amountMsats d)) (balance_of i s)
      else balance_of i s)"
proof -
  have none: "update_first (is_payer None) f ps = ps" for f ps
    by (induction ps) (auto simp: is_payer_def)
  have "mockPayers (settleDeposit now code d s) = update_first (is_payer (dep_federationId d))
      (\<lambda>p. p\<lparr>mp_balanceSats := mp_balanceSats p + msats_to_sats (dep_amountMsats d)\<rparr>) (mockPayers s)"
    by (simp add: settleDeposit_def Let_def)
  then show ?thesis
    by (cases "dep_federationId d")
      (auto simp: balance_of_def none find_update_first_same find_update_first_other
        option.map_comp o_def)
qed

lemma balance_debit:
  "balance_of i (debitMockPayer (Some j) a s) =
     (if i = j then map_option (\<lambda>b. max 0 (b - msats_to_sats a)) (balance_of i s) else balance_of i s)"
  by (auto simp: balance_of_def debitMockPayer_def find_update_first_same find_update_first_other
      option.map_comp o_def)

text \<open>
  A payment between two mock wallets that the payer can cover moves exactly the invoiced
  sats, leaves every other wallet alone and uses the invoice up.
\<close>

theorem payInvoice_moves_sats:
  assumes "balance_of a s = Some x" and "balance_of b s = Some y" and "a \<noteq> b"
    and "dep_federationId d = Some b" and "msats_to_sats (dep_amountMsats d) \<le> x"
  shows "let s' = fst (payInvoice_resume now code d (Some a) s); k = msats_to_sats (dep_amountMsats d) in
    balance_of a s' = Some (x - k) \<and> balance_of b s' = Some (y + k) \<and>
    (\<forall>c. c \<noteq> a \<and> c \<noteq> b \<longrightarrow> balance_of c s' = balance_of c s) \<and>
    jm_get (pendingDeposits s') code = None"
proof -
  have upd: "balance_of c (s'\<lparr>nextId := m\<rparr>) = balance_of c s'"
    "balance_of c (s'\<lparr>pendingDeposits := ds\<rparr>) = balance_of c s'" for c s' m ds
    by (simp_all add: balance_of_def)
  show ?thesis
    using assms by (auto simp: payInvoice_resume_def Let_def upd balance_settle balance_debit)
qed

theorem payInvoice_moves_sats_witness:
  "balance_of ''b'' (fst (payInvoice_resume 0 ''lnbcsim1''
     \<lparr>dep_federationId = Some ''b'', dep_amountMsats = 3000\<rparr> (Some ''a'')
     ((initial_fields baseScenario)\<lparr>mockPayers :=
       [\<lparr>mp_federationId = ''a'', mp_balanceSats = 10, mp_name = None\<rparr>,
        \<lparr>mp_federationId = ''b'', mp_balanceSats = 1, mp_name = None\<rparr>]\<rparr>))) = Some 4"
proof -
  let ?s = "(initial_fields baseScenario)\<lparr>mockPayers :=
       [\<lparr>mp_federationId = ''a'', mp_balanceSats = 10, mp_name = None\<rparr>,
        \<lparr>mp_federationId = ''b'', mp_balanceSats = 1, mp_name = None\<rparr>]\<rparr>"
  let ?d = "\<lparr>dep_federationId = Some ''b'', dep_amountMsats = 3000\<rparr> :: PendingDeposit"
  have "balance_of ''a'' ?s = Some 10" "balance_of ''b'' ?s = Some 1"
    by (simp_all add: balance_of_def is_payer_def)
  from payInvoice_moves_sats [OF this, of ?d 0 "''lnbcsim1''"] show ?thesis
    by (simp add: Let_def msats_to_sats_def SATS_TO_MSATS_def)
qed

text \<open>
  An invoice can be settled twice. The deposit is looked up before the delay and dropped
  after it, so two payments that start before either ends both credit the destination: one
  invoice for \<open>k\<close> sats adds \<open>2 * k\<close>.
\<close>

theorem concurrent_payments_settle_twice:
  assumes "jm_get (pendingDeposits s) code = Some d" and "dep_federationId d = Some b"
    and "balance_of b s = Some y" and "a \<noteq> b" and "inflight s = []"
  shows "let s1 = fst (payInvoice (Some code) (Some a) s); s2 = fst (payInvoice (Some code) (Some a) s1) in
    snd (payInvoice (Some code) (Some a) s) = RPending \<and>
    snd (payInvoice (Some code) (Some a) s1) = RPending \<and>
    balance_of b (run sim_step s2 [Continue t 0, Continue t' 0]) =
      Some (y + 2 * msats_to_sats (dep_amountMsats d))"
proof -
  have upd: "balance_of c (s'\<lparr>nextId := m\<rparr>) = balance_of c s'"
    "balance_of c (s'\<lparr>pendingDeposits := ds\<rparr>) = balance_of c s'"
    "balance_of c (s'\<lparr>inflight := cs\<rparr>) = balance_of c s'" for c s' m ds cs
    by (simp_all add: balance_of_def)
  show ?thesis
    using assms
    by (simp add: payInvoice_def payInvoice_resume_def Let_def upd balance_settle balance_debit)
qed

theorem concurrent_payments_settle_twice_witness:
  "balance_of ''b'' (run sim_step (fst (payInvoice (Some ''i'') (Some ''a'') (fst (payInvoice (Some ''i'') (Some ''a'')
     ((initial_fields baseScenario)\<lparr>
       mockPayers := [\<lparr>mp_federationId = ''b'', mp_balanceSats = 1, mp_name = None\<rparr>],
       pendingDeposits := [(''i'', \<lparr>dep_federationId = Some ''b'', dep_amountMsats = 3000\<rparr>)]\<rparr>)))))
     [Continue 0 0, Continue 0 0]) = Some 7"
proof -
  let ?s = "(initial_fields baseScenario)\<lparr>
       mockPayers := [\<lparr>mp_federationId = ''b'', mp_balanceSats = 1, mp_name = None\<rparr>],
       pendingDeposits := [(''i'', \<lparr>dep_federationId = Some ''b'', dep_amountMsats = 3000\<rparr>)]\<rparr>"
  let ?d = "\<lparr>dep_federationId = Some ''b'', dep_amountMsats = 3000\<rparr> :: PendingDeposit"
  have "jm_get (pendingDeposits ?s) ''i'' = Some ?d" "balance_of ''b'' ?s = Some 1" "inflight ?s = []"
    by (simp_all add: jm_get_Cons balance_of_def is_payer_def initial_fields_def)
  from concurrent_payments_settle_twice [OF this(1) _ this(2) _ this(3), of "''a''" 0 0] show ?thesis
    by (simp add: Let_def msats_to_sats_def SATS_TO_MSATS_def)
qed

section \<open>Properties of selections and scenarios\<close>

text \<open>
  A selection preview either seals exactly the requested number of guardians, at 2,100 sats
  a seat in total although the seats' own prices differ, valid for the scenario's time and stored
  under its identifier; or it is an error that names fewer eligible guardians than requested and
  stores nothing.
\<close>

theorem previewSelection_outcome:
  "case snd (previewSelection_resume now sc k s) of
     RPreview pv \<Rightarrow> k \<le> eligibleFmanCount sc \<and> selected pv = k \<and> length (preview_seats pv) = k \<and>
       sum_list (map ps_advertisedPriceMsats (preview_seats pv)) = int k * 2100000 \<and>
       totalAdvertisedMsats pv = int k * 2100000 \<and> validUntil pv = now + previewValiditySecs sc \<and>
       jm_get (previews (fst (previewSelection_resume now sc k s))) (previewId pv) = Some pv
   | RError e \<Rightarrow> (\<exists>n. err_detail e = Some (InsufficientFmanSeats (int k) n (int (seenFmanCount sc)) n) \<and>
       n < int k) \<and> previews (fst (previewSelection_resume now sc k s)) = previews s
   | _ \<Rightarrow> False"
  using make_seats_total [of k]
  by (auto simp: previewSelection_resume_def Let_def fi_error_def BASE_SEAT_PRICE_MSATS_def min_def)

text \<open>The scenario picker loses nothing: every scenario is in exactly one group, once.\<close>

theorem every_scenario_grouped:
  "filter (\<lambda>m. m = n) (concat (map snd FI_SCENARIO_GROUPS)) = [n]"
  by (cases n) (simp_all add: FI_SCENARIO_GROUPS_def)

section \<open>Properties of the Lightning attach\<close>

text \<open>
  At most one liquidity operation is live: starting with one present adopts it and changes
  nothing, so a repeated start returns what the first start returned.
\<close>

theorem liquidityStart_adopts:
  assumes "liquidityFailWithCode (scenario s) = None"
  shows "\<exists>op. snd (liquidityStart now s) = ROperation op \<and>
    liquidityOperation (fst (liquidityStart now s)) = Some op \<and>
    liquidityStart now' (fst (liquidityStart now s)) = (fst (liquidityStart now s), ROperation op)"
  using assms by (auto simp: liquidityStart_def Let_def makeLiquidityOperation_def split: option.split)

theorem liquidityStart_adopts_witness:
  "\<exists>op. snd (liquidityStart 5 (initial_fields baseScenario)) = ROperation op"
  using liquidityStart_adopts [of "initial_fields baseScenario" 5]
  by (auto simp: initial_fields_def baseScenario_def)

lemma liquidity_polls:
  assumes "liquidityOperation s = Some op" and "liquidityPolls s = 0" and "\<not> gatewayViewVerified op"
    and "\<not> liquidityRejectsOnStatus (scenario s)"
  shows "let s' = ((fst \<circ> liquidityStatus) ^^ k) s in
    scenario s' = scenario s \<and> liquidityPolls s' = k \<and>
    liquidityOperation s' = Some (op\<lparr>gatewayViewVerified :=
      0 < k \<and> (\<exists>n. liquidityVerifyAfterPolls (scenario s) = Some n \<and> n \<le> k)\<rparr>)"
proof (induction k)
  case 0
  from assms(3) have "op\<lparr>gatewayViewVerified := False\<rparr> = op" by (cases op) simp
  with assms show ?case by simp
next
  case (Suc k)
  then show ?case
    using assms(4) by (auto simp: Let_def liquidityStatus_def split: option.split)
qed

text \<open>
  The gateway verifies on exactly the read the scenario names: after a start, the operation
  read by the \<open>k\<close>-th status request is verified if and only if the scenario verifies within \<open>k\<close>
  reads, and with no such number it never is.
\<close>

theorem liquidity_verifies_on_schedule:
  assumes "liquidityOperation s = None" and "liquidityFailWithCode (scenario s) = None"
    and "\<not> liquidityRejectsOnStatus (scenario s)" and "0 < k"
  shows "\<exists>op. liquidityOperation (((fst \<circ> liquidityStatus) ^^ k) (fst (liquidityStart now s))) = Some op \<and>
    (gatewayViewVerified op \<longleftrightarrow>
      (\<exists>n. liquidityVerifyAfterPolls (scenario s) = Some n \<and> n \<le> k))"
proof -
  let ?s = "fst (liquidityStart now s)"
  obtain op where op: "liquidityOperation ?s = Some op" "liquidityPolls ?s = 0"
    "\<not> gatewayViewVerified op" "scenario ?s = scenario s"
    using assms by (auto simp: liquidityStart_def Let_def makeLiquidityOperation_def)
  from liquidity_polls [OF op(1-3), of k] op(4) assms(3,4) show ?thesis
    by (auto simp: Let_def)
qed

theorem liquidity_verifies_on_schedule_witness:
  "\<exists>op. liquidityOperation (((fst \<circ> liquidityStatus) ^^ 2) (fst (liquidityStart 0 (initial_fields baseScenario)))) =
     Some op \<and> gatewayViewVerified op"
  using liquidity_verifies_on_schedule [of "initial_fields baseScenario" 2 0]
  by (auto simp: initial_fields_def baseScenario_def)

section \<open>Properties of the dispatch\<close>

definition answers :: "rpc_reply \<Rightarrow> bool" where
  "answers r \<longleftrightarrow> (\<forall>m. r \<noteq> RThrow m)"

lemma answers_ops [simp]:
  "answers (snd (generateInvoice i a s))" "answers (snd (setupPaymentFederations s))"
  "answers (snd (previewSelection k s))" "answers (snd (payAndCreate now pid w m s))"
  "answers (snd (resume s))" "answers (snd (abandon s))" "answers (snd (authorizePayments_cmd aid s))"
  "answers (snd (previewReplacements s))" "answers (snd (applyReplacements pid s))"
  "answers (snd (setGuardianFee ppm s))" "answers (updateMetadata s)" "answers (liquidityDiscover now net s)"
  "answers (snd (liquidityStart now s))" "answers (liquidityResume s)" "answers (snd (liquidityStatus s))"
  "answers (liquidityCurrent s)" "answers (unsupported meth)" "answers (eligiblePayers s)"
  "answers (guardianStatus i s)" "answers RNull" "answers (RStatus st)"
  by (simp_all add: answers_def generateInvoice_def setupPaymentFederations_def previewSelection_def
      payAndCreate_def resume_def abandon_def authorizePayments_cmd_def previewReplacements_def
      applyReplacements_def setGuardianFee_def updateMetadata_def liquidityDiscover_def
      liquidityStart_def liquidityResume_def liquidityStatus_def liquidityCurrent_def unsupported_def
      eligiblePayers_def guardianStatus_def fi_error_def Let_def case_prod_unfold
      split: option.split)

lemma if_snd: "(c \<Longrightarrow> P (snd a)) \<Longrightarrow> (\<not> c \<Longrightarrow> P (snd b)) \<Longrightarrow> P (snd (if c then a else b))"
  by simp

text \<open>
  Whatever the simulator takes over, it answers: an admitted RPC that carries an invite
  code never throws, except for a payment of an invoice it did not issue.
\<close>

theorem admitted_rpc_answers:
  assumes "handles meth pl s" and "pl_inviteCode pl = Some code" and "meth \<noteq> ''payInvoice''"
  shows "snd (handle now meth pl s) \<noteq> RThrow message"
proof -
  have join: "answers (snd (joinMockFederation (pl_inviteCode pl) s))" if "meth = ''joinFederation''"
    using assms(1) that by (auto simp: handles_def joinMockFederation_def answers_def Let_def)
  have parse: "answers (parseWalletServiceInvite s)" if "meth = ''parseInviteCode''"
    using assms(1,2) that
    by (auto simp: handles_def isWalletServiceInvite_def parseWalletServiceInvite_def answers_def)
  have preview: "answers (if isWalletServiceInvite (pl_inviteCode pl) s then walletServicePreview s
      else mockFederationPreview (pl_inviteCode pl))" if "meth = ''federationPreview''"
    using assms(1,2) that
    by (auto simp: handles_def isWalletServiceInvite_def walletServicePreview_def
        mockFederationPreview_def answers_def)
  have "answers (snd (handle now meth pl s))"
    unfolding handle_def
    by (intro if_snd [where P = answers])
      (simp_all only: snd_conv answers_ops join parse preview assms(3) not_True_eq_False simp_thms)
  then show ?thesis by (simp add: answers_def)
qed

definition no_args :: rpc_payload where
  "no_args = \<lparr>pl_streamId = None, pl_federationId = None, pl_invoice = None, pl_inviteCode = None,
     pl_amount = 0, pl_previewId = [], pl_requestSize = 1, pl_intent = some_intent,
     pl_maxTotalMsats = 0, pl_authorizationId = [], pl_guardianFeePpm = 0, pl_network = []\<rparr>"

theorem admitted_rpc_answers_witness:
  "snd (handle 0 ''federationPreview'' (no_args\<lparr>pl_inviteCode := Some ''fed1mock-trusted-lagos-builders''\<rparr>)
     (initial_fields baseScenario)) \<noteq> RThrow ''not a mock joinable service''"
  by (rule admitted_rpc_answers [where code = "''fed1mock-trusted-lagos-builders''"])
    (simp_all add: handles_def mockJoinableFor_def MOCK_JOINABLE_WALLET_SERVICES_def)

text \<open>
  Without an invite code the admission test lets through what it means to keep out: while
  no wallet service is formed, \<^verbatim>\<open>undefined === undefined\<close> admits \<^verbatim>\<open>parseInviteCode\<close>, which then throws
  on the federation its comment says cannot be missing.
\<close>

theorem missing_invite_admitted_and_throws:
  assumes "walletServiceFederation s = None" and "pl_inviteCode pl = None"
  shows "handles ''parseInviteCode'' pl s \<and>
    snd (handle now ''parseInviteCode'' pl s) = RThrow ''no formed wallet service''"
  using assms by (simp add: handles_def handle_def isWalletServiceInvite_def parseWalletServiceInvite_def)

theorem missing_invite_admitted_and_throws_witness:
  "handles ''parseInviteCode'' no_args (initial_fields baseScenario)"
  using missing_invite_admitted_and_throws [of "initial_fields baseScenario" no_args 0]
  by (simp add: initial_fields_def no_args_def)

section \<open>Decisions of the user\<close>

text \<open>
  A stale decision is rejected: authorizing with an identifier other than the parked one, or
  applying a replacement preview other than the last one handed out, is an error and leaves the
  state as it was.
\<close>

theorem stale_decisions_rejected:
  "(snd (authorizePayments_cmd aid s) = RSuccess \<longleftrightarrow>
      (\<exists>f r. status s = status_formation f \<and> Option.bind (actionRequired f) payment_requirements = Some r \<and>
        authorizationId r = aid)) \<and>
   (snd (authorizePayments_cmd aid s) \<noteq> RSuccess \<longrightarrow> fst (authorizePayments_cmd aid s) = s) \<and>
   (snd (applyReplacements pid s) = RSuccess \<longleftrightarrow>
      (\<exists>f r. status s = status_formation f \<and> Option.bind (actionRequired f) replacement_requirements = Some r \<and>
        replacementPreviewId s = Some pid)) \<and>
   (snd (applyReplacements pid s) \<noteq> RSuccess \<longrightarrow> fst (applyReplacements pid s) = s)"
  by (cases "status s")
    (auto simp: authorizePayments_cmd_def applyReplacements_def currentFormation_def fi_error_def Let_def
      split: option.split)

theorem stale_decisions_rejected_witness:
  "fst (applyReplacements ''replacement_preview_4'' (initial_fields baseScenario)) = initial_fields baseScenario"
proof -
  have "snd (applyReplacements ''replacement_preview_4'' (initial_fields baseScenario)) \<noteq> RSuccess"
    by (simp add: applyReplacements_def currentFormation_def initial_fields_def fi_error_def)
  then show ?thesis
    using stale_decisions_rejected
      [of "[]" "initial_fields baseScenario" "''replacement_preview_4''"] by blast
qed

text \<open>
  A formation parked for a payment authorization does not need it: resuming it re-arms the
  timer without looking at the pending action, and four firings later the wallet service is
  formed with the authorization still outstanding.
\<close>

theorem resume_skips_authorization:
  assumes "s = run sim_step (new_FiSimulator now n) es" and "status s = status_formation f"
    and "phase f = acquiringSeats" and "actionRequired f = Some a" and "clear_ahead (scenario s) 2"
  shows "\<exists>f'. status (run sim_step (fst (resume s)) (replicate 4 PhaseTimer)) = status_formation f' \<and>
    phase f' = formed \<and> actionRequired f' = Some a"
proof -
  let ?g = "f\<lparr>lastError := None, f_freshness := fresh\<rparr>" and ?s1 = "fst (resume s)"
  have s1: "?s1 = scheduleNextPhase (publish (set_formation ?g s))"
    using assms(2) by (simp add: resume_def currentFormation_def)
  have inv: "form_inv s" unfolding assms(1) by (rule reachable_form)
  then have i: "phaseIndex s = 2"
    using assms(2,3) by (simp add: form_inv_formation formation_ok_def)
  have inv1: "form_inv ?s1" by (rule form_commands(1) [OF inv])
  have st: "status ?s1 = status_formation ?g" and idx: "phaseIndex ?s1 + 4 = 6"
    and timer: "phaseTimer ?s1" and clear: "clear_ahead (scenario ?s1) (phaseIndex ?s1)"
    using assms(5) i by (simp_all add: s1)
  obtain f' where "status (run sim_step ?s1 (replicate 4 PhaseTimer)) = status_formation f'"
    "phase f' = formed" "actionRequired f' = actionRequired ?g"
    using march [OF st inv1 idx _ _ clear] timer by (metis zero_neq_numeral)
  with assms(4) show ?thesis by auto
qed

abbreviation parked_run :: "sim_event list" where
  "parked_run \<equiv> tl (tl (preview_then happyPath)) @
     [Rpc 0 ''fiClientPayAndCreate'' (no_args\<lparr>pl_previewId := ''preview_1'', pl_maxTotalMsats := 2100000\<rparr>),
      PhaseTimer, PhaseTimer]"

theorem resume_skips_authorization_witness:
  "\<exists>f'. status (run sim_step (fst (resume (run sim_step (new_FiSimulator 0 authorizePayments) parked_run)))
      (replicate 4 PhaseTimer)) = status_formation f' \<and> phase f' = formed \<and> actionRequired f' \<noteq> None"
proof -
  let ?s = "run sim_step (new_FiSimulator 0 authorizePayments) parked_run"
  have "(case status ?s of status_idle \<Rightarrow> False
      | status_formation f \<Rightarrow> phase f = acquiringSeats \<and> \<not> Option.is_none (actionRequired f))"
    by code_simp
  then obtain f a where f: "status ?s = status_formation f" "phase f = acquiringSeats" "actionRequired f = Some a"
    by (auto split: RpcFiStatus.splits simp: Option.is_none_def)
  have "scenario ?s = fiScenarios authorizePayments" by code_simp
  then have "clear_ahead (scenario ?s) 2" by (auto simp: clear_ahead_def baseScenario_def)
  from resume_skips_authorization [OF refl f this] show ?thesis by blast
qed

text \<open>
  A formed wallet service can be held without its formation: paying for a second setup
  replaces the formation and keeps the old federation, and the guardian status of the old
  federation is then answered with the seats of the new formation.
\<close>

theorem second_payment_keeps_old_service:
  assumes "snd (payAndCreate t pid want m s) = RSuccess" and "walletServiceFederation s = Some fed"
  shows "\<exists>f. status (fst (payAndCreate t pid want m s)) = status_formation f \<and> phase f = preparing \<and>
    walletServiceFederation (fst (payAndCreate t pid want m s)) = Some fed \<and>
    guardianStatus (Some (fed_id fed)) (fst (payAndCreate t pid want m s)) =
      RGuardianStatus (map seat_label (seats f))"
  using assms
  by (auto simp: payAndCreate_def Let_def fi_error_def buildSnapshot_def guardianStatus_def
      currentFormation_def isWalletServiceFederation_def split: option.splits if_splits)

theorem second_payment_keeps_old_service_witness:
  "walletServiceFederation (fst (payAndCreate 0 ''p'' some_intent 0
     ((initial_fields baseScenario)\<lparr>
       walletServiceFederation := Some (makeMockPayerFederation \<lparr>mock_id = ''w'', mock_name = ''W'', mock_balanceSats = 0\<rparr>),
       previews := [(''p'', \<lparr>previewId = ''p'', selected = 0, totalAdvertisedMsats = 0, seen = 0,
         eligible = 0, validUntil = 9, preview_seats = []\<rparr>)]\<rparr>))) \<noteq> None"
proof -
  let ?s = "(initial_fields baseScenario)\<lparr>
       walletServiceFederation := Some (makeMockPayerFederation \<lparr>mock_id = ''w'', mock_name = ''W'', mock_balanceSats = 0\<rparr>),
       previews := [(''p'', \<lparr>previewId = ''p'', selected = 0, totalAdvertisedMsats = 0, seen = 0,
         eligible = 0, validUntil = 9, preview_seats = []\<rparr>)]\<rparr>"
  have "snd (payAndCreate 0 ''p'' some_intent 0 ?s) = RSuccess"
    by (simp add: payAndCreate_def Let_def jm_get_Cons initial_fields_def baseScenario_def case_prod_unfold)
  from second_payment_keeps_old_service [OF this] show ?thesis by force
qed

end
