(* ===== verification/Fi_Transport.thy ===== *)
theory Fi_Transport
  imports Fi_Simulator_Proofs
begin

text \<open>
  \<^verbatim>\<open>ui/common/utils/fi/mockTransport.ts\<close>: the wrapper that answers the wallet-service RPCs from the
  simulator and sends everything else to the real bridge. What the real bridge answered is an
  argument of the model, a federation of it known only by the \<^verbatim>\<open>id\<close> the wrapper reads.
\<close>

section \<open>Definitions\<close>

datatype 'f real_reply =
    RealList "'f list"
  | RealObject "string option"
  | RealOther

datatype 'f transport_reply =
    Simulated rpc_reply
  | Passed "'f real_reply"
  | Extended "'f list" "LoadedFederation list"

definition real_ids :: "('f \<Rightarrow> string option) \<Rightarrow> 'f list \<Rightarrow> string list" where
  "real_ids id_of fs = filter (\<lambda>i. i \<noteq> []) (List.map_filter id_of fs)"

definition simulatedRpc ::
  "('f \<Rightarrow> string option) \<Rightarrow> int \<Rightarrow> string \<Rightarrow> rpc_payload \<Rightarrow> 'f real_reply \<Rightarrow> FiSimulator \<Rightarrow>
   FiSimulator \<times> 'f transport_reply" where
  "simulatedRpc id_of now meth args realResult s =
     (if handles meth args s
      then (let (s', r) = handle now meth args s in (s', Simulated r))
      else
        (case realResult of
           RealList fs \<Rightarrow>
             if meth = ''listFederations''
             then let s1 = observeFederations (real_ids id_of fs) s;
                      mocks = listMockFederations s1
                  in (s1, if mocks \<noteq> [] then Extended fs mocks else Passed realResult)
             else (s, Passed realResult)
         | RealObject i \<Rightarrow>
             if meth = ''joinFederation'' \<and> i \<noteq> None \<and> i \<noteq> Some []
             then (observeJoinedFederation (the i) s, Passed realResult)
             else (s, Passed realResult)
         | RealOther \<Rightarrow> (s, Passed realResult)))"

section \<open>Lemmas\<close>

lemma observeFederations_joined:
  "joinedFederationIds (observeFederations ids s) = ids"
  "mockPayers (observeFederations ids s) = mockPayers s"
  "walletServiceFederation (observeFederations ids s) = walletServiceFederation s"
  by (cases rule: observeFederations_cases [of ids s], simp_all add: observed_def)+

lemma listMockFederations_ids:
  "map fed_id (listMockFederations s) = map mp_federationId (mockPayers s) @
     (case walletServiceFederation s of None \<Rightarrow> [] | Some f \<Rightarrow> [fed_id f])"
  by (simp add: listMockFederations_def makeMockPayerFederation_def o_def split: option.split)

section \<open>Properties\<close>

text \<open>
  Refreshing the wallet list loses no mock wallet and invents no real one: the caller gets
  the bridge's federations in their order followed by one entry for every mock payer and the
  formed wallet service, and the simulator records exactly the real identifiers as joined.
\<close>

theorem listFederations_extended:
  assumes "simulatedRpc id_of now ''listFederations'' args (RealList fs) s = (s', r)"
  shows "joinedFederationIds s' = real_ids id_of fs \<and> mockPayers s' = mockPayers s \<and>
    (case r of
       Extended gs mocks \<Rightarrow> gs = fs \<and> map fed_id mocks = map mp_federationId (mockPayers s) @
         (case walletServiceFederation s of None \<Rightarrow> [] | Some f \<Rightarrow> [fed_id f])
     | Passed result \<Rightarrow> result = RealList fs \<and> mockPayers s = [] \<and> walletServiceFederation s = None
     | Simulated _ \<Rightarrow> False)"
proof -
  let ?s1 = "observeFederations (real_ids id_of fs) s"
  have "\<not> handles ''listFederations'' args s" by (simp add: handles_def starts_with_def)
  with assms have "s' = ?s1" "r = (if listMockFederations ?s1 \<noteq> []
      then Extended fs (listMockFederations ?s1) else Passed (RealList fs))"
    by (auto simp: simulatedRpc_def Let_def)
  moreover have "listMockFederations ?s1 = [] \<longleftrightarrow> mockPayers s = [] \<and> walletServiceFederation s = None"
    by (auto simp: listMockFederations_def observeFederations_joined split: option.split)
  ultimately show ?thesis
    using listMockFederations_ids [of ?s1] by (simp add: observeFederations_joined)
qed

theorem listFederations_extended_witness:
  "joinedFederationIds (fst (simulatedRpc Some 0 ''listFederations''
     \<lparr>pl_streamId = None, pl_federationId = None, pl_invoice = None, pl_inviteCode = None,
      pl_amount = 0, pl_previewId = [], pl_requestSize = 0,
      pl_intent = \<lparr>want_federationName = None, want_federationSize = 0\<rparr>, pl_maxTotalMsats = 0,
      pl_authorizationId = [], pl_guardianFeePpm = 0, pl_network = []\<rparr>
     (RealList [''a'', ''b'']) (initial_fields baseScenario))) = [''a'', ''b'']"
proof -
  let ?args = "\<lparr>pl_streamId = None, pl_federationId = None, pl_invoice = None, pl_inviteCode = None,
      pl_amount = 0, pl_previewId = [], pl_requestSize = 0,
      pl_intent = \<lparr>want_federationName = None, want_federationSize = 0\<rparr>, pl_maxTotalMsats = 0,
      pl_authorizationId = [], pl_guardianFeePpm = 0, pl_network = []\<rparr>"
  let ?r = "simulatedRpc Some 0 ''listFederations'' ?args (RealList [''a'', ''b'']) (initial_fields baseScenario)"
  have "?r = (fst ?r, snd ?r)" by (rule prod.collapse [symmetric])
  from listFederations_extended [OF this] show ?thesis
    by (simp add: real_ids_def List.map_filter_def)
qed

end
