(* ===== verification/Browser.thy ===== *)
theory Browser
  imports Js_Value
begin

text \<open>
  \<^verbatim>\<open>ui/common/redux/browser.ts\<close>: the mini-app browser, with one history for each mini-app, and
  the overlays it can show. The overlay fields are opaque values that are only assigned and
  cleared, so they are kept in one record of JavaScript values by their names.
\<close>

section \<open>Definitions\<close>

definition MAX_TAB_HISTORY_LENGTH :: nat where
  "MAX_TAB_HISTORY_LENGTH = 10"

record MiniAppSession =
  miniAppId :: string
  history :: "string list"
  historyIndex :: int

record BrowserState =
  overlays :: obj
  addressOverlayOpen :: jv
  siteInfo :: jv
  currentUrl :: "string option"
  currentMiniAppId :: "string option"
  miniAppSessions :: "(string, MiniAppSession) jsmap"

definition overlay_names :: "string list" where
  "overlay_names =
    [''requestInvoiceArgs'', ''invoiceToPay'', ''lnurlWithdrawal'', ''lnurlPayment'',
     ''lnurlAuthRequest'', ''nostrUnsignedEvent'', ''ecashRequest'', ''receiveEcashRequest'',
     ''requestedPermission'']"

definition initial_browser :: BrowserState where
  "initial_browser = \<lparr> overlays = map (\<lambda>k. (k, JNull)) overlay_names, addressOverlayOpen = JBool False,
     siteInfo = JNull, currentUrl = None, currentMiniAppId = None, miniAppSessions = [] \<rparr>"

text \<open>A string that is present and not empty.\<close>

definition present :: "string option \<Rightarrow> bool" where
  "present v \<longleftrightarrow> v \<noteq> None \<and> v \<noteq> Some []"

definition session_of :: "BrowserState \<Rightarrow> MiniAppSession option" where
  "session_of state =
     (if present (currentMiniAppId state)
      then jm_get (miniAppSessions state) (the (currentMiniAppId state)) else None)"

definition put_session :: "MiniAppSession \<Rightarrow> BrowserState \<Rightarrow> BrowserState" where
  "put_session session state =
     state\<lparr>miniAppSessions := jm_set (miniAppId session) session (miniAppSessions state)\<rparr>"

definition page_at :: "string list \<Rightarrow> int \<Rightarrow> string option" where
  "page_at h i = (if 0 \<le> i \<and> i < int (length h) then Some (h ! nat i) else None)"

definition openMiniAppSession :: "string \<Rightarrow> string \<Rightarrow> BrowserState \<Rightarrow> BrowserState" where
  "openMiniAppSession appId url state =
     (let session = (case jm_get (miniAppSessions state) appId of
            Some s \<Rightarrow> s
          | None \<Rightarrow> \<lparr>miniAppId = appId, history = [url], historyIndex = 0\<rparr>)
      in state\<lparr> currentUrl := page_at (history session) (historyIndex session),
                currentMiniAppId := Some appId,
                miniAppSessions := jm_set appId session (miniAppSessions state) \<rparr>)"

definition goBackInHistory :: "BrowserState \<Rightarrow> BrowserState" where
  "goBackInHistory state =
     (case session_of state of
        None \<Rightarrow> state
      | Some session \<Rightarrow>
          if 0 < historyIndex session
          then let newIndex = historyIndex session - 1
               in (put_session (session\<lparr>historyIndex := newIndex\<rparr>) state)
                    \<lparr>currentUrl := page_at (history session) newIndex\<rparr>
          else state)"

definition goForwardInHistory :: "BrowserState \<Rightarrow> BrowserState" where
  "goForwardInHistory state =
     (case session_of state of
        None \<Rightarrow> state
      | Some session \<Rightarrow>
          if historyIndex session < int (length (history session)) - 1
          then let newIndex = historyIndex session + 1
               in (put_session (session\<lparr>historyIndex := newIndex\<rparr>) state)
                    \<lparr>currentUrl := page_at (history session) newIndex\<rparr>
          else state)"

text \<open>\<^verbatim>\<open>[...history.slice(0, i + 1), url].slice(-MAX_TAB_HISTORY_LENGTH)\<close>, read at its end.\<close>

definition visit :: "int \<Rightarrow> string \<Rightarrow> MiniAppSession \<Rightarrow> MiniAppSession" where
  "visit i url session =
     (let pages = take (nat (i + 1)) (history session) @ [url];
          newHistory = drop (length pages - MAX_TAB_HISTORY_LENGTH) pages
      in session\<lparr>history := newHistory, historyIndex := int (length newHistory) - 1\<rparr>)"

definition clamped_index :: "MiniAppSession \<Rightarrow> int" where
  "clamped_index session = min (historyIndex session) (int (length (history session)) - 1)"

definition commitUrlToHistory :: "BrowserState \<Rightarrow> BrowserState" where
  "commitUrlToHistory state =
     (if \<not> present (currentMiniAppId state) \<or> \<not> present (currentUrl state) then state
      else case session_of state of
        None \<Rightarrow> state
      | Some session \<Rightarrow>
          let i = clamped_index session
          in if page_at (history session) i = currentUrl state then state
             else put_session (visit i (the (currentUrl state)) session) state)"

definition goToPage :: "string \<Rightarrow> BrowserState \<Rightarrow> BrowserState" where
  "goToPage targetUrl state =
     (case session_of state of
        None \<Rightarrow> state
      | Some session \<Rightarrow>
          let i = clamped_index session
          in if page_at (history session) i \<noteq> Some targetUrl
             then (put_session (visit i targetUrl session) state)\<lparr>currentUrl := Some targetUrl\<rparr>
             else state)"

text \<open>
  \<^verbatim>\<open>history[historyIndex] = targetUrl\<close> on a copy of the array: outside the array it would leave
  holes, which no reachable state does.
\<close>

definition assign_page :: "int \<Rightarrow> string \<Rightarrow> string list \<Rightarrow> string list" where
  "assign_page i url h =
     (if i < 0 then h
      else if i < int (length h) then h[nat i := url]
      else h @ replicate (nat i - length h) [] @ [url])"

definition replaceCurrentPage :: "string \<Rightarrow> BrowserState \<Rightarrow> BrowserState" where
  "replaceCurrentPage targetUrl state =
     (case session_of state of
        None \<Rightarrow> state
      | Some session \<Rightarrow>
          (put_session (session\<lparr>history := assign_page (historyIndex session) targetUrl (history session)\<rparr>) state)
            \<lparr>currentUrl := Some targetUrl\<rparr>)"

definition clearMiniAppHistory :: "BrowserState \<Rightarrow> BrowserState" where
  "clearMiniAppHistory state =
     (case session_of state of
        None \<Rightarrow> state
      | Some session \<Rightarrow>
          state\<lparr>miniAppSessions := jm_del (miniAppId session) (miniAppSessions state)\<rparr>)"

datatype browser_action =
    SetCurrentUrl string
  | OpenMiniAppSession string string
  | GoBackInHistory
  | GoForwardInHistory
  | CommitUrlToHistory
  | GoToPage string
  | ReplaceCurrentPage string
  | ClearMiniAppHistory
  | ClearAllMiniAppSessions
  | CloseBrowser
  | SetSiteInfo jv
  | SetAddressOverlayOpen jv
  | SetOverlay string jv
  | ResetBrowserOverlayState

fun browserSlice :: "BrowserState \<Rightarrow> browser_action \<Rightarrow> BrowserState" where
  "browserSlice s (SetCurrentUrl url) = s\<lparr>currentUrl := Some url\<rparr>"
| "browserSlice s (OpenMiniAppSession i url) = openMiniAppSession i url s"
| "browserSlice s GoBackInHistory = goBackInHistory s"
| "browserSlice s GoForwardInHistory = goForwardInHistory s"
| "browserSlice s CommitUrlToHistory = commitUrlToHistory s"
| "browserSlice s (GoToPage url) = goToPage url s"
| "browserSlice s (ReplaceCurrentPage url) = replaceCurrentPage url s"
| "browserSlice s ClearMiniAppHistory = clearMiniAppHistory s"
| "browserSlice s ClearAllMiniAppSessions = s\<lparr>miniAppSessions := []\<rparr>"
| "browserSlice s CloseBrowser = s\<lparr>currentUrl := None, currentMiniAppId := None\<rparr>"
| "browserSlice s (SetSiteInfo v) = s\<lparr>siteInfo := v\<rparr>"
| "browserSlice s (SetAddressOverlayOpen v) = s\<lparr>addressOverlayOpen := v\<rparr>"
| "browserSlice s (SetOverlay name v) = s\<lparr>overlays := jm_set name v (overlays s)\<rparr>"
| "browserSlice s ResetBrowserOverlayState =
     s\<lparr>overlays := jm_spread (overlays s) (map (\<lambda>k. (k, JNull)) overlay_names)\<rparr>"

definition selectCanGoBack :: "BrowserState \<Rightarrow> bool" where
  "selectCanGoBack state = (case session_of state of None \<Rightarrow> False | Some s \<Rightarrow> 0 < historyIndex s)"

definition selectCanGoForward :: "BrowserState \<Rightarrow> bool" where
  "selectCanGoForward state =
     (case session_of state of None \<Rightarrow> False
      | Some s \<Rightarrow> historyIndex s < int (length (history s)) - 1)"

section \<open>The invariant of the histories\<close>

definition session_ok :: "string \<Rightarrow> MiniAppSession \<Rightarrow> bool" where
  "session_ok k s \<longleftrightarrow> miniAppId s = k \<and> 0 \<le> historyIndex s \<and>
     historyIndex s < int (length (history s)) \<and> length (history s) \<le> MAX_TAB_HISTORY_LENGTH"

definition browser_inv :: "BrowserState \<Rightarrow> bool" where
  "browser_inv state \<longleftrightarrow> (\<forall>(k, s) \<in> set (miniAppSessions state). session_ok k s)"

lemma browser_inv_session:
  assumes "browser_inv state" and "session_of state = Some s"
  shows "session_ok (the (currentMiniAppId state)) s"
  using assms by (auto simp: browser_inv_def session_of_def dest!: jm_get_mem split: if_splits)

lemma browser_inv_put:
  assumes "browser_inv state" and "session_ok k s"
    and "miniAppSessions state' = jm_set k s (miniAppSessions state)"
  shows "browser_inv state'"
  using assms by (auto simp: browser_inv_def dest!: jm_set_mem)

lemma browser_inv_frame [simp]:
  "browser_inv (state\<lparr>currentUrl := u\<rparr>) = browser_inv state"
  "browser_inv (state\<lparr>currentMiniAppId := m\<rparr>) = browser_inv state"
  "browser_inv (state\<lparr>siteInfo := v\<rparr>) = browser_inv state"
  "browser_inv (state\<lparr>addressOverlayOpen := v\<rparr>) = browser_inv state"
  "browser_inv (state\<lparr>overlays := ov\<rparr>) = browser_inv state"
  by (simp_all add: browser_inv_def)

lemma put_session_inv:
  assumes "browser_inv state" and "session_ok (miniAppId s) s"
  shows "browser_inv (put_session s state)"
  by (rule browser_inv_put [OF assms]) (simp add: put_session_def)

lemma clamped_index_ok: "session_ok k s \<Longrightarrow> clamped_index s = historyIndex s"
  by (simp add: session_ok_def clamped_index_def)

lemma length_visit_history:
  "0 \<le> i \<Longrightarrow> i < int (length (history s)) \<Longrightarrow>
   length (history (visit i url s)) = min (nat i + 2) MAX_TAB_HISTORY_LENGTH"
  by (auto simp: visit_def Let_def MAX_TAB_HISTORY_LENGTH_def)

lemma visit_simps [simp]:
  "miniAppId (visit i url s) = miniAppId s"
  "historyIndex (visit i url s) = int (length (history (visit i url s))) - 1"
  by (simp_all add: visit_def Let_def del: length_drop length_append)

lemma visit_ok:
  assumes "session_ok k s"
  shows "session_ok k (visit (historyIndex s) url s)"
  using assms length_visit_history [of "historyIndex s" s url]
  by (simp add: session_ok_def MAX_TAB_HISTORY_LENGTH_def)

lemma assign_page_ok: "session_ok k s \<Longrightarrow> session_ok k (s\<lparr>history := assign_page (historyIndex s) url (history s)\<rparr>)"
  by (simp add: session_ok_def assign_page_def)

lemma session_ok_id: "session_ok k s \<Longrightarrow> miniAppId s = k"
  by (simp add: session_ok_def)

lemma browser_inv_del: "browser_inv state \<Longrightarrow> browser_inv (state\<lparr>miniAppSessions := jm_del k (miniAppSessions state)\<rparr>)"
  by (auto simp: browser_inv_def jm_del_def AList.delete_eq)

lemma openMiniAppSession_inv:
  assumes "browser_inv state"
  shows "browser_inv (openMiniAppSession i url state)"
proof -
  obtain s where s: "session_ok i s" "miniAppSessions (openMiniAppSession i url state) =
      jm_set i s (miniAppSessions state)"
  proof (cases "jm_get (miniAppSessions state) i")
    case None
    show ?thesis
      by (rule that [of "\<lparr>miniAppId = i, history = [url], historyIndex = 0\<rparr>"])
        (simp_all add: None openMiniAppSession_def session_ok_def MAX_TAB_HISTORY_LENGTH_def)
  next
    case (Some s)
    then have "session_ok i s" using assms by (auto simp: browser_inv_def dest: jm_get_mem)
    then show ?thesis by (rule that) (simp add: Some openMiniAppSession_def)
  qed
  then show ?thesis by (rule browser_inv_put [OF assms])
qed

lemma browser_step:
  assumes "browser_inv state"
  shows "browser_inv (browserSlice state action)"
proof (cases "session_of state")
  case None
  then show ?thesis
    using assms openMiniAppSession_inv [OF assms]
    by (cases action) (simp_all add: goBackInHistory_def goForwardInHistory_def goToPage_def
      commitUrlToHistory_def replaceCurrentPage_def clearMiniAppHistory_def, simp_all add: browser_inv_def)
next
  case (Some cur)
  let ?k = "the (currentMiniAppId state)"
  have cur: "session_ok ?k cur" by (rule browser_inv_session [OF assms Some])
  have put: "browser_inv (put_session s state)" if "session_ok ?k s" for s
    using that put_session_inv [OF assms, of s] session_ok_id [OF that] by simp
  have bwd: "session_ok ?k (cur\<lparr>historyIndex := historyIndex cur - 1\<rparr>)" if "0 < historyIndex cur"
    using cur that by (simp add: session_ok_def)
  have fwd: "session_ok ?k (cur\<lparr>historyIndex := historyIndex cur + 1\<rparr>)"
    if "historyIndex cur < int (length (history cur)) - 1"
    using cur that by (simp add: session_ok_def)
  note steps = goBackInHistory_def goForwardInHistory_def commitUrlToHistory_def goToPage_def
    replaceCurrentPage_def clearMiniAppHistory_def Let_def clamped_index_ok [OF cur]
  show ?thesis
    using assms Some put bwd fwd visit_ok [OF cur] assign_page_ok [OF cur]
      browser_inv_del [OF assms] openMiniAppSession_inv [OF assms]
    by (cases action) (simp_all add: steps, simp_all add: browser_inv_def)
qed

interpretation browser: invariant_machine browserSlice "\<lambda>_. True" browser_inv
  by unfold_locales (rule browser_step)

lemma reachable_browser: "browser_inv (run browserSlice initial_browser actions)"
  by (rule browser.run_inv) (simp_all add: browser_inv_def initial_browser_def list_all_iff)

section \<open>Properties\<close>

text \<open>
  C19. No history ever points outside itself: in every reachable state of the browser each
  mini-app's history has between one and ten pages, its index is one of them, and it is filed
  under its own mini-app.
\<close>

theorem browser_history_bounds:
  assumes "jm_get (miniAppSessions (run browserSlice initial_browser actions)) appId = Some session"
  shows "0 \<le> historyIndex session \<and> historyIndex session < int (length (history session)) \<and>
    length (history session) \<le> 10 \<and> miniAppId session = appId"
  using reachable_browser [of actions] jm_get_mem [OF assms]
  by (auto simp: browser_inv_def session_ok_def MAX_TAB_HISTORY_LENGTH_def)

theorem browser_history_bounds_witness:
  "historyIndex (the (jm_get (miniAppSessions (run browserSlice initial_browser
     [OpenMiniAppSession ''m'' ''u'', GoToPage ''v''])) ''m'')) < 10"
proof -
  obtain session where s: "jm_get (miniAppSessions (run browserSlice initial_browser
     [OpenMiniAppSession ''m'' ''u'', GoToPage ''v''])) ''m'' = Some session"
  proof -
    have "jm_get (miniAppSessions (run browserSlice initial_browser
     [OpenMiniAppSession ''m'' ''u'', GoToPage ''v''])) ''m'' \<noteq> None" by code_simp
    then show ?thesis using that by blast
  qed
  from browser_history_bounds [OF this] show ?thesis by (simp add: s del: run.simps)
qed

text \<open>
  Back undoes a visit: from any reachable state with an open mini-app, going to another page
  and then back shows the page one came from, even when the history is full and its oldest page
  falls out; and going forward again shows the visited page.
\<close>

theorem visit_then_back:
  assumes "state = run browserSlice initial_browser actions" and "session_of state = Some session"
    and "page_at (history session) (historyIndex session) = Some page" and "url \<noteq> page"
  shows "currentUrl (goBackInHistory (goToPage url state)) = Some page \<and>
    selectCanGoForward (goBackInHistory (goToPage url state)) \<and>
    currentUrl (goForwardInHistory (goBackInHistory (goToPage url state))) = Some url"
proof -
  let ?v = "visit (historyIndex session) url session"
  have ok: "session_ok (the (currentMiniAppId state)) session"
    using assms(1) by (intro browser_inv_session [OF _ assms(2)]) (simp add: reachable_browser)
  have len: "length (history ?v) = min (nat (historyIndex session) + 2) 10"
    using ok length_visit_history [of "historyIndex session" session url]
    by (simp add: session_ok_def MAX_TAB_HISTORY_LENGTH_def)
  have i: "0 \<le> historyIndex session" "historyIndex session < int (length (history session))"
    using ok by (simp_all add: session_ok_def)
  obtain k where k: "historyIndex session = int k" "k < length (history session)"
    using i by (metis int_nat_eq nat_less_iff of_nat_less_iff zero_le_imp_eq_int)
  then have page: "page = history session ! k" using assms(3) by (simp add: page_at_def)
  have h: "history ?v = drop (Suc (Suc k) - 10) (take (Suc k) (history session) @ [url])"
    using k by (simp add: visit_def Let_def MAX_TAB_HISTORY_LENGTH_def nat_add_distrib)
  have last: "history ?v ! (length (history ?v) - 1) = url"
    and prev: "history ?v ! (length (history ?v) - 2) = page"
    unfolding h page using k(2) by (auto simp: nth_append min_def intro!: arg_cong [where f = "(!) (history session)"])
  have key: "present (currentMiniAppId state)" "miniAppId session = the (currentMiniAppId state)"
    using assms(2) ok by (auto simp: session_of_def session_ok_def split: if_splits)
  have goto: "goToPage url state = (put_session ?v state)\<lparr>currentUrl := Some url\<rparr>"
    using assms(2-4) by (simp add: goToPage_def Let_def clamped_index_ok [OF ok])
  have put: "session_of ((put_session s t)\<lparr>currentUrl := u\<rparr>) = Some s"
    if "currentMiniAppId t = currentMiniAppId state" "miniAppId s = the (currentMiniAppId state)" for s t u
    using that key by (simp add: session_of_def put_session_def)
  let ?n = "int (length (history ?v))"
  have n: "2 \<le> ?n" using len i by simp
  define b where "b = goBackInHistory (goToPage url state)"
  have b: "b = (put_session (?v\<lparr>historyIndex := ?n - 2\<rparr>) ((put_session ?v state)\<lparr>currentUrl := Some url\<rparr>))
      \<lparr>currentUrl := Some page\<rparr>"
    using n prev key by (simp add: b_def goto goBackInHistory_def put Let_def page_at_def nat_diff_distrib)
  have sb: "session_of b = Some (?v\<lparr>historyIndex := ?n - 2\<rparr>)"
    unfolding b by (rule put) (use key in \<open>simp_all add: put_session_def\<close>)
  show ?thesis
    using n last unfolding b_def [symmetric]
    by (auto simp: b selectCanGoForward_def goForwardInHistory_def sb [unfolded b] Let_def page_at_def
        nat_diff_distrib)
qed

theorem visit_then_back_witness:
  "currentUrl (goBackInHistory (goToPage ''v'' (run browserSlice initial_browser
     [OpenMiniAppSession ''m'' ''u'']))) = Some ''u''"
proof -
  let ?s = "run browserSlice initial_browser [OpenMiniAppSession ''m'' ''u'']"
  have "session_of ?s = Some \<lparr>miniAppId = ''m'', history = [''u''], historyIndex = 0\<rparr>" by code_simp
  from visit_then_back [OF refl this, of "''u''" "''v''"] show ?thesis by (simp add: page_at_def)
qed

end
