(* ===== verification/Settings_Slices.thy ===== *)
theory Settings_Slices
  imports Js_Value
begin

text \<open>
  The Redux slices under \<^verbatim>\<open>ui/common/redux\<close> that hold settings and small persisted state:
  \<^verbatim>\<open>environment\<close>, \<^verbatim>\<open>currency\<close>, \<^verbatim>\<open>nux\<close>, \<^verbatim>\<open>security\<close>, \<^verbatim>\<open>support\<close>, \<^verbatim>\<open>survey\<close>, \<^verbatim>\<open>analytics\<close>, \<^verbatim>\<open>toast\<close>,
  \<^verbatim>\<open>storage\<close> and \<^verbatim>\<open>personalBackupReminder\<close>. A slice state is the JavaScript object of the source
  and a reducer takes the name of the action and its payload; an action the slice does not know
  leaves it alone, and \<open>None\<close> is an exception inside the reducer.
\<close>

section \<open>Actions\<close>

text \<open>
  \<open>Reduce slice name payload\<close> is an action of type \<^verbatim>\<open>slice/name\<close>; the others are the fulfilled
  thunks the slices listen to. \<open>LoadFulfilled\<close> carries the stored state (\<open>JNull\<close> when there is
  none) and the value of \<^verbatim>\<open>uuidv4()\<close>, \<open>SaveFulfilled\<close> the value of \<^verbatim>\<open>Date.now()\<close>.
\<close>

datatype store_action =
    Reduce string string jv
  | LoadFulfilled jv string
  | SaveFulfilled int
  | ChangeLanguageFulfilled string
  | FetchCurrencyPricesFulfilled jv jv

text \<open>\<^verbatim>\<open>state.field[key] = value\<close> and \<^verbatim>\<open>state.field = { ...state.field, [key]: value }\<close>.\<close>

definition assign_in :: "string \<Rightarrow> string \<Rightarrow> jv \<Rightarrow> obj \<Rightarrow> obj option" where
  "assign_in field key value state =
     (case obj_get state field of
        JObj o' \<Rightarrow> Some (jm_set field (JObj (jm_set key value o')) state)
      | _ \<Rightarrow> None)"

definition spread_in :: "string \<Rightarrow> (string \<times> jv) list \<Rightarrow> obj \<Rightarrow> obj" where
  "spread_in field kvs state =
     jm_set field (JObj (jm_spread (own_entries (obj_get state field)) kvs)) state"

section \<open>Environment\<close>

definition initial_environment :: obj where
  "initial_environment =
    [(''isInternetUnreachable'', JBool False), (''developerMode'', JBool False),
     (''fedimodDebugMode'', JBool False), (''fedimodCacheEnabled'', JBool True),
     (''fedimodShowClearCacheButton'', JBool False), (''fedimodCacheMode'', JStr ''LOAD_DEFAULT''),
     (''onchainDepositsEnabled'', JBool False), (''stableBalanceEnabled'', JBool False),
     (''language'', JNull), (''amountInputType'', JUndef), (''transactionDisplayType'', JStr ''fiat''),
     (''deviceId'', JUndef), (''nostrNpub'', JUndef), (''nostrNsec'', JUndef),
     (''fedimintVersion'', JUndef), (''pwaVersion'', JUndef), (''featureFlags'', JUndef),
     (''internetUnreachableBadgeShown'', JBool False), (''onboardingCompleted'', JBool False),
     (''onboardingMethod'', JNull), (''appFlavor'', JUndef), (''sessionCount'', JNum 0),
     (''redirectTo'', JNull), (''eventListenersReady'', JBool False), (''lastUsedTab'', JStr ''wallets''),
     (''paymentType'', JStr ''bitcoin''), (''latestAwareReleaseTag'', JNull), (''versionTag'', JNull),
     (''shouldRequestAppUpdate'', JBool False), (''platform'', JUndef)]"

text \<open>The reducers that assign their payload to one field.\<close>

definition environment_setters :: "(string \<times> string) list" where
  "environment_setters =
    [(''setIsInternetUnreachable'', ''isInternetUnreachable''), (''setDeveloperMode'', ''developerMode''),
     (''setFediModDebugMode'', ''fedimodDebugMode''), (''setFediModCacheEnabled'', ''fedimodCacheEnabled''),
     (''setFediModShowClearCacheButton'', ''fedimodShowClearCacheButton''),
     (''setFediModCacheMode'', ''fedimodCacheMode''), (''setAmountInputType'', ''amountInputType''),
     (''setOnchainDepositsEnabled'', ''onchainDepositsEnabled''),
     (''setStableBalanceEnabled'', ''stableBalanceEnabled''), (''setDeviceId'', ''deviceId''),
     (''setNostrNpub'', ''nostrNpub''), (''setNostrNsec'', ''nostrNsec''),
     (''setFedimintVersion'', ''fedimintVersion''), (''setPwaVersion'', ''pwaVersion''),
     (''setFeatureFlags'', ''featureFlags''), (''setOnboardingCompleted'', ''onboardingCompleted''),
     (''setOnboardingMethod'', ''onboardingMethod''), (''setAppFlavor'', ''appFlavor''),
     (''setRedirectTo'', ''redirectTo''), (''setTransactionDisplayType'', ''transactionDisplayType''),
     (''setEventListenersReady'', ''eventListenersReady''), (''setLastUsedTab'', ''lastUsedTab''),
     (''setPaymentType'', ''paymentType''), (''setLatestAwareReleaseTag'', ''latestAwareReleaseTag''),
     (''setVersionTag'', ''versionTag''), (''setShouldRequestAppUpdate'', ''shouldRequestAppUpdate''),
     (''setPlatform'', ''platform'')]"

definition setInternetUnreachableBadgeVisibility :: "jv \<Rightarrow> obj \<Rightarrow> obj" where
  "setInternetUnreachableBadgeVisibility payload state =
     (let state = jm_set ''internetUnreachableBadgeShown'' payload state
      in if truthy payload then jm_set ''internetUnreachableBadgeShown'' (JBool True) state else state)"

text \<open>\<^verbatim>\<open>if (payload.x) state.x = payload.x\<close> and \<^verbatim>\<open>if (payload.x !== undefined) state.x = payload.x\<close>.\<close>

definition load_if_truthy :: "jv \<Rightarrow> string \<Rightarrow> obj \<Rightarrow> obj" where
  "load_if_truthy payload k state =
     (if truthy (opt_prop payload k) then jm_set k (opt_prop payload k) state else state)"

definition load_if_defined :: "jv \<Rightarrow> string \<Rightarrow> obj \<Rightarrow> obj" where
  "load_if_defined payload k state =
     (if opt_prop payload k \<noteq> JUndef then jm_set k (opt_prop payload k) state else state)"

text \<open>\<^verbatim>\<open>payload.sessionCount + 1\<close>, on a number.\<close>

definition js_succ :: "jv \<Rightarrow> jv" where
  "js_succ v = (case to_num v of Some i \<Rightarrow> JNum (i + 1) | None \<Rightarrow> JNaN)"

definition environment_load :: "jv \<Rightarrow> obj \<Rightarrow> obj" where
  "environment_load payload state =
     (if \<not> truthy payload then state
      else
        let s1 = jm_set ''language'' (opt_prop payload ''language'') state;
            s2 = fold (load_if_truthy payload)
                   [''amountInputType'', ''onchainDepositsEnabled'', ''stableBalanceEnabled'',
                    ''developerMode'', ''transactionDisplayType''] s1;
            s3 = load_if_defined payload ''deviceId'' s2;
            s4 = (if opt_prop payload ''sessionCount'' \<noteq> JUndef
                  then jm_set ''sessionCount'' (js_succ (opt_prop payload ''sessionCount'')) s3 else s3)
        in fold (load_if_defined payload) [''lastUsedTab'', ''paymentType'', ''latestAwareReleaseTag''] s4)"

fun environmentSlice :: "store_action \<Rightarrow> obj \<Rightarrow> obj option" where
  "environmentSlice (Reduce slice name payload) state =
     (if slice \<noteq> ''environment'' then Some state
      else case map_of environment_setters name of
        Some field \<Rightarrow> Some (jm_set field payload state)
      | None \<Rightarrow>
          if name = ''setInternetUnreachableBadgeVisibility''
          then Some (setInternetUnreachableBadgeVisibility payload state)
          else if name = ''clearSessionCount'' then Some (jm_set ''sessionCount'' (JNum 0) state)
          else Some state)"
| "environmentSlice (ChangeLanguageFulfilled language) state =
     Some (jm_set ''language'' (JStr language) state)"
| "environmentSlice (LoadFulfilled payload uuid) state = Some (environment_load payload state)"
| "environmentSlice _ state = Some state"

section \<open>Currency\<close>

definition initial_currency :: obj where
  "initial_currency =
    [(''btcUsdRate'', JNum 0), (''fiatUsdRates'', JObj []), (''overrideCurrency'', JNull),
     (''balanceDisplay'', JStr ''sats''), (''currencyLocale'', JUndef),
     (''customFederationCurrencies'', JObj [])]"

definition currency_load :: "jv \<Rightarrow> obj \<Rightarrow> obj" where
  "currency_load payload state =
     (if \<not> truthy payload then state
      else jm_spread state
        [(''overrideCurrency'', opt_prop payload ''currency''),
         (''btcUsdRate'', opt_prop payload ''btcUsdRate''),
         (''fiatUsdRates'', opt_prop payload ''fiatUsdRates''),
         (''customFederationCurrencies'', opt_prop payload ''customFederationCurrencies''),
         (''balanceDisplay'', opt_prop payload ''balanceDisplay'')])"

fun currencySlice :: "store_action \<Rightarrow> obj \<Rightarrow> obj option" where
  "currencySlice (Reduce slice name payload) state =
     (if slice \<noteq> ''currency'' then Some state
      else if name = ''changeOverrideCurrency'' then Some (jm_set ''overrideCurrency'' payload state)
      else if name = ''setBalanceDisplay'' then Some (jm_set ''balanceDisplay'' payload state)
      else if name = ''setCurrencyLocale'' then Some (jm_set ''currencyLocale'' payload state)
      else if name = ''resetCurrencyState'' then Some initial_currency
      else if name = ''setFederationCurrency''
      then Some (spread_in ''customFederationCurrencies''
             [(js_str (opt_prop payload ''federationId''), opt_prop payload ''currency'')] state)
      else Some state)"
| "currencySlice (FetchCurrencyPricesFulfilled btcUsdRate fiatUsdRates) state =
     Some (spread_in ''fiatUsdRates'' (own_entries fiatUsdRates) (jm_set ''btcUsdRate'' btcUsdRate state))"
| "currencySlice (LoadFulfilled payload uuid) state = Some (currency_load payload state)"
| "currencySlice _ state = Some state"

section \<open>New-user steps\<close>

definition initial_nux_steps :: obj where
  "initial_nux_steps =
    [(''hasViewedMemberQr'', JBool False), (''hasOpenedNewChat'', JBool False),
     (''hasPerformedPersonalBackup'', JBool False), (''hasSeenMultispendIntro'', JBool False),
     (''pwaHasDismissedInstallPrompt'', JBool False), (''hasRequestedReferrer'', JBool False),
     (''hasSeenWalletServiceTour'', JBool False)]"

definition initial_nux :: obj where
  "initial_nux = [(''steps'', JObj initial_nux_steps)]"

text \<open>The entries of a stored record that the slice knows and that are defined.\<close>

definition known_entries :: "obj \<Rightarrow> (string \<times> jv) list \<Rightarrow> (string \<times> jv) list" where
  "known_entries known kvs = filter (\<lambda>(k, v). jm_get known k \<noteq> None \<and> v \<noteq> JUndef) kvs"

definition nux_load :: "jv \<Rightarrow> obj \<Rightarrow> obj option" where
  "nux_load payload state =
     (if \<not> truthy payload then Some state
      else do {
        entries \<leftarrow> js_entries (opt_prop payload ''nuxSteps'');
        Some (jm_set ''steps''
          (JObj (jm_spread [] (known_entries (own_entries (obj_get state ''steps'')) entries))) state) })"

fun nuxSlice :: "store_action \<Rightarrow> obj \<Rightarrow> obj option" where
  "nuxSlice (Reduce slice name payload) state =
     (if slice \<noteq> ''nux'' then Some state
      else if name = ''completeNuxStep'' then Some (spread_in ''steps'' [(js_str payload, JBool True)] state)
      else if name = ''resetNuxSteps'' then Some (jm_set ''steps'' (JObj initial_nux_steps) state)
      else if name = ''resetNuxStep'' then Some (spread_in ''steps'' [(js_str payload, JBool False)] state)
      else Some state)"
| "nuxSlice (LoadFulfilled payload uuid) state = nux_load payload state"
| "nuxSlice _ state = Some state"

section \<open>Security\<close>

definition protected_feature_names :: "string list" where
  "protected_feature_names =
     [''app'', ''changePin'', ''nostrSettings'', ''personalBackup'', ''miniAppSeed'']"

definition initial_security :: obj where
  "initial_security =
    [(''protectedFeatures'', JObj (map (\<lambda>k. (k, JBool True)) protected_feature_names)),
     (''unlockedFeatures'', JObj (map (\<lambda>k. (k, JBool False)) protected_feature_names)),
     (''isBackingUpBeforePin'', JBool False)]"

definition security_load :: "jv \<Rightarrow> obj \<Rightarrow> obj" where
  "security_load payload state =
     (if \<not> truthy payload then state
      else if truthy (opt_prop payload ''protectedFeatures'')
      then spread_in ''protectedFeatures''
             (known_entries (own_entries (obj_get state ''protectedFeatures''))
               (own_entries (opt_prop payload ''protectedFeatures''))) state
      else state)"

fun securitySlice :: "store_action \<Rightarrow> obj \<Rightarrow> obj option" where
  "securitySlice (Reduce slice name payload) state =
     (if slice \<noteq> ''security'' then Some state
      else if name = ''setFeatureUnlocked''
      then assign_in ''unlockedFeatures'' (js_str (opt_prop payload ''key'')) (opt_prop payload ''unlocked'') state
      else if name = ''setProtectedFeature''
      then assign_in ''protectedFeatures'' (js_str (opt_prop payload ''key'')) (opt_prop payload ''enabled'') state
      else if name = ''setIsBackingUpBeforePin'' then Some (jm_set ''isBackingUpBeforePin'' payload state)
      else Some state)"
| "securitySlice (LoadFulfilled payload uuid) state = Some (security_load payload state)"
| "securitySlice _ state = Some state"

section \<open>Support, survey, analytics\<close>

definition initial_support :: obj where
  "initial_support =
    [(''supportPermissionGranted'', JBool False), (''zendeskPushNotificationToken'', JNull),
     (''zendeskInitialized'', JBool False), (''zendeskUnreadMessageCount'', JNum 0)]"

definition support_setters :: "(string \<times> string) list" where
  "support_setters =
    [(''setSupportPermission'', ''supportPermissionGranted''),
     (''setZendeskPushNotificationToken'', ''zendeskPushNotificationToken''),
     (''setZendeskInitialized'', ''zendeskInitialized''),
     (''setZendeskUnreadMessageCount'', ''zendeskUnreadMessageCount'')]"

definition support_load :: "jv \<Rightarrow> obj \<Rightarrow> obj" where
  "support_load payload state =
     (let support = opt_prop payload ''support''
      in if \<not> truthy support then state
         else jm_spread state
           [(''supportPermissionGranted'',
               js_nullish (opt_prop support ''supportPermissionGranted'') (obj_get state ''supportPermissionGranted'')),
            (''zendeskPushNotificationToken'',
               js_nullish (opt_prop support ''zendeskPushNotificationToken'')
                 (obj_get state ''zendeskPushNotificationToken''))])"

fun supportSlice :: "store_action \<Rightarrow> obj \<Rightarrow> obj option" where
  "supportSlice (Reduce slice name payload) state =
     (if slice \<noteq> ''support'' then Some state
      else case map_of support_setters name of
        Some field \<Rightarrow> Some (jm_set field payload state) | None \<Rightarrow> Some state)"
| "supportSlice (LoadFulfilled payload uuid) state = Some (support_load payload state)"
| "supportSlice _ state = Some state"

definition initial_survey :: obj where
  "initial_survey =
    [(''surveyCompletions'', JObj []), (''lastShownSurveyTimestamp'', JNum (- 1)), (''activeSurvey'', JNull)]"

text \<open>
  \<^verbatim>\<open>dismissActiveSurvey\<close> and \<^verbatim>\<open>acceptActiveSurvey\<close>: the completion of the active survey, if there
  is one, is created or one field of it assigned.
\<close>

definition update_completion :: "(string \<times> jv) list \<Rightarrow> (obj \<Rightarrow> obj) \<Rightarrow> obj \<Rightarrow> obj option" where
  "update_completion fresh change state =
     (let activeSurveyId = opt_prop (obj_get state ''activeSurvey'') ''id''
      in if \<not> truthy activeSurveyId then Some state
         else do {
           completion \<leftarrow> js_prop (obj_get state ''surveyCompletions'') (js_str activeSurveyId);
           assign_in ''surveyCompletions'' (js_str activeSurveyId)
             (if \<not> truthy completion then JObj fresh else JObj (change (own_entries completion))) state })"

definition dismissActiveSurvey :: "obj \<Rightarrow> obj option" where
  "dismissActiveSurvey =
     update_completion [(''isCompleted'', JBool False), (''timesDismissed'', JNum 1)]
       (\<lambda>c. jm_set ''timesDismissed'' (js_succ (obj_get c ''timesDismissed'')) c)"

definition acceptActiveSurvey :: "obj \<Rightarrow> obj option" where
  "acceptActiveSurvey =
     update_completion [(''timesDismissed'', JNum 0), (''isCompleted'', JBool True)]
       (jm_set ''isCompleted'' (JBool True))"

definition survey_load :: "jv \<Rightarrow> obj \<Rightarrow> obj" where
  "survey_load payload state =
     (if \<not> truthy payload then state
      else jm_spread state
        [(''lastShownSurveyTimestamp'', opt_prop payload ''lastShownSurveyTimestamp''),
         (''surveyCompletions'', opt_prop payload ''surveyCompletions'')])"

fun surveySlice :: "store_action \<Rightarrow> obj \<Rightarrow> obj option" where
  "surveySlice (Reduce slice name payload) state =
     (if slice \<noteq> ''survey'' then Some state
      else if name = ''setActiveSurvey'' then Some (jm_set ''activeSurvey'' payload state)
      else if name = ''setSurveyTimestamp'' then Some (jm_set ''lastShownSurveyTimestamp'' payload state)
      else if name = ''dismissActiveSurvey'' then dismissActiveSurvey state
      else if name = ''acceptActiveSurvey'' then acceptActiveSurvey state
      else if name = ''resetSurveyCompletions'' then Some (jm_set ''surveyCompletions'' (JObj []) state)
      else Some state)"
| "surveySlice (LoadFulfilled payload uuid) state = Some (survey_load payload state)"
| "surveySlice _ state = Some state"

text \<open>
  \<^verbatim>\<open>checkSurveyCondition\<close>: the survey it makes active, given the clock, whether onboarding is
  complete and the fetched survey (\<open>None\<close> when fetching or parsing it failed).
\<close>

definition oneWeekMs :: int where
  "oneWeekMs = 7 * 24 * 60 * 60 * 1000"

definition checkSurveyCondition :: "int \<Rightarrow> jv \<Rightarrow> obj option \<Rightarrow> obj \<Rightarrow> jv" where
  "checkSurveyCondition now onboardingCompleted fetched survey =
     (let lastShown = obj_get survey ''lastShownSurveyTimestamp'';
          hasBeenSevenDays = truthy lastShown \<and>
            (case to_num lastShown of Some t \<Rightarrow> oneWeekMs \<le> now - t | None \<Rightarrow> False)
      in if \<not> truthy onboardingCompleted \<or> \<not> hasBeenSevenDays then JNull
         else case fetched of
           None \<Rightarrow> JNull
         | Some active \<Rightarrow>
             let completion = opt_prop (obj_get survey ''surveyCompletions'') (js_str (obj_get active ''id''))
             in if \<not> truthy (obj_get active ''enabled'') then JNull
                else if truthy (opt_prop completion ''isCompleted'') then JNull
                else if (case to_num (js_nullish (opt_prop completion ''timesDismissed'') (JNum 0)) of
                    Some n \<Rightarrow> 2 \<le> n | None \<Rightarrow> False) then JNull
                else JObj active)"

definition initial_analytics :: obj where
  "initial_analytics =
    [(''hasConsentedToAnalytics'', JNull), (''hasSeenAnalyticsConsentModal'', JBool False),
     (''shouldShowAnalyticsConsentModal'', JBool False), (''analyticsId'', JNull)]"

definition analytics_load :: "jv \<Rightarrow> string \<Rightarrow> obj \<Rightarrow> obj" where
  "analytics_load payload uuid state =
     (let storedId = opt_prop payload ''analyticsId''
      in jm_spread state
        [(''analyticsId'', if \<not> truthy storedId then JStr uuid else storedId),
         (''hasConsentedToAnalytics'', js_nullish (opt_prop payload ''hasConsentedToAnalytics'') JNull),
         (''hasSeenAnalyticsConsentModal'',
            js_nullish (opt_prop payload ''hasSeenAnalyticsConsentModal'') (JBool False))])"

fun analyticsSlice :: "store_action \<Rightarrow> obj \<Rightarrow> obj option" where
  "analyticsSlice (Reduce slice name payload) state =
     (if slice \<noteq> ''analytics'' then Some state
      else if name = ''setHasConsentedToAnalytics'' then Some (jm_set ''hasConsentedToAnalytics'' payload state)
      else if name = ''setHasSeenAnalyticsConsentModal''
      then Some (jm_set ''hasSeenAnalyticsConsentModal'' payload state)
      else if name = ''setAnalyticsId'' then Some (jm_set ''analyticsId'' payload state)
      else if name = ''clearAnalyticsState''
      then Some (jm_spread state [(''analyticsId'', JNull), (''hasConsentedToAnalytics'', JNull),
             (''hasSeenAnalyticsConsentModal'', JBool False)])
      else Some state)"
| "analyticsSlice (LoadFulfilled payload uuid) state = Some (analytics_load payload uuid state)"
| "analyticsSlice _ state = Some state"

section \<open>Backup reminder, toast, storage\<close>

definition initial_reminder :: obj where
  "initial_reminder =
    [(''countdownStartedAt'', JNull), (''dismissedThisSession'', JBool False),
     (''hasReachedThresholds'', JBool False)]"

definition reminder_load :: "jv \<Rightarrow> obj \<Rightarrow> obj" where
  "reminder_load payload state =
     (let persisted = opt_prop payload ''personalBackupReminder''
      in if \<not> truthy persisted then state
         else jm_spread state
           [(''countdownStartedAt'', js_nullish (opt_prop persisted ''countdownStartedAt'') JNull),
            (''hasReachedThresholds'', js_nullish (opt_prop persisted ''hasReachedThresholds'') (JBool False))])"

fun personalBackupReminderSlice :: "store_action \<Rightarrow> obj \<Rightarrow> obj option" where
  "personalBackupReminderSlice (Reduce slice name payload) state =
     (if slice = ''nux'' \<and> name = ''resetNuxSteps'' then Some (jm_spread state initial_reminder)
      else if slice \<noteq> ''personalBackupReminder'' then Some state
      else if name = ''dismissForSession'' then Some (jm_set ''dismissedThisSession'' (JBool True) state)
      else if name = ''reachedThresholds'' then Some (jm_set ''hasReachedThresholds'' (JBool True) state)
      else if name = ''setCountdownStartedAt'' then Some (jm_set ''countdownStartedAt'' payload state)
      else if name = ''setCountdownForTesting''
      then Some (jm_spread state [(''dismissedThisSession'', JBool False),
             (''hasReachedThresholds'', JBool False), (''countdownStartedAt'', payload)])
      else Some state)"
| "personalBackupReminderSlice (LoadFulfilled payload uuid) state = Some (reminder_load payload state)"
| "personalBackupReminderSlice _ state = Some state"

text \<open>
  The trigger of the reminder: the stored value in sats, or the time since the countdown began.
\<close>

definition BACKUP_REMINDER_THRESHOLD_SATS :: int where
  "BACKUP_REMINDER_THRESHOLD_SATS = 210"

definition BACKUP_REMINDER_ELAPSED_MS :: int where
  "BACKUP_REMINDER_ELAPSED_MS = 30 * 24 * 60 * 60 * 1000"

definition selectPersonalBackupReminderTriggersMet :: "int \<Rightarrow> int \<Rightarrow> int \<Rightarrow> obj \<Rightarrow> bool" where
  "selectPersonalBackupReminderTriggersMet now ecashSats stableSats reminder =
     (if BACKUP_REMINDER_THRESHOLD_SATS \<le> ecashSats + stableSats then True
      else let startedAt = obj_get reminder ''countdownStartedAt''
           in startedAt \<noteq> JNull \<and>
              (case to_num startedAt of
                 Some t \<Rightarrow> BACKUP_REMINDER_ELAPSED_MS \<le> now - t | None \<Rightarrow> False))"

definition selectShouldShowBackupReminder ::
  "bool \<Rightarrow> int \<Rightarrow> int \<Rightarrow> int \<Rightarrow> obj \<Rightarrow> obj \<Rightarrow> obj \<Rightarrow> bool" where
  "selectShouldShowBackupReminder featureFlag now ecashSats stableSats nux environment reminder =
     (if \<not> featureFlag then False
      else if truthy (opt_prop (obj_get nux ''steps'') ''hasPerformedPersonalBackup'') \<or>
              obj_get environment ''onboardingMethod'' \<noteq> JStr ''new_seed'' \<or>
              truthy (obj_get reminder ''dismissedThisSession'')
      then False
      else truthy (obj_get reminder ''hasReachedThresholds'') \<or>
           selectPersonalBackupReminderTriggersMet now ecashSats stableSats reminder)"

definition initial_toast :: obj where
  "initial_toast = [(''toast'', JNull)]"

fun toastSlice :: "store_action \<Rightarrow> obj \<Rightarrow> obj option" where
  "toastSlice (Reduce slice name payload) state =
     (if slice \<noteq> ''toast'' then Some state
      else if name = ''setToast'' then Some (jm_set ''toast'' payload state)
      else if name = ''closeToast''
      then Some (if \<not> truthy payload \<or> js_seq (opt_prop (obj_get state ''toast'') ''key'') payload
                 then jm_set ''toast'' JNull state else state)
      else Some state)"
| "toastSlice _ state = Some state"

definition initial_storage :: obj where
  "initial_storage =
     [(''hasLoaded'', JBool False), (''lastSavedAt'', JNum 0), (''readyToSave'', JBool False)]"

fun storageSlice :: "store_action \<Rightarrow> obj \<Rightarrow> obj option" where
  "storageSlice (Reduce slice name payload) state =
     (if slice = ''storage'' \<and> name = ''setReadyToSave''
      then Some (jm_set ''readyToSave'' payload state) else Some state)"
| "storageSlice (LoadFulfilled payload uuid) state = Some (jm_set ''hasLoaded'' (JBool True) state)"
| "storageSlice (SaveFulfilled now) state = Some (jm_set ''lastSavedAt'' (JNum now) state)"
| "storageSlice _ state = Some state"

end
