(* ===== verification/Mod_Slice.thy ===== *)
theory Mod_Slice
  imports Redux_Utils Settings_Slices
begin

text \<open>
  \<^verbatim>\<open>ui/common/redux/mod.ts\<close>: the mini-apps ("mods") of the user, their visibility, their order and
  the permissions they were granted. Parameters of the definitions: \<open>origin\<close> is the platform's
  \<^verbatim>\<open>new URL(u).origin\<close> (\<open>None\<close> when the constructor throws), \<open>isEqual\<close> is lodash's, \<open>firstParty\<close> is
  the constant \<^verbatim>\<open>FIRST_PARTY_PERMISSIONS\<close>, which depends on the build, and \<open>now\<close> is \<^verbatim>\<open>Date.now()\<close>.
\<close>

section \<open>Definitions\<close>

definition initial_mod :: "obj \<Rightarrow> obj" where
  "initial_mod firstParty =
    [(''customGlobalMods'', JObj []), (''modVisibility'', JObj []),
     (''miniAppPermissions'', JObj firstParty), (''newMods'', JArr []), (''miniAppOrder'', JArr [])]"

text \<open>lodash \<^verbatim>\<open>without\<close> and \<^verbatim>\<open>Array.prototype.includes\<close>.\<close>

definition without :: "jv list \<Rightarrow> jv \<Rightarrow> jv list" where
  "without xs x = filter (\<lambda>y. y \<noteq> x) xs"

definition field_array :: "string \<Rightarrow> obj \<Rightarrow> jv list option" where
  "field_array k state = as_array (obj_get state k)"

definition upsert_visibility ::
  "(jv \<Rightarrow> jv \<Rightarrow> bool) \<Rightarrow> string \<Rightarrow> obj \<Rightarrow> obj \<Rightarrow> obj" where
  "upsert_visibility isEqual modId visibility state =
     jm_set ''modVisibility''
       (JObj (upsertRecordEntityId isEqual (Some (own_entries (obj_get state ''modVisibility'')))
         (JObj visibility) modId)) state"

definition addCustomMod :: "(jv \<Rightarrow> jv \<Rightarrow> bool) \<Rightarrow> int \<Rightarrow> jv \<Rightarrow> obj \<Rightarrow> obj option" where
  "addCustomMod isEqual now fediMod state = do {
     modId \<leftarrow> js_prop fediMod ''id'';
     s1 \<leftarrow> assign_in ''customGlobalMods'' (js_str modId)
       (JObj (jm_spread (own_entries fediMod) [(''dateAdded'', JNum now)])) state;
     old \<leftarrow> js_prop (obj_get s1 ''modVisibility'') (js_str modId);
     let s2 = upsert_visibility isEqual (js_str modId)
       (jm_spread (own_entries (js_nullish old (JObj [])))
         [(''isHidden'', JBool False), (''isCustom'', JBool True)]) s1;
     newMods \<leftarrow> field_array ''newMods'' s2;
     order \<leftarrow> field_array ''miniAppOrder'' s2;
     Some (jm_set ''miniAppOrder'' (JArr (opt_prop fediMod ''url'' # order))
       (jm_set ''newMods'' (JArr (newMods @ [modId])) s2)) }"

text \<open>
  The three permission reducers differ in what they do to the map of one origin: set the listed
  permissions to a value or delete them.
\<close>

definition update_permissions ::
  "(string \<Rightarrow> string option) \<Rightarrow> (string list \<Rightarrow> obj \<Rightarrow> obj) \<Rightarrow> string \<Rightarrow> string list \<Rightarrow> obj \<Rightarrow> obj option" where
  "update_permissions origin change miniAppUrl permissions state = do {
     org \<leftarrow> origin miniAppUrl;
     current \<leftarrow> js_prop (obj_get state ''miniAppPermissions'') org;
     assign_in ''miniAppPermissions'' org
       (JObj (change permissions (own_entries (js_or current (JObj []))))) state }"

definition set_all :: "jv \<Rightarrow> string list \<Rightarrow> obj \<Rightarrow> obj" where
  "set_all v permissions m = fold (\<lambda>p. jm_set p v) permissions m"

definition allowMiniAppPermissions ::
  "(string \<Rightarrow> string option) \<Rightarrow> string \<Rightarrow> string list \<Rightarrow> obj \<Rightarrow> obj option" where
  "allowMiniAppPermissions origin = update_permissions origin (set_all (JBool True))"

definition denyMiniAppPermissions ::
  "(string \<Rightarrow> string option) \<Rightarrow> string \<Rightarrow> string list \<Rightarrow> obj \<Rightarrow> obj option" where
  "denyMiniAppPermissions origin = update_permissions origin (set_all (JBool False))"

definition clearMiniAppPermissions ::
  "(string \<Rightarrow> string option) \<Rightarrow> string \<Rightarrow> string list \<Rightarrow> obj \<Rightarrow> obj option" where
  "clearMiniAppPermissions origin = update_permissions origin (fold jm_del)"

definition removeCustomMod :: "jv \<Rightarrow> obj \<Rightarrow> obj option" where
  "removeCustomMod modId state = do {
     let k = js_str modId;
     custom \<leftarrow> js_prop (obj_get state ''customGlobalMods'') k;
     let s1 = (if truthy custom
       then jm_set ''customGlobalMods'' (JObj (jm_del k (own_entries (obj_get state ''customGlobalMods'')))) state
       else state);
     newMods \<leftarrow> field_array ''newMods'' s1;
     let s2 = (if modId \<in> set newMods then jm_set ''newMods'' (JArr (without newMods modId)) s1 else s1);
     visibility \<leftarrow> js_prop (obj_get s2 ''modVisibility'') k;
     isCommunity \<leftarrow> js_prop visibility ''isCommunity'';
     let s3 = (if truthy isCommunity
       then jm_set ''modVisibility'' (JObj (jm_set k
              (JObj (jm_spread (own_entries visibility) [(''isCustom'', JBool False)]))
              (jm_del k (own_entries (obj_get s2 ''modVisibility''))))) s2
       else s2);
     order \<leftarrow> field_array ''miniAppOrder'' s3;
     Some (if modId \<in> set order then jm_set ''miniAppOrder'' (JArr (without order modId)) s3 else s3) }"

definition updateLastSeenModDate :: "jv \<Rightarrow> obj \<Rightarrow> obj option" where
  "updateLastSeenModDate modId state = do {
     newMods \<leftarrow> field_array ''newMods'' state;
     Some (jm_set ''newMods'' (JArr (without newMods modId)) state) }"

definition setModVisibility :: "jv \<Rightarrow> jv \<Rightarrow> jv \<Rightarrow> jv \<Rightarrow> obj \<Rightarrow> obj option" where
  "setModVisibility modId isHidden isHiddenCommunity federationId state = do {
     old \<leftarrow> js_prop (obj_get state ''modVisibility'') (js_str modId);
     let current = own_entries (js_nullish old (JObj []));
     let new =
       (if isHiddenCommunity \<noteq> JUndef
        then let v = jm_set ''isHiddenCommunity'' isHiddenCommunity current
             in if federationId \<noteq> JUndef then jm_set ''federationId'' federationId v else v
        else if isHidden \<noteq> JUndef
        then jm_spread (jm_omit [''federationId'', ''isHiddenCommunity''] current) [(''isHidden'', isHidden)]
        else current);
     s1 \<leftarrow> assign_in ''modVisibility'' (js_str modId) (JObj new) state;
     if truthy isHidden \<or> truthy isHiddenCommunity
     then do {
       order \<leftarrow> field_array ''miniAppOrder'' s1;
       Some (jm_set ''miniAppOrder'' (JArr (without order modId @ [modId])) s1) }
     else Some s1 }"

text \<open>The loop over the mods of a community.\<close>

definition track_community_mod :: "(jv \<Rightarrow> jv \<Rightarrow> bool) \<Rightarrow> obj \<Rightarrow> jv \<Rightarrow> obj option" where
  "track_community_mod isEqual state m = do {
     modId \<leftarrow> js_prop m ''id'';
     old \<leftarrow> js_prop (obj_get state ''modVisibility'') (js_str modId);
     Some (if truthy (opt_prop old ''isCommunity'') then state
       else upsert_visibility isEqual (js_str modId)
         (jm_spread (own_entries old) [(''isHidden'', JBool False), (''isCommunity'', JBool True)]) state) }"

definition setCommunityCustomFediMods :: "(jv \<Rightarrow> jv \<Rightarrow> bool) \<Rightarrow> jv \<Rightarrow> obj \<Rightarrow> obj option" where
  "setCommunityCustomFediMods isEqual payload state =
     (let mods = opt_prop payload ''mods''
      in if \<not> truthy mods then Some state
         else do { ms \<leftarrow> as_array mods; reduceM (track_community_mod isEqual) state ms })"

definition mod_load :: "obj \<Rightarrow> jv \<Rightarrow> obj \<Rightarrow> obj" where
  "mod_load firstParty payload state =
     (if \<not> truthy payload then state
      else jm_spread state
        [(''customGlobalMods'', js_or (opt_prop payload ''customGlobalMods'') (JObj [])),
         (''modVisibility'', js_or (opt_prop payload ''modVisibility'') (JObj [])),
         (''newMods'', js_or (opt_prop payload ''newMods'') (JArr [])),
         (''miniAppPermissions'', JObj (jm_spread firstParty
            (own_entries (js_or (opt_prop payload ''miniAppPermissions'') (JObj []))))),
         (''miniAppOrder'', js_or (opt_prop payload ''miniAppOrder'') (JArr []))])"

definition string_list :: "jv \<Rightarrow> string list option" where
  "string_list v = map_option (map js_str) (as_array v)"

fun modSlice ::
  "(string \<Rightarrow> string option) \<Rightarrow> (jv \<Rightarrow> jv \<Rightarrow> bool) \<Rightarrow> obj \<Rightarrow> int \<Rightarrow> store_action \<Rightarrow> obj \<Rightarrow> obj option" where
  "modSlice origin isEqual firstParty now (Reduce slice name payload) state =
     (if slice = ''federation'' \<and> name = ''setCommunityCustomFediMods''
      then setCommunityCustomFediMods isEqual payload state
      else if slice \<noteq> ''mod'' then Some state
      else if name = ''addCustomMod'' then addCustomMod isEqual now (opt_prop payload ''fediMod'') state
      else if name = ''allowMiniAppPermissions'' then do {
        ps \<leftarrow> string_list (opt_prop payload ''permissions'');
        allowMiniAppPermissions origin (js_str (opt_prop payload ''miniAppUrl'')) ps state }
      else if name = ''clearMiniAppPermissions'' then do {
        ps \<leftarrow> string_list (opt_prop payload ''permissions'');
        clearMiniAppPermissions origin (js_str (opt_prop payload ''miniAppUrl'')) ps state }
      else if name = ''denyMiniAppPermissions'' then do {
        ps \<leftarrow> string_list (opt_prop payload ''permissions'');
        denyMiniAppPermissions origin (js_str (opt_prop payload ''miniAppUrl'')) ps state }
      else if name = ''clearAllMiniAppPermissions''
      then Some (jm_set ''miniAppPermissions'' (JObj []) state)
      else if name = ''removeCustomMod'' then removeCustomMod (opt_prop payload ''modId'') state
      else if name = ''updateLastSeenModDate'' then updateLastSeenModDate (opt_prop payload ''modId'') state
      else if name = ''setMiniAppOrder'' then do {
        xs \<leftarrow> as_array (opt_prop payload ''miniAppOrder'');
        Some (jm_set ''miniAppOrder'' (JArr xs) state) }
      else if name = ''setModVisibility''
      then setModVisibility (opt_prop payload ''modId'') (opt_prop payload ''isHidden'')
             (opt_prop payload ''isHiddenCommunity'') (opt_prop payload ''federationId'') state
      else Some state)"
| "modSlice origin isEqual firstParty now (LoadFulfilled payload uuid) state =
     Some (mod_load firstParty payload state)"
| "modSlice origin isEqual firstParty now _ state = Some state"

subsection \<open>Selectors\<close>

text \<open>\<^verbatim>\<open>deduplicate\<close> of \<^verbatim>\<open>utils/fedimods.ts\<close>: the first mod of each id.\<close>

definition dedup_step :: "obj list \<Rightarrow> obj \<Rightarrow> obj list" where
  "dedup_step acc m =
     (if list_ex (\<lambda>item. js_seq (obj_get item ''id'') (obj_get m ''id'')) acc then acc else acc @ [m])"

definition deduplicate :: "obj list \<Rightarrow> obj list" where
  "deduplicate arr = foldl dedup_step [] arr"

definition NEW_MOD_EXPIRATION_THRESHOLD_MS :: int where
  "NEW_MOD_EXPIRATION_THRESHOLD_MS = 1000 * 60 * 60 * 24 * 7"

definition isModNew :: "int \<Rightarrow> obj \<Rightarrow> bool" where
  "isModNew now m =
     (let dateAdded = js_or (obj_get m ''dateAdded'') (JNum 0)
      in case to_num dateAdded of Some d \<Rightarrow> now - d < NEW_MOD_EXPIRATION_THRESHOLD_MS | None \<Rightarrow> False)"

definition visible_mods :: "obj \<Rightarrow> obj list \<Rightarrow> obj list" where
  "visible_mods modVisibility mods =
     filter (\<lambda>m. let visibility = obj_get modVisibility (js_str (obj_get m ''id''))
       in \<not> truthy visibility \<or> \<not> truthy (opt_prop visibility ''isHidden'')) mods"

definition selectAllVisibleMods :: "obj \<Rightarrow> obj list \<Rightarrow> obj list \<Rightarrow> obj list" where
  "selectAllVisibleMods modVisibility globalMods customMods =
     deduplicate (visible_mods modVisibility globalMods @ visible_mods modVisibility customMods)"

definition selectVisibleCommunityMods :: "jv \<Rightarrow> (string \<Rightarrow> obj list) \<Rightarrow> obj \<Rightarrow> obj list" where
  "selectVisibleCommunityMods lastSelectedCommunityId customFediMods modVisibility =
     (if \<not> truthy lastSelectedCommunityId then []
      else filter (\<lambda>m. let visibility = obj_get modVisibility (js_str (obj_get m ''id''))
             in \<not> (truthy visibility \<and> truthy (opt_prop visibility ''isHiddenCommunity'') \<and>
                  js_seq (opt_prop visibility ''federationId'') lastSelectedCommunityId))
           (customFediMods (js_str lastSelectedCommunityId)))"

definition selectMiniAppPermissions :: "(string \<Rightarrow> string option) \<Rightarrow> obj \<Rightarrow> string option \<Rightarrow> jv option" where
  "selectMiniAppPermissions origin state miniAppUrl =
     (case miniAppUrl of
        None \<Rightarrow> Some (JObj [])
      | Some url \<Rightarrow>
          if url = [] then Some (JObj [])
          else do {
            org \<leftarrow> origin url;
            m \<leftarrow> js_prop (obj_get state ''miniAppPermissions'') org;
            Some (js_nullish m (JObj [])) })"

definition selectNewModIds :: "int \<Rightarrow> jv list \<Rightarrow> obj list \<Rightarrow> jv list" where
  "selectNewModIds now newModIds visibleMods =
     map (\<lambda>m. obj_get m ''id'')
       (filter (\<lambda>m. obj_get m ''id'' \<in> set newModIds \<and> isModNew now m) visibleMods)"

section \<open>Lemmas\<close>

lemma assign_in_JObj:
  "obj_get state f = JObj o' \<Longrightarrow> assign_in f k v state = Some (jm_set f (JObj (jm_set k v o')) state)"
  by (simp add: assign_in_def)

lemma own_js_or: "own_entries (js_or v (JObj [])) = own_entries v"
  by (cases v) (auto simp: js_or_def index_entries_def)

lemma own_js_nullish: "own_entries (js_nullish v (JObj [])) = own_entries v"
  by (cases v) (auto simp: js_nullish_def)

lemma get_set_all: "obj_get (set_all v ps m) p = (if p \<in> set ps then v else obj_get m p)"
  by (induction ps arbitrary: m) (auto simp: set_all_def)

lemma get_del_all: "obj_get (fold jm_del ps m) p = (if p \<in> set ps then JUndef else obj_get m p)"
  by (simp add: obj_get_def jsd.get_fold_del)

lemma obj_get_if: "obj_get (if c then a else b) k = (if c then obj_get a k else obj_get b k)"
  by simp

lemma without_absent: "x \<notin> set xs \<Longrightarrow> without xs x = xs"
  unfolding without_def by (rule filter_True) auto

lemma removeCustomMod_result:
  assumes "removeCustomMod i state = Some s" and "obj_get state ''customGlobalMods'' = JObj cs"
    and "obj_get state ''miniAppOrder'' = JArr order"
  shows "obj_get s ''miniAppOrder'' = JArr (without order i)"
    and "obj_get s ''customGlobalMods'' =
      JObj (if truthy (obj_get cs (js_str i)) then jm_del (js_str i) cs else cs)"
  using assms
  by (auto simp: removeCustomMod_def bind_eq_Some_conv Let_def field_array_def obj_get_if without_absent cong: if_cong)

lemma obj_get_del: "obj_get (jm_del k m) k' = (if k' = k then JUndef else obj_get m k')"
  by (simp add: obj_get_def)

lemma dedup_step_inv:
  assumes "distinct (map (\<lambda>m. obj_get m ''id'') acc)" and "obj_get m ''id'' \<noteq> JNaN"
  shows "distinct (map (\<lambda>m. obj_get m ''id'') (dedup_step acc m))"
  using assms by (auto simp: dedup_step_def list_ex_iff js_seq_def)

lemma dedup_distinct:
  assumes "distinct (map (\<lambda>m. obj_get m ''id'') acc)" and "\<And>m. m \<in> set ms \<Longrightarrow> obj_get m ''id'' \<noteq> JNaN"
  shows "distinct (map (\<lambda>m. obj_get m ''id'') (foldl dedup_step acc ms))"
  using assms by (induction ms arbitrary: acc) (simp_all add: dedup_step_inv)

section \<open>Properties\<close>

text \<open>
  Permissions are kept apart by origin: granting, denying and clearing permissions of a
  mini-app sets exactly the listed permissions of its own origin to true, to false and to
  undefined, and leaves every other permission of every origin as it was.
\<close>

theorem permissions_by_origin:
  assumes "obj_get state ''miniAppPermissions'' = JObj perms" and "origin url = Some org"
  shows "\<exists>s1 s2 s3.
    allowMiniAppPermissions origin url ps state = Some s1 \<and>
    denyMiniAppPermissions origin url ps state = Some s2 \<and>
    clearMiniAppPermissions origin url ps state = Some s3 \<and>
    (\<forall>o' p. let read = (\<lambda>s. opt_prop (opt_prop (obj_get s ''miniAppPermissions'') o') p)
       in (read s1, read s2, read s3) =
         (if o' = org \<and> p \<in> set ps then (JBool True, JBool False, JUndef)
          else (read state, read state, read state)))"
proof -
  have upd: "update_permissions origin change url ps state = Some (jm_set ''miniAppPermissions''
      (JObj (jm_set org (JObj (change ps (own_entries (obj_get perms org)))) perms)) state)" for change
    using assms by (simp add: update_permissions_def assign_in_JObj own_js_or)
  have read: "opt_prop (obj_get perms o') p = obj_get (own_entries (obj_get perms o')) p" for o' p
    by (cases "obj_get perms o'") (simp_all add: opt_prop_def)
  show ?thesis
    unfolding allowMiniAppPermissions_def denyMiniAppPermissions_def clearMiniAppPermissions_def upd
    by (simp add: Let_def get_set_all get_del_all assms(1) read)
qed

theorem permissions_by_origin_witness:
  "\<exists>s1. allowMiniAppPermissions Some ''https://a'' [''navigation''] (initial_mod []) = Some s1 \<and>
    opt_prop (opt_prop (obj_get s1 ''miniAppPermissions'') ''https://a'') ''navigation'' = JBool True"
proof -
  have "obj_get (initial_mod []) ''miniAppPermissions'' = JObj []"
    by (simp add: initial_mod_def obj_get_Cons)
  note permissions_by_origin [OF this, of Some "''https://a''" "''https://a''" "[''navigation'']"]
  then obtain s1 s2 s3 where s1: "allowMiniAppPermissions Some ''https://a'' [''navigation''] (initial_mod []) = Some s1"
    and r: "\<forall>o' p. let read = (\<lambda>s. opt_prop (opt_prop (obj_get s ''miniAppPermissions'') o') p)
       in (read s1, read s2, read s3) =
         (if o' = ''https://a'' \<and> p \<in> set [''navigation''] then (JBool True, JBool False, JUndef)
          else (read (initial_mod []), read (initial_mod []), read (initial_mod [])))"
    by blast
  from r [rule_format, of "''https://a''" "''navigation''"] s1 show ?thesis by (simp add: Let_def)
qed

text \<open>
  A removed mini-app leaves its place behind: adding a custom mini-app puts its url at the
  front of the order, removing it looks for its id there, so after both the url is still in the
  order while the mini-app is gone.
\<close>

theorem removed_mod_stays_in_order:
  assumes "addCustomMod isEqual now (JObj m) state = Some s1" and "obj_get m ''id'' = JStr i"
    and "obj_get m ''url'' = JStr url" and "url \<noteq> i" and "removeCustomMod (JStr i) s1 = Some s2"
  shows "\<exists>order. obj_get s2 ''miniAppOrder'' = JArr order \<and> JStr url \<in> set order \<and>
    opt_prop (obj_get s2 ''customGlobalMods'') i = JUndef"
proof -
  obtain gm where gm: "obj_get state ''customGlobalMods'' = JObj gm"
    using assms(1,2) by (auto simp: addCustomMod_def assign_in_def bind_eq_Some_conv split: jv.splits)
  have "\<exists>order v. obj_get s1 ''miniAppOrder'' = JArr (JStr url # order) \<and>
      obj_get s1 ''customGlobalMods'' = JObj (jm_set i (JObj v) gm)"
    using assms(1-3) gm
    by (auto simp: addCustomMod_def assign_in_def bind_eq_Some_conv upsert_visibility_def Let_def)
  then obtain order v where s1: "obj_get s1 ''miniAppOrder'' = JArr (JStr url # order)"
    "obj_get s1 ''customGlobalMods'' = JObj (jm_set i (JObj v) gm)" by blast
  from removeCustomMod_result [OF assms(5) s1(2,1)] assms(4) show ?thesis
    by (simp add: without_def obj_get_del)
qed

theorem removed_mod_stays_in_order_witness:
  "\<exists>order. obj_get (the (Option.bind (addCustomMod (=) 5
     (JObj [(''id'', JStr ''m''), (''url'', JStr ''https://m'')]) (initial_mod [])) (removeCustomMod (JStr ''m''))))
     ''miniAppOrder'' = JArr order \<and> JStr ''https://m'' \<in> set order"
proof -
  let ?m = "[(''id'', JStr ''m''), (''url'', JStr ''https://m'')]"
  let ?a = "addCustomMod (=) 5 (JObj ?m) (initial_mod [])"
  have "?a \<noteq> None" by code_simp
  then obtain s1 where s1: "?a = Some s1" by blast
  have "Option.bind ?a (removeCustomMod (JStr ''m'')) \<noteq> None" by code_simp
  with s1 obtain s2 where s2: "removeCustomMod (JStr ''m'') s1 = Some s2" by auto
  from removed_mod_stays_in_order [OF s1, of "''m''" "''https://m''"] s1 s2 show ?thesis
    by (auto simp: obj_get_Cons)
qed

end
