(* ===== verification/App_Store.thy ===== *)
theory App_Store
  imports Mod_Slice State_Persistence Storage_Migration_Proofs
begin

text \<open>
  The persisted part of the Redux store as it runs: \<^verbatim>\<open>ui/common/redux/index.ts\<close> (the root reducer
  and the listener that saves the state), \<^verbatim>\<open>redux/storage.ts\<close> (the two thunks) and the
  \<^verbatim>\<open>loadFromStorage.fulfilled\<close> cases of the slices.

  The store is the object \<^verbatim>\<open>combineReducers\<close> builds: a slice state for each name. What
  \<^verbatim>\<open>JSON.parse(JSON.stringify(v))\<close> makes of a value is \<open>json\<close>, so the storage holds values instead
  of texts; \<open>Item None\<close> is a text that does not parse. Actions of slices that are modelled in
  other theories or not at all reach the store as new slice states.
\<close>

section \<open>JSON\<close>

fun json :: "jv \<Rightarrow> jv option" where
  "json JUndef = None"
| "json JNaN = Some JNull"
| "json (JArr xs) = Some (JArr (map (\<lambda>x. case json x of None \<Rightarrow> JNull | Some v \<Rightarrow> v) xs))"
| "json (JObj o') = Some (JObj (concat (map (\<lambda>p. case json (snd p) of
     None \<Rightarrow> [] | Some v \<Rightarrow> [(fst p, v)]) o')))"
| "json v = Some v"

fun field_json :: "jv stored_field \<Rightarrow> jv option" where
  "field_json (Version n) = Some (JNum (int n))"
| "field_json (Ref v) = Option.bind v json"
| "field_json (Nested fs) = json (JObj (map (\<lambda>(k, v). (k, case v of None \<Rightarrow> JUndef | Some x \<Rightarrow> x)) fs))"

definition stored_json :: "(string \<times> jv stored_field) list \<Rightarrow> obj" where
  "stored_json fs = concat (map (\<lambda>(f, x). case field_json x of None \<Rightarrow> [] | Some v \<Rightarrow> [(f, v)]) fs)"

section \<open>The store\<close>

type_synonym store = "(string, obj) jsmap"

definition state_get :: "store \<Rightarrow> string \<Rightarrow> string \<Rightarrow> jv" where
  "state_get st slice key = (case jm_get st slice of None \<Rightarrow> JUndef | Some s \<Rightarrow> obj_get s key)"

definition as_common :: "store \<Rightarrow> jv CommonState" where
  "as_common st slice key =
     (let v = state_get st slice key in if v = JUndef then None else Some v)"

definition stored_of :: "store \<Rightarrow> obj" where
  "stored_of st = stored_json (transformStateToStorage (as_common st))"

text \<open>The persisted fields of the federation and matrix slices, and how they are loaded.\<close>

definition initial_federation :: obj where
  "initial_federation =
    [(''communities'', JArr []), (''federations'', JArr []), (''publicCommunities'', JArr []),
     (''publicFederations'', JArr []), (''autoSelectFederations'', JArr []),
     (''payFromFederationId'', JNull), (''recentlyUsedFederationIds'', JArr []),
     (''lastSelectedCommunityId'', JNull), (''authenticatedGuardian'', JNull),
     (''customFediMods'', JObj []), (''defaultCommunityChats'', JObj []),
     (''gatewaysByFederation'', JObj []), (''seenFederationRatings'', JArr []),
     (''previouslyAutojoinedCommunities'', JObj []), (''autojoinNoticesToDisplay'', JArr []),
     (''guardianitoBot'', JNull), (''selectedFederationId'', JNull),
     (''simulateRecoveryByFederation'', JObj [])]"

definition federation_load :: "jv \<Rightarrow> obj \<Rightarrow> obj" where
  "federation_load payload state =
     (if \<not> truthy payload then state
      else jm_spread state
        [(''recentlyUsedFederationIds'', opt_prop payload ''recentlyUsedFederationIds''),
         (''lastSelectedCommunityId'', opt_prop payload ''lastSelectedCommunityId''),
         (''authenticatedGuardian'', opt_prop payload ''authenticatedGuardian''),
         (''customFediMods'', js_or (opt_prop payload ''customFediMods'') (JObj [])),
         (''seenFederationRatings'', opt_prop payload ''seenFederationRatings''),
         (''previouslyAutojoinedCommunities'',
            js_or (opt_prop payload ''previouslyAutojoinedCommunities'') (JObj [])),
         (''autojoinNoticesToDisplay'', js_or (opt_prop payload ''autojoinNoticesToDisplay'') (JArr [])),
         (''selectedFederationId'', js_or (opt_prop payload ''selectedFederationId'') JNull)])"

definition initial_matrix :: obj where
  "initial_matrix =
    [(''setup'', JBool False), (''started'', JBool False), (''auth'', JNull),
     (''status'', JStr ''uninitialized''), (''roomList'', JArr []), (''roomInfo'', JObj []),
     (''roomMembers'', JObj []), (''roomTimelines'', JObj []), (''roomPaginationStatus'', JObj []),
     (''roomPowerLevels'', JObj []), (''roomNotificationMode'', JObj []),
     (''roomPinnedTimelineItems'', JObj []), (''roomMultispendStatus'', JObj []),
     (''roomMultispendAccountInfo'', JObj []), (''roomMultispendEvents'', JObj []),
     (''spTransferStates'', JObj []), (''users'', JObj []), (''ignoredUsers'', JArr []),
     (''rejectedRoomInvites'', JArr []), (''seenRoomInvites'', JArr []),
     (''seenKnockRequests'', JObj []), (''errors'', JArr []), (''pushNotificationToken'', JNull),
     (''groupPreviews'', JObj []), (''drafts'', JObj []), (''selectedChatMessage'', JNull),
     (''messageToEdit'', JNull), (''previewMedia'', JArr []),
     (''replyingToMessage'', JObj [(''roomId'', JUndef), (''event'', JNull)]),
     (''tempMediaUriMap'', JObj []), (''chatsListSearchQuery'', JStr []),
     (''chatTimelineSearchQuery'', JStr [])]"

definition matrix_load :: "jv \<Rightarrow> obj \<Rightarrow> obj" where
  "matrix_load payload state =
     (if \<not> truthy payload then state
      else jm_spread state
        [(''drafts'', opt_prop payload ''chatDrafts''),
         (''rejectedRoomInvites'', opt_prop payload ''rejectedRoomInvites''),
         (''seenRoomInvites'', opt_prop payload ''seenRoomInvites''),
         (''seenKnockRequests'', opt_prop payload ''seenKnockRequests'')])"

fun on_load :: "(jv \<Rightarrow> obj \<Rightarrow> obj) \<Rightarrow> store_action \<Rightarrow> obj \<Rightarrow> obj option" where
  "on_load load (LoadFulfilled payload uuid) state = Some (load payload state)"
| "on_load load _ state = Some state"

text \<open>What the reducers take from the platform.\<close>

record platform =
  url_origin :: "string \<Rightarrow> string option"
  lodash_isEqual :: "jv \<Rightarrow> jv \<Rightarrow> bool"
  first_party :: obj

definition slice_reducer :: "platform \<Rightarrow> int \<Rightarrow> store_action \<Rightarrow> string \<Rightarrow> obj \<Rightarrow> obj option" where
  "slice_reducer P now action name =
     (if name = ''environment'' then environmentSlice action
      else if name = ''currency'' then currencySlice action
      else if name = ''federation'' then on_load federation_load action
      else if name = ''matrix'' then on_load matrix_load action
      else if name = ''mod'' then modSlice (url_origin P) (lodash_isEqual P) (first_party P) now action
      else if name = ''nux'' then nuxSlice action
      else if name = ''personalBackupReminder'' then personalBackupReminderSlice action
      else if name = ''storage'' then storageSlice action
      else if name = ''toast'' then toastSlice action
      else if name = ''security'' then securitySlice action
      else if name = ''support'' then supportSlice action
      else if name = ''survey'' then surveySlice action
      else if name = ''analytics'' then analyticsSlice action
      else Some)"

definition rootReducer :: "platform \<Rightarrow> int \<Rightarrow> store_action \<Rightarrow> store \<Rightarrow> store option" where
  "rootReducer P now action st =
     mapM (\<lambda>(name, s). do { s' \<leftarrow> slice_reducer P now action name s; Some (name, s') }) st"

definition initial_store :: "platform \<Rightarrow> store" where
  "initial_store P =
    [(''currency'', initial_currency), (''environment'', initial_environment),
     (''federation'', initial_federation), (''matrix'', initial_matrix),
     (''mod'', initial_mod (first_party P)), (''nux'', initial_nux),
     (''personalBackupReminder'', initial_reminder), (''storage'', initial_storage),
     (''toast'', initial_toast), (''security'', initial_security), (''support'', initial_support),
     (''survey'', initial_survey), (''analytics'', initial_analytics)]"

section \<open>The life of the store\<close>

datatype disk_item = NoItem | Item "jv option"

record AppEnv =
  store :: store
  disk :: disk_item
  loadSettled :: bool
  listening :: bool
  saveDue :: bool

definition boot :: "platform \<Rightarrow> disk_item \<Rightarrow> AppEnv" where
  "boot P d = \<lparr> store = initial_store P, disk = d, loadSettled = False, listening = False,
     saveDue = False \<rparr>"

text \<open>
  Dispatching an action: the reducers, then the listener's predicate. \<open>touched\<close> says that some
  persisted field got a new reference although its value is the old one, which the predicate
  counts as a change.
\<close>

definition dispatch ::
  "platform \<Rightarrow> int \<Rightarrow> store_action \<Rightarrow> (string \<times> obj) list \<Rightarrow> bool \<Rightarrow> AppEnv \<Rightarrow> AppEnv" where
  "dispatch P now action others touched s =
     (case rootReducer P now action (store s) of
        None \<Rightarrow> s
      | Some st \<Rightarrow>
          let new = jm_spread st others
          in s\<lparr> store := new,
                saveDue := saveDue s \<or> (listening s \<and>
                  (touched \<or> hasStorageStateChanged (as_common new) (as_common (store s)))) \<rparr>)"

text \<open>
  \<^verbatim>\<open>loadFromStorage\<close>: the stored state, migrated. The outer \<open>None\<close> is a rejected thunk.
\<close>

definition loadFromStorage :: "int \<Rightarrow> (string \<Rightarrow> string option) \<Rightarrow> disk_item \<Rightarrow> jv option" where
  "loadFromStorage now getItem d =
     (case d of
        NoItem \<Rightarrow> Some JNull
      | Item None \<Rightarrow> None
      | Item (Some v) \<Rightarrow> map_option JObj (migrateStoredState now getItem v))"

text \<open>
  The events of \<^verbatim>\<open>initializeCommonStore\<close>. The promise a dispatched thunk returns is always
  fulfilled, so the \<^verbatim>\<open>then\<close> callback that starts the listener runs after a rejected load as well;
  only an exception of a reducer on the fulfilled action would keep it from running.
\<close>

datatype app_event =
    LoadSettles int "string \<Rightarrow> string option" string
  | ThenListen
  | Dispatch int store_action "(string \<times> obj) list" bool
  | SaveTimer int

fun app_step :: "platform \<Rightarrow> AppEnv \<Rightarrow> app_event \<Rightarrow> AppEnv" where
  "app_step P s (LoadSettles now getItem uuid) =
     (if loadSettled s then s
      else case loadFromStorage now getItem (disk s) of
        None \<Rightarrow> s\<lparr>loadSettled := True\<rparr>
      | Some payload \<Rightarrow>
          if rootReducer P now (LoadFulfilled payload uuid) (store s) = None then s
          else (dispatch P now (LoadFulfilled payload uuid) [] True s)\<lparr>loadSettled := True\<rparr>)"
| "app_step P s ThenListen =
     (if loadSettled s \<and> \<not> listening s
      then dispatch P 0 (Reduce ''storage'' ''setReadyToSave'' (JBool True)) [] False (s\<lparr>listening := True\<rparr>)
      else s)"
| "app_step P s (Dispatch now action others touched) = dispatch P now action others touched s"
| "app_step P s (SaveTimer now) =
     (if saveDue s
      then dispatch P now (SaveFulfilled now) [] False
        (s\<lparr>disk := Item (Some (JObj (stored_of (store s)))), saveDue := False\<rparr>)
      else s)"

end
