(* ===== verification/App_Store_Properties.thy ===== *)
theory App_Store_Properties
  imports App_Store
begin

text \<open>
  Properties of the persisted store: what is saved is what the state holds, what is loaded is what
  was saved, and where the code falls short of that.
\<close>

section \<open>The stored object\<close>

lemma map_of_stored_json:
  assumes "distinct (map fst fs)"
  shows "jm_get (stored_json fs) f = Option.bind (map_of fs f) field_json"
  using assms
proof (induction fs)
  case (Cons p fs)
  obtain k x where p: "p = (k, x)" by (cases p)
  have "map_of fs k = None" using Cons.prems p by (simp add: map_of_eq_None_iff)
  with Cons p show ?case
    by (auto simp: stored_json_def jm_get_def split: option.split)
qed (simp add: stored_json_def)

lemma obj_get_stored_of:
  "obj_get (stored_of st) f =
     (case Option.bind (map_of (transformStateToStorage (as_common st)) f) field_json of
        None \<Rightarrow> JUndef | Some v \<Rightarrow> v)"
  by (simp add: stored_of_def obj_get_def map_of_stored_json distinct_stored_names)

lemma persisted_ref:
  assumes "(f, slice, key) \<in> set persisted_paths"
  shows "map_of (transformStateToStorage st) f = Some (Ref (st slice key))"
proof -
  have "(f, Ref (st slice key)) \<in> set (transformStateToStorage st)"
    using assms unfolding transformStateToStorage_def by force
  then show ?thesis by (simp add: distinct_stored_names)
qed

text \<open>A value that survives \<^verbatim>\<open>JSON.stringify\<close>.\<close>

definition survives :: "jv \<Rightarrow> bool" where
  "survives v \<longleftrightarrow> v = JUndef \<or> json v = Some v"

lemma obj_get_stored_path:
  assumes "(f, slice, key) \<in> set persisted_paths" and "survives (state_get st slice key)"
  shows "obj_get (stored_of st) f = state_get st slice key"
  using assms(2)
  by (auto simp: obj_get_stored_of persisted_ref [OF assms(1)] as_common_def Let_def survives_def)

lemma stored_version: "obj_get (stored_of st) ''version'' = JNum 49"
  by (simp add: obj_get_stored_of transformStateToStorage_def)

text \<open>A stored state of the latest version is loaded as it is.\<close>

lemma run_migrations_skip:
  assumes "obj_get m ''version'' = JNum (int n)" and "k + length fs \<le> n"
  shows "run_migrations k fs m = Some m"
  using assms(2) by (induction fs arbitrary: k) (simp_all add: js_seq_def assms(1))

lemma load_saved:
  "loadFromStorage now getItem (Item (Some (JObj (stored_of st)))) = Some (JObj (stored_of st))"
  using run_migrations_skip [of "stored_of st" 49 0 "migrations now getItem"]
  by (simp add: loadFromStorage_def migrateStoredState_def stored_version length_migrations latest_version_def)

section \<open>The root reducer\<close>

lemma rootReducer_get:
  "rootReducer P now a st = Some st' \<Longrightarrow>
   jm_get st' n = Option.bind (jm_get st n) (slice_reducer P now a n)"
proof (induction st arbitrary: st')
  case (Cons p st)
  then show ?case
    by (cases p) (auto simp: rootReducer_def bind_eq_Some_conv jm_get_Cons split: if_splits)
qed (simp add: rootReducer_def)

lemma rootReducer_total:
  "(\<And>n s. (n, s) \<in> set st \<Longrightarrow> slice_reducer P now a n s \<noteq> None) \<Longrightarrow> rootReducer P now a st \<noteq> None"
  unfolding rootReducer_def
proof (induction st)
  case (Cons p st)
  obtain n s where p: "p = (n, s)" by (cases p)
  obtain s' where "slice_reducer P now a n s = Some s'" using Cons.prems [of n s] p by auto
  moreover have "mapM (\<lambda>(name, s). do { s' \<leftarrow> slice_reducer P now a name s; Some (name, s') }) st \<noteq> None"
    by (rule Cons.IH) (use Cons.prems in auto)
  ultimately show ?case using p by auto
qed simp

text \<open>Actions that only the slices \<^verbatim>\<open>toast\<close> and \<^verbatim>\<open>storage\<close> answer, which hold nothing persisted.\<close>

fun transient :: "store_action \<Rightarrow> bool" where
  "transient (Reduce slice name payload) = (slice \<in> {''toast'', ''storage''})"
| "transient (SaveFulfilled now) = True"
| "transient _ = False"

lemma transient_slices:
  assumes "transient a"
  shows "environmentSlice a s = Some s" "currencySlice a s = Some s" "on_load load a s = Some s"
    "modSlice org eq fp now a s = Some s" "nuxSlice a s = Some s"
    "personalBackupReminderSlice a s = Some s" "securitySlice a s = Some s"
    "supportSlice a s = Some s" "surveySlice a s = Some s" "analyticsSlice a s = Some s"
  using assms by (cases a; auto)+

lemma transient_reducer:
  assumes "transient a"
  shows "n \<notin> {''toast'', ''storage''} \<Longrightarrow> slice_reducer P now a n s = Some s"
    and "slice_reducer P now a n s \<noteq> None"
proof -
  show other: "slice_reducer P now a n s = Some s" if "n \<notin> {''toast'', ''storage''}"
    using that by (simp add: slice_reducer_def transient_slices [OF assms])
  have "toastSlice a s \<noteq> None" "storageSlice a s \<noteq> None" by (cases a; simp)+
  moreover have "slice_reducer P now a ''toast'' = toastSlice a" "slice_reducer P now a ''storage'' = storageSlice a"
    by (simp_all add: slice_reducer_def)
  ultimately show "slice_reducer P now a n s \<noteq> None"
    using other by (cases "n = ''toast''"; cases "n = ''storage''") auto
qed

lemma hasStorageStateChanged_cong:
  assumes "\<And>slice key. slice \<notin> {''toast'', ''storage''} \<Longrightarrow> s slice key = t slice key"
  shows "\<not> hasStorageStateChanged s t"
proof -
  have "list_all (\<lambda>(slice, key). slice \<notin> {''toast'', ''storage''}) keysetsToCheck" by code_simp
  then show ?thesis using assms by (force simp: hasStorageStateChanged_def list_ex_iff list_all_iff)
qed

lemma dispatch_transient:
  assumes "transient a"
  obtains st where "rootReducer P now a (store s) = Some st"
    and "dispatch P now a [] False s = s\<lparr>store := st\<rparr>"
    and "\<And>slice key. slice \<notin> {''toast'', ''storage''} \<Longrightarrow> state_get st slice key = state_get (store s) slice key"
proof -
  obtain st where st: "rootReducer P now a (store s) = Some st"
    using rootReducer_total [of "store s" P now a] transient_reducer(2) [OF assms] by auto
  have get: "state_get st slice key = state_get (store s) slice key" if "slice \<notin> {''toast'', ''storage''}" for slice key
    using that rootReducer_get [OF st, of slice] transient_reducer(1) [OF assms]
    by (auto simp: state_get_def split: option.splits)
  then have "\<not> hasStorageStateChanged (as_common st) (as_common (store s))"
    by (intro hasStorageStateChanged_cong) (simp add: as_common_def)
  with st have "dispatch P now a [] False s = s\<lparr>store := st\<rparr>"
    by (simp add: dispatch_def jm_spread_def)
  from that [OF st this] get show ?thesis by blast
qed

section \<open>Saving\<close>

lemma get_stored_cong:
  assumes "map_of (transformStateToStorage (as_common st)) f = map_of (transformStateToStorage (as_common st')) f"
  shows "obj_get (stored_of st) f = obj_get (stored_of st') f"
  by (simp add: obj_get_stored_of assms)

abbreviation rates :: "string set" where
  "rates \<equiv> {''btcUsdRate'', ''fiatUsdRates''}"

text \<open>What is on disk is what a state would write that agrees with the present one unless a save is due.\<close>

definition saved_inv :: "AppEnv \<Rightarrow> bool" where
  "saved_inv s \<longleftrightarrow> listening s \<and> loadSettled s \<and>
     (\<exists>st. disk s = Item (Some (JObj (stored_of st))) \<and>
        (\<not> saveDue s \<longrightarrow> (\<forall>f. f \<notin> rates \<longrightarrow>
           obj_get (stored_of st) f = obj_get (stored_of (store s)) f)))"

lemma dispatch_frame:
  "listening (dispatch P now a oth t s) = listening s"
  "loadSettled (dispatch P now a oth t s) = loadSettled s"
  "disk (dispatch P now a oth t s) = disk s"
  by (simp_all add: dispatch_def Let_def split: option.split)

lemma dispatch_unsaved:
  assumes "listening s" and "\<not> saveDue (dispatch P now a oth t s)" and "f \<notin> rates"
  shows "\<not> saveDue s \<and>
    obj_get (stored_of (store (dispatch P now a oth t s))) f = obj_get (stored_of (store s)) f"
proof (cases "rootReducer P now a (store s)")
  case None
  with assms show ?thesis by (simp add: dispatch_def)
next
  case (Some st)
  with assms have "\<not> saveDue s"
    "\<not> hasStorageStateChanged (as_common (jm_spread st oth)) (as_common (store s))"
    by (auto simp: dispatch_def Let_def)
  with unchanged_fields [OF this(2)] assms(3) Some show ?thesis
    by (auto simp: dispatch_def Let_def intro!: get_stored_cong)
qed

lemma dispatch_saved: "saved_inv s \<Longrightarrow> saved_inv (dispatch P now a oth t s)"
  unfolding saved_inv_def dispatch_frame using dispatch_unsaved by metis

lemma saved_step:
  assumes "saved_inv s"
  shows "saved_inv (app_step P s e)"
proof (cases e)
  case (SaveTimer now)
  show ?thesis
  proof (cases "saveDue s")
    case True
    have "saved_inv (s\<lparr>disk := Item (Some (JObj (stored_of (store s)))), saveDue := False\<rparr>)"
      using assms by (auto simp: saved_inv_def)
    with True SaveTimer show ?thesis by (simp add: dispatch_saved)
  qed (use SaveTimer assms in simp)
next
  case (LoadSettles now getItem uuid)
  with assms show ?thesis by (simp add: saved_inv_def)
next
  case ThenListen
  with assms show ?thesis by (simp add: saved_inv_def)
next
  case (Dispatch now a oth t)
  with dispatch_saved [OF assms] show ?thesis by simp
qed

interpretation saved: invariant_machine "app_step P" "\<lambda>_. True" saved_inv for P
  by unfold_locales (rule saved_step)


definition bare :: platform where
  "bare = \<lparr>url_origin = Some, lodash_isEqual = (=), first_party = []\<rparr>"

abbreviation started :: "platform \<Rightarrow> disk_item \<Rightarrow> AppEnv" where
  "started P d \<equiv> run (app_step P) (boot P d) [LoadSettles 0 (\<lambda>_. None) ''uuid'', ThenListen]"

abbreviation developer_mode :: app_event where
  "developer_mode \<equiv> Dispatch 0 (Reduce ''environment'' ''setDeveloperMode'' (JBool True)) [] False"


section \<open>Starting\<close>

lemma dispatch_idle:
  assumes "\<not> listening s" and "rootReducer P now a (store s) = Some st"
  shows "dispatch P now a [] t s = s\<lparr>store := st\<rparr>"
  using assms by (simp add: dispatch_def jm_spread_def)

lemma ready_step:
  assumes "loadSettled s" and "\<not> listening s" and "\<not> saveDue s"
  obtains st where "app_step P s ThenListen = s\<lparr>listening := True, store := st\<rparr>"
    and "\<And>slice key. slice \<notin> {''toast'', ''storage''} \<Longrightarrow> state_get st slice key = state_get (store s) slice key"
proof -
  let ?a = "Reduce ''storage'' ''setReadyToSave'' (JBool True)" and ?s = "s\<lparr>listening := True\<rparr>"
  obtain st where "dispatch P 0 ?a [] False ?s = ?s\<lparr>store := st\<rparr>"
    "\<And>slice key. slice \<notin> {''toast'', ''storage''} \<Longrightarrow> state_get st slice key = state_get (store ?s) slice key"
    by (rule dispatch_transient [of ?a P 0 ?s]) auto
  with assms show ?thesis by (intro that [of st]) auto
qed

text \<open>
  A rejected load does not stop the saver: when the stored state cannot be read or
  migrated, the first action that changes a persisted field overwrites it with the initial state
  and that change, and what was stored is lost.
\<close>

theorem failed_load_overwrites:
  assumes "loadFromStorage t getItem d = None"
    and "s = run (app_step P) (boot P d) [LoadSettles t getItem uuid, ThenListen]"
    and "rootReducer P now a (store s) = Some st"
    and "hasStorageStateChanged (as_common st) (as_common (store s))"
  shows "disk (run (app_step P) s [Dispatch now a [] False, SaveTimer t']) = Item (Some (JObj (stored_of st))) \<and>
    (\<forall>slice key. slice \<notin> {''toast'', ''storage''} \<longrightarrow>
       state_get (store s) slice key = state_get (initial_store P) slice key)"
proof (intro conjI allI impI)
  let ?b = "(boot P d)\<lparr>loadSettled := True\<rparr>"
  have "app_step P (boot P d) (LoadSettles t getItem uuid) = ?b"
    using assms(1) by (simp add: boot_def)
  moreover obtain st0 where st0: "app_step P ?b ThenListen = ?b\<lparr>listening := True, store := st0\<rparr>"
    "\<And>slice key. slice \<notin> {''toast'', ''storage''} \<Longrightarrow> state_get st0 slice key = state_get (store ?b) slice key"
    by (rule ready_step [of ?b P]) (auto simp: boot_def)
  ultimately have s: "s = ?b\<lparr>listening := True, store := st0\<rparr>" unfolding assms(2) by (simp only: run.simps)
  show "disk (run (app_step P) s [Dispatch now a [] False, SaveTimer t']) = Item (Some (JObj (stored_of st)))"
    using assms(3,4) by (simp add: s dispatch_frame) (simp add: dispatch_def jm_spread_def dispatch_frame)
  show "state_get (store s) slice key = state_get (initial_store P) slice key"
    if "slice \<notin> {''toast'', ''storage''}" for slice key
    using st0(2) that by (simp add: s boot_def)
qed

lemma developer_mode_reducer:
  assumes "rootReducer P now (Reduce ''environment'' ''setDeveloperMode'' v) st = Some st'"
    and "jm_get st ''environment'' = Some e"
  shows "state_get st' ''environment'' ''developerMode'' = v"
  using rootReducer_get [OF assms(1), of "''environment''"] assms(2)
  by (simp add: state_get_def slice_reducer_def environment_setters_def)

lemma developer_mode_watched: "(''environment'', ''developerMode'') \<in> set keysetsToCheck"
  by (simp add: keysetsToCheck_def)

theorem failed_load_overwrites_witness:
  "\<exists>st. disk (run (app_step bare) (run (app_step bare) (boot bare (Item None))
       [LoadSettles 0 (\<lambda>_. None) ''u'', ThenListen])
       [Dispatch 0 (Reduce ''environment'' ''setDeveloperMode'' (JBool True)) [] False, SaveTimer 1]) =
     Item (Some (JObj (stored_of st)))"
proof -
  let ?a = "Reduce ''environment'' ''setDeveloperMode'' (JBool True)"
  let ?s = "run (app_step bare) (boot bare (Item None)) [LoadSettles 0 (\<lambda>_. None) ''u'', ThenListen]"
  let ?b = "(boot bare (Item None))\<lparr>loadSettled := True\<rparr>"
  have load: "loadFromStorage 0 (\<lambda>_. None) (Item None) = None" by (simp add: loadFromStorage_def)
  then have b: "app_step bare (boot bare (Item None)) (LoadSettles 0 (\<lambda>_. None) ''u'') = ?b"
    by (simp add: boot_def)
  obtain st0 where st0: "app_step bare ?b ThenListen = ?b\<lparr>listening := True, store := st0\<rparr>"
    "\<And>slice key. slice \<notin> {''toast'', ''storage''} \<Longrightarrow> state_get st0 slice key = state_get (store ?b) slice key"
    by (rule ready_step [of ?b bare]) (auto simp: boot_def)
  have s: "?s = ?b\<lparr>listening := True, store := st0\<rparr>" by (simp only: run.simps b st0(1))
  have old: "state_get (store ?s) ''environment'' ''developerMode'' = JBool False"
    using st0(2) [of "''environment''" "''developerMode''"]
    by (simp only: s) (simp add: boot_def state_get_def initial_store_def jm_get_Cons initial_environment_def obj_get_Cons)
  then obtain e where e: "jm_get (store ?s) ''environment'' = Some e"
    by (auto simp: state_get_def split: option.splits)
  have "slice_reducer bare 0 ?a n x \<noteq> None" for n x
    by (simp add: slice_reducer_def environment_setters_def)
  then obtain st where st: "rootReducer bare 0 ?a (store ?s) = Some st"
    using rootReducer_total [of "store ?s" bare 0 ?a] by auto
  have "hasStorageStateChanged (as_common st) (as_common (store ?s))"
    using developer_mode_watched developer_mode_reducer [OF st e] old
    by (force simp: hasStorageStateChanged_def list_ex_iff as_common_def Let_def)
  from failed_load_overwrites [OF load refl st this] show ?thesis by blast
qed

fun quiet :: "app_event \<Rightarrow> bool" where
  "quiet (Dispatch now a oth t) = (transient a \<and> oth = [] \<and> \<not> t)"
| "quiet (SaveTimer now) = True"
| "quiet _ = False"

lemma quiet_step:
  assumes "quiet e" and "\<not> saveDue s"
  shows "\<not> saveDue (app_step P s e) \<and> disk (app_step P s e) = disk s \<and>
    (slice \<notin> {''toast'', ''storage''} \<longrightarrow> state_get (store (app_step P s e)) slice key = state_get (store s) slice key)"
proof (cases e)
  case (Dispatch now a oth t)
  with assms(1) have q: "transient a" "oth = []" "\<not> t" by simp_all
  obtain st where "dispatch P now a [] False s = s\<lparr>store := st\<rparr>"
    "\<And>slice key. slice \<notin> {''toast'', ''storage''} \<Longrightarrow> state_get st slice key = state_get (store s) slice key"
    by (rule dispatch_transient [OF q(1), of P now s]) blast
  with Dispatch q assms(2) show ?thesis by simp
next
  case (SaveTimer now)
  with assms(2) show ?thesis by simp
qed (use assms in simp_all)

lemma quiet_run:
  assumes "list_all quiet es" and "\<not> saveDue s"
  shows "\<not> saveDue (run (app_step P) s es) \<and> disk (run (app_step P) s es) = disk s \<and>
    (slice \<notin> {''toast'', ''storage''} \<longrightarrow>
      state_get (store (run (app_step P) s es)) slice key = state_get (store s) slice key)"
  using assms
proof (induction es arbitrary: s)
  case (Cons e es)
  from Cons.prems quiet_step [of e s P slice key] Cons.IH [of "app_step P s e"] show ?case by simp
qed simp

text \<open>
  The analytics identifier that is generated at start is not written by the start: the
  listener is installed after the load, so until some other persisted field changes nothing is
  saved, and an application that is closed before generates another identifier at its next start.
\<close>

theorem generated_id_not_saved:
  assumes "loadFromStorage t getItem d = Some payload"
    and "rootReducer P t (LoadFulfilled payload uuid) (initial_store P) \<noteq> None"
    and "\<not> truthy (opt_prop payload ''analyticsId'')" and "list_all quiet es"
    and "s = run (app_step P) (boot P d) (LoadSettles t getItem uuid # ThenListen # es)"
  shows "disk s = d \<and> state_get (store s) ''analytics'' ''analyticsId'' = JStr uuid"
proof -
  obtain st where st: "rootReducer P t (LoadFulfilled payload uuid) (initial_store P) = Some st"
    using assms(2) by blast
  let ?s1 = "(boot P d)\<lparr>store := st, loadSettled := True\<rparr>"
  have s1: "app_step P (boot P d) (LoadSettles t getItem uuid) = ?s1"
    using assms(1) st by (simp add: boot_def dispatch_def jm_spread_def)
  have "jm_get (initial_store P) ''analytics'' = Some initial_analytics"
    by (simp add: initial_store_def jm_get_Cons)
  then have id: "state_get st ''analytics'' ''analyticsId'' = JStr uuid"
    using rootReducer_get [OF st, of "''analytics''"] assms(3)
    by (simp add: state_get_def slice_reducer_def analytics_load_def obj_get_spread Let_def)
  obtain st2 where s2: "app_step P ?s1 ThenListen = ?s1\<lparr>listening := True, store := st2\<rparr>"
    "\<And>slice key. slice \<notin> {''toast'', ''storage''} \<Longrightarrow> state_get st2 slice key = state_get (store ?s1) slice key"
    by (rule ready_step [of ?s1 P]) (auto simp: boot_def)
  let ?s2 = "?s1\<lparr>listening := True, store := st2\<rparr>"
  have "s = run (app_step P) ?s2 es" unfolding assms(5) run.simps s1 s2(1) by (rule refl)
  with quiet_run [OF assms(4), of ?s2 P "''analytics''" "''analyticsId''"] s2(2) id
  show ?thesis by (simp add: boot_def)
qed

theorem generated_id_not_saved_witness:
  "disk (run (app_step bare) (boot bare NoItem) [LoadSettles 0 (\<lambda>_. None) ''u'', ThenListen]) = NoItem"
proof -
  have "loadFromStorage 0 (\<lambda>_. None) NoItem = Some JNull" by (simp add: loadFromStorage_def)
  moreover have "slice_reducer bare 0 (LoadFulfilled JNull ''u'') n x \<noteq> None" for n x
    by (simp add: slice_reducer_def nux_load_def)
  then have "rootReducer bare 0 (LoadFulfilled JNull ''u'') (initial_store bare) \<noteq> None"
    by (rule rootReducer_total)
  moreover have "\<not> truthy (opt_prop JNull ''analyticsId'')" by (simp add: opt_prop_def)
  ultimately show ?thesis using generated_id_not_saved [of 0 "\<lambda>_. None" NoItem JNull bare "''u''" "[]"] by simp
qed

section \<open>Saving and loading\<close>

text \<open>The types of the persisted fields inside the running store, slice by slice.\<close>

definition TBools :: "string list \<Rightarrow> jty" where
  "TBools ks = TFields (map (\<lambda>k. (k, TBool)) ks)"

definition persisted_types :: "(string \<times> string \<times> jty) list" where
  "persisted_types =
    [(''environment'', ''language'', TUnion TNull TStr),
     (''environment'', ''amountInputType'', TUnion TUndef (TUnion (TLit ''sats'') (TLit ''fiat''))),
     (''environment'', ''onchainDepositsEnabled'', TBool), (''environment'', ''developerMode'', TBool),
     (''environment'', ''stableBalanceEnabled'', TBool),
     (''environment'', ''transactionDisplayType'', TUnion (TLit ''sats'') (TLit ''fiat'')),
     (''environment'', ''deviceId'', TUnion TUndef TStr), (''environment'', ''sessionCount'', TNum),
     (''environment'', ''lastUsedTab'', TStr), (''environment'', ''paymentType'', TStr),
     (''environment'', ''latestAwareReleaseTag'', TUnion TNull TStr),
     (''federation'', ''customFediMods'', TRec TAny),
     (''federation'', ''previouslyAutojoinedCommunities'', TRec TNum),
     (''federation'', ''autojoinNoticesToDisplay'', TArr TStr),
     (''mod'', ''customGlobalMods'', TRec TAny), (''mod'', ''modVisibility'', TRec TAny),
     (''mod'', ''newMods'', TArr TStr), (''mod'', ''miniAppOrder'', TArr TStr),
     (''mod'', ''miniAppPermissions'', TRec TAny), (''nux'', ''steps'', TRec TBool),
     (''security'', ''protectedFeatures'', TRec TBool),
     (''analytics'', ''hasConsentedToAnalytics'', TUnion TNull TBool),
     (''analytics'', ''hasSeenAnalyticsConsentModal'', TBool),
     (''personalBackupReminder'', ''countdownStartedAt'', TUnion TNull TNum),
     (''personalBackupReminder'', ''hasReachedThresholds'', TBool),
     (''support'', ''supportPermissionGranted'', TBool),
     (''support'', ''zendeskPushNotificationToken'', TUnion TNull TStr)]"

text \<open>
  A state as the application types it, whose persisted values survive JSON, whose selected
  federation is not the empty string, and which has an analytics identifier.
\<close>

definition app_ok :: "store \<Rightarrow> bool" where
  "app_ok st \<longleftrightarrow>
     list_all (\<lambda>(slice, key, t). has_ty t (state_get st slice key)) persisted_types \<and>
     list_all (\<lambda>(f, slice, key). survives (state_get st slice key)) persisted_paths \<and>
     list_all (\<lambda>(slice, key). distinct (map fst (own_entries (state_get st slice key))))
       [(''mod'', ''miniAppPermissions''), (''nux'', ''steps''), (''security'', ''protectedFeatures'')] \<and>
     (state_get st ''federation'' ''selectedFederationId'' = JNull \<or>
      truthy (state_get st ''federation'' ''selectedFederationId'')) \<and>
     truthy (state_get st ''analytics'' ''analyticsId'')"

text \<open>The payload of a load after a save, field by field.\<close>

abbreviation saved_payload :: "store \<Rightarrow> jv" where
  "saved_payload st \<equiv> JObj (stored_of st)"

lemma payload_paths:
  assumes "app_ok st"
  shows "list_all (\<lambda>(f, slice, key). obj_get (stored_of st) f = state_get st slice key) persisted_paths"
  using assms obj_get_stored_path by (force simp: app_ok_def list_all_iff)

lemmas payload_fields = payload_paths [unfolded persisted_paths_def list.pred_inject prod.case simp_thms]

lemma app_types:
  assumes "app_ok st"
  shows "list_all (\<lambda>(slice, key, t). has_ty t (state_get st slice key)) persisted_types"
  using assms by (simp add: app_ok_def)

lemmas app_type_fields = app_types [unfolded persisted_types_def list.pred_inject prod.case simp_thms]

definition def_or :: "jv \<Rightarrow> jv \<Rightarrow> jv" where
  "def_or v w = (if v \<noteq> JUndef then v else w)"

lemma obj_get_if_truthy: "obj_get (load_if_truthy p k s) k' =
    (if k' = k then js_or (opt_prop p k) (obj_get s k) else obj_get s k')"
  by (simp add: load_if_truthy_def js_or_def)

lemma obj_get_if_defined: "obj_get (load_if_defined p k s) k' =
    (if k' = k then def_or (opt_prop p k) (obj_get s k) else obj_get s k')"
  by (simp add: load_if_defined_def def_or_def)

lemma keep_typed:
  "has_ty TBool v \<Longrightarrow> js_or v (JBool False) = v"
  "has_ty (TUnion TUndef (TUnion (TLit ''sats'') (TLit ''fiat''))) v \<Longrightarrow> js_or v JUndef = v"
  "has_ty (TUnion (TLit ''sats'') (TLit ''fiat'')) v \<Longrightarrow> js_or v w = v"
  "def_or v JUndef = v"
  "has_ty TStr v \<Longrightarrow> def_or v w = v" "has_ty (TUnion TNull TStr) v \<Longrightarrow> def_or v w = v"
  "has_ty TNum v \<Longrightarrow> v \<noteq> JUndef"
  "has_ty (TRec t) v \<Longrightarrow> js_or v w = v" "has_ty (TArr t) v \<Longrightarrow> js_or v w = v"
  "has_ty TBool v \<Longrightarrow> js_nullish v w = v"
  "has_ty (TUnion TNull t) v \<Longrightarrow> t = TBool \<or> t = TStr \<or> t = TNum \<Longrightarrow> js_nullish v JNull = v"
  by (cases v; auto simp: js_or_def js_nullish_def def_or_def has_ty.simps)+

lemma payload_environment:
  assumes "app_ok st"
  shows "obj_get (stored_of st) ''language'' = state_get st ''environment'' ''language''"
    "obj_get (stored_of st) ''amountInputType'' = state_get st ''environment'' ''amountInputType''"
    "obj_get (stored_of st) ''onchainDepositsEnabled'' = state_get st ''environment'' ''onchainDepositsEnabled''"
    "obj_get (stored_of st) ''developerMode'' = state_get st ''environment'' ''developerMode''"
    "obj_get (stored_of st) ''stableBalanceEnabled'' = state_get st ''environment'' ''stableBalanceEnabled''"
    "obj_get (stored_of st) ''transactionDisplayType'' = state_get st ''environment'' ''transactionDisplayType''"
    "obj_get (stored_of st) ''deviceId'' = state_get st ''environment'' ''deviceId''"
    "obj_get (stored_of st) ''sessionCount'' = state_get st ''environment'' ''sessionCount''"
    "obj_get (stored_of st) ''lastUsedTab'' = state_get st ''environment'' ''lastUsedTab''"
    "obj_get (stored_of st) ''paymentType'' = state_get st ''environment'' ''paymentType''"
    "obj_get (stored_of st) ''latestAwareReleaseTag'' = state_get st ''environment'' ''latestAwareReleaseTag''"
  using payload_fields [OF assms] by blast+

lemma types_environment:
  assumes "app_ok st"
  shows "has_ty (TUnion TUndef (TUnion (TLit ''sats'') (TLit ''fiat''))) (state_get st ''environment'' ''amountInputType'')"
    "has_ty TBool (state_get st ''environment'' ''onchainDepositsEnabled'')"
    "has_ty TBool (state_get st ''environment'' ''developerMode'')"
    "has_ty TBool (state_get st ''environment'' ''stableBalanceEnabled'')"
    "has_ty (TUnion (TLit ''sats'') (TLit ''fiat'')) (state_get st ''environment'' ''transactionDisplayType'')"
    "has_ty TNum (state_get st ''environment'' ''sessionCount'')"
    "has_ty TStr (state_get st ''environment'' ''lastUsedTab'')"
    "has_ty TStr (state_get st ''environment'' ''paymentType'')"
    "has_ty (TUnion TNull TStr) (state_get st ''environment'' ''latestAwareReleaseTag'')"
  using app_type_fields [OF assms] by blast+

lemma environment_reload:
  assumes "app_ok st"
  shows "\<forall>k \<in> set [''language'', ''amountInputType'', ''onchainDepositsEnabled'',
    ''developerMode'', ''stableBalanceEnabled'', ''transactionDisplayType'', ''deviceId'', ''lastUsedTab'',
    ''paymentType'', ''latestAwareReleaseTag''].
      obj_get (environment_load (saved_payload st) initial_environment) k = state_get st ''environment'' k"
    and "obj_get (environment_load (saved_payload st) initial_environment) ''sessionCount'' =
      js_succ (state_get st ''environment'' ''sessionCount'')"
  unfolding environment_load_def initial_environment_def
  by (simp_all add: Let_def obj_get_if_truthy obj_get_if_defined obj_get_Cons payload_environment [OF assms]
      keep_typed types_environment [OF assms] del: has_ty.simps)

lemma payload_currency:
  assumes "app_ok st"
  shows "obj_get (stored_of st) ''currency'' = state_get st ''currency'' ''overrideCurrency''"
    "obj_get (stored_of st) ''btcUsdRate'' = state_get st ''currency'' ''btcUsdRate''"
    "obj_get (stored_of st) ''fiatUsdRates'' = state_get st ''currency'' ''fiatUsdRates''"
    "obj_get (stored_of st) ''customFederationCurrencies'' = state_get st ''currency'' ''customFederationCurrencies''"
    "obj_get (stored_of st) ''balanceDisplay'' = state_get st ''currency'' ''balanceDisplay''"
  using payload_fields [OF assms] by blast+

lemma payload_federation:
  assumes "app_ok st"
  shows "obj_get (stored_of st) ''authenticatedGuardian'' = state_get st ''federation'' ''authenticatedGuardian''"
    "obj_get (stored_of st) ''customFediMods'' = state_get st ''federation'' ''customFediMods''"
    "obj_get (stored_of st) ''seenFederationRatings'' = state_get st ''federation'' ''seenFederationRatings''"
    "obj_get (stored_of st) ''lastSelectedCommunityId'' = state_get st ''federation'' ''lastSelectedCommunityId''"
    "obj_get (stored_of st) ''recentlyUsedFederationIds'' = state_get st ''federation'' ''recentlyUsedFederationIds''"
    "obj_get (stored_of st) ''previouslyAutojoinedCommunities'' = state_get st ''federation'' ''previouslyAutojoinedCommunities''"
    "obj_get (stored_of st) ''autojoinNoticesToDisplay'' = state_get st ''federation'' ''autojoinNoticesToDisplay''"
    "obj_get (stored_of st) ''selectedFederationId'' = state_get st ''federation'' ''selectedFederationId''"
  using payload_fields [OF assms] by blast+

lemma types_federation:
  assumes "app_ok st"
  shows "has_ty (TRec TAny) (state_get st ''federation'' ''customFediMods'')"
    "has_ty (TRec TNum) (state_get st ''federation'' ''previouslyAutojoinedCommunities'')"
    "has_ty (TArr TStr) (state_get st ''federation'' ''autojoinNoticesToDisplay'')"
  using app_type_fields [OF assms] by blast+

lemma payload_matrix:
  assumes "app_ok st"
  shows "obj_get (stored_of st) ''chatDrafts'' = state_get st ''matrix'' ''drafts''"
    "obj_get (stored_of st) ''rejectedRoomInvites'' = state_get st ''matrix'' ''rejectedRoomInvites''"
    "obj_get (stored_of st) ''seenRoomInvites'' = state_get st ''matrix'' ''seenRoomInvites''"
    "obj_get (stored_of st) ''seenKnockRequests'' = state_get st ''matrix'' ''seenKnockRequests''"
  using payload_fields [OF assms] by blast+

lemma payload_mod:
  assumes "app_ok st"
  shows "obj_get (stored_of st) ''customGlobalMods'' = state_get st ''mod'' ''customGlobalMods''"
    "obj_get (stored_of st) ''miniAppPermissions'' = state_get st ''mod'' ''miniAppPermissions''"
    "obj_get (stored_of st) ''miniAppOrder'' = state_get st ''mod'' ''miniAppOrder''"
    "obj_get (stored_of st) ''modVisibility'' = state_get st ''mod'' ''modVisibility''"
    "obj_get (stored_of st) ''newMods'' = state_get st ''mod'' ''newMods''"
  using payload_fields [OF assms] by blast+

lemma types_mod:
  assumes "app_ok st"
  shows "has_ty (TRec TAny) (state_get st ''mod'' ''customGlobalMods'')"
    "has_ty (TRec TAny) (state_get st ''mod'' ''modVisibility'')"
    "has_ty (TArr TStr) (state_get st ''mod'' ''newMods'')"
    "has_ty (TArr TStr) (state_get st ''mod'' ''miniAppOrder'')"
    "has_ty (TRec TAny) (state_get st ''mod'' ''miniAppPermissions'')"
  using app_type_fields [OF assms] by blast+

lemma payload_nux:
  assumes "app_ok st"
  shows "obj_get (stored_of st) ''nuxSteps'' = state_get st ''nux'' ''steps''"
  using payload_fields [OF assms] by blast+

lemma types_nux:
  assumes "app_ok st"
  shows "has_ty (TRec TBool) (state_get st ''nux'' ''steps'')"
  using app_type_fields [OF assms] by blast+

lemma payload_security:
  assumes "app_ok st"
  shows "obj_get (stored_of st) ''protectedFeatures'' = state_get st ''security'' ''protectedFeatures''"
  using payload_fields [OF assms] by blast+

lemma types_security:
  assumes "app_ok st"
  shows "has_ty (TRec TBool) (state_get st ''security'' ''protectedFeatures'')"
  using app_type_fields [OF assms] by blast+

lemma payload_survey:
  assumes "app_ok st"
  shows "obj_get (stored_of st) ''lastShownSurveyTimestamp'' = state_get st ''survey'' ''lastShownSurveyTimestamp''"
    "obj_get (stored_of st) ''surveyCompletions'' = state_get st ''survey'' ''surveyCompletions''"
  using payload_fields [OF assms] by blast+

lemma payload_analytics:
  assumes "app_ok st"
  shows "obj_get (stored_of st) ''analyticsId'' = state_get st ''analytics'' ''analyticsId''"
    "obj_get (stored_of st) ''hasConsentedToAnalytics'' = state_get st ''analytics'' ''hasConsentedToAnalytics''"
    "obj_get (stored_of st) ''hasSeenAnalyticsConsentModal'' = state_get st ''analytics'' ''hasSeenAnalyticsConsentModal''"
  using payload_fields [OF assms] by blast+

lemma types_analytics:
  assumes "app_ok st"
  shows "has_ty (TUnion TNull TBool) (state_get st ''analytics'' ''hasConsentedToAnalytics'')"
    "has_ty (TBool) (state_get st ''analytics'' ''hasSeenAnalyticsConsentModal'')"
  using app_type_fields [OF assms] by blast+

lemma types_nested:
  assumes "app_ok st"
  shows "has_ty (TUnion TNull TNum) (state_get st ''personalBackupReminder'' ''countdownStartedAt'')"
    "has_ty (TBool) (state_get st ''personalBackupReminder'' ''hasReachedThresholds'')"
  using app_type_fields [OF assms] by blast+

lemma types_support:
  assumes "app_ok st"
  shows "has_ty (TBool) (state_get st ''support'' ''supportPermissionGranted'')"
    "has_ty (TUnion TNull TStr) (state_get st ''support'' ''zendeskPushNotificationToken'')"
  using app_type_fields [OF assms] by blast+

lemma currency_reload:
  assumes "app_ok st"
  shows "\<forall>k \<in> set [''overrideCurrency'', ''btcUsdRate'', ''fiatUsdRates'', ''customFederationCurrencies'', ''balanceDisplay''].
    obj_get (currency_load (saved_payload st) initial_currency) k = state_get st ''currency'' k"
  unfolding currency_load_def 
  by (simp add: Let_def obj_get_spread keep_typed payload_currency [OF assms] del: has_ty.simps)

lemma selected_federation:
  assumes "app_ok st"
  shows "js_or (state_get st ''federation'' ''selectedFederationId'') JNull = state_get st ''federation'' ''selectedFederationId''"
  using assms by (auto simp: app_ok_def js_or_def)

lemma analytics_id: "app_ok st \<Longrightarrow> truthy (state_get st ''analytics'' ''analyticsId'')"
  by (simp add: app_ok_def)

lemma federation_reload:
  assumes "app_ok st"
  shows "\<forall>k \<in> set [''authenticatedGuardian'', ''customFediMods'', ''seenFederationRatings'', ''lastSelectedCommunityId'', ''recentlyUsedFederationIds'', ''previouslyAutojoinedCommunities'', ''autojoinNoticesToDisplay'', ''selectedFederationId''].
    obj_get (federation_load (saved_payload st) initial_federation) k = state_get st ''federation'' k"
  unfolding federation_load_def 
  by (simp add: Let_def obj_get_spread keep_typed payload_federation [OF assms] keep_typed(8) [OF types_federation(1) [OF assms]]
      keep_typed(8) [OF types_federation(2) [OF assms]] keep_typed(9) [OF types_federation(3) [OF assms]]
      selected_federation [OF assms] del: has_ty.simps)

lemma matrix_reload:
  assumes "app_ok st"
  shows "\<forall>k \<in> set [''drafts'', ''rejectedRoomInvites'', ''seenRoomInvites'', ''seenKnockRequests''].
    obj_get (matrix_load (saved_payload st) initial_matrix) k = state_get st ''matrix'' k"
  unfolding matrix_load_def 
  by (simp add: Let_def obj_get_spread keep_typed payload_matrix [OF assms] del: has_ty.simps)

lemma mod_reload:
  assumes "app_ok st"
  shows "\<forall>k \<in> set [''customGlobalMods'', ''modVisibility'', ''newMods'', ''miniAppOrder''].
    obj_get (mod_load (first_party P) (saved_payload st) (initial_mod (first_party P))) k = state_get st ''mod'' k"
  unfolding mod_load_def 
  by (simp add: Let_def obj_get_spread keep_typed payload_mod [OF assms] keep_typed(8) [OF types_mod(1) [OF assms]]
      keep_typed(8) [OF types_mod(2) [OF assms]] keep_typed(9) [OF types_mod(3) [OF assms]]
      keep_typed(9) [OF types_mod(4) [OF assms]] del: has_ty.simps)

lemma survey_reload:
  assumes "app_ok st"
  shows "\<forall>k \<in> set [''lastShownSurveyTimestamp'', ''surveyCompletions''].
    obj_get (survey_load (saved_payload st) initial_survey) k = state_get st ''survey'' k"
  unfolding survey_load_def 
  by (simp add: Let_def obj_get_spread keep_typed payload_survey [OF assms] del: has_ty.simps)

lemma analytics_reload:
  assumes "app_ok st"
  shows "\<forall>k \<in> set [''analyticsId'', ''hasConsentedToAnalytics'', ''hasSeenAnalyticsConsentModal''].
    obj_get (analytics_load (saved_payload st) uuid initial_analytics) k = state_get st ''analytics'' k"
  unfolding analytics_load_def
  by (simp add: Let_def obj_get_spread keep_typed payload_analytics [OF assms] types_analytics [OF assms]
      keep_typed(11) [OF types_analytics(1) [OF assms]] analytics_id [OF assms] del: has_ty.simps)

text \<open>The two nested records.\<close>

lemma json_typed:
  "has_ty TBool v \<Longrightarrow> json v = Some v"
  "has_ty (TUnion TNull TStr) v \<Longrightarrow> json v = Some v" "has_ty (TUnion TNull TNum) v \<Longrightarrow> json v = Some v"
  by (cases v; auto)+

lemma as_common_value: "(case as_common st slice key of None \<Rightarrow> JUndef | Some v \<Rightarrow> v) = state_get st slice key"
  by (simp add: as_common_def Let_def)

lemma payload_nested:
  assumes "app_ok st"
  shows "obj_get (stored_of st) ''personalBackupReminder'' = JObj
      [(''countdownStartedAt'', state_get st ''personalBackupReminder'' ''countdownStartedAt''),
       (''hasReachedThresholds'', state_get st ''personalBackupReminder'' ''hasReachedThresholds'')]"
    and "obj_get (stored_of st) ''support'' = JObj
      [(''supportPermissionGranted'', state_get st ''support'' ''supportPermissionGranted''),
       (''zendeskPushNotificationToken'', state_get st ''support'' ''zendeskPushNotificationToken'')]"
  by (simp_all add: obj_get_stored_of transformStateToStorage_def as_common_value del: has_ty.simps
      add: json_typed(3) [OF types_nested(1) [OF assms]] json_typed(1) [OF types_nested(2) [OF assms]]
      json_typed(1) [OF types_support(1) [OF assms]] json_typed(2) [OF types_support(2) [OF assms]])

lemma reminder_reload:
  assumes "app_ok st"
  shows "\<forall>k \<in> set [''countdownStartedAt'', ''hasReachedThresholds''].
    obj_get (reminder_load (saved_payload st) initial_reminder) k = state_get st ''personalBackupReminder'' k"
  unfolding reminder_load_def
  by (simp add: Let_def obj_get_spread payload_nested [OF assms] obj_get_Cons
      keep_typed(11) [OF types_nested(1) [OF assms]] keep_typed(10) [OF types_nested(2) [OF assms]] del: has_ty.simps)

lemma support_reload:
  assumes "app_ok st"
  shows "\<forall>k \<in> set [''supportPermissionGranted'', ''zendeskPushNotificationToken''].
    obj_get (support_load (saved_payload st) initial_support) k = state_get st ''support'' k"
  unfolding support_load_def initial_support_def
  by (simp add: Let_def obj_get_spread payload_nested [OF assms] obj_get_Cons
      keep_typed(10) [OF types_support(1) [OF assms]] keep_typed(11) [OF types_support(2) [OF assms]] del: has_ty.simps)

text \<open>The three records that are merged with what the slice starts from.\<close>

lemma distinct_records:
  assumes "app_ok st"
  shows "distinct (map fst (own_entries (state_get st ''mod'' ''miniAppPermissions'')))"
    and "distinct (map fst (own_entries (state_get st ''nux'' ''steps'')))"
    and "distinct (map fst (own_entries (state_get st ''security'' ''protectedFeatures'')))"
  using assms by (simp_all add: app_ok_def)

lemma obj_get_spread_own:
  assumes "distinct (map fst kvs)"
  shows "obj_get (jm_spread o' kvs) k = (if jm_get kvs k = None then obj_get o' k else obj_get kvs k)"
  unfolding obj_get_spread map_of_rev_distinct [OF assms]
  by (simp add: jm_get_def obj_get_def split: option.split)

lemma distinct_known: "distinct (map fst kvs) \<Longrightarrow> distinct (map fst (known_entries known kvs))"
  unfolding known_entries_def by (rule distinct_map_filter)

lemma get_known:
  assumes "list_all (\<lambda>p. snd p \<noteq> JUndef) kvs"
  shows "jm_get (known_entries known kvs) k = (if jm_get known k = None then None else jm_get kvs k)"
  using assms by (induction kvs) (auto simp: known_entries_def jm_get_def)

lemma record_entries:
  assumes "has_ty (TRec t) v"
  shows "v = JObj (own_entries v)" and "t = TBool \<Longrightarrow> list_all (\<lambda>p. snd p \<noteq> JUndef) (own_entries v)"
  using assms by (auto elim!: has_ty_TRecE simp: list_all_iff) fastforce

text \<open>\<open>lookup v k\<close> is an own property of a record, if it has it.\<close>

abbreviation own :: "jv \<Rightarrow> string \<Rightarrow> jv option" where
  "own v k \<equiv> jm_get (own_entries v) k"

lemma permissions_reload:
  assumes "app_ok st"
  shows "opt_prop (obj_get (mod_load fp (saved_payload st) (initial_mod fp)) ''miniAppPermissions'') k =
    (case own (state_get st ''mod'' ''miniAppPermissions'') k of None \<Rightarrow> obj_get fp k | Some v \<Rightarrow> v)"
  unfolding mod_load_def
  by (simp add: obj_get_spread payload_mod [OF assms] keep_typed(8) [OF types_mod(5) [OF assms]]
      distinct_records(1) [OF assms] map_of_rev_distinct jm_get_def)

lemma steps_reload:
  assumes "app_ok st"
  shows "\<exists>s. nux_load (saved_payload st) initial_nux = Some s \<and>
    opt_prop (obj_get s ''steps'') k =
      (if k \<in> fst ` set initial_nux_steps then opt_prop (state_get st ''nux'' ''steps'') k else JUndef)"
proof -
  let ?v = "state_get st ''nux'' ''steps''"
  note rec = record_entries [OF types_nux [OF assms]]
  have v: "opt_prop ?v k = obj_get (own_entries ?v) k" by (subst rec(1)) simp
  have entries: "js_entries ?v = Some (own_entries ?v)" by (subst rec(1)) (simp add: js_entries_def)
  have known: "jm_get initial_nux_steps k = None \<longleftrightarrow> k \<notin> fst ` set initial_nux_steps"
    by (simp add: jm_get_def map_of_eq_None_iff)
  let ?s = "jm_set ''steps'' (JObj (jm_spread [] (known_entries initial_nux_steps (own_entries ?v)))) initial_nux"
  have "nux_load (saved_payload st) initial_nux = Some ?s"
    by (simp add: nux_load_def payload_nux [OF assms] entries) (simp add: initial_nux_def obj_get_Cons)
  moreover have "opt_prop (obj_get ?s ''steps'') k =
      (if k \<in> fst ` set initial_nux_steps then opt_prop ?v k else JUndef)"
    using obj_get_spread_own [OF distinct_known [OF distinct_records(2) [OF assms]], of "[]" initial_nux_steps k]
    by (simp add: get_known [OF rec(2)] known v) (simp add: obj_get_def get_known [OF rec(2)] known)
  ultimately show ?thesis by blast
qed

lemma features_reload:
  assumes "app_ok st"
  shows "opt_prop (obj_get (security_load (saved_payload st) initial_security) ''protectedFeatures'') k =
    (if k \<in> set protected_feature_names
     then (case own (state_get st ''security'' ''protectedFeatures'') k of None \<Rightarrow> JBool True | Some v \<Rightarrow> v)
     else JUndef)"
proof -
  let ?v = "state_get st ''security'' ''protectedFeatures''"
  let ?i = "map (\<lambda>k. (k, JBool True)) protected_feature_names"
  note rec = record_entries [OF types_security [OF assms]]
  have t: "truthy ?v" by (subst rec(1)) simp
  have i: "jm_get ?i k = (if k \<in> set protected_feature_names then Some (JBool True) else None)"
    by (simp add: jm_get_def map_of_map_restrict restrict_map_def)
  have "obj_get initial_security ''protectedFeatures'' = JObj ?i"
    by (simp add: initial_security_def obj_get_Cons)
  then have "obj_get (security_load (saved_payload st) initial_security) ''protectedFeatures'' =
      JObj (jm_spread ?i (known_entries ?i (own_entries ?v)))"
    using t by (simp add: security_load_def payload_security [OF assms] spread_in_def)
  then show ?thesis
    using obj_get_spread_own [OF distinct_known [OF distinct_records(3) [OF assms]], of ?i ?i k]
    by (simp add: get_known [OF rec(2)] i) (simp add: obj_get_def get_known [OF rec(2)] i split: option.split)
qed

lemma loaded_store:
  assumes "app_ok st"
  obtains st' where "app_step P (boot P (Item (Some (saved_payload st)))) (LoadSettles now getItem uuid) =
      (boot P (Item (Some (saved_payload st))))\<lparr>store := st', loadSettled := True\<rparr>"
    and "state_get st' ''environment'' = obj_get (environment_load (saved_payload st) initial_environment)"
    and "state_get st' ''currency'' = obj_get (currency_load (saved_payload st) initial_currency)"
    and "state_get st' ''federation'' = obj_get (federation_load (saved_payload st) initial_federation)"
    and "state_get st' ''matrix'' = obj_get (matrix_load (saved_payload st) initial_matrix)"
    and "state_get st' ''mod'' = obj_get (mod_load (first_party P) (saved_payload st) (initial_mod (first_party P)))"
    and "state_get st' ''nux'' = obj_get (the (nux_load (saved_payload st) initial_nux))"
    and "state_get st' ''personalBackupReminder'' = obj_get (reminder_load (saved_payload st) initial_reminder)"
    and "state_get st' ''security'' = obj_get (security_load (saved_payload st) initial_security)"
    and "state_get st' ''support'' = obj_get (support_load (saved_payload st) initial_support)"
    and "state_get st' ''survey'' = obj_get (survey_load (saved_payload st) initial_survey)"
    and "state_get st' ''analytics'' = obj_get (analytics_load (saved_payload st) uuid initial_analytics)"
proof -
  let ?p = "saved_payload st" and ?s = "boot P (Item (Some (saved_payload st)))"
  obtain nux where nux: "nux_load ?p initial_nux = Some nux" using steps_reload [OF assms] by blast
  define st' where "st' =
    [(''currency'', currency_load ?p initial_currency), (''environment'', environment_load ?p initial_environment),
     (''federation'', federation_load ?p initial_federation), (''matrix'', matrix_load ?p initial_matrix),
     (''mod'', mod_load (first_party P) ?p (initial_mod (first_party P))), (''nux'', nux),
     (''personalBackupReminder'', reminder_load ?p initial_reminder),
     (''storage'', jm_set ''hasLoaded'' (JBool True) initial_storage), (''toast'', initial_toast),
     (''security'', security_load ?p initial_security), (''support'', support_load ?p initial_support),
     (''survey'', survey_load ?p initial_survey), (''analytics'', analytics_load ?p uuid initial_analytics)]"
  have root: "rootReducer P now (LoadFulfilled ?p uuid) (initial_store P) = Some st'"
    by (simp add: rootReducer_def initial_store_def slice_reducer_def nux st'_def)
  then have step: "app_step P ?s (LoadSettles now getItem uuid) = ?s\<lparr>store := st', loadSettled := True\<rparr>"
    using load_saved [of now getItem st] by (simp add: boot_def dispatch_def jm_spread_def)
  show ?thesis
    by (rule that [OF step]) (simp_all add: fun_eq_iff state_get_def st'_def jm_get_Cons nux)
qed

text \<open>The fields that are not loaded as they were saved.\<close>

definition loaded_differently :: "string list" where
  "loaded_differently =
     [''matrixAuth'', ''sessionCount'', ''miniAppPermissions'', ''nuxSteps'', ''protectedFeatures'']"

lemma persisted_reload:
  assumes "app_ok st"
    and "app_step P (boot P (Item (Some (saved_payload st)))) (LoadSettles now getItem uuid) = s"
  shows "list_all (\<lambda>(f, slice, key). f \<in> set loaded_differently \<or>
    state_get (store s) slice key = state_get st slice key) persisted_paths"
  using assms environment_reload(1) [OF assms(1)] currency_reload [OF assms(1)] federation_reload [OF assms(1)]
    matrix_reload [OF assms(1)] mod_reload [OF assms(1), of P] survey_reload [OF assms(1)] analytics_reload [OF assms(1), of uuid]
  by (elim loaded_store [of st P now getItem uuid])
    (simp add: persisted_paths_def loaded_differently_def)


definition fresh_state :: store where
  "fresh_state = jm_set ''analytics'' (jm_set ''analyticsId'' (JStr ''id'') initial_analytics) (initial_store bare)"


end
