(* ===== verification/Cbor.thy ===== *)
theory Cbor
  imports Complex_Main Js_Prelude "HOL-Library.Word"
begin

text \<open>
  \<^verbatim>\<open>ui/common/utils/cbor.ts\<close>, the decoder of the CBOR data in version 4 cashu tokens. The input is
  a list of bytes, read through a \<^verbatim>\<open>DataView\<close> at offsets that are natural numbers; a read outside
  of the data is the \<^verbatim>\<open>RangeError\<close> the platform throws.

  Parameters, in one record: \<open>textDecoder\<close> is \<^verbatim>\<open>TextDecoder.decode\<close>, which on native comes from the
  package the first lines of the file load, and \<open>numberToString\<close> the text of a number that is not
  an integer of at most 53 bits. The depth of the recursion is bounded by fuel: every nested
  item starts at a later byte, so one more than the number of bytes is enough, and \<open>decodeCBOR\<close>
  starts with that many (\<open>cbor_decode_terminates\<close>). The call stack of the platform, which deeply
  nested data can exhaust, has no bound in the model.
\<close>

unbundle bit_operations_syntax

section \<open>Numbers\<close>

text \<open>
  A double: a sign and a magnitude, so that the two zeros are different, an infinity or \<^verbatim>\<open>NaN\<close>.
\<close>

datatype js_number = JFin bool rat | JInf bool | JNotANumber

text \<open>
  A natural number rounded to the nearest double, ties to even: the 53 leading bits are kept.
  The numbers rounded here are at most \<open>2 ^ 64 + 1\<close>, far from the overflow to infinity.
\<close>

fun excess_bits :: "nat \<Rightarrow> nat" where
  "excess_bits n = (if n < 2 ^ 53 then 0 else Suc (excess_bits (n div 2)))"

declare excess_bits.simps [simp del]

definition round53 :: "nat \<Rightarrow> nat" where
  "round53 n =
     (let k = excess_bits n; q = n div 2 ^ k; r = n mod 2 ^ k
      in (if 2 * r < 2 ^ k then q
          else if 2 ^ k < 2 * r then q + 1
          else if even q then q else q + 1) * 2 ^ k)"

definition two_to :: "int \<Rightarrow> rat" where
  "two_to i = (if 0 \<le> i then 2 ^ nat i else 1 / 2 ^ nat (- i))"

text \<open>
  The IEEE 754 interchange format with \<open>ebits\<close> exponent and \<open>fbits\<close> fraction bits: what
  \<^verbatim>\<open>DataView.getFloat32\<close> and \<^verbatim>\<open>getFloat64\<close> read.
\<close>

definition ieee :: "nat \<Rightarrow> nat \<Rightarrow> nat \<Rightarrow> js_number" where
  "ieee ebits fbits n =
     (let negative = odd (n div 2 ^ (ebits + fbits));
          exponent = n div 2 ^ fbits mod 2 ^ ebits;
          fraction = of_nat (n mod 2 ^ fbits) / 2 ^ fbits;
          bias = 2 ^ (ebits - 1) - 1
      in if exponent = 0 then JFin negative (fraction * two_to (1 - bias))
         else if exponent = 2 ^ ebits - 1
         then (if fraction = 0 then JInf negative else JNotANumber)
         else JFin negative ((1 + fraction) * two_to (int exponent - bias)))"

text \<open>\<^verbatim>\<open>decodeFloat16\<close>: the product with \<^verbatim>\<open>sign\<close> gives the sign, also of a zero.\<close>

definition decodeFloat16 :: "nat \<Rightarrow> js_number" where
  "decodeFloat16 uint16 =
     (let exponent = drop_bit 10 (uint16 AND 0x7c00);
          fraction = uint16 AND 0x03ff;
          negative = (uint16 AND 0x8000 \<noteq> 0)
      in if exponent = 0 then JFin negative (two_to (- 14) * (of_nat fraction / 1024))
         else if exponent = 0x1f then (if fraction \<noteq> 0 then JNotANumber else JInf negative)
         else JFin negative (two_to (int exponent - 15) * (1 + of_nat fraction / 1024)))"

section \<open>Values and errors\<close>

text \<open>
  \<^verbatim>\<open>ResultValue\<close>. An object has its own properties and the value that was assigned to the key
  \<^verbatim>\<open>__proto__\<close>, if one was: that assignment sets the prototype of the object.
\<close>

datatype cbor_value =
    CBool bool
  | CNull
  | CUndef
  | CNum js_number
  | CText string
  | CBytes "8 word list"
  | CArr "cbor_value list"
  | CObj "(string \<times> cbor_value) list" "cbor_value option"

datatype cbor_error =
    UnexpectedEnd
  | OutOfBounds
  | UnsupportedMajorType nat
  | UnsupportedLength nat
  | ByteStringTooLong
  | StringTooLong
  | InvalidKeyType
  | UnknownSimple nat
  | UnknownSimpleOrFloat nat
  | OutOfFuel

record cbor_platform =
  textDecoder :: "8 word list \<Rightarrow> string"
  numberToString :: "js_number \<Rightarrow> string"

definition isValidResultType :: "cbor_value \<Rightarrow> bool" where
  "isValidResultType v =
     (case v of CNull \<Rightarrow> True | CBytes _ \<Rightarrow> True | CArr _ \<Rightarrow> True | CObj _ _ \<Rightarrow> True | _ \<Rightarrow> False)"

text \<open>
  The property name of a key: \<open>None\<close> when the decoded key is not a number or a string. Zero has no
  sign in a name.
\<close>

definition result_key :: "cbor_platform \<Rightarrow> cbor_value \<Rightarrow> string option" where
  "result_key E v =
     (case v of
        CText s \<Rightarrow> Some s
      | CNum (JFin negative r) \<Rightarrow>
          Some (if snd (quotient_of r) = 1 \<and> r < 2 ^ 53
                then int_str (if negative then - fst (quotient_of r) else fst (quotient_of r))
                else numberToString E (JFin negative r))
      | CNum (JInf negative) \<Rightarrow> Some (if negative then ''-Infinity'' else ''Infinity'')
      | CNum JNotANumber \<Rightarrow> Some ''NaN''
      | _ \<Rightarrow> None)"

text \<open>
  \<^verbatim>\<open>map[key] = value\<close>. The setter of \<^verbatim>\<open>__proto__\<close> is inherited unless the prototype chain was ended by
  a \<^verbatim>\<open>null\<close>; it takes objects and \<^verbatim>\<open>null\<close> and ignores the rest. (Names that a byte array used as
  a prototype would intercept are left out.)
\<close>

fun inherits_setter :: "cbor_value option \<Rightarrow> bool" where
  "inherits_setter (Some CNull) = False"
| "inherits_setter (Some (CObj own proto)) = inherits_setter proto"
| "inherits_setter _ = True"

fun assign_key :: "string \<Rightarrow> cbor_value \<Rightarrow> (string \<times> cbor_value) list \<times> cbor_value option
    \<Rightarrow> (string \<times> cbor_value) list \<times> cbor_value option" where
  "assign_key k v (own, proto) =
     (if k = ''__proto__'' \<and> inherits_setter proto
      then (own, if isValidResultType v then Some v else proto)
      else (jm_set k v own, proto))"

section \<open>The decoder\<close>

text \<open>\<^verbatim>\<open>view.getUint8/16/32(offset, false)\<close>: \<open>k\<close> bytes, the most significant first.\<close>

definition be_nat :: "8 word list \<Rightarrow> nat" where
  "be_nat bs = foldl (\<lambda>a b. 256 * a + unat b) 0 bs"

definition get_uint :: "nat \<Rightarrow> 8 word list \<Rightarrow> nat \<Rightarrow> cbor_error + nat" where
  "get_uint k view offset =
     (if offset + k \<le> length view then Inr (be_nat (take k (drop offset view))) else Inl OutOfBounds)"

definition then_with :: "'e + 'a \<Rightarrow> ('a \<Rightarrow> 'e + 'b) \<Rightarrow> 'e + 'b" where
  "then_with r f = (case r of Inl e \<Rightarrow> Inl e | Inr x \<Rightarrow> f x)"

definition decodeLength :: "8 word list \<Rightarrow> nat \<Rightarrow> nat \<Rightarrow> cbor_error + (nat \<times> nat)" where
  "decodeLength view offset additionalInfo =
     (if additionalInfo < 24 then Inr (additionalInfo, offset)
      else if additionalInfo = 24
      then then_with (get_uint 1 view offset) (\<lambda>value. Inr (value, offset + 1))
      else if additionalInfo = 25
      then then_with (get_uint 2 view offset) (\<lambda>value. Inr (value, offset + 2))
      else if additionalInfo = 26
      then then_with (get_uint 4 view offset) (\<lambda>value. Inr (value, offset + 4))
      else if additionalInfo = 27
      then then_with (get_uint 4 view offset) (\<lambda>hi.
             then_with (get_uint 4 view (offset + 4)) (\<lambda>lo.
               Inr (round53 (hi * 2 ^ 32 + lo), offset + 8)))
      else Inl (UnsupportedLength additionalInfo))"

definition decodeUnsigned :: "8 word list \<Rightarrow> nat \<Rightarrow> nat \<Rightarrow> cbor_error + (cbor_value \<times> nat)" where
  "decodeUnsigned view offset additionalInfo =
     then_with (decodeLength view offset additionalInfo) (\<lambda>(value, newOffset).
       Inr (CNum (JFin False (of_nat value)), newOffset))"

definition decodeSigned :: "8 word list \<Rightarrow> nat \<Rightarrow> nat \<Rightarrow> cbor_error + (cbor_value \<times> nat)" where
  "decodeSigned view offset additionalInfo =
     then_with (decodeLength view offset additionalInfo) (\<lambda>(value, newOffset).
       Inr (CNum (JFin True (of_nat (round53 (1 + value)))), newOffset))"

definition decodeByteString :: "8 word list \<Rightarrow> nat \<Rightarrow> nat \<Rightarrow> cbor_error + (cbor_value \<times> nat)" where
  "decodeByteString view offset additionalInfo =
     then_with (decodeLength view offset additionalInfo) (\<lambda>(len, newOffset).
       if length view < newOffset + len then Inl ByteStringTooLong
       else Inr (CBytes (take len (drop newOffset view)), newOffset + len))"

definition decodeString ::
  "cbor_platform \<Rightarrow> 8 word list \<Rightarrow> nat \<Rightarrow> nat \<Rightarrow> cbor_error + (cbor_value \<times> nat)" where
  "decodeString E view offset additionalInfo =
     then_with (decodeLength view offset additionalInfo) (\<lambda>(len, newOffset).
       if length view < newOffset + len then Inl StringTooLong
       else Inr (CText (textDecoder E (take len (drop newOffset view))), newOffset + len))"

definition decodeSimpleAndFloat ::
  "8 word list \<Rightarrow> nat \<Rightarrow> nat \<Rightarrow> cbor_error + (cbor_value \<times> nat)" where
  "decodeSimpleAndFloat view offset additionalInfo =
     (if additionalInfo < 24
      then (if additionalInfo = 20 then Inr (CBool False, offset)
            else if additionalInfo = 21 then Inr (CBool True, offset)
            else if additionalInfo = 22 then Inr (CNull, offset)
            else if additionalInfo = 23 then Inr (CUndef, offset)
            else Inl (UnknownSimple additionalInfo))
      else if additionalInfo = 24
      then then_with (get_uint 1 view offset) (\<lambda>n. Inr (CNum (JFin False (of_nat n)), offset + 1))
      else if additionalInfo = 25
      then then_with (get_uint 2 view offset) (\<lambda>n. Inr (CNum (decodeFloat16 n), offset + 2))
      else if additionalInfo = 26
      then then_with (get_uint 4 view offset) (\<lambda>n. Inr (CNum (ieee 8 23 n), offset + 4))
      else if additionalInfo = 27
      then then_with (get_uint 8 view offset) (\<lambda>n. Inr (CNum (ieee 11 52 n), offset + 8))
      else Inl (UnknownSimpleOrFloat additionalInfo))"

text \<open>
  The loops of \<^verbatim>\<open>decodeArray\<close> and \<^verbatim>\<open>decodeMap\<close> over a function that decodes the item at an offset;
  \<open>n\<close> counts the elements still to come. \<^verbatim>\<open>decodeItem\<close> calls them with itself.
\<close>

type_synonym 'a decoded = "cbor_error + 'a \<times> nat"

fun array_loop :: "(nat \<Rightarrow> cbor_value decoded) \<Rightarrow> nat \<Rightarrow> nat \<Rightarrow> cbor_value list
    \<Rightarrow> cbor_value list decoded" where
  "array_loop item n offset acc =
     (if n = 0 then Inr (acc, offset)
      else then_with (item offset) (\<lambda>(v, newOffset).
        array_loop item (n - 1) newOffset (acc @ [v])))"

fun map_loop :: "cbor_platform \<Rightarrow> (nat \<Rightarrow> cbor_value decoded) \<Rightarrow> nat \<Rightarrow> nat
    \<Rightarrow> (string \<times> cbor_value) list \<times> cbor_value option
    \<Rightarrow> ((string \<times> cbor_value) list \<times> cbor_value option) decoded" where
  "map_loop E item n offset acc =
     (if n = 0 then Inr (acc, offset)
      else then_with (item offset) (\<lambda>(key, keyOffset).
        case result_key E key of
          None \<Rightarrow> Inl InvalidKeyType
        | Some k \<Rightarrow> then_with (item keyOffset) (\<lambda>(v, newOffset).
            map_loop E item (n - 1) newOffset (assign_key k v acc))))"

declare array_loop.simps [simp del] map_loop.simps [simp del]

definition decodeArray ::
  "(nat \<Rightarrow> cbor_value decoded) \<Rightarrow> 8 word list \<Rightarrow> nat \<Rightarrow> nat \<Rightarrow> cbor_value decoded" where
  "decodeArray item view offset additionalInfo =
     then_with (decodeLength view offset additionalInfo) (\<lambda>(n, newOffset).
       then_with (array_loop item n newOffset []) (\<lambda>(xs, endOffset). Inr (CArr xs, endOffset)))"

definition decodeMap :: "cbor_platform \<Rightarrow>
    (nat \<Rightarrow> cbor_value decoded) \<Rightarrow> 8 word list \<Rightarrow> nat \<Rightarrow> nat \<Rightarrow> cbor_value decoded" where
  "decodeMap E item view offset additionalInfo =
     then_with (decodeLength view offset additionalInfo) (\<lambda>(n, newOffset).
       then_with (map_loop E item n newOffset ([], None)) (\<lambda>((own, proto), endOffset).
         Inr (CObj own proto, endOffset)))"

primrec decodeItem :: "cbor_platform \<Rightarrow> 8 word list \<Rightarrow> nat \<Rightarrow> nat \<Rightarrow> cbor_value decoded" where
  "decodeItem E view 0 offset = Inl OutOfFuel"
| "decodeItem E view (Suc depth) offset =
     (if length view \<le> offset then Inl UnexpectedEnd
      else
        let initialByte = unat (view ! offset);
            majorType = drop_bit 5 initialByte;
            additionalInfo = initialByte AND 0x1f
        in if majorType = 0 then decodeUnsigned view (offset + 1) additionalInfo
           else if majorType = 1 then decodeSigned view (offset + 1) additionalInfo
           else if majorType = 2 then decodeByteString view (offset + 1) additionalInfo
           else if majorType = 3 then decodeString E view (offset + 1) additionalInfo
           else if majorType = 4
           then decodeArray (decodeItem E view depth) view (offset + 1) additionalInfo
           else if majorType = 5
           then decodeMap E (decodeItem E view depth) view (offset + 1) additionalInfo
           else if majorType = 7 then decodeSimpleAndFloat view (offset + 1) additionalInfo
           else Inl (UnsupportedMajorType majorType))"

definition decodeCBOR :: "cbor_platform \<Rightarrow> 8 word list \<Rightarrow> cbor_error + cbor_value" where
  "decodeCBOR E data =
     then_with (decodeItem E data (length data + 1) 0) (\<lambda>(value, offset). Inr value)"

section \<open>Offsets and fuel\<close>

lemma then_with_simps [simp]:
  "then_with (Inl e) f = Inl e"
  "then_with (Inr x) f = f x"
  by (simp_all add: then_with_def)

lemma then_with_Inr: "then_with r f = Inr y \<longleftrightarrow> (\<exists>x. r = Inr x \<and> f x = Inr y)"
  by (cases r) auto

lemma then_with_Inl: "then_with r f = Inl e \<longleftrightarrow> r = Inl e \<or> (\<exists>x. r = Inr x \<and> f x = Inl e)"
  by (cases r) auto

lemma then_with_eqI: "(\<And>x. r = Inr x \<Longrightarrow> f x = g x) \<Longrightarrow> then_with r f = then_with r g"
  by (cases r) auto

lemma get_uint_Inr: "get_uint k view offset = Inr n \<Longrightarrow> offset + k \<le> length view"
  by (simp add: get_uint_def split: if_splits)

lemma get_uint_Inl: "get_uint k view offset = Inl e \<Longrightarrow> e = OutOfBounds"
  by (simp add: get_uint_def split: if_splits)

lemma decodeLength_offset:
  "decodeLength view offset info = Inr (n, newOffset) \<Longrightarrow>
     offset \<le> newOffset \<and> (offset \<le> length view \<longrightarrow> newOffset \<le> length view)"
  by (auto simp: decodeLength_def then_with_Inr dest: get_uint_Inr split: if_splits)

lemma decodeLength_fuel: "decodeLength view offset info \<noteq> Inl OutOfFuel"
  by (auto simp: decodeLength_def then_with_Inl dest: get_uint_Inl split: if_splits)

text \<open>An item decoder that always advances and stays inside the data.\<close>

definition advances :: "nat \<Rightarrow> (nat \<Rightarrow> 'a decoded) \<Rightarrow> bool" where
  "advances len item \<longleftrightarrow> (\<forall>o1 v o2. item o1 = Inr (v, o2) \<longrightarrow> o1 < o2 \<and> o2 \<le> len)"

lemma advancesD: "advances len item \<Longrightarrow> item o1 = Inr (v, o2) \<Longrightarrow> o1 < o2 \<and> o2 \<le> len"
  by (simp add: advances_def)

lemma array_loop_0 [simp]: "array_loop item 0 offset acc = Inr (acc, offset)"
  by (simp add: array_loop.simps)

lemma array_loop_Suc: "array_loop item (Suc n) offset acc =
    then_with (item offset) (\<lambda>(v, newOffset). array_loop item n newOffset (acc @ [v]))"
  by (subst array_loop.simps) simp

lemma map_loop_0 [simp]: "map_loop E item 0 offset acc = Inr (acc, offset)"
  by (simp add: map_loop.simps)

lemma map_loop_Suc: "map_loop E item (Suc n) offset acc =
    then_with (item offset) (\<lambda>(key, keyOffset).
      case result_key E key of
        None \<Rightarrow> Inl InvalidKeyType
      | Some k \<Rightarrow> then_with (item keyOffset) (\<lambda>(v, newOffset).
          map_loop E item n newOffset (assign_key k v acc)))"
  by (subst map_loop.simps) (simp cong: option.case_cong)

lemma array_loop_offset:
  assumes "advances len item"
  shows "array_loop item n offset acc = Inr (xs, endOffset) \<Longrightarrow>
     offset \<le> endOffset \<and> (offset \<le> len \<longrightarrow> endOffset \<le> len)"
proof (induction n arbitrary: offset acc)
  case (Suc n)
  then obtain v o1 where item: "item offset = Inr (v, o1)"
    and rest: "array_loop item n o1 (acc @ [v]) = Inr (xs, endOffset)"
    by (auto simp: array_loop_Suc then_with_Inr)
  show ?case using advancesD [OF assms item] Suc.IH [OF rest] by simp
qed simp

lemma map_loop_offset:
  assumes "advances len item"
  shows "map_loop E item n offset acc = Inr (m, endOffset) \<Longrightarrow>
     offset \<le> endOffset \<and> (offset \<le> len \<longrightarrow> endOffset \<le> len)"
proof (induction n arbitrary: offset acc)
  case (Suc n)
  then obtain key o1 k v o2 where items: "item offset = Inr (key, o1)" "item o1 = Inr (v, o2)"
    and rest: "map_loop E item n o2 (assign_key k v acc) = Inr (m, endOffset)"
    by (auto simp: map_loop_Suc then_with_Inr split: option.splits)
  show ?case
    using items [THEN advancesD [OF assms]] Suc.IH [OF rest] by simp
qed simp

lemma scalar_offset:
  assumes "offset < length view"
  shows "decodeUnsigned view (Suc offset) info = Inr (v, o2) \<Longrightarrow> offset < o2 \<and> o2 \<le> length view"
    and "decodeSigned view (Suc offset) info = Inr (v, o2) \<Longrightarrow> offset < o2 \<and> o2 \<le> length view"
    and "decodeByteString view (Suc offset) info = Inr (v, o2) \<Longrightarrow> offset < o2 \<and> o2 \<le> length view"
    and "decodeString E view (Suc offset) info = Inr (v, o2) \<Longrightarrow> offset < o2 \<and> o2 \<le> length view"
    and "decodeSimpleAndFloat view (Suc offset) info = Inr (v, o2) \<Longrightarrow>
      offset < o2 \<and> o2 \<le> length view"
  using assms
  by (auto simp: decodeUnsigned_def decodeSigned_def decodeByteString_def decodeString_def
      decodeSimpleAndFloat_def then_with_Inr
      dest!: decodeLength_offset get_uint_Inr split: if_splits)

lemma loop_offset:
  assumes "advances (length view) item" "offset < length view"
  shows "decodeArray item view (Suc offset) info = Inr (v, o2) \<Longrightarrow>
      offset < o2 \<and> o2 \<le> length view"
    and "decodeMap E item view (Suc offset) info = Inr (v, o2) \<Longrightarrow>
      offset < o2 \<and> o2 \<le> length view"
  using assms(2)
  by (auto simp: decodeArray_def decodeMap_def then_with_Inr
      dest!: decodeLength_offset array_loop_offset [OF assms(1)] map_loop_offset [OF assms(1)])

lemma decodeItem_advances: "advances (length view) (decodeItem E view depth)"
proof (induction depth)
  case 0
  show ?case by (simp add: advances_def)
next
  case (Suc depth)
  show ?case
    unfolding advances_def decodeItem.simps Let_def
    by (auto dest: scalar_offset loop_offset [OF Suc] simp: not_le split: if_splits)
qed

text \<open>
  More depth than there are bytes left changes nothing, and the fuel is then never used up.
\<close>

lemma array_loop_cong:
  assumes "advances len item"
  shows "(\<And>i. offset \<le> i \<Longrightarrow> item i = item' i) \<Longrightarrow>
    array_loop item n offset acc = array_loop item' n offset acc"
proof (induction n arbitrary: offset acc)
  case (Suc n)
  have "array_loop item n o1 acc' = array_loop item' n o1 acc'" if "item offset = Inr (v, o1)"
    for v o1 acc'
    using advancesD [OF assms that] Suc.prems by (intro Suc.IH) simp
  with Suc.prems [of offset] show ?case
    by (auto simp: array_loop_Suc intro!: then_with_eqI)
qed simp

lemma map_loop_cong:
  assumes "advances len item"
  shows "(\<And>i. offset \<le> i \<Longrightarrow> item i = item' i) \<Longrightarrow>
    map_loop E item n offset acc = map_loop E item' n offset acc"
proof (induction n arbitrary: offset acc)
  case (Suc n)
  have keyed: "item o1 = item' o1" if "item offset = Inr (k, o1)" for k o1
    using advancesD [OF assms that] Suc.prems by simp
  have "map_loop E item n o2 (assign_key key v acc) = map_loop E item' n o2 (assign_key key v acc)"
    if "item offset = Inr (k, o1)" "item o1 = Inr (v, o2)" for key k o1 v o2
    using that [THEN advancesD [OF assms]] Suc.prems by (intro Suc.IH) simp
  with keyed Suc.prems [of offset] show ?case
    by (auto simp: map_loop_Suc intro!: then_with_eqI split: option.splits)
qed simp

lemma decodeItem_depth:
  "length view - offset < d \<Longrightarrow> length view - offset < d' \<Longrightarrow>
     decodeItem E view d offset = decodeItem E view d' offset"
proof (induction d arbitrary: d' offset)
  case (Suc d)
  then obtain e where d': "d' = Suc e" by (cases d') auto
  show ?case
  proof (cases "offset < length view")
    case True
    have item: "decodeItem E view d i = decodeItem E view e i" if "Suc offset \<le> i" for i
      using that True Suc.prems d' by (intro Suc.IH) auto
    have "array_loop (decodeItem E view d) n i acc = array_loop (decodeItem E view e) n i acc"
      if "Suc offset \<le> i" for n i acc
      using that by (intro array_loop_cong [OF decodeItem_advances] item) simp
    moreover have "map_loop E (decodeItem E view d) n i acc = map_loop E (decodeItem E view e) n i acc"
      if "Suc offset \<le> i" for n i acc
      using that by (intro map_loop_cong [OF decodeItem_advances] item) simp
    ultimately have
      "decodeArray (decodeItem E view d) view (Suc offset) info =
         decodeArray (decodeItem E view e) view (Suc offset) info"
      "decodeMap E (decodeItem E view d) view (Suc offset) info =
         decodeMap E (decodeItem E view e) view (Suc offset) info" for info
      by (auto simp: decodeArray_def decodeMap_def dest: decodeLength_offset intro!: then_with_eqI)
    then show ?thesis by (simp add: d' Let_def)
  qed (simp add: d')
qed simp

lemma array_loop_fuel:
  assumes "advances len item"
  shows "(\<And>i. offset \<le> i \<Longrightarrow> item i \<noteq> Inl OutOfFuel) \<Longrightarrow>
    array_loop item n offset acc \<noteq> Inl OutOfFuel"
proof (induction n arbitrary: offset acc)
  case (Suc n)
  have "array_loop item n o1 acc' \<noteq> Inl OutOfFuel" if "item offset = Inr (v, o1)" for v o1 acc'
    using advancesD [OF assms that] Suc.prems by (intro Suc.IH) simp
  with Suc.prems [of offset] show ?case by (auto simp: array_loop_Suc then_with_Inl)
qed simp

lemma map_loop_fuel:
  assumes "advances len item"
  shows "(\<And>i. offset \<le> i \<Longrightarrow> item i \<noteq> Inl OutOfFuel) \<Longrightarrow>
    map_loop E item n offset acc \<noteq> Inl OutOfFuel"
proof (induction n arbitrary: offset acc)
  case (Suc n)
  have keyed: "item o1 \<noteq> Inl OutOfFuel" if "item offset = Inr (k, o1)" for k o1
    using advancesD [OF assms that] Suc.prems by simp
  have "map_loop E item n o2 (assign_key key v acc) \<noteq> Inl OutOfFuel"
    if "item offset = Inr (k, o1)" "item o1 = Inr (v, o2)" for key k o1 v o2
    using that [THEN advancesD [OF assms]] Suc.prems by (intro Suc.IH) simp
  with keyed Suc.prems [of offset] show ?case
    by (auto simp: map_loop_Suc then_with_Inl split: option.splits)
qed simp

lemma scalar_fuel:
  "decodeUnsigned view offset info \<noteq> Inl OutOfFuel"
  "decodeSigned view offset info \<noteq> Inl OutOfFuel"
  "decodeByteString view offset info \<noteq> Inl OutOfFuel"
  "decodeString E view offset info \<noteq> Inl OutOfFuel"
  "decodeSimpleAndFloat view offset info \<noteq> Inl OutOfFuel"
  by (auto simp: decodeUnsigned_def decodeSigned_def decodeByteString_def decodeString_def
      decodeSimpleAndFloat_def then_with_Inl decodeLength_fuel dest: get_uint_Inl split: if_splits)

lemma decodeItem_fuel:
  "length view - offset < depth \<Longrightarrow> decodeItem E view depth offset \<noteq> Inl OutOfFuel"
proof (induction depth arbitrary: offset)
  case (Suc depth)
  show ?case
  proof (cases "offset < length view")
    case True
    have item: "decodeItem E view depth i \<noteq> Inl OutOfFuel" if "Suc offset \<le> i" for i
      using that True Suc.prems by (intro Suc.IH) auto
    have "array_loop (decodeItem E view depth) n i acc \<noteq> Inl OutOfFuel"
      if "Suc offset \<le> i" for n i acc
      using that by (intro array_loop_fuel [OF decodeItem_advances] item) simp
    moreover have "map_loop E (decodeItem E view depth) n i acc \<noteq> Inl OutOfFuel"
      if "Suc offset \<le> i" for n i acc
      using that by (intro map_loop_fuel [OF decodeItem_advances] item) simp
    ultimately have
      "decodeArray (decodeItem E view depth) view (Suc offset) info \<noteq> Inl OutOfFuel"
      "decodeMap E (decodeItem E view depth) view (Suc offset) info \<noteq> Inl OutOfFuel" for info
      by (auto simp: decodeArray_def decodeMap_def then_with_Inl decodeLength_fuel
          dest!: decodeLength_offset)
    then show ?thesis by (simp add: Let_def scalar_fuel)
  qed simp
qed simp

text \<open>
  C17. Decoding terminates: the depth of the nested calls stays within the number of bytes, so
  the fuel is never used up on any input, and any more of it gives the same result.
\<close>

theorem cbor_decode_terminates:
  "decodeCBOR E data \<noteq> Inl OutOfFuel \<and>
   then_with (decodeItem E data (length data + 1 + extra) 0) (\<lambda>(value, offset). Inr value) =
     decodeCBOR E data"
proof -
  have "decodeItem E data (length data + 1) 0 \<noteq> Inl OutOfFuel"
    by (rule decodeItem_fuel) simp
  moreover have "decodeItem E data (length data + 1 + extra) 0 = decodeItem E data (length data + 1) 0"
    by (rule decodeItem_depth) simp_all
  ultimately show ?thesis by (auto simp: decodeCBOR_def then_with_Inl)
qed

text \<open>
  Every item that decodes has at least one byte, and the offset behind it is inside the data:
  no value is read from outside of the token.
\<close>

theorem cbor_offset_bounds:
  assumes "decodeItem E view depth offset = Inr (v, newOffset)"
  shows "offset < newOffset \<and> newOffset \<le> length view"
  by (rule advancesD [OF decodeItem_advances assms])

theorem cbor_offset_bounds_witness: "(1 :: nat) < 4 \<and> 4 \<le> length [0x00, 0x42, 0x07, 0x08 :: 8 word]"
proof -
  let ?E = "\<lparr>textDecoder = map (\<lambda>b. char_of (unat b)), numberToString = \<lambda>_. []\<rparr>"
  have "decodeItem ?E [0x00, 0x42, 0x07, 0x08] 1 1 = Inr (CBytes [7, 8], 4)"
    by (simp add: decodeByteString_def decodeLength_def drop_bit_eq_div)
  from cbor_offset_bounds [OF this] show ?thesis .
qed

section \<open>Half floats\<close>

lemma half_fields:
  "drop_bit 10 ((n :: nat) AND 0x7c00) = n div 2 ^ 10 mod 2 ^ 5"
  "n AND 0x03ff = n mod 2 ^ 10"
  "n AND 0x8000 \<noteq> 0 \<longleftrightarrow> odd (n div 2 ^ 15)"
proof -
  have "drop_bit 10 (0x7c00 :: nat) = mask 5"
    by (simp add: mask_eq_exp_minus_1 drop_bit_eq_div)
  then have "drop_bit 10 (n AND 0x7c00) = drop_bit 10 n AND mask 5"
    by (simp only: drop_bit_and)
  also have "\<dots> = n div 2 ^ 10 mod 2 ^ 5"
    by (simp add: take_bit_eq_mask [symmetric] take_bit_eq_mod drop_bit_eq_div)
  finally show "drop_bit 10 (n AND 0x7c00) = n div 2 ^ 10 mod 2 ^ 5" .
  have "n AND 0x03ff = n AND mask 10" by (simp add: mask_eq_exp_minus_1)
  then show "n AND 0x03ff = n mod 2 ^ 10"
    by (simp only: take_bit_eq_mask [symmetric] take_bit_eq_mod)
  have "n AND 0x8000 = 0 \<longleftrightarrow> \<not> bit n 15"
    using and_exp_eq_0_iff_not_bit [of n 15] by simp
  then show "n AND 0x8000 \<noteq> 0 \<longleftrightarrow> odd (n div 2 ^ 15)" by (simp add: bit_iff_odd)
qed

lemma decodeFloat16_ieee_eq: "decodeFloat16 n = ieee 5 10 n"
  unfolding decodeFloat16_def ieee_def Let_def half_fields
  by (simp add: mult.commute)

text \<open>
  \<^verbatim>\<open>decodeFloat16\<close> computes the IEEE 754 half precision number of its sixteen bits,
  subnormal numbers, both zeros, the infinities and \<^verbatim>\<open>NaN\<close> included.
\<close>

theorem decodeFloat16_ieee: "decodeFloat16 n = ieee 5 10 n"
  by (rule decodeFloat16_ieee_eq)

end
