(* ===== verification/Cbor_Roundtrip.thy ===== *)
theory Cbor_Roundtrip
  imports Cbor
begin

text \<open>
  A reference encoder for the values \<^verbatim>\<open>utils/cbor.ts\<close> decodes, in the shortest form of RFC 8949,
  and the proof that \<^verbatim>\<open>decodeCBOR\<close> inverts it. The repository has no encoder; the definitions of
  this theory say what the bytes of a value are.
\<close>

section \<open>The encoder\<close>

text \<open>
  \<open>u\<close> encodes a text in UTF-8. Numbers are the safe integers, the infinities and \<^verbatim>\<open>NaN\<close>.
\<close>

fun be_bytes :: "nat \<Rightarrow> nat \<Rightarrow> 8 word list" where
  "be_bytes 0 n = []"
| "be_bytes (Suc k) n = be_bytes k (n div 256) @ [of_nat n]"

definition length_info :: "nat \<Rightarrow> nat" where
  "length_info n = (if n < 24 then n else if n < 2 ^ 8 then 24 else if n < 2 ^ 16 then 25
     else if n < 2 ^ 32 then 26 else 27)"

definition length_bytes :: "nat \<Rightarrow> 8 word list" where
  "length_bytes n = (if n < 24 then [] else if n < 2 ^ 8 then be_bytes 1 n
     else if n < 2 ^ 16 then be_bytes 2 n else if n < 2 ^ 32 then be_bytes 4 n
     else be_bytes 4 (n div 2 ^ 32) @ be_bytes 4 n)"

definition item_head :: "nat \<Rightarrow> nat \<Rightarrow> 8 word list" where
  "item_head majorType n = of_nat (32 * majorType + length_info n) # length_bytes n"

definition encode_text :: "(string \<Rightarrow> 8 word list) \<Rightarrow> string \<Rightarrow> 8 word list" where
  "encode_text u s = item_head 3 (length (u s)) @ u s"

fun encode :: "(string \<Rightarrow> 8 word list) \<Rightarrow> cbor_value \<Rightarrow> 8 word list" where
  "encode u (CBool b) = item_head 7 (if b then 21 else 20)"
| "encode u CNull = item_head 7 22"
| "encode u CUndef = item_head 7 23"
| "encode u (CNum (JFin negative r)) =
     (if negative then item_head 1 (nat \<lfloor>r\<rfloor> - 1) else item_head 0 (nat \<lfloor>r\<rfloor>))"
| "encode u (CNum (JInf negative)) = [0xf9, if negative then 0xfc else 0x7c, 0]"
| "encode u (CNum JNotANumber) = [0xf9, 0x7e, 0]"
| "encode u (CText s) = encode_text u s"
| "encode u (CBytes bs) = item_head 2 (length bs) @ bs"
| "encode u (CArr xs) = item_head 4 (length xs) @ concat (map (encode u) xs)"
| "encode u (CObj own proto) =
     item_head 5 (length own) @ concat (map (\<lambda>p. encode_text u (fst p) @ encode u (snd p)) own)"

fun encodable :: "(string \<Rightarrow> 8 word list) \<Rightarrow> cbor_value \<Rightarrow> bool" where
  "encodable u (CNum (JFin negative r)) \<longleftrightarrow>
     of_int \<lfloor>r\<rfloor> = r \<and> (if negative then 1 else 0) \<le> r \<and> r < 2 ^ 53"
| "encodable u (CText s) \<longleftrightarrow> length (u s) < 2 ^ 53"
| "encodable u (CBytes bs) \<longleftrightarrow> length bs < 2 ^ 53"
| "encodable u (CArr xs) \<longleftrightarrow> length xs < 2 ^ 53 \<and> (\<forall>x \<in> set xs. encodable u x)"
| "encodable u (CObj own proto) \<longleftrightarrow>
     length own < 2 ^ 53 \<and> proto = None \<and> distinct (map fst own) \<and> ''__proto__'' \<notin> fst ` set own \<and>
     (\<forall>p \<in> set own. length (u (fst p)) < 2 ^ 53 \<and> encodable u (snd p))"
| "encodable u v \<longleftrightarrow> True"

section \<open>Heads\<close>

lemma length_be_bytes [simp]: "length (be_bytes k n) = k"
  by (induction k arbitrary: n) auto

lemma be_nat_snoc: "be_nat (bs @ [b]) = 256 * be_nat bs + unat b"
  by (simp add: be_nat_def)

lemma be_nat_be_bytes: "be_nat (be_bytes k n) = n mod 256 ^ k"
proof (induction k arbitrary: n)
  case 0
  show ?case by (simp add: be_nat_def)
next
  case (Suc k)
  have "n mod (256 * 256 ^ k) = 256 * (n div 256 mod 256 ^ k) + n mod 256"
    by (rule mod_mult2_eq)
  with Suc show ?case by (simp add: be_nat_snoc unat_of_nat)
qed

lemma get_uint_be_bytes:
  "k = length bs \<Longrightarrow> i = length pre \<Longrightarrow> get_uint k (pre @ bs @ rest) i = Inr (be_nat bs)"
  by (simp add: get_uint_def)

lemma round53_small: "n < 2 ^ 53 \<Longrightarrow> round53 n = n"
  by (simp add: round53_def excess_bits.simps Let_def)

lemma decodeLength_head:
  assumes "n < 2 ^ 53" "i = length pre"
  shows "decodeLength (pre @ length_bytes n @ rest) i (length_info n) =
    Inr (n, length pre + length (length_bytes n))"
proof -
  have be: "get_uint k (pre @ be_bytes k m @ rest') i = Inr (m mod 256 ^ k)" for k m rest'
    using get_uint_be_bytes [of k "be_bytes k m" i pre rest'] assms(2) by (simp add: be_nat_be_bytes)
  have lo: "get_uint 4 (pre @ be_bytes 4 m @ be_bytes 4 n @ rest) (i + 4) = Inr (n mod 256 ^ 4)" for m
    using get_uint_be_bytes [of 4 "be_bytes 4 n" "i + 4" "pre @ be_bytes 4 m" rest] assms(2)
    by (simp add: be_nat_be_bytes)
  consider "n < 24" | "24 \<le> n" "n < 2 ^ 8" | "2 ^ 8 \<le> n" "n < 2 ^ 16" | "2 ^ 16 \<le> n" "n < 2 ^ 32"
    | "2 ^ 32 \<le> n" by linarith
  then show ?thesis
  proof cases
    case 5
    have "n div 2 ^ 32 < 2 ^ 21" using assms(1) by (simp add: less_mult_imp_div_less)
    with 5 be [of 4 "n div 2 ^ 32" "be_bytes 4 n @ rest"] lo [of "n div 2 ^ 32"] assms show ?thesis
      by (simp add: decodeLength_def length_info_def length_bytes_def round53_small)
  qed (use assms be [of 1] be [of 2] be [of 4] in
      \<open>auto simp: decodeLength_def length_info_def length_bytes_def\<close>)
qed

lemma length_info_less: "length_info n < 32"
  by (simp add: length_info_def)

lemma head_byte:
  assumes "majorType < 8"
  shows "drop_bit 5 (unat (of_nat (32 * majorType + length_info n) :: 8 word)) = majorType"
    and "unat (of_nat (32 * majorType + length_info n) :: 8 word) AND 0x1f = length_info n"
proof -
  have "unat (of_nat (32 * majorType + length_info n) :: 8 word) = 32 * majorType + length_info n"
    using assms length_info_less [of n] by (subst unat_of_nat) simp
  moreover have "m AND 0x1f = m mod 32" for m :: nat
  proof -
    have "m AND 0x1f = m AND mask 5" by (simp add: mask_eq_exp_minus_1)
    then show ?thesis by (simp only: take_bit_eq_mask [symmetric] take_bit_eq_mod) simp
  qed
  ultimately show "drop_bit 5 (unat (of_nat (32 * majorType + length_info n) :: 8 word)) = majorType"
    "unat (of_nat (32 * majorType + length_info n) :: 8 word) AND 0x1f = length_info n"
    using length_info_less [of n] by (simp_all add: drop_bit_eq_div)
qed

section \<open>Items\<close>

text \<open>A view with the head of an item at a position: decoding continues behind it.\<close>

lemma decode_at_head:
  assumes "view = pre @ item_head majorType n @ rest" "majorType < 8" "n < 2 ^ 53"
  defines "i \<equiv> length pre" and "j \<equiv> length pre + length (item_head majorType n)"
  shows "i < length view"
    and "drop_bit 5 (unat (view ! i)) = majorType"
    and "unat (view ! i) AND 0x1f = length_info n"
    and "decodeLength view (Suc i) (length_info n) = Inr (n, j)"
  using assms(1) head_byte [OF assms(2), of n]
    decodeLength_head [OF assms(3), of "Suc i" "pre @ [of_nat (32 * majorType + length_info n)]" rest]
  by (simp_all add: i_def j_def item_head_def nth_append)

lemma decode_simple_head:
  assumes "view = pre @ item_head 7 n @ rest" "n < 24"
  shows "decodeItem E view (Suc d) (length pre) =
    (if n = 20 then Inr (CBool False, Suc (length pre))
     else if n = 21 then Inr (CBool True, Suc (length pre))
     else if n = 22 then Inr (CNull, Suc (length pre))
     else if n = 23 then Inr (CUndef, Suc (length pre)) else Inl (UnknownSimple n))"
proof -
  have "length_info n = n" using assms(2) by (simp add: length_info_def)
  then show ?thesis
    using decode_at_head [OF assms(1)] assms(2) by (simp add: Let_def decodeSimpleAndFloat_def)
qed

lemma length_item_head_simple: "n < 24 \<Longrightarrow> length (item_head m n) = 1"
  by (simp add: item_head_def length_bytes_def)

lemma decode_float_bytes:
  "decodeItem E (pre @ [0xf9, b, 0] @ rest) (Suc d) (length pre) =
     Inr (CNum (decodeFloat16 (256 * unat b)), length pre + 3)"
  by (simp add: nth_append decodeSimpleAndFloat_def get_uint_def be_nat_def drop_bit_eq_div)

lemma jm_set_new: "k \<notin> fst ` set m \<Longrightarrow> jm_set k v m = m @ [(k, v)]"
  unfolding jm_set_def by (induction m) auto

lemma decode_text:
  assumes "view = pre @ encode_text u s @ rest" "length (u s) < 2 ^ 53" "textDecoder E (u s) = s"
  shows "decodeItem E view (Suc d) (length pre) =
    Inr (CText s, length pre + length (encode_text u s))"
  using decode_at_head [of view pre 3 "length (u s)" "u s @ rest"] assms
  by (simp add: encode_text_def Let_def decodeString_def)

lemma array_loop_encoded:
  assumes "\<And>x pre rest. x \<in> set xs \<Longrightarrow> view = pre @ f x @ rest \<Longrightarrow>
      item (length pre) = Inr (x, length pre + length (f x))"
    and "view = pre @ concat (map f xs) @ rest"
  shows "array_loop item (length xs) (length pre) acc =
    Inr (acc @ xs, length pre + length (concat (map f xs)))"
  using assms
proof (induction xs arbitrary: pre acc)
  case (Cons x xs)
  have item: "item (length pre) = Inr (x, length pre + length (f x))"
    using Cons.prems by simp
  have "array_loop item (length xs) (length (pre @ f x)) (acc @ [x]) =
      Inr ((acc @ [x]) @ xs, length (pre @ f x) + length (concat (map f xs)))"
    by (rule Cons.IH) (use Cons.prems in auto)
  with item show ?case by (simp add: array_loop_Suc add.assoc)
qed simp

lemma map_loop_encoded:
  assumes "\<And>p pre rest. p \<in> set kvs \<Longrightarrow> view = pre @ encode_text u (fst p) @ rest \<Longrightarrow>
      item (length pre) = Inr (CText (fst p), length pre + length (encode_text u (fst p)))"
    and "\<And>p pre rest. p \<in> set kvs \<Longrightarrow> view = pre @ f (snd p) @ rest \<Longrightarrow>
      item (length pre) = Inr (snd p, length pre + length (f (snd p)))"
    and "view = pre @ concat (map (\<lambda>p. encode_text u (fst p) @ f (snd p)) kvs) @ rest"
    and "distinct (map fst (own @ kvs))" "''__proto__'' \<notin> fst ` set kvs"
  shows "map_loop E item (length kvs) (length pre) (own, None) =
    Inr ((own @ kvs, None), length pre +
      length (concat (map (\<lambda>p. encode_text u (fst p) @ f (snd p)) kvs)))"
  using assms
proof (induction kvs arbitrary: pre own)
  case (Cons p kvs)
  let ?pre1 = "pre @ encode_text u (fst p)" and ?pre2 = "pre @ encode_text u (fst p) @ f (snd p)"
  have key: "item (length pre) = Inr (CText (fst p), length ?pre1)"
    using Cons.prems(1) [of p pre] Cons.prems(3) by simp
  have val: "item (length ?pre1) = Inr (snd p, length ?pre2)"
    using Cons.prems(2) [of p ?pre1] Cons.prems(3) by (simp add: add.assoc)
  have own: "assign_key (fst p) (snd p) (own, None) = (own @ [p], None)"
    using Cons.prems(4,5) by (auto simp: jm_set_new)
  have "map_loop E item (length kvs) (length ?pre2) (own @ [p], None) =
      Inr (((own @ [p]) @ kvs, None), length ?pre2 +
        length (concat (map (\<lambda>p. encode_text u (fst p) @ f (snd p)) kvs)))"
    by (rule Cons.IH) (use Cons.prems in auto)
  with key val own show ?case by (simp add: map_loop_Suc result_key_def add.assoc)
qed simp

section \<open>Round trip\<close>

lemma length_item_head: "length (item_head m n) = Suc (length (length_bytes n))"
  by (simp add: item_head_def)

lemma length_part: "x \<in> set xs \<Longrightarrow> length (f x) \<le> length (concat (map f xs))"
  by (induction xs) auto

lemma decode_container:
  assumes "view = pre @ item_head majorType n @ rest" "n < 2 ^ 53"
  defines "j \<equiv> length pre + length (item_head majorType n)"
  shows "majorType = 4 \<Longrightarrow> array_loop (decodeItem E view d) n j [] = Inr (xs, e) \<Longrightarrow>
      decodeItem E view (Suc d) (length pre) = Inr (CArr xs, e)"
    and "majorType = 5 \<Longrightarrow> map_loop E (decodeItem E view d) n j ([], None) = Inr ((own, None), e) \<Longrightarrow>
      decodeItem E view (Suc d) (length pre) = Inr (CObj own None, e)"
  using decode_at_head [OF assms(1) _ assms(2)]
  by (simp_all add: Let_def decodeArray_def decodeMap_def j_def)

lemma decode_number:
  assumes "view = pre @ item_head majorType n @ rest" "n < 2 ^ 53"
  shows "majorType = 0 \<Longrightarrow> decodeItem E view (Suc d) (length pre) =
      Inr (CNum (JFin False (of_nat n)), length pre + length (item_head majorType n))"
    and "majorType = 1 \<Longrightarrow> n + 1 < 2 ^ 53 \<Longrightarrow> decodeItem E view (Suc d) (length pre) =
      Inr (CNum (JFin True (of_nat (n + 1))), length pre + length (item_head majorType n))"
  using decode_at_head [OF assms(1) _ assms(2)]
  by (simp_all add: Let_def decodeUnsigned_def decodeSigned_def round53_small)

lemma decode_encoded_number:
  assumes "encodable u (CNum x)"
  shows "decodeItem E (pre @ encode u (CNum x) @ rest) (Suc d) (length pre) =
    Inr (CNum x, length pre + length (encode u (CNum x)))"
proof (cases x)
  case (JFin negative r)
  define n where "n = nat \<lfloor>r\<rfloor>"
  have r: "r = of_nat n" "n < 2 ^ 53" and n: "negative \<Longrightarrow> 1 \<le> n"
  proof -
    have "of_int \<lfloor>r\<rfloor> = r" "0 \<le> r" "r < 2 ^ 53" "negative \<Longrightarrow> 1 \<le> r"
      using assms(1) by (auto simp: JFin split: if_splits)
    then show "r = of_nat n" "n < 2 ^ 53" "negative \<Longrightarrow> 1 \<le> n"
      by (auto simp: n_def nat_less_iff floor_less_iff le_nat_iff le_floor_iff of_nat_nat)
  qed
  show ?thesis
  proof (cases negative)
    case True
    with n obtain m where m: "n = m + 1" by (metis Suc_eq_plus1 Suc_le_D True n One_nat_def)
    have "decodeItem E (pre @ item_head 1 m @ rest) (Suc d) (length pre) =
        Inr (CNum (JFin True (of_nat (m + 1))), length pre + length (item_head 1 m))"
      using r m by (intro decode_number(2)) auto
    moreover have "encode u (CNum x) = item_head 1 m"
      using JFin True m r(1) by (simp add: nat_add_distrib)
    ultimately show ?thesis using JFin True m r(1) by (simp del: decodeItem.simps encode.simps)
  next
    case False
    have "decodeItem E (pre @ item_head 0 n @ rest) (Suc d) (length pre) =
        Inr (CNum (JFin False (of_nat n)), length pre + length (item_head 0 n))"
      using r by (intro decode_number(1)) auto
    moreover have "encode u (CNum x) = item_head 0 n" using JFin False r(1) by simp
    ultimately show ?thesis using JFin False r(1) by (simp del: decodeItem.simps encode.simps)
  qed
next
  case (JInf negative)
  have "decodeFloat16 (256 * unat (if negative then 0xfc else 0x7c :: 8 word)) = JInf negative"
    by (simp add: decodeFloat16_ieee_eq ieee_def)
  with JInf decode_float_bytes [of E pre "if negative then 0xfc else 0x7c" rest d] show ?thesis
    by (simp del: decodeItem.simps)
next
  case JNotANumber
  have "decodeFloat16 (256 * unat (0x7e :: 8 word)) = JNotANumber"
    by (simp add: decodeFloat16_ieee_eq ieee_def)
  with JNotANumber decode_float_bytes [of E pre "0x7e" rest d] show ?thesis
    by (simp del: decodeItem.simps)
qed

lemma encode_pos: "0 < length (encode u v)"
  by (induction u v rule: encode.induct) (simp_all add: encode_text_def item_head_def)

text \<open>The induction hypotheses, for the depth that is left inside a container.\<close>

lemma nested_depth:
  assumes "\<And>pre rest d. length (encode u v) \<le> Suc d \<Longrightarrow>
      decodeItem E (pre @ encode u v @ rest) (Suc d) (length pre) = r pre"
    and "length (encode u v) \<le> d" "view = pre @ encode u v @ rest"
  shows "decodeItem E view d (length pre) = r pre"
proof -
  obtain d' where "d = Suc d'" using encode_pos [of u v] assms(2) by (cases d) auto
  with assms show ?thesis by (simp del: decodeItem.simps)
qed

lemma decode_encoded:
  "(\<And>s. textDecoder E (u s) = s) \<Longrightarrow> encodable u v \<Longrightarrow> length (encode u v) \<le> Suc d \<Longrightarrow>
    decodeItem E (pre @ encode u v @ rest) (Suc d) (length pre) =
      Inr (v, length pre + length (encode u v))"
proof (induction u v arbitrary: pre rest d rule: encode.induct)
  case (7 u s)
  then show ?case using decode_text [OF refl, of u s E pre rest d] by (simp del: decodeItem.simps)
next
  case (8 u bs)
  then show ?case using decode_at_head [of _ pre 2 "length bs" "bs @ rest", OF refl]
    by (simp add: Let_def decodeByteString_def)
next
  case (9 u xs)
  let ?view = "pre @ encode u (CArr xs) @ rest"
  have "array_loop (decodeItem E ?view d) (length xs) (length (pre @ item_head 4 (length xs))) [] =
      Inr ([] @ xs, length (pre @ item_head 4 (length xs)) + length (concat (map (encode u) xs)))"
  proof (rule array_loop_encoded)
    fix x pre' rest' assume x: "x \<in> set xs" and view: "?view = pre' @ encode u x @ rest'"
    have fits: "length (encode u x) \<le> d"
      using length_part [OF x, of "encode u"] 9(4) by (simp add: length_item_head)
    have "encodable u x" using 9(3) x by simp
    show "decodeItem E ?view d (length pre') = Inr (x, length pre' + length (encode u x))"
      by (rule nested_depth [OF _ fits view]) (rule 9(1) [OF x 9(2) \<open>encodable u x\<close>])
  qed simp
  then show ?case
    using 9(3) decode_container(1) [of ?view pre 4 "length xs" "concat (map (encode u) xs) @ rest" E d xs]
    by (simp add: add.assoc del: decodeItem.simps)
next
  case (10 u own proto)
  let ?f = "\<lambda>p. encode_text u (fst p) @ encode u (snd p)"
  let ?view = "pre @ encode u (CObj own proto) @ rest"
  have fits: "length (encode_text u (fst p)) \<le> d" "length (encode u (snd p)) \<le> d"
    if "p \<in> set own" for p
    using length_part [OF that, of ?f] 10(4) by (simp_all add: length_item_head)
  have "map_loop E (decodeItem E ?view d) (length own) (length (pre @ item_head 5 (length own))) ([], None) =
      Inr (([] @ own, None), length (pre @ item_head 5 (length own)) + length (concat (map ?f own)))"
  proof (rule map_loop_encoded)
    fix p pre' rest' assume p: "p \<in> set own" and view: "?view = pre' @ encode_text u (fst p) @ rest'"
    obtain d' where "d = Suc d'"
      using fits(1) [OF p] by (cases d) (auto simp: encode_text_def item_head_def)
    with decode_text [OF view] p 10(2,3)
    show "decodeItem E ?view d (length pre') =
        Inr (CText (fst p), length pre' + length (encode_text u (fst p)))"
      by (auto simp del: decodeItem.simps)
  next
    fix p pre' rest' assume p: "p \<in> set own" and view: "?view = pre' @ encode u (snd p) @ rest'"
    have "encodable u (snd p)" using 10(3) p by simp
    show "decodeItem E ?view d (length pre') = Inr (snd p, length pre' + length (encode u (snd p)))"
      by (rule nested_depth [OF _ fits(2) [OF p] view]) (rule 10(1) [OF p 10(2) \<open>encodable u (snd p)\<close>])
  qed (use 10(3) in simp_all)
  then show ?case
    using 10(3) decode_container(2) [of ?view pre 5 "length own" "concat (map ?f own) @ rest" E d own]
    by (simp add: add.assoc del: decodeItem.simps)
qed (use decode_simple_head [OF refl, of 20] decode_simple_head [OF refl, of 21]
    decode_simple_head [OF refl, of 22] decode_simple_head [OF refl, of 23] decode_encoded_number in
    \<open>auto simp: length_item_head_simple simp del: decodeItem.simps encode.simps(4-6)\<close>)

lemma cbor_decode_encoded:
  assumes "\<And>s. textDecoder E (u s) = s" "encodable u v"
  shows "decodeCBOR E (encode u v @ rest) = Inr v"
  using decode_encoded [OF assms(1,2), of "length (encode u v @ rest)" "[]" rest]
  by (simp add: decodeCBOR_def del: decodeItem.simps)

text \<open>
  C15. \<^verbatim>\<open>decodeCBOR\<close> reads back every encoded value: booleans, \<^verbatim>\<open>null\<close>, \<^verbatim>\<open>undefined\<close>, the safe integers
  in all five lengths, the infinities, \<^verbatim>\<open>NaN\<close>, texts, byte strings, and arrays and records of them
  nested to any depth, whatever bytes follow. The keys of a record are distinct and none is
  \<^verbatim>\<open>__proto__\<close>; of the platform it needs that the text decoder inverts UTF-8.
\<close>

theorem cbor_roundtrip:
  assumes "\<And>s. textDecoder E (u s) = s" "encodable u v"
  shows "decodeCBOR E (encode u v @ rest) = Inr v"
  by (rule cbor_decode_encoded [OF assms])

theorem cbor_roundtrip_witness:
  "decodeCBOR \<lparr>textDecoder = map (\<lambda>b. char_of (unat b)), numberToString = \<lambda>_. []\<rparr>
     (encode (map (\<lambda>c. of_nat (of_char c)))
       (CObj [(''t'', CArr [CNum (JFin False 300), CNull]), (''i'', CBytes [255])] None) @ [0])
   = Inr (CObj [(''t'', CArr [CNum (JFin False 300), CNull]), (''i'', CBytes [255])] None)"
  by (rule cbor_roundtrip) (simp_all add: comp_def unat_of_nat)

end
