(* ===== verification/Cashu.thy ===== *)
theory Cashu
  imports Cbor_Roundtrip Js_Value
begin

text \<open>
  \<^verbatim>\<open>ui/common/utils/cashu.ts\<close>: reading cashu tokens and melting them into the user's wallet.

  Parameters: \<open>base64\<close> is \<^verbatim>\<open>Buffer.from(s, 'base64')\<close> and \<open>json\<close> is \<^verbatim>\<open>JSON.parse\<close> on the text of a
  buffer (\<open>None\<close> when it throws), both of packages; \<open>invoice\<close> and \<open>quote\<close> are the answers of the
  bridge and of the mint. Amounts of a melt are integers, as the sats and millisats of the source.
\<close>

section \<open>Prefixes\<close>

datatype cashu_error =
    InvalidCashuToken
  | V1NotSupported
  | NoValidProofs
  | SyntaxError
  | TypeError
  | CborError cbor_error
  | NoFederationId
  | PaymentFailed

definition startsWith :: "string \<Rightarrow> string \<Rightarrow> bool" where
  "startsWith token p \<longleftrightarrow> take (length p) token = p"

definition strip_prefix :: "string \<Rightarrow> string \<Rightarrow> string" where
  "strip_prefix p token = (if startsWith token p then drop (length p) token else token)"

definition uriPrefixes :: "string list" where
  "uriPrefixes = [''web+cashu://'', ''cashu://'', ''cashu:'']"

definition validateCashuTokens :: "string \<Rightarrow> cashu_error + string" where
  "validateCashuTokens raw =
     (let token = fold strip_prefix uriPrefixes raw
      in if \<not> startsWith token ''cashuA'' \<and> \<not> startsWith token ''cashuB''
         then Inl InvalidCashuToken else Inr token)"

text \<open>\<^verbatim>\<open>str.replace(c, d)\<close> with a string pattern replaces the first occurrence only.\<close>

fun replace_char :: "char \<Rightarrow> char \<Rightarrow> string \<Rightarrow> string" where
  "replace_char c d [] = []"
| "replace_char c d (x # xs) = (if x = c then d # xs else x # replace_char c d xs)"

definition bufferFromBase64Url :: "(string \<Rightarrow> 8 word list) \<Rightarrow> string \<Rightarrow> 8 word list" where
  "bufferFromBase64Url base64 str =
     base64 (replace_char (CHR ''_'') (CHR ''/'') (replace_char (CHR ''-'') (CHR ''+'') str))"

text \<open>\<^verbatim>\<open>token.replace('cashuA', '')\<close> on a text that begins with it.\<close>

definition rawToken :: "string \<Rightarrow> string" where
  "rawToken token = drop 6 token"

section \<open>Tokens of versions 1 to 3\<close>

text \<open>
  A legacy token is not validated: its mint and proofs are whatever values the JSON has.
\<close>

record legacy_payload =
  legacy_mint :: jv
  legacy_token :: "jv list"

definition throwing :: "'a option \<Rightarrow> cashu_error + 'a" where
  "throwing r = (case r of None \<Rightarrow> Inl TypeError | Some x \<Rightarrow> Inr x)"

text \<open>\<^verbatim>\<open>k in v\<close>, a \<^verbatim>\<open>TypeError\<close> on a primitive, and \<^verbatim>\<open>v.length\<close>.\<close>

fun js_in :: "string \<Rightarrow> jv \<Rightarrow> bool option" where
  "js_in k (JObj o') = Some (jm_get o' k \<noteq> None)"
| "js_in k (JArr xs) = Some (jm_get (index_entries xs) k \<noteq> None)"
| "js_in k v = None"

fun js_length :: "jv \<Rightarrow> jv option" where
  "js_length (JArr xs) = Some (JNum (int (length xs)))"
| "js_length (JStr s) = Some (JNum (int (length s)))"
| "js_length v = js_prop v ''length''"

text \<open>\<^verbatim>\<open>parsedTokenBuffer.token[0]\<close>, its mint and its proofs.\<close>

definition first_token :: "jv \<Rightarrow> legacy_payload option" where
  "first_token parsed = do {
     token \<leftarrow> js_prop parsed ''token'';
     entry \<leftarrow> js_prop token ''0'';
     mint \<leftarrow> js_prop entry ''mint'';
     proofs \<leftarrow> js_prop entry ''proofs'';
     Some \<lparr> legacy_mint = mint, legacy_token = [proofs] \<rparr> }"

definition is_v3 :: "jv \<Rightarrow> bool option" where
  "is_v3 parsed = do {
     present \<leftarrow> js_in ''token'' parsed;
     if \<not> present then Some False
     else do { token \<leftarrow> js_prop parsed ''token''; Some (as_array token \<noteq> None) } }"

definition is_v2 :: "jv \<Rightarrow> bool option" where
  "is_v2 parsed = do {
     proofs \<leftarrow> js_in ''proofs'' parsed;
     mints \<leftarrow> js_in ''mints'' parsed;
     if \<not> proofs \<or> \<not> mints then Some False
     else do {
       ms \<leftarrow> js_prop parsed ''mints'';
       n \<leftarrow> js_length ms;
       if \<not> js_gt n (JNum 0) then Some False
       else do { m \<leftarrow> js_prop ms ''0''; url \<leftarrow> js_prop m ''url''; Some (truthy url) } } }"

definition decodeCashuTokenLegacy ::
  "(string \<Rightarrow> 8 word list) \<Rightarrow> (8 word list \<Rightarrow> jv option) \<Rightarrow> string \<Rightarrow> cashu_error + legacy_payload" where
  "decodeCashuTokenLegacy base64 json token =
     (case json (bufferFromBase64Url base64 (rawToken token)) of
        None \<Rightarrow> Inl SyntaxError
      | Some parsed \<Rightarrow>
          then_with (throwing (is_v3 parsed)) (\<lambda>v3.
            if v3 then throwing (first_token parsed)
            else then_with (throwing (is_v2 parsed)) (\<lambda>v2.
              if v2 then throwing (first_token parsed)
              else if as_array parsed \<noteq> None then Inl V1NotSupported
              else Inl NoValidProofs)))"

section \<open>Tokens of version 4\<close>

record PayloadProof =
  proof_id :: string
  proof_amount :: js_number
  proof_secret :: string
  proof_C :: string

record Payload =
  payload_mint :: string
  payload_token :: "PayloadProof list list"

text \<open>\<^verbatim>\<open>v.k\<close> and \<^verbatim>\<open>k in v\<close> on a decoded value: own properties, then those of the prototype.\<close>

fun cbor_in :: "string \<Rightarrow> cbor_value \<Rightarrow> bool" where
  "cbor_in k (CObj own proto) \<longleftrightarrow>
     (case jm_get own k of Some v \<Rightarrow> True | None \<Rightarrow> (case proto of None \<Rightarrow> False | Some p \<Rightarrow> cbor_in k p))"
| "cbor_in k v \<longleftrightarrow> False"

fun cbor_prop :: "string \<Rightarrow> cbor_value \<Rightarrow> cbor_value" where
  "cbor_prop k (CObj own proto) =
     (case jm_get own k of Some v \<Rightarrow> v | None \<Rightarrow> (case proto of None \<Rightarrow> CUndef | Some p \<Rightarrow> cbor_prop k p))"
| "cbor_prop k v = CUndef"

definition is_text :: "cbor_value \<Rightarrow> bool" where
  "is_text v = (case v of CText _ \<Rightarrow> True | _ \<Rightarrow> False)"

definition is_number :: "cbor_value \<Rightarrow> bool" where
  "is_number v = (case v of CNum _ \<Rightarrow> True | _ \<Rightarrow> False)"

definition is_bytes :: "cbor_value \<Rightarrow> bool" where
  "is_bytes v = (case v of CBytes _ \<Rightarrow> True | _ \<Rightarrow> False)"

text \<open>The checks of a proof and of a token; \<open>None\<close> is the \<^verbatim>\<open>TypeError\<close> on \<^verbatim>\<open>null\<close>.\<close>

definition valid_proof :: "cbor_value \<Rightarrow> bool option" where
  "valid_proof p =
     (if \<not> isValidResultType p then Some False
      else if p = CNull then None
      else Some (is_number (cbor_prop ''a'' p) \<and> is_text (cbor_prop ''s'' p) \<and>
        is_bytes (cbor_prop ''c'' p) \<and>
        (cbor_prop ''d'' p = CUndef \<or> isValidResultType (cbor_prop ''d'' p)) \<and>
        (cbor_prop ''w'' p = CUndef \<or> is_text (cbor_prop ''w'' p))))"

text \<open>A loop that returns \<^verbatim>\<open>false\<close> at the first element that is not valid.\<close>

fun all_valid :: "('a \<Rightarrow> bool option) \<Rightarrow> 'a list \<Rightarrow> bool option" where
  "all_valid check [] = Some True"
| "all_valid check (x # xs) =
     (case check x of None \<Rightarrow> None | Some False \<Rightarrow> Some False | Some True \<Rightarrow> all_valid check xs)"

definition valid_token :: "cbor_value \<Rightarrow> bool option" where
  "valid_token t =
     (if \<not> isValidResultType t then Some False
      else if t = CNull then None
      else if \<not> cbor_in ''i'' t \<or> \<not> cbor_in ''p'' t then Some False
      else if \<not> is_bytes (cbor_prop ''i'' t) then Some False
      else (case cbor_prop ''p'' t of CArr ps \<Rightarrow> all_valid valid_proof ps | _ \<Rightarrow> Some False))"

definition isValidCashuV4Token :: "cbor_value \<Rightarrow> bool option" where
  "isValidCashuV4Token decoded =
     (if \<not> isValidResultType decoded then Some False
      else if decoded = CNull then None
      else if \<not> is_text (cbor_prop ''m'' decoded) then Some False
      else if \<not> is_text (cbor_prop ''u'' decoded) then Some False
      else if \<not> is_text (cbor_prop ''d'' decoded) \<and> cbor_prop ''d'' decoded \<noteq> CUndef then Some False
      else (case cbor_prop ''t'' decoded of CArr ts \<Rightarrow> all_valid valid_token ts | _ \<Rightarrow> Some False))"

text \<open>\<^verbatim>\<open>Buffer.from(bytes).toString('hex')\<close>: two digits for each byte.\<close>

definition hex_bytes :: "8 word list \<Rightarrow> string" where
  "hex_bytes bs = concat (map (\<lambda>b. [digit_char (unat b div 16), digit_char (unat b mod 16)]) bs)"

text \<open>The fields of a value that passed the checks.\<close>

definition text_of :: "cbor_value \<Rightarrow> string" where
  "text_of v = (case v of CText s \<Rightarrow> s | _ \<Rightarrow> [])"

definition bytes_of :: "cbor_value \<Rightarrow> 8 word list" where
  "bytes_of v = (case v of CBytes bs \<Rightarrow> bs | _ \<Rightarrow> [])"

definition number_of :: "cbor_value \<Rightarrow> js_number" where
  "number_of v = (case v of CNum n \<Rightarrow> n | _ \<Rightarrow> JNotANumber)"

definition elements_of :: "cbor_value \<Rightarrow> cbor_value list" where
  "elements_of v = (case v of CArr xs \<Rightarrow> xs | _ \<Rightarrow> [])"

definition parseSingleCashuV4Token :: "cbor_value \<Rightarrow> PayloadProof list" where
  "parseSingleCashuV4Token token =
     map (\<lambda>p. \<lparr> proof_id = hex_bytes (bytes_of (cbor_prop ''i'' token)),
                proof_amount = number_of (cbor_prop ''a'' p),
                proof_secret = text_of (cbor_prop ''s'' p),
                proof_C = hex_bytes (bytes_of (cbor_prop ''c'' p)) \<rparr>)
       (elements_of (cbor_prop ''p'' token))"

definition coerceCashuV4TokensArray :: "cbor_value list \<Rightarrow> PayloadProof list list" where
  "coerceCashuV4TokensArray tokens = map parseSingleCashuV4Token tokens"

definition decodeCashuTokenV4 ::
  "cbor_platform \<Rightarrow> (string \<Rightarrow> 8 word list) \<Rightarrow> string \<Rightarrow> cashu_error + Payload" where
  "decodeCashuTokenV4 E base64 token =
     (case decodeCBOR E (bufferFromBase64Url base64 (rawToken token)) of
        Inl e \<Rightarrow> Inl (CborError e)
      | Inr parsed \<Rightarrow>
          if \<not> isValidResultType parsed then Inl InvalidCashuToken
          else then_with (throwing (isValidCashuV4Token parsed)) (\<lambda>valid.
            if \<not> valid then Inl InvalidCashuToken
            else Inr \<lparr> payload_mint = text_of (cbor_prop ''m'' parsed),
                   payload_token = coerceCashuV4TokensArray (elements_of (cbor_prop ''t'' parsed)) \<rparr>))"

datatype decoded_payload = Legacy legacy_payload | V4 Payload

definition decodeCashuTokens :: "cbor_platform \<Rightarrow> (string \<Rightarrow> 8 word list) \<Rightarrow>
    (8 word list \<Rightarrow> jv option) \<Rightarrow> string \<Rightarrow> cashu_error + decoded_payload" where
  "decodeCashuTokens E base64 json raw =
     then_with (validateCashuTokens raw) (\<lambda>token.
       if startsWith token ''cashuA''
       then then_with (decodeCashuTokenLegacy base64 json token) (\<lambda>p. Inr (Legacy p))
       else then_with (decodeCashuTokenV4 E base64 token) (\<lambda>p. Inr (V4 p)))"

section \<open>Melting\<close>

record Proof =
  melt_amount :: int
  melt_secret :: string
  melt_C :: string
  melt_id :: string

record MeltQuoteResponse =
  quote_id :: string
  quote_amount :: int
  fee_reserve :: int

record MeltQuote =
  mintHost :: string
  meltPayload_quote :: string
  meltPayload_inputs :: "Proof list"
  amountMsats :: int
  feesMsats :: int

record MeltSummary =
  quotes :: "MeltQuote list"
  totalFees :: int
  totalAmount :: int

definition satToMsat :: "int \<Rightarrow> int" where
  "satToMsat sats = sats * 1000"

text \<open>
  \<open>invoice i amount\<close> is the invoice of the \<open>i\<close>-th request to the bridge and \<open>quote host inv\<close> the
  answer of the mint. Each token takes two of both: one to learn the fee, one without it.
\<close>

definition getInvoiceFee :: "(nat \<Rightarrow> int \<Rightarrow> string) \<Rightarrow> (string \<Rightarrow> string \<Rightarrow> MeltQuoteResponse) \<Rightarrow>
    nat \<Rightarrow> int \<Rightarrow> string \<Rightarrow> int" where
  "getInvoiceFee invoice quote i amount host =
     satToMsat (fee_reserve (quote host (invoice i amount)))"

definition getUpdatedMeltQuote :: "(nat \<Rightarrow> int \<Rightarrow> string) \<Rightarrow> (string \<Rightarrow> string \<Rightarrow> MeltQuoteResponse) \<Rightarrow>
    nat \<Rightarrow> int \<Rightarrow> string \<Rightarrow> int \<times> string \<times> int" where
  "getUpdatedMeltQuote invoice quote i totalTokensSats host =
     (let amount = satToMsat totalTokensSats;
          targetFee = getInvoiceFee invoice quote i amount host;
          candidateAmount = amount - targetFee;
          q = quote host (invoice (i + 1) candidateAmount)
      in (satToMsat (quote_amount q), quote_id q, satToMsat (fee_reserve q)))"

fun melt_quotes :: "(nat \<Rightarrow> int \<Rightarrow> string) \<Rightarrow> (string \<Rightarrow> string \<Rightarrow> MeltQuoteResponse) \<Rightarrow>
    string \<Rightarrow> nat \<Rightarrow> Proof list list \<Rightarrow> MeltQuote list" where
  "melt_quotes invoice quote host i [] = []"
| "melt_quotes invoice quote host i (proofs # ts) =
     (let totalTokensSats = foldl (\<lambda>sum p. sum + melt_amount p) 0 proofs;
          (amount, meltQuoteId, fees) = getUpdatedMeltQuote invoice quote i totalTokensSats host
      in \<lparr> mintHost = host, meltPayload_quote = meltQuoteId, meltPayload_inputs = proofs,
           amountMsats = amount, feesMsats = fees \<rparr> # melt_quotes invoice quote host (i + 2) ts)"

definition getMeltQuotes :: "(nat \<Rightarrow> int \<Rightarrow> string) \<Rightarrow> (string \<Rightarrow> string \<Rightarrow> MeltQuoteResponse) \<Rightarrow>
    string \<Rightarrow> Proof list list \<Rightarrow> string option \<Rightarrow> cashu_error + MeltSummary" where
  "getMeltQuotes invoice quote host tokens federationId =
     (if federationId = None \<or> federationId = Some [] then Inl NoFederationId
      else let qs = melt_quotes invoice quote host 0 tokens
           in Inr \<lparr> quotes = qs, totalFees = foldl (\<lambda>sum q. sum + feesMsats q) 0 qs,
                    totalAmount = foldl (\<lambda>sum q. sum + amountMsats q) 0 qs \<rparr>)"

text \<open>
  \<^verbatim>\<open>executeMelts\<close>, with the quotes that were sent to their mint so far and whether the mint of a
  quote answers that it was paid.
\<close>

fun execute_melts :: "(MeltQuote \<Rightarrow> bool) \<Rightarrow> MeltQuote list \<Rightarrow> int \<Rightarrow> MeltQuote list
    \<Rightarrow> MeltQuote list \<times> (cashu_error + int)" where
  "execute_melts paid [] totalMelted sent = (sent, Inr totalMelted)"
| "execute_melts paid (q # qs) totalMelted sent =
     (if \<not> paid q then (sent @ [q], Inl PaymentFailed)
      else execute_melts paid qs (totalMelted + amountMsats q) (sent @ [q]))"

definition executeMelts :: "(MeltQuote \<Rightarrow> bool) \<Rightarrow> MeltSummary \<Rightarrow> MeltQuote list \<times> (cashu_error + int)" where
  "executeMelts paid summary = execute_melts paid (quotes summary) 0 []"

section \<open>Reading a version 4 token\<close>

text \<open>The two alphabets of base64 mean the same to the decoder.\<close>

definition base64_std :: "char \<Rightarrow> char" where
  "base64_std c = (if c = CHR ''-'' then CHR ''+'' else if c = CHR ''_'' then CHR ''/'' else c)"

lemma replace_char_std: "base64_std d = base64_std c \<Longrightarrow>
    map base64_std (replace_char c d s) = map base64_std s"
  by (induction c d s rule: replace_char.induct) auto

lemma bufferFromBase64Url_eq:
  assumes "\<And>s. base64 s = base64 (map base64_std s)"
  shows "bufferFromBase64Url base64 s = base64 s"
proof -
  have "map base64_std (replace_char (CHR ''_'') (CHR ''/'') (replace_char (CHR ''-'') (CHR ''+'') s)) =
      map base64_std s"
    by (simp add: replace_char_std base64_std_def)
  then show ?thesis unfolding bufferFromBase64Url_def by (metis assms)
qed

text \<open>The CBOR value of a token: its mint, unit and, for each keyset, the proofs.\<close>

type_synonym v4_proof = "nat \<times> string \<times> 8 word list"

definition v4_proof_value :: "v4_proof \<Rightarrow> cbor_value" where
  "v4_proof_value p = (case p of (a, s, c) \<Rightarrow>
     CObj [(''a'', CNum (JFin False (of_nat a))), (''s'', CText s), (''c'', CBytes c)] None)"

definition v4_keyset_value :: "8 word list \<times> v4_proof list \<Rightarrow> cbor_value" where
  "v4_keyset_value t =
     CObj [(''i'', CBytes (fst t)), (''p'', CArr (map v4_proof_value (snd t)))] None"

definition v4_value :: "string \<Rightarrow> string \<Rightarrow> (8 word list \<times> v4_proof list) list \<Rightarrow> cbor_value" where
  "v4_value mint un ts =
     CObj [(''m'', CText mint), (''u'', CText un), (''t'', CArr (map v4_keyset_value ts))] None"

definition v4_payload :: "string \<Rightarrow> (8 word list \<times> v4_proof list) list \<Rightarrow> Payload" where
  "v4_payload mint ts = \<lparr> payload_mint = mint, payload_token =
     map (\<lambda>t. map (\<lambda>(a, s, c). \<lparr> proof_id = hex_bytes (fst t), proof_amount = JFin False (of_nat a),
       proof_secret = s, proof_C = hex_bytes c \<rparr>) (snd t)) ts \<rparr>"

lemma all_valid_map: "(\<And>x. check (f x) = Some True) \<Longrightarrow> all_valid check (map f xs) = Some True"
  by (induction xs) auto

lemmas cbor_access = cbor_prop.simps cbor_in.simps jm_get_Cons jm_get_Nil isValidResultType_def
  is_text_def is_bytes_def is_number_def text_of_def bytes_of_def number_of_def elements_of_def

lemma valid_v4_proof: "valid_proof (v4_proof_value p) = Some True"
  by (cases p) (simp add: valid_proof_def v4_proof_value_def cbor_access)

lemma valid_v4_keyset: "valid_token (v4_keyset_value t) = Some True"
  by (simp add: valid_token_def v4_keyset_value_def cbor_access all_valid_map valid_v4_proof)

lemma valid_v4_value: "isValidCashuV4Token (v4_value m u ts) = Some True"
  by (simp add: isValidCashuV4Token_def v4_value_def cbor_access all_valid_map valid_v4_keyset)

lemma parse_v4_keyset: "parseSingleCashuV4Token (v4_keyset_value t) =
    map (\<lambda>(a, s, c). \<lparr> proof_id = hex_bytes (fst t), proof_amount = JFin False (of_nat a),
       proof_secret = s, proof_C = hex_bytes c \<rparr>) (snd t)"
  by (auto simp: parseSingleCashuV4Token_def v4_keyset_value_def v4_proof_value_def cbor_access)

lemma decodeCashuTokenV4_value:
  assumes "decodeCBOR E (bufferFromBase64Url base64 (rawToken token)) = Inr (v4_value m u ts)"
  shows "decodeCashuTokenV4 E base64 token = Inr (v4_payload m ts)"
proof -
  have "text_of (cbor_prop ''m'' (v4_value m u ts)) = m"
    "elements_of (cbor_prop ''t'' (v4_value m u ts)) = map v4_keyset_value ts"
    "isValidResultType (v4_value m u ts)"
    by (simp_all add: v4_value_def cbor_access)
  then show ?thesis
    by (simp add: decodeCashuTokenV4_def assms valid_v4_value throwing_def v4_payload_def
        coerceCashuV4TokensArray_def parse_v4_keyset)
qed

lemma startsWith_Nil: "startsWith s []"
  by (simp add: startsWith_def)

lemma startsWith_Cons: "startsWith (d # s) (c # p) \<longleftrightarrow> d = c \<and> startsWith s p"
  by (auto simp: startsWith_def)

lemma strip_own: "strip_prefix p (p @ s) = s"
  by (simp add: strip_prefix_def startsWith_def)

lemma strip_other: "\<not> startsWith s p \<Longrightarrow> strip_prefix p s = s"
  by (simp add: strip_prefix_def)

lemma validate_prefixed:
  assumes "p \<in> set ([] # uriPrefixes)" "v = CHR ''A'' \<or> v = CHR ''B''"
  shows "validateCashuTokens (p @ ''cashu'' @ v # s) = Inr (''cashu'' @ v # s)"
proof -
  let ?t = "''cashu'' @ v # s"
  have t: "startsWith ?t ''cashuA'' \<or> startsWith ?t ''cashuB''"
    "\<not> startsWith ?t ''web+cashu://''" "\<not> startsWith ?t ''cashu://''" "\<not> startsWith ?t ''cashu:''"
    using assms(2) by (auto simp: startsWith_Cons startsWith_Nil)
  have u: "\<not> startsWith (''cashu://'' @ ?t) ''web+cashu://''"
    "\<not> startsWith (''cashu:'' @ ?t) ''web+cashu://''" "\<not> startsWith (''cashu:'' @ ?t) ''cashu://''"
    by (simp_all add: startsWith_Cons)
  note strips = strip_own t(2-4) [THEN strip_other] u [THEN strip_other]
  from assms(1) have "p = [] \<or> p = ''web+cashu://'' \<or> p = ''cashu://'' \<or> p = ''cashu:''"
    by (auto simp: uriPrefixes_def)
  then have "fold strip_prefix uriPrefixes (p @ ?t) = ?t"
    unfolding uriPrefixes_def
    by (elim disjE) (simp_all only: append_Nil strips fold_simps)
  with t(1) show ?thesis by (auto simp: validateCashuTokens_def Let_def)
qed


text \<open>A base64 codec for the witness: hexadecimal letters, which are in both alphabets.\<close>

definition nibbles :: "8 word list \<Rightarrow> string" where
  "nibbles bs = concat (map (\<lambda>b. [char_of (97 + unat b div 16), char_of (97 + unat b mod 16)]) bs)"

fun from_nibbles :: "string \<Rightarrow> 8 word list" where
  "from_nibbles (x # y # s) =
     of_nat (16 * ((of_char (base64_std x) - 97)) + (of_char (base64_std y) - 97)) # from_nibbles s"
| "from_nibbles s = []"

lemma from_nibbles_std: "from_nibbles s = from_nibbles (map base64_std s)"
  by (induction s rule: from_nibbles.induct) (simp_all add: base64_std_def)

lemma from_nibbles_nibbles: "from_nibbles (nibbles bs) = bs"
proof (induction bs)
  case (Cons b bs)
  have "base64_std (char_of (97 + n)) = char_of (97 + n)"
    "of_char (char_of (97 + n)) = 97 + n" if "n < 16" for n :: nat
    using that by (auto simp: base64_std_def char_of_eq_iff take_bit_nat_eq_self)
  moreover have "unat b < 2 ^ LENGTH(8)" by (rule unsigned_less)
  then have "unat b div 16 < 16" "unat b mod 16 < 16" by auto
  ultimately show ?case using Cons by (simp add: nibbles_def)
qed (simp add: nibbles_def)


section \<open>Reading older tokens\<close>

text \<open>
  Of a version 3 token only the first entry is read, although a token has one entry for
  each of its mints: the proofs of the others are dropped without an error.
\<close>

theorem cashu_v3_first_entry_only:
  assumes "json (bufferFromBase64Url base64 (rawToken token)) = Some (JObj parsed)"
    and "jm_get parsed ''token'' = Some (JArr (JObj entry # others))"
  shows "decodeCashuTokenLegacy base64 json token =
    Inr \<lparr> legacy_mint = obj_get entry ''mint'', legacy_token = [obj_get entry ''proofs''] \<rparr>"
proof -
  have "is_v3 (JObj parsed) = Some True"
    using assms(2) by (simp add: is_v3_def obj_get_def)
  moreover have "nat_str 0 = ''0''" by code_simp
  then have "first_token (JObj parsed) =
      Some \<lparr> legacy_mint = obj_get entry ''mint'', legacy_token = [obj_get entry ''proofs''] \<rparr>"
    using assms(2)
    by (simp add: first_token_def obj_get_def index_entries_def jm_get_Cons upt_conv_Cons
        del: upt_Suc)
  ultimately show ?thesis
    by (simp add: decodeCashuTokenLegacy_def assms(1) throwing_def)
qed

definition two_mints :: obj where
  "two_mints = [(''token'', JArr
     [JObj [(''mint'', JStr ''a''), (''proofs'', JArr [JObj [(''amount'', JNum 1)]])],
      JObj [(''mint'', JStr ''b''), (''proofs'', JArr [JObj [(''amount'', JNum 8)]])]])]"

theorem cashu_v3_first_entry_only_witness:
  "decodeCashuTokenLegacy (\<lambda>_. []) (\<lambda>_. Some (JObj two_mints)) ''cashuA'' =
     Inr \<lparr> legacy_mint = JStr ''a'', legacy_token = [JArr [JObj [(''amount'', JNum 1)]]] \<rparr>"
  using cashu_v3_first_entry_only [of "\<lambda>_. Some (JObj two_mints)" "\<lambda>_. []" "''cashuA''" two_mints
      "[(''mint'', JStr ''a''), (''proofs'', JArr [JObj [(''amount'', JNum 1)]])]"
      "[JObj [(''mint'', JStr ''b''), (''proofs'', JArr [JObj [(''amount'', JNum 8)]])]]"]
  by (simp add: two_mints_def jm_get_Cons obj_get_def)

text \<open>
  A version 2 token, which the code means to convert, cannot be read: with no \<^verbatim>\<open>token\<close> field,
  the branch for it reads the first element of that field and throws.
\<close>

theorem cashu_v2_unreadable:
  assumes "json (bufferFromBase64Url base64 (rawToken token)) = Some (JObj parsed)"
    and "jm_get parsed ''token'' = None" "jm_get parsed ''proofs'' = Some proofs"
    and "jm_get parsed ''mints'' = Some (JArr (JObj m # ms))" "truthy (obj_get m ''url'')"
  shows "decodeCashuTokenLegacy base64 json token = Inl TypeError"
proof -
  have "is_v3 (JObj parsed) = Some False" using assms(2) by (simp add: is_v3_def)
  moreover have "nat_str 0 = ''0''" by code_simp
  then have "is_v2 (JObj parsed) = Some True"
    using assms(3-5)
    by (simp add: is_v2_def obj_get_def index_entries_def jm_get_Cons upt_conv_Cons js_gt_def
        del: upt_Suc)
  moreover have "first_token (JObj parsed) = None"
    using assms(2) by (simp add: first_token_def obj_get_def)
  ultimately show ?thesis
    by (simp add: decodeCashuTokenLegacy_def assms(1) throwing_def)
qed

definition v2_token :: obj where
  "v2_token = [(''proofs'', JArr []), (''mints'', JArr [JObj [(''url'', JStr ''a'')]])]"

theorem cashu_v2_unreadable_witness:
  "decodeCashuTokenLegacy (\<lambda>_. []) (\<lambda>_. Some (JObj v2_token)) ''cashuA'' = Inl TypeError"
  by (rule cashu_v2_unreadable [of _ _ _ v2_token "JArr []" "[(''url'', JStr ''a'')]" "[]"])
    (simp_all add: v2_token_def jm_get_Cons obj_get_def)

section \<open>Melting the proofs\<close>

lemma foldl_sum: "foldl (\<lambda>sum q. sum + f q) a qs = a + (\<Sum>q\<leftarrow>qs. f q :: int)"
  by (induction qs arbitrary: a) auto

lemma melt_quotes_inputs: "map meltPayload_inputs (melt_quotes invoice quote host i ts) = ts"
  by (induction invoice quote host i ts rule: melt_quotes.induct) (auto simp: Let_def split: prod.splits)

lemma execute_melts_spec:
  "execute_melts paid qs t sent =
     (if list_all paid qs then (sent @ qs, Inr (t + (\<Sum>q\<leftarrow>qs. amountMsats q)))
      else (sent @ takeWhile paid qs @ [hd (dropWhile paid qs)], Inl PaymentFailed))"
  by (induction paid qs t sent rule: execute_melts.induct) auto

lemma melt_parts:
  assumes "getMeltQuotes invoice quote host tokens federationId = Inr summary"
  shows "map meltPayload_inputs (quotes summary) = tokens"
    "list_all paid (quotes summary) \<longrightarrow>
       executeMelts paid summary = (quotes summary, Inr (totalAmount summary))"
    "\<not> list_all paid (quotes summary) \<longrightarrow> (\<exists>q.
       executeMelts paid summary = (takeWhile paid (quotes summary) @ [q], Inl PaymentFailed) \<and>
       q \<in> set (quotes summary) \<and> \<not> paid q)"
proof -
  have summary: "quotes summary = melt_quotes invoice quote host 0 tokens"
    "totalAmount summary = (\<Sum>q\<leftarrow>quotes summary. amountMsats q)"
    using assms by (auto simp: getMeltQuotes_def foldl_sum Let_def split: if_splits)
  show "map meltPayload_inputs (quotes summary) = tokens"
    by (simp add: summary(1) melt_quotes_inputs)
  show "list_all paid (quotes summary) \<longrightarrow>
       executeMelts paid summary = (quotes summary, Inr (totalAmount summary))"
    by (simp add: executeMelts_def execute_melts_spec summary(2))
  show "\<not> list_all paid (quotes summary) \<longrightarrow> (\<exists>q.
       executeMelts paid summary = (takeWhile paid (quotes summary) @ [q], Inl PaymentFailed) \<and>
       q \<in> set (quotes summary) \<and> \<not> paid q)"
  proof
    assume unpaid: "\<not> list_all paid (quotes summary)"
    then have "dropWhile paid (quotes summary) \<noteq> []" by (simp add: list_all_iff)
    then have "\<not> paid (hd (dropWhile paid (quotes summary)))"
      and "hd (dropWhile paid (quotes summary)) \<in> set (quotes summary)"
      by (rule hd_dropWhile, rule set_dropWhileD [OF hd_in_set])
    with unpaid show "\<exists>q.
       executeMelts paid summary = (takeWhile paid (quotes summary) @ [q], Inl PaymentFailed) \<and>
       q \<in> set (quotes summary) \<and> \<not> paid q"
      by (auto simp: executeMelts_def execute_melts_spec)
  qed
qed

text \<open>
  Melting a payload sends every entry of it to the mint in order, with exactly its proofs.
  When all are paid the result is the total amount of the summary. At the first one that is not
  paid it fails as a whole, with the ones before it already melted: their amount is not reported.
\<close>

theorem melt_all_or_lose:
  assumes "getMeltQuotes invoice quote host tokens federationId = Inr summary"
  shows "map meltPayload_inputs (quotes summary) = tokens \<and>
    (list_all paid (quotes summary) \<longrightarrow>
       executeMelts paid summary = (quotes summary, Inr (totalAmount summary))) \<and>
    (\<not> list_all paid (quotes summary) \<longrightarrow> (\<exists>q.
       executeMelts paid summary = (takeWhile paid (quotes summary) @ [q], Inl PaymentFailed) \<and>
       q \<in> set (quotes summary) \<and> \<not> paid q))"
  using melt_parts [OF assms] by blast

definition example_proof :: "int \<Rightarrow> Proof" where
  "example_proof n = \<lparr> melt_amount = n, melt_secret = [], melt_C = [], melt_id = [] \<rparr>"

definition example_quotes :: "string \<Rightarrow> string \<Rightarrow> MeltQuoteResponse" where
  "example_quotes host bolt11 =
     \<lparr> quote_id = bolt11, quote_amount = 12, fee_reserve = 2 \<rparr>"

definition example_summary :: MeltSummary where
  "example_summary = (case getMeltQuotes (\<lambda>i amount. []) example_quotes ''mint''
     [[example_proof 8, example_proof 4], [example_proof 16]] (Some ''f'') of Inr s \<Rightarrow> s)"

theorem melt_all_or_lose_witness:
  "executeMelts (\<lambda>_. True) example_summary = (quotes example_summary, Inr (totalAmount example_summary)) \<and>
   totalAmount example_summary = 24000"
proof -
  have "getMeltQuotes (\<lambda>i amount. []) example_quotes ''mint''
      [[example_proof 8, example_proof 4], [example_proof 16]] (Some ''f'') = Inr example_summary"
    by (simp add: example_summary_def getMeltQuotes_def Let_def del: melt_quotes.simps)
  from melt_all_or_lose [OF this, of "\<lambda>_. True"] have
    "executeMelts (\<lambda>_. True) example_summary = (quotes example_summary, Inr (totalAmount example_summary))"
    by (simp add: list_all_iff)
  moreover have "totalAmount example_summary = 24000" by code_simp
  ultimately show ?thesis ..
qed

end
