(* ===== verification/Federation_Utils.thy ===== *)
theory Federation_Utils
  imports Js_Value
begin

text \<open>
  \<^verbatim>\<open>ui/common/utils/FederationUtils.ts\<close>: what the application reads out of the metadata of a
  federation or community, the lists of public federations, and the connection status computed
  from the guardians. Metadata is a JavaScript object whose values are texts.

  Parameters: \<open>parse\<close> is \<^verbatim>\<open>JSON.parse\<close> (\<open>None\<close> when it throws), \<open>schema\<close> the zod schema of a mini-app,
  \<open>number\<close> is \<^verbatim>\<open>Number\<close> on a text that is not a plain decimal, and \<open>nowSeconds\<close> the clock.
\<close>

section \<open>Metadata fields\<close>

definition SupportedMetaFields :: "string list" where
  "SupportedMetaFields =
    [''default_currency'', ''fixed_exchange_rate'', ''chat_server_domain'', ''invite_codes_disabled'',
     ''new_members_disabled'', ''social_recovery_disabled'', ''offline_wallet_disabled'',
     ''onchain_deposits_disabled'', ''fedi_internal_injection_disabled'', ''stability_pool_disabled'',
     ''multispend_disabled'', ''max_stable_balance_msats'', ''max_balance_msats'', ''max_invoice_msats'',
     ''nostr_enabled'', ''popup_end_timestamp'', ''federation_expiry_timestamp'',
     ''popup_countdown_message'', ''popup_ended_message'', ''tos_url'', ''welcome_message'',
     ''pinned_message'', ''federation_icon_url'', ''federation_name'', ''default_matrix_rooms'',
     ''default_group_chats'', ''autojoin_communities'']"

text \<open>\<^verbatim>\<open>m[k1] ?? m[k2] ?? ... ?? null\<close>.\<close>

definition first_present :: "string list \<Rightarrow> obj \<Rightarrow> jv" where
  "first_present ks metadata = foldr (\<lambda>k v. js_nullish (obj_get metadata k) v) ks JNull"

definition getMetaField :: "string \<Rightarrow> obj \<Rightarrow> jv" where
  "getMetaField field metadata =
     (if field = ''sites'' \<or> field = ''fedimods''
      then first_present [''fedi:fedimods'', ''fedi:sites'', ''fedimods'', ''sites''] metadata
      else if field = ''default_matrix_rooms''
      then first_present [''fedi:default_matrix_rooms'', field] metadata
      else if field = ''autojoin_communities''
      then first_present [''fedi:autojoin_communities'', ''fedi:autojoin_communities:'', field] metadata
      else if field = ''popup_end_timestamp''
      then first_present [''fedi:'' @ field, field, ''federation_expiry_timestamp''] metadata
      else if field \<in> set SupportedMetaFields
      then first_present [''fedi:'' @ field, field] metadata
      else JNull)"

text \<open>
  \<^verbatim>\<open>Number(s)\<close>: white space and the notations other than plain decimals are left to the platform.
\<close>

definition all_digits :: "string \<Rightarrow> bool" where
  "all_digits s \<longleftrightarrow> list_all (\<lambda>c. 48 \<le> (of_char c :: nat) \<and> (of_char c :: nat) \<le> 57) s"

definition js_Number :: "(string \<Rightarrow> jv) \<Rightarrow> string \<Rightarrow> jv" where
  "js_Number number s =
     (if s = [] then JNum 0 else if all_digits s then JNum (int (str_nat s)) else number s)"

text \<open>A limit of the metadata: \<open>None\<close> when the field is not a text.\<close>

definition meta_number :: "(string \<Rightarrow> jv) \<Rightarrow> string \<Rightarrow> obj \<Rightarrow> jv option" where
  "meta_number number field metadata =
     (case getMetaField field metadata of JStr s \<Rightarrow> Some (js_Number number s) | _ \<Rightarrow> None)"

definition getFederationDefaultCurrency :: "obj \<Rightarrow> jv" where
  "getFederationDefaultCurrency = getMetaField ''default_currency''"

definition getFederationFixedExchangeRate :: "(string \<Rightarrow> jv) \<Rightarrow> obj \<Rightarrow> jv option" where
  "getFederationFixedExchangeRate number = meta_number number ''fixed_exchange_rate''"

definition getFederationMaxBalanceMsats :: "(string \<Rightarrow> jv) \<Rightarrow> obj \<Rightarrow> jv option" where
  "getFederationMaxBalanceMsats number = meta_number number ''max_balance_msats''"

definition getFederationMaxInvoiceMsats :: "(string \<Rightarrow> jv) \<Rightarrow> obj \<Rightarrow> jv option" where
  "getFederationMaxInvoiceMsats number = meta_number number ''max_invoice_msats''"

definition getFederationMaxStableBalanceMsats :: "(string \<Rightarrow> jv) \<Rightarrow> obj \<Rightarrow> jv option" where
  "getFederationMaxStableBalanceMsats number = meta_number number ''max_stable_balance_msats''"

section \<open>Feature switches\<close>

definition shouldShowInviteCode :: "obj \<Rightarrow> bool" where
  "shouldShowInviteCode metadata \<longleftrightarrow> getMetaField ''invite_codes_disabled'' metadata \<noteq> JStr ''true''"

definition shouldShowJoinFederation :: "obj \<Rightarrow> bool" where
  "shouldShowJoinFederation metadata \<longleftrightarrow> getMetaField ''new_members_disabled'' metadata \<noteq> JStr ''true''"

definition shouldShowOfflineWallet :: "obj \<Rightarrow> bool" where
  "shouldShowOfflineWallet metadata \<longleftrightarrow>
     getMetaField ''offline_wallet_disabled'' metadata \<noteq> JStr ''true''"

definition shouldEnableOnchainDeposits :: "obj \<Rightarrow> bool" where
  "shouldEnableOnchainDeposits metadata =
     (let disabled = getMetaField ''onchain_deposits_disabled'' metadata
      in if disabled = JNull then True else disabled \<noteq> JStr ''true'')"

definition shouldEnableStabilityPool :: "obj \<Rightarrow> bool" where
  "shouldEnableStabilityPool metadata =
     (let disabled = getMetaField ''stability_pool_disabled'' metadata
      in if disabled = JNull then False else disabled \<noteq> JStr ''true'')"

definition hasMultispendEnabled :: "obj \<Rightarrow> bool" where
  "hasMultispendEnabled metadata =
     (let disabled = getMetaField ''multispend_disabled'' metadata
      in if disabled = JStr ''false'' then True else if disabled = JStr ''true'' then False else False)"

text \<open>
  The kinds of the modules of a loaded federation. The functions return \<^verbatim>\<open>undefined\<close> when no module
  matches, which every caller reads as false.
\<close>

definition module_kinds :: "obj \<Rightarrow> jv list" where
  "module_kinds federation =
     map (\<lambda>p. opt_prop (snd p) ''kind'')
       (own_entries (opt_prop (obj_get federation ''clientConfig'') ''modules''))"

definition hasMultispendModule :: "obj \<Rightarrow> bool" where
  "hasMultispendModule federation \<longleftrightarrow>
     truthy (obj_get federation ''clientConfig'') \<and>
     JStr ''multi_sig_stability_pool'' \<in> set (module_kinds federation)"

definition hasSocialModule :: "obj \<Rightarrow> bool" where
  "hasSocialModule federation \<longleftrightarrow>
     truthy (obj_get federation ''clientConfig'') \<and> JStr ''fedi-social'' \<in> set (module_kinds federation)"

definition shouldShowSocialRecovery :: "obj \<Rightarrow> bool" where
  "shouldShowSocialRecovery federation \<longleftrightarrow>
     hasSocialModule federation \<and>
     getMetaField ''social_recovery_disabled'' (own_entries (obj_get federation ''meta'')) \<noteq> JStr ''true''"

section \<open>Lists in the metadata\<close>

text \<open>\<^verbatim>\<open>JSON.parse\<close> on a truthy field, and an empty list when there is none or it does not parse.\<close>

definition parsed_or_empty :: "(string \<Rightarrow> jv option) \<Rightarrow> jv \<Rightarrow> jv" where
  "parsed_or_empty parse field =
     (if truthy field
      then (case parse (js_str field) of Some v \<Rightarrow> v | None \<Rightarrow> JArr [])
      else JArr [])"

definition getDefaultGroupChats :: "(string \<Rightarrow> jv option) \<Rightarrow> obj \<Rightarrow> jv" where
  "getDefaultGroupChats parse metadata =
     parsed_or_empty parse
       (js_nullish (getMetaField ''default_matrix_rooms'' metadata)
         (getMetaField ''default_group_chats'' metadata))"

definition getAutojoinCommunities :: "(string \<Rightarrow> jv option) \<Rightarrow> obj \<Rightarrow> jv" where
  "getAutojoinCommunities parse metadata =
     parsed_or_empty parse (getMetaField ''autojoin_communities'' metadata)"

text \<open>
  The mini-apps of a community: the entries that pass the schema without their \<^verbatim>\<open>imageUrl\<close>, which is
  put back if it is truthy. An entry that cannot be destructured throws, and then there are none.
\<close>

definition add_fedi_mod :: "(obj \<Rightarrow> bool) \<Rightarrow> jv list \<Rightarrow> jv \<Rightarrow> jv list option" where
  "add_fedi_mod schema result entry = do {
     imageUrl \<leftarrow> js_prop entry ''imageUrl'';
     let m = jm_omit [''imageUrl''] (own_entries entry);
     Some (if \<not> schema m then result
       else if \<not> truthy imageUrl then result @ [JObj m]
       else result @ [JObj (jm_set ''imageUrl'' imageUrl m)]) }"

definition getCommunityFediMods :: "(string \<Rightarrow> jv option) \<Rightarrow> (obj \<Rightarrow> bool) \<Rightarrow> obj \<Rightarrow> jv list" where
  "getCommunityFediMods parse schema metadata =
     (let sites = getMetaField ''sites'' metadata
      in if \<not> truthy sites then []
         else (case parse (js_str sites) of
             Some (JArr fediMods) \<Rightarrow>
               (case reduceM (add_fedi_mod schema) [] fediMods of Some ms \<Rightarrow> ms | None \<Rightarrow> [])
           | _ \<Rightarrow> []))"

section \<open>Popup, name and preview\<close>

definition getFederationPopupInfo :: "obj \<Rightarrow> jv" where
  "getFederationPopupInfo metadata =
     (let endTimestamp = getMetaField ''popup_end_timestamp'' metadata
      in if \<not> truthy endTimestamp then JNull
         else JObj [(''endTimestamp'', endTimestamp),
           (''countdownMessage'', getMetaField ''popup_countdown_message'' metadata),
           (''endedMessage'', getMetaField ''popup_ended_message'' metadata)])"

definition getFederationName :: "obj \<Rightarrow> string" where
  "getFederationName federation =
     (let meta = obj_get federation ''meta'';
          name = (if truthy meta
                  then js_str (js_or (getMetaField ''federation_name'' (own_entries meta)) (JStr [])) else [])
      in if name = []
         then (case obj_get federation ''name'' of JStr s \<Rightarrow> s | _ \<Rightarrow> name)
         else name)"

definition getFederationPreview :: "obj \<Rightarrow> obj" where
  "getFederationPreview preview =
     jm_set ''name''
       (js_or (opt_prop (obj_get preview ''meta'') ''federation_name'') (obj_get preview ''name'')) preview"

definition coerceLoadedFederation :: "obj \<Rightarrow> obj" where
  "coerceLoadedFederation federation = jm_set ''status'' (JStr ''online'') federation"

definition coerceCommunity :: "obj \<Rightarrow> obj" where
  "coerceCommunity community =
     jm_spread [(''id'', opt_prop (obj_get community ''communityInvite'') ''invite_code_str'')] community"

definition coerceCommunityPreview :: "obj \<Rightarrow> obj" where
  "coerceCommunityPreview community =
     jm_spread [(''returningMemberStatus'', JObj [(''type'', JStr ''unknown'')]), (''version'', JNum 0)]
       (coerceCommunity community)"

definition getPreviewFromLoadedFederation :: "obj \<Rightarrow> obj" where
  "getPreviewFromLoadedFederation federation =
     jm_spread federation [(''name'', obj_get federation ''name''),
       (''returningMemberStatus'', JObj [(''type'', JStr ''returningMember'')])]"

section \<open>Public federations\<close>

text \<open>\<^verbatim>\<open>parseInt(s, 10)\<close>: white space, a sign, and the longest run of digits.\<close>

definition is_digit :: "char \<Rightarrow> bool" where
  "is_digit c \<longleftrightarrow> 48 \<le> (of_char c :: nat) \<and> (of_char c :: nat) \<le> 57"

definition is_space :: "char \<Rightarrow> bool" where
  "is_space c \<longleftrightarrow> (of_char c :: nat) \<in> {9, 10, 11, 12, 13, 32, 160}"

definition parseInt :: "string \<Rightarrow> int option" where
  "parseInt s =
     (let t = dropWhile is_space s;
          negative = (t \<noteq> [] \<and> hd t = CHR ''-'');
          u = (if t \<noteq> [] \<and> (hd t = CHR ''-'' \<or> hd t = CHR ''+'') then tl t else t);
          ds = takeWhile is_digit u
      in if ds = [] then None
         else Some (if negative then - int (str_nat ds) else int (str_nat ds)))"

definition AUTOSELECT_MIN_EXPIRY_SECONDS :: int where
  "AUTOSELECT_MIN_EXPIRY_SECONDS = 30 * 24 * 60 * 60"

definition public_federation :: "int \<Rightarrow> string \<times> jv \<Rightarrow> obj list" where
  "public_federation minExpiryTimestamp entry =
     (let (key, val) = entry; meta = own_entries val;
          expiry = getMetaField ''popup_end_timestamp'' meta
      in if \<not> truthy val then []
         else if truthy expiry \<and>
           (case parseInt (js_str expiry) of Some e \<Rightarrow> e < minExpiryTimestamp | None \<Rightarrow> False) then []
         else if obj_get meta ''public'' = JStr ''true'' \<and> truthy (obj_get meta ''invite_code'')
         then [[(''id'', JStr key), (''name'', js_or (getMetaField ''federation_name'' meta) (JStr [])),
                (''meta'', val)]]
         else [])"

definition parseFederationsFromMeta :: "int \<Rightarrow> obj \<Rightarrow> int \<Rightarrow> obj list" where
  "parseFederationsFromMeta nowSeconds externalMetaJson minExpirySeconds =
     concat (map (public_federation (nowSeconds + minExpirySeconds)) externalMetaJson)"

text \<open>A failed fetch (\<open>None\<close>) gives an empty list.\<close>

definition fetchPublicFederations :: "int \<Rightarrow> obj option \<Rightarrow> obj list" where
  "fetchPublicFederations nowSeconds fetched =
     (case fetched of None \<Rightarrow> [] | Some m \<Rightarrow> parseFederationsFromMeta nowSeconds m 0)"

definition fetchAutoSelectFederations :: "int \<Rightarrow> obj option \<Rightarrow> obj list" where
  "fetchAutoSelectFederations nowSeconds fetched =
     (case fetched of None \<Rightarrow> []
      | Some m \<Rightarrow> parseFederationsFromMeta nowSeconds m AUTOSELECT_MIN_EXPIRY_SECONDS)"

definition fetchPublicCommunities :: "obj option \<Rightarrow> obj list" where
  "fetchPublicCommunities fetched =
     (case fetched of None \<Rightarrow> []
      | Some m \<Rightarrow> concat (map (\<lambda>(key, val).
          if truthy val \<and> opt_prop val ''public'' = JStr ''true'' \<and> truthy (opt_prop val ''invite_code'') \<and>
             truthy (opt_prop val ''preview_message'')
          then [[(''id'', JStr key), (''name'', js_or (opt_prop val ''name'') (JStr [])), (''meta'', val)]]
          else []) m))"

section \<open>Guardians\<close>

datatype FederationStatus = Online | Unstable | Offline

text \<open>A guardian status is online when it has the key \<^verbatim>\<open>online\<close>.\<close>

definition getFederationStatus :: "obj list \<Rightarrow> FederationStatus" where
  "getFederationStatus guardianStatuses =
     (let offlineGuardians = filter (\<lambda>s. jm_get s ''online'' = None) guardianStatuses
      in if length offlineGuardians = 0 then Online
         else if 3 * length offlineGuardians + 1 \<le> length guardianStatuses then Unstable
         else Offline)"

section \<open>Invite codes\<close>

text \<open>\<^verbatim>\<open>toLowerCase\<close> on the letters the comparison can see.\<close>

definition lower :: "char \<Rightarrow> char" where
  "lower c = (if 65 \<le> (of_char c :: nat) \<and> (of_char c :: nat) \<le> 90 then char_of (of_char c + 32 :: nat) else c)"

definition lower_prefix :: "string \<Rightarrow> string \<Rightarrow> bool" where
  "lower_prefix p code \<longleftrightarrow> take (length p) (map lower code) = p"

definition detectInviteCodeType :: "string \<Rightarrow> string option" where
  "detectInviteCodeType code =
     (if lower_prefix ''fed1'' code then Some ''federation''
      else if lower_prefix ''fedi:community'' code then Some ''community''
      else None)"

text \<open>
  \<open>hostname\<close> is \<^verbatim>\<open>new URL(u).hostname\<close>, \<open>None\<close> when the constructor throws: then nothing is found.
\<close>

fun has_node_at :: "(string \<Rightarrow> string option) \<Rightarrow> string \<Rightarrow> jv list \<Rightarrow> bool option" where
  "has_node_at hostname url [] = Some False"
| "has_node_at hostname url (node # nodes) = do {
     nodeUrl \<leftarrow> js_prop node ''url'';
     a \<leftarrow> hostname (js_str nodeUrl);
     b \<leftarrow> hostname url;
     if a = b then Some True else has_node_at hostname url nodes }"

fun findAuthenticatedFederation :: "(string \<Rightarrow> string option) \<Rightarrow> obj list \<Rightarrow> string \<Rightarrow> obj option" where
  "findAuthenticatedFederation hostname [] url = None"
| "findAuthenticatedFederation hostname (f # fs) url =
     (case do { es \<leftarrow> js_entries (obj_get f ''nodes''); has_node_at hostname url (map snd es) } of
        None \<Rightarrow> None
      | Some True \<Rightarrow> Some f
      | Some False \<Rightarrow> findAuthenticatedFederation hostname fs url)"

end
