(* ===== verification/Federation_Slice.thy ===== *)
theory Federation_Slice
  imports Federation_Utils Redux_Utils
begin

text \<open>
  \<^verbatim>\<open>ui/common/redux/federation.ts\<close>: the joined federations and communities, which of them are
  selected, and what is remembered about them. Federations and communities are JavaScript
  objects; the other fields have their own types, and a field that is only assigned keeps its
  value. Parameters: \<open>isEqual\<close> is lodash's deep comparison, \<open>now\<close> is \<^verbatim>\<open>Date.now()\<close>, and a thunk takes the
  answer of the bridge (\<open>None\<close> when the call was rejected).
\<close>

section \<open>State\<close>

record FederationState =
  communities :: "obj list"
  federations :: "obj list"
  publicCommunities :: jv
  publicFederations :: jv
  autoSelectFederations :: jv
  payFromFederationId :: jv
  recentlyUsedFederationIds :: "string list"
  lastSelectedCommunityId :: jv
  authenticatedGuardian :: jv
  customFediMods :: obj
  defaultCommunityChats :: obj
  gatewaysByFederation :: obj
  seenFederationRatings :: "string list"
  previouslyAutojoinedCommunities :: obj
  autojoinNoticesToDisplay :: "string list"
  guardianitoBot :: jv
  selectedFederationId :: jv
  simulateRecoveryByFederation :: obj

definition initialFederationState :: FederationState where
  "initialFederationState = \<lparr> communities = [], federations = [], publicCommunities = JArr [],
     publicFederations = JArr [], autoSelectFederations = JArr [], payFromFederationId = JNull,
     recentlyUsedFederationIds = [], lastSelectedCommunityId = JNull, authenticatedGuardian = JNull,
     customFediMods = [], defaultCommunityChats = [], gatewaysByFederation = [],
     seenFederationRatings = [], previouslyAutojoinedCommunities = [], autojoinNoticesToDisplay = [],
     guardianitoBot = JNull, selectedFederationId = JNull, simulateRecoveryByFederation = [] \<rparr>"

type_synonym deep_equal = "jv \<Rightarrow> jv \<Rightarrow> bool"

section \<open>Reducers on the lists\<close>

definition same_id :: "obj \<Rightarrow> obj \<Rightarrow> bool" where
  "same_id a b \<longleftrightarrow> js_seq (obj_get a ''id'') (obj_get b ''id'')"

text \<open>The meta of the old entity under the meta of the new one.\<close>

definition mergedMeta :: "obj \<Rightarrow> obj \<Rightarrow> jv" where
  "mergedMeta existing upsert =
     JObj (jm_spread (if jm_get existing ''meta'' = None then [] else own_entries (obj_get existing ''meta''))
       (own_entries (obj_get upsert ''meta'')))"

definition merged_entity :: "obj \<Rightarrow> obj \<Rightarrow> obj" where
  "merged_entity existing upsert =
     (let updated = jm_spread existing upsert
      in if jm_get upsert ''meta'' \<noteq> None then jm_set ''meta'' (mergedMeta existing upsert) updated
         else updated)"

text \<open>A federation that is not ready replaces the old one as a whole.\<close>

definition merged_federation :: "obj \<Rightarrow> obj \<Rightarrow> obj" where
  "merged_federation existing upsert =
     (if obj_get upsert ''init_state'' = JStr ''loading'' \<or> obj_get upsert ''init_state'' = JStr ''failed''
      then upsert else merged_entity existing upsert)"

text \<open>
  One existing entity: what stays of it in the list, and whether that is a change. Communities
  missing in the payload go, federations stay.
\<close>

definition visit_existing ::
  "deep_equal \<Rightarrow> (obj \<Rightarrow> obj \<Rightarrow> obj) \<Rightarrow> (obj \<Rightarrow> obj list \<times> bool) \<Rightarrow> obj list \<Rightarrow> obj \<Rightarrow> obj list \<times> bool" where
  "visit_existing isEqual merge missing payload existing =
     (case find (\<lambda>f. same_id f existing) payload of
        None \<Rightarrow> missing existing
      | Some upsert \<Rightarrow>
          let updated = merge existing upsert
          in if isEqual (JObj existing) (JObj updated) then ([existing], False) else ([updated], True))"

definition new_entities :: "obj list \<Rightarrow> obj list \<Rightarrow> obj list" where
  "new_entities payload existing = filter (\<lambda>n. \<not> list_ex (\<lambda>e. same_id e n) existing) payload"

definition replace_list ::
  "deep_equal \<Rightarrow> (obj \<Rightarrow> obj \<Rightarrow> obj) \<Rightarrow> (obj \<Rightarrow> obj list \<times> bool) \<Rightarrow> obj list \<Rightarrow> obj list \<Rightarrow> obj list" where
  "replace_list isEqual merge missing payload existing =
     (let visits = map (visit_existing isEqual merge missing payload) existing;
          fresh = new_entities payload existing;
          hasAnyUpdates = list_ex snd visits \<or> fresh \<noteq> []
      in if hasAnyUpdates then concat (map fst visits) @ fresh else existing)"

definition setCommunities :: "deep_equal \<Rightarrow> obj list \<Rightarrow> FederationState \<Rightarrow> FederationState" where
  "setCommunities isEqual payload s =
     s\<lparr>communities := replace_list isEqual merged_entity (\<lambda>e. ([], True)) payload (communities s)\<rparr>"

definition setFederations :: "deep_equal \<Rightarrow> obj list \<Rightarrow> FederationState \<Rightarrow> FederationState" where
  "setFederations isEqual payload s =
     s\<lparr>federations := replace_list isEqual merged_federation (\<lambda>e. ([e], False)) payload (federations s)\<rparr>"

definition upsert_entity :: "deep_equal \<Rightarrow> obj list \<Rightarrow> obj \<Rightarrow> obj list" where
  "upsert_entity isEqual items item =
     upsertListItem (\<lambda>a b. isEqual (JObj a) (JObj b)) (Some items) item (Some [''meta'']) None"

definition upsertCommunity :: "deep_equal \<Rightarrow> obj \<Rightarrow> FederationState \<Rightarrow> FederationState" where
  "upsertCommunity isEqual community s =
     (if \<not> truthy (obj_get community ''id'') then s
      else s\<lparr>communities := upsert_entity isEqual (communities s) community\<rparr>)"

definition upsertFederation :: "deep_equal \<Rightarrow> obj \<Rightarrow> FederationState \<Rightarrow> FederationState" where
  "upsertFederation isEqual federation s =
     (if \<not> truthy (obj_get federation ''id'') then s
      else s\<lparr>federations := upsert_entity isEqual (federations s) federation\<rparr>)"

definition has_id :: "string \<Rightarrow> obj \<Rightarrow> bool" where
  "has_id i f \<longleftrightarrow> js_seq (obj_get f ''id'') (JStr i)"

definition updateFederationBalance :: "string \<Rightarrow> jv \<Rightarrow> FederationState \<Rightarrow> FederationState" where
  "updateFederationBalance federationId balance s =
     (case find (has_id federationId) (federations s) of
        None \<Rightarrow> s
      | Some federation \<Rightarrow>
          if obj_get federation ''init_state'' \<noteq> JStr ''ready'' \<or> js_seq (obj_get federation ''balance'') balance
          then s
          else s\<lparr>federations := map (\<lambda>f. if \<not> has_id federationId f then f
                                          else jm_set ''balance'' balance f) (federations s)\<rparr>)"

section \<open>Other reducers\<close>

definition setLastUsedFederationId :: "string \<Rightarrow> FederationState \<Rightarrow> FederationState" where
  "setLastUsedFederationId federationId s =
     s\<lparr>recentlyUsedFederationIds := js_uniq (federationId # recentlyUsedFederationIds s),
        selectedFederationId := JStr federationId\<rparr>"

definition federation_mods :: "string \<Rightarrow> FederationState \<Rightarrow> jv" where
  "federation_mods federationId s = js_or (obj_get (customFediMods s) federationId) (JArr [])"

definition setCommunityCustomFediMods :: "deep_equal \<Rightarrow> string \<Rightarrow> jv \<Rightarrow> FederationState \<Rightarrow> FederationState" where
  "setCommunityCustomFediMods isEqual federationId mods s =
     (if isEqual mods (federation_mods federationId s) then s
      else s\<lparr>customFediMods := jm_set federationId mods (customFediMods s)\<rparr>)"

definition removeCustomFediMod :: "string \<Rightarrow> string \<Rightarrow> FederationState \<Rightarrow> FederationState" where
  "removeCustomFediMod federationId fediModId s =
     s\<lparr>customFediMods := jm_set federationId
        (JArr (filter (\<lambda>f. \<not> js_seq (opt_prop f ''id'') (JStr fediModId)) (collection (federation_mods federationId s))))
        (customFediMods s)\<rparr>"

definition setSeenFederationRating :: "string \<Rightarrow> FederationState \<Rightarrow> FederationState" where
  "setSeenFederationRating federationId s =
     (if federationId \<notin> set (seenFederationRatings s)
      then s\<lparr>seenFederationRatings := seenFederationRatings s @ [federationId]\<rparr> else s)"

definition setPreviouslyAutojoinedCommunity :: "int \<Rightarrow> string \<Rightarrow> FederationState \<Rightarrow> FederationState" where
  "setPreviouslyAutojoinedCommunity now communityId s =
     s\<lparr>previouslyAutojoinedCommunities :=
        jm_set communityId (JNum now) (previouslyAutojoinedCommunities s)\<rparr>"

definition addAutojoinNoticeToDisplay :: "string \<Rightarrow> FederationState \<Rightarrow> FederationState" where
  "addAutojoinNoticeToDisplay communityId s =
     (if communityId \<notin> set (autojoinNoticesToDisplay s)
      then s\<lparr>autojoinNoticesToDisplay := autojoinNoticesToDisplay s @ [communityId]\<rparr> else s)"

definition removeAutojoinNoticeToDisplay :: "string \<Rightarrow> FederationState \<Rightarrow> FederationState" where
  "removeAutojoinNoticeToDisplay communityId s =
     s\<lparr>autojoinNoticesToDisplay := filter (\<lambda>i. i \<noteq> communityId) (autojoinNoticesToDisplay s)\<rparr>"

definition migrateCommunityV1ToV2 :: "deep_equal \<Rightarrow> string \<Rightarrow> obj \<Rightarrow> FederationState \<Rightarrow> FederationState" where
  "migrateCommunityV1ToV2 isEqual v1InviteCode v2Community s =
     (let filteredCommunities = filter (\<lambda>c. \<not> has_id v1InviteCode c) (communities s);
          s1 = s\<lparr>communities := upsert_entity isEqual filteredCommunities v2Community\<rparr>
      in if js_seq (lastSelectedCommunityId s1) (JStr v1InviteCode)
         then s1\<lparr>lastSelectedCommunityId := obj_get v2Community ''id''\<rparr> else s1)"

text \<open>\<^verbatim>\<open>xs[0]?.id\<close> and \<^verbatim>\<open>ids[0] ?? null\<close>.\<close>

definition first_id :: "obj list \<Rightarrow> jv" where
  "first_id xs = (case xs of [] \<Rightarrow> JUndef | x # _ \<Rightarrow> obj_get x ''id'')"

definition first_or_null :: "string list \<Rightarrow> jv" where
  "first_or_null ids = (case ids of [] \<Rightarrow> JNull | i # _ \<Rightarrow> JStr i)"

definition drop_mods :: "string \<Rightarrow> FederationState \<Rightarrow> FederationState" where
  "drop_mods i s =
     (if truthy (obj_get (customFediMods s) i)
      then s\<lparr>customFediMods := jm_omit [i] (customFediMods s)\<rparr> else s)"

definition leaveFederation_fulfilled :: "string \<Rightarrow> FederationState \<Rightarrow> FederationState" where
  "leaveFederation_fulfilled federationId s =
     (let s1 = s\<lparr>federations := filter (\<lambda>fed. \<not> has_id federationId fed) (federations s)\<rparr>;
          s2 = (if federations s1 = [] then s1\<lparr>payFromFederationId := JNull\<rparr>
                else
                  let recent = filter (\<lambda>i. i \<noteq> federationId) (recentlyUsedFederationIds s1);
                      recent' = (if recent = [] then js_uniq (js_str (first_id (federations s1)) # recent)
                                 else recent);
                      t = s1\<lparr>recentlyUsedFederationIds := recent'\<rparr>
                  in if js_seq (payFromFederationId t) (JStr federationId)
                     then t\<lparr>payFromFederationId := first_or_null recent'\<rparr> else t)
      in drop_mods federationId s2)"

definition leaveCommunity_fulfilled :: "string \<Rightarrow> FederationState \<Rightarrow> FederationState" where
  "leaveCommunity_fulfilled communityId s =
     (let s1 = s\<lparr>communities := filter (\<lambda>c. \<not> has_id communityId c) (communities s)\<rparr>;
          s2 = (if length (communities s1) = 1 \<or> js_seq (lastSelectedCommunityId s1) (JStr communityId)
                then s1\<lparr>lastSelectedCommunityId := first_id (communities s1)\<rparr> else s1)
      in drop_mods communityId s2)"

definition previewCommunityDefaultChats_fulfilled ::
  "deep_equal \<Rightarrow> string \<Rightarrow> jv \<Rightarrow> FederationState \<Rightarrow> FederationState" where
  "previewCommunityDefaultChats_fulfilled isEqual communityId chatPreviews s =
     (if isEqual chatPreviews (obj_get (defaultCommunityChats s) communityId) then s
      else s\<lparr>defaultCommunityChats := jm_set communityId chatPreviews (defaultCommunityChats s)\<rparr>)"

definition load_federation_state :: "jv \<Rightarrow> FederationState \<Rightarrow> FederationState" where
  "load_federation_state payload s =
     (if \<not> truthy payload then s
      else s\<lparr> recentlyUsedFederationIds :=
                 map js_str (collection (opt_prop payload ''recentlyUsedFederationIds'')),
              lastSelectedCommunityId := opt_prop payload ''lastSelectedCommunityId'',
              authenticatedGuardian := opt_prop payload ''authenticatedGuardian'',
              customFediMods := own_entries (js_or (opt_prop payload ''customFediMods'') (JObj [])),
              seenFederationRatings := map js_str (collection (opt_prop payload ''seenFederationRatings'')),
              previouslyAutojoinedCommunities :=
                own_entries (js_or (opt_prop payload ''previouslyAutojoinedCommunities'') (JObj [])),
              autojoinNoticesToDisplay :=
                map js_str (collection (js_or (opt_prop payload ''autojoinNoticesToDisplay'') (JArr []))),
              selectedFederationId := js_or (opt_prop payload ''selectedFederationId'') JNull \<rparr>)"

section \<open>The slice\<close>

datatype federation_action =
    SetCommunities "obj list"
  | SetFederations "obj list"
  | SetPublicCommunities jv
  | SetPublicFederations jv
  | SetAutoSelectFederations jv
  | UpsertCommunity obj
  | UpsertFederation obj
  | UpdateFederationBalance string jv
  | SetPayFromFederationId jv
  | SetLastUsedFederationId string
  | SetLastSelectedCommunityId jv
  | SetCommunityCustomFediMods string jv
  | ChangeAuthenticatedGuardian jv
  | RemoveCustomFediMod string string
  | AddFederationGateways string jv
  | SetSeenFederationRating string
  | SetPreviouslyAutojoinedCommunity int string
  | ClearAutojoinedCommunitiesAndNotices
  | AddAutojoinNoticeToDisplay string
  | RemoveAutojoinNoticeToDisplay string
  | SetGuardianitoBot jv
  | MigrateCommunityV1ToV2 string obj
  | SetSelectedFederationId string
  | SetSimulateRecovery string bool
  | PreloadFederationListsFulfilled jv jv
  | LeaveFederationFulfilled string
  | LeaveCommunityFulfilled string
  | CreateGuardianitoBotFulfilled jv
  | LoadFromStorageFulfilled jv
  | PreviewCommunityDefaultChatsFulfilled string jv

fun federationSlice :: "deep_equal \<Rightarrow> FederationState \<Rightarrow> federation_action \<Rightarrow> FederationState" where
  "federationSlice E s (SetCommunities cs) = setCommunities E cs s"
| "federationSlice E s (SetFederations fs) = setFederations E fs s"
| "federationSlice E s (SetPublicCommunities v) = s\<lparr>publicCommunities := v\<rparr>"
| "federationSlice E s (SetPublicFederations v) = s\<lparr>publicFederations := v\<rparr>"
| "federationSlice E s (SetAutoSelectFederations v) = s\<lparr>autoSelectFederations := v\<rparr>"
| "federationSlice E s (UpsertCommunity c) = upsertCommunity E c s"
| "federationSlice E s (UpsertFederation f) = upsertFederation E f s"
| "federationSlice E s (UpdateFederationBalance i b) = updateFederationBalance i b s"
| "federationSlice E s (SetPayFromFederationId v) = s\<lparr>payFromFederationId := v\<rparr>"
| "federationSlice E s (SetLastUsedFederationId i) = setLastUsedFederationId i s"
| "federationSlice E s (SetLastSelectedCommunityId v) = s\<lparr>lastSelectedCommunityId := v\<rparr>"
| "federationSlice E s (SetCommunityCustomFediMods i mods) = setCommunityCustomFediMods E i mods s"
| "federationSlice E s (ChangeAuthenticatedGuardian v) = s\<lparr>authenticatedGuardian := v\<rparr>"
| "federationSlice E s (RemoveCustomFediMod i m) = removeCustomFediMod i m s"
| "federationSlice E s (AddFederationGateways i gs) =
     s\<lparr>gatewaysByFederation := jm_set i gs (gatewaysByFederation s)\<rparr>"
| "federationSlice E s (SetSeenFederationRating i) = setSeenFederationRating i s"
| "federationSlice E s (SetPreviouslyAutojoinedCommunity now c) = setPreviouslyAutojoinedCommunity now c s"
| "federationSlice E s ClearAutojoinedCommunitiesAndNotices =
     s\<lparr>previouslyAutojoinedCommunities := [], autojoinNoticesToDisplay := []\<rparr>"
| "federationSlice E s (AddAutojoinNoticeToDisplay c) = addAutojoinNoticeToDisplay c s"
| "federationSlice E s (RemoveAutojoinNoticeToDisplay c) = removeAutojoinNoticeToDisplay c s"
| "federationSlice E s (SetGuardianitoBot v) = s\<lparr>guardianitoBot := v\<rparr>"
| "federationSlice E s (MigrateCommunityV1ToV2 v1 v2) = migrateCommunityV1ToV2 E v1 v2 s"
| "federationSlice E s (SetSelectedFederationId i) = s\<lparr>selectedFederationId := JStr i\<rparr>"
| "federationSlice E s (SetSimulateRecovery i b) =
     s\<lparr>simulateRecoveryByFederation := jm_set i (JBool b) (simulateRecoveryByFederation s)\<rparr>"
| "federationSlice E s (PreloadFederationListsFulfilled p a) =
     s\<lparr>publicFederations := p, autoSelectFederations := a\<rparr>"
| "federationSlice E s (LeaveFederationFulfilled i) = leaveFederation_fulfilled i s"
| "federationSlice E s (LeaveCommunityFulfilled i) = leaveCommunity_fulfilled i s"
| "federationSlice E s (CreateGuardianitoBotFulfilled v) = s\<lparr>guardianitoBot := v\<rparr>"
| "federationSlice E s (LoadFromStorageFulfilled payload) = load_federation_state payload s"
| "federationSlice E s (PreviewCommunityDefaultChatsFulfilled i chats) =
     previewCommunityDefaultChats_fulfilled E i chats s"

end
