(* ===== verification/Federation_Thunks.thy ===== *)
theory Federation_Thunks
  imports Federation_Slice
begin

text \<open>
  The selectors and the thunks of \<^verbatim>\<open>ui/common/redux/federation.ts\<close>. A selector is a function of the
  state (memoization keeps references only). A thunk is the function from the state it finds and
  the answer of the bridge to the state after the actions it dispatches; a thunk that rejects
  gives \<open>None\<close>, and the metadata work it starts in the background is a function of its own.
\<close>

section \<open>Selectors\<close>

definition selectLoadedFederations :: "FederationState \<Rightarrow> obj list" where
  "selectLoadedFederations s =
     map (\<lambda>f. jm_spread f
         [(''init_state'', JStr ''ready''), (''name'', JStr (getFederationName f)),
          (''recovering'', js_or (obj_get f ''recovering'')
             (JBool (obj_get (simulateRecoveryByFederation s) (js_str (obj_get f ''id'')) = JBool True)))])
       (filter (\<lambda>f. obj_get f ''init_state'' = JStr ''ready'') (federations s))"

definition selectFederations :: "FederationState \<Rightarrow> obj list" where
  "selectFederations s =
     filter (\<lambda>f. obj_get f ''init_state'' \<noteq> JStr ''failed'')
       (map (\<lambda>f. jm_spread f [(''name'', JStr (getFederationName f))]) (federations s))"

definition selectFederation :: "FederationState \<Rightarrow> string \<Rightarrow> obj option" where
  "selectFederation s i = find (has_id i) (selectFederations s)"

definition selectLoadedFederation :: "FederationState \<Rightarrow> string \<Rightarrow> obj option" where
  "selectLoadedFederation s i = find (has_id i) (selectLoadedFederations s)"

definition selectLastUsedFederationId :: "FederationState \<Rightarrow> jv" where
  "selectLastUsedFederationId s = first_or_null (recentlyUsedFederationIds s)"

text \<open>\<^verbatim>\<open>ids.indexOf(x)\<close>, with the length of the list of federations for a missing one.\<close>

fun index_of :: "string \<Rightarrow> string list \<Rightarrow> nat option" where
  "index_of x [] = None"
| "index_of x (y # ys) = (if x = y then Some 0 else map_option Suc (index_of x ys))"

definition recency :: "string list \<Rightarrow> nat \<Rightarrow> obj \<Rightarrow> nat" where
  "recency ids missing f =
     (case index_of (js_str (obj_get f ''id'')) ids of Some i \<Rightarrow> i | None \<Rightarrow> missing)"

definition selectLoadedFederationsByRecency :: "FederationState \<Rightarrow> obj list" where
  "selectLoadedFederationsByRecency s =
     (let fs = selectLoadedFederations s
      in sort_key (recency (recentlyUsedFederationIds s) (length fs)) fs)"

definition selectNonFeaturedFederations :: "FederationState \<Rightarrow> obj list" where
  "selectNonFeaturedFederations s =
     (let lastUsed = selectLastUsedFederationId s;
          fs = selectLoadedFederations s;
          federationList = (if truthy lastUsed then filter (\<lambda>f. \<not> has_id (js_str lastUsed) f) fs else fs)
      in sort_key (recency (recentlyUsedFederationIds s) (length federationList)) federationList)"

definition selectLastUsedFederation :: "FederationState \<Rightarrow> obj option" where
  "selectLastUsedFederation s =
     (let fs = selectLoadedFederations s;
          first = (case fs of [] \<Rightarrow> None | f # _ \<Rightarrow> Some f);
          lastUsed = selectLastUsedFederationId s
      in if truthy lastUsed
         then (case find (has_id (js_str lastUsed)) fs of Some f \<Rightarrow> Some f | None \<Rightarrow> first)
         else first)"

definition selectPaymentFederation :: "FederationState \<Rightarrow> obj option" where
  "selectPaymentFederation s =
     (if \<not> truthy (payFromFederationId s)
      then (case selectLastUsedFederation s of
              Some f \<Rightarrow> Some f
            | None \<Rightarrow> (case selectLoadedFederations s of [] \<Rightarrow> None | f # _ \<Rightarrow> Some f))
      else find (\<lambda>f. js_seq (obj_get f ''id'') (payFromFederationId s)) (selectLoadedFederations s))"

definition selectSelectedFederation :: "FederationState \<Rightarrow> obj option" where
  "selectSelectedFederation s =
     find (\<lambda>f. js_seq (obj_get f ''id'') (selectedFederationId s)) (selectLoadedFederations s)"

definition balance_of :: "obj \<Rightarrow> int" where
  "balance_of f = (case to_num (obj_get f ''balance'') of Some b \<Rightarrow> b | None \<Rightarrow> 0)"

definition selectFederationBalance :: "FederationState \<Rightarrow> string \<Rightarrow> int" where
  "selectFederationBalance s i = (case selectLoadedFederation s i of Some f \<Rightarrow> balance_of f | None \<Rightarrow> 0)"

definition selectPaymentFederationBalance :: "FederationState \<Rightarrow> int" where
  "selectPaymentFederationBalance s =
     (case selectPaymentFederation s of Some f \<Rightarrow> balance_of f | None \<Rightarrow> 0)"

definition selectTotalBalanceMsats :: "FederationState \<Rightarrow> int" where
  "selectTotalBalanceMsats s = foldl (\<lambda>acc f. acc + balance_of f) 0 (selectLoadedFederations s)"

definition selectIsAnyFederationRecovering :: "FederationState \<Rightarrow> bool" where
  "selectIsAnyFederationRecovering s \<longleftrightarrow>
     list_ex (\<lambda>f. truthy (obj_get f ''recovering'')) (selectLoadedFederations s)"

definition selectAreAllFederationsRecovering :: "FederationState \<Rightarrow> bool" where
  "selectAreAllFederationsRecovering s \<longleftrightarrow>
     selectLoadedFederations s \<noteq> [] \<and>
     find (\<lambda>f. \<not> truthy (obj_get f ''recovering'')) (selectLoadedFederations s) = None"

definition selectFederationMetadata :: "FederationState \<Rightarrow> string \<Rightarrow> obj" where
  "selectFederationMetadata s i =
     (case selectLoadedFederation s i of Some f \<Rightarrow> own_entries (obj_get f ''meta'') | None \<Rightarrow> [])"

definition MAX_INVOICE_AMOUNT_SATS :: int where
  "MAX_INVOICE_AMOUNT_SATS = 1000000000"

definition MAX_BALANCE_AMOUNT_SATS :: int where
  "MAX_BALANCE_AMOUNT_SATS = 1000000000"

definition msatToSat :: "int \<Rightarrow> int" where
  "msatToSat msats = msats div 1000"

text \<open>
  A limit in sats: zero stays zero, a missing or unreadable one (\<^verbatim>\<open>NaN\<close> is falsy) is the default.
\<close>

definition limit_sats :: "jv option \<Rightarrow> int option \<Rightarrow> int option" where
  "limit_sats limit fallback =
     (case limit of
        Some (JNum n) \<Rightarrow> if n = 0 then Some 0 else Some (msatToSat n)
      | _ \<Rightarrow> fallback)"

definition selectMaxStableBalanceSats :: "(string \<Rightarrow> jv) \<Rightarrow> FederationState \<Rightarrow> string \<Rightarrow> int option" where
  "selectMaxStableBalanceSats number s i =
     limit_sats (getFederationMaxStableBalanceMsats number (selectFederationMetadata s i)) None"

definition selectMaxInvoiceAmount :: "(string \<Rightarrow> jv) \<Rightarrow> FederationState \<Rightarrow> string \<Rightarrow> int" where
  "selectMaxInvoiceAmount number s i =
     the (limit_sats (getFederationMaxInvoiceMsats number (selectFederationMetadata s i))
       (Some MAX_INVOICE_AMOUNT_SATS))"

definition selectMaxBalanceAmount :: "(string \<Rightarrow> jv) \<Rightarrow> FederationState \<Rightarrow> string \<Rightarrow> int" where
  "selectMaxBalanceAmount number s i =
     the (limit_sats (getFederationMaxBalanceMsats number (selectFederationMetadata s i))
       (Some MAX_BALANCE_AMOUNT_SATS))"

definition selectReceivesDisabled :: "(string \<Rightarrow> jv) \<Rightarrow> FederationState \<Rightarrow> string \<Rightarrow> bool" where
  "selectReceivesDisabled number s i \<longleftrightarrow>
     selectMaxInvoiceAmount number s i = 0 \<or>
     selectMaxBalanceAmount number s i \<le> msatToSat (selectFederationBalance s i)"

text \<open>The first module of the client configuration that is a stability pool, with its version.\<close>

fun stability_pool_config :: "jv list \<Rightarrow> obj option" where
  "stability_pool_config [] = None"
| "stability_pool_config (m # ms) =
     (if opt_prop m ''kind'' = JStr ''multi_sig_stability_pool''
      then Some (jm_set ''version'' (JNum 2) (own_entries m))
      else if opt_prop m ''kind'' = JStr ''stability_pool''
      then Some (jm_set ''version'' (JNum 1) (own_entries m))
      else stability_pool_config ms)"

definition selectFederationStabilityPoolConfig :: "FederationState \<Rightarrow> string \<Rightarrow> obj option" where
  "selectFederationStabilityPoolConfig s i =
     (case selectLoadedFederation s i of
        None \<Rightarrow> None
      | Some f \<Rightarrow>
          let config = obj_get f ''clientConfig''
          in if \<not> truthy config then None
             else stability_pool_config (map snd (own_entries (opt_prop config ''modules''))))"

definition selectCommunity :: "FederationState \<Rightarrow> string \<Rightarrow> obj option" where
  "selectCommunity s i = find (has_id i) (communities s)"

definition selectLastSelectedCommunity :: "FederationState \<Rightarrow> obj option" where
  "selectLastSelectedCommunity s =
     (if truthy (lastSelectedCommunityId s)
      then find (\<lambda>c. js_seq (obj_get c ''id'') (lastSelectedCommunityId s)) (communities s)
      else (case communities s of [] \<Rightarrow> None | c # _ \<Rightarrow> Some c))"

definition selectCommunityStack :: "FederationState \<Rightarrow> obj list" where
  "selectCommunityStack s =
     (case selectLastSelectedCommunity s of
        None \<Rightarrow> []
      | Some c \<Rightarrow> c # take 2 (filter (\<lambda>d. \<not> same_id d c) (communities s)))"

definition selectShouldRateFederation :: "bool \<Rightarrow> FederationState \<Rightarrow> bool" where
  "selectShouldRateFederation isNostrClientEnabled s =
     (case selectLastUsedFederation s of
        None \<Rightarrow> False
      | Some f \<Rightarrow>
          if js_str (obj_get f ''id'') \<in> set (seenFederationRatings s) then False else isNostrClientEnabled)"

definition autojoin_list :: "(string \<Rightarrow> jv option) \<Rightarrow> obj \<Rightarrow> string list" where
  "autojoin_list parse metadata = map js_str (collection (getAutojoinCommunities parse metadata))"

definition selectFederationByAutojoinCommunityId ::
  "(string \<Rightarrow> jv option) \<Rightarrow> FederationState \<Rightarrow> string \<Rightarrow> obj option" where
  "selectFederationByAutojoinCommunityId parse s communityId =
     find (\<lambda>f. communityId \<in> set (autojoin_list parse (own_entries (obj_get f ''meta''))))
       (selectLoadedFederations s)"

definition selectShouldShowAutojoinedCommunityNotice ::
  "(string \<Rightarrow> jv option) \<Rightarrow> FederationState \<Rightarrow> string \<Rightarrow> bool" where
  "selectShouldShowAutojoinedCommunityNotice parse s communityId \<longleftrightarrow>
     communityId \<in> set (autojoinNoticesToDisplay s) \<and>
     selectFederationByAutojoinCommunityId parse s communityId \<noteq> None"

section \<open>Thunks\<close>

text \<open>\<^verbatim>\<open>processCommunityMeta\<close>: \<open>mods_of\<close> is \<open>getCommunityFediMods\<close> of the platform's parser.\<close>

definition processCommunityMeta ::
  "deep_equal \<Rightarrow> (obj \<Rightarrow> jv list) \<Rightarrow> obj \<Rightarrow> FederationState \<Rightarrow> FederationState" where
  "processCommunityMeta E mods_of community s =
     (if \<not> truthy (obj_get community ''meta'') then s
      else setCommunityCustomFediMods E (js_str (obj_get community ''id''))
             (JArr (mods_of (own_entries (obj_get community ''meta'')))) s)"

text \<open>The default community of the feature flags is joined when it is not there yet.\<close>

definition ensureDefaultCommunityIsJoined ::
  "deep_equal \<Rightarrow> (obj \<Rightarrow> jv list) \<Rightarrow> string option \<Rightarrow> obj option \<Rightarrow> FederationState \<Rightarrow> FederationState option" where
  "ensureDefaultCommunityIsJoined E mods_of invite joinResult s =
     (case invite of
        None \<Rightarrow> Some s
      | Some code \<Rightarrow>
          if code = [] \<or> find (has_id code) (communities s) \<noteq> None then Some s
          else case joinResult of
            None \<Rightarrow> None
          | Some r \<Rightarrow>
              let joined = coerceCommunity r;
                  s1 = setCommunities E (joined # communities s) s;
                  s2 = processCommunityMeta E mods_of joined s1
              in Some (s2\<lparr>lastSelectedCommunityId := JStr code\<rparr>))"

definition refreshCommunities ::
  "deep_equal \<Rightarrow> (obj \<Rightarrow> jv list) \<Rightarrow> string option \<Rightarrow> obj option \<Rightarrow> obj list \<Rightarrow> FederationState \<Rightarrow> FederationState" where
  "refreshCommunities E mods_of invite joinResult listed s =
     (let s1 = setCommunities E (map coerceCommunity listed) s;
          joined = communities s1;
          s2 = fold (\<lambda>c t. if truthy (obj_get c ''meta'') \<and> own_entries (obj_get c ''meta'') \<noteq> []
                           then processCommunityMeta E mods_of c t else t) joined s1;
          s3 = (if joined \<noteq> [] \<and> \<not> truthy (lastSelectedCommunityId s1)
                then s2\<lparr>lastSelectedCommunityId := first_id joined\<rparr> else s2)
      in case ensureDefaultCommunityIsJoined E mods_of invite joinResult s3 of
           Some t \<Rightarrow> t
         | None \<Rightarrow> s3)"

definition coerced_federation :: "obj \<Rightarrow> obj" where
  "coerced_federation f =
     (if obj_get f ''init_state'' = JStr ''loading'' \<or> obj_get f ''init_state'' = JStr ''failed'' then f
      else coerceLoadedFederation f)"

definition refreshFederations :: "deep_equal \<Rightarrow> obj list \<Rightarrow> FederationState \<Rightarrow> FederationState" where
  "refreshFederations E listed s =
     (let fs = map coerced_federation listed;
          s1 = setFederations E fs s
      in if \<not> truthy (selectLastUsedFederationId s1) \<and> truthy (first_id fs)
         then setLastUsedFederationId (js_str (first_id fs)) s1 else s1)"

text \<open>
  \<^verbatim>\<open>joinFederation\<close> after the bridge has answered: the federation must have reached the state by
  the event of the bridge.
\<close>

definition joinFederation :: "string \<Rightarrow> FederationState \<Rightarrow> FederationState option" where
  "joinFederation joinedId s =
     (case selectFederation s joinedId of
        None \<Rightarrow> None
      | Some f \<Rightarrow> Some (setLastUsedFederationId (js_str (obj_get f ''id'')) s))"

definition may_leave_federation :: "string \<Rightarrow> FederationState \<Rightarrow> bool" where
  "may_leave_federation federationId s \<longleftrightarrow>
     selectFederation s federationId \<noteq> None \<and> \<not> selectIsAnyFederationRecovering s"

definition may_leave_community :: "string \<Rightarrow> FederationState \<Rightarrow> bool" where
  "may_leave_community communityId s \<longleftrightarrow> selectCommunity s communityId \<noteq> None"

text \<open>
  \<^verbatim>\<open>autojoinCommunity\<close>: the new state, and whether the bridge was asked to join. The refresh of the
  communities that follows a success is \<open>refreshCommunities\<close>.
\<close>

definition autojoinCommunity ::
  "int \<Rightarrow> string \<Rightarrow> bool \<Rightarrow> obj option \<Rightarrow> FederationState \<Rightarrow> FederationState \<times> bool" where
  "autojoinCommunity now code setAsSelected joinResult s =
     (if truthy (obj_get (previouslyAutojoinedCommunities s) code) then (s, False)
      else case joinResult of
        None \<Rightarrow> (s, True)
      | Some r \<Rightarrow>
          let joined = coerceCommunity r;
              s1 = (if setAsSelected then s\<lparr>lastSelectedCommunityId := obj_get joined ''id''\<rparr> else s);
              s2 = setPreviouslyAutojoinedCommunity now code s1;
              s3 = (if \<not> setAsSelected then addAutojoinNoticeToDisplay (js_str (obj_get joined ''id'')) s2
                    else s2)
          in (s3, True))"

text \<open>\<^verbatim>\<open>checkFederationForAutojoinCommunities\<close>: one attempt for each code of the metadata.\<close>

definition checkFederationForAutojoinCommunities ::
  "(string \<Rightarrow> jv option) \<Rightarrow> int \<Rightarrow> obj \<Rightarrow> bool \<Rightarrow> (string \<Rightarrow> obj option) \<Rightarrow> FederationState \<Rightarrow> FederationState" where
  "checkFederationForAutojoinCommunities parse now federation setAsSelected joinResult s =
     (if \<not> truthy (obj_get federation ''meta'') then s
      else fold (\<lambda>code t. fst (autojoinCommunity now code setAsSelected (joinResult code) t))
             (autojoin_list parse (own_entries (obj_get federation ''meta''))) s)"

text \<open>
  \<^verbatim>\<open>setSuggestedPaymentFederation\<close>: sort by balance, then the federations on the main network first.
\<close>

definition is_mainnet :: "obj \<Rightarrow> bool" where
  "is_mainnet f \<longleftrightarrow> obj_get f ''network'' = JStr ''bitcoin''"

definition by_suggestion :: "obj list \<Rightarrow> obj list" where
  "by_suggestion fs =
     sort_key (\<lambda>f. if is_mainnet f then 0 else (1 :: int)) (orderBy_desc balance_of fs)"

definition setSuggestedPaymentFederation :: "FederationState \<Rightarrow> FederationState" where
  "setSuggestedPaymentFederation s =
     (if selectPaymentFederation s = None
      then s\<lparr>payFromFederationId := (case by_suggestion (selectLoadedFederations s) of
               [] \<Rightarrow> JNull | f # _ \<Rightarrow> js_nullish (obj_get f ''id'') JNull)\<rparr>
      else s)"

text \<open>\<^verbatim>\<open>listGateways\<close>: the cached list unless it is empty.\<close>

definition listGateways :: "string \<Rightarrow> jv list \<Rightarrow> FederationState \<Rightarrow> FederationState \<times> jv list" where
  "listGateways federationId answer s =
     (case obj_get (gatewaysByFederation s) federationId of
        JArr (g # gs) \<Rightarrow> (s, g # gs)
      | _ \<Rightarrow> (s\<lparr>gatewaysByFederation := jm_set federationId (JArr answer) (gatewaysByFederation s)\<rparr>, answer))"

end
