(* ===== verification/Federation_Properties.thy ===== *)
theory Federation_Properties
  imports Federation_Thunks
begin

text \<open>
  What holds of \<^verbatim>\<open>ui/common/redux/federation.ts\<close>: unique identifiers in every reachable state, what
  a refresh, a migration, a balance event and leaving do, and the choice of a payment federation.
\<close>

section \<open>Entities with identifiers\<close>

definition ids_ok :: "obj list \<Rightarrow> bool" where
  "ids_ok fs \<longleftrightarrow> list_all (\<lambda>f. is_str (item_id f)) fs \<and> distinct (map item_id fs)"

definition payload_ok :: "obj list \<Rightarrow> bool" where
  "payload_ok fs \<longleftrightarrow> ids_ok fs \<and> list_all (\<lambda>f. distinct (jm_keys f)) fs"

lemma is_strE: "is_str v \<Longrightarrow> (\<And>i. v = JStr i \<Longrightarrow> P) \<Longrightarrow> P"
  by (cases v) auto

lemma same_id_iff: "is_str (item_id b) \<Longrightarrow> same_id a b \<longleftrightarrow> item_id a = item_id b"
  by (auto simp: same_id_def js_seq_def elim: is_strE)

lemma has_id_iff: "has_id i f \<longleftrightarrow> item_id f = JStr i"
  by (auto simp: has_id_def js_seq_def)

lemma ids_okD: "ids_ok fs \<Longrightarrow> f \<in> set fs \<Longrightarrow> is_str (item_id f)"
  by (simp add: ids_ok_def list_all_iff)

lemma payload_okD: "payload_ok fs \<Longrightarrow> f \<in> set fs \<Longrightarrow> is_str (item_id f) \<and> distinct (jm_keys f)"
  by (simp add: payload_ok_def ids_ok_def list_all_iff)

lemma ids_ok_alt: "ids_ok fs \<longleftrightarrow> list_all is_str (map item_id fs) \<and> distinct (map item_id fs)"
  by (simp add: ids_ok_def list_all_iff)

lemma ids_ok_Nil [simp]: "ids_ok []"
  by (simp add: ids_ok_def)

lemma ids_ok_filter: "ids_ok fs \<Longrightarrow> ids_ok (filter P fs)"
  by (auto simp: ids_ok_def list_all_iff distinct_map_filter)

text \<open>The spread of an object over another one, read at a key.\<close>

lemma obj_get_spread_distinct:
  assumes "distinct (jm_keys b)"
  shows "obj_get (jm_spread a b) k = (if jm_get b k = None then obj_get a k else obj_get b k)"
proof -
  have "map_of (rev b) = map_of b" using assms by (intro map_of_rev_distinct) (simp add: jm_keys_def)
  then show ?thesis
    by (simp add: obj_get_spread) (simp add: obj_get_def jm_get_def split: option.splits)
qed

text \<open>
  Merging an entity of a payload into the one with the same identifier. Both slices of the source
  that replace lists rest on this law.
\<close>

locale entity_merge =
  fixes merge :: "obj \<Rightarrow> obj \<Rightarrow> obj"
  assumes merge_id: "item_id upsert = item_id existing \<Longrightarrow> is_str (item_id upsert) \<Longrightarrow>
    distinct (jm_keys upsert) \<Longrightarrow> item_id (merge existing upsert) = item_id existing"
begin

lemma visit_found:
  assumes "payload_ok payload" "is_str (item_id e)" "find (\<lambda>f. same_id f e) payload = Some u"
  shows "u \<in> set payload" "item_id u = item_id e" "item_id (merge e u) = item_id e"
proof -
  from find_Some_mem [OF assms(3)] show u: "u \<in> set payload" and i: "item_id u = item_id e"
    by (auto simp: same_id_iff [OF assms(2)])
  show "item_id (merge e u) = item_id e"
    using payload_okD [OF assms(1) u] i by (intro merge_id) auto
qed

lemma find_same_None:
  "is_str (item_id e) \<Longrightarrow> find (\<lambda>f. same_id f e) payload = None \<longleftrightarrow> item_id e \<notin> item_id ` set payload"
  by (auto simp: find_None_iff same_id_iff image_iff)

lemma visits_ids:
  assumes "payload_ok payload" "list_all (\<lambda>e. is_str (item_id e)) existing"
    and "\<And>e. missing e = ([], True) \<or> missing e = ([e], False)"
  shows "map item_id (concat (map (\<lambda>e. fst (visit_existing E merge missing payload e)) existing)) =
    map item_id (filter (\<lambda>e. item_id e \<in> item_id ` set payload \<or> missing e = ([e], False)) existing)"
  using assms(2)
proof (induction existing)
  case (Cons e es)
  have "map item_id (fst (visit_existing E merge missing payload e)) =
      (if item_id e \<in> item_id ` set payload \<or> missing e = ([e], False) then [item_id e] else [])"
  proof (cases "find (\<lambda>f. same_id f e) payload")
    case None
    with Cons.prems have "item_id e \<notin> item_id ` set payload" by (simp add: find_same_None)
    with assms(3) [of e] show ?thesis by (auto simp: visit_existing_def None)
  next
    case (Some u)
    with Cons.prems visit_found [OF assms(1) _ Some] show ?thesis
      by (auto simp: visit_existing_def Let_def image_iff intro: bexI [of _ u])
  qed
  with Cons show ?case by simp
qed simp

lemma no_update:
  assumes "\<not> list_ex snd (map (visit_existing E merge missing payload) existing)"
    and "\<And>e. missing e = ([], True) \<or> missing e = ([e], False)"
  shows "concat (map (\<lambda>e. fst (visit_existing E merge missing payload e)) existing) = existing"
proof -
  have "fst (visit_existing E merge missing payload e) = [e]" if "e \<in> set existing" for e
    using assms(1) assms(2) [of e] that
    by (auto simp: visit_existing_def list_ex_iff Let_def split: option.splits if_splits)
  then show ?thesis by (induction existing) auto
qed

lemma replace_list_eq:
  assumes "\<And>e. missing e = ([], True) \<or> missing e = ([e], False)"
  shows "replace_list E merge missing payload existing =
    concat (map (\<lambda>e. fst (visit_existing E merge missing payload e)) existing) @
    new_entities payload existing"
  using no_update [OF _ assms, of E payload existing]
  by (auto simp: replace_list_def Let_def comp_def)

lemma replace_list_ids:
  assumes "payload_ok payload" "ids_ok existing"
    and "\<And>e. missing e = ([], True) \<or> missing e = ([e], False)"
  shows "map item_id (replace_list E merge missing payload existing) =
    map item_id (filter (\<lambda>e. item_id e \<in> item_id ` set payload \<or> missing e = ([e], False)) existing) @
    map item_id (new_entities payload existing)"
  using assms by (simp add: replace_list_eq [OF assms(3)] visits_ids ids_ok_def)

lemma new_entities_iff:
  "payload_ok payload \<Longrightarrow>
     new_entities payload existing = filter (\<lambda>n. item_id n \<notin> item_id ` set existing) payload"
  unfolding new_entities_def
  by (intro filter_cong refl) (auto simp: list_ex_iff same_id_iff payload_okD image_iff)

lemma replace_list_ok:
  assumes "payload_ok payload" "ids_ok existing"
    and "\<And>e. missing e = ([], True) \<or> missing e = ([e], False)"
  shows "ids_ok (replace_list E merge missing payload existing)"
proof -
  let ?r = "map item_id (replace_list E merge missing payload existing)"
  have "set ?r \<subseteq> item_id ` (set existing \<union> set payload)"
    unfolding replace_list_ids [OF assms] new_entities_iff [OF assms(1)] by auto
  then have "\<forall>v \<in> set ?r. is_str v"
    using ids_okD [OF assms(2)] payload_okD [OF assms(1)] by auto
  moreover have "distinct ?r"
    unfolding replace_list_ids [OF assms] new_entities_iff [OF assms(1)]
    using assms(1,2)
    by (auto simp: ids_ok_def payload_ok_def distinct_map_filter) (metis image_eqI)+
  ultimately show ?thesis by (simp add: ids_ok_def list_all_iff)
qed

lemma replace_list_entity:
  assumes "payload_ok payload" "ids_ok existing" "\<And>x. E x x" "u \<in> set payload"
    and "\<And>e. missing e = ([], True) \<or> missing e = ([e], False)"
  shows "\<exists>g \<in> set (replace_list E merge missing payload existing). item_id g = item_id u \<and>
    (case find (\<lambda>e. item_id e = item_id u) existing of
       None \<Rightarrow> g = u | Some e \<Rightarrow> g = merge e u \<or> g = e \<and> E (JObj e) (JObj (merge e u)))"
proof (cases "find (\<lambda>e. item_id e = item_id u) existing")
  case None
  then have "u \<in> set (new_entities payload existing)"
    using assms(4) by (auto simp: new_entities_iff [OF assms(1)] find_None_iff)
  with None show ?thesis by (auto simp: replace_list_eq [OF assms(5)])
next
  case (Some e)
  from find_Some_mem [OF Some] have e: "e \<in> set existing" "item_id e = item_id u" by auto
  with payload_okD [OF assms(1,4)] have "is_str (item_id e)" by simp
  have "filter (\<lambda>f. item_id f = item_id u) payload = [u]"
    using assms(1,4) by (intro filter_distinct_singleton) (auto simp: payload_ok_def ids_ok_def)
  then have found: "find (\<lambda>f. same_id f e) payload = Some u"
    using e \<open>is_str (item_id e)\<close> by (simp add: same_id_iff find_hd_filter)
  let ?g = "if E (JObj e) (JObj (merge e u)) then e else merge e u"
  have "?g \<in> set (fst (visit_existing E merge missing payload e))"
    using found by (simp add: visit_existing_def Let_def)
  then have "?g \<in> set (replace_list E merge missing payload existing)"
    using e(1) by (auto simp: replace_list_eq [OF assms(5)])
  moreover have "item_id ?g = item_id u"
    using visit_found(3) [OF assms(1) \<open>is_str (item_id e)\<close> found] e(2) by simp
  ultimately show ?thesis
    using Some assms(3) by (intro bexI [of _ ?g]) (simp_all split: if_splits)
qed

end

lemma merged_entity_get:
  "k \<noteq> ''meta'' \<Longrightarrow> obj_get (merged_entity existing upsert) k = obj_get (jm_spread existing upsert) k"
  by (simp add: merged_entity_def Let_def)

lemma jm_get_item_id: "is_str (item_id u) \<Longrightarrow> jm_get u ''id'' \<noteq> None"
  by (auto simp: obj_get_def split: option.splits)

lemma merged_entity_id:
  "item_id u = item_id e \<Longrightarrow> is_str (item_id u) \<Longrightarrow> distinct (jm_keys u) \<Longrightarrow>
     item_id (merged_entity e u) = item_id e"
  using jm_get_item_id [of u] by (simp add: merged_entity_get obj_get_spread_distinct)

interpretation community_merge: entity_merge merged_entity
  by unfold_locales (rule merged_entity_id)

interpretation federation_merge: entity_merge merged_federation
  by unfold_locales (simp add: merged_federation_def merged_entity_id)

section \<open>Upserts\<close>

definition entity_ok :: "obj \<Rightarrow> bool" where
  "entity_ok item \<longleftrightarrow> is_str (item_id item) \<and> distinct (jm_keys item)"

lemma updatedEntity_id:
  assumes "entity_ok item"
  shows "item_id (updatedEntity (Some [''meta'']) oldItem item) = item_id item"
  using assms jm_get_item_id [of item]
  by (subst obj_get_updatedEntity_other) (auto simp: entity_ok_def obj_get_spread_distinct)

lemma upsert_entity_ids:
  assumes "ids_ok items" "entity_ok item"
  shows "map item_id (upsert_entity E items item) = js_set_add (item_id item) (map item_id items)"
proof -
  have seq: "js_seq (item_id x) (item_id item) \<longleftrightarrow> item_id x = item_id item" for x
    using assms(2) same_id_iff [of item x] by (simp add: entity_ok_def same_id_def)
  define hits where "hits = filter (\<lambda>x. js_seq (item_id x) (item_id item)) items"
  have none: "hits = [] \<longleftrightarrow> item_id item \<notin> set (map item_id items)"
    by (auto simp: hits_def seq filter_empty_conv image_iff)
  have "map item_id (map (\<lambda>x. if js_seq (item_id x) (item_id item)
      then updatedEntity (Some [''meta'']) x item else x) items) = map item_id items"
    using updatedEntity_id [OF assms(2)] by (auto simp: seq)
  with none show ?thesis
    by (simp add: upsert_entity_def upsertListItem_cases [OF hits_def] js_set_add_def del: set_map)
qed

lemma upsert_entity_ok:
  assumes "ids_ok items" "entity_ok item"
  shows "ids_ok (upsert_entity E items item)"
proof -
  let ?ids = "map item_id (upsert_entity E items item)"
  have "distinct ?ids" "list_all is_str ?ids"
    using assms
    by (auto simp: upsert_entity_ids [OF assms] distinct_js_set_add ids_ok_def entity_ok_def list_all_iff)
  then show ?thesis by (simp add: ids_ok_def list_all_iff)
qed

section \<open>The invariant of the slice\<close>

definition fed_inv :: "FederationState \<Rightarrow> bool" where
  "fed_inv s \<longleftrightarrow> ids_ok (federations s) \<and> ids_ok (communities s) \<and>
     distinct (recentlyUsedFederationIds s) \<and> distinct (seenFederationRatings s) \<and>
     distinct (autojoinNoticesToDisplay s)"

text \<open>
  The lists the bridge sends have each identifier once, and so have the stored lists.
\<close>

fun fed_action_ok :: "federation_action \<Rightarrow> bool" where
  "fed_action_ok (SetCommunities cs) \<longleftrightarrow> payload_ok cs"
| "fed_action_ok (SetFederations fs) \<longleftrightarrow> payload_ok fs"
| "fed_action_ok (UpsertCommunity c) \<longleftrightarrow> entity_ok c"
| "fed_action_ok (UpsertFederation f) \<longleftrightarrow> entity_ok f"
| "fed_action_ok (MigrateCommunityV1ToV2 v1 v2) \<longleftrightarrow> entity_ok v2"
| "fed_action_ok (LoadFromStorageFulfilled p) \<longleftrightarrow>
     distinct (map js_str (collection (opt_prop p ''recentlyUsedFederationIds''))) \<and>
     distinct (map js_str (collection (opt_prop p ''seenFederationRatings''))) \<and>
     distinct (map js_str (collection (js_or (opt_prop p ''autojoinNoticesToDisplay'') (JArr []))))"
| "fed_action_ok _ \<longleftrightarrow> True"

lemma balance_keeps_ids:
  assumes "ids_ok fs"
  shows "ids_ok (map (\<lambda>f. if \<not> has_id i f then f else jm_set ''balance'' b f) fs)"
proof -
  have "map item_id (map (\<lambda>f. if \<not> has_id i f then f else jm_set ''balance'' b f) fs) = map item_id fs"
    by auto
  with assms show ?thesis by (simp only: ids_ok_alt)
qed

lemma drop_mods_simps [simp]:
  "federations (drop_mods i s) = federations s" "communities (drop_mods i s) = communities s"
  "recentlyUsedFederationIds (drop_mods i s) = recentlyUsedFederationIds s"
  "seenFederationRatings (drop_mods i s) = seenFederationRatings s"
  "autojoinNoticesToDisplay (drop_mods i s) = autojoinNoticesToDisplay s"
  "payFromFederationId (drop_mods i s) = payFromFederationId s"
  "selectedFederationId (drop_mods i s) = selectedFederationId s"
  "lastSelectedCommunityId (drop_mods i s) = lastSelectedCommunityId s"
  by (simp_all add: drop_mods_def)

lemma leave_inv: "fed_inv s \<Longrightarrow> fed_inv (leaveFederation_fulfilled i s)"
  by (auto simp: fed_inv_def leaveFederation_fulfilled_def Let_def ids_ok_filter simp del: js_uniq.simps)

lemma leave_community_inv: "fed_inv s \<Longrightarrow> fed_inv (leaveCommunity_fulfilled i s)"
  by (auto simp: fed_inv_def leaveCommunity_fulfilled_def Let_def ids_ok_filter)

lemma migrate_inv: "fed_inv s \<Longrightarrow> entity_ok v2 \<Longrightarrow> fed_inv (migrateCommunityV1ToV2 E v1 v2 s)"
  by (auto simp: fed_inv_def migrateCommunityV1ToV2_def Let_def ids_ok_filter upsert_entity_ok)

lemma lists_inv:
  "fed_inv s \<Longrightarrow> payload_ok cs \<Longrightarrow> fed_inv (setCommunities E cs s)"
  "fed_inv s \<Longrightarrow> payload_ok fs \<Longrightarrow> fed_inv (setFederations E fs s)"
  by (simp_all add: fed_inv_def setCommunities_def setFederations_def
      community_merge.replace_list_ok federation_merge.replace_list_ok)

lemma fed_step_inv:
  assumes "fed_inv s" "fed_action_ok a"
  shows "fed_inv (federationSlice E s a)"
proof (cases a)
  case (LeaveFederationFulfilled i)
  with assms show ?thesis by (simp add: leave_inv)
next
  case (LeaveCommunityFulfilled i)
  with assms show ?thesis by (simp add: leave_community_inv)
next
  case (UpdateFederationBalance i b)
  with assms show ?thesis
    by (auto simp: fed_inv_def updateFederationBalance_def balance_keeps_ids split: option.splits)
next
  case (SetCommunities cs)
  with assms show ?thesis by (simp add: lists_inv)
next
  case (SetFederations fs)
  with assms show ?thesis by (simp add: lists_inv)
next
  case (MigrateCommunityV1ToV2 v1 v2)
  with assms show ?thesis by (simp add: migrate_inv)
next
  case (LoadFromStorageFulfilled p)
  with assms show ?thesis by (auto simp: fed_inv_def load_federation_state_def)
qed (use assms in \<open>auto simp: fed_inv_def upsertCommunity_def upsertFederation_def
    upsert_entity_ok setLastUsedFederationId_def setCommunityCustomFediMods_def removeCustomFediMod_def
    setSeenFederationRating_def setPreviouslyAutojoinedCommunity_def addAutojoinNoticeToDisplay_def
    removeAutojoinNoticeToDisplay_def previewCommunityDefaultChats_fulfilled_def\<close>)

interpretation federation: invariant_machine "federationSlice E" fed_action_ok fed_inv for E
  by unfold_locales (rule fed_step_inv)

text \<open>
  C32. In every state the slice reaches, no federation and no community is listed twice, and neither
  is an identifier among the recently used, the rated and the announced ones.
\<close>

theorem federation_ids_unique:
  assumes "list_all fed_action_ok actions"
  shows "let s = run (federationSlice E) initialFederationState actions in
    distinct (map item_id (federations s)) \<and> distinct (map item_id (communities s)) \<and>
    distinct (recentlyUsedFederationIds s) \<and> distinct (seenFederationRatings s) \<and>
    distinct (autojoinNoticesToDisplay s)"
proof -
  have "fed_inv initialFederationState"
    by (simp add: fed_inv_def initialFederationState_def ids_ok_def)
  from federation.run_inv [OF this assms, of E] show ?thesis
    by (simp add: Let_def fed_inv_def ids_ok_def)
qed


text \<open>A run that uses the lists, an upsert, a balance and a departure.\<close>

definition example_federation :: "string \<Rightarrow> int \<Rightarrow> string \<Rightarrow> obj" where
  "example_federation i b network =
     [(''id'', JStr i), (''init_state'', JStr ''ready''), (''balance'', JNum b), (''network'', JStr network),
      (''name'', JStr i), (''meta'', JObj [])]"

definition example_actions :: "federation_action list" where
  "example_actions =
     [SetFederations [example_federation ''a'' 7 ''bitcoin'', example_federation ''b'' 5 ''signet''],
      SetLastUsedFederationId ''a'', UpsertFederation (example_federation ''b'' 6 ''signet''),
      UpdateFederationBalance ''b'' (JNum 9), SetSeenFederationRating ''a'',
      LeaveFederationFulfilled ''a'']"

lemmas example_simps = example_federation_def example_actions_def payload_ok_def ids_ok_def entity_ok_def
  obj_get_def jm_keys_def jm_get_def

theorem federation_ids_unique_witness:
  "let s = run (federationSlice (=)) initialFederationState example_actions in
    distinct (map item_id (federations s)) \<and> distinct (map item_id (communities s)) \<and>
    distinct (recentlyUsedFederationIds s) \<and> distinct (seenFederationRatings s) \<and>
    distinct (autojoinNoticesToDisplay s)"
  by (rule federation_ids_unique) (simp add: example_simps)

section \<open>A refresh of the lists\<close>

lemma setFederations_ids:
  assumes "payload_ok fs" "ids_ok (federations s)"
  shows "map item_id (federations (setFederations E fs s)) =
    map item_id (federations s) @ filter (\<lambda>i. i \<notin> item_id ` set (federations s)) (map item_id fs)"
  using assms
  by (simp add: setFederations_def federation_merge.replace_list_ids federation_merge.new_entities_iff
      filter_map comp_def)

lemma setCommunities_ids:
  assumes "payload_ok cs" "ids_ok (communities s)"
  shows "map item_id (communities (setCommunities E cs s)) =
    filter (\<lambda>i. i \<in> item_id ` set cs) (map item_id (communities s)) @
    filter (\<lambda>i. i \<notin> item_id ` set (communities s)) (map item_id cs)"
  using assms
  by (simp add: setCommunities_def community_merge.replace_list_ids community_merge.new_entities_iff
      filter_map comp_def)

text \<open>
  A refresh drops no joined federation and keeps the order, new federations follow in the
  order of the payload, and each federation of the payload is in the list afterwards: as it came
  when it is new, and merged into the known one otherwise. A refresh of the communities leaves
  exactly those of the payload.
\<close>

theorem refresh_spec:
  assumes "payload_ok fs" "ids_ok (federations s)" "payload_ok cs" "ids_ok (communities s)" "\<And>x. E x x"
  shows "map item_id (federations (setFederations E fs s)) =
      map item_id (federations s) @ filter (\<lambda>i. i \<notin> item_id ` set (federations s)) (map item_id fs) \<and>
    list_all (\<lambda>u. list_ex (\<lambda>g. item_id g = item_id u \<and>
        (case find (\<lambda>e. item_id e = item_id u) (federations s) of
           None \<Rightarrow> g = u
         | Some e \<Rightarrow> g = merged_federation e u \<or> g = e \<and> E (JObj e) (JObj (merged_federation e u))))
      (federations (setFederations E fs s))) fs \<and>
    item_id ` set (communities (setCommunities E cs s)) = item_id ` set cs"
proof (intro conjI)
  show "list_all (\<lambda>u. list_ex (\<lambda>g. item_id g = item_id u \<and>
        (case find (\<lambda>e. item_id e = item_id u) (federations s) of
           None \<Rightarrow> g = u
         | Some e \<Rightarrow> g = merged_federation e u \<or> g = e \<and> E (JObj e) (JObj (merged_federation e u))))
      (federations (setFederations E fs s))) fs"
    unfolding list_all_iff list_ex_iff setFederations_def
    using federation_merge.replace_list_entity
      [of fs "federations s" E _ "\<lambda>e. ([e], False)", OF assms(1,2) assms(5)]
    by auto
  have "item_id ` set (communities (setCommunities E cs s)) =
      set (map item_id (communities (setCommunities E cs s)))" by simp
  also have "\<dots> = item_id ` set cs"
    unfolding setCommunities_ids [OF assms(3,4)] by auto
  finally show "item_id ` set (communities (setCommunities E cs s)) = item_id ` set cs" .
qed (rule setFederations_ids [OF assms(1,2)])

definition example_state :: FederationState where
  "example_state = initialFederationState\<lparr>
     federations := [example_federation ''a'' 7 ''bitcoin'', example_federation ''b'' 5 ''signet''],
     communities := [example_federation ''v'' 0 [], example_federation ''w'' 0 []],
     payFromFederationId := JStr ''a'', recentlyUsedFederationIds := [''a'', ''b''],
     selectedFederationId := JStr ''a'', lastSelectedCommunityId := JStr ''v'' \<rparr>"

theorem refresh_spec_witness:
  "map item_id (federations (setFederations (=) [example_federation ''c'' 1 [], example_federation ''b'' 2 []]
      example_state)) = [JStr ''a'', JStr ''b'', JStr ''c'']"
  using refresh_spec [of "[example_federation ''c'' 1 [], example_federation ''b'' 2 []]" example_state "[]" "(=)"]
  by (simp add: example_state_def example_simps)

section \<open>Leaving\<close>

lemma leave_federations:
  "federations (leaveFederation_fulfilled i s) = filter (\<lambda>f. item_id f \<noteq> JStr i) (federations s)"
  by (simp add: leaveFederation_fulfilled_def Let_def has_id_iff)

lemma leave_mods:
  "customFediMods (leaveFederation_fulfilled i s) =
     (if truthy (obj_get (customFediMods s) i) then jm_omit [i] (customFediMods s) else customFediMods s)"
  by (simp add: leaveFederation_fulfilled_def Let_def drop_mods_def)

lemma leave_recent:
  assumes "ids_ok (federations s)" "federations (leaveFederation_fulfilled i s) \<noteq> []"
  shows "i \<notin> set (recentlyUsedFederationIds (leaveFederation_fulfilled i s))"
proof -
  let ?fs = "filter (\<lambda>f. item_id f \<noteq> JStr i) (federations s)"
  from assms(2) obtain f rest where fs: "?fs = f # rest"
    by (auto simp: leave_federations neq_Nil_conv)
  then have "f \<in> set ?fs" by simp
  then have "is_str (item_id f)" "item_id f \<noteq> JStr i" using ids_okD [OF assms(1)] by auto
  then have "js_str (item_id f) \<noteq> i" by (cases "item_id f") auto
  with fs show ?thesis
    by (simp add: leaveFederation_fulfilled_def Let_def has_id_iff first_id_def)
qed

lemma leave_pay:
  assumes "ids_ok (federations s)"
  shows "payFromFederationId (leaveFederation_fulfilled i s) =
    (if federations (leaveFederation_fulfilled i s) = [] then JNull
     else if payFromFederationId s = JStr i
     then first_or_null (recentlyUsedFederationIds (leaveFederation_fulfilled i s))
     else payFromFederationId s)"
  by (auto simp: leaveFederation_fulfilled_def Let_def js_seq_def)

text \<open>
  C37. After a federation is left, it is not in the list, payments do not come from it, no mini-apps
  of it are kept, and it is not among the recently used ones while another federation is left; the
  other federations and their mini-apps are as before.
\<close>

theorem leave_forgets:
  assumes "ids_ok (federations s)"
  shows "let t = federationSlice E s (LeaveFederationFulfilled i) in
    federations t = filter (\<lambda>f. item_id f \<noteq> JStr i) (federations s) \<and>
    payFromFederationId t \<noteq> JStr i \<and> \<not> truthy (obj_get (customFediMods t) i) \<and>
    (if federations t = [] then payFromFederationId t = JNull
     else i \<notin> set (recentlyUsedFederationIds t) \<and>
          (if payFromFederationId s = JStr i
           then payFromFederationId t = first_or_null (recentlyUsedFederationIds t)
           else payFromFederationId t = payFromFederationId s)) \<and>
    communities t = communities s \<and>
    (j \<noteq> i \<longrightarrow> obj_get (customFediMods t) j = obj_get (customFediMods s) j)"
proof -
  have "first_or_null (recentlyUsedFederationIds (leaveFederation_fulfilled i s)) \<noteq> JStr i"
    if "federations (leaveFederation_fulfilled i s) \<noteq> []"
    using leave_recent [OF assms that] by (auto simp: first_or_null_def split: list.splits)
  moreover have "communities (leaveFederation_fulfilled i s) = communities s"
    by (simp add: leaveFederation_fulfilled_def Let_def)
  ultimately show ?thesis
    using leave_recent [OF assms]
    by (auto simp: Let_def leave_pay [OF assms] leave_mods leave_federations obj_get_omit)
qed

theorem leave_forgets_witness:
  "payFromFederationId (federationSlice (=) example_state (LeaveFederationFulfilled ''a'')) = JStr ''b''"
  using leave_forgets [of example_state "(=)" "''a''" "''b''"]
  by (simp add: example_state_def example_simps leaveFederation_fulfilled_def has_id_def js_seq_def
      first_or_null_def)

text \<open>
  The selected federation is not reset: after the selected federation is left, the state still
  names it, and the selector finds none; after the last one is left, it also stays the last used.
\<close>

theorem left_federation_still_selected:
  assumes "selectedFederationId s = JStr i"
  shows "let t = federationSlice E s (LeaveFederationFulfilled i) in
    selectedFederationId t = JStr i \<and> selectSelectedFederation t = None \<and>
    (federations t = [] \<longrightarrow> recentlyUsedFederationIds t = recentlyUsedFederationIds s \<and>
        selectLastUsedFederationId t = selectLastUsedFederationId s)"
proof -
  let ?t = "leaveFederation_fulfilled i s"
  have selected: "selectedFederationId ?t = JStr i"
    using assms by (simp add: leaveFederation_fulfilled_def Let_def)
  have "item_id f \<noteq> JStr i" if "f \<in> set (selectLoadedFederations ?t)" for f
    using that by (auto simp: selectLoadedFederations_def leave_federations obj_get_spread)
  then have "selectSelectedFederation ?t = None"
    by (auto simp: selectSelectedFederation_def selected find_None_iff js_seq_def)
  moreover have "recentlyUsedFederationIds ?t = recentlyUsedFederationIds s" if "federations ?t = []"
    using that unfolding leave_federations
    by (simp add: leaveFederation_fulfilled_def Let_def has_id_iff)
  ultimately show ?thesis using selected by (simp add: Let_def selectLastUsedFederationId_def)
qed

theorem left_federation_still_selected_witness:
  "selectSelectedFederation (federationSlice (=) example_state (LeaveFederationFulfilled ''a'')) = None"
  using left_federation_still_selected [of example_state "''a''" "(=)"]
  by (simp add: example_state_def Let_def)

end
