(* ===== verification/Federation_Balances.thy ===== *)
theory Federation_Balances
  imports Federation_Properties
begin

text \<open>
  More of \<^verbatim>\<open>ui/common/redux/federation.ts\<close>: the migration of communities, automatic joins, balance
  events and the choice of a payment federation.
\<close>

section \<open>Community migration\<close>

lemma js_set_add_not_Nil [simp]: "js_set_add x xs \<noteq> []"
  by (auto simp: js_set_add_def)

lemma upsert_community_ids:
  assumes "ids_ok (communities s)" "entity_ok v2" "item_id v2 = JStr w"
  shows "map item_id (communities (migrateCommunityV1ToV2 E v1 v2 s)) =
    js_set_add (JStr w) (filter (\<lambda>i. i \<noteq> JStr v1) (map item_id (communities s)))"
  using assms
  by (simp add: migrateCommunityV1ToV2_def Let_def upsert_entity_ids ids_ok_filter has_id_iff
      filter_map comp_def)

lemma selectLastSelectedCommunity_iff:
  "selectLastSelectedCommunity s \<noteq> None \<longleftrightarrow>
     (if truthy (lastSelectedCommunityId s)
      then list_ex (\<lambda>i. js_seq i (lastSelectedCommunityId s)) (map item_id (communities s))
      else map item_id (communities s) \<noteq> [])"
proof (cases "truthy (lastSelectedCommunityId s)")
  case True
  then show ?thesis
    by (auto simp: selectLastSelectedCommunity_def find_None_iff list_ex_iff simp del: not_None_eq)
next
  case False
  then show ?thesis by (simp add: selectLastSelectedCommunity_def split: list.splits)
qed

text \<open>
  Migrating a community from its first invite code to the second replaces it: the first
  identifier is gone, the second is listed once, the other communities keep their places, the
  selection follows, and a selection that named a community still names one.
\<close>

theorem community_migration:
  assumes "ids_ok (communities s)" "entity_ok v2" "item_id v2 = JStr w" "v1 \<noteq> w" "w \<noteq> []"
  shows "let t = federationSlice E s (MigrateCommunityV1ToV2 v1 v2) in
    map item_id (communities t) =
      js_set_add (JStr w) (filter (\<lambda>i. i \<noteq> JStr v1) (map item_id (communities s))) \<and>
    ids_ok (communities t) \<and>
    lastSelectedCommunityId t =
      (if lastSelectedCommunityId s = JStr v1 then JStr w else lastSelectedCommunityId s) \<and>
    (selectLastSelectedCommunity s \<noteq> None \<longrightarrow> selectLastSelectedCommunity t \<noteq> None)"
proof -
  let ?t = "migrateCommunityV1ToV2 E v1 v2 s"
  note ids = upsert_community_ids [OF assms(1-3), of E v1]
  have last: "lastSelectedCommunityId ?t =
      (if lastSelectedCommunityId s = JStr v1 then JStr w else lastSelectedCommunityId s)"
    using assms(3) by (auto simp: migrateCommunityV1ToV2_def Let_def js_seq_def)
  have "ids_ok (communities ?t)"
    using assms(1,2) by (simp add: migrateCommunityV1ToV2_def Let_def upsert_entity_ok ids_ok_filter)
  moreover have "selectLastSelectedCommunity ?t \<noteq> None" if "selectLastSelectedCommunity s \<noteq> None"
    using that assms(5) unfolding selectLastSelectedCommunity_iff ids last
    by (auto simp: list_ex_iff js_seq_def split: if_splits)
  ultimately show ?thesis using ids last by (simp add: Let_def)
qed

theorem community_migration_witness:
  "let t = federationSlice (=) example_state (MigrateCommunityV1ToV2 ''v'' (example_federation ''z'' 0 [])) in
    map item_id (communities t) = [JStr ''w'', JStr ''z''] \<and> lastSelectedCommunityId t = JStr ''z''"
  using community_migration [of example_state "example_federation ''z'' 0 []" "''z''" "''v''" "(=)"]
  by (simp add: example_state_def example_simps Let_def js_set_add_def)

section \<open>Automatic joins\<close>

fun keeps_autojoined :: "federation_action \<Rightarrow> bool" where
  "keeps_autojoined ClearAutojoinedCommunitiesAndNotices \<longleftrightarrow> False"
| "keeps_autojoined (LoadFromStorageFulfilled payload) \<longleftrightarrow> False"
| "keeps_autojoined (SetPreviouslyAutojoinedCommunity now code) \<longleftrightarrow> now \<noteq> 0"
| "keeps_autojoined _ \<longleftrightarrow> True"

definition was_autojoined :: "string \<Rightarrow> FederationState \<Rightarrow> bool" where
  "was_autojoined code s \<longleftrightarrow> truthy (obj_get (previouslyAutojoinedCommunities s) code)"

lemma autojoined_fields [simp]:
  "previouslyAutojoinedCommunities (drop_mods i s) = previouslyAutojoinedCommunities s"
  "previouslyAutojoinedCommunities (leaveFederation_fulfilled i s) = previouslyAutojoinedCommunities s"
  "previouslyAutojoinedCommunities (leaveCommunity_fulfilled i s) = previouslyAutojoinedCommunities s"
  "previouslyAutojoinedCommunities (migrateCommunityV1ToV2 E v1 v2 s) = previouslyAutojoinedCommunities s"
  by (simp_all add: drop_mods_def leaveFederation_fulfilled_def leaveCommunity_fulfilled_def
      migrateCommunityV1ToV2_def Let_def)

lemma autojoined_step:
  "was_autojoined code s \<Longrightarrow> keeps_autojoined a \<Longrightarrow> was_autojoined code (federationSlice E s a)"
  by (cases a) (auto simp: was_autojoined_def setCommunities_def setFederations_def upsertCommunity_def
      upsertFederation_def updateFederationBalance_def setLastUsedFederationId_def
      setCommunityCustomFediMods_def removeCustomFediMod_def setSeenFederationRating_def
      setPreviouslyAutojoinedCommunity_def addAutojoinNoticeToDisplay_def
      removeAutojoinNoticeToDisplay_def previewCommunityDefaultChats_fulfilled_def split: option.splits)

interpretation autojoined: invariant_machine "federationSlice E" keeps_autojoined "was_autojoined code"
  for E code
  by unfold_locales (rule autojoined_step)

lemma autojoin_success:
  "now \<noteq> 0 \<Longrightarrow> snd (autojoinCommunity now code b (Some r) s) \<Longrightarrow>
     was_autojoined code (fst (autojoinCommunity now code b (Some r) s))"
  by (auto simp: autojoinCommunity_def Let_def was_autojoined_def setPreviouslyAutojoinedCommunity_def
      addAutojoinNoticeToDisplay_def split: if_splits)

text \<open>
  C36. A community is joined automatically at most once: after an attempt that succeeded, and
  whatever happens next (leaving it, for instance) except a reset or a reload, no later attempt asks
  the bridge, and it changes nothing.
\<close>

theorem autojoin_at_most_once:
  assumes "autojoinCommunity now code b (Some r) s = (t, True)" "now \<noteq> 0"
    "list_all keeps_autojoined actions"
  shows "let u = run (federationSlice E) t actions in
    autojoinCommunity later code c answer u = (u, False)"
proof -
  have "was_autojoined code t" using autojoin_success [of now code b r s] assms(1,2) by simp
  from autojoined.run_inv [OF this assms(3), of E] show ?thesis
    by (simp add: Let_def autojoinCommunity_def was_autojoined_def)
qed

theorem autojoin_at_most_once_witness:
  "let t = fst (autojoinCommunity 5 ''n'' True (Some (example_federation ''n'' 0 [])) example_state);
       u = run (federationSlice (=)) t [LeaveCommunityFulfilled ''n'']
   in autojoinCommunity 9 ''n'' True None u = (u, False)"
proof -
  have "autojoinCommunity 5 ''n'' True (Some (example_federation ''n'' 0 [])) example_state =
      (fst (autojoinCommunity 5 ''n'' True (Some (example_federation ''n'' 0 [])) example_state), True)"
    by (simp add: autojoinCommunity_def example_state_def initialFederationState_def Let_def)
  from autojoin_at_most_once [OF this, of "[LeaveCommunityFulfilled ''n'']" "(=)" 9 True None]
  show ?thesis by (simp add: Let_def)
qed

section \<open>Balances\<close>

lemma loaded_balance: "balance_of (jm_spread f [(''init_state'', a), (''name'', b), (''recovering'', c)]) = balance_of f"
  by (simp add: balance_of_def obj_get_spread)

lemma loaded_id: "item_id (jm_spread f [(''init_state'', a), (''name'', b), (''recovering'', c)]) = item_id f"
  by (simp add: obj_get_spread)

definition is_ready :: "obj \<Rightarrow> bool" where
  "is_ready f \<longleftrightarrow> obj_get f ''init_state'' = JStr ''ready''"

lemma foldl_plus: "foldl (\<lambda>acc f. acc + (g f :: int)) a xs = a + sum_list (map g xs)"
  by (induction xs arbitrary: a) auto

lemma total_balance:
  "selectTotalBalanceMsats s = sum_list (map balance_of (filter is_ready (federations s)))"
  by (simp add: selectTotalBalanceMsats_def selectLoadedFederations_def foldl_plus comp_def
      loaded_balance is_ready_def [abs_def])

lemma federation_balance:
  "selectFederationBalance s i =
     (case find (has_id i) (filter is_ready (federations s)) of Some f \<Rightarrow> balance_of f | None \<Rightarrow> 0)"
proof -
  define load where "load = (\<lambda>f. jm_spread f [(''init_state'', JStr ''ready''),
    (''name'', JStr (getFederationName f)), (''recovering'', js_or (obj_get f ''recovering'')
       (JBool (obj_get (simulateRecoveryByFederation s) (js_str (obj_get f ''id'')) = JBool True)))])"
  have "find (has_id i) (map load fs) = map_option load (find (has_id i) fs)" for fs
    by (induction fs) (auto simp: load_def has_id_iff loaded_id)
  moreover have "selectLoadedFederations s = map load (filter is_ready (federations s))"
    by (simp add: selectLoadedFederations_def load_def is_ready_def [abs_def])
  ultimately show ?thesis
    by (auto simp: selectFederationBalance_def selectLoadedFederation_def load_def loaded_balance
        split: option.splits)
qed

lemma balance_update:
  "balance_of (jm_set ''balance'' (JNum b) f) = b"
  "is_ready (jm_set ''balance'' v f) = is_ready f"
  "has_id i (jm_set ''balance'' v f) = has_id i f"
  by (simp_all add: balance_of_def is_ready_def has_id_iff)

lemma sum_update:
  assumes "distinct (map item_id fs)" "f \<in> set fs" "has_id i f" "is_ready f"
  shows "sum_list (map balance_of (filter is_ready
      (map (\<lambda>f. if \<not> has_id i f then f else jm_set ''balance'' (JNum b) f) fs))) =
    sum_list (map balance_of (filter is_ready fs)) - balance_of f + b"
  using assms
proof (induction fs)
  case (Cons g gs)
  show ?case
  proof (cases "has_id i g")
    case True
    with Cons.prems have "f = g" by (auto simp: has_id_iff intro: rev_image_eqI)
    moreover have "map (\<lambda>f. if \<not> has_id i f then f else jm_set ''balance'' (JNum b) f) gs = gs"
      using Cons.prems(1) True by (intro map_idI) (auto simp: has_id_iff intro: rev_image_eqI)
    ultimately show ?thesis using Cons.prems(4) True by (simp add: balance_update)
  next
    case False
    with Cons show ?thesis by auto
  qed
qed simp

lemma find_update:
  "find (has_id j) (filter is_ready (map (\<lambda>f. if \<not> has_id i f then f else jm_set ''balance'' v f) fs)) =
     map_option (\<lambda>f. if \<not> has_id i f then f else jm_set ''balance'' v f) (find (has_id j) (filter is_ready fs))"
  by (induction fs) (auto simp: balance_update)

text \<open>
  A balance event for a joined, ready federation sets the balance of that federation, leaves the
  balance of every other one, and changes the total by the difference.
\<close>

theorem balance_event_total:
  assumes "ids_ok (federations s)" "f \<in> set (federations s)" "item_id f = JStr i" "is_ready f"
  shows "let t = federationSlice E s (UpdateFederationBalance i (JNum b)) in
    selectTotalBalanceMsats t = selectTotalBalanceMsats s - balance_of f + b \<and>
    selectFederationBalance t i = b \<and>
    (j \<noteq> i \<longrightarrow> selectFederationBalance t j = selectFederationBalance s j)"
proof -
  have i: "has_id i f" using assms(3) by (simp add: has_id_iff)
  have one: "filter (has_id i) (federations s) = [f]"
    using filter_distinct_singleton [of item_id "federations s" f] assms(1-3)
    by (simp add: ids_ok_def has_id_iff [abs_def])
  then have found: "find (has_id i) (federations s) = Some f" by (simp add: find_hd_filter)
  have ready: "find (has_id i) (filter is_ready (federations s)) = Some f"
    using arg_cong [OF one, of "filter is_ready"] assms(4)
    by (simp add: find_hd_filter conj_commute del: filter_empty_conv)
  let ?t = "updateFederationBalance i (JNum b) s"
  have t: "federations ?t =
      map (\<lambda>f. if \<not> has_id i f then f else jm_set ''balance'' (JNum b) f) (federations s)
      \<or> obj_get f ''balance'' = JNum b \<and> ?t = s"
    using assms(4) by (auto simp: updateFederationBalance_def found is_ready_def js_seq_def)
  then show ?thesis
  proof
    assume t: "federations ?t =
      map (\<lambda>f. if \<not> has_id i f then f else jm_set ''balance'' (JNum b) f) (federations s)"
    have "selectFederationBalance ?t j = selectFederationBalance s j" if "j \<noteq> i"
    proof (cases "find (has_id j) (filter is_ready (federations s))")
      case (Some g)
      with that find_Some_mem [OF Some] have "\<not> has_id i g" by (auto simp: has_id_iff)
      with Some show ?thesis by (simp add: federation_balance t find_update)
    qed (simp add: federation_balance t find_update)
    then show ?thesis
      using assms i sum_update [of "federations s" f i b]
      by (simp add: Let_def total_balance t ids_ok_def federation_balance find_update ready balance_update)
  next
    assume "obj_get f ''balance'' = JNum b \<and> ?t = s"
    then show ?thesis by (simp add: Let_def federation_balance ready balance_of_def)
  qed
qed

theorem balance_event_total_witness:
  "selectTotalBalanceMsats (federationSlice (=) example_state (UpdateFederationBalance ''b'' (JNum 40))) = 47"
proof -
  let ?b = "example_federation ''b'' 5 ''signet''"
  have "selectTotalBalanceMsats example_state = 12"
    by (simp add: total_balance example_state_def is_ready_def balance_of_def example_simps)
  moreover have "balance_of ?b = 5" by (simp add: balance_of_def example_simps)
  moreover have "ids_ok (federations example_state)" "?b \<in> set (federations example_state)"
      "item_id ?b = JStr ''b''" "is_ready ?b"
    by (simp_all add: example_state_def is_ready_def example_simps)
  note balance_event_total [OF this, of "(=)" 40]
  ultimately show ?thesis by (simp add: Let_def)
qed

section \<open>The suggested payment federation\<close>

text \<open>The head of a list sorted twice: least by the second key, and among those least by the first.\<close>

lemma hd_sort_key_twice:
  assumes "sort_key k2 (sort_key k1 xs) = f # rest" "g \<in> set xs"
  shows "k2 f \<le> k2 g" "k2 g = k2 f \<Longrightarrow> k1 f \<le> k1 g"
proof -
  have all: "set (f # rest) = set xs" by (simp flip: assms(1))
  have "sorted (map k2 (f # rest))" unfolding assms(1) [symmetric] by simp
  with all assms(2) show "k2 f \<le> k2 g" by auto
  have "filter (\<lambda>x. k2 x = k2 f) (f # rest) = filter (\<lambda>x. k2 x = k2 f) (sort_key k1 xs)"
    unfolding assms(1) [symmetric] by (rule sort_key_stable)
  then have hd: "filter (\<lambda>x. k2 x = k2 f) (sort_key k1 xs) = f # filter (\<lambda>x. k2 x = k2 f) rest"
    by simp
  have "sorted (map k1 (filter (\<lambda>x. k2 x = k2 f) (sort_key k1 xs)))" by (rule sorted_filter) simp
  then have least: "\<forall>y \<in> set (filter (\<lambda>x. k2 x = k2 f) rest). k1 f \<le> k1 y" unfolding hd by simp
  assume "k2 g = k2 f"
  with assms(2) have "g \<in> set (filter (\<lambda>x. k2 x = k2 f) (sort_key k1 xs))" by simp
  with least show "k1 f \<le> k1 g" unfolding hd by auto
qed

lemma loaded_ids:
  "item_id ` set (selectLoadedFederations s) \<subseteq> item_id ` set (federations s)"
  by (auto simp: selectLoadedFederations_def loaded_id)

text \<open>
  When no payment federation can be selected, the suggestion is one of the loaded federations:
  one on the main network when there is any, and the richest of its kind; afterwards a payment
  federation is selected. Without loaded federations nothing is suggested.
\<close>

theorem suggestion_is_best:
  assumes "selectPaymentFederation s = None" "ids_ok (federations s)"
  shows "let t = setSuggestedPaymentFederation s; loaded = selectLoadedFederations s in
    if loaded = [] then payFromFederationId t = JNull
    else list_ex (\<lambda>f. payFromFederationId t = item_id f \<and>
           list_all (\<lambda>g. (is_mainnet g \<longrightarrow> is_mainnet f) \<and>
             (is_mainnet g = is_mainnet f \<longrightarrow> balance_of g \<le> balance_of f)) loaded) loaded \<and>
         selectPaymentFederation t \<noteq> None"
proof (cases "by_suggestion (selectLoadedFederations s)")
  case Nil
  then have "length (by_suggestion (selectLoadedFederations s)) = 0" by simp
  then have "selectLoadedFederations s = []" by (simp add: by_suggestion_def)
  with assms(1) show ?thesis
    by (simp add: Let_def setSuggestedPaymentFederation_def by_suggestion_def orderBy_desc_def)
next
  case (Cons f rest)
  let ?t = "setSuggestedPaymentFederation s" and ?loaded = "selectLoadedFederations s"
  note best = hd_sort_key_twice [OF Cons [unfolded by_suggestion_def orderBy_desc_def]]
  have "set (by_suggestion ?loaded) = set ?loaded" by (simp add: by_suggestion_def)
  with Cons have f: "f \<in> set ?loaded" by auto
  then have "item_id f \<in> item_id ` set (federations s)" using loaded_ids by blast
  then have str: "is_str (item_id f)" using ids_okD [OF assms(2)] by auto
  then have pay: "payFromFederationId ?t = item_id f"
    using assms(1) Cons by (auto simp: setSuggestedPaymentFederation_def js_nullish_def elim!: is_strE)
  have "list_all (\<lambda>g. (is_mainnet g \<longrightarrow> is_mainnet f) \<and>
      (is_mainnet g = is_mainnet f \<longrightarrow> balance_of g \<le> balance_of f)) ?loaded"
    using best by (fastforce simp: list_all_iff split: if_splits)
  moreover have "selectLoadedFederations ?t = ?loaded"
    by (simp add: setSuggestedPaymentFederation_def selectLoadedFederations_def)
  then have "selectPaymentFederation ?t \<noteq> None"
    using f str by (auto simp: selectPaymentFederation_def pay find_None_iff js_seq_def
        split: option.splits list.splits elim!: is_strE simp del: not_None_eq)
  ultimately show ?thesis using f pay by (auto simp: Let_def list_ex_iff)
qed

text \<open>Payments were set to a federation that is gone; the one on the main network is suggested.\<close>

theorem suggestion_is_best_witness:
  "let s = example_state\<lparr>payFromFederationId := JStr ''gone''\<rparr> in
     payFromFederationId (setSuggestedPaymentFederation s) = JStr ''a'' \<and>
     selectPaymentFederation (setSuggestedPaymentFederation s) \<noteq> None"
proof -
  let ?s = "example_state\<lparr>payFromFederationId := JStr ''gone''\<rparr>"
  have ids: "item_id ` set (selectLoadedFederations ?s) = {JStr ''a'', JStr ''b''}"
    by (simp add: selectLoadedFederations_def example_state_def loaded_id) (simp add: example_simps)
  have net: "list_all (\<lambda>f. is_mainnet f = (item_id f = JStr ''a'')) (selectLoadedFederations ?s)"
    by (simp add: selectLoadedFederations_def example_state_def loaded_id is_mainnet_def obj_get_spread)
       (simp add: example_simps)
  have "item_id f \<in> {JStr ''a'', JStr ''b''}" if "f \<in> set (selectLoadedFederations ?s)" for f
    using that by (simp flip: ids)
  then have "selectPaymentFederation ?s = None"
    by (fastforce simp: selectPaymentFederation_def find_None_iff js_seq_def)
  moreover have "ids_ok (federations ?s)" by (simp add: example_state_def example_simps)
  ultimately have best: "let t = setSuggestedPaymentFederation ?s; loaded = selectLoadedFederations ?s in
    if loaded = [] then payFromFederationId t = JNull
    else list_ex (\<lambda>f. payFromFederationId t = item_id f \<and>
           list_all (\<lambda>g. (is_mainnet g \<longrightarrow> is_mainnet f) \<and>
             (is_mainnet g = is_mainnet f \<longrightarrow> balance_of g \<le> balance_of f)) loaded) loaded \<and>
         selectPaymentFederation t \<noteq> None"
    by (rule suggestion_is_best)
  moreover have "\<exists>g \<in> set (selectLoadedFederations ?s). item_id g = JStr ''a''"
    using ids by (metis (no_types, lifting) imageE insertI1)
  moreover have "selectLoadedFederations ?s \<noteq> []" using ids by auto
  ultimately show ?thesis
    using net by (auto simp: Let_def list_ex_iff list_all_iff)
qed

end
