(* ===== verification/Js_Double.thy ===== *)
theory Js_Double
  imports Cbor
begin

text \<open>
  JavaScript numbers as exact rationals with IEEE 754 rounding: every operation is computed exactly
  and rounded to the nearest double, ties to even, so the rounding errors of amounts and rates are
  those of the program. A zero has no sign here: nothing in the modelled code divides by a negative
  zero or tells the two zeros apart.
\<close>

section \<open>Rounding\<close>

fun bits :: "nat \<Rightarrow> nat" where
  "bits n = (if n = 0 then 0 else Suc (bits (n div 2)))"

declare bits.simps [simp del]

text \<open>The exponent of a positive number.\<close>

definition exponent :: "rat \<Rightarrow> int" where
  "exponent x =
     (let (a, b) = quotient_of x; e = int (bits (nat a)) - int (bits (nat b))
      in if two_to e \<le> x then e else e - 1)"

definition nearest_even :: "rat \<Rightarrow> int" where
  "nearest_even y =
     (let q = \<lfloor>y\<rfloor>; d = y - of_int q
      in if d < 1 / 2 then q else if 1 / 2 < d then q + 1 else if even q then q else q + 1)"

definition fl :: "rat \<Rightarrow> rat" where
  "fl x =
     (if x = 0 then 0
      else let u = two_to (max (exponent \<bar>x\<bar>) (- 1022) - 52) in of_int (nearest_even (x / u)) * u)"

datatype js_num = Fin rat | Infinite bool | NotNum

definition rounded :: "rat \<Rightarrow> js_num" where
  "rounded x = (let y = fl x in if 2 ^ 1024 \<le> \<bar>y\<bar> then Infinite (y < 0) else Fin y)"

section \<open>Operations\<close>

fun num_neg :: "js_num \<Rightarrow> js_num" where
  "num_neg (Fin x) = Fin (- x)"
| "num_neg (Infinite s) = Infinite (\<not> s)"
| "num_neg NotNum = NotNum"

fun num_add :: "js_num \<Rightarrow> js_num \<Rightarrow> js_num" where
  "num_add (Fin x) (Fin y) = rounded (x + y)"
| "num_add NotNum _ = NotNum"
| "num_add _ NotNum = NotNum"
| "num_add (Infinite s) (Infinite t) = (if s = t then Infinite s else NotNum)"
| "num_add (Infinite s) _ = Infinite s"
| "num_add _ (Infinite t) = Infinite t"

definition num_sub :: "js_num \<Rightarrow> js_num \<Rightarrow> js_num" where
  "num_sub x y = num_add x (num_neg y)"

fun num_mul :: "js_num \<Rightarrow> js_num \<Rightarrow> js_num" where
  "num_mul (Fin x) (Fin y) = rounded (x * y)"
| "num_mul NotNum _ = NotNum"
| "num_mul _ NotNum = NotNum"
| "num_mul (Infinite s) (Infinite t) = Infinite (s \<noteq> t)"
| "num_mul (Infinite s) (Fin y) = (if y = 0 then NotNum else Infinite (s \<noteq> (y < 0)))"
| "num_mul (Fin x) (Infinite t) = (if x = 0 then NotNum else Infinite ((x < 0) \<noteq> t))"

fun num_div :: "js_num \<Rightarrow> js_num \<Rightarrow> js_num" where
  "num_div (Fin x) (Fin y) =
     (if y = 0 then if x = 0 then NotNum else Infinite (x < 0) else rounded (x / y))"
| "num_div NotNum _ = NotNum"
| "num_div _ NotNum = NotNum"
| "num_div (Infinite s) (Infinite t) = NotNum"
| "num_div (Infinite s) (Fin y) = Infinite (s \<noteq> (y < 0))"
| "num_div (Fin x) (Infinite t) = Fin 0"

fun num_less :: "js_num \<Rightarrow> js_num \<Rightarrow> bool" where
  "num_less (Fin x) (Fin y) \<longleftrightarrow> x < y"
| "num_less NotNum _ \<longleftrightarrow> False"
| "num_less _ NotNum \<longleftrightarrow> False"
| "num_less (Infinite s) (Infinite t) \<longleftrightarrow> s \<and> \<not> t"
| "num_less (Infinite s) (Fin y) \<longleftrightarrow> s"
| "num_less (Fin x) (Infinite t) \<longleftrightarrow> \<not> t"

definition num_le :: "js_num \<Rightarrow> js_num \<Rightarrow> bool" where
  "num_le x y \<longleftrightarrow> x \<noteq> NotNum \<and> y \<noteq> NotNum \<and> \<not> num_less y x"

text \<open>\<^verbatim>\<open>Math.min\<close>, \<^verbatim>\<open>Math.max\<close>, \<^verbatim>\<open>Math.floor\<close> and \<^verbatim>\<open>Math.round\<close>.\<close>

definition num_min :: "js_num \<Rightarrow> js_num \<Rightarrow> js_num" where
  "num_min x y = (if x = NotNum \<or> y = NotNum then NotNum else if num_less y x then y else x)"

definition num_max :: "js_num \<Rightarrow> js_num \<Rightarrow> js_num" where
  "num_max x y = (if x = NotNum \<or> y = NotNum then NotNum else if num_less x y then y else x)"

fun num_floor :: "js_num \<Rightarrow> js_num" where
  "num_floor (Fin x) = Fin (of_int \<lfloor>x\<rfloor>)"
| "num_floor n = n"

fun num_round :: "js_num \<Rightarrow> js_num" where
  "num_round (Fin x) = Fin (of_int (round x))"
| "num_round n = n"

text \<open>
  \<^verbatim>\<open>Number(x.toFixed(d))\<close>: the decimal with \<open>d\<close> digits nearest to the exact value, the larger one on a
  tie, the sign apart, read back as a double. From \<open>10 ^ 21\<close> on the number is printed as it is.
\<close>

definition decimal :: "nat \<Rightarrow> rat \<Rightarrow> rat" where
  "decimal d x = (if x < 0 then - of_int (round (- x * 10 ^ d)) else of_int (round (x * 10 ^ d))) / 10 ^ d"

fun toFixed :: "nat \<Rightarrow> js_num \<Rightarrow> js_num" where
  "toFixed d (Fin x) = (if 10 ^ 21 \<le> \<bar>x\<bar> then Fin x else rounded (decimal d x))"
| "toFixed d n = n"

section \<open>The exponent\<close>

lemma two_to_pos [simp]: "0 < two_to e"
  by (simp add: two_to_def)

lemma two_to_nonzero [simp]: "two_to e \<noteq> 0"
  using two_to_pos [of e] by linarith

lemma two_to_of_nat: "two_to (int n) = 2 ^ n"
  by (simp add: two_to_def)

lemma two_to_Suc: "two_to (e + 1) = 2 * two_to e"
proof (cases "0 \<le> e")
  case True
  then have "nat (e + 1) = Suc (nat e)" by simp
  with True show ?thesis by (simp add: two_to_def)
next
  case False
  define n where "n = nat (- e - 1)"
  with False have "e = - int n - 1" "nat (- e) = Suc n" by simp_all
  then show ?thesis by (cases n) (simp_all add: two_to_def nat_add_distrib)
qed

lemma two_to_add: "two_to (e + int n) = two_to e * 2 ^ n"
proof (induction n)
  case (Suc n)
  have "e + int (Suc n) = e + int n + 1" by simp
  then show ?case by (simp only: two_to_Suc Suc) simp
qed simp

lemma two_to_diff: "two_to (int m - int n) = 2 ^ m / 2 ^ n"
  using two_to_add [of "int m - int n" n] by (simp add: two_to_of_nat field_simps)

lemma two_to_mono: "e \<le> f \<Longrightarrow> two_to e \<le> two_to f"
proof -
  assume "e \<le> f"
  then obtain n where "f = e + int n" by (metis zle_iff_zadd)
  moreover have "(1 :: rat) \<le> 2 ^ n" by simp
  ultimately show ?thesis by (simp add: two_to_add)
qed

lemma two_to_less: "two_to e < two_to f \<Longrightarrow> e < f"
  using two_to_mono [of f e] by (meson not_less)

lemma bits_bounds: "0 < n \<Longrightarrow> 2 ^ (bits n - 1) \<le> n \<and> n < 2 ^ bits n"
proof (induction n rule: bits.induct)
  case (1 n)
  show ?case
  proof (cases "n = 1")
    case False
    with 1 have "2 ^ (bits (n div 2) - 1) \<le> n div 2" "n div 2 < 2 ^ bits (n div 2)" "0 < n div 2"
      by auto
    moreover from this obtain k where "bits (n div 2) = Suc k" by (cases "bits (n div 2)") auto
    ultimately show ?thesis using 1(2) by (subst (1 2) bits.simps) auto
  qed (simp add: bits.simps)
qed

lemma bits_pos: "0 < n \<Longrightarrow> 0 < bits n"
  by (simp add: bits.simps)

lemma exponent_bounds:
  assumes "0 < x"
  shows "two_to (exponent x) \<le> x" "x < two_to (exponent x + 1)"
proof -
  obtain a b where q: "quotient_of x = (a, b)" by fastforce
  have b: "0 < b" using quotient_of_denom_pos [OF q] .
  have x: "x = of_int a / of_int b" using quotient_of_div [OF q] .
  have a: "0 < a" using assms b by (simp add: x zero_less_divide_iff)
  obtain i j where ij: "a = int i" "b = int j" "0 < i" "0 < j"
    using zero_less_imp_eq_int [OF a] zero_less_imp_eq_int [OF b] by auto
  define m n where "m = bits i" and "n = bits j"
  have pos: "0 < m" "0 < n" using ij by (simp_all add: m_def n_def bits_pos)
  have ra: "(2 :: rat) ^ (m - 1) \<le> of_nat i" "of_nat i < (2 :: rat) ^ m"
    using bits_bounds [OF ij(3)] unfolding m_def
    by (metis of_nat_le_iff of_nat_numeral of_nat_power, metis of_nat_less_iff of_nat_numeral of_nat_power)
  have rb: "(2 :: rat) ^ (n - 1) \<le> of_nat j" "of_nat j < (2 :: rat) ^ n"
    using bits_bounds [OF ij(4)] unfolding n_def
    by (metis of_nat_le_iff of_nat_numeral of_nat_power, metis of_nat_less_iff of_nat_numeral of_nat_power)
  have x: "x = of_nat i / of_nat j" by (simp add: x ij)
  have "x < 2 ^ m / 2 ^ (n - 1)"
    unfolding x using ra rb ij(4) by (intro frac_less) auto
  also have "\<dots> = two_to (int m - int n + 1)"
    using pos two_to_diff [of m "n - 1"] by (simp add: of_nat_diff algebra_simps)
  finally have up: "x < two_to (int m - int n + 1)" .
  have "2 ^ (m - 1) / 2 ^ n \<le> x"
    unfolding x using ra rb ij(4) by (intro frac_le) auto
  then have low: "two_to (int m - int n - 1) \<le> x"
    using pos two_to_diff [of "m - 1" n] by (simp add: of_nat_diff algebra_simps)
  have e: "exponent x = (if two_to (int m - int n) \<le> x then int m - int n else int m - int n - 1)"
    by (simp add: exponent_def q Let_def m_def n_def ij)
  show "two_to (exponent x) \<le> x" "x < two_to (exponent x + 1)"
    using up low by (auto simp: e)
qed

lemma exponent_eqI:
  assumes "two_to e \<le> x" "x < two_to (e + 1)"
  shows "exponent x = e"
proof -
  have "0 < x" using assms(1) two_to_pos [of e] by linarith
  from exponent_bounds [OF this] assms have "e < exponent x + 1" "exponent x < e + 1"
    by (meson le_less_trans two_to_less)+
  then show ?thesis by simp
qed

section \<open>Rounding errors\<close>

lemma nearest_even_error: "\<bar>of_int (nearest_even y) - y\<bar> \<le> 1 / 2"
proof -
  have "of_int \<lfloor>y\<rfloor> \<le> y" "y < of_int \<lfloor>y\<rfloor> + 1" by linarith+
  then show ?thesis by (auto simp: nearest_even_def Let_def)
qed

lemma nearest_even_int [simp]: "nearest_even (of_int n) = n"
  by (simp add: nearest_even_def)

text \<open>How a given number is rounded, from its exponent.\<close>

lemma fl_exponent:
  assumes "two_to e \<le> \<bar>x\<bar>" "\<bar>x\<bar> < two_to (e + 1)" "- 1022 \<le> e"
  shows "fl x = of_int (nearest_even (x / two_to (e - 52))) * two_to (e - 52)"
proof -
  have "x \<noteq> 0" using assms(1) two_to_pos [of e] by (metis abs_zero not_less)
  with assms(3) show ?thesis by (simp add: fl_def exponent_eqI [OF assms(1,2)] Let_def)
qed

lemma fl_0 [simp]: "fl 0 = 0"
  by (simp add: fl_def)

definition normal :: "rat \<Rightarrow> bool" where
  "normal x \<longleftrightarrow> x = 0 \<or> two_to (- 1022) \<le> \<bar>x\<bar>"

lemma normal_exponent: "normal x \<Longrightarrow> x \<noteq> 0 \<Longrightarrow> - 1022 \<le> exponent \<bar>x\<bar>"
proof -
  assume n: "normal x" "x \<noteq> 0"
  then have "two_to (- 1022) < two_to (exponent \<bar>x\<bar> + 1)"
    using exponent_bounds(2) [of "\<bar>x\<bar>"] by (simp add: normal_def)
  from two_to_less [OF this] show ?thesis by simp
qed

lemma normal_cases:
  assumes "normal x" "x \<noteq> 0"
  obtains e where "two_to e \<le> \<bar>x\<bar>" "\<bar>x\<bar> < two_to (e + 1)"
    "fl x = of_int (nearest_even (x / two_to (e - 52))) * two_to (e - 52)"
proof
  have "0 < \<bar>x\<bar>" using assms(2) by simp
  from exponent_bounds [OF this] fl_exponent normal_exponent [OF assms]
  show "two_to (exponent \<bar>x\<bar>) \<le> \<bar>x\<bar>" "\<bar>x\<bar> < two_to (exponent \<bar>x\<bar> + 1)"
    "fl x = of_int (nearest_even (x / two_to (exponent \<bar>x\<bar> - 52))) * two_to (exponent \<bar>x\<bar> - 52)"
    by auto
qed

lemma two_to_minus: "two_to (e - int n) = two_to e / 2 ^ n"
  using two_to_add [of "e - int n" n] by (simp add: field_simps)

text \<open>The relative error of a rounded number is at most \<open>2 ^ -53\<close>.\<close>

lemma fl_error:
  assumes "normal x"
  shows "\<bar>fl x - x\<bar> \<le> \<bar>x\<bar> / 2 ^ 53"
proof (cases "x = 0")
  case False
  with assms obtain e where e: "two_to e \<le> \<bar>x\<bar>"
      "fl x = of_int (nearest_even (x / two_to (e - 52))) * two_to (e - 52)"
    by (rule normal_cases)
  have u: "two_to (e - 52) = two_to e / 2 ^ 52" using two_to_minus [of e 52] by simp
  have "fl x - x = (of_int (nearest_even (x / two_to (e - 52))) - x / two_to (e - 52)) * two_to (e - 52)"
    by (simp add: e(2) left_diff_distrib)
  then have "\<bar>fl x - x\<bar> \<le> 1 / 2 * two_to (e - 52)"
    using mult_right_mono [OF nearest_even_error [of "x / two_to (e - 52)"], of "two_to (e - 52)"]
    by (simp add: abs_mult less_imp_le)
  also have "\<dots> \<le> \<bar>x\<bar> / 2 ^ 53" using e(1) by (simp add: u)
  finally show ?thesis .
qed simp

text \<open>Integers up to \<open>2 ^ 53\<close> are doubles.\<close>

lemma normal_int: "normal (of_int n)"
proof (cases "n = 0")
  case False
  have "two_to (- 1022) \<le> two_to 0" by (rule two_to_mono) simp
  also have "\<dots> = 1" by (simp add: two_to_def)
  also have "\<dots> \<le> \<bar>of_int n\<bar>" using False by linarith
  finally show ?thesis by (simp add: normal_def)
qed (simp add: normal_def)

lemma rat_int_le: "\<bar>n\<bar> \<le> 2 ^ k \<Longrightarrow> \<bar>of_int n :: rat\<bar> \<le> 2 ^ k"
  by (metis of_int_abs of_int_le_iff of_int_numeral of_int_power)

lemma rat_int_less: "\<bar>n\<bar> < 2 ^ k \<Longrightarrow> \<bar>of_int n :: rat\<bar> < 2 ^ k"
  by (metis of_int_abs of_int_less_iff of_int_numeral of_int_power)

lemma fl_int:
  assumes "\<bar>n\<bar> \<le> 2 ^ 53"
  shows "fl (of_int n) = of_int n"
proof (cases "n = 0")
  case False
  then have nz: "(of_int n :: rat) \<noteq> 0" by simp
  obtain e where e: "two_to e \<le> \<bar>of_int n\<bar>" "\<bar>of_int n\<bar> < two_to (e + 1)"
      "fl (of_int n) = of_int (nearest_even (of_int n / two_to (e - 52))) * two_to (e - 52)"
    by (rule normal_cases [OF normal_int nz])
  have "(0 :: int) \<le> e"
  proof -
    have "two_to 0 \<le> \<bar>of_int n :: rat\<bar>" using False by (simp add: two_to_def flip: of_int_abs)
    with e(2) have "two_to 0 < two_to (e + 1)" by linarith
    from two_to_less [OF this] show ?thesis by simp
  qed
  show ?thesis
  proof (cases "e \<le> 52")
    case True
    with \<open>0 \<le> e\<close> have "two_to (e - 52) = 1 / 2 ^ nat (52 - e)"
      using two_to_diff [of "nat e" 52] two_to_add [of "e - 52" "nat (52 - e)"]
      by (simp add: two_to_def field_simps)
    moreover from this have "of_int n / two_to (e - 52) = of_int (n * 2 ^ nat (52 - e))" by simp
    ultimately show ?thesis unfolding e(3) using nearest_even_int [of "n * 2 ^ nat (52 - e)"] by simp
  next
    case e52: False
    have "two_to 53 \<le> two_to e" using e52 by (intro two_to_mono) simp
    moreover have "two_to 53 = 2 ^ 53" using two_to_of_nat [of 53] by simp
    moreover have "\<bar>of_int n :: rat\<bar> \<le> 2 ^ 53" using assms by (rule rat_int_le)
    ultimately have eq: "\<bar>of_int n :: rat\<bar> = 2 ^ 53" "two_to e = 2 ^ 53" using e(1) by linarith+
    then have u: "two_to (e - 52) = 2" using two_to_minus [of e 52] by simp
    have "(of_int n :: rat) / two_to (e - 52) = of_int (if 0 \<le> n then 2 ^ 52 else - (2 ^ 52))"
      using eq(1) by (auto simp: u)
    then show ?thesis unfolding e(3) nearest_even_int u using eq(1) by auto
  qed
qed simp

lemma rounded_fl:
  assumes "normal x" "\<bar>x\<bar> \<le> 2 ^ 100"
  shows "rounded x = Fin (fl x)"
proof -
  have "\<bar>fl x\<bar> \<le> \<bar>x\<bar> + \<bar>x\<bar> / 2 ^ 53" using fl_error [OF assms(1)] by linarith
  also have "\<dots> \<le> 2 ^ 101" using assms(2) by simp
  also have "\<dots> < 2 ^ 1024" by (rule power_strict_increasing) simp_all
  finally show ?thesis by (simp add: rounded_def Let_def)
qed

lemma rounded_0 [simp]: "rounded 0 = Fin 0"
  by (simp add: rounded_def)

lemma rounded_int:
  assumes "\<bar>n\<bar> \<le> 2 ^ 53"
  shows "rounded (of_int n) = Fin (of_int n)"
proof -
  have "\<bar>of_int n :: rat\<bar> \<le> 2 ^ 53" using assms by (rule rat_int_le)
  also have "\<dots> \<le> 2 ^ 100" by (rule power_increasing) simp_all
  finally show ?thesis using rounded_fl [OF normal_int, of n] fl_int [OF assms] by simp
qed

lemma normal_quotient:
  assumes "0 < Q" "Q \<le> 2 ^ 53"
  shows "normal (of_int P / of_int Q)"
proof (cases "P = 0")
  case False
  have q: "(of_int Q :: rat) \<le> 2 ^ 53" "(0 :: rat) < of_int Q"
    using rat_int_le [of Q 53] assms by simp_all
  have "two_to (- 1022) \<le> two_to (- 53)" by (rule two_to_mono) simp
  also have "\<dots> = 1 / 2 ^ 53" using two_to_diff [of 0 53] by simp
  also have "\<dots> \<le> 1 / of_int Q" using q by (simp add: frac_le)
  also have "\<dots> \<le> \<bar>of_int P / of_int Q\<bar>"
    using q False by (simp add: abs_div_pos divide_right_mono flip: of_int_abs)
  finally show ?thesis by (simp add: normal_def)
qed (simp add: normal_def)

lemma int_quotient_parts:
  fixes P Q :: int
  assumes "0 < Q"
  shows "(of_int P :: rat) / of_int Q = of_int (P div Q) + of_int (P mod Q) / of_int Q"
proof -
  have "(of_int P :: rat) = of_int (P div Q) * of_int Q + of_int (P mod Q)"
    by (metis div_mult_mod_eq of_int_add of_int_mult)
  then show ?thesis using assms by (simp add: field_simps)
qed

text \<open>Rounding down a rounded quotient of integers below \<open>2 ^ 53\<close> is integer division.\<close>

lemma floor_fl_quotient:
  assumes "0 \<le> P" "P < 2 ^ 53" "0 < Q" "Q \<le> 2 ^ 53"
  shows "\<lfloor>fl (of_int P / of_int Q)\<rfloor> = P div Q"
proof -
  let ?x = "of_int P / of_int Q :: rat"
  have q: "(0 :: rat) < of_int Q" using assms(3) by simp
  have k: "?x = of_int (P div Q) + of_int (P mod Q) / of_int Q" by (rule int_quotient_parts [OF assms(3)])
  show ?thesis
  proof (cases "P mod Q = 0")
    case True
    have "P div Q \<le> P" using assms(1,3) by (metis div_by_1 zdiv_mono2 int_one_le_iff_zero_less zero_less_one)
    moreover have "0 \<le> P div Q" using assms(1,3) by (simp add: pos_imp_zdiv_nonneg_iff)
    ultimately have "\<bar>P div Q\<bar> \<le> 2 ^ 53" using assms(2) by simp
    from fl_int [OF this] k True show ?thesis by simp
  next
    case False
    then have "1 \<le> P mod Q" "P mod Q \<le> Q - 1"
      using assms(3) by (simp_all add: order_le_neq_trans int_one_le_iff_zero_less pos_mod_sign)
    then have r: "1 / of_int Q \<le> (of_int (P mod Q) / of_int Q :: rat)"
        "(of_int (P mod Q) / of_int Q :: rat) \<le> 1 - 1 / of_int Q"
      using q by (simp_all add: field_simps)
    have "\<bar>fl ?x - ?x\<bar> \<le> \<bar>?x\<bar> / 2 ^ 53" by (rule fl_error [OF normal_quotient [OF assms(3,4)]])
    also have "\<dots> = of_int P / 2 ^ 53 / of_int Q" using assms(1) q by (simp add: abs_div_pos)
    also have "\<dots> < 1 / of_int Q"
      using rat_int_less [of P 53] assms(1,2) q by (intro divide_strict_right_mono) auto
    finally have "\<bar>fl ?x - ?x\<bar> < 1 / of_int Q" .
    with k r have "of_int (P div Q) \<le> fl ?x" "fl ?x < of_int (P div Q) + 1" by linarith+
    then show ?thesis by (simp add: floor_eq_iff)
  qed
qed

text \<open>Rounding does not cross an integer up to \<open>2 ^ 53\<close>.\<close>

lemma nearest_even_le: "y \<le> of_int m \<Longrightarrow> nearest_even y \<le> m"
proof (cases "\<lfloor>y\<rfloor> = m")
  case True
  assume "y \<le> of_int m"
  with True have "y = of_int m" by linarith
  then show ?thesis by simp
next
  case False
  assume "y \<le> of_int m"
  then have "\<lfloor>y\<rfloor> \<le> m" by linarith
  with False show ?thesis by (simp add: nearest_even_def Let_def)
qed

lemma fl_le_int:
  assumes "normal x" "0 \<le> x" "x \<le> of_int n" "n \<le> 2 ^ 53"
  shows "fl x \<le> of_int n"
proof (cases "x = 0")
  case False
  with assms(1) obtain e where e: "two_to e \<le> \<bar>x\<bar>"
      "fl x = of_int (nearest_even (x / two_to (e - 52))) * two_to (e - 52)"
    by (rule normal_cases)
  have n: "(of_int n :: rat) \<le> 2 ^ 53" using rat_int_le [of n 53] assms order_trans [OF assms(2,3)] by simp
  show ?thesis
  proof (cases "e \<le> 52")
    case True
    have u: "two_to (e - 52) * 2 ^ nat (52 - e) = 1"
      using True two_to_add [of "e - 52" "nat (52 - e)"] by (simp add: two_to_def)
    then have "of_int n / two_to (e - 52) = of_int (n * 2 ^ nat (52 - e))"
      by (simp add: field_simps)
    moreover have "x / two_to (e - 52) \<le> of_int n / two_to (e - 52)"
      using assms(3) by (intro divide_right_mono) (simp_all add: less_imp_le)
    ultimately have "nearest_even (x / two_to (e - 52)) \<le> n * 2 ^ nat (52 - e)"
      by (intro nearest_even_le) simp
    then have "of_int (nearest_even (x / two_to (e - 52))) \<le> (of_int (n * 2 ^ nat (52 - e)) :: rat)"
      by (rule of_int_le_iff [THEN iffD2])
    then have "fl x \<le> of_int (n * 2 ^ nat (52 - e)) * two_to (e - 52)"
      unfolding e(2) by (intro mult_right_mono) (simp_all add: less_imp_le)
    also have "\<dots> = of_int n" using u by (simp add: mult.commute mult.left_commute)
    finally show ?thesis .
  next
    case False
    then have "two_to 53 \<le> two_to e" by (intro two_to_mono) simp
    moreover have "two_to 53 = 2 ^ 53" using two_to_of_nat [of 53] by simp
    ultimately have "x = of_int n" "of_int n = (of_int (2 ^ 53) :: rat)"
      using e(1) assms(2,3) n by simp_all
    then show ?thesis using fl_int [of n] assms(4) by (simp only: of_int_eq_iff)  simp
  qed
qed (use assms in simp)

section \<open>Fixed decimals\<close>

lemma decimal_near:
  assumes "0 \<le> x" "\<bar>x * 10 ^ d - of_int n\<bar> < 1 / 2"
  shows "decimal d x = of_int n / 10 ^ d"
  using assms round_unique' [OF assms(2)] by (simp add: decimal_def)

lemma decimal_int [simp]: "decimal d (of_int n / 10 ^ d) = of_int n / 10 ^ d"
proof (cases "0 \<le> n")
  case False
  then have "(of_int n :: rat) / 10 ^ d < 0" by (simp add: divide_neg_pos)
  moreover have "round (- of_int n :: rat) = - n" using round_of_int [of "- n", where 'a = rat] by simp
  ultimately show ?thesis by (simp add: decimal_def)
qed (use decimal_near [of "of_int n / 10 ^ d" d n] in simp)

end
