(* ===== verification/Amounts.thy ===== *)
theory Amounts
  imports Js_Double
begin

text \<open>
  \<^verbatim>\<open>ui/common/utils/AmountUtils.ts\<close>: conversions between millisatoshis, satoshis, bitcoin and fiat, in
  double precision, with the decimal rounding of \<^verbatim>\<open>toFixed\<close>. The functions that format through
  \<^verbatim>\<open>Intl\<close> are not modelled; the separator of the locale is an argument.
\<close>

section \<open>Conversions\<close>

definition BTC_MAX_DECIMAL_PLACES :: nat where
  "BTC_MAX_DECIMAL_PLACES = 8"

definition MIN_BTC_VALUE :: js_num where
  "MIN_BTC_VALUE = rounded (1 / 10 ^ 8)"

definition SATS_PER_BTC :: js_num where
  "SATS_PER_BTC = Fin 100000000"

definition MSATS_PER_SAT :: js_num where
  "MSATS_PER_SAT = Fin 1000"

definition FIAT_MAX_DECIMAL_PLACES :: nat where
  "FIAT_MAX_DECIMAL_PLACES = 2"

definition btcToFiat :: "js_num \<Rightarrow> js_num \<Rightarrow> js_num" where
  "btcToFiat btc rate = toFixed FIAT_MAX_DECIMAL_PLACES (num_mul btc rate)"

text \<open>Rounded down, so that the user is never said to have more than there is.\<close>

definition msatToSat :: "js_num \<Rightarrow> js_num" where
  "msatToSat msats = num_floor (num_div msats MSATS_PER_SAT)"

definition satToMsat :: "js_num \<Rightarrow> js_num" where
  "satToMsat sats = num_mul sats MSATS_PER_SAT"

definition satToBtc :: "js_num \<Rightarrow> js_num" where
  "satToBtc sats = toFixed BTC_MAX_DECIMAL_PLACES (num_div sats SATS_PER_BTC)"

definition btcToSat :: "js_num \<Rightarrow> js_num" where
  "btcToSat btc = toFixed BTC_MAX_DECIMAL_PLACES (num_mul btc SATS_PER_BTC)"

definition btcToMsat :: "js_num \<Rightarrow> js_num" where
  "btcToMsat btc = satToMsat (btcToSat btc)"

definition msatToBtc :: "js_num \<Rightarrow> js_num" where
  "msatToBtc msats = satToBtc (msatToSat msats)"

definition msatToFiat :: "js_num \<Rightarrow> js_num \<Rightarrow> js_num" where
  "msatToFiat msats rate = btcToFiat (msatToBtc msats) rate"

definition satToFiat :: "js_num \<Rightarrow> js_num \<Rightarrow> js_num" where
  "satToFiat sats rate = btcToFiat (satToBtc sats) rate"

definition fiatToBtc :: "js_num \<Rightarrow> js_num \<Rightarrow> js_num" where
  "fiatToBtc fiat rate =
     (if rate = Fin 0 then Fin 0 else toFixed BTC_MAX_DECIMAL_PLACES (num_div fiat rate))"

definition fiatToMsat :: "js_num \<Rightarrow> js_num \<Rightarrow> js_num" where
  "fiatToMsat fiat rate = btcToMsat (fiatToBtc fiat rate)"

definition fiatToSat :: "js_num \<Rightarrow> js_num \<Rightarrow> js_num" where
  "fiatToSat fiat rate = btcToSat (fiatToBtc fiat rate)"

definition convertCentsToOtherFiat :: "js_num \<Rightarrow> js_num \<Rightarrow> js_num \<Rightarrow> js_num" where
  "convertCentsToOtherFiat cents btcUsdRate btcFiatRate =
     (let usd = toFixed FIAT_MAX_DECIMAL_PLACES (num_div cents (Fin 100));
          btc = toFixed BTC_MAX_DECIMAL_PLACES (num_div usd btcUsdRate);
          fiat = toFixed FIAT_MAX_DECIMAL_PLACES (num_mul btc btcFiatRate)
      in if fiat = NotNum then Fin 0 else fiat)"

definition getRateFromFiatFxInfo :: "js_num \<Rightarrow> js_num" where
  "getRateFromFiatFxInfo btcToFiatHundredths = num_div btcToFiatHundredths (Fin 100)"

definition clampSats :: "js_num \<Rightarrow> js_num" where
  "clampSats v =
     (case v of Fin x \<Rightarrow> num_round (num_max (Fin 0) (Fin x)) | _ \<Rightarrow> Fin 0)"

section \<open>Strings\<close>

text \<open>\<^verbatim>\<open>x.toFixed(d)\<close> itself; \<open>shown\<close> is \<^verbatim>\<open>String\<close>, used for numbers that are not below \<open>10 ^ 21\<close>.\<close>

definition pad_zeros :: "nat \<Rightarrow> string \<Rightarrow> string" where
  "pad_zeros d s = replicate (d - length s) (CHR ''0'') @ s"

definition decimal_digits :: "nat \<Rightarrow> nat \<Rightarrow> string" where
  "decimal_digits d n =
     nat_str (n div 10 ^ d) @ (if d = 0 then [] else CHR ''.'' # pad_zeros d (nat_str (n mod 10 ^ d)))"

definition toFixed_string :: "(js_num \<Rightarrow> string) \<Rightarrow> nat \<Rightarrow> js_num \<Rightarrow> string" where
  "toFixed_string shown d v =
     (case v of
        Fin x \<Rightarrow>
          if 10 ^ 21 \<le> \<bar>x\<bar> then shown v
          else (if x < 0 then ''-'' else []) @ decimal_digits d (nat (round (\<bar>x\<bar> * 10 ^ d)))
      | _ \<Rightarrow> shown v)"

definition btcToFiatString :: "(js_num \<Rightarrow> string) \<Rightarrow> js_num \<Rightarrow> js_num \<Rightarrow> string" where
  "btcToFiatString shown btc rate = toFixed_string shown FIAT_MAX_DECIMAL_PLACES (btcToFiat btc rate)"

definition msatToFiatString :: "(js_num \<Rightarrow> string) \<Rightarrow> js_num \<Rightarrow> js_num \<Rightarrow> string" where
  "msatToFiatString shown msats rate = btcToFiatString shown (msatToBtc msats) rate"

definition satToFiatString :: "(js_num \<Rightarrow> string) \<Rightarrow> js_num \<Rightarrow> js_num \<Rightarrow> string" where
  "satToFiatString shown sats rate = btcToFiatString shown (satToBtc sats) rate"

definition msatToSatString :: "(js_num \<Rightarrow> string) \<Rightarrow> js_num \<Rightarrow> string" where
  "msatToSatString shown msats = toFixed_string shown 0 (msatToSat msats)"

definition satToMsatString :: "(js_num \<Rightarrow> string) \<Rightarrow> js_num \<Rightarrow> string" where
  "satToMsatString shown sats = toFixed_string shown 0 (satToMsat sats)"

definition satToBtcString :: "(js_num \<Rightarrow> string) \<Rightarrow> js_num \<Rightarrow> string" where
  "satToBtcString shown sats = toFixed_string shown BTC_MAX_DECIMAL_PLACES (satToBtc sats)"

definition btcToSatString :: "(js_num \<Rightarrow> string) \<Rightarrow> js_num \<Rightarrow> string" where
  "btcToSatString shown btc = toFixed_string shown 0 (btcToSat btc)"

definition btcToMsatString :: "(js_num \<Rightarrow> string) \<Rightarrow> js_num \<Rightarrow> string" where
  "btcToMsatString shown btc = toFixed_string shown 0 (btcToMsat btc)"

definition msatToBtcString :: "(js_num \<Rightarrow> string) \<Rightarrow> js_num \<Rightarrow> string" where
  "msatToBtcString shown msats =
     (let btc = msatToBtc msats
      in if num_less btc MIN_BTC_VALUE then ''0'' else toFixed_string shown BTC_MAX_DECIMAL_PLACES btc)"

text \<open>
  \<^verbatim>\<open>stripTrailingZerosWithSuffix\<close>: the pattern can match only from the last dot of the first word, when
  digits follow up to its end and the last one is a zero.
\<close>

definition is_digit_char :: "char \<Rightarrow> bool" where
  "is_digit_char c \<longleftrightarrow> 48 \<le> (of_char c :: nat) \<and> (of_char c :: nat) \<le> 57"

definition without_trailing_zeros :: "string \<Rightarrow> string" where
  "without_trailing_zeros s = rev (dropWhile (\<lambda>c. c = CHR ''0'') (rev s))"

definition cleanedNum :: "string \<Rightarrow> string" where
  "cleanedNum num =
     (let frac = rev (takeWhile (\<lambda>c. c \<noteq> CHR ''.'') (rev num));
          pre = take (length num - length frac - 1) num;
          kept = without_trailing_zeros frac
      in if CHR ''.'' \<notin> set num \<or> \<not> list_all is_digit_char frac \<or> kept = frac then num
         else if kept = [] then pre
         else pre @ CHR ''.'' # kept)"

definition stripTrailingZerosWithSuffix :: "string \<Rightarrow> string" where
  "stripTrailingZerosWithSuffix amount =
     cleanedNum (takeWhile (\<lambda>c. c \<noteq> CHR '' '') amount) @ dropWhile (\<lambda>c. c \<noteq> CHR '' '') amount"

section \<open>Rounding down\<close>

lemma rounded_quotient:
  assumes "0 \<le> P" "P < 2 ^ 53" "0 < Q" "Q \<le> 2 ^ 53"
  shows "rounded (of_int P / of_int Q) = Fin (fl (of_int P / of_int Q))"
proof -
  have "\<bar>of_int P / of_int Q :: rat\<bar> \<le> \<bar>of_int P\<bar>"
    using assms(1,3) mult_left_mono [of 1 "of_int Q :: rat" "of_int P"]
    by (simp add: abs_div_pos divide_le_eq)
  also have "\<dots> \<le> 2 ^ 53" using assms(1,2) by (intro rat_int_le) simp
  also have "\<dots> \<le> 2 ^ 100" by (rule power_increasing) simp_all
  finally show ?thesis using rounded_fl [OF normal_quotient [OF assms(3,4)]] by simp
qed

lemma msatToSat_int:
  assumes "0 \<le> m" "m < 2 ^ 53"
  shows "msatToSat (Fin (of_int m)) = Fin (of_int (m div 1000))"
  using rounded_quotient [OF assms, of 1000] floor_fl_quotient [OF assms, of 1000]
  by (simp add: msatToSat_def MSATS_PER_SAT_def)

section \<open>Satoshis and bitcoin\<close>

text \<open>The decimal with eight digits nearest to a quotient is exact as long as the error is small.\<close>

lemma satToBtc_int:
  assumes "0 \<le> n" "n \<le> 2 ^ 50"
  shows "satToBtc (Fin (of_int n)) = Fin (fl (of_int n / 10 ^ 8))"
proof -
  let ?x = "of_int n / of_int 100000000 :: rat"
  have n: "(of_int n :: rat) \<le> 2 ^ 50" "(0 :: rat) \<le> of_int n"
    using rat_int_le [of n 50] assms by simp_all
  have r: "rounded ?x = Fin (fl ?x)" using assms by (intro rounded_quotient) simp_all
  have "\<bar>fl ?x - ?x\<bar> \<le> \<bar>?x\<bar> / 2 ^ 53" by (intro fl_error normal_quotient) simp_all
  then have err: "\<bar>fl ?x - ?x\<bar> \<le> ?x / 2 ^ 53" using n(2) by simp
  moreover have "?x / 2 ^ 53 \<le> ?x" using n(2) by (simp add: field_simps)
  ultimately have fl: "0 \<le> fl ?x" "fl ?x \<le> 2 * ?x" by linarith+
  have "\<bar>fl ?x * 10 ^ 8 - of_int n\<bar> < 1 / 2" using err n by (simp add: field_simps abs_le_iff)
  from decimal_near [OF fl(1) this]
  have d: "decimal 8 (fl (of_int n / 100000000)) = of_int n / 100000000" by simp
  have "fl ?x < 10 ^ 21" using fl(2) n by simp
  then show ?thesis
    using fl(1) r by (simp add: satToBtc_def SATS_PER_BTC_def BTC_MAX_DECIMAL_PLACES_def d)
qed

lemma btcToSat_int:
  assumes "0 \<le> n" "n \<le> 2 ^ 24"
  shows "btcToSat (Fin (fl (of_int n / 10 ^ 8))) = Fin (of_int n)"
proof -
  let ?x = "of_int n / of_int 100000000 :: rat"
  let ?b = "fl ?x" and ?y = "fl ?x * 10 ^ 8"
  have n: "(of_int n :: rat) \<le> 16777216" "(0 :: rat) \<le> of_int n"
    using rat_int_le [of n 24] assms by simp_all
  then have small: "(of_int n :: rat) / 2 ^ 53 \<le> of_int n / 2" "(of_int n :: rat) / 2 ^ 53 \<le> 16777216 / 2 ^ 53"
    by (simp_all add: field_simps)
  have "\<bar>?b - ?x\<bar> \<le> \<bar>?x\<bar> / 2 ^ 53" by (intro fl_error normal_quotient) simp_all
  then have y: "\<bar>?y - of_int n\<bar> \<le> of_int n / 2 ^ 53" using n(2) by (simp add: abs_le_iff field_simps)
  have normal: "normal ?y"
  proof (cases "n = 0")
    case False
    with assms(1) have "(1 :: rat) \<le> of_int n" by linarith
    moreover have "two_to (- 1022) \<le> two_to (- 1)" by (rule two_to_mono) simp
    moreover have "two_to (- 1) = 1 / 2" by (simp add: two_to_def)
    ultimately have "two_to (- 1022) \<le> ?y" using y small by linarith
    then show ?thesis unfolding normal_def using abs_ge_self [of ?y] by linarith
  qed (simp add: normal_def)
  have "16777216 / 2 ^ 53 \<le> (1 :: rat)" by simp
  then have y_le: "0 \<le> ?y" "?y \<le> 16777217" using y n small by linarith+
  have z: "\<bar>fl ?y - ?y\<bar> \<le> 16777217 / 2 ^ 53"
    by (rule order_trans [OF fl_error [OF normal]]) (use y_le in simp)
  with y small have "\<bar>fl ?y - of_int n\<bar> \<le> 16777217 / 2 ^ 53 + 16777216 / 2 ^ 53" by linarith
  then have "\<bar>(fl ?y - of_int n) * 10 ^ 8\<bar> < 1 / 2" unfolding abs_mult by simp
  then have near: "\<bar>fl ?y * 10 ^ 8 - of_int (n * 10 ^ 8)\<bar> < 1 / 2" by (simp add: left_diff_distrib)
  have "0 \<le> fl ?y"
  proof (cases "n = 0")
    case False
    with assms(1) have "(1 :: rat) \<le> of_int n" by linarith
    moreover have "16777217 / 2 ^ 53 + 16777216 / 2 ^ 53 < (1 :: rat)" by simp
    ultimately show ?thesis
      using \<open>\<bar>fl ?y - of_int n\<bar> \<le> 16777217 / 2 ^ 53 + 16777216 / 2 ^ 53\<close> by linarith
  qed simp
  moreover have "16777217 / 2 ^ 53 < (1 :: rat)" by simp
  then have "fl ?y < 16777218" using z y_le by linarith
  then have "fl ?y < 10 ^ 21" by simp
  ultimately have z: "\<bar>fl ?y * 10 ^ 8 - of_int (n * 10 ^ 8)\<bar> < 1 / 2" "0 \<le> fl ?y" "fl ?y < 10 ^ 21"
    using near by simp_all
  have d: "decimal 8 (fl (fl (of_int n / 100000000) * 100000000)) = of_int n" using decimal_near [OF z(2,1)] by simp
  have "rounded ?y = Fin (fl ?y)" using rounded_fl [OF normal] y_le by simp
  moreover have "rounded (of_int n) = Fin (of_int n)" using assms by (intro rounded_int) simp
  ultimately show ?thesis
    using z(2,3) by (simp add: btcToSat_def SATS_PER_BTC_def BTC_MAX_DECIMAL_PLACES_def d)
qed

text \<open>
  C35. Satoshis survive the way to bitcoin and back exactly up to \<open>2 ^ 24\<close> of them, and
  millisatoshis are rounded down to whole satoshis on the way.
\<close>

theorem btc_sat_roundtrip:
  assumes "0 \<le> n" "n \<le> 2 ^ 24"
  shows "btcToSat (satToBtc (Fin (of_int n))) = Fin (of_int n) \<and>
    btcToMsat (msatToBtc (Fin (of_int (1000 * n)))) = Fin (of_int (1000 * n))"
proof -
  have "btcToSat (satToBtc (Fin (of_int n))) = Fin (of_int n)"
    using assms btcToSat_int [OF assms] by (simp add: satToBtc_int)
  moreover have "msatToSat (Fin (of_int (1000 * n))) = Fin (of_int n)"
    using assms msatToSat_int [of "1000 * n"] by simp
  moreover have "rounded (of_int (1000 * n)) = Fin (of_int (1000 * n))"
    using assms by (intro rounded_int) simp
  ultimately show ?thesis
    by (simp add: btcToMsat_def msatToBtc_def satToMsat_def MSATS_PER_SAT_def mult.commute)
qed

theorem btc_sat_roundtrip_witness:
  "btcToSat (satToBtc (Fin 12345678)) = Fin 12345678"
  using btc_sat_roundtrip [of 12345678] by simp

text \<open>The first amount at which the way back goes wrong is not far above.\<close>

lemma nearest_even_eqI: "\<bar>y - of_int n\<bar> < 1 / 2 \<Longrightarrow> nearest_even y = n"
proof -
  assume near: "\<bar>y - of_int n\<bar> < 1 / 2"
  have "\<bar>of_int (nearest_even y) - of_int n\<bar> < (1 :: rat)"
    using near nearest_even_error [of y] by linarith
  then have "\<bar>of_int (nearest_even y - n)\<bar> < (1 :: rat)" by simp
  then have "\<bar>nearest_even y - n\<bar> < 1" by (metis of_int_abs of_int_1 of_int_less_iff)
  then show ?thesis by simp
qed

lemma fl_eqI:
  assumes "two_to e \<le> x" "x < two_to (e + 1)" "- 1022 \<le> e"
    and "\<bar>x / two_to (e - 52) - of_int n\<bar> < 1 / 2"
  shows "fl x = of_int n * two_to (e - 52)"
proof -
  have "0 < x" using assms(1) two_to_pos [of e] by linarith
  then show ?thesis using fl_exponent [of e x] assms(1-3) nearest_even_eqI [OF assms(4)] by simp
qed

text \<open>
  From some amounts on, turning satoshis into bitcoin and back is off by a fraction of a
  satoshi: 51104497 satoshis come back as a number that is not an integer.
\<close>

theorem sat_btc_drift:
  "btcToSat (satToBtc (Fin 51104497)) = Fin (6859129477922817 / 134217728) \<and>
   (6859129477922817 / 134217728 :: rat) = 51104497 + 1 / 134217728"
proof -
  have b: "satToBtc (Fin 51104497) = Fin (4603083872923133 / 9007199254740992)"
    using satToBtc_int [of 51104497] fl_eqI [of "- 1" "51104497 / 100000000" 4603083872923133]
    by (simp add: two_to_def)
  let ?y = "1798079637860598828125 / 35184372088832 :: rat"
  let ?z = "6859129477922817 / 134217728 :: rat"
  have y: "fl ?y = ?z" using fl_eqI [of 25 ?y 6859129477922817] by (simp add: two_to_def)
  have d: "decimal 8 ?z = 5110449700000001 / 100000000"
    using decimal_near [of ?z 8 5110449700000001] by simp
  have f: "fl (5110449700000001 / 100000000) = ?z"
    using fl_eqI [of 25 "5110449700000001 / 100000000" 6859129477922817] by (simp add: two_to_def)
  have "rounded ?y = Fin ?z" "rounded (5110449700000001 / 100000000) = Fin ?z"
    by (simp_all add: rounded_def y f Let_def)
  then show ?thesis
    by (simp add: b btcToSat_def SATS_PER_BTC_def BTC_MAX_DECIMAL_PLACES_def d)
qed

section \<open>Other conversions\<close>

text \<open>
  Millisatoshis below \<open>2 ^ 53\<close> become whole satoshis rounded down: never more than there
  are, and less than one satoshi is dropped.
\<close>

theorem msatToSat_never_more:
  assumes "0 \<le> m" "m < 2 ^ 53"
  shows "\<exists>sats. msatToSat (Fin (of_int m)) = Fin (of_int sats) \<and> 1000 * sats \<le> m \<and> m < 1000 * sats + 1000"
proof (intro exI conjI)
  show "msatToSat (Fin (of_int m)) = Fin (of_int (m div 1000))" by (rule msatToSat_int [OF assms])
qed presburger+

theorem msatToSat_never_more_witness: "msatToSat (Fin 1999) = Fin 1"
  using msatToSat_never_more [of 1999] by auto

lemma toFixed_NotNum: "toFixed d v = NotNum \<longleftrightarrow> v = NotNum"
  by (cases v) (auto simp: rounded_def Let_def)

lemma convertCentsToOtherFiat_number: "convertCentsToOtherFiat cents u f \<noteq> NotNum"
  by (simp add: convertCentsToOtherFiat_def Let_def)

lemma clampSats_number: "clampSats v \<noteq> NotNum \<and> num_le (Fin 0) (clampSats v)"
proof (cases v)
  case (Fin x)
  have "0 \<le> round (max 0 x)" using round_mono [of 0 "max 0 x"] by simp
  with Fin show ?thesis by (auto simp: clampSats_def num_le_def num_max_def max_def split: if_splits)
qed (simp_all add: clampSats_def num_le_def)

end
