(* ===== verification/Stability_Pool.thy ===== *)
theory Stability_Pool
  imports Amounts
begin

text \<open>
  \<^verbatim>\<open>ui/common/utils/stabilitypool.ts\<close>: the amounts of deposits to and withdrawals from the stability
  pool, the accounts of its first version, and how the promise of an operation settles. Events are those that arrive after the listener was added, which the code
  does when the bridge has answered.
\<close>

section \<open>Amounts of deposits and withdrawals\<close>

record StabilityPoolWithdrawal =
  lockedBps :: js_num
  unlockedAmount :: js_num

definition calculateStabilityPoolWithdrawal ::
  "js_num \<Rightarrow> js_num \<Rightarrow> js_num \<Rightarrow> js_num \<Rightarrow> StabilityPoolWithdrawal" where
  "calculateStabilityPoolWithdrawal amount btcUsdExchangeRate totalLockedCents totalStagedMsats =
     (if num_le amount totalStagedMsats
      then \<lparr> lockedBps = Fin 0,
             unlockedAmount =
               (if num_less (num_sub totalStagedMsats amount) (Fin 1000) then totalStagedMsats else amount) \<rparr>
      else
        let remainingWithdrawal = toFixed 2 (num_sub amount totalStagedMsats);
            remainingWithdrawalUsd = msatToFiat remainingWithdrawal btcUsdExchangeRate;
            remainingWithdrawalCents = num_mul remainingWithdrawalUsd (Fin 100)
        in \<lparr> lockedBps =
               num_min (toFixed 0 (num_div (num_mul remainingWithdrawalCents (Fin 10000)) totalLockedCents))
                 (Fin 10000),
             unlockedAmount = totalStagedMsats \<rparr>)"

text \<open>Whether everything is withdrawn, and the amount in cents.\<close>

definition calculateStabilityPoolWithdrawalV2 :: "js_num \<Rightarrow> js_num \<Rightarrow> bool \<times> js_num" where
  "calculateStabilityPoolWithdrawalV2 amountCents totalBalanceCents =
     (let centsAfterWithdrawal = num_sub totalBalanceCents amountCents
      in if num_le centsAfterWithdrawal (Fin 3) then (True, Fin 0) else (False, amountCents))"

definition leakagePadding :: "js_num \<Rightarrow> js_num \<Rightarrow> js_num" where
  "leakagePadding amount maxAllowedFeeRate =
     (let maxFeeRateFraction = toFixed 9 (num_div maxAllowedFeeRate (Fin 1000000000));
          maxFirstCycleFee = toFixed 0 (num_mul amount maxFeeRateFraction)
      in num_max (Fin 1000) (toFixed 0 (num_mul (Fin 10) maxFirstCycleFee)))"

definition calculateStabilityPoolDeposit :: "js_num \<Rightarrow> js_num \<Rightarrow> js_num \<Rightarrow> js_num" where
  "calculateStabilityPoolDeposit amount ecashBalance maxAllowedFeeRate =
     num_min ecashBalance (toFixed 0 (num_add amount (leakagePadding amount maxAllowedFeeRate)))"

section \<open>Settling an operation\<close>

datatype StabilityPoolDepositState =
    DepositInitiated
  | DepositTxAccepted
  | DepositTxRejected string
  | DepositPrimaryOutputError string
  | DepositSuccess

datatype StabilityPoolWithdrawalState =
    InvalidOperationType
  | WithdrawUnlockedInitiated
  | WithdrawTxRejected string
  | WithdrawUnlockedAccepted
  | WithdrawPrimaryOutputError string
  | WithdrawSuccess
  | CancellationSubmissionFailure string
  | CancellationInitiated
  | CancellationAccepted

datatype SPv2WithdrawalState =
    WithdrawalStarted
  | UnlockTxAccepted
  | UnlockTxRejected string
  | UnlockProcessingError string
  | WithdrawalInitiated js_num
  | WithdrawalTxAccepted js_num
  | WithdrawalTxRejected string
  | WithdrawalPrimaryOutputError string
  | WithdrawalSuccess js_num

record 's operation_event =
  event_federationId :: string
  event_operationId :: string
  event_state :: 's

datatype 'e settlement = Resolved 'e | RejectedWith string

text \<open>The listener of an operation: other operations are ignored, the first verdict settles.\<close>

definition own_event :: "string \<Rightarrow> string \<Rightarrow> 's operation_event \<Rightarrow> bool" where
  "own_event federationId operationId event \<longleftrightarrow>
     event_federationId event = federationId \<and> event_operationId event = operationId"

fun settle ::
  "('s \<Rightarrow> bool option) \<Rightarrow> string \<Rightarrow> string \<Rightarrow> 's operation_event list \<Rightarrow> 's operation_event settlement option" where
  "settle verdict federationId operationId [] = None"
| "settle verdict federationId operationId (event # events) =
     (if \<not> own_event federationId operationId event then settle verdict federationId operationId events
      else case verdict (event_state event) of
        Some True \<Rightarrow> Some (Resolved event)
      | Some False \<Rightarrow> Some (RejectedWith ''Transaction rejected'')
      | None \<Rightarrow> settle verdict federationId operationId events)"

fun withdrawal_verdict :: "StabilityPoolWithdrawalState \<Rightarrow> bool option" where
  "withdrawal_verdict WithdrawSuccess = Some True"
| "withdrawal_verdict CancellationAccepted = Some True"
| "withdrawal_verdict (WithdrawTxRejected _) = Some False"
| "withdrawal_verdict (CancellationSubmissionFailure _) = Some False"
| "withdrawal_verdict _ = None"

fun spv2_withdrawal_verdict :: "SPv2WithdrawalState \<Rightarrow> bool option" where
  "spv2_withdrawal_verdict UnlockTxAccepted = Some True"
| "spv2_withdrawal_verdict (UnlockTxRejected _) = Some False"
| "spv2_withdrawal_verdict (UnlockProcessingError _) = Some False"
| "spv2_withdrawal_verdict (WithdrawalTxRejected _) = Some False"
| "spv2_withdrawal_verdict _ = None"

fun deposit_verdict :: "StabilityPoolDepositState \<Rightarrow> bool option" where
  "deposit_verdict DepositTxAccepted = Some True"
| "deposit_verdict (DepositTxRejected _) = Some False"
| "deposit_verdict _ = None"

section \<open>Accounts of the first version\<close>

record Amount =
  fiat :: js_num
  btc :: js_num

record StabilityPoolState =
  currCycleStartPrice :: js_num
  staged :: Amount
  locked :: Amount
  idleBalance :: js_num
  pendingUnlock :: "Amount option"

record RpcStabilityPoolAccountInfo =
  info_idleBalance :: js_num
  stagedSeeks :: "js_num list"
  stagedCancellation :: "js_num option"
  lockedSeeks :: "js_num list"

definition coerceLegacyAccountInfo :: "RpcStabilityPoolAccountInfo \<Rightarrow> js_num \<Rightarrow> StabilityPoolState" where
  "coerceLegacyAccountInfo accountInfo price =
     (let stagedBalanceMsats =
            foldl (\<lambda>result ss. toFixed 0 (num_add result ss)) (Fin 0) (stagedSeeks accountInfo);
          lockedBalanceMsats = foldl num_add (Fin 0) (lockedSeeks accountInfo);
          stagedBalanceCents = num_div (num_mul stagedBalanceMsats price) (Fin (10 ^ 11));
          lockedBalanceCents = num_div (num_mul lockedBalanceMsats price) (Fin (10 ^ 11));
          cancellation = (case stagedCancellation accountInfo of None \<Rightarrow> Fin 0 | Some c \<Rightarrow> c);
          pendingUnlockCents = num_floor (num_div (num_mul lockedBalanceCents cancellation) (Fin 10000));
          pendingUnlockMsats = num_floor (num_div (num_mul lockedBalanceMsats cancellation) (Fin 10000))
      in \<lparr> currCycleStartPrice = price,
           staged = \<lparr> fiat = stagedBalanceCents, btc = stagedBalanceMsats \<rparr>,
           locked = \<lparr> fiat = lockedBalanceCents, btc = lockedBalanceMsats \<rparr>,
           idleBalance = info_idleBalance accountInfo,
           pendingUnlock =
             (if num_less (Fin 0) cancellation
              then Some \<lparr> fiat = pendingUnlockCents, btc = pendingUnlockMsats \<rparr> else None) \<rparr>)"

text \<open>Which of the two translations a pending balance is shown with.\<close>

definition makePendingBalanceText :: "(string \<Rightarrow> string \<Rightarrow> string) \<Rightarrow> js_num \<Rightarrow> string \<Rightarrow> string" where
  "makePendingBalanceText t pendingBalance formattedAmount =
     (if num_less (Fin 0) pendingBalance
      then t ''feature.stabilitypool.deposit-pending'' formattedAmount
      else t ''feature.stabilitypool.withdrawal-pending'' formattedAmount)"

end
