(* ===== verification/Wallet.thy ===== *)
theory Wallet
  imports Stability_Pool Federation_Thunks
begin

text \<open>
  \<^verbatim>\<open>ui/common/redux/wallet.ts\<close> and the exchange rates of \<^verbatim>\<open>ui/common/redux/currency.ts\<close>: the state
  kept for each federation, the thunks and the selectors. A thunk takes the answers of the bridge
  (\<open>None\<close> for a rejected call) and gives an error, or what it asks the bridge to do, or the new state.
\<close>

section \<open>The slice\<close>

record FederationWalletState =
  stabilityPoolState :: "StabilityPoolState option"
  stabilityPoolAvailableLiquidity :: "js_num option"
  averageFeeRate :: "js_num option"
  supportsRecurringdLnurl :: "bool option"
  lnurlReceiveCode :: "string option"

definition initialFederationWalletState :: FederationWalletState where
  "initialFederationWalletState = \<lparr> stabilityPoolState = None, stabilityPoolAvailableLiquidity = None,
     averageFeeRate = None, supportsRecurringdLnurl = None, lnurlReceiveCode = None \<rparr>"

type_synonym WalletState = "(string, FederationWalletState) jsmap"

definition getFederationWalletState :: "WalletState \<Rightarrow> string \<Rightarrow> FederationWalletState" where
  "getFederationWalletState state federationId =
     (case jm_get state federationId of Some w \<Rightarrow> w | None \<Rightarrow> initialFederationWalletState)"

definition change_wallet ::
  "string \<Rightarrow> (FederationWalletState \<Rightarrow> FederationWalletState) \<Rightarrow> WalletState \<Rightarrow> WalletState" where
  "change_wallet federationId f state =
     jm_set federationId (f (getFederationWalletState state federationId)) state"

datatype wallet_action =
    SetStabilityPoolState string StabilityPoolState
  | SetStabilityPoolAvailableLiquidity string js_num
  | ResetFederationWalletState string
  | ResetWalletState
  | SetLnurlReceiveCode string string
  | SetSupportsRecurringdLnurl string bool
  | FetchAvailableLiquidityFulfilled string js_num
  | FetchAverageFeeRateFulfilled string js_num

fun walletSlice :: "WalletState \<Rightarrow> wallet_action \<Rightarrow> WalletState" where
  "walletSlice s (SetStabilityPoolState i p) =
     change_wallet i (\<lambda>w. w\<lparr>stabilityPoolState := Some p\<rparr>) s"
| "walletSlice s (SetStabilityPoolAvailableLiquidity i n) =
     change_wallet i (\<lambda>w. w\<lparr>stabilityPoolAvailableLiquidity := Some n\<rparr>) s"
| "walletSlice s (ResetFederationWalletState i) = jm_set i initialFederationWalletState s"
| "walletSlice s ResetWalletState = []"
| "walletSlice s (SetLnurlReceiveCode i c) = change_wallet i (\<lambda>w. w\<lparr>lnurlReceiveCode := Some c\<rparr>) s"
| "walletSlice s (SetSupportsRecurringdLnurl i b) =
     change_wallet i (\<lambda>w. w\<lparr>supportsRecurringdLnurl := Some b\<rparr>) s"
| "walletSlice s (FetchAvailableLiquidityFulfilled i n) =
     change_wallet i (\<lambda>w. w\<lparr>stabilityPoolAvailableLiquidity := Some n\<rparr>) s"
| "walletSlice s (FetchAverageFeeRateFulfilled i n) =
     change_wallet i (\<lambda>w. w\<lparr>averageFeeRate := Some n\<rparr>) s"

section \<open>The state the selectors read\<close>

record RatesState =
  overrideCurrency :: "string option"
  customFederationCurrencies :: "(string, string) jsmap"
  btcUsdRate :: js_num
  fiatUsdRates :: "(string, js_num) jsmap"

record WalletStore =
  wallet :: WalletState
  federation :: FederationState
  currency :: RatesState

definition num_truthy :: "js_num \<Rightarrow> bool" where
  "num_truthy n \<longleftrightarrow> n \<noteq> NotNum \<and> n \<noteq> Fin 0"

text \<open>\<^verbatim>\<open>x || 0\<close> of a field of a configuration.\<close>

fun num_or_zero :: "jv \<Rightarrow> js_num" where
  "num_or_zero (JNum n) = Fin (of_int n)"
| "num_or_zero _ = Fin 0"

definition selectFederationWalletState :: "WalletStore \<Rightarrow> string \<Rightarrow> FederationWalletState" where
  "selectFederationWalletState s federationId =
     (let i = (if federationId = [] then selectLastUsedFederationId (federation s) else JStr federationId)
      in getFederationWalletState (wallet s) (if truthy i then js_str i else []))"

definition selectStabilityPoolState :: "WalletStore \<Rightarrow> string \<Rightarrow> StabilityPoolState option" where
  "selectStabilityPoolState s i = stabilityPoolState (selectFederationWalletState s i)"

definition selectStabilityPoolCycleStartPrice :: "WalletStore \<Rightarrow> string \<Rightarrow> js_num option" where
  "selectStabilityPoolCycleStartPrice s i = map_option currCycleStartPrice (selectStabilityPoolState s i)"

text \<open>The price of the pool in cents when there is one, the rate of the feed otherwise.\<close>

definition selectBtcUsdExchangeRate :: "WalletStore \<Rightarrow> string \<Rightarrow> js_num" where
  "selectBtcUsdExchangeRate s i =
     (case selectStabilityPoolCycleStartPrice s i of
        Some cents \<Rightarrow>
          if i \<noteq> [] \<and> num_truthy cents then num_div cents (Fin 100)
          else if num_truthy (btcUsdRate (currency s)) then btcUsdRate (currency s) else Fin 0
      | None \<Rightarrow> if num_truthy (btcUsdRate (currency s)) then btcUsdRate (currency s) else Fin 0)"

section \<open>Selectors\<close>

definition selectTotalLockedMsats :: "WalletStore \<Rightarrow> string \<Rightarrow> js_num" where
  "selectTotalLockedMsats s i =
     (case selectStabilityPoolState s i of None \<Rightarrow> Fin 0 | Some p \<Rightarrow> btc (locked p))"

definition selectTotalLockedCents :: "WalletStore \<Rightarrow> string \<Rightarrow> js_num" where
  "selectTotalLockedCents s i =
     (case selectStabilityPoolState s i of None \<Rightarrow> Fin 0 | Some p \<Rightarrow> fiat (locked p))"

definition selectTotalStagedMsats :: "WalletStore \<Rightarrow> string \<Rightarrow> js_num" where
  "selectTotalStagedMsats s i =
     (case selectStabilityPoolState s i of
        None \<Rightarrow> Fin 0
      | Some p \<Rightarrow> if num_truthy (btc (staged p)) then btc (staged p) else Fin 0)"

definition selectTotalStagedCents :: "WalletStore \<Rightarrow> string \<Rightarrow> js_num" where
  "selectTotalStagedCents s i =
     (case selectStabilityPoolState s i of None \<Rightarrow> Fin 0 | Some p \<Rightarrow> fiat (staged p))"

definition selectStableBalanceCents :: "WalletStore \<Rightarrow> string \<Rightarrow> js_num" where
  "selectStableBalanceCents s i =
     (case selectStabilityPoolState s i of None \<Rightarrow> Fin 0 | Some p \<Rightarrow> fiat (locked p))"

text \<open>Positive while depositing, negative while withdrawing.\<close>

definition selectStableBalancePendingCents :: "WalletStore \<Rightarrow> string \<Rightarrow> js_num" where
  "selectStableBalancePendingCents s i =
     (case selectStabilityPoolState s i of
        None \<Rightarrow> Fin 0
      | Some p \<Rightarrow>
          let pendingDepositAmount = fiat (staged p);
              pendingWithdrawAmount = (case pendingUnlock p of None \<Rightarrow> Fin 0 | Some u \<Rightarrow> fiat u)
          in if num_less (Fin 0) pendingWithdrawAmount then num_neg pendingWithdrawAmount
             else if num_less (Fin 0) pendingDepositAmount then pendingDepositAmount
             else Fin 0)"

definition selectTotalLockedFiat :: "js_num \<Rightarrow> WalletStore \<Rightarrow> string \<Rightarrow> js_num" where
  "selectTotalLockedFiat btcExchangeRate s i =
     convertCentsToOtherFiat (selectTotalLockedCents s i) (selectBtcUsdExchangeRate s []) btcExchangeRate"

definition selectTotalStagedFiat :: "js_num \<Rightarrow> WalletStore \<Rightarrow> string \<Rightarrow> js_num" where
  "selectTotalStagedFiat btcExchangeRate s i =
     convertCentsToOtherFiat (selectTotalStagedCents s i) (selectBtcUsdExchangeRate s []) btcExchangeRate"

definition selectStableBalance :: "js_num \<Rightarrow> WalletStore \<Rightarrow> string \<Rightarrow> js_num" where
  "selectStableBalance btcExchangeRate s i =
     convertCentsToOtherFiat (selectStableBalanceCents s i) (selectBtcUsdExchangeRate s i) btcExchangeRate"

definition selectStableBalancePending :: "js_num \<Rightarrow> WalletStore \<Rightarrow> string \<Rightarrow> js_num" where
  "selectStableBalancePending btcExchangeRate s i =
     convertCentsToOtherFiat (selectStableBalancePendingCents s i) (selectBtcUsdExchangeRate s i) btcExchangeRate"

definition selectStableBalanceSats :: "WalletStore \<Rightarrow> string \<Rightarrow> js_num" where
  "selectStableBalanceSats s i =
     fiatToSat (num_div (selectStableBalanceCents s i) (Fin 100)) (selectBtcUsdExchangeRate s [])"

definition selectStableBalancePendingSats :: "WalletStore \<Rightarrow> string \<Rightarrow> js_num" where
  "selectStableBalancePendingSats s i =
     fiatToSat (num_div (selectStableBalancePendingCents s i) (Fin 100)) (selectBtcUsdExchangeRate s [])"

definition selectWithdrawableStableBalanceCents :: "WalletStore \<Rightarrow> string \<Rightarrow> js_num" where
  "selectWithdrawableStableBalanceCents s i =
     num_add (selectStableBalanceCents s i) (selectTotalStagedCents s i)"

definition selectStabilityPoolVersion :: "WalletStore \<Rightarrow> string \<Rightarrow> jv" where
  "selectStabilityPoolVersion s i =
     (case selectFederationStabilityPoolConfig (federation s) i of
        None \<Rightarrow> JUndef | Some config \<Rightarrow> obj_get config ''version'')"

definition config_num :: "WalletStore \<Rightarrow> string \<Rightarrow> string \<Rightarrow> js_num" where
  "config_num s i key =
     (case selectFederationStabilityPoolConfig (federation s) i of
        None \<Rightarrow> Fin 0 | Some config \<Rightarrow> num_or_zero (obj_get config key))"

definition selectMinimumWithdrawAmountCents :: "WalletStore \<Rightarrow> string \<Rightarrow> js_num" where
  "selectMinimumWithdrawAmountCents s i =
     (if selectStabilityPoolVersion s i = JNum 2 then Fin 1
      else if num_less (Fin 0) (selectStableBalancePendingCents s i) then Fin 0
      else
        let minimumBasisPoints = config_num s i ''min_allowed_cancellation_bps'';
            minimumFraction = toFixed 4 (num_div minimumBasisPoints (Fin 10000))
        in toFixed 2 (num_mul (selectStableBalanceCents s i) minimumFraction))"

definition selectWithdrawableStableBalanceMsats :: "WalletStore \<Rightarrow> string \<Rightarrow> js_num" where
  "selectWithdrawableStableBalanceMsats s i =
     fiatToMsat (num_div (selectWithdrawableStableBalanceCents s i) (Fin 100)) (selectBtcUsdExchangeRate s i)"

definition selectMinimumWithdrawAmountMsats :: "WalletStore \<Rightarrow> string \<Rightarrow> js_num" where
  "selectMinimumWithdrawAmountMsats s i =
     fiatToMsat (num_div (selectMinimumWithdrawAmountCents s i) (Fin 100)) (selectBtcUsdExchangeRate s i)"

definition selectMinimumDepositAmount :: "WalletStore \<Rightarrow> string \<Rightarrow> js_num" where
  "selectMinimumDepositAmount s i = Amounts.msatToSat (config_num s i ''min_allowed_seek'')"

text \<open>
  The expected time of a deposit: the key of the translation and its number, and whether it is
  shown as approximate. \<open>None\<close> is the zero shown without a configuration.
\<close>

definition selectFormattedDepositTime :: "WalletStore \<Rightarrow> string \<Rightarrow> (bool \<times> string \<times> js_num option) option" where
  "selectFormattedDepositTime s i =
     map_option (\<lambda>config.
       let seconds = num_or_zero (opt_prop (obj_get config ''cycle_duration'') ''secs'')
       in if num_le (Fin 3600) seconds then (False, ''feature.stabilitypool.more-than-an-hour'', None)
          else if num_less seconds (Fin 60)
          then (if num_less (Fin 1) seconds then (True, ''feature.stabilitypool.seconds'', Some seconds)
                else (True, ''feature.stabilitypool.one-second'', None))
          else
            let minutes = num_div (num_round (num_mul (num_div seconds (Fin 60)) (Fin 2))) (Fin 2)
            in if num_less (Fin 1) minutes then (True, ''feature.stabilitypool.minutes'', Some minutes)
               else (True, ''feature.stabilitypool.one-minute'', None))
     (selectFederationStabilityPoolConfig (federation s) i)"

definition selectShouldShowStablePaymentAddress :: "jv option \<Rightarrow> WalletStore \<Rightarrow> string option \<Rightarrow> bool" where
  "selectShouldShowStablePaymentAddress sp_transfer_ui s federationId =
     (case (sp_transfer_ui, federationId) of
        (Some ui, Some i) \<Rightarrow> i \<noteq> [] \<and> ui \<noteq> JNull \<and> selectStabilityPoolVersion s i = JNum 2
      | _ \<Rightarrow> False)"

definition selectTotalStableBalanceSats :: "WalletStore \<Rightarrow> js_num" where
  "selectTotalStableBalanceSats s =
     (let total = foldl (\<lambda>acc f.
            let i = js_str (obj_get f ''id'')
            in num_add (num_add acc (selectStableBalanceSats s i)) (selectStableBalancePendingSats s i))
          (Fin 0) (selectLoadedFederations (federation s))
      in if total = NotNum then Fin 0 else total)"

text \<open>The fee schedule of the stability pool, with its rate in parts per million.\<close>

definition selectStabilityPoolFeeSchedule :: "WalletStore \<Rightarrow> string \<Rightarrow> jv" where
  "selectStabilityPoolFeeSchedule s i =
     (case selectLoadedFederation (federation s) i of
        None \<Rightarrow> JNull
      | Some f \<Rightarrow>
          let schedule = obj_get f ''fediFeeSchedule''
          in if \<not> truthy schedule then JNull
             else
               let modules = own_entries (opt_prop schedule ''modules'')
               in if jm_get modules ''stability_pool'' \<noteq> None then obj_get modules ''stability_pool''
                  else obj_get modules ''multi_sig_stability_pool'')"

section \<open>Thunks\<close>

definition refreshLnurlReceive :: "string \<Rightarrow> bool option \<Rightarrow> string option \<Rightarrow> WalletState \<Rightarrow> WalletState" where
  "refreshLnurlReceive federationId supported lnurl s =
     (case supported of
        None \<Rightarrow> s
      | Some b \<Rightarrow>
          let s1 = walletSlice s (SetSupportsRecurringdLnurl federationId b)
          in if \<not> b then s1
             else case lnurl of
               None \<Rightarrow> s1 | Some code \<Rightarrow> walletSlice s1 (SetLnurlReceiveCode federationId code))"

text \<open>
  \<^verbatim>\<open>receiveEcash\<close>: what the bridge answers, and what happens afterwards: an event of a transaction, or
  the timeout of five seconds. \<open>None\<close> is a promise that is still pending.
\<close>

datatype ecash_answer = EcashReceived js_num string | EcashAlreadySpent string | EcashError string

datatype txn_state = TxnDone | TxnFailed string | TxnOther

datatype ecash_input =
    EcashTimeout
  | TransactionEvent (txn_id: string) (txn_kind: string) (txn_state: txn_state)

datatype ReceiveEcashResult = EcashSuccess js_num | EcashPending js_num | EcashFailed js_num string

fun ecash_outcome :: "js_num \<Rightarrow> string \<Rightarrow> ecash_input list \<Rightarrow> ReceiveEcashResult option" where
  "ecash_outcome amount operationId [] = None"
| "ecash_outcome amount operationId (EcashTimeout # rest) = Some (EcashPending amount)"
| "ecash_outcome amount operationId (TransactionEvent i kind st # rest) =
     (if i \<noteq> operationId \<or> kind \<noteq> ''oobReceive'' then ecash_outcome amount operationId rest
      else case st of
        TxnDone \<Rightarrow> Some (EcashSuccess amount)
      | TxnFailed e \<Rightarrow> Some (EcashFailed amount e)
      | TxnOther \<Rightarrow> ecash_outcome amount operationId rest)"

definition receiveEcash :: "ecash_answer \<Rightarrow> ecash_input list \<Rightarrow> string + ReceiveEcashResult option" where
  "receiveEcash answer inputs =
     (case answer of
        EcashReceived amount operationId \<Rightarrow> Inr (ecash_outcome amount operationId inputs)
      | EcashAlreadySpent e \<Rightarrow> Inr (Some (EcashFailed (Fin 0) e))
      | EcashError e \<Rightarrow> Inl e)"

text \<open>\<^verbatim>\<open>cancelEcash\<close>: the federation the bridge is asked at.\<close>

definition cancelEcash :: "string option \<Rightarrow> string + string" where
  "cancelEcash joinedFederation =
     (case joinedFederation of None \<Rightarrow> Inl ''errors.unknown-ecash-issuer'' | Some i \<Rightarrow> Inr i)"

definition generateReusedEcashProofs :: "'a option list \<Rightarrow> 'a list" where
  "generateReusedEcashProofs proofs = map the (filter (\<lambda>p. p \<noteq> None) proofs)"

definition fetchSpv1Account :: "string \<Rightarrow> RpcStabilityPoolAccountInfo \<Rightarrow> js_num \<Rightarrow> WalletState \<Rightarrow> WalletState" where
  "fetchSpv1Account federationId info price s =
     walletSlice s (SetStabilityPoolState federationId (coerceLegacyAccountInfo info price))"

text \<open>The call of the bridge depends on the version of the pool.\<close>

definition fetchStabilityPoolAvailableLiquidity ::
  "string \<Rightarrow> js_num \<Rightarrow> js_num \<Rightarrow> WalletStore \<Rightarrow> WalletState" where
  "fetchStabilityPoolAvailableLiquidity federationId spv2 spv1 s =
     walletSlice (wallet s) (FetchAvailableLiquidityFulfilled federationId
       (if selectStabilityPoolVersion s federationId = JNum 2 then spv2 else spv1))"

definition fetchStabilityPoolAverageFeeRate ::
  "string \<Rightarrow> js_num \<Rightarrow> js_num \<Rightarrow> WalletStore \<Rightarrow> WalletState" where
  "fetchStabilityPoolAverageFeeRate federationId spv2 spv1 s =
     walletSlice (wallet s) (FetchAverageFeeRateFulfilled federationId
       (if selectStabilityPoolVersion s federationId = JNum 2 then spv2 else spv1))"

text \<open>What is dispatched by \<^verbatim>\<open>refreshStabilityPool\<close> after the exchange rates.\<close>

datatype pool_refresh = AverageFeeRate | AvailableLiquidity | Spv1Account

definition refreshStabilityPool :: "WalletStore \<Rightarrow> string \<Rightarrow> string + pool_refresh list" where
  "refreshStabilityPool s federationId =
     (if federationId = [] then Inl ''errors.unknown-error''
      else Inr ([AverageFeeRate, AvailableLiquidity] @
             (if selectStabilityPoolVersion s federationId = JNum 1 then [Spv1Account] else [])))"

definition maxDepositAmount :: "js_num \<Rightarrow> js_num \<Rightarrow> js_num" where
  "maxDepositAmount ecashBalance feeRate =
     num_floor (num_div (num_mul (Fin 1000000) ecashBalance) (num_add (Fin 1000000) feeRate))"

text \<open>Whether the second version is asked, and the amount.\<close>

definition increaseStableBalance :: "WalletStore \<Rightarrow> string \<Rightarrow> js_num \<Rightarrow> string + (bool \<times> js_num)" where
  "increaseStableBalance s federationId amount =
     (let ecashBalance = Fin (of_int (selectFederationBalance (federation s) federationId));
          feeRate = num_or_zero (opt_prop (selectStabilityPoolFeeSchedule s federationId) ''sendPpm'')
      in if selectFederationStabilityPoolConfig (federation s) federationId = None
         then Inl ''No stabilitypool in this federation''
         else Inr (selectStabilityPoolVersion s federationId = JNum 2,
                calculateStabilityPoolDeposit amount (maxDepositAmount ecashBalance feeRate)
                  (config_num s federationId ''max_allowed_provide_fee_rate_ppb'')))"

definition decreaseStableBalanceV1 :: "WalletStore \<Rightarrow> string \<Rightarrow> js_num \<Rightarrow> StabilityPoolWithdrawal" where
  "decreaseStableBalanceV1 s federationId amount =
     calculateStabilityPoolWithdrawal amount (selectBtcUsdExchangeRate s federationId)
       (selectTotalLockedCents s federationId) (selectTotalStagedMsats s federationId)"

definition decreaseStableBalanceV2 :: "WalletStore \<Rightarrow> string \<Rightarrow> js_num \<Rightarrow> bool \<times> js_num" where
  "decreaseStableBalanceV2 s federationId amount =
     calculateStabilityPoolWithdrawalV2 amount
       (num_add (selectTotalLockedCents s federationId) (selectTotalStagedCents s federationId))"

text \<open>The room and the invite that a transfer to a chat user is sent with.\<close>

definition transferStableBalanceMatrix ::
  "string option \<Rightarrow> WalletStore \<Rightarrow> string \<Rightarrow> string + (string \<times> jv)" where
  "transferStableBalanceMatrix roomId s federationId =
     (if selectStabilityPoolVersion s federationId \<noteq> JNum 2 then Inl ''Federation is not SPV2''
      else case roomId of
        None \<Rightarrow> Inl ''Recipient room not found''
      | Some room \<Rightarrow>
          if room = [] then Inl ''Recipient room not found''
          else case selectLoadedFederation (federation s) federationId of
            None \<Rightarrow> Inl ''Federation not found''
          | Some f \<Rightarrow>
              Inr (room, if shouldShowInviteCode (own_entries (obj_get f ''meta''))
                         then obj_get f ''inviteCode'' else JUndef))"

end
