(* ===== verification/Wallet_Properties.thy ===== *)
theory Wallet_Properties
  imports Wallet
begin

text \<open>
  What holds of the amounts sent to the stability pool, of the promises of its operations, and of
  the state kept for each federation.
\<close>

section \<open>Numbers that are not negative\<close>

fun num_nonneg :: "js_num \<Rightarrow> bool" where
  "num_nonneg (Fin x) \<longleftrightarrow> 0 \<le> x"
| "num_nonneg (Infinite s) \<longleftrightarrow> \<not> s"
| "num_nonneg NotNum \<longleftrightarrow> False"

lemma nearest_even_nonneg: "0 \<le> y \<Longrightarrow> 0 \<le> nearest_even y"
  by (simp add: nearest_even_def Let_def)

lemma fl_nonneg: "0 \<le> x \<Longrightarrow> 0 \<le> fl x"
  by (simp add: fl_def Let_def nearest_even_nonneg less_imp_le)

lemma nonneg_rounded: "0 \<le> x \<Longrightarrow> num_nonneg (rounded x)"
  using fl_nonneg [of x] by (simp add: rounded_def Let_def)

lemma nonneg_toFixed: "num_nonneg v \<Longrightarrow> num_nonneg (toFixed d v)"
proof (cases v)
  case (Fin x)
  assume v: "num_nonneg v"
  have "0 \<le> round (x * 10 ^ d)" if "0 \<le> x" using that round_mono [of 0 "x * 10 ^ d"] by simp
  with v Fin show ?thesis by (simp add: nonneg_rounded decimal_def)
qed simp_all

lemma nonneg_mul: "num_nonneg v \<Longrightarrow> 0 < y \<Longrightarrow> num_nonneg (num_mul v (Fin y))"
  by (cases v) (auto simp: nonneg_rounded)

lemma nonneg_div: "num_nonneg v \<Longrightarrow> 0 < y \<Longrightarrow> num_nonneg (num_div v (Fin y))"
  by (cases v) (auto simp: nonneg_rounded)

lemma nonneg_floor: "num_nonneg v \<Longrightarrow> num_nonneg (num_floor v)"
  by (cases v) auto

lemma nonneg_msatToFiat: "num_nonneg v \<Longrightarrow> 0 < rate \<Longrightarrow> num_nonneg (msatToFiat v (Fin rate))"
  by (simp add: msatToFiat_def btcToFiat_def msatToBtc_def satToBtc_def Amounts.msatToSat_def
      MSATS_PER_SAT_def SATS_PER_BTC_def nonneg_toFixed nonneg_mul nonneg_div nonneg_floor)

lemma min_between: "num_nonneg v \<Longrightarrow> 0 \<le> y \<Longrightarrow> \<exists>x. num_min v (Fin y) = Fin x \<and> 0 \<le> x \<and> x \<le> y"
  by (cases v) (auto simp: num_min_def)

section \<open>Withdrawals\<close>

text \<open>
  C34. A withdrawal never unlocks more than is staged nor more than all of what is locked, in basis
  points; when the staged balance covers the amount, nothing is unlocked and less than a satoshi is
  swept along.
\<close>

theorem withdrawal_bounds:
  assumes "0 \<le> amount" "0 \<le> stagedMsats" "amount \<le> 2 ^ 53" "stagedMsats \<le> 2 ^ 53" "0 < rate" "0 < lockedCents"
  shows "let w = calculateStabilityPoolWithdrawal (Fin (of_int amount)) (Fin rate) (Fin lockedCents)
      (Fin (of_int stagedMsats))
    in if amount \<le> stagedMsats
       then lockedBps w = Fin 0 \<and>
         (\<exists>u. unlockedAmount w = Fin (of_int u) \<and> amount \<le> u \<and> u < amount + 1000 \<and> u \<le> stagedMsats)
       else unlockedAmount w = Fin (of_int stagedMsats) \<and>
         (\<exists>b. lockedBps w = Fin b \<and> 0 \<le> b \<and> b \<le> 10000)"
proof (cases "amount \<le> stagedMsats")
  case True
  have d: "rounded (of_int stagedMsats - of_int amount) = Fin (of_int (stagedMsats - amount))"
    using rounded_int [of "stagedMsats - amount"] assms(1-4) by simp
  have "(1000 :: rat) = of_int 1000" by simp
  then have lt: "of_int (stagedMsats - amount) < (1000 :: rat) \<longleftrightarrow> stagedMsats - amount < 1000"
    by (metis of_int_less_iff)
  show ?thesis
    using True lt by (auto simp: calculateStabilityPoolWithdrawal_def num_le_def num_sub_def d)
next
  case False
  let ?rem = "toFixed 2 (num_sub (Fin (of_int amount)) (Fin (of_int stagedMsats)))"
  have "num_nonneg (num_sub (Fin (of_int amount)) (Fin (of_int stagedMsats)))"
    using False by (simp add: num_sub_def nonneg_rounded)
  then have "num_nonneg (num_mul (num_mul (msatToFiat ?rem (Fin rate)) (Fin 100)) (Fin 10000))"
    using assms(5) by (simp add: nonneg_mul nonneg_msatToFiat nonneg_toFixed)
  then have "num_nonneg (toFixed 0
      (num_div (num_mul (num_mul (msatToFiat ?rem (Fin rate)) (Fin 100)) (Fin 10000)) (Fin lockedCents)))"
    using assms(6) by (intro nonneg_toFixed nonneg_div)
  from min_between [OF this, of 10000] False show ?thesis
    by (simp add: calculateStabilityPoolWithdrawal_def num_le_def)
qed

theorem withdrawal_bounds_witness:
  "let w = calculateStabilityPoolWithdrawal (Fin 1500) (Fin 60000) (Fin 250) (Fin 2200)
   in lockedBps w = Fin 0 \<and> (\<exists>u. unlockedAmount w = Fin (of_int u) \<and> 1500 \<le> u \<and> u < 2500 \<and> u \<le> 2200)"
  using withdrawal_bounds [of 1500 2200 60000 250] by (simp add: Let_def)

section \<open>Deposits\<close>

lemma toFixed_0_int:
  assumes "0 \<le> n" "n \<le> 2 ^ 53"
  shows "toFixed 0 (Fin (of_int n)) = Fin (of_int n)"
proof -
  have "(of_int n :: rat) \<le> 2 ^ 53" using rat_int_le [of n 53] assms by simp
  then have "(of_int n :: rat) < 10 ^ 21" by simp
  moreover have "decimal 0 (of_int n) = (of_int n :: rat)" using decimal_int [of 0 n] by simp
  ultimately show ?thesis using assms rounded_int [of n] by simp
qed

text \<open>Ten times the fee of the first cycle, at least a satoshi, and not more than ten times the amount.\<close>

lemma toFixed_small:
  assumes "0 \<le> x" "x \<le> of_int n" "n \<le> 2 ^ 53"
  shows "\<exists>k. toFixed 0 (Fin x) = Fin (of_int k) \<and> 0 \<le> k \<and> k \<le> n"
proof (intro exI conjI)
  have "(of_int n :: rat) \<le> 2 ^ 53" using rat_int_le [of n 53] assms order_trans [OF assms(1,2)] by simp
  then have lt: "x < 10 ^ 21" using assms(2) by simp
  show k: "0 \<le> round x" "round x \<le> n"
    using round_mono [OF assms(1)] round_mono [OF assms(2)] by simp_all
  then have "rounded (of_int (round x)) = Fin (of_int (round x))"
    using assms(3) by (intro rounded_int) simp
  then show "toFixed 0 (Fin x) = Fin (of_int (round x))"
    using lt assms(1) by (simp add: decimal_def)
qed

lemma half_error: "t \<le> q \<Longrightarrow> e \<le> q / 2 \<Longrightarrow> \<bar>a - q\<bar> \<le> e \<Longrightarrow> t / 2 \<le> (a :: rat)"
  by linarith

lemma fee_fraction:
  assumes "0 \<le> f" "f \<le> 10 ^ 9"
  shows "\<exists>x. toFixed 9 (num_div (Fin (of_int f)) (Fin 1000000000)) = Fin x \<and> 0 \<le> x \<and> x \<le> 1 \<and>
    (x = 0 \<or> 1 / 10 ^ 10 \<le> x)"
proof -
  let ?q = "of_int f / of_int 1000000000 :: rat"
  have f: "(0 :: rat) \<le> of_int f" "(of_int f :: rat) \<le> 1000000000"
    using assms of_int_le_iff [of f "10 ^ 9", where 'a = rat] by simp_all
  have r: "rounded ?q = Fin (fl ?q)" using assms by (intro rounded_quotient) simp_all
  have "normal ?q" by (rule normal_quotient) simp_all
  from fl_le_int [OF this, of 1] f have le: "fl ?q \<le> 1" by simp
  have "\<bar>fl ?q - ?q\<bar> \<le> \<bar>?q\<bar> / 2 ^ 53" by (rule fl_error) fact
  then have err: "\<bar>fl ?q - ?q\<bar> \<le> ?q / 2 ^ 53" using f by simp
  have ge: "0 \<le> fl ?q" using f by (intro fl_nonneg) simp
  have "?q / 2 ^ 53 \<le> 1 / 2 ^ 53" using f(2) by (intro divide_right_mono) simp_all
  with err have "\<bar>fl ?q - ?q\<bar> \<le> 1 / 2 ^ 53" by linarith
  then have "\<bar>(fl ?q - ?q) * 10 ^ 9\<bar> < 1 / 2" unfolding abs_mult by simp
  then have "\<bar>fl ?q * 10 ^ 9 - of_int f\<bar> < 1 / 2" by (simp add: left_diff_distrib)
  from decimal_near [OF ge this] have d: "decimal 9 (fl (of_int f / 1000000000)) = of_int f / 1000000000"
    by simp
  have "f = 0 \<or> 1 / 10 ^ 10 \<le> fl ?q"
  proof (cases "f = 0")
    case False
    with assms(1) have "(1 :: rat) \<le> of_int f" by linarith
    then have "1 / 10 ^ 9 \<le> ?q" by simp
    moreover have "?q / 2 ^ 53 \<le> ?q / 2" using f by (simp add: field_simps)
    ultimately have "1 / 10 ^ 9 / 2 \<le> fl ?q" using half_error err by blast
    then show ?thesis by simp
  qed simp
  with ge le r show ?thesis by (intro exI [of _ "fl ?q"]) (auto simp: d)
qed

lemma leakagePadding_int:
  assumes "0 \<le> amount" "amount \<le> 2 ^ 49" "0 \<le> f" "f \<le> 10 ^ 9"
  shows "\<exists>p. leakagePadding (Fin (of_int amount)) (Fin (of_int f)) = Fin (of_int p) \<and>
    1000 \<le> p \<and> p \<le> max 1000 (10 * amount)"
proof -
  from fee_fraction [OF assms(3,4)] obtain x where
    x: "toFixed 9 (num_div (Fin (of_int f)) (Fin 1000000000)) = Fin x" "0 \<le> x" "x \<le> 1"
      "x = 0 \<or> 1 / 10 ^ 10 \<le> x" by blast
  let ?y = "of_int amount * x"
  have a: "(0 :: rat) \<le> of_int amount" "(of_int amount :: rat) \<le> 2 ^ 49"
    using rat_int_le [of amount 49] assms(1,2) by simp_all
  have y: "0 \<le> ?y" "?y \<le> of_int amount" using a x by (simp_all add: mult_left_le)
  have normal: "normal ?y"
  proof (cases "?y = 0")
    case False
    with assms(1) have "(1 :: rat) \<le> of_int amount" "1 / 10 ^ 10 \<le> x" using x(4) by auto
    then have "1 * (1 / 10 ^ 10) \<le> ?y" by (intro mult_mono) auto
    moreover have "two_to (- 1022) \<le> two_to (- 40)" by (rule two_to_mono) simp
    moreover have "two_to (- 40) \<le> 1 / 10 ^ 10" by (simp add: two_to_def)
    ultimately have "two_to (- 1022) \<le> \<bar>?y\<bar>" using y(1) by linarith
    then show ?thesis by (simp add: normal_def)
  qed (simp add: normal_def)
  have "\<bar>?y\<bar> \<le> 2 ^ 100" using y a by simp
  then have r: "rounded ?y = Fin (fl ?y)" by (rule rounded_fl [OF normal])
  have fl: "0 \<le> fl ?y" "fl ?y \<le> of_int amount"
    using fl_nonneg [OF y(1)] fl_le_int [OF normal y] assms(2) by simp_all
  have "amount \<le> 2 ^ 53" using assms(2) by simp
  from toFixed_small [OF fl this] obtain k where
    k: "toFixed 0 (Fin (fl ?y)) = Fin (of_int k)" "0 \<le> k" "k \<le> amount" by blast
  have "rounded (of_int (10 * k)) = Fin (of_int (10 * k))"
    using k assms(2) by (intro rounded_int) simp
  moreover have "toFixed 0 (Fin (of_int (10 * k))) = Fin (of_int (10 * k))"
    using k assms(2) by (intro toFixed_0_int) simp_all
  ultimately have "leakagePadding (Fin (of_int amount)) (Fin (of_int f)) =
      num_max (Fin (of_int 1000)) (Fin (of_int (10 * k)))"
    unfolding leakagePadding_def x(1) Let_def num_mul.simps r k(1)
    using num_mul.simps(1) [of 10 "of_int k"] by (simp del: toFixed.simps num_mul.simps)
  also have "\<dots> = Fin (of_int (max 1000 (10 * k)))"
    by (simp only: num_max_def num_less.simps of_int_less_iff) auto
  finally show ?thesis using k(3) by (intro exI [of _ "max 1000 (10 * k)"]) auto
qed

lemma deposit_int:
  assumes "0 \<le> amount" "amount \<le> 2 ^ 49" "0 \<le> f" "f \<le> 10 ^ 9"
  shows "\<exists>p. calculateStabilityPoolDeposit (Fin (of_int amount)) (Fin (of_int bal)) (Fin (of_int f)) =
      Fin (of_int (min bal (amount + p))) \<and> 1000 \<le> p \<and> p \<le> max 1000 (10 * amount)"
proof -
  from leakagePadding_int [OF assms] obtain p where
    p: "leakagePadding (Fin (of_int amount)) (Fin (of_int f)) = Fin (of_int p)"
      "1000 \<le> p" "p \<le> max 1000 (10 * amount)" by blast
  have small: "0 \<le> amount + p" "amount + p \<le> 2 ^ 53" using assms(1,2) p(2,3) by auto
  then have "rounded (of_int (amount + p)) = Fin (of_int (amount + p))" by (intro rounded_int) simp
  then have "num_add (Fin (of_int amount)) (Fin (of_int p)) = Fin (of_int (amount + p))" by simp
  then have "calculateStabilityPoolDeposit (Fin (of_int amount)) (Fin (of_int bal)) (Fin (of_int f)) =
      num_min (Fin (of_int bal)) (Fin (of_int (amount + p)))"
    by (simp only: calculateStabilityPoolDeposit_def p(1) toFixed_0_int [OF small])
  also have "\<dots> = Fin (of_int (min bal (amount + p)))"
    by (simp only: num_min_def num_less.simps of_int_less_iff) auto
  finally show ?thesis using p by blast
qed


definition pool_federation :: obj where
  "pool_federation =
     [(''id'', JStr ''a''), (''init_state'', JStr ''ready''), (''balance'', JNum 2000000), (''name'', JStr ''a''),
      (''meta'', JObj []), (''recovering'', JBool False),
      (''fediFeeSchedule'', JObj [(''modules'', JObj [(''stability_pool'', JObj [(''sendPpm'', JNum 5000)])])]),
      (''clientConfig'', JObj [(''modules'', JObj [(''0'', JObj [(''kind'', JStr ''stability_pool''),
         (''max_allowed_provide_fee_rate_ppb'', JNum 40000)])])])]"

definition pool_store :: WalletStore where
  "pool_store = \<lparr> wallet = [], federation = initialFederationState\<lparr>federations := [pool_federation]\<rparr>,
     currency = \<lparr> overrideCurrency = None, customFederationCurrencies = [], btcUsdRate = Fin 60000,
       fiatUsdRates = [] \<rparr> \<rparr>"

lemma pool_loaded:
  "selectLoadedFederation (federation pool_store) ''a'' = Some (jm_spread pool_federation
     [(''init_state'', JStr ''ready''), (''name'', JStr (getFederationName pool_federation)),
      (''recovering'', JBool False)])"
  by (simp add: selectLoadedFederation_def selectLoadedFederations_def pool_store_def has_id_def
      initialFederationState_def js_seq_def obj_get_spread js_or_def)
     (simp add: pool_federation_def obj_get_def jm_get_def)


section \<open>Settling an operation\<close>

lemma settle_own: "settle verdict f i (filter (own_event f i) es) = settle verdict f i es"
  by (induction es) (auto split: option.splits bool.splits)

lemma settle_append:
  "settle verdict f i (xs @ ys) =
     (case settle verdict f i xs of None \<Rightarrow> settle verdict f i ys | Some r \<Rightarrow> Some r)"
  by (induction xs) (auto split: option.splits bool.splits)

lemma settle_None:
  "settle verdict f i es = None \<longleftrightarrow> list_all (\<lambda>e. own_event f i e \<longrightarrow> verdict (event_state e) = None) es"
  by (induction es) (auto split: option.splits bool.splits)

text \<open>
  The promise of a pool operation settles exactly once, with the first event of the operation
  itself that is a verdict: events of other operations do not matter, and nothing that happens
  afterwards changes the outcome.
\<close>

theorem operation_settles_once:
  "settle verdict f i (filter (own_event f i) events) = settle verdict f i events \<and>
   settle verdict f i (events @ later) =
     (case settle verdict f i events of None \<Rightarrow> settle verdict f i later | Some r \<Rightarrow> Some r) \<and>
   (settle verdict f i events = None \<longleftrightarrow>
     filter (\<lambda>e. own_event f i e \<and> verdict (event_state e) \<noteq> None) events = [])"
  by (simp only: settle_own settle_append settle_None) (auto simp: filter_empty_conv list_all_iff)

text \<open>
  C513. A withdrawal of the second version that goes from the staged balance alone, or fails to
  give its output, never settles: the listener looks at neither the successful state, nor the
  accepted withdrawal, nor the error of the output.
\<close>

fun staged_only :: "SPv2WithdrawalState \<Rightarrow> bool" where
  "staged_only WithdrawalStarted \<longleftrightarrow> True"
| "staged_only (WithdrawalInitiated _) \<longleftrightarrow> True"
| "staged_only (WithdrawalTxAccepted _) \<longleftrightarrow> True"
| "staged_only (WithdrawalSuccess _) \<longleftrightarrow> True"
| "staged_only (WithdrawalPrimaryOutputError _) \<longleftrightarrow> True"
| "staged_only _ \<longleftrightarrow> False"

theorem spv2_success_never_settles:
  assumes "list_all (\<lambda>e. own_event f i e \<longrightarrow> staged_only (event_state e)) events"
  shows "settle spv2_withdrawal_verdict f i events = None"
proof -
  have "spv2_withdrawal_verdict s = None" if "staged_only s" for s
    using that by (cases s) auto
  with assms show ?thesis by (simp add: settle_None list_all_iff)
qed

theorem spv2_success_never_settles_witness:
  "settle spv2_withdrawal_verdict ''f'' ''op''
     [\<lparr> event_federationId = ''f'', event_operationId = ''op'', event_state = WithdrawalStarted \<rparr>,
      \<lparr> event_federationId = ''f'', event_operationId = ''op'', event_state = WithdrawalSuccess (Fin 1000) \<rparr>] = None"
  by (rule spv2_success_never_settles) (simp add: own_event_def)

section \<open>State of each federation\<close>

fun action_federation :: "wallet_action \<Rightarrow> string option" where
  "action_federation (SetStabilityPoolState i _) = Some i"
| "action_federation (SetStabilityPoolAvailableLiquidity i _) = Some i"
| "action_federation (ResetFederationWalletState i) = Some i"
| "action_federation ResetWalletState = None"
| "action_federation (SetLnurlReceiveCode i _) = Some i"
| "action_federation (SetSupportsRecurringdLnurl i _) = Some i"
| "action_federation (FetchAvailableLiquidityFulfilled i _) = Some i"
| "action_federation (FetchAverageFeeRateFulfilled i _) = Some i"

lemma change_wallet_other:
  "j \<noteq> i \<Longrightarrow> getFederationWalletState (change_wallet i f s) j = getFederationWalletState s j"
  by (simp add: change_wallet_def getFederationWalletState_def)

lemma wallet_step_other:
  "action_federation a \<noteq> None \<Longrightarrow> action_federation a \<noteq> Some j \<Longrightarrow>
     getFederationWalletState (walletSlice s a) j = getFederationWalletState s j"
  by (cases a) (auto simp: change_wallet_other, simp add: getFederationWalletState_def)

text \<open>
  The wallets of the federations are separate: actions on other federations leave the state
  of a federation as it is.
\<close>

theorem wallets_separate:
  assumes "list_all (\<lambda>a. action_federation a \<noteq> None \<and> action_federation a \<noteq> Some j) actions"
  shows "getFederationWalletState (run walletSlice s actions) j = getFederationWalletState s j"
  using assms by (induction actions arbitrary: s) (auto simp: wallet_step_other)

theorem wallets_separate_witness:
  "getFederationWalletState (run walletSlice [] [SetLnurlReceiveCode ''a'' ''x'', ResetFederationWalletState ''a'']) ''b''
    = initialFederationWalletState"
  using wallets_separate [of "''b''" "[SetLnurlReceiveCode ''a'' ''x'', ResetFederationWalletState ''a'']" "[]"]
  by (simp add: getFederationWalletState_def)

end
