(* ===== verification/Matrix_Events.thy ===== *)
theory Matrix_Events
  imports Js_Value
begin

text \<open>
  The events of chat rooms and what \<^verbatim>\<open>ui/common/utils/matrix.ts\<close> computes from them: which events a
  conversation shows, which payments can be claimed or reclaimed, how pinned messages, reactions and
  groups of messages are put together. The types are those of \<^verbatim>\<open>ui/common/types/bindings.ts\<close>, without
  the fields nothing here reads. A field that may be missing is an option; a spread of such a record
  keeps the old value where the new one is missing. Times and amounts are integers.
\<close>

section \<open>Content of events\<close>

datatype RpcMatrixPaymentStatus = pushed | requested | accepted | rejected | canceled | received

record RpcPaymentMessageContent =
  pay_body :: string
  pay_status :: RpcMatrixPaymentStatus
  pay_paymentId :: string
  pay_recipientId :: "string option"
  pay_senderOperationId :: "string option"
  pay_receiverOperationId :: "string option"
  pay_amount :: int
  pay_senderId :: "string option"
  pay_ecash :: "string option"
  pay_federationId :: "string option"
  pay_bolt11 :: "string option"
  pay_inviteCode :: "string option"

record GroupInvitation =
  signers :: "string list"
  threshold :: nat
  federationInviteCode :: string
  inv_federationName :: string

datatype WithdrawalResponseType =
  approve string | reject | complete_response int string | txRejected string

datatype MultispendEvent =
    groupInvitation GroupInvitation string
  | groupInvitationVote string "string option"
  | groupInvitationCancel string
  | groupReannounce string GroupInvitation string
  | depositNotification int string string
  | withdrawalRequest int string
  | withdrawalResponse string WithdrawalResponseType

text \<open>The body of a message with its formatted body.\<close>

record RpcTextLikeContent =
  txt_body :: string
  txt_formatted :: "string option"

record RpcMediaContent =
  media_body :: string
  media_mimetype :: "string option"
  media_width :: "int option"
  media_height :: "int option"

record RpcPollResult =
  poll_body :: string
  poll_answers :: "(string \<times> string) list"
  poll_votes :: "(string, string list) jsmap"
  poll_endTime :: "int option"

record RpcRoomMemberEventContent =
  member_userId :: string
  member_userDisplayName :: "string option"
  member_change :: "string option"

datatype RpcMsgLikeKind =
    m_text RpcTextLikeContent
  | m_notice RpcTextLikeContent
  | m_emote RpcTextLikeContent
  | federationInvite RpcTextLikeContent
  | communityInvite RpcTextLikeContent
  | m_file RpcMediaContent
  | m_image RpcMediaContent
  | m_video RpcMediaContent
  | m_audio RpcMediaContent
  | m_poll RpcPollResult
  | payment RpcPaymentMessageContent
  | form string
  | multispend MultispendEvent
  | m_room_member RpcRoomMemberEventContent
  | spTransfer bool
  | failedToParseCustom string string
  | unknown
  | redacted
  | unableToDecrypt
  | preview_media string

record RpcTimelineReaction =
  reaction_key :: string
  reaction_count :: nat
  reaction_userIds :: "string list"

text \<open>The event an event answers, as far as it is loaded.\<close>

datatype inReply_details = reply_unavailable | reply_pending | reply_ready string RpcMsgLikeKind | reply_error

record MatrixEvent =
  ev_id :: string
  ev_roomId :: string
  content :: RpcMsgLikeKind
  timestamp :: int
  sender :: string
  inReply :: "inReply_details option"
  canReact :: bool
  reactions :: "RpcTimelineReaction list"

fun msgtype :: "RpcMsgLikeKind \<Rightarrow> string" where
  "msgtype (m_text _) = ''m.text''"
| "msgtype (m_notice _) = ''m.notice''"
| "msgtype (m_emote _) = ''m.emote''"
| "msgtype (federationInvite _) = ''xyz.fedi.federationInvite''"
| "msgtype (communityInvite _) = ''xyz.fedi.communityInvite''"
| "msgtype (m_file _) = ''m.file''"
| "msgtype (m_image _) = ''m.image''"
| "msgtype (m_video _) = ''m.video''"
| "msgtype (m_audio _) = ''m.audio''"
| "msgtype (m_poll _) = ''m.poll''"
| "msgtype (payment _) = ''xyz.fedi.payment''"
| "msgtype (form _) = ''xyz.fedi.form''"
| "msgtype (multispend _) = ''xyz.fedi.multispend''"
| "msgtype (m_room_member _) = ''m.room.member''"
| "msgtype (spTransfer _) = ''spTransfer''"
| "msgtype (failedToParseCustom _ _) = ''failedToParseCustom''"
| "msgtype unknown = ''unknown''"
| "msgtype redacted = ''redacted''"
| "msgtype unableToDecrypt = ''unableToDecrypt''"
| "msgtype (preview_media _) = ''xyz.fedi.preview-media''"

section \<open>Kinds of events\<close>

text \<open>The payment of a payment event; \<^verbatim>\<open>isPaymentEvent\<close> is that there is one.\<close>

fun payment_of :: "RpcMsgLikeKind \<Rightarrow> RpcPaymentMessageContent option" where
  "payment_of (payment p) = Some p"
| "payment_of _ = None"

definition isPaymentEvent :: "MatrixEvent \<Rightarrow> bool" where
  "isPaymentEvent event \<longleftrightarrow> payment_of (content event) \<noteq> None"

fun multispend_of :: "RpcMsgLikeKind \<Rightarrow> MultispendEvent option" where
  "multispend_of (multispend m) = Some m"
| "multispend_of _ = None"

definition isMultispendEvent :: "MatrixEvent \<Rightarrow> bool" where
  "isMultispendEvent event \<longleftrightarrow> multispend_of (content event) \<noteq> None"

definition isMultispendWithdrawalResponseEvent :: "MatrixEvent \<Rightarrow> bool" where
  "isMultispendWithdrawalResponseEvent event \<longleftrightarrow>
     (case multispend_of (content event) of Some (withdrawalResponse _ _) \<Rightarrow> True | _ \<Rightarrow> False)"

definition isMatrixMultispendWithdrawalEvent :: "MatrixEvent \<Rightarrow> bool" where
  "isMatrixMultispendWithdrawalEvent event \<longleftrightarrow>
     (case multispend_of (content event) of Some (withdrawalRequest _ _) \<Rightarrow> True | _ \<Rightarrow> False)"

definition isMatrixMultispendDepositEvent :: "MatrixEvent \<Rightarrow> bool" where
  "isMatrixMultispendDepositEvent event \<longleftrightarrow>
     (case multispend_of (content event) of Some (depositNotification _ _ _) \<Rightarrow> True | _ \<Rightarrow> False)"

definition isMultispendInvitationEvent :: "MatrixEvent \<Rightarrow> bool" where
  "isMultispendInvitationEvent event \<longleftrightarrow>
     (case multispend_of (content event) of Some (groupInvitation _ _) \<Rightarrow> True | _ \<Rightarrow> False)"

definition isMultispendInvitationVoteEvent :: "MatrixEvent \<Rightarrow> bool" where
  "isMultispendInvitationVoteEvent event \<longleftrightarrow>
     (case multispend_of (content event) of Some (groupInvitationVote _ _) \<Rightarrow> True | _ \<Rightarrow> False)"

definition isMultispendInvitationCancelEvent :: "MatrixEvent \<Rightarrow> bool" where
  "isMultispendInvitationCancelEvent event \<longleftrightarrow>
     (case multispend_of (content event) of Some (groupInvitationCancel _) \<Rightarrow> True | _ \<Rightarrow> False)"

definition isMultispendReannounceEvent :: "MatrixEvent \<Rightarrow> bool" where
  "isMultispendReannounceEvent event \<longleftrightarrow>
     (case multispend_of (content event) of Some (groupReannounce _ _ _) \<Rightarrow> True | _ \<Rightarrow> False)"

fun room_member_of :: "RpcMsgLikeKind \<Rightarrow> RpcRoomMemberEventContent option" where
  "room_member_of (m_room_member r) = Some r"
| "room_member_of _ = None"

definition isRoomMemberEvent :: "MatrixEvent \<Rightarrow> bool" where
  "isRoomMemberEvent event \<longleftrightarrow> room_member_of (content event) \<noteq> None"

definition isJoinedRoomMemberEvent :: "MatrixEvent \<Rightarrow> bool" where
  "isJoinedRoomMemberEvent event \<longleftrightarrow>
     (case room_member_of (content event) of
        None \<Rightarrow> False
      | Some r \<Rightarrow> member_change r = Some ''joined'' \<or> member_change r = Some ''invitationAccepted'')"

definition isPreviewableRoomMemberEvent :: "MatrixEvent \<Rightarrow> bool" where
  "isPreviewableRoomMemberEvent event \<longleftrightarrow>
     (case room_member_of (content event) of
        None \<Rightarrow> False
      | Some r \<Rightarrow> member_change r = Some ''invitationAccepted'')"

definition isTextEvent :: "MatrixEvent \<Rightarrow> bool" where
  "isTextEvent event \<longleftrightarrow> msgtype (content event) = ''m.text''"

definition isImageEvent :: "MatrixEvent \<Rightarrow> bool" where
  "isImageEvent event \<longleftrightarrow> msgtype (content event) = ''m.image''"

definition isVideoEvent :: "MatrixEvent \<Rightarrow> bool" where
  "isVideoEvent event \<longleftrightarrow> msgtype (content event) = ''m.video''"

definition isFileEvent :: "MatrixEvent \<Rightarrow> bool" where
  "isFileEvent event \<longleftrightarrow> msgtype (content event) = ''m.file''"

definition isDeletedEvent :: "MatrixEvent \<Rightarrow> bool" where
  "isDeletedEvent event \<longleftrightarrow> msgtype (content event) = ''redacted''"

definition isEncryptedEvent :: "MatrixEvent \<Rightarrow> bool" where
  "isEncryptedEvent event \<longleftrightarrow> msgtype (content event) = ''unableToDecrypt''"

definition isPollEvent :: "MatrixEvent \<Rightarrow> bool" where
  "isPollEvent event \<longleftrightarrow> msgtype (content event) = ''m.poll''"

definition isFormEvent :: "MatrixEvent \<Rightarrow> bool" where
  "isFormEvent event \<longleftrightarrow> msgtype (content event) = ''xyz.fedi.form''"

definition isFederationInviteEvent :: "MatrixEvent \<Rightarrow> bool" where
  "isFederationInviteEvent event \<longleftrightarrow> msgtype (content event) = ''xyz.fedi.federationInvite''"

definition isCommunityInviteEvent :: "MatrixEvent \<Rightarrow> bool" where
  "isCommunityInviteEvent event \<longleftrightarrow> msgtype (content event) = ''xyz.fedi.communityInvite''"

definition isPreviewMediaEvent :: "MatrixEvent \<Rightarrow> bool" where
  "isPreviewMediaEvent event \<longleftrightarrow> msgtype (content event) = ''xyz.fedi.preview-media''"

definition canReplyToMatrixEvent :: "MatrixEvent \<Rightarrow> bool" where
  "canReplyToMatrixEvent event \<longleftrightarrow>
     msgtype (content event) \<in> set [''m.text'', ''m.notice'', ''m.emote''] \<or>
     isImageEvent event \<or> isVideoEvent event \<or> isFileEvent event"

definition isSpTransferEvent :: "MatrixEvent \<Rightarrow> bool" where
  "isSpTransferEvent event \<longleftrightarrow> msgtype (content event) = ''spTransfer''"

text \<open>\<^verbatim>\<open>isBolt11\<close> of the invoice parser is a parameter.\<close>

definition isBolt11PaymentEvent :: "(string \<Rightarrow> bool) \<Rightarrow> MatrixEvent \<Rightarrow> bool" where
  "isBolt11PaymentEvent isBolt11 event \<longleftrightarrow>
     (case content event of
        payment p \<Rightarrow> (case pay_bolt11 p of None \<Rightarrow> False | Some b \<Rightarrow> b \<noteq> [])
      | m_text t \<Rightarrow> isBolt11 (txt_body t)
      | _ \<Rightarrow> False)"

definition RpcMatrixEventKinds :: "string list" where
  "RpcMatrixEventKinds =
     [''m.text'', ''m.image'', ''m.video'', ''m.audio'', ''m.file'', ''m.notice'', ''m.emote'',
      ''m.room.member'', ''xyz.fedi.payment'', ''xyz.fedi.form'', ''xyz.fedi.multispend'',
      ''xyz.fedi.federationInvite'', ''xyz.fedi.communityInvite'', ''m.poll'', ''spTransfer'',
      ''redacted'', ''unableToDecrypt'', ''failedToParseCustom'', ''unknown'']"

definition isRpcMatrixEvent :: "MatrixEvent \<Rightarrow> bool" where
  "isRpcMatrixEvent item \<longleftrightarrow> msgtype (content item) \<in> set RpcMatrixEventKinds"

definition SelectableEventKinds :: "string list" where
  "SelectableEventKinds =
     [''m.text'', ''m.image'', ''m.video'', ''m.audio'', ''m.file'', ''m.notice'', ''m.emote'', ''m.poll'',
      ''xyz.fedi.payment'', ''xyz.fedi.federationInvite'', ''xyz.fedi.communityInvite'']"

end
