(* ===== verification/Chat_Events.thy ===== *)
theory Chat_Events
  imports Matrix_Events Federation_Slice
begin

text \<open>
  \<^verbatim>\<open>ui/common/utils/matrix.ts\<close>: what a conversation shows of its events. Payments are sent as several
  events with one identifier and shown as one row with the latest content; helper events of
  multispend groups and of transfers are hidden; pinned events are resolved to shown rows.
\<close>

section \<open>Hidden events\<close>

definition filterMultispendEvents :: "MatrixEvent list \<Rightarrow> MatrixEvent list" where
  "filterMultispendEvents events =
     filter (\<lambda>event. \<not> isMultispendReannounceEvent event \<and> \<not> isMultispendInvitationCancelEvent event \<and>
       \<not> isMultispendWithdrawalResponseEvent event \<and> \<not> isMultispendInvitationVoteEvent event) events"

definition filterVirtualSpTransferEvents :: "MatrixEvent list \<Rightarrow> MatrixEvent list" where
  "filterVirtualSpTransferEvents events =
     filter (\<lambda>event. \<not> (case content event of spTransfer shouldRender \<Rightarrow> \<not> shouldRender | _ \<Rightarrow> False)) events"

section \<open>One row for each payment\<close>

fun keep_newer :: "'a option \<Rightarrow> 'a option \<Rightarrow> 'a option" where
  "keep_newer old (Some v) = Some v"
| "keep_newer old None = old"

text \<open>The spread of the latest content over the content of the first event.\<close>

definition spread_payment ::
  "RpcPaymentMessageContent \<Rightarrow> RpcPaymentMessageContent \<Rightarrow> RpcPaymentMessageContent" where
  "spread_payment old new =
     \<lparr> pay_body = pay_body new, pay_status = pay_status new, pay_paymentId = pay_paymentId new,
       pay_recipientId = keep_newer (pay_recipientId old) (pay_recipientId new),
       pay_senderOperationId = keep_newer (pay_senderOperationId old) (pay_senderOperationId new),
       pay_receiverOperationId = keep_newer (pay_receiverOperationId old) (pay_receiverOperationId new),
       pay_amount = pay_amount new,
       pay_senderId = keep_newer (pay_senderId old) (pay_senderId new),
       pay_ecash = keep_newer (pay_ecash old) (pay_ecash new),
       pay_federationId = keep_newer (pay_federationId old) (pay_federationId new),
       pay_bolt11 = keep_newer (pay_bolt11 old) (pay_bolt11 new),
       pay_inviteCode = keep_newer (pay_inviteCode old) (pay_inviteCode new) \<rparr>"

definition is_initial_payment :: "RpcPaymentMessageContent \<Rightarrow> bool" where
  "is_initial_payment p \<longleftrightarrow> pay_status p \<in> set [pushed, requested]"

text \<open>The callback of the filter: whether the event stays, and the latest event of each payment.\<close>

fun payment_pass ::
  "(string, MatrixEvent) jsmap \<Rightarrow> MatrixEvent list \<Rightarrow> MatrixEvent list \<times> (string, MatrixEvent) jsmap" where
  "payment_pass latestPayments [] = ([], latestPayments)"
| "payment_pass latestPayments (event # events) =
     (case payment_of (content event) of
        None \<Rightarrow>
          let (filteredEvents, latest) = payment_pass latestPayments events
          in (event # filteredEvents, latest)
      | Some p \<Rightarrow>
          let (filteredEvents, latest) = payment_pass (jm_set (pay_paymentId p) event latestPayments) events
          in (if is_initial_payment p then event # filteredEvents else filteredEvents, latest))"

definition with_latest :: "(string, MatrixEvent) jsmap \<Rightarrow> MatrixEvent \<Rightarrow> MatrixEvent" where
  "with_latest latestPayments event =
     (case payment_of (content event) of
        None \<Rightarrow> event
      | Some p \<Rightarrow>
          (case jm_get latestPayments (pay_paymentId p) of
             None \<Rightarrow> event
           | Some latestPayment \<Rightarrow>
               if ev_id event = ev_id latestPayment then event
               else (case payment_of (content latestPayment) of
                       None \<Rightarrow> event
                     | Some q \<Rightarrow> event\<lparr>content := payment (spread_payment p q)\<rparr>)))"

definition consolidatePaymentEvents :: "MatrixEvent list \<Rightarrow> MatrixEvent list" where
  "consolidatePaymentEvents events =
     (let (filteredEvents, latestPayments) = payment_pass [] events
      in map (with_latest latestPayments) filteredEvents)"

section \<open>Pinned events\<close>

definition resolvePinnedEventToConversationEvent ::
  "MatrixEvent \<Rightarrow> (string, MatrixEvent) jsmap \<Rightarrow> (string, MatrixEvent) jsmap \<Rightarrow> MatrixEvent option" where
  "resolvePinnedEventToConversationEvent pinnedEvent visibleEventsById visiblePaymentEventsByPaymentId =
     (let standalone =
            (case consolidatePaymentEvents
                    (filterVirtualSpTransferEvents (filterMultispendEvents [pinnedEvent])) of
               [] \<Rightarrow> None | event # _ \<Rightarrow> Some event)
      in case jm_get visibleEventsById (ev_id pinnedEvent) of
           Some visibleEvent \<Rightarrow> Some visibleEvent
         | None \<Rightarrow>
             (case payment_of (content pinnedEvent) of
                None \<Rightarrow> standalone
              | Some p \<Rightarrow>
                  (case jm_get visiblePaymentEventsByPaymentId (pay_paymentId p) of
                     Some event \<Rightarrow> Some event
                   | None \<Rightarrow> standalone)))"

section \<open>Payments to claim\<close>

text \<open>
  The federation of a payment is joined and not recovering. Federations are the objects of the
  federation slice.
\<close>

definition can_reissue :: "obj list \<Rightarrow> string option \<Rightarrow> bool" where
  "can_reissue myFederations federationId =
     (case federationId of
        None \<Rightarrow> False
      | Some i \<Rightarrow>
          i \<noteq> [] \<and>
          (case find (has_id i) myFederations of
             None \<Rightarrow> False
           | Some joinedFederation \<Rightarrow> \<not> truthy (obj_get joinedFederation ''recovering'')))"

definition is_receivable :: "string \<Rightarrow> obj list \<Rightarrow> MatrixEvent option \<Rightarrow> bool" where
  "is_receivable myId myFederations item =
     (case item of
        None \<Rightarrow> False
      | Some event \<Rightarrow>
          (case payment_of (content event) of
             None \<Rightarrow> False
           | Some p \<Rightarrow> pay_recipientId p = Some myId \<and> can_reissue myFederations (pay_federationId p)))"

definition note_payment ::
  "string \<Rightarrow> obj list \<Rightarrow> (string, MatrixEvent) jsmap \<Rightarrow> MatrixEvent option \<Rightarrow> (string, MatrixEvent) jsmap" where
  "note_payment myId myFederations latestPayments item =
     (case item of
        None \<Rightarrow> latestPayments
      | Some event \<Rightarrow>
          (case payment_of (content event) of
             None \<Rightarrow> latestPayments
           | Some p \<Rightarrow>
               if is_receivable myId myFederations item then jm_set (pay_paymentId p) event latestPayments
               else latestPayments))"

definition has_status :: "RpcMatrixPaymentStatus list \<Rightarrow> MatrixEvent \<Rightarrow> bool" where
  "has_status statuses event =
     (case payment_of (content event) of None \<Rightarrow> False | Some p \<Rightarrow> pay_status p \<in> set statuses)"

definition getReceivablePaymentEvents ::
  "MatrixEvent option list \<Rightarrow> string \<Rightarrow> obj list \<Rightarrow> MatrixEvent list" where
  "getReceivablePaymentEvents timeline myId myFederations =
     filter (has_status [accepted, pushed]) (jm_values (foldl (note_payment myId myFederations) [] timeline))"

definition is_reclaimable :: "string \<Rightarrow> obj list \<Rightarrow> MatrixEvent \<Rightarrow> bool" where
  "is_reclaimable myId myFederations event =
     (case payment_of (content event) of
        None \<Rightarrow> False
      | Some p \<Rightarrow>
          pay_senderId p = Some myId \<and>
          (case pay_ecash p of None \<Rightarrow> False | Some ecash \<Rightarrow> ecash \<noteq> []) \<and>
          pay_status p = rejected \<and> can_reissue myFederations (pay_federationId p))"

definition getReclaimablePaymentEvents ::
  "MatrixEvent option list \<Rightarrow> string \<Rightarrow> obj list \<Rightarrow> MatrixEvent list" where
  "getReclaimablePaymentEvents timeline myId myFederations =
     filter (is_reclaimable myId myFederations) (List.map_filter id timeline)"

section \<open>Reactions\<close>

definition MAX_CHAT_REACTION_EMOJIS :: nat where
  "MAX_CHAT_REACTION_EMOJIS = 7"

record MatrixReactionChip =
  chip_key :: string
  chip_count :: nat
  reactedByMe :: bool
  chip_userIds :: "string list"

definition makeMatrixReactionChips :: "RpcTimelineReaction list \<Rightarrow> string option \<Rightarrow> MatrixReactionChip list" where
  "makeMatrixReactionChips items myId =
     map (\<lambda>r. \<lparr> chip_key = reaction_key r, chip_count = reaction_count r,
         reactedByMe = (case myId of None \<Rightarrow> False | Some i \<Rightarrow> i \<noteq> [] \<and> i \<in> set (reaction_userIds r)),
         chip_userIds = reaction_userIds r \<rparr>)
       (take MAX_CHAT_REACTION_EMOJIS (filter (\<lambda>r. reaction_count r > 0) items))"

definition canAddMatrixReaction :: "MatrixEvent \<Rightarrow> string \<Rightarrow> bool" where
  "canAddMatrixReaction event reactionKey \<longleftrightarrow>
     canReact event \<and>
     (list_ex (\<lambda>r. reaction_key r = reactionKey) (reactions event) \<or>
      length (reactions event) < MAX_CHAT_REACTION_EMOJIS)"

text \<open>The item found at an index goes first; the rest keeps its order.\<close>

fun find_index :: "('a \<Rightarrow> bool) \<Rightarrow> 'a list \<Rightarrow> nat option" where
  "find_index p [] = None"
| "find_index p (x # xs) = (if p x then Some 0 else map_option Suc (find_index p xs))"

definition to_front :: "('a \<Rightarrow> bool) \<Rightarrow> 'a list \<Rightarrow> 'a list" where
  "to_front p xs =
     (case find_index p xs of
        None \<Rightarrow> xs
      | Some i \<Rightarrow> xs ! i # take i xs @ drop (i + 1) xs)"

text \<open>The users of a reaction; users who are not members are shown with the name of their identifier.\<close>

definition makeMatrixReactionUsers ::
  "(string \<Rightarrow> string) \<Rightarrow> string list option \<Rightarrow> (string, obj) jsmap \<Rightarrow> string option \<Rightarrow> obj list" where
  "makeMatrixReactionUsers matrixIdToUsername reaction memberMap myId =
     (case reaction of
        None \<Rightarrow> []
      | Some userIds \<Rightarrow>
          to_front (\<lambda>user. case myId of None \<Rightarrow> False | Some i \<Rightarrow> has_id i user)
            (map (\<lambda>userId. case jm_get memberMap userId of
                 Some member \<Rightarrow> member
               | None \<Rightarrow> [(''id'', JStr userId), (''displayName'', JStr (matrixIdToUsername userId)),
                   (''avatarUrl'', JUndef), (''membership'', JStr ''join'')]) userIds))"

section \<open>Groups of messages\<close>

definition within_minute :: "MatrixEvent \<Rightarrow> MatrixEvent \<Rightarrow> bool" where
  "within_minute lastEvent event \<longleftrightarrow>
     timestamp lastEvent \<noteq> 0 \<and> timestamp event \<noteq> 0 \<and> \<bar>timestamp lastEvent - timestamp event\<bar> \<le> 60000"

text \<open>
  The last time group is the last of the groups; an event is added to its last run of messages, as a
  run of its own to it, or as a time group of its own.
\<close>

definition add_to_groups ::
  "MatrixEvent list list list \<times> MatrixEvent option \<Rightarrow> MatrixEvent \<Rightarrow>
     MatrixEvent list list list \<times> MatrixEvent option" where
  "add_to_groups st event =
     (case st of (eventGroups, lastEvent) \<Rightarrow>
        ((case lastEvent of
            None \<Rightarrow> eventGroups @ [[[event]]]
          | Some e \<Rightarrow>
              if within_minute e event
              then (let currentTimeGroup = last eventGroups
                    in butlast eventGroups @
                       [if sender e = sender event
                        then butlast currentTimeGroup @ [last currentTimeGroup @ [event]]
                        else currentTimeGroup @ [[event]]])
              else eventGroups @ [[[event]]]),
         Some event))"

datatype sort_order = desc | asc

definition orderBy_time :: "sort_order \<Rightarrow> MatrixEvent list \<Rightarrow> MatrixEvent list" where
  "orderBy_time sortOrder events =
     (case sortOrder of desc \<Rightarrow> orderBy_desc timestamp events | asc \<Rightarrow> sort_key timestamp events)"

definition makeMatrixEventGroups :: "MatrixEvent list \<Rightarrow> sort_order \<Rightarrow> MatrixEvent list list list" where
  "makeMatrixEventGroups events sortOrder = fst (foldl add_to_groups ([], None) (orderBy_time sortOrder events))"


section \<open>The rows of a conversation\<close>

definition shown_payment :: "MatrixEvent \<Rightarrow> bool" where
  "shown_payment event \<longleftrightarrow> (case payment_of (content event) of None \<Rightarrow> True | Some p \<Rightarrow> is_initial_payment p)"

definition has_paymentId :: "string \<Rightarrow> MatrixEvent \<Rightarrow> bool" where
  "has_paymentId i event \<longleftrightarrow> (case payment_of (content event) of None \<Rightarrow> False | Some p \<Rightarrow> pay_paymentId p = i)"

lemma payment_pass_spec:
  "payment_pass m es = (filter shown_payment es, m') \<Longrightarrow>
     jm_get m' i = (if filter (has_paymentId i) es = [] then jm_get m i else Some (last (filter (has_paymentId i) es)))"
  by (induction es arbitrary: m m')
     (auto simp: has_paymentId_def shown_payment_def split: option.splits prod.splits if_splits)

lemma payment_pass_filter: "fst (payment_pass m es) = filter shown_payment es"
  by (induction es arbitrary: m) (auto simp: shown_payment_def split_beta Let_def split: option.splits)

lemma payment_pass_latest:
  "jm_get (snd (payment_pass m es)) i =
     (if filter (has_paymentId i) es = [] then jm_get m i else Some (last (filter (has_paymentId i) es)))"
  using payment_pass_spec [of m es "snd (payment_pass m es)"] payment_pass_filter [of m es]
  by (metis prod.collapse)

lemma consolidate_map:
  "consolidatePaymentEvents es = map (with_latest (snd (payment_pass [] es))) (filter shown_payment es)"
  by (simp add: consolidatePaymentEvents_def split_beta payment_pass_filter)


text \<open>The latest event of a payment, and the row shown for its first event.\<close>

definition latest_of :: "MatrixEvent list \<Rightarrow> string \<Rightarrow> MatrixEvent" where
  "latest_of es i = last (filter (has_paymentId i) es)"

definition payment_row :: "MatrixEvent list \<Rightarrow> MatrixEvent \<Rightarrow> MatrixEvent" where
  "payment_row es event =
     (case payment_of (content event) of
        None \<Rightarrow> event
      | Some p \<Rightarrow>
          (case payment_of (content (latest_of es (pay_paymentId p))) of
             None \<Rightarrow> event
           | Some q \<Rightarrow> event\<lparr>content := payment (spread_payment p q)\<rparr>))"

lemma keep_newer_same [simp]: "keep_newer v v = v"
  by (cases v) auto

lemma spread_payment_same: "spread_payment p p = p"
  by (simp add: spread_payment_def)

lemma payment_of_Some: "payment_of c = Some p \<longleftrightarrow> c = payment p"
  by (cases c) auto

lemma with_latest_row:
  assumes "distinct (map ev_id es)" "event \<in> set es"
  shows "with_latest (snd (payment_pass [] es)) event = payment_row es event"
proof (cases "payment_of (content event)")
  case (Some p)
  let ?own = "filter (has_paymentId (pay_paymentId p)) es"
  have "event \<in> set ?own" using assms(2) Some by (simp add: has_paymentId_def)
  then have ne: "?own \<noteq> []" by (metis empty_iff empty_set)
  then have mem: "last ?own \<in> set ?own" by (rule last_in_set)
  then obtain q where q: "payment_of (content (last ?own)) = Some q"
    by (auto simp: has_paymentId_def split: option.splits)
  have "event = last ?own" if "ev_id event = ev_id (last ?own)"
    using that assms mem by (metis filter_is_subset inj_on_eq_iff distinct_map subsetD)
  then show ?thesis
    using Some q ne
    by (auto simp: with_latest_def payment_row_def payment_pass_latest latest_of_def spread_payment_same
        payment_of_Some)
qed (simp add: with_latest_def payment_row_def)


definition payment_event :: "string \<Rightarrow> RpcMatrixPaymentStatus \<Rightarrow> MatrixEvent" where
  "payment_event i status =
     \<lparr> ev_id = i, ev_roomId = ''!r:h'',
       content = payment \<lparr> pay_body = ''b'', pay_status = status, pay_paymentId = ''p'',
         pay_recipientId = Some ''@me:h'', pay_senderOperationId = None, pay_receiverOperationId = None,
         pay_amount = 1000, pay_senderId = Some ''@you:h'',
         pay_ecash = (if status = pushed then Some ''notes'' else None), pay_federationId = Some ''fed'',
         pay_bolt11 = None, pay_inviteCode = None \<rparr>,
       timestamp = 1, sender = ''@you:h'', inReply = None, canReact = True, reactions = [] \<rparr>"


section \<open>Payments that are claimed\<close>

text \<open>A payment to me whose e-cash I can reissue: its federation is joined and not recovering.\<close>

definition claimable :: "string \<Rightarrow> obj list \<Rightarrow> MatrixEvent option \<Rightarrow> bool" where
  "claimable myId feds item \<longleftrightarrow>
     (\<exists>event p i f. item = Some event \<and> payment_of (content event) = Some p \<and> pay_recipientId p = Some myId \<and>
        pay_federationId p = Some i \<and> i \<noteq> [] \<and> find (has_id i) feds = Some f \<and>
        \<not> truthy (obj_get f ''recovering''))"

lemma receivable_claimable: "claimable myId feds item = is_receivable myId feds item"
  by (auto simp: claimable_def is_receivable_def can_reissue_def split: option.splits)

definition receivable_for :: "string \<Rightarrow> obj list \<Rightarrow> MatrixEvent option list \<Rightarrow> string \<Rightarrow> MatrixEvent list" where
  "receivable_for myId feds timeline i =
     filter (has_paymentId i) (List.map_filter id (filter (claimable myId feds) timeline))"

lemma map_filter_id_snoc:
  "List.map_filter id (xs @ [x]) = List.map_filter id xs @ (case x of None \<Rightarrow> [] | Some e \<Rightarrow> [e])"
  by (induction xs) (auto simp: List.map_filter_def split: option.splits)

lemma noted_payments:
  "jm_get (foldl (note_payment myId feds) [] timeline) i =
     (if receivable_for myId feds timeline i = [] then None else Some (last (receivable_for myId feds timeline i)))"
  by (induction timeline rule: rev_induct)
     (auto simp: note_payment_def receivable_for_def receivable_claimable map_filter_id_snoc is_receivable_def has_paymentId_def
        List.map_filter_simps split: option.splits)

lemma noted_distinct: "distinct (jm_keys (foldl (note_payment myId feds) [] timeline))"
  by (induction timeline rule: rev_induct)
     (auto simp: note_payment_def jm_keys_def jm_distinct_set [unfolded jm_keys_def] split: option.splits)


definition payment_id :: "MatrixEvent \<Rightarrow> string option" where
  "payment_id event = map_option pay_paymentId (payment_of (content event))"

lemma has_paymentId_iff: "has_paymentId i event \<longleftrightarrow> payment_id event = Some i"
  by (auto simp: has_paymentId_def payment_id_def split: option.splits)

lemma set_map_filter_id: "e \<in> set (List.map_filter id xs) \<longleftrightarrow> Some e \<in> set xs"
  by (induction xs) (auto simp: List.map_filter_simps split: option.splits)

lemma receivable_for_mem:
  "e \<in> set (receivable_for myId feds timeline i) \<longleftrightarrow>
     payment_id e = Some i \<and> Some e \<in> set timeline \<and> is_receivable myId feds (Some e)"
  by (auto simp: receivable_for_def receivable_claimable has_paymentId_iff set_map_filter_id)

lemma noted_mem:
  "(i, e) \<in> set (foldl (note_payment myId feds) [] timeline) \<longleftrightarrow>
     receivable_for myId feds timeline i \<noteq> [] \<and> e = last (receivable_for myId feds timeline i)"
  using jm_get_iff_mem [OF noted_distinct] noted_payments by (metis option.distinct(1) option.inject)

lemma noted_ids:
  "list_all (\<lambda>(i, e). payment_id e = Some i) (foldl (note_payment myId feds) [] timeline)"
proof -
  have "payment_id e = Some i" if "(i, e) \<in> set (foldl (note_payment myId feds) [] timeline)" for i e
    using that receivable_for_mem [of e myId feds timeline i] last_in_set unfolding noted_mem by blast
  then show ?thesis by (auto simp: list_all_iff)
qed

text \<open>
  C28. The payments that are claimed are addressed to me, of federations that are joined and not
  recovering, and still open in the last such event of the payment; every payment whose last such
  event is open is claimed, and none twice.
\<close>

theorem claims_open_payments_once:
  "distinct (map payment_id (getReceivablePaymentEvents timeline myId feds)) \<and>
   (e \<in> set (getReceivablePaymentEvents timeline myId feds) \<longleftrightarrow>
     has_status [accepted, pushed] e \<and>
     (\<exists>i. receivable_for myId feds timeline i \<noteq> [] \<and> e = last (receivable_for myId feds timeline i)))"
proof
  let ?m = "foldl (note_payment myId feds) [] timeline"
  have "map payment_id (jm_values ?m) = map Some (jm_keys ?m)"
    using noted_ids [of myId feds timeline]
    by (auto simp: jm_values_def jm_keys_def list_all_iff split: prod.splits)
  then have "distinct (map payment_id (jm_values ?m))"
    using noted_distinct [of myId feds timeline] by (simp add: distinct_map)
  then show "distinct (map payment_id (getReceivablePaymentEvents timeline myId feds))"
    by (simp add: getReceivablePaymentEvents_def distinct_map_filter)
  show "e \<in> set (getReceivablePaymentEvents timeline myId feds) \<longleftrightarrow> has_status [accepted, pushed] e \<and>
     (\<exists>i. receivable_for myId feds timeline i \<noteq> [] \<and> e = last (receivable_for myId feds timeline i))"
    by (auto simp: getReceivablePaymentEvents_def jm_values_def noted_mem image_iff Bex_def)
qed

lemma reclaimable_iff:
  "e \<in> set (getReclaimablePaymentEvents timeline myId feds) \<longleftrightarrow>
     Some e \<in> set timeline \<and> is_reclaimable myId feds e"
  by (auto simp: getReclaimablePaymentEvents_def set_map_filter_id)

section \<open>Lists with one item moved to the front\<close>

lemma find_index_Some:
  "find_index p xs = Some i \<Longrightarrow> i < length xs \<and> p (xs ! i) \<and> (\<forall>j < i. \<not> p (xs ! j))"
proof (induction xs arbitrary: i)
  case (Cons x xs)
  show ?case
  proof (cases "p x")
    case False
    with Cons.prems obtain k where k: "find_index p xs = Some k" "i = Suc k" by auto
    have "\<not> p ((x # xs) ! j)" if "j < i" for j
      using Cons.IH [OF k(1)] k(2) False that by (cases j) auto
    then show ?thesis using Cons.IH [OF k(1)] k(2) by auto
  qed (use Cons.prems in auto)
qed simp

lemma find_index_None: "find_index p xs = None \<longleftrightarrow> list_all (\<lambda>x. \<not> p x) xs"
  by (induction xs) auto

lemma mset_to_front [simp]: "mset (to_front p xs) = mset xs"
proof (cases "find_index p xs")
  case (Some i)
  then have "xs = take i xs @ xs ! i # drop (i + 1) xs"
    using find_index_Some [OF Some] by (simp add: id_take_nth_drop)
  then have "mset xs = mset (take i xs @ xs ! i # drop (i + 1) xs)" by simp
  then show ?thesis using Some by (simp add: to_front_def)
qed (simp add: to_front_def)

lemma hd_to_front: "list_ex p xs \<Longrightarrow> find p xs = Some (hd (to_front p xs))"
proof -
  assume "list_ex p xs"
  then obtain i where i: "find_index p xs = Some i"
    using find_index_None [of p xs] by (cases "find_index p xs") (auto simp: list_ex_iff list_all_iff)
  then have "find p xs = Some (xs ! i)"
    using find_index_Some [OF i] by (auto simp: find_Some_iff)
  then show ?thesis using i by (simp add: to_front_def)
qed

end
