(* ===== verification/Matrix_Slice.thy ===== *)
theory Matrix_Slice
  imports Chat_Events Vector_Diff_Stream
begin

text \<open>
  \<^verbatim>\<open>ui/common/redux/matrix.ts\<close>: the state of the chat. Rooms, events and multispend groups have their
  types; members, users and power levels are JavaScript objects, since they are merged key by key.
  Parameters: \<open>isEqual\<close> is lodash's deep comparison of objects; what a thunk returned, and the url of
  an uploaded avatar, come with the action. A reducer that throws leaves the state as it was.
\<close>

section \<open>Rooms and multispend groups\<close>

datatype RpcMatrixRoomState = joined | left | invited | banned | knocked

record MatrixRoom =
  room_id :: string
  room_name :: string
  room_avatarUrl :: "string option"
  room_preview :: "MatrixEvent option"
  directUserId :: "string option"
  isDirect :: bool
  notificationCount :: int
  isMarkedUnread :: bool
  joinedMemberCount :: int
  isPreview :: bool
  isPublic :: "bool option"
  allowKnocking :: bool
  roomState :: RpcMatrixRoomState
  recencyStamp :: "int option"
  isBlocked :: "bool option"
  broadcastOnly :: "bool option"
  inviteCode :: "string option"

record MatrixGroupPreview =
  info :: MatrixRoom
  preview_timeline :: "MatrixEvent list"
  isDefaultGroup :: "bool option"

datatype MatrixRoomListItem = loading | ready string

datatype RpcTimelineItem =
  item_event MatrixEvent | dateDivider int | readMarker | item_unknown | timelineStart

record GroupInvitationWithKeys =
  keys_invitation :: GroupInvitation
  keys_proposer :: string
  keys_rejections :: "string list"

record FinalizedGroup =
  fin_invitation :: GroupInvitation
  fin_proposer :: string

datatype RpcMultispendGroupStatus =
    inactive
  | activeInvitation string GroupInvitationWithKeys
  | finalized string FinalizedGroup

datatype WithdrawTxSubmissionStatus = submission_unknown | submission_accepted string | submission_rejected string

record WithdrawRequestWithApprovals =
  wd_transfer_amount :: int
  wd_description :: string
  signatures :: "(string, string) jsmap"
  rejections :: "string list"
  txSubmissionStatus :: WithdrawTxSubmissionStatus
  wd_sender :: string

datatype MsEventData =
    ms_withdrawalRequest WithdrawRequestWithApprovals
  | ms_groupInvitation GroupInvitationWithKeys
  | ms_depositNotification string int string string
  | invalidEvent

record MultispendListedEvent =
  ms_counter :: int
  ms_time :: int
  ms_event :: MsEventData
  ms_eventId :: string

record RpcSpTransferState =
  sp_federationId :: string
  sp_amount :: int
  sp_status :: string
  sp_inviteCode :: "string option"

record MatrixAuth =
  auth_userId :: string
  auth_deviceId :: string
  auth_displayName :: string
  auth_avatarUrl :: "string option"

record InputMedia =
  in_fileName :: string
  in_uri :: string
  in_mimeType :: string
  in_width :: int
  in_height :: int

datatype MatrixSyncStatus = uninitialized | stopped | initialSync | syncing | synced

section \<open>State\<close>

record MatrixState =
  is_setup :: bool
  started :: bool
  auth :: "MatrixAuth option"
  status :: MatrixSyncStatus
  roomList :: "MatrixRoomListItem list"
  roomInfo :: "(string, MatrixRoom) jsmap"
  roomMembers :: "(string, obj list) jsmap"
  roomTimelines :: "(string, MatrixEvent option list) jsmap"
  roomPaginationStatus :: "(string, string) jsmap"
  roomPowerLevels :: "(string, obj) jsmap"
  roomNotificationMode :: "(string, string) jsmap"
  roomPinnedTimelineItems :: "(string, RpcTimelineItem list) jsmap"
  roomMultispendStatus :: "(string, RpcMultispendGroupStatus option) jsmap"
  roomMultispendAccountInfo :: "(string, jv) jsmap"
  roomMultispendEvents :: "(string, MultispendListedEvent list) jsmap"
  spTransferStates :: "(string, (string, RpcSpTransferState) jsmap) jsmap"
  users :: obj
  ignoredUsers :: "string list"
  rejectedRoomInvites :: "string list"
  seenRoomInvites :: "string list"
  seenKnockRequests :: "(string, string list) jsmap"
  matrix_errors :: "string list"
  pushNotificationToken :: "string option"
  groupPreviews :: "(string, MatrixGroupPreview) jsmap"
  drafts :: "(string, string) jsmap"
  selectedChatMessage :: "MatrixEvent option"
  messageToEdit :: "MatrixEvent option"
  previewMedia :: "(InputMedia \<times> bool) list"
  replyingToMessage :: "string option \<times> MatrixEvent option"
  tempMediaUriMap :: "(string, string) jsmap"
  chatsListSearchQuery :: string
  chatTimelineSearchQuery :: string

definition initialMatrixState :: MatrixState where
  "initialMatrixState = \<lparr> is_setup = False, started = False, auth = None, status = uninitialized,
     roomList = [], roomInfo = [], roomMembers = [], roomTimelines = [], roomPaginationStatus = [],
     roomPowerLevels = [], roomNotificationMode = [], roomPinnedTimelineItems = [],
     roomMultispendStatus = [], roomMultispendAccountInfo = [], roomMultispendEvents = [],
     spTransferStates = [], users = [], ignoredUsers = [], rejectedRoomInvites = [],
     seenRoomInvites = [], seenKnockRequests = [], matrix_errors = [], pushNotificationToken = None,
     groupPreviews = [], drafts = [], selectedChatMessage = None, messageToEdit = None,
     previewMedia = [], replyingToMessage = (None, None), tempMediaUriMap = [],
     chatsListSearchQuery = [], chatTimelineSearchQuery = [] \<rparr>"

section \<open>Helpers of the reducers\<close>

text \<open>The list under a key, or the empty one.\<close>

definition items_of :: "('k, 'a list) jsmap \<Rightarrow> 'k \<Rightarrow> 'a list" where
  "items_of m k = (case jm_get m k of None \<Rightarrow> [] | Some xs \<Rightarrow> xs)"

lemma items_of_set [simp]: "items_of (jm_set k v m) k' = (if k' = k then v else items_of m k')"
  by (simp add: items_of_def)

lemma items_of_del [simp]: "items_of (jm_del k m) k' = (if k' = k then [] else items_of m k')"
  by (simp add: items_of_def)

text \<open>The map of the fetched events, the new ones first, in descending order of their counter.\<close>

definition set_event ::
  "(string, MultispendListedEvent) jsmap \<Rightarrow> MultispendListedEvent \<Rightarrow> (string, MultispendListedEvent) jsmap" where
  "set_event transactionMap ev = jm_set (ms_eventId ev) ev transactionMap"

definition set_missing_event ::
  "(string, MultispendListedEvent) jsmap \<Rightarrow> MultispendListedEvent \<Rightarrow> (string, MultispendListedEvent) jsmap" where
  "set_missing_event transactionMap ev =
     (if jm_get transactionMap (ms_eventId ev) = None then jm_set (ms_eventId ev) ev transactionMap
      else transactionMap)"

definition updateMultispendEvents ::
  "MultispendListedEvent list \<Rightarrow> MultispendListedEvent list \<Rightarrow> MultispendListedEvent list" where
  "updateMultispendEvents newTransactions oldTransactions =
     (let transactionMap = foldl set_missing_event (foldl set_event [] newTransactions) oldTransactions
      in orderBy_desc ms_counter (jm_values transactionMap))"

definition knocking_ids :: "MatrixState \<Rightarrow> string \<Rightarrow> jv list" where
  "knocking_ids s roomId =
     map (\<lambda>m. obj_get m ''id'')
       (filter (\<lambda>m. obj_get m ''membership'' = JStr ''knock'') (items_of (roomMembers s) roomId))"

definition pruneSeenKnockRequests :: "string \<Rightarrow> MatrixState \<Rightarrow> MatrixState" where
  "pruneSeenKnockRequests roomId s =
     (case jm_get (seenKnockRequests s) roomId of
        None \<Rightarrow> s
      | Some seen \<Rightarrow>
          let pruned = filter (\<lambda>i. JStr i \<in> set (knocking_ids s roomId)) seen
          in if length pruned = 0 then s\<lparr>seenKnockRequests := jm_del roomId (seenKnockRequests s)\<rparr>
             else if length pruned \<noteq> length seen
             then s\<lparr>seenKnockRequests := jm_set roomId pruned (seenKnockRequests s)\<rparr>
             else s)"

text \<open>The spread of a room over the old one, and \<^verbatim>\<open>upsertRecordEntity\<close> on rooms.\<close>

definition spread_room :: "MatrixRoom \<Rightarrow> MatrixRoom \<Rightarrow> MatrixRoom" where
  "spread_room old room =
     room\<lparr>isBlocked := keep_newer (isBlocked old) (isBlocked room),
          broadcastOnly := keep_newer (broadcastOnly old) (broadcastOnly room),
          inviteCode := keep_newer (inviteCode old) (inviteCode room)\<rparr>"

definition upsert_room :: "(string, MatrixRoom) jsmap \<Rightarrow> MatrixRoom \<Rightarrow> (string, MatrixRoom) jsmap" where
  "upsert_room record_arg room =
     (case jm_get record_arg (room_id room) of
        None \<Rightarrow> jm_set (room_id room) room record_arg
      | Some old \<Rightarrow>
          if old = room then record_arg else jm_set (room_id room) (spread_room old room) record_arg)"

abbreviation upsert_member :: "deep_equal \<Rightarrow> obj list option \<Rightarrow> obj \<Rightarrow> obj list" where
  "upsert_member isEqual members member \<equiv>
     upsertListItem (\<lambda>a b. isEqual (JObj a) (JObj b)) members member None None"

text \<open>Members keep their place; a member with an identifier is changed in the room's list.\<close>

definition change_member ::
  "deep_equal \<Rightarrow> string \<Rightarrow> (obj \<Rightarrow> obj) \<Rightarrow> string \<Rightarrow> MatrixState \<Rightarrow> MatrixState" where
  "change_member isEqual userId f roomId s =
     (case jm_get (roomMembers s) roomId of
        None \<Rightarrow> s
      | Some members \<Rightarrow>
          (case find (has_id userId) members of
             None \<Rightarrow> s
           | Some member \<Rightarrow>
               s\<lparr>roomMembers :=
                   jm_set roomId (upsert_member isEqual (Some members) (f member)) (roomMembers s)\<rparr>))"

definition doesEventContentMatchPreviewMedia :: "InputMedia \<Rightarrow> RpcMsgLikeKind \<Rightarrow> bool" where
  "doesEventContentMatchPreviewMedia media body \<longleftrightarrow>
     (case body of
        m_image c \<Rightarrow> media_mimetype c = Some (in_mimeType media) \<and> media_width c = Some (in_width media) \<and>
          media_height c = Some (in_height media) \<and> media_body c = in_fileName media
      | m_video c \<Rightarrow> media_mimetype c = Some (in_mimeType media) \<and> media_width c = Some (in_width media) \<and>
          media_height c = Some (in_height media) \<and> media_body c = in_fileName media
      | _ \<Rightarrow> False)"


section \<open>Reducers\<close>

definition addMatrixRoomInfo :: "MatrixRoom \<Rightarrow> MatrixState \<Rightarrow> MatrixState" where
  "addMatrixRoomInfo room s =
     (let s' = s\<lparr>roomInfo := upsert_room (roomInfo s) room\<rparr>
      in if roomState room \<noteq> invited
         then s'\<lparr>seenRoomInvites := filter (\<lambda>roomId. roomId \<noteq> room_id room) (seenRoomInvites s')\<rparr>
         else s')"

definition markMatrixRoomInviteSeen :: "string \<Rightarrow> MatrixState \<Rightarrow> MatrixState" where
  "markMatrixRoomInviteSeen roomId s =
     (if roomId \<notin> set (seenRoomInvites s) then s\<lparr>seenRoomInvites := seenRoomInvites s @ [roomId]\<rparr> else s)"

definition markKnockRequestsSeen :: "string \<Rightarrow> string list \<Rightarrow> MatrixState \<Rightarrow> MatrixState" where
  "markKnockRequestsSeen roomId userIds s =
     (if length userIds = 0 then s
      else let existing = items_of (seenKnockRequests s) roomId
           in s\<lparr>seenKnockRequests := jm_set roomId (js_uniq (existing @ userIds)) (seenKnockRequests s)\<rparr>)"

definition handleMatrixRoomListStreamUpdates ::
  "MatrixRoomListItem VectorDiff list \<Rightarrow> MatrixState \<Rightarrow> stream_error + MatrixState" where
  "handleMatrixRoomListStreamUpdates updates s =
     map_sum id (\<lambda>items. s\<lparr>roomList := items\<rparr>) (applyStreamUpdates (roomList s) updates)"

definition addMatrixRoomMember :: "deep_equal \<Rightarrow> obj \<Rightarrow> MatrixState \<Rightarrow> MatrixState" where
  "addMatrixRoomMember isEqual member s =
     (let roomId = js_str (obj_get member ''roomId'');
          oldRoomMembers = jm_get (roomMembers s) roomId;
          newRoomMembers = upsert_member isEqual oldRoomMembers member;
          s' = (if Some newRoomMembers \<noteq> oldRoomMembers
                then s\<lparr>roomMembers := jm_set roomId newRoomMembers (roomMembers s)\<rparr> else s)
      in pruneSeenKnockRequests roomId s')"

definition setMatrixRoomMembers :: "string \<Rightarrow> obj list \<Rightarrow> MatrixState \<Rightarrow> MatrixState" where
  "setMatrixRoomMembers roomId members s =
     pruneSeenKnockRequests roomId (s\<lparr>roomMembers := jm_set roomId members (roomMembers s)\<rparr>)"

definition addMatrixUser :: "deep_equal \<Rightarrow> obj \<Rightarrow> MatrixState \<Rightarrow> MatrixState" where
  "addMatrixUser isEqual user s = s\<lparr>users := upsertRecordEntity isEqual (Some (users s)) user\<rparr>"

definition setMatrixUsers :: "obj list \<Rightarrow> MatrixState \<Rightarrow> MatrixState" where
  "setMatrixUsers payload s =
     s\<lparr>users := foldl (\<lambda>acc user. jm_set (js_str (obj_get user ''id'')) (JObj user) acc) [] payload\<rparr>"

definition handleMatrixRoomTimelineStreamUpdates ::
  "string \<Rightarrow> MatrixEvent option VectorDiff list \<Rightarrow> MatrixState \<Rightarrow> stream_error + MatrixState" where
  "handleMatrixRoomTimelineStreamUpdates roomId updates s =
     map_sum id (\<lambda>items. s\<lparr>roomTimelines := jm_set roomId items (roomTimelines s)\<rparr>)
       (applyStreamUpdates (items_of (roomTimelines s) roomId) updates)"

definition handleMatrixRoomPinnedTimelineStreamUpdates ::
  "string \<Rightarrow> RpcTimelineItem VectorDiff list \<Rightarrow> MatrixState \<Rightarrow> stream_error + MatrixState" where
  "handleMatrixRoomPinnedTimelineStreamUpdates roomId updates s =
     map_sum id (\<lambda>items. s\<lparr>roomPinnedTimelineItems := jm_set roomId items (roomPinnedTimelineItems s)\<rparr>)
       (applyStreamUpdates (items_of (roomPinnedTimelineItems s) roomId) updates)"

definition setMatrixRoomMultispendStatus ::
  "string \<Rightarrow> RpcMultispendGroupStatus \<Rightarrow> MatrixState \<Rightarrow> MatrixState" where
  "setMatrixRoomMultispendStatus roomId st s =
     s\<lparr>roomMultispendStatus :=
         jm_set roomId (if st = inactive then None else Some st) (roomMultispendStatus s)\<rparr>"

definition updateMatrixRoomMultispendTxns ::
  "string \<Rightarrow> MultispendListedEvent list \<Rightarrow> MatrixState \<Rightarrow> MatrixState" where
  "updateMatrixRoomMultispendTxns roomId events s =
     (let currentTxns = items_of (roomMultispendEvents s) roomId
      in s\<lparr>roomMultispendEvents :=
             jm_set roomId (updateMultispendEvents events currentTxns) (roomMultispendEvents s)\<rparr>)"

definition updateMatrixRoomMultispendEvent ::
  "string \<Rightarrow> string \<Rightarrow> MsEventData \<Rightarrow> MatrixState \<Rightarrow> MatrixState" where
  "updateMatrixRoomMultispendEvent roomId eventId update s =
     (let events =
            (case jm_get (roomMultispendEvents s) roomId of
               None \<Rightarrow> [\<lparr> ms_counter = 0, ms_time = 0, ms_event = update, ms_eventId = eventId \<rparr>]
             | Some existingRoomEvents \<Rightarrow>
                 map (\<lambda>evt. if ms_eventId evt = eventId
                            then evt\<lparr>ms_event := update, ms_eventId := eventId\<rparr> else evt) existingRoomEvents)
      in s\<lparr>roomMultispendEvents := jm_set roomId events (roomMultispendEvents s)\<rparr>)"

definition setSpTransferState :: "string \<Rightarrow> string \<Rightarrow> RpcSpTransferState \<Rightarrow> MatrixState \<Rightarrow> MatrixState" where
  "setSpTransferState roomId eventId transferState s =
     s\<lparr>spTransferStates :=
         jm_set roomId (jm_set eventId transferState (items_of (spTransferStates s) roomId))
           (spTransferStates s)\<rparr>"

definition setChatDraft :: "string \<Rightarrow> string \<Rightarrow> MatrixState \<Rightarrow> MatrixState" where
  "setChatDraft roomId txt s =
     (if length txt = 0 then s\<lparr>drafts := jm_del roomId (drafts s)\<rparr>
      else if jm_get (drafts s) roomId = Some txt then s
      else s\<lparr>drafts := jm_set roomId txt (drafts s)\<rparr>)"

definition matchAndHidePreviewMedia :: "MatrixEvent list \<Rightarrow> MatrixState \<Rightarrow> MatrixState" where
  "matchAndHidePreviewMedia events s =
     (let matches = (\<lambda>media. list_ex (\<lambda>event. doesEventContentMatchPreviewMedia media (content event)) events);
          updatedPreviewMedia =
            map (\<lambda>(media, visible). if matches media \<and> visible then (media, False) else (media, visible))
              (previewMedia s);
          hasUpdates = list_ex (\<lambda>(media, visible). matches media \<and> visible) (previewMedia s)
      in if hasUpdates then s\<lparr>previewMedia := updatedPreviewMedia\<rparr> else s)"

definition addRejectedMatrixRoom :: "string \<Rightarrow> MatrixState \<Rightarrow> MatrixState" where
  "addRejectedMatrixRoom roomId s =
     s\<lparr>rejectedRoomInvites := rejectedRoomInvites s @ [roomId],
       seenRoomInvites := filter (\<lambda>i. i \<noteq> roomId) (seenRoomInvites s)\<rparr>"

definition setMatrixRoomMemberPowerLevel_fulfilled ::
  "deep_equal \<Rightarrow> string \<Rightarrow> string \<Rightarrow> int \<Rightarrow> obj \<Rightarrow> MatrixState \<Rightarrow> MatrixState" where
  "setMatrixRoomMemberPowerLevel_fulfilled isEqual roomId userId powerLevel powerLevels s =
     change_member isEqual userId
       (\<lambda>member. jm_spread member
          [(''powerLevel'', JObj [(''type'', JStr ''int''), (''value'', JNum powerLevel)])]) roomId
       (s\<lparr>roomPowerLevels := jm_set roomId powerLevels (roomPowerLevels s)\<rparr>)"

definition setUserIgnored :: "deep_equal \<Rightarrow> string \<Rightarrow> bool \<Rightarrow> MatrixState \<Rightarrow> MatrixState" where
  "setUserIgnored isEqual userId ignored s =
     fold (change_member isEqual userId (\<lambda>member. jm_spread member [(''ignored'', JBool ignored)]))
       (jm_keys (roomMembers s)) s"

definition getMatrixRoomPreview_fulfilled ::
  "string \<Rightarrow> MatrixGroupPreview option \<Rightarrow> MatrixState \<Rightarrow> MatrixState" where
  "getMatrixRoomPreview_fulfilled roomId payload s =
     (case payload of
        None \<Rightarrow> s
      | Some p \<Rightarrow>
          let merged =
                (case jm_get (groupPreviews s) roomId of
                   None \<Rightarrow> p
                 | Some existingPreview \<Rightarrow>
                     p\<lparr>isDefaultGroup := keep_newer (isDefaultGroup existingPreview) (isDefaultGroup p)\<rparr>)
          in s\<lparr>groupPreviews := jm_set roomId merged (groupPreviews s)\<rparr>)"

definition add_default_preview ::
  "(string, MatrixGroupPreview) jsmap \<times> bool \<Rightarrow> MatrixGroupPreview \<Rightarrow> (string, MatrixGroupPreview) jsmap \<times> bool" where
  "add_default_preview acc preview =
     (case acc of (result, hasUpdates) \<Rightarrow>
        let updatedPreview = preview\<lparr>isDefaultGroup := Some True\<rparr>
        in if jm_get result (room_id (info preview)) \<noteq> Some updatedPreview
           then (jm_set (room_id (info preview)) updatedPreview result, True)
           else (result, hasUpdates))"

definition previewDefaultChats_fulfilled :: "MatrixGroupPreview list \<Rightarrow> MatrixState \<Rightarrow> MatrixState" where
  "previewDefaultChats_fulfilled payload s =
     (let (updatedDefaultGroups, hasUpdates) = foldl add_default_preview (groupPreviews s, False) payload
      in if hasUpdates then s\<lparr>groupPreviews := updatedDefaultGroups\<rparr> else s)"

section \<open>The slice\<close>

text \<open>The reducers on rooms, the other reducers, and the extra reducers on the results of thunks.\<close>

datatype room_action =
    AddMatrixRoomInfo MatrixRoom
  | MarkMatrixRoomInviteSeen string
  | MarkKnockRequestsSeen string "string list"
  | HandleMatrixRoomListStreamUpdates "MatrixRoomListItem VectorDiff list"
  | AddMatrixRoomMember obj
  | SetMatrixRoomMembers string "obj list"
  | HandleMatrixRoomTimelineStreamUpdates string "MatrixEvent option VectorDiff list"
  | HandleMatrixRoomTimelinePaginationStatus string string
  | SetMatrixRoomPowerLevels string obj
  | HandleMatrixRoomPinnedTimelineStreamUpdates string "RpcTimelineItem VectorDiff list"
  | SetMatrixRoomNotificationMode string string
  | SetMatrixRoomMultispendStatus string RpcMultispendGroupStatus
  | SetMatrixRoomMultispendAccountInfo string jv
  | SetMatrixRoomMultispendTransactions string "MultispendListedEvent list"
  | UpdateMatrixRoomMultispendTxns string "MultispendListedEvent list"
  | UpdateMatrixRoomMultispendEvent string string MsEventData
  | SetSpTransferState string string RpcSpTransferState
  | AddRejectedMatrixRoom string

datatype chat_action =
    SetMatrixSetup bool
  | SetMatrixStatus MatrixSyncStatus
  | SetMatrixAuth "MatrixAuth option"
  | SetMatrixIgnoredUsers "string list"
  | AddMatrixUser obj
  | SetMatrixUsers "obj list"
  | AddMatrixError string
  | ResetMatrixState
  | SetChatDraft string string
  | SetSelectedChatMessage "MatrixEvent option"
  | SetMessageToEdit "MatrixEvent option"
  | AddPreviewMedia "InputMedia list"
  | MatchAndHidePreviewMedia "MatrixEvent list"
  | SetChatReplyingToMessage string MatrixEvent
  | ClearChatReplyingToMessage
  | AddTempMediaUriEntry string string
  | SetChatsListSearchQuery string
  | SetChatTimelineSearchQuery string

datatype thunk_action =
    StartMatrixClientPending
  | StartMatrixClientFulfilled
  | StartMatrixClientRejected
  | SetMatrixDisplayNameFulfilled string
  | UploadAndSetMatrixAvatarUrlFulfilled "string option"
  | SetMatrixRoomBroadcastOnlyFulfilled string obj
  | SetMatrixRoomMemberPowerLevelFulfilled string string int obj
  | SearchMatrixUsersFulfilled "obj list"
  | FetchMatrixProfileFulfilled obj
  | ConfigureMatrixPushNotificationsFulfilled string
  | LoadFromStorageFulfilled "(string, string) jsmap" "string list" "string list" "(string, string list) jsmap"
  | UpdateMatrixRoomNotificationModeFulfilled string string
  | GetMatrixRoomPreviewFulfilled string "MatrixGroupPreview option"
  | EditMatrixMessageFulfilled
  | IgnoreUserFulfilled string bool
  | PreviewDefaultChatsFulfilled "MatrixGroupPreview list"

datatype matrix_action = Room room_action | Chat chat_action | Thunk thunk_action

definition change_auth :: "(MatrixAuth \<Rightarrow> MatrixAuth) \<Rightarrow> MatrixState \<Rightarrow> MatrixState" where
  "change_auth f s = s\<lparr>auth := map_option f (auth s)\<rparr>"

primrec room_reducer :: "deep_equal \<Rightarrow> MatrixState \<Rightarrow> room_action \<Rightarrow> stream_error + MatrixState" where
  "room_reducer isEqual s (AddMatrixRoomInfo room) = Inr (addMatrixRoomInfo room s)"
| "room_reducer isEqual s (MarkMatrixRoomInviteSeen i) = Inr (markMatrixRoomInviteSeen i s)"
| "room_reducer isEqual s (MarkKnockRequestsSeen i ids) = Inr (markKnockRequestsSeen i ids s)"
| "room_reducer isEqual s (HandleMatrixRoomListStreamUpdates us) = handleMatrixRoomListStreamUpdates us s"
| "room_reducer isEqual s (AddMatrixRoomMember m) = Inr (addMatrixRoomMember isEqual m s)"
| "room_reducer isEqual s (SetMatrixRoomMembers i ms) = Inr (setMatrixRoomMembers i ms s)"
| "room_reducer isEqual s (HandleMatrixRoomTimelineStreamUpdates i us) =
     handleMatrixRoomTimelineStreamUpdates i us s"
| "room_reducer isEqual s (HandleMatrixRoomTimelinePaginationStatus i p) =
     Inr (s\<lparr>roomPaginationStatus := jm_set i p (roomPaginationStatus s)\<rparr>)"
| "room_reducer isEqual s (SetMatrixRoomPowerLevels i p) =
     Inr (s\<lparr>roomPowerLevels := jm_set i p (roomPowerLevels s)\<rparr>)"
| "room_reducer isEqual s (HandleMatrixRoomPinnedTimelineStreamUpdates i us) =
     handleMatrixRoomPinnedTimelineStreamUpdates i us s"
| "room_reducer isEqual s (SetMatrixRoomNotificationMode i m) =
     Inr (s\<lparr>roomNotificationMode := jm_set i m (roomNotificationMode s)\<rparr>)"
| "room_reducer isEqual s (SetMatrixRoomMultispendStatus i st) = Inr (setMatrixRoomMultispendStatus i st s)"
| "room_reducer isEqual s (SetMatrixRoomMultispendAccountInfo i a) =
     Inr (s\<lparr>roomMultispendAccountInfo := jm_set i a (roomMultispendAccountInfo s)\<rparr>)"
| "room_reducer isEqual s (SetMatrixRoomMultispendTransactions i ts) =
     Inr (s\<lparr>roomMultispendEvents := jm_set i ts (roomMultispendEvents s)\<rparr>)"
| "room_reducer isEqual s (UpdateMatrixRoomMultispendTxns i ts) = Inr (updateMatrixRoomMultispendTxns i ts s)"
| "room_reducer isEqual s (UpdateMatrixRoomMultispendEvent i e u) =
     Inr (updateMatrixRoomMultispendEvent i e u s)"
| "room_reducer isEqual s (SetSpTransferState i e t) = Inr (setSpTransferState i e t s)"
| "room_reducer isEqual s (AddRejectedMatrixRoom i) = Inr (addRejectedMatrixRoom i s)"

primrec chat_reducer :: "deep_equal \<Rightarrow> MatrixState \<Rightarrow> chat_action \<Rightarrow> stream_error + MatrixState" where
  "chat_reducer isEqual s (SetMatrixSetup b) = Inr (s\<lparr>is_setup := b\<rparr>)"
| "chat_reducer isEqual s (SetMatrixStatus st) = Inr (s\<lparr>status := st\<rparr>)"
| "chat_reducer isEqual s (SetMatrixAuth a) = Inr (s\<lparr>auth := a\<rparr>)"
| "chat_reducer isEqual s (SetMatrixIgnoredUsers ids) = Inr (s\<lparr>ignoredUsers := ids\<rparr>)"
| "chat_reducer isEqual s (AddMatrixUser u) = Inr (addMatrixUser isEqual u s)"
| "chat_reducer isEqual s (SetMatrixUsers us) = Inr (setMatrixUsers us s)"
| "chat_reducer isEqual s (AddMatrixError e) = Inr (s\<lparr>matrix_errors := matrix_errors s @ [e]\<rparr>)"
| "chat_reducer isEqual s ResetMatrixState = Inr initialMatrixState"
| "chat_reducer isEqual s (SetChatDraft i t) = Inr (setChatDraft i t s)"
| "chat_reducer isEqual s (SetSelectedChatMessage e) = Inr (s\<lparr>selectedChatMessage := e\<rparr>)"
| "chat_reducer isEqual s (SetMessageToEdit e) = Inr (s\<lparr>messageToEdit := e\<rparr>)"
| "chat_reducer isEqual s (AddPreviewMedia ms) =
     Inr (s\<lparr>previewMedia := previewMedia s @ map (\<lambda>m. (m, True)) ms\<rparr>)"
| "chat_reducer isEqual s (MatchAndHidePreviewMedia es) = Inr (matchAndHidePreviewMedia es s)"
| "chat_reducer isEqual s (SetChatReplyingToMessage i e) = Inr (s\<lparr>replyingToMessage := (Some i, Some e)\<rparr>)"
| "chat_reducer isEqual s ClearChatReplyingToMessage = Inr (s\<lparr>replyingToMessage := (None, None)\<rparr>)"
| "chat_reducer isEqual s (AddTempMediaUriEntry uri hash) =
     Inr (s\<lparr>tempMediaUriMap := jm_set hash uri (tempMediaUriMap s)\<rparr>)"
| "chat_reducer isEqual s (SetChatsListSearchQuery q) = Inr (s\<lparr>chatsListSearchQuery := q\<rparr>)"
| "chat_reducer isEqual s (SetChatTimelineSearchQuery q) = Inr (s\<lparr>chatTimelineSearchQuery := q\<rparr>)"

primrec thunk_reducer :: "deep_equal \<Rightarrow> MatrixState \<Rightarrow> thunk_action \<Rightarrow> stream_error + MatrixState" where
  "thunk_reducer isEqual s StartMatrixClientPending = Inr (s\<lparr>status := initialSync\<rparr>)"
| "thunk_reducer isEqual s StartMatrixClientFulfilled = Inr (s\<lparr>started := True\<rparr>)"
| "thunk_reducer isEqual s StartMatrixClientRejected = Inr (s\<lparr>status := stopped, started := False\<rparr>)"
| "thunk_reducer isEqual s (SetMatrixDisplayNameFulfilled n) =
     Inr (change_auth (\<lambda>a. a\<lparr>auth_displayName := n\<rparr>) s)"
| "thunk_reducer isEqual s (UploadAndSetMatrixAvatarUrlFulfilled u) =
     Inr (change_auth (\<lambda>a. a\<lparr>auth_avatarUrl := u\<rparr>) s)"
| "thunk_reducer isEqual s (SetMatrixRoomBroadcastOnlyFulfilled i p) =
     Inr (s\<lparr>roomPowerLevels := jm_set i p (roomPowerLevels s)\<rparr>)"
| "thunk_reducer isEqual s (SetMatrixRoomMemberPowerLevelFulfilled i u l p) =
     Inr (setMatrixRoomMemberPowerLevel_fulfilled isEqual i u l p s)"
| "thunk_reducer isEqual s (SearchMatrixUsersFulfilled us) = Inr (fold (addMatrixUser isEqual) us s)"
| "thunk_reducer isEqual s (FetchMatrixProfileFulfilled u) = Inr (addMatrixUser isEqual u s)"
| "thunk_reducer isEqual s (ConfigureMatrixPushNotificationsFulfilled t) =
     Inr (s\<lparr>pushNotificationToken := Some t\<rparr>)"
| "thunk_reducer isEqual s (LoadFromStorageFulfilled d r si sk) =
     Inr (s\<lparr>drafts := d, rejectedRoomInvites := r, seenRoomInvites := si, seenKnockRequests := sk\<rparr>)"
| "thunk_reducer isEqual s (UpdateMatrixRoomNotificationModeFulfilled i m) =
     Inr (s\<lparr>roomNotificationMode := jm_set i m (roomNotificationMode s)\<rparr>)"
| "thunk_reducer isEqual s (GetMatrixRoomPreviewFulfilled i p) = Inr (getMatrixRoomPreview_fulfilled i p s)"
| "thunk_reducer isEqual s EditMatrixMessageFulfilled = Inr (s\<lparr>messageToEdit := None\<rparr>)"
| "thunk_reducer isEqual s (IgnoreUserFulfilled u b) = Inr (setUserIgnored isEqual u b s)"
| "thunk_reducer isEqual s (PreviewDefaultChatsFulfilled ps) = Inr (previewDefaultChats_fulfilled ps s)"

primrec matrix_reducer :: "deep_equal \<Rightarrow> MatrixState \<Rightarrow> matrix_action \<Rightarrow> stream_error + MatrixState" where
  "matrix_reducer isEqual s (Room a) = room_reducer isEqual s a"
| "matrix_reducer isEqual s (Chat a) = chat_reducer isEqual s a"
| "matrix_reducer isEqual s (Thunk a) = thunk_reducer isEqual s a"

definition matrixSlice :: "deep_equal \<Rightarrow> MatrixState \<Rightarrow> matrix_action \<Rightarrow> MatrixState" where
  "matrixSlice isEqual s a = (case matrix_reducer isEqual s a of Inl _ \<Rightarrow> s | Inr s' \<Rightarrow> s')"

end
