(* ===== verification/Matrix_Selectors.thy ===== *)
theory Matrix_Selectors
  imports Matrix_Slice
begin

text \<open>
  \<^verbatim>\<open>ui/common/redux/matrix.ts\<close> and \<^verbatim>\<open>ui/common/utils/matrix.ts\<close>: what the screens read of the chat state:
  rooms and the list of chats, members and what they may do, conversations with their pinned
  messages, and the multispend groups of rooms.
\<close>

section \<open>Power levels\<close>

datatype RpcUserPowerLevel = infinite | int_level int

definition MatrixPowerLevel_Moderator :: int where "MatrixPowerLevel_Moderator = 50"
definition MatrixPowerLevel_Admin :: int where "MatrixPowerLevel_Admin = 100"
definition MAX_SAFE_INTEGER :: int where "MAX_SAFE_INTEGER = 2 ^ 53 - 1"

definition level_number :: "jv \<Rightarrow> int" where
  "level_number v = (case v of JNum n \<Rightarrow> n | _ \<Rightarrow> 0)"

text \<open>The first listed event that has a level of its own, else the default of all events.\<close>

fun first_level :: "obj \<Rightarrow> string list \<Rightarrow> int option" where
  "first_level levels [] = None"
| "first_level levels (event # events) =
     (case obj_get levels event of JNum n \<Rightarrow> Some n | _ \<Rightarrow> first_level levels events)"

definition getRoomEventPowerLevel :: "obj \<Rightarrow> string list \<Rightarrow> int" where
  "getRoomEventPowerLevel powerLevels events =
     (case first_level (own_entries (obj_get powerLevels ''events'')) events of
        Some level \<Rightarrow> level
      | None \<Rightarrow> level_number (obj_get powerLevels ''events_default''))"

definition isPowerLevelGreaterOrEqual :: "RpcUserPowerLevel \<Rightarrow> RpcUserPowerLevel + int \<Rightarrow> bool" where
  "isPowerLevelGreaterOrEqual powerLevel required \<longleftrightarrow>
     (case powerLevel of
        infinite \<Rightarrow> True
      | int_level level \<Rightarrow>
          (let thresholdValue =
                 (case required of
                    Inr n \<Rightarrow> n
                  | Inl infinite \<Rightarrow> MAX_SAFE_INTEGER
                  | Inl (int_level n) \<Rightarrow> n)
           in level \<ge> thresholdValue))"

text \<open>The power level of a member object.\<close>

definition power_level_of :: "obj \<Rightarrow> RpcUserPowerLevel option" where
  "power_level_of member =
     (case obj_get member ''powerLevel'' of
        JObj p \<Rightarrow> if obj_get p ''type'' = JStr ''infinite'' then Some infinite
                   else Some (int_level (level_number (obj_get p ''value'')))
      | _ \<Rightarrow> None)"

section \<open>Rooms\<close>

definition message_level :: "obj \<Rightarrow> int" where
  "message_level powerLevels = getRoomEventPowerLevel powerLevels [''m.room.message'', ''unableToDecrypt'']"

definition shown_room :: "MatrixState \<Rightarrow> MatrixRoom \<Rightarrow> MatrixRoom" where
  "shown_room s room =
     room\<lparr>broadcastOnly :=
            Some (case jm_get (roomPowerLevels s) (room_id room) of
                    None \<Rightarrow> False
                  | Some powerLevels \<Rightarrow> message_level powerLevels \<ge> MatrixPowerLevel_Moderator),
          isBlocked :=
            Some (case directUserId room of
                    None \<Rightarrow> False
                  | Some u \<Rightarrow> u \<noteq> [] \<and> u \<in> set (ignoredUsers s))\<rparr>"

definition room_of_item :: "MatrixState \<Rightarrow> MatrixRoomListItem \<Rightarrow> MatrixRoom list" where
  "room_of_item s item =
     (case item of
        loading \<Rightarrow> []
      | ready i \<Rightarrow>
          if i = [] then []
          else case jm_get (roomInfo s) i of
                 None \<Rightarrow> []
               | Some room \<Rightarrow>
                   if room_id room \<in> set (rejectedRoomInvites s) then [] else [shown_room s room])"

definition selectMatrixRooms :: "MatrixState \<Rightarrow> MatrixRoom list" where
  "selectMatrixRooms s = concat (map (room_of_item s) (roomList s))"

text \<open>A preview as a room: its latest message is the text shown for it.\<close>

definition later_event :: "MatrixEvent option \<Rightarrow> MatrixEvent \<Rightarrow> MatrixEvent option" where
  "later_event latest current =
     (case latest of
        None \<Rightarrow> Some current
      | Some l \<Rightarrow> if timestamp l > timestamp current then Some l else Some current)"

definition makeChatFromUnjoinedRoomPreview :: "MatrixGroupPreview \<Rightarrow> MatrixRoom" where
  "makeChatFromUnjoinedRoomPreview preview =
     (let previewableTimeline = filter (\<lambda>event. \<not> isRoomMemberEvent event) (preview_timeline preview);
          first = (case previewableTimeline of [] \<Rightarrow> None | e # _ \<Rightarrow> Some e);
          chatPreview = foldl later_event first previewableTimeline
      in (info preview)\<lparr>room_preview := chatPreview, broadcastOnly := Some True\<rparr>)"

definition encodeFediMatrixRoomUri :: "(string \<Rightarrow> string) \<Rightarrow> string \<Rightarrow> bool \<Rightarrow> string" where
  "encodeFediMatrixRoomUri encodeURIComponent i deep =
     (if deep then ''fedi://room/'' @ encodeURIComponent i else ''fedi:room:'' @ i @ '':::'')"

definition makeUnpreviewableDefaultChat :: "string \<Rightarrow> MatrixGroupPreview" where
  "makeUnpreviewableDefaultChat roomId =
     \<lparr> info = \<lparr> room_id = roomId, room_name = [], room_avatarUrl = None, room_preview = None,
         directUserId = None, isDirect = False, notificationCount = 0, isMarkedUnread = False,
         joinedMemberCount = 0, isPreview = True, isPublic = Some False, allowKnocking = True,
         roomState = invited, recencyStamp = None, isBlocked = None, broadcastOnly = None,
         inviteCode = Some (encodeFediMatrixRoomUri id roomId False) \<rparr>,
       preview_timeline = [], isDefaultGroup = Some True \<rparr>"

definition preview_time :: "MatrixRoom \<Rightarrow> int" where
  "preview_time room = (case room_preview room of None \<Rightarrow> 0 | Some e \<Rightarrow> timestamp e)"

definition selectDefaultChatsForChatList :: "MatrixState \<Rightarrow> MatrixRoom list" where
  "selectDefaultChatsForChatList s =
     (let roomsList = selectMatrixRooms s;
          previews = filter (\<lambda>p. isDefaultGroup p = Some True \<and>
              find (\<lambda>r. room_id r = room_id (info p)) roomsList = None) (jm_values (groupPreviews s))
      in orderBy_desc preview_time (map makeChatFromUnjoinedRoomPreview previews))"

definition selectMatrixChatsWithoutDefaultGroupPreviewsList :: "MatrixState \<Rightarrow> MatrixRoom list" where
  "selectMatrixChatsWithoutDefaultGroupPreviewsList s =
     orderBy_desc (\<lambda>room. case recencyStamp room of None \<Rightarrow> MAX_SAFE_INTEGER | Some t \<Rightarrow> t)
       (filter (\<lambda>r. roomState r = joined) (selectMatrixRooms s))"

text \<open>The loop over both lists, with the slices that are pushed after it.\<close>

fun merge_chats :: "MatrixRoom list \<Rightarrow> MatrixRoom list \<Rightarrow> MatrixRoom list" where
  "merge_chats [] previews = previews"
| "merge_chats rooms [] = rooms"
| "merge_chats (normalRoom # rooms) (previewRoom # previews) =
     (if preview_time previewRoom > preview_time normalRoom
      then previewRoom # merge_chats (normalRoom # rooms) previews
      else normalRoom # merge_chats rooms (previewRoom # previews))"

definition listed_room :: "MatrixRoom \<Rightarrow> bool" where
  "listed_room r \<longleftrightarrow> roomState r = joined \<or> roomState r = invited \<or> roomState r = knocked"

definition selectMatrixChatsList :: "MatrixState \<Rightarrow> MatrixRoom list" where
  "selectMatrixChatsList s =
     (let filteredRoomsList = filter listed_room (selectMatrixRooms s);
          defaultGroupsList = selectDefaultChatsForChatList s
      in if length defaultGroupsList = 0 then filteredRoomsList
         else merge_chats filteredRoomsList defaultGroupsList)"

definition selectIsMatrixChatEmpty :: "MatrixState \<Rightarrow> bool" where
  "selectIsMatrixChatEmpty s \<longleftrightarrow> length (selectMatrixChatsList s) = 0"

definition selectMatrixRoom :: "MatrixState \<Rightarrow> string \<Rightarrow> MatrixRoom option" where
  "selectMatrixRoom s roomId = find (\<lambda>room. room_id room = roomId) (selectMatrixRooms s)"

text \<open>\<open>preview\<close> is the default chat of a community with that identifier.\<close>

definition selectIsUnpreviewablePrivateGroup :: "MatrixState \<Rightarrow> string \<Rightarrow> MatrixRoom option \<Rightarrow> bool" where
  "selectIsUnpreviewablePrivateGroup s roomId preview \<longleftrightarrow>
     (case preview of
        None \<Rightarrow> False
      | Some p \<Rightarrow> allowKnocking p \<and> room_preview p = None \<and>
          map_option roomState (selectMatrixRoom s roomId) \<noteq> Some joined)"

definition selectChatTileName :: "MatrixState \<Rightarrow> string \<Rightarrow> MatrixRoom option \<Rightarrow> string" where
  "selectChatTileName s roomId preview =
     (case selectMatrixRoom s roomId of
        Some liveRoom \<Rightarrow>
          if room_name liveRoom \<noteq> [] then room_name liveRoom
          else (case preview of None \<Rightarrow> [] | Some p \<Rightarrow> room_name p)
      | None \<Rightarrow> (case preview of None \<Rightarrow> [] | Some p \<Rightarrow> room_name p))"

definition selectMatrixRoomInviteIsSeen :: "MatrixState \<Rightarrow> string \<Rightarrow> bool" where
  "selectMatrixRoomInviteIsSeen s roomId \<longleftrightarrow> roomId \<in> set (seenRoomInvites s)"

definition shouldShowUnreadIndicator :: "int option \<Rightarrow> bool option \<Rightarrow> bool" where
  "shouldShowUnreadIndicator notifications markedUnread \<longleftrightarrow>
     (case notifications of Some n \<Rightarrow> n > 0 | None \<Rightarrow> False) \<or> markedUnread = Some True"

definition selectMatrixHasNotifications :: "MatrixState \<Rightarrow> bool" where
  "selectMatrixHasNotifications s \<longleftrightarrow>
     list_ex (\<lambda>room. shouldShowUnreadIndicator (Some (notificationCount room)) (Some (isMarkedUnread room)))
       (selectMatrixRooms s)"

definition selectMatrixHasNotificationsIncludingInvites :: "MatrixState \<Rightarrow> bool" where
  "selectMatrixHasNotificationsIncludingInvites s \<longleftrightarrow>
     list_ex (\<lambda>room. if roomState room = invited then room_id room \<notin> set (seenRoomInvites s)
          else shouldShowUnreadIndicator (Some (notificationCount room)) (Some (isMarkedUnread room)))
       (selectMatrixRooms s)"

definition selectMatrixDirectMessageRoom :: "MatrixState \<Rightarrow> string \<Rightarrow> MatrixRoom option" where
  "selectMatrixDirectMessageRoom s userId =
     find (\<lambda>room. directUserId room = Some userId) (selectMatrixRooms s)"


section \<open>Identity and members\<close>

definition matrixIdToUsername :: "string option \<Rightarrow> string" where
  "matrixIdToUsername i =
     (case i of
        None \<Rightarrow> ''?''
      | Some s \<Rightarrow> if s = [] then ''?'' else remove1 (CHR ''@'') (takeWhile (\<lambda>c. c \<noteq> CHR '':'') s))"

definition selectMatrixAuth :: "MatrixState \<Rightarrow> MatrixAuth option" where
  "selectMatrixAuth s =
     map_option (\<lambda>a. a\<lparr>auth_displayName :=
         (if auth_displayName a = [] then matrixIdToUsername (Some (auth_userId a)) else auth_displayName a)\<rparr>)
       (auth s)"

definition my_id :: "MatrixState \<Rightarrow> string option" where
  "my_id s = map_option auth_userId (selectMatrixAuth s)"

definition selectMatrixRoomMembers :: "MatrixState \<Rightarrow> string \<Rightarrow> obj list" where
  "selectMatrixRoomMembers s roomId = items_of (roomMembers s) roomId"

definition has_membership :: "string \<Rightarrow> obj \<Rightarrow> bool" where
  "has_membership m member \<longleftrightarrow> obj_get member ''membership'' = JStr m"

definition selectActiveMatrixRoomMembers :: "MatrixState \<Rightarrow> string \<Rightarrow> obj list" where
  "selectActiveMatrixRoomMembers s roomId = filter (has_membership ''join'') (selectMatrixRoomMembers s roomId)"

definition selectMatrixRoomKnockingMembers :: "MatrixState \<Rightarrow> string \<Rightarrow> obj list" where
  "selectMatrixRoomKnockingMembers s roomId = filter (has_membership ''knock'') (selectMatrixRoomMembers s roomId)"

text \<open>Whether a member is me; without a session no member is.\<close>

definition is_me :: "MatrixState \<Rightarrow> obj \<Rightarrow> bool" where
  "is_me s member \<longleftrightarrow> (case my_id s of None \<Rightarrow> False | Some i \<Rightarrow> has_id i member)"

definition selectMatrixRoomMembersByMe :: "MatrixState \<Rightarrow> string \<Rightarrow> obj list" where
  "selectMatrixRoomMembersByMe s roomId = to_front (is_me s) (selectActiveMatrixRoomMembers s roomId)"

definition selectMatrixRoomMembersCount :: "MatrixState \<Rightarrow> string \<Rightarrow> nat" where
  "selectMatrixRoomMembersCount s roomId = length (selectActiveMatrixRoomMembers s roomId)"

definition selectMatrixRoomMemberMap :: "MatrixState \<Rightarrow> string \<Rightarrow> (string, obj) jsmap" where
  "selectMatrixRoomMemberMap s roomId =
     foldl (\<lambda>acc member. jm_set (js_str (obj_get member ''id'')) member acc) [] (selectMatrixRoomMembers s roomId)"

definition selectMatrixRoomMember :: "MatrixState \<Rightarrow> string \<Rightarrow> string \<Rightarrow> obj option" where
  "selectMatrixRoomMember s roomId userId = find (has_id userId) (selectMatrixRoomMembers s roomId)"

definition selectMatrixRoomMembersReadyForConversation :: "MatrixState \<Rightarrow> string \<Rightarrow> bool" where
  "selectMatrixRoomMembersReadyForConversation s roomId \<longleftrightarrow>
     jm_get (roomMembers s) roomId \<noteq> None \<and> selectMatrixRoomMembersCount s roomId > 0"

definition selectMatrixRoomSelfPowerLevel :: "MatrixState \<Rightarrow> string \<Rightarrow> RpcUserPowerLevel option" where
  "selectMatrixRoomSelfPowerLevel s roomId =
     (case find (is_me s) (selectMatrixRoomMembers s roomId) of
        None \<Rightarrow> None | Some member \<Rightarrow> power_level_of member)"

definition selectCanRespondToKnockRequests :: "MatrixState \<Rightarrow> string \<Rightarrow> bool" where
  "selectCanRespondToKnockRequests s roomId \<longleftrightarrow>
     (case selectMatrixRoomSelfPowerLevel s roomId of
        None \<Rightarrow> False
      | Some powerLevel \<Rightarrow> isPowerLevelGreaterOrEqual powerLevel (Inr MatrixPowerLevel_Moderator))"

definition selectShouldShowPendingJoinsIndicator :: "MatrixState \<Rightarrow> string \<Rightarrow> bool" where
  "selectShouldShowPendingJoinsIndicator s roomId \<longleftrightarrow>
     selectCanRespondToKnockRequests s roomId \<and>
     list_ex (\<lambda>m. obj_get m ''id'' \<notin> set (map JStr (items_of (seenKnockRequests s) roomId)))
       (selectMatrixRoomKnockingMembers s roomId)"

definition selectMatrixRoomIsReadOnly :: "MatrixState \<Rightarrow> string \<Rightarrow> bool" where
  "selectMatrixRoomIsReadOnly s roomId \<longleftrightarrow>
     (case (jm_get (roomPowerLevels s) roomId, selectMatrixRoomSelfPowerLevel s roomId) of
        (Some powerLevels, Some selfPowerLevel) \<Rightarrow>
          \<not> isPowerLevelGreaterOrEqual selfPowerLevel (Inr (message_level powerLevels))
      | _ \<Rightarrow> False)"

definition selectMatrixRoomCanUploadMedia :: "MatrixState \<Rightarrow> string \<Rightarrow> bool" where
  "selectMatrixRoomCanUploadMedia s roomId \<longleftrightarrow>
     (if (case selectMatrixRoom s roomId of None \<Rightarrow> None | Some room \<Rightarrow> isPublic room) \<noteq> Some True then True
      else case (jm_get (roomPowerLevels s) roomId, selectMatrixRoomSelfPowerLevel s roomId) of
             (Some _, Some selfPowerLevel) \<Rightarrow>
               isPowerLevelGreaterOrEqual selfPowerLevel (Inr MatrixPowerLevel_Moderator)
           | _ \<Rightarrow> False)"

definition selectCanReply :: "MatrixState \<Rightarrow> string \<Rightarrow> bool" where
  "selectCanReply s roomId \<longleftrightarrow>
     selectMatrixAuth s \<noteq> None \<and>
     map_option roomState (selectMatrixRoom s roomId) = Some joined \<and> \<not> selectMatrixRoomIsReadOnly s roomId"

definition selectMatrixUserIsIgnored :: "MatrixState \<Rightarrow> string \<Rightarrow> bool" where
  "selectMatrixUserIsIgnored s userId \<longleftrightarrow> userId \<in> set (ignoredUsers s)"

definition GUARDIANITO_BOT_DISPLAY_NAME :: string where
  "GUARDIANITO_BOT_DISPLAY_NAME = ''G-Bot''"

text \<open>The direct chat's user as a member of it, and one round of the loops over the rooms.\<close>

definition same_user :: "string option \<Rightarrow> obj \<Rightarrow> bool" where
  "same_user u member \<longleftrightarrow> obj_get member ''id'' = (case u of None \<Rightarrow> JNull | Some i \<Rightarrow> JStr i)"

definition add_direct_user :: "MatrixState \<Rightarrow> MatrixRoom \<Rightarrow> obj list \<Rightarrow> obj list" where
  "add_direct_user s room directChatUsers =
     (if list_ex (same_user (directUserId room)) directChatUsers then directChatUsers
      else case find (same_user (directUserId room)) (items_of (roomMembers s) (room_id room)) of
             None \<Rightarrow> directChatUsers
           | Some user \<Rightarrow> directChatUsers @ [user])"

definition selectMatrixContactsList :: "MatrixState \<Rightarrow> obj list" where
  "selectMatrixContactsList s =
     fold (\<lambda>room us. if \<not> isDirect room \<or> room_name room = GUARDIANITO_BOT_DISPLAY_NAME then us
                      else add_direct_user s room us) (selectMatrixRooms s) []"

definition selectMatrixContactById :: "MatrixState \<Rightarrow> string \<Rightarrow> obj option" where
  "selectMatrixContactById s userId = find (has_id userId) (selectMatrixContactsList s)"

fun recent_members :: "MatrixState \<Rightarrow> nat \<Rightarrow> MatrixRoom list \<Rightarrow> obj list \<Rightarrow> obj list" where
  "recent_members s limit [] recentUsers = recentUsers"
| "recent_members s limit (room # rooms) recentUsers =
     (if \<not> isDirect room then recent_members s limit rooms recentUsers
      else let recentUsers' = add_direct_user s room recentUsers
           in if length recentUsers' > length recentUsers \<and> length recentUsers' \<ge> limit then recentUsers'
              else recent_members s limit rooms recentUsers')"

definition selectRecentMatrixRoomMembers :: "MatrixState \<Rightarrow> nat option \<Rightarrow> obj list" where
  "selectRecentMatrixRoomMembers s limit_arg =
     (let limit = (case limit_arg of None \<Rightarrow> 4 | Some n \<Rightarrow> if n = 0 then 4 else n)
      in recent_members s limit (selectMatrixRooms s) [])"

section \<open>Conversations\<close>

definition timeline_events :: "MatrixEvent option list \<Rightarrow> MatrixEvent list" where
  "timeline_events timeline = List.map_filter id timeline"

definition conversation :: "MatrixEvent list \<Rightarrow> MatrixEvent list" where
  "conversation events =
     consolidatePaymentEvents (filterVirtualSpTransferEvents (filterMultispendEvents events))"

definition selectMatrixRoomEvents :: "MatrixState \<Rightarrow> string \<Rightarrow> MatrixEvent list" where
  "selectMatrixRoomEvents s roomId =
     (case jm_get (roomTimelines s) roomId of
        None \<Rightarrow> [] | Some timeline \<Rightarrow> conversation (timeline_events timeline))"

definition selectMatrixRoomRawEvents :: "MatrixState \<Rightarrow> string \<Rightarrow> MatrixEvent list" where
  "selectMatrixRoomRawEvents s roomId =
     (case jm_get (roomTimelines s) roomId of None \<Rightarrow> [] | Some timeline \<Rightarrow> timeline_events timeline)"

definition selectMatrixRoomSelectableEventIds :: "MatrixState \<Rightarrow> string \<Rightarrow> string list" where
  "selectMatrixRoomSelectableEventIds s roomId =
     map ev_id (filter (\<lambda>event. msgtype (content event) \<in> set SelectableEventKinds)
       (selectMatrixRoomRawEvents s roomId))"

definition selectMatrixRoomRawPinnedEvents :: "MatrixState \<Rightarrow> string \<Rightarrow> MatrixEvent list" where
  "selectMatrixRoomRawPinnedEvents s roomId =
     concat (map (\<lambda>item. case item of
           item_event event \<Rightarrow>
             if isRpcMatrixEvent event then [event\<lparr>ev_roomId := roomId\<rparr>] else []
         | _ \<Rightarrow> []) (items_of (roomPinnedTimelineItems s) roomId))"

record MatrixRoomPinnedVisibleEntry =
  entry_event :: MatrixEvent
  rawEventIds :: "string list"

text \<open>One pinned event: a new entry, or its entry moved to the end with one more identifier.\<close>

definition add_pinned ::
  "(string, MatrixEvent) jsmap \<Rightarrow> (string, MatrixEvent) jsmap \<Rightarrow>
     (string, MatrixRoomPinnedVisibleEntry) jsmap \<Rightarrow> MatrixEvent \<Rightarrow> (string, MatrixRoomPinnedVisibleEntry) jsmap" where
  "add_pinned byId byPayment entries rawPinnedEvent =
     (case resolvePinnedEventToConversationEvent rawPinnedEvent byId byPayment of
        None \<Rightarrow> entries
      | Some resolvedEvent \<Rightarrow>
          (case jm_get entries (ev_id resolvedEvent) of
             None \<Rightarrow>
               jm_set (ev_id resolvedEvent)
                 \<lparr> entry_event = resolvedEvent, rawEventIds = [ev_id rawPinnedEvent] \<rparr> entries
           | Some existingEntry \<Rightarrow>
               jm_set (ev_id resolvedEvent)
                 \<lparr> entry_event = resolvedEvent,
                   rawEventIds = js_set_add (ev_id rawPinnedEvent) (rawEventIds existingEntry) \<rparr>
                 (jm_del (ev_id resolvedEvent) entries)))"

definition visible_by_id :: "MatrixEvent list \<Rightarrow> (string, MatrixEvent) jsmap" where
  "visible_by_id events = foldl (\<lambda>m e. jm_set (ev_id e) e m) [] events"

definition visible_by_payment :: "MatrixEvent list \<Rightarrow> (string, MatrixEvent) jsmap" where
  "visible_by_payment events =
     foldl (\<lambda>m e. case payment_of (content e) of None \<Rightarrow> m | Some p \<Rightarrow> jm_set (pay_paymentId p) e m) [] events"

definition pinned_entries :: "MatrixEvent list \<Rightarrow> MatrixEvent list \<Rightarrow> MatrixRoomPinnedVisibleEntry list" where
  "pinned_entries rawPinnedEvents visibleEvents =
     jm_values (foldl (add_pinned (visible_by_id visibleEvents) (visible_by_payment visibleEvents)) []
       rawPinnedEvents)"

definition selectMatrixRoomPinnedVisibleEntries :: "MatrixState \<Rightarrow> string \<Rightarrow> MatrixRoomPinnedVisibleEntry list" where
  "selectMatrixRoomPinnedVisibleEntries s roomId =
     pinned_entries (selectMatrixRoomRawPinnedEvents s roomId) (selectMatrixRoomEvents s roomId)"

definition selectMatrixRoomPinnedEvents :: "MatrixState \<Rightarrow> string \<Rightarrow> MatrixEvent list" where
  "selectMatrixRoomPinnedEvents s roomId = map entry_event (selectMatrixRoomPinnedVisibleEntries s roomId)"

definition selectMatrixRoomPinnedRawEventIdsForVisibleEvent ::
  "MatrixState \<Rightarrow> string \<Rightarrow> string option \<Rightarrow> string list" where
  "selectMatrixRoomPinnedRawEventIdsForVisibleEvent s roomId eventId =
     (case eventId of
        None \<Rightarrow> []
      | Some i \<Rightarrow>
          if i = [] then []
          else case find (\<lambda>entry. ev_id (entry_event entry) = i) (selectMatrixRoomPinnedVisibleEntries s roomId) of
                 None \<Rightarrow> []
               | Some entry \<Rightarrow> rawEventIds entry)"

definition selectMatrixRoomLatestPaymentEvent :: "MatrixState \<Rightarrow> string \<Rightarrow> string \<Rightarrow> MatrixEvent option" where
  "selectMatrixRoomLatestPaymentEvent s roomId paymentId =
     find (has_paymentId paymentId) (rev (selectMatrixRoomEvents s roomId))"

definition selectLatestMatrixRoomEventId :: "MatrixState \<Rightarrow> string \<Rightarrow> string option" where
  "selectLatestMatrixRoomEventId s roomId =
     (case jm_get (roomTimelines s) roomId of
        None \<Rightarrow> None
      | Some timeline \<Rightarrow> find (\<lambda>i. i \<noteq> []) (rev (map ev_id (timeline_events timeline))))"

definition selectReplyingToMessageEventForRoom :: "MatrixState \<Rightarrow> string \<Rightarrow> MatrixEvent option" where
  "selectReplyingToMessageEventForRoom s roomId =
     (if fst (replyingToMessage s) = Some roomId then snd (replyingToMessage s) else None)"

definition selectPreviewMediaMatchingEventContent ::
  "MatrixState \<Rightarrow> RpcMsgLikeKind \<Rightarrow> (InputMedia \<times> bool) option" where
  "selectPreviewMediaMatchingEventContent s body =
     find (\<lambda>(media, visible). doesEventContentMatchPreviewMedia media body) (previewMedia s)"

end
