(* ===== verification/Multispend.thy ===== *)
theory Multispend
  imports Matrix_Selectors
begin

text \<open>
  Multispend groups: accounts of chat rooms whose withdrawals need the approval of a number of signers.
  \<^verbatim>\<open>ui/common/utils/matrix.ts\<close> has the roles and the state of a withdrawal, \<^verbatim>\<open>ui/common/redux/matrix.ts\<close> the
  selectors and the thunks that list events and vote.
\<close>

section \<open>Roles and votes\<close>

fun getMultispendInvite :: "RpcMultispendGroupStatus \<Rightarrow> GroupInvitation option" where
  "getMultispendInvite (activeInvitation _ state) = Some (keys_invitation state)"
| "getMultispendInvite (finalized _ finalized_group) = Some (fin_invitation finalized_group)"
| "getMultispendInvite inactive = None"

fun multispend_proposer :: "RpcMultispendGroupStatus \<Rightarrow> string option" where
  "multispend_proposer (activeInvitation _ state) = Some (keys_proposer state)"
| "multispend_proposer (finalized _ finalized_group) = Some (fin_proposer finalized_group)"
| "multispend_proposer inactive = None"

datatype MultispendRole = role_member | role_voter | role_proposer

definition getMultispendRole :: "RpcMultispendGroupStatus \<Rightarrow> string \<Rightarrow> MultispendRole" where
  "getMultispendRole multispendStatus userId =
     (let group_signers = (case getMultispendInvite multispendStatus of None \<Rightarrow> [] | Some i \<Rightarrow> signers i);
          isVoter = (userId \<in> set group_signers);
          isProposer = (multispend_proposer multispendStatus = Some userId)
      in if isProposer then role_proposer else if isVoter then role_voter else role_member)"

fun role_power :: "MultispendRole \<Rightarrow> int" where
  "role_power role_proposer = 2"
| "role_power role_voter = 1"
| "role_power role_member = 0"

text \<open>A stable sort, the powerful roles first; the identifier of a member is a string.\<close>

definition sortMultispendRoomMembers :: "obj list \<Rightarrow> RpcMultispendGroupStatus option \<Rightarrow> obj list" where
  "sortMultispendRoomMembers members multispendStatus =
     (case multispendStatus of
        None \<Rightarrow> members
      | Some st \<Rightarrow>
          orderBy_desc (\<lambda>m. role_power (getMultispendRole st (js_str (obj_get m ''id'')))) members)"

definition getHasUserVotedForWithdrawal :: "WithdrawRequestWithApprovals \<Rightarrow> string \<Rightarrow> bool" where
  "getHasUserVotedForWithdrawal request userId \<longleftrightarrow>
     userId \<in> set (rejections request) \<or>
     (case jm_get (signatures request) userId of None \<Rightarrow> False | Some sig \<Rightarrow> sig \<noteq> [])"

text \<open>The counts are integers: the difference of signers and threshold may be negative.\<close>

definition isMultispendWithdrawalRejected ::
  "WithdrawRequestWithApprovals \<Rightarrow> RpcMultispendGroupStatus \<Rightarrow> bool" where
  "isMultispendWithdrawalRejected request multispendStatus \<longleftrightarrow>
     (case getMultispendInvite multispendStatus of
        None \<Rightarrow> False
      | Some invitation \<Rightarrow>
          int (length (rejections request)) > int (length (signers invitation)) - int (threshold invitation))"

definition isWithdrawalRequestApproved ::
  "WithdrawRequestWithApprovals \<Rightarrow> RpcMultispendGroupStatus \<Rightarrow> bool" where
  "isWithdrawalRequestApproved request multispendStatus \<longleftrightarrow>
     (case getMultispendInvite multispendStatus of
        None \<Rightarrow> False
      | Some invitation \<Rightarrow> length (jm_keys (signatures request)) \<ge> threshold invitation)"

section \<open>Listed events\<close>

fun withdrawal_of :: "MsEventData \<Rightarrow> WithdrawRequestWithApprovals option" where
  "withdrawal_of (ms_withdrawalRequest r) = Some r"
| "withdrawal_of _ = None"

definition isMultispendWithdrawalEvent :: "MultispendListedEvent \<Rightarrow> bool" where
  "isMultispendWithdrawalEvent event \<longleftrightarrow> withdrawal_of (ms_event event) \<noteq> None"

definition isMultispendDepositEvent :: "MultispendListedEvent \<Rightarrow> bool" where
  "isMultispendDepositEvent event \<longleftrightarrow>
     (case ms_event event of ms_depositNotification _ _ _ _ \<Rightarrow> True | _ \<Rightarrow> False)"

definition isMultispendFinancialEvent :: "MultispendListedEvent \<Rightarrow> bool" where
  "isMultispendFinancialEvent evt \<longleftrightarrow> isMultispendWithdrawalEvent evt \<or> isMultispendDepositEvent evt"

definition isMultispendInvitation :: "MultispendListedEvent \<Rightarrow> bool" where
  "isMultispendInvitation event \<longleftrightarrow> (case ms_event event of ms_groupInvitation _ \<Rightarrow> True | _ \<Rightarrow> False)"

definition selectMatrixRoomMultispendStatus :: "MatrixState \<Rightarrow> string \<Rightarrow> RpcMultispendGroupStatus option" where
  "selectMatrixRoomMultispendStatus s roomId =
     (case jm_get (roomMultispendStatus s) roomId of None \<Rightarrow> None | Some st \<Rightarrow> st)"

definition selectMultispendRole :: "MatrixState \<Rightarrow> string \<Rightarrow> string \<Rightarrow> MultispendRole option" where
  "selectMultispendRole s roomId userId =
     (case selectMatrixRoomMultispendStatus s roomId of
        None \<Rightarrow> None
      | Some st \<Rightarrow> if userId = [] then None else Some (getMultispendRole st userId))"

definition selectMyMultispendRole :: "MatrixState \<Rightarrow> string \<Rightarrow> MultispendRole option" where
  "selectMyMultispendRole s roomId =
     (case my_id s of None \<Rightarrow> None | Some myId \<Rightarrow> selectMultispendRole s roomId myId)"

definition selectMultispendInvite :: "MatrixState \<Rightarrow> string \<Rightarrow> GroupInvitation option" where
  "selectMultispendInvite s roomId =
     (case selectMatrixRoomMultispendStatus s roomId of None \<Rightarrow> None | Some st \<Rightarrow> getMultispendInvite st)"

definition selectSpTransferState :: "MatrixState \<Rightarrow> string \<Rightarrow> string \<Rightarrow> RpcSpTransferState option" where
  "selectSpTransferState s roomId eventId = jm_get (items_of (spTransferStates s) roomId) eventId"

definition selectMatrixRoomMultispendEvents :: "MatrixState \<Rightarrow> string \<Rightarrow> MultispendListedEvent list" where
  "selectMatrixRoomMultispendEvents s roomId = items_of (roomMultispendEvents s) roomId"

definition selectRoomMultispendFinancialEvents :: "MatrixState \<Rightarrow> string \<Rightarrow> MultispendListedEvent list" where
  "selectRoomMultispendFinancialEvents s roomId =
     filter isMultispendFinancialEvent (selectMatrixRoomMultispendEvents s roomId)"

definition lower_counter :: "MultispendListedEvent \<Rightarrow> MultispendListedEvent \<Rightarrow> MultispendListedEvent" where
  "lower_counter latest current = (if ms_counter latest < ms_counter current then latest else current)"

definition selectLatestMultispendTxnInRoom :: "MatrixState \<Rightarrow> string \<Rightarrow> MultispendListedEvent option" where
  "selectLatestMultispendTxnInRoom s roomId =
     (case selectRoomMultispendFinancialEvents s roomId of
        [] \<Rightarrow> None
      | t # ts \<Rightarrow> Some (foldl lower_counter t (t # ts)))"

definition selectMatrixRoomMultispendWithdrawalRequests :: "MatrixState \<Rightarrow> string \<Rightarrow> MultispendListedEvent list" where
  "selectMatrixRoomMultispendWithdrawalRequests s roomId =
     filter isMultispendWithdrawalEvent (selectRoomMultispendFinancialEvents s roomId)"

definition selectMatrixRoomMultispendEvent :: "MatrixState \<Rightarrow> string \<Rightarrow> string \<Rightarrow> MultispendListedEvent option" where
  "selectMatrixRoomMultispendEvent s roomId eventId =
     find (\<lambda>e. ms_eventId e = eventId) (selectMatrixRoomMultispendEvents s roomId)"

definition selectMultispendInvitationEvents :: "MatrixState \<Rightarrow> string \<Rightarrow> MultispendListedEvent list" where
  "selectMultispendInvitationEvents s roomId =
     filter isMultispendInvitation (selectMatrixRoomMultispendEvents s roomId)"

definition selectMultispendInvitationEvent :: "MatrixState \<Rightarrow> string \<Rightarrow> string \<Rightarrow> MultispendListedEvent option" where
  "selectMultispendInvitationEvent s roomId eventId =
     find (\<lambda>e. ms_eventId e = eventId) (selectMultispendInvitationEvents s roomId)"

section \<open>Thunks\<close>

datatype 'a thunk_result = Rejected string | Returned 'a

text \<open>Voting names the active invitation; approving and rejecting differ in the call only.\<close>

definition vote_invitation :: "MatrixState \<Rightarrow> string \<Rightarrow> string thunk_result" where
  "vote_invitation s roomId =
     (case selectMatrixRoomMultispendStatus s roomId of
        Some (activeInvitation active_invite_id _) \<Rightarrow> Returned active_invite_id
      | _ \<Rightarrow> Rejected ''Cannot vote if multispend status is not activeInvitation'')"

text \<open>The arguments of the request for events: where to start after, and how many.\<close>

definition fetchMultispendEvents ::
  "MatrixState \<Rightarrow> string \<Rightarrow> bool \<Rightarrow> nat \<Rightarrow> bool \<Rightarrow> int option \<times> nat" where
  "fetchMultispendEvents s roomId refresh limit fetchMore =
     (if refresh then (None, max 100 (length (selectRoomMultispendFinancialEvents s roomId) + 1))
      else if fetchMore then (map_option ms_counter (selectLatestMultispendTxnInRoom s roomId), limit)
      else (None, limit))"

text \<open>The guard of a change of a member's power level.\<close>

definition setMatrixRoomMemberPowerLevel :: "MatrixState \<Rightarrow> string \<Rightarrow> int \<Rightarrow> unit thunk_result" where
  "setMatrixRoomMemberPowerLevel s roomId powerLevel =
     (if powerLevel = MatrixPowerLevel_Admin \<and>
         (case selectMatrixRoomMultispendStatus s roomId of Some (activeInvitation _ _) \<Rightarrow> True | _ \<Rightarrow> False)
      then Rejected ''errors.admin-promotion-pending-multispend'' else Returned ())"


section \<open>Votes on a withdrawal\<close>

text \<open>
  The votes are those of the signers, each has one vote, and the threshold can be met. The bridge keeps
  the votes like that.
\<close>

definition votes_ok :: "GroupInvitation \<Rightarrow> WithdrawRequestWithApprovals \<Rightarrow> bool" where
  "votes_ok invitation request \<longleftrightarrow>
     distinct (signers invitation) \<and> threshold invitation \<le> length (signers invitation) \<and>
     distinct (jm_keys (signatures request)) \<and> distinct (rejections request) \<and>
     set (jm_keys (signatures request)) \<union> set (rejections request) \<subseteq> set (signers invitation) \<and>
     set (jm_keys (signatures request)) \<inter> set (rejections request) = {}"

lemma votes_bound:
  assumes "votes_ok invitation request"
  shows "length (jm_keys (signatures request)) + length (rejections request) \<le> length (signers invitation)"
proof -
  let ?votes = "jm_keys (signatures request) @ rejections request"
  have "distinct ?votes" "set ?votes \<subseteq> set (signers invitation)"
    using assms by (auto simp: votes_ok_def)
  then have "length ?votes \<le> length (signers invitation)"
    by (metis List.finite_set assms card_mono distinct_card votes_ok_def)
  then show ?thesis by simp
qed

text \<open>
  C29. A withdrawal is never both approved and rejected; it is rejected exactly when it could no
  longer be approved even if all the others signed; and when every signer has voted it is decided.
\<close>

theorem withdrawal_verdicts:
  assumes "getMultispendInvite st = Some invitation" "votes_ok invitation request"
  shows "\<not> (isWithdrawalRequestApproved request st \<and> isMultispendWithdrawalRejected request st) \<and>
    (isMultispendWithdrawalRejected request st \<longleftrightarrow>
       length (signers invitation) - length (rejections request) < threshold invitation) \<and>
    (length (jm_keys (signatures request)) + length (rejections request) = length (signers invitation) \<longrightarrow>
       isWithdrawalRequestApproved request st \<or> isMultispendWithdrawalRejected request st)"
  using assms(1) votes_bound [OF assms(2)] assms(2)
  by (auto simp: isWithdrawalRequestApproved_def isMultispendWithdrawalRejected_def votes_ok_def)

definition example_invitation :: GroupInvitation where
  "example_invitation = \<lparr> signers = [''a'', ''b'', ''c''], threshold = 2, federationInviteCode = ''fed11'',
     inv_federationName = ''f'' \<rparr>"

definition example_withdrawal :: WithdrawRequestWithApprovals where
  "example_withdrawal = \<lparr> wd_transfer_amount = 500, wd_description = [], signatures = [(''a'', ''sig'')],
     rejections = [''c'', ''b''], txSubmissionStatus = submission_unknown, wd_sender = ''a'' \<rparr>"

theorem withdrawal_verdicts_witness:
  "isMultispendWithdrawalRejected example_withdrawal
     (finalized ''e'' \<lparr> fin_invitation = example_invitation, fin_proposer = ''a'' \<rparr>)"
proof -
  have "votes_ok example_invitation example_withdrawal"
    by (simp add: votes_ok_def example_invitation_def example_withdrawal_def jm_keys_def)
  from withdrawal_verdicts [OF _ this, of "finalized ''e'' \<lparr> fin_invitation = example_invitation, fin_proposer = ''a'' \<rparr>"]
  show ?thesis by (simp add: example_invitation_def example_withdrawal_def)
qed

section \<open>The list of events of a group\<close>

definition events_ok :: "MultispendListedEvent list \<Rightarrow> bool" where
  "events_ok events \<longleftrightarrow>
     distinct (map ms_eventId events) \<and> sorted (map (\<lambda>e. - ms_counter e) events)"

definition keyed :: "(string, MultispendListedEvent) jsmap \<Rightarrow> bool" where
  "keyed m \<longleftrightarrow> distinct (jm_keys m) \<and> list_all (\<lambda>(i, e). ms_eventId e = i) m"

lemma keyed_insert_event: "keyed m \<Longrightarrow> keyed (jm_set (ms_eventId e) e m)"
  using jm_set_mem by (fastforce simp: keyed_def jm_distinct_set list_all_iff)

lemma keyed_folds:
  "keyed m \<Longrightarrow> keyed (foldl set_event m es)" "keyed m \<Longrightarrow> keyed (foldl set_missing_event m es)"
  by (induction es arbitrary: m) (auto simp: set_event_def set_missing_event_def keyed_insert_event)

lemma keyed_values: "keyed m \<Longrightarrow> map ms_eventId (jm_values m) = jm_keys m"
  by (auto simp: keyed_def jm_values_def jm_keys_def list_all_iff)

lemma get_set_event:
  "jm_get (foldl set_event m es) i =
     (case filter (\<lambda>e. ms_eventId e = i) es of [] \<Rightarrow> jm_get m i | own \<Rightarrow> Some (last own))"
  by (induction es arbitrary: m) (auto simp: set_event_def split: list.splits)

lemma get_set_missing_event:
  "jm_get (foldl set_missing_event m es) i =
     (case jm_get m i of Some e \<Rightarrow> Some e | None \<Rightarrow> find (\<lambda>e. ms_eventId e = i) es)"
  by (induction es arbitrary: m) (auto simp: set_missing_event_def split: option.splits)

lemma keyed_Nil: "keyed []" by (simp add: keyed_def jm_keys_def)

lemma find_value:
  assumes "keyed m"
  shows "e \<in> set (jm_values m) \<longleftrightarrow> jm_get m (ms_eventId e) = Some e"
  using assms jm_get_iff_mem [of m "ms_eventId e" e]
  by (force simp: keyed_def jm_values_def list_all_iff)

lemma updateMultispendEvents_ok: "events_ok (updateMultispendEvents new old)"
proof -
  let ?m = "foldl set_missing_event (foldl set_event [] new) old"
  have "keyed ?m" by (simp add: keyed_folds keyed_Nil)
  then have "distinct (map ms_eventId (jm_values ?m))" by (simp add: keyed_values) (simp add: keyed_def)
  then show ?thesis
    by (simp add: events_ok_def updateMultispendEvents_def distinct_map_orderBy_desc sorted_orderBy_desc)
qed

text \<open>
  Fetched events are merged into the list: the result has each event once, in descending order
  of the counters, and an event is the one fetched last, or the one listed before when it was not
  fetched.
\<close>

theorem multispend_merge:
  "events_ok (updateMultispendEvents new old) \<and>
   (e \<in> set (updateMultispendEvents new old) \<longleftrightarrow>
     (case filter (\<lambda>n. ms_eventId n = ms_eventId e) new of
        [] \<Rightarrow> find (\<lambda>n. ms_eventId n = ms_eventId e) old = Some e
      | own \<Rightarrow> e = last own))"
proof
  let ?m = "foldl set_missing_event (foldl set_event [] new) old"
  have k: "keyed ?m" by (simp add: keyed_folds keyed_Nil)
  show "events_ok (updateMultispendEvents new old)" by (rule updateMultispendEvents_ok)
  show "e \<in> set (updateMultispendEvents new old) \<longleftrightarrow>
     (case filter (\<lambda>n. ms_eventId n = ms_eventId e) new of
        [] \<Rightarrow> find (\<lambda>n. ms_eventId n = ms_eventId e) old = Some e
      | own \<Rightarrow> e = last own)"
    by (auto simp: updateMultispendEvents_def find_value [OF k] get_set_missing_event get_set_event
        split: list.splits)
qed

end
