(* ===== verification/Matrix_Properties.thy ===== *)
theory Matrix_Properties
  imports Multispend
begin

text \<open>
  What holds of the chat state over whole runs of the slice: the list of chats is an ordered merge
  that lists no room twice, acknowledged join requests come back when they are made again, and the
  events of multispend groups stay ordered and unique.
\<close>

section \<open>The list of chats\<close>

lemma merge_chats_shuffles: "merge_chats xs ys \<in> shuffles xs ys"
  by (induction xs ys rule: merge_chats.induct) auto

abbreviation newest_first :: "MatrixRoom list \<Rightarrow> bool" where
  "newest_first rooms \<equiv> sorted (map (\<lambda>r. - preview_time r) rooms)"

lemma set_merge_chats: "set (merge_chats xs ys) = set xs \<union> set ys"
  using merge_chats_shuffles [of xs ys] by (rule set_shuffles)

lemma sorted_merge_chats: "newest_first xs \<Longrightarrow> newest_first ys \<Longrightarrow> newest_first (merge_chats xs ys)"
  by (induction xs ys rule: merge_chats.induct) (auto simp: set_merge_chats)

lemma sorted_default_chats: "newest_first (selectDefaultChatsForChatList s)"
  by (simp add: selectDefaultChatsForChatList_def sorted_orderBy_desc)

text \<open>
  The list of chats is a merge of the rooms that are joined, invited or knocked at and of the
  default chats: each keeps its own order and none is lost; when the rooms are ordered by their latest
  message, newest first, so is the whole list.
\<close>

theorem chat_list_merge:
  "selectMatrixChatsList s \<in> shuffles (filter listed_room (selectMatrixRooms s)) (selectDefaultChatsForChatList s) \<and>
   (newest_first (filter listed_room (selectMatrixRooms s)) \<longrightarrow> newest_first (selectMatrixChatsList s))"
  using merge_chats_shuffles sorted_merge_chats sorted_default_chats
  by (auto simp: selectMatrixChatsList_def Let_def)

definition example_room :: "string \<Rightarrow> MatrixRoom" where
  "example_room i = \<lparr> room_id = i, room_name = i, room_avatarUrl = None, room_preview = None,
     directUserId = None, isDirect = False, notificationCount = 0, isMarkedUnread = False,
     joinedMemberCount = 3, isPreview = False, isPublic = Some False, allowKnocking = False,
     roomState = joined, recencyStamp = None, isBlocked = None, broadcastOnly = None, inviteCode = None \<rparr>"

definition example_chats :: MatrixState where
  "example_chats = initialMatrixState\<lparr>roomList := [ready ''a'', ready ''b''],
     roomInfo := [(''a'', example_room ''a''), (''b'', example_room ''b'')],
     groupPreviews := [(''c'', \<lparr> info = example_room ''c'',
       preview_timeline = [payment_event ''x'' pushed], isDefaultGroup = Some True \<rparr>)]\<rparr>"

theorem chat_list_merge_witness: "newest_first (selectMatrixChatsList example_chats)"
proof -
  have "newest_first (filter listed_room (selectMatrixRooms example_chats))"
    by (simp add: selectMatrixRooms_def room_of_item_def example_chats_def initialMatrixState_def
        jm_get_def example_room_def shown_room_def listed_room_def preview_time_def)
  then show ?thesis using chat_list_merge [of example_chats] by blast
qed

section \<open>Rooms and previews are kept under their identifiers\<close>

definition rooms_keyed :: "MatrixState \<Rightarrow> bool" where
  "rooms_keyed s \<longleftrightarrow>
     (\<forall>i r. jm_get (roomInfo s) i = Some r \<longrightarrow> room_id r = i) \<and>
     distinct (jm_keys (groupPreviews s)) \<and>
     (\<forall>i p. jm_get (groupPreviews s) i = Some p \<longrightarrow> room_id (info p) = i)"

text \<open>The preview fetched for a room is one of that room.\<close>

fun preview_ok :: "matrix_action \<Rightarrow> bool" where
  "preview_ok (Thunk (GetMatrixRoomPreviewFulfilled i (Some p))) \<longleftrightarrow> room_id (info p) = i"
| "preview_ok _ \<longleftrightarrow> True"

lemma upsert_room_get:
  "jm_get (upsert_room rs room) i = Some r \<Longrightarrow> i = room_id room \<and> room_id r = i \<or> jm_get rs i = Some r"
  by (auto simp: upsert_room_def spread_room_def split: option.splits if_splits)

lemma default_previews_keyed:
  assumes "distinct (jm_keys ps)" "\<forall>i p. jm_get ps i = Some p \<longrightarrow> room_id (info p) = i"
  shows "distinct (jm_keys (fst (foldl add_default_preview (ps, b) payload))) \<and>
    (\<forall>i p. jm_get (fst (foldl add_default_preview (ps, b) payload)) i = Some p \<longrightarrow> room_id (info p) = i)"
  using assms
proof (induction payload arbitrary: ps b)
  case (Cons p payload)
  obtain ps' b' where st: "add_default_preview (ps, b) p = (ps', b')" by fastforce
  then have "distinct (jm_keys ps')" "\<forall>i q. jm_get ps' i = Some q \<longrightarrow> room_id (info q) = i"
    using Cons.prems(1) Cons.prems(2) [rule_format]
    by (force simp: add_default_preview_def Let_def jm_distinct_set split: if_splits)+
  from Cons.IH [OF this] show ?case by (simp add: st)
qed simp

lemma change_member_rooms [simp]:
  "roomInfo (change_member isEqual u f i s) = roomInfo s"
  "groupPreviews (change_member isEqual u f i s) = groupPreviews s"
  "seenKnockRequests (change_member isEqual u f i s) = seenKnockRequests s"
  "roomMultispendEvents (change_member isEqual u f i s) = roomMultispendEvents s"
  by (auto simp: change_member_def split: option.splits)

lemma setUserIgnored_rooms [simp]:
  "roomInfo (setUserIgnored isEqual u b s) = roomInfo s"
  "groupPreviews (setUserIgnored isEqual u b s) = groupPreviews s"
  "seenKnockRequests (setUserIgnored isEqual u b s) = seenKnockRequests s"
  "roomMultispendEvents (setUserIgnored isEqual u b s) = roomMultispendEvents s"
proof -
  have "roomInfo (fold (change_member isEqual u f) is s) = roomInfo s"
    "groupPreviews (fold (change_member isEqual u f) is s) = groupPreviews s"
    "seenKnockRequests (fold (change_member isEqual u f) is s) = seenKnockRequests s"
    "roomMultispendEvents (fold (change_member isEqual u f) is s) = roomMultispendEvents s" for f "is"
    by (induction "is" arbitrary: s) auto
  then show "roomInfo (setUserIgnored isEqual u b s) = roomInfo s"
    "groupPreviews (setUserIgnored isEqual u b s) = groupPreviews s"
    "seenKnockRequests (setUserIgnored isEqual u b s) = seenKnockRequests s"
    "roomMultispendEvents (setUserIgnored isEqual u b s) = roomMultispendEvents s"
    by (simp_all add: setUserIgnored_def)
qed

lemma addMatrixUsers_rooms [simp]:
  "roomInfo (fold (addMatrixUser isEqual) us s) = roomInfo s"
  "groupPreviews (fold (addMatrixUser isEqual) us s) = groupPreviews s"
  "seenKnockRequests (fold (addMatrixUser isEqual) us s) = seenKnockRequests s"
  "roomMultispendEvents (fold (addMatrixUser isEqual) us s) = roomMultispendEvents s"
  by (induction us arbitrary: s) (auto simp: addMatrixUser_def)

lemma pruneSeenKnockRequests_rooms [simp]:
  "roomInfo (pruneSeenKnockRequests i s) = roomInfo s"
  "groupPreviews (pruneSeenKnockRequests i s) = groupPreviews s"
  "roomMultispendEvents (pruneSeenKnockRequests i s) = roomMultispendEvents s"
  by (auto simp: pruneSeenKnockRequests_def Let_def split: option.splits)

lemmas matrix_ops = matrixSlice_def addMatrixRoomInfo_def markMatrixRoomInviteSeen_def markKnockRequestsSeen_def
  handleMatrixRoomListStreamUpdates_def addMatrixRoomMember_def setMatrixRoomMembers_def addMatrixUser_def
  setMatrixUsers_def handleMatrixRoomTimelineStreamUpdates_def handleMatrixRoomPinnedTimelineStreamUpdates_def
  setMatrixRoomMultispendStatus_def setSpTransferState_def setChatDraft_def matchAndHidePreviewMedia_def
  addRejectedMatrixRoom_def setMatrixRoomMemberPowerLevel_fulfilled_def change_auth_def Let_def


lemma map_sum_Inr [simp]: "map_sum id f v = Inr y \<longleftrightarrow> (\<exists>z. v = Inr z \<and> y = f z)"
  by (cases v) auto

lemma roomInfo_slice:
  "roomInfo (matrixSlice isEqual s a) =
     (case a of Room (AddMatrixRoomInfo r) \<Rightarrow> upsert_room (roomInfo s) r
      | Chat ResetMatrixState \<Rightarrow> []
      | _ \<Rightarrow> roomInfo s)"
proof (cases a)
  case (Room b)
  then show ?thesis by (cases b) (auto simp: matrix_ops updateMatrixRoomMultispendTxns_def
      updateMatrixRoomMultispendEvent_def split: sum.splits)
next
  case (Chat b)
  then show ?thesis by (cases b) (auto simp: matrix_ops initialMatrixState_def)
next
  case (Thunk b)
  then show ?thesis by (cases b) (auto simp: matrix_ops getMatrixRoomPreview_fulfilled_def
      previewDefaultChats_fulfilled_def split: option.splits prod.splits)
qed

lemma groupPreviews_slice:
  "groupPreviews (matrixSlice isEqual s a) =
     (case a of Thunk (GetMatrixRoomPreviewFulfilled i p) \<Rightarrow> groupPreviews (getMatrixRoomPreview_fulfilled i p s)
      | Thunk (PreviewDefaultChatsFulfilled ps) \<Rightarrow> groupPreviews (previewDefaultChats_fulfilled ps s)
      | Chat ResetMatrixState \<Rightarrow> []
      | _ \<Rightarrow> groupPreviews s)"
proof (cases a)
  case (Room b)
  then show ?thesis by (cases b) (auto simp: matrix_ops updateMatrixRoomMultispendTxns_def
      updateMatrixRoomMultispendEvent_def split: sum.splits)
next
  case (Chat b)
  then show ?thesis by (cases b) (auto simp: matrix_ops initialMatrixState_def)
next
  case (Thunk b)
  then show ?thesis by (cases b) (auto simp: matrix_ops)
qed

interpretation keyed_rooms: invariant_machine "matrixSlice isEqual" preview_ok rooms_keyed
proof
  fix s a
  assume inv: "rooms_keyed s" and ok: "preview_ok a"
  have "\<forall>i r. jm_get (roomInfo (matrixSlice isEqual s a)) i = Some r \<longrightarrow> room_id r = i"
    using inv upsert_room_get
    by (fastforce simp: roomInfo_slice rooms_keyed_def split: matrix_action.splits room_action.splits chat_action.splits)
  moreover have "distinct (jm_keys (groupPreviews (matrixSlice isEqual s a))) \<and>
      (\<forall>i p. jm_get (groupPreviews (matrixSlice isEqual s a)) i = Some p \<longrightarrow> room_id (info p) = i)"
  proof (cases "\<exists>ps. a = Thunk (PreviewDefaultChatsFulfilled ps)")
    case True
    then obtain ps where a: "a = Thunk (PreviewDefaultChatsFulfilled ps)" by blast
    show ?thesis
      using inv default_previews_keyed [of "groupPreviews s" False ps]
      by (auto simp: a groupPreviews_slice previewDefaultChats_fulfilled_def rooms_keyed_def split: prod.splits)
  next
    case False
    show ?thesis
    proof (cases "\<exists>i p. a = Thunk (GetMatrixRoomPreviewFulfilled i (Some p))")
      case True
      then obtain i p where a: "a = Thunk (GetMatrixRoomPreviewFulfilled i (Some p))" by blast
      show ?thesis
        using inv ok
        by (auto simp: a groupPreviews_slice getMatrixRoomPreview_fulfilled_def rooms_keyed_def Let_def
            jm_distinct_set split: option.splits)
    next
      case other: False
      show ?thesis
        using inv False other
        by (auto simp: groupPreviews_slice getMatrixRoomPreview_fulfilled_def rooms_keyed_def jm_keys_def
            split: matrix_action.splits thunk_action.splits chat_action.splits option.splits)
    qed
  qed
  ultimately show "rooms_keyed (matrixSlice isEqual s a)" by (simp add: rooms_keyed_def)
qed

lemma initial_keyed: "rooms_keyed initialMatrixState"
  by (simp add: rooms_keyed_def initialMatrixState_def jm_keys_def)


lemma shown_room_id [simp]: "room_id (shown_room s r) = room_id r"
  by (simp add: shown_room_def)

lemma room_of_item_id:
  assumes "rooms_keyed s" "r \<in> set (room_of_item s item)"
  shows "item = ready (room_id r)"
proof (cases item)
  case (ready i)
  with assms(2) obtain q where "jm_get (roomInfo s) i = Some q" "r = shown_room s q"
    by (auto simp: room_of_item_def split: option.splits if_splits)
  then show ?thesis using assms(1) ready by (simp add: rooms_keyed_def)
qed (use assms(2) in \<open>simp add: room_of_item_def\<close>)

lemma room_of_item_cases: "room_of_item s item = [] \<or> (\<exists>r. room_of_item s item = [r])"
  by (auto simp: room_of_item_def split: MatrixRoomListItem.splits option.splits)

lemma distinct_rooms:
  assumes "rooms_keyed s"
  shows "distinct (filter (\<lambda>i. i \<noteq> loading) items) \<Longrightarrow>
    distinct (map room_id (concat (map (room_of_item s) items)))"
proof (induction items)
  case (Cons item items)
  show ?case
  proof (cases "room_of_item s item = []")
    case False
    then obtain r where r: "room_of_item s item = [r]" using room_of_item_cases by blast
    then have item: "item = ready (room_id r)" using room_of_item_id [OF assms] by simp
    have "room_id r \<noteq> room_id q" if "q \<in> set (concat (map (room_of_item s) items))" for q
      using that Cons.prems room_of_item_id [OF assms] by (force simp: item)
    moreover have "distinct (map room_id (concat (map (room_of_item s) items)))"
      using Cons.prems by (intro Cons.IH) (auto split: if_splits)
    ultimately show ?thesis by (auto simp: r)
  qed (use Cons in \<open>auto split: if_splits\<close>)
qed simp

lemma chat_room_id: "room_id (makeChatFromUnjoinedRoomPreview p) = room_id (info p)"
  by (simp add: makeChatFromUnjoinedRoomPreview_def Let_def)

lemma distinct_default_chats:
  assumes "rooms_keyed s"
  shows "distinct (map room_id (selectDefaultChatsForChatList s)) \<and>
    (\<forall>p \<in> set (selectDefaultChatsForChatList s). \<forall>r \<in> set (selectMatrixRooms s). room_id p \<noteq> room_id r)"
proof -
  have "map (\<lambda>p. room_id (info p)) (jm_values (groupPreviews s)) = jm_keys (groupPreviews s)"
    using assms jm_get_iff_mem [of "groupPreviews s"]
    by (auto simp: rooms_keyed_def jm_values_def jm_keys_def)
  then have "distinct (map (\<lambda>p. room_id (info p)) (jm_values (groupPreviews s)))"
    using assms by (simp add: rooms_keyed_def)
  then have "distinct (map (\<lambda>p. room_id (info p)) (filter P (jm_values (groupPreviews s))))" for P
    by (rule distinct_map_filter)
  then show ?thesis
    by (auto simp: selectDefaultChatsForChatList_def Let_def distinct_map_orderBy_desc comp_def chat_room_id
        find_None_iff)
qed

text \<open>
  C22. In every reachable state in which the bridge lists a room once, the list of chats has no room
  twice: a default chat is not shown beside the room it previews.
\<close>

theorem chats_listed_once:
  assumes "list_all preview_ok actions"
    and "s = run (matrixSlice isEqual) initialMatrixState actions"
    and "distinct (filter (\<lambda>i. i \<noteq> loading) (roomList s))"
  shows "distinct (map room_id (selectMatrixChatsList s))"
proof -
  have keyed: "rooms_keyed s"
    unfolding assms(2) by (rule keyed_rooms.run_inv [OF initial_keyed assms(1)])
  let ?rooms = "filter listed_room (selectMatrixRooms s)" and ?chats = "selectDefaultChatsForChatList s"
  have "distinct (map room_id ?rooms)"
    using distinct_rooms [OF keyed assms(3)] by (simp add: selectMatrixRooms_def distinct_map_filter)
  then have d: "distinct (map room_id (?rooms @ ?chats))"
    using distinct_default_chats [OF keyed] by fastforce
  have "mset (selectMatrixChatsList s) = mset (?rooms @ ?chats)"
    using mset_shuffles [OF merge_chats_shuffles] by (auto simp: selectMatrixChatsList_def Let_def)
  then have "mset (map room_id (selectMatrixChatsList s)) = mset (map room_id (?rooms @ ?chats))"
    by (simp add: image_mset_union)
  with d show ?thesis by (metis mset_eq_imp_distinct_iff)
qed

theorem chats_listed_once_witness:
  "distinct (map room_id (selectMatrixChatsList (run (matrixSlice (=)) initialMatrixState
     [Room (AddMatrixRoomInfo (example_room ''a'')),
      Room (HandleMatrixRoomListStreamUpdates [PushBack (ready ''a'')]),
      Thunk (PreviewDefaultChatsFulfilled
        [\<lparr> info = example_room ''a'', preview_timeline = [], isDefaultGroup = None \<rparr>])])))"
  by (rule chats_listed_once [OF _ refl]; simp add: matrix_ops previewDefaultChats_fulfilled_def
      initialMatrixState_def add_default_preview_def)

section \<open>Requests to join\<close>

text \<open>Actions that acknowledge the request of a user, or replace what was acknowledged.\<close>

fun acknowledges :: "string \<Rightarrow> string \<Rightarrow> matrix_action \<Rightarrow> bool" where
  "acknowledges roomId u (Room (MarkKnockRequestsSeen i ids)) \<longleftrightarrow> i = roomId \<and> u \<in> set ids"
| "acknowledges roomId u (Thunk (LoadFromStorageFulfilled d r si sk)) \<longleftrightarrow> True"
| "acknowledges roomId u _ \<longleftrightarrow> False"

abbreviation seen_in :: "MatrixState \<Rightarrow> string \<Rightarrow> string set" where
  "seen_in s roomId \<equiv> set (items_of (seenKnockRequests s) roomId)"

lemma prune_seen:
  "seen_in (pruneSeenKnockRequests i s) roomId \<subseteq> seen_in s roomId"
  "seen_in (pruneSeenKnockRequests roomId s) roomId \<subseteq> {u. JStr u \<in> set (knocking_ids s roomId)}"
proof -
  show "seen_in (pruneSeenKnockRequests i s) roomId \<subseteq> seen_in s roomId"
    by (auto simp: pruneSeenKnockRequests_def Let_def items_of_def split: option.splits)
  let ?P = "\<lambda>u. JStr u \<in> set (knocking_ids s roomId)"
  show "seen_in (pruneSeenKnockRequests roomId s) roomId \<subseteq> {u. ?P u}"
  proof (cases "jm_get (seenKnockRequests s) roomId")
    case (Some seen)
    have all: "\<forall>u \<in> set seen. ?P u" if "length (filter ?P seen) = length seen"
      using that by (metis length_filter_less less_irrefl)
    show ?thesis
    proof (cases "length (filter ?P seen) = length seen \<and> filter ?P seen \<noteq> []")
      case True
      then have "pruneSeenKnockRequests roomId s = s" using Some by (simp add: pruneSeenKnockRequests_def)
      then show ?thesis using all True Some by (auto simp: items_of_def)
    qed (use Some in \<open>auto simp: pruneSeenKnockRequests_def Let_def\<close>)
  qed (simp add: pruneSeenKnockRequests_def items_of_def)
qed


lemma seen_step:
  assumes "\<not> acknowledges roomId u a" "u \<notin> seen_in s roomId"
  shows "u \<notin> seen_in (matrixSlice isEqual s a) roomId"
proof (cases a)
  case (Room b)
  have prune: "u \<notin> seen_in (pruneSeenKnockRequests i t) roomId"
    if "seenKnockRequests t = seenKnockRequests s" for i t
    using prune_seen(1) [of i t roomId] assms(2) that by (auto simp: items_of_def)
  show ?thesis
    using assms unfolding Room
    by (cases b) (auto simp: matrix_ops updateMatrixRoomMultispendTxns_def updateMatrixRoomMultispendEvent_def
        prune split: sum.splits)
next
  case (Chat b)
  with assms show ?thesis by (cases b) (auto simp: matrix_ops initialMatrixState_def items_of_def)
next
  case (Thunk b)
  with assms show ?thesis
    by (cases b) (auto simp: matrix_ops getMatrixRoomPreview_fulfilled_def
        previewDefaultChats_fulfilled_def split: option.splits prod.splits)
qed

lemma seen_run:
  "list_all (\<lambda>a. \<not> acknowledges roomId u a) actions \<Longrightarrow> u \<notin> seen_in s roomId \<Longrightarrow>
     u \<notin> seen_in (run (matrixSlice isEqual) s actions) roomId"
  by (induction actions arbitrary: s) (auto dest: seen_step)

lemma knocking_ids_members:
  "knocking_ids s roomId = map (\<lambda>m. obj_get m ''id'') (selectMatrixRoomKnockingMembers s roomId)"
  by (simp add: knocking_ids_def selectMatrixRoomKnockingMembers_def selectMatrixRoomMembers_def
      has_membership_def [abs_def])

text \<open>
  A request to join that was acknowledged shows again when it is made again: once the members of
  the room are known without the request, its acknowledgement is forgotten, and whatever happens
  after that, the indicator shows as soon as the user asks to join, until the request is acknowledged.
\<close>

theorem knock_shows_again:
  assumes "\<not> list_ex (\<lambda>m. has_membership ''knock'' m \<and> obj_get m ''id'' = JStr u) members"
    and "list_all (\<lambda>a. \<not> acknowledges roomId u a) actions"
    and "s' = run (matrixSlice isEqual) (matrixSlice isEqual s (Room (SetMatrixRoomMembers roomId members))) actions"
    and "list_ex (\<lambda>m. obj_get m ''id'' = JStr u) (selectMatrixRoomKnockingMembers s' roomId)"
    and "selectCanRespondToKnockRequests s' roomId"
  shows "selectShouldShowPendingJoinsIndicator s' roomId"
proof -
  let ?s = "s\<lparr>roomMembers := jm_set roomId members (roomMembers s)\<rparr>"
  have "JStr u \<notin> set (knocking_ids ?s roomId)"
    using assms(1) by (auto simp: knocking_ids_def has_membership_def list_ex_iff)
  then have "u \<notin> seen_in (matrixSlice isEqual s (Room (SetMatrixRoomMembers roomId members))) roomId"
    using prune_seen(2) [of roomId ?s] by (auto simp: matrixSlice_def setMatrixRoomMembers_def)
  then have "u \<notin> seen_in s' roomId" unfolding assms(3) by (rule seen_run [OF assms(2)])
  then have "JStr u \<notin> set (map JStr (items_of (seenKnockRequests s') roomId))" by auto
  with assms(4,5) show ?thesis
    unfolding selectShouldShowPendingJoinsIndicator_def list_ex_iff by metis
qed

definition member_obj :: "string \<Rightarrow> string \<Rightarrow> int \<Rightarrow> obj" where
  "member_obj i membership level = [(''id'', JStr i), (''roomId'', JStr ''r''), (''membership'', JStr membership),
     (''powerLevel'', JObj [(''type'', JStr ''int''), (''value'', JNum level)])]"

theorem knock_shows_again_witness:
  "selectShouldShowPendingJoinsIndicator
     (run (matrixSlice (=)) (matrixSlice (=) (initialMatrixState\<lparr>seenKnockRequests := [(''r'', [''u''])]\<rparr>)
         (Room (SetMatrixRoomMembers ''r'' [member_obj ''me'' ''join'' 100])))
       [Chat (SetMatrixAuth (Some \<lparr> auth_userId = ''me'', auth_deviceId = ''d'', auth_displayName = ''n'',
          auth_avatarUrl = None \<rparr>)),
        Room (SetMatrixRoomMembers ''r'' [member_obj ''me'' ''join'' 100, member_obj ''u'' ''knock'' 0])]) ''r''"
  by (rule knock_shows_again [where u = "''u''", OF _ _ refl])
     (auto simp: matrixSlice_def setMatrixRoomMembers_def pruneSeenKnockRequests_def knocking_ids_def member_obj_def
       obj_get_Cons initialMatrixState_def has_membership_def jm_get_Cons selectMatrixRoomKnockingMembers_def
       selectMatrixRoomMembers_def items_of_def selectCanRespondToKnockRequests_def
       selectMatrixRoomSelfPowerLevel_def is_me_def my_id_def selectMatrixAuth_def has_id_def js_seq_def
       power_level_of_def level_number_def isPowerLevelGreaterOrEqual_def MatrixPowerLevel_Moderator_def)

section \<open>Events of multispend groups\<close>

definition multispend_ok :: "MatrixState \<Rightarrow> bool" where
  "multispend_ok s \<longleftrightarrow> (\<forall>i evs. jm_get (roomMultispendEvents s) i = Some evs \<longrightarrow> events_ok evs)"

text \<open>The list that replaces the events of a room is in order.\<close>

fun transactions_ok :: "matrix_action \<Rightarrow> bool" where
  "transactions_ok (Room (SetMatrixRoomMultispendTransactions i ts)) \<longleftrightarrow> events_ok ts"
| "transactions_ok _ \<longleftrightarrow> True"

lemma multispendEvents_slice:
  "roomMultispendEvents (matrixSlice isEqual s a) =
     (case a of
        Room (SetMatrixRoomMultispendTransactions i ts) \<Rightarrow> jm_set i ts (roomMultispendEvents s)
      | Room (UpdateMatrixRoomMultispendTxns i ts) \<Rightarrow> roomMultispendEvents (updateMatrixRoomMultispendTxns i ts s)
      | Room (UpdateMatrixRoomMultispendEvent i e u) \<Rightarrow>
          roomMultispendEvents (updateMatrixRoomMultispendEvent i e u s)
      | Chat ResetMatrixState \<Rightarrow> []
      | _ \<Rightarrow> roomMultispendEvents s)"
proof (cases a)
  case (Room b)
  then show ?thesis by (cases b) (auto simp: matrix_ops split: sum.splits)
next
  case (Chat b)
  then show ?thesis by (cases b) (auto simp: matrix_ops initialMatrixState_def)
next
  case (Thunk b)
  then show ?thesis by (cases b) (auto simp: matrix_ops getMatrixRoomPreview_fulfilled_def
      previewDefaultChats_fulfilled_def split: option.splits prod.splits)
qed

lemma observed_event_ok: "events_ok evs \<Longrightarrow>
  events_ok (map (\<lambda>evt. if ms_eventId evt = e then evt\<lparr>ms_event := u, ms_eventId := e\<rparr> else evt) evs)"
proof -
  let ?f = "\<lambda>evt. if ms_eventId evt = e then evt\<lparr>ms_event := u, ms_eventId := e\<rparr> else evt"
  have "map ms_eventId (map ?f evs) = map ms_eventId evs" by auto
  moreover have "map (\<lambda>e. - ms_counter e) (map ?f evs) = map (\<lambda>e. - ms_counter e) evs" by auto
  ultimately show "events_ok evs \<Longrightarrow> events_ok (map ?f evs)" by (simp only: events_ok_def)
qed

interpretation multispend: invariant_machine "matrixSlice isEqual" transactions_ok multispend_ok
proof
  fix s a
  assume inv: "multispend_ok s" and ok: "transactions_ok a"
  have single: "events_ok [e]" for e by (simp add: events_ok_def)
  have merged: "events_ok (updateMultispendEvents new old)" for new old
    using updateMultispendEvents_ok by blast
  show "multispend_ok (matrixSlice isEqual s a)"
    using inv ok
    by (auto simp: multispend_ok_def multispendEvents_slice updateMatrixRoomMultispendTxns_def merged single
        updateMatrixRoomMultispendEvent_def observed_event_ok Let_def
        split: matrix_action.splits room_action.splits chat_action.splits option.splits if_splits)
qed

text \<open>
  C30. In every reachable state the events of each multispend group are listed once each, in
  descending order of their counters.
\<close>

theorem multispend_events_ordered:
  assumes "list_all transactions_ok actions"
    and "jm_get (roomMultispendEvents (run (matrixSlice isEqual) initialMatrixState actions)) roomId = Some events"
  shows "distinct (map ms_eventId events) \<and> sorted (map (\<lambda>e. - ms_counter e) events)"
proof -
  have "multispend_ok initialMatrixState" by (simp add: multispend_ok_def initialMatrixState_def)
  from multispend.run_inv [OF this assms(1)] assms(2) show ?thesis
    by (auto simp: multispend_ok_def events_ok_def)
qed

definition example_listed :: "string \<Rightarrow> int \<Rightarrow> MultispendListedEvent" where
  "example_listed i n = \<lparr> ms_counter = n, ms_time = n, ms_event = invalidEvent, ms_eventId = i \<rparr>"

theorem multispend_events_ordered_witness:
  "sorted (map (\<lambda>e. - ms_counter e) [example_listed ''b'' 7, example_listed ''a'' 3])"
  using multispend_events_ordered [of "[Room (UpdateMatrixRoomMultispendTxns ''r''
      [example_listed ''a'' 3, example_listed ''b'' 7])]" "(=)" "''r''"
      "[example_listed ''b'' 7, example_listed ''a'' 3]"]
  by (simp add: matrix_ops updateMatrixRoomMultispendTxns_def initialMatrixState_def
      updateMultispendEvents_def set_event_def jm_values_def orderBy_desc_def example_listed_def jm_set_def
      items_of_def)

text \<open>
  An update of an event that is not listed is dropped once the room has a list, though it is listed
  when the room has none.
\<close>

lemma unlisted_update_dropped:
  "jm_get (roomMultispendEvents s) roomId = Some events \<Longrightarrow> eventId \<notin> set (map ms_eventId events) \<Longrightarrow>
     jm_get (roomMultispendEvents (updateMatrixRoomMultispendEvent roomId eventId u s)) roomId = Some events"
  "jm_get (roomMultispendEvents s) roomId = None \<Longrightarrow>
     map ms_eventId (items_of (roomMultispendEvents (updateMatrixRoomMultispendEvent roomId eventId u s)) roomId)
       = [eventId]"
  by (auto simp: updateMatrixRoomMultispendEvent_def Let_def intro!: map_idI)

end
