(* ===== verification/Matrix_Client.thy ===== *)
theory Matrix_Client
  imports Multispend
begin

text \<open>
  \<^verbatim>\<open>ui/common/utils/MatrixChatClient.ts\<close>: what the client of the chat bridge observes. Every subscription
  opens a stream at the bridge and gives a function that closes it; the client remembers these
  functions to observe a thing once and to stop observing it. Here a stream is a number, and the
  open streams are part of the state. A method runs up to its first \<^verbatim>\<open>await\<close> in one step; the bridge
  does not throw when a stream is opened. The timeline of a room is shared by several features, and
  a room without a preview is warmed up with timers and paginations, which are steps of their own.
\<close>

section \<open>State\<close>

datatype topic =
    T_roomList
  | T_syncStatus
  | T_roomInfo string
  | T_timeline string
  | T_pinned string
  | T_pagination string
  | T_multispend string
  | T_multispendEvent string string
  | T_account string
  | T_spTransfer string string

datatype RoomTimelineObservationReason = dm | room | previewWarmup

record RoomPreviewWarmupState =
  paginationAttempts :: nat
  paginationTimeoutId :: "nat option"
  stopTimeoutId :: "nat option"

datatype timer = PaginationTimer string | StopTimer string

record ClientState =
  nextId :: nat
  openStreams :: "(nat \<times> topic) list"
  roomInfoUnsubscribeMap :: "(string, nat) jsmap"
  roomTimelineUnsubscribeMap :: "(string, nat) jsmap"
  roomPinnedTimelineUnsubscribeMap :: "(string, nat) jsmap"
  roomTimelineObservationReasonsMap :: "(string, RoomTimelineObservationReason list) jsmap"
  roomPaginationStatusUnsubscribeMap :: "(string, nat) jsmap"
  roomPreviewWarmupStateMap :: "(string, nat) jsmap"
  multispendUnsubscribeMap :: "(string, nat) jsmap"
  multispendEventUnsubscribeMap :: "(string, (string, nat option) jsmap) jsmap"
  multispendAccountUnsubscribeMap :: "(string, nat) jsmap"
  spTransferStateUnsubscribeMap :: "(string, (string, nat option) jsmap) jsmap"
  roomListUnsubscribe :: "nat option"
  syncStatusUnsubscribe :: "nat option"
  warmups :: "(nat, RoomPreviewWarmupState) jsmap"
  timers :: "(nat, timer) jsmap"
  paginations :: "nat list"

definition initialClientState :: ClientState where
  "initialClientState = \<lparr> nextId = 0, openStreams = [], roomInfoUnsubscribeMap = [],
     roomTimelineUnsubscribeMap = [], roomPinnedTimelineUnsubscribeMap = [],
     roomTimelineObservationReasonsMap = [], roomPaginationStatusUnsubscribeMap = [],
     roomPreviewWarmupStateMap = [], multispendUnsubscribeMap = [], multispendEventUnsubscribeMap = [],
     multispendAccountUnsubscribeMap = [], spTransferStateUnsubscribeMap = [], roomListUnsubscribe = None,
     syncStatusUnsubscribe = None, warmups = [], timers = [], paginations = [] \<rparr>"

definition open_stream :: "topic \<Rightarrow> ClientState \<Rightarrow> nat \<times> ClientState" where
  "open_stream t c = (nextId c, c\<lparr>nextId := nextId c + 1, openStreams := openStreams c @ [(nextId c, t)]\<rparr>)"

definition close_stream :: "nat \<Rightarrow> ClientState \<Rightarrow> ClientState" where
  "close_stream n c = c\<lparr>openStreams := filter (\<lambda>(k, t). k \<noteq> n) (openStreams c)\<rparr>"

section \<open>The remembered functions\<close>

definition nested_get :: "('k, ('k, 'v option) jsmap) jsmap \<Rightarrow> 'k \<Rightarrow> 'k \<Rightarrow> 'v option" where
  "nested_get m i e =
     (case jm_get m i of
        None \<Rightarrow> None
      | Some events \<Rightarrow> (case jm_get events e of None \<Rightarrow> None | Some v \<Rightarrow> v))"

definition nested_set :: "'k \<Rightarrow> 'k \<Rightarrow> 'v option \<Rightarrow> ('k, ('k, 'v option) jsmap) jsmap \<Rightarrow> ('k, ('k, 'v option) jsmap) jsmap" where
  "nested_set i e v m = jm_set i (jm_set e v (items_of m i)) m"

fun recorded :: "ClientState \<Rightarrow> topic \<Rightarrow> nat option" where
  "recorded c T_roomList = roomListUnsubscribe c"
| "recorded c T_syncStatus = syncStatusUnsubscribe c"
| "recorded c (T_roomInfo i) = jm_get (roomInfoUnsubscribeMap c) i"
| "recorded c (T_timeline i) = jm_get (roomTimelineUnsubscribeMap c) i"
| "recorded c (T_pinned i) = jm_get (roomPinnedTimelineUnsubscribeMap c) i"
| "recorded c (T_pagination i) = jm_get (roomPaginationStatusUnsubscribeMap c) i"
| "recorded c (T_multispend i) = jm_get (multispendUnsubscribeMap c) i"
| "recorded c (T_multispendEvent i e) = nested_get (multispendEventUnsubscribeMap c) i e"
| "recorded c (T_account i) = jm_get (multispendAccountUnsubscribeMap c) i"
| "recorded c (T_spTransfer i e) = nested_get (spTransferStateUnsubscribeMap c) i e"

text \<open>
  How a new function is remembered. That of a multispend event is stored in a fresh record: the code
  spreads the function remembered for the group of the room, which has no properties of its own.
\<close>

fun remember :: "topic \<Rightarrow> nat \<Rightarrow> ClientState \<Rightarrow> ClientState" where
  "remember T_roomList n c = c\<lparr>roomListUnsubscribe := Some n\<rparr>"
| "remember T_syncStatus n c = c\<lparr>syncStatusUnsubscribe := Some n\<rparr>"
| "remember (T_roomInfo i) n c = c\<lparr>roomInfoUnsubscribeMap := jm_set i n (roomInfoUnsubscribeMap c)\<rparr>"
| "remember (T_timeline i) n c = c\<lparr>roomTimelineUnsubscribeMap := jm_set i n (roomTimelineUnsubscribeMap c)\<rparr>"
| "remember (T_pinned i) n c =
     c\<lparr>roomPinnedTimelineUnsubscribeMap := jm_set i n (roomPinnedTimelineUnsubscribeMap c)\<rparr>"
| "remember (T_pagination i) n c =
     c\<lparr>roomPaginationStatusUnsubscribeMap := jm_set i n (roomPaginationStatusUnsubscribeMap c)\<rparr>"
| "remember (T_multispend i) n c = c\<lparr>multispendUnsubscribeMap := jm_set i n (multispendUnsubscribeMap c)\<rparr>"
| "remember (T_multispendEvent i e) n c =
     c\<lparr>multispendEventUnsubscribeMap := jm_set i (jm_set e (Some n) []) (multispendEventUnsubscribeMap c)\<rparr>"
| "remember (T_account i) n c =
     c\<lparr>multispendAccountUnsubscribeMap := jm_set i n (multispendAccountUnsubscribeMap c)\<rparr>"
| "remember (T_spTransfer i e) n c =
     c\<lparr>spTransferStateUnsubscribeMap := nested_set i e (Some n) (spTransferStateUnsubscribeMap c)\<rparr>"

text \<open>How it is forgotten. The function of the sync status is never forgotten.\<close>

fun forget :: "topic \<Rightarrow> ClientState \<Rightarrow> ClientState" where
  "forget T_roomList c = c\<lparr>roomListUnsubscribe := None\<rparr>"
| "forget T_syncStatus c = c"
| "forget (T_roomInfo i) c = c\<lparr>roomInfoUnsubscribeMap := jm_del i (roomInfoUnsubscribeMap c)\<rparr>"
| "forget (T_timeline i) c = c\<lparr>roomTimelineUnsubscribeMap := jm_del i (roomTimelineUnsubscribeMap c)\<rparr>"
| "forget (T_pinned i) c = c\<lparr>roomPinnedTimelineUnsubscribeMap := jm_del i (roomPinnedTimelineUnsubscribeMap c)\<rparr>"
| "forget (T_pagination i) c =
     c\<lparr>roomPaginationStatusUnsubscribeMap := jm_del i (roomPaginationStatusUnsubscribeMap c)\<rparr>"
| "forget (T_multispend i) c = c\<lparr>multispendUnsubscribeMap := jm_del i (multispendUnsubscribeMap c)\<rparr>"
| "forget (T_multispendEvent i e) c =
     c\<lparr>multispendEventUnsubscribeMap := nested_set i e None (multispendEventUnsubscribeMap c)\<rparr>"
| "forget (T_account i) c = c\<lparr>multispendAccountUnsubscribeMap := jm_del i (multispendAccountUnsubscribeMap c)\<rparr>"
| "forget (T_spTransfer i e) c =
     c\<lparr>spTransferStateUnsubscribeMap := nested_set i e None (spTransferStateUnsubscribeMap c)\<rparr>"

text \<open>The shape of every observing method and of every method that stops observing.\<close>

definition observe_once :: "topic \<Rightarrow> ClientState \<Rightarrow> ClientState" where
  "observe_once t c =
     (if recorded c t \<noteq> None then c
      else let (unsubscribe, c') = open_stream t c in remember t unsubscribe c')"

definition stop_observing :: "topic \<Rightarrow> ClientState \<Rightarrow> ClientState" where
  "stop_observing t c =
     (case recorded c t of None \<Rightarrow> c | Some unsubscribe \<Rightarrow> forget t (close_stream unsubscribe c))"

section \<open>The timeline of a room\<close>

definition observeRoomTimeline :: "string \<Rightarrow> RoomTimelineObservationReason \<Rightarrow> ClientState \<Rightarrow> ClientState" where
  "observeRoomTimeline roomId reason c =
     (let reasons = js_set_add reason (items_of (roomTimelineObservationReasonsMap c) roomId);
          c' = c\<lparr>roomTimelineObservationReasonsMap := jm_set roomId reasons (roomTimelineObservationReasonsMap c)\<rparr>
      in observe_once (T_timeline roomId) c')"

definition unobserveRoomTimeline :: "string \<Rightarrow> RoomTimelineObservationReason \<Rightarrow> ClientState \<Rightarrow> ClientState" where
  "unobserveRoomTimeline roomId reason c =
     (case jm_get (roomTimelineObservationReasonsMap c) roomId of
        None \<Rightarrow> c
      | Some reasons \<Rightarrow>
          let reasons' = filter (\<lambda>r. r \<noteq> reason) reasons;
              c' = c\<lparr>roomTimelineObservationReasonsMap :=
                       jm_set roomId reasons' (roomTimelineObservationReasonsMap c)\<rparr>
          in if length reasons' > 0 then c'
             else stop_observing (T_timeline roomId)
                    (c'\<lparr>roomTimelineObservationReasonsMap :=
                          jm_del roomId (roomTimelineObservationReasonsMap c')\<rparr>))"

section \<open>Warming up previews\<close>

definition MAX_PAGINATION_ATTEMPTS :: nat where
  "MAX_PAGINATION_ATTEMPTS = 2"

definition shouldWarmRoomPreview :: "MatrixRoom \<Rightarrow> bool" where
  "shouldWarmRoomPreview r \<longleftrightarrow>
     (let hasLikelyActivity = notificationCount r > 0 \<or> isMarkedUnread r \<or>
            (recencyStamp r \<noteq> None \<and> joinedMemberCount r > 1)
      in roomState r = joined \<and> room_preview r = None \<and> hasLikelyActivity)"

definition set_timer :: "timer \<Rightarrow> ClientState \<Rightarrow> nat \<times> ClientState" where
  "set_timer t c = (nextId c, c\<lparr>nextId := nextId c + 1, timers := jm_set (nextId c) t (timers c)\<rparr>)"

definition clear_timer :: "nat option \<Rightarrow> ClientState \<Rightarrow> ClientState" where
  "clear_timer n c = (case n of None \<Rightarrow> c | Some k \<Rightarrow> c\<lparr>timers := jm_del k (timers c)\<rparr>)"

definition change_warmup ::
  "nat \<Rightarrow> (RoomPreviewWarmupState \<Rightarrow> RoomPreviewWarmupState) \<Rightarrow> ClientState \<Rightarrow> ClientState" where
  "change_warmup w f c =
     (case jm_get (warmups c) w of None \<Rightarrow> c | Some st \<Rightarrow> c\<lparr>warmups := jm_set w (f st) (warmups c)\<rparr>)"

definition arm_pagination :: "string \<Rightarrow> nat \<Rightarrow> ClientState \<Rightarrow> ClientState" where
  "arm_pagination roomId w c =
     (let (k, c') = set_timer (PaginationTimer roomId) c
      in change_warmup w (\<lambda>st. st\<lparr>paginationTimeoutId := Some k\<rparr>) c')"

definition startRoomPreviewWarmup :: "string \<Rightarrow> ClientState \<Rightarrow> ClientState" where
  "startRoomPreviewWarmup roomId c =
     (if jm_get (roomPreviewWarmupStateMap c) roomId \<noteq> None then c
      else
        let w = nextId c;
            c1 = c\<lparr>nextId := w + 1,
                   warmups := jm_set w \<lparr> paginationAttempts = 0, paginationTimeoutId = None,
                     stopTimeoutId = None \<rparr> (warmups c),
                   roomPreviewWarmupStateMap := jm_set roomId w (roomPreviewWarmupStateMap c)\<rparr>;
            c2 = arm_pagination roomId w (observeRoomTimeline roomId previewWarmup c1);
            (k, c3) = set_timer (StopTimer roomId) c2
        in change_warmup w (\<lambda>st. st\<lparr>stopTimeoutId := Some k\<rparr>) c3)"

definition stopRoomPreviewWarmup :: "string \<Rightarrow> ClientState \<Rightarrow> ClientState" where
  "stopRoomPreviewWarmup roomId c =
     (case jm_get (roomPreviewWarmupStateMap c) roomId of
        None \<Rightarrow> c
      | Some w \<Rightarrow>
          let c1 = (case jm_get (warmups c) w of
                      None \<Rightarrow> c
                    | Some st \<Rightarrow> clear_timer (stopTimeoutId st) (clear_timer (paginationTimeoutId st) c))
          in unobserveRoomTimeline roomId previewWarmup
               (c1\<lparr>roomPreviewWarmupStateMap := jm_del roomId (roomPreviewWarmupStateMap c1)\<rparr>))"

definition reconcileRoomPreviewWarmup :: "MatrixRoom \<Rightarrow> ClientState \<Rightarrow> ClientState" where
  "reconcileRoomPreviewWarmup r c =
     (if \<not> shouldWarmRoomPreview r then stopRoomPreviewWarmup (room_id r) c
      else startRoomPreviewWarmup (room_id r) c)"

text \<open>
  The pagination of a warm-up up to its \<^verbatim>\<open>await\<close>, and what follows it; \<open>paginations\<close> are the warm-ups
  that wait for the answer of the bridge.
\<close>

definition runRoomPreviewWarmupPagination :: "string \<Rightarrow> ClientState \<Rightarrow> ClientState" where
  "runRoomPreviewWarmupPagination roomId c =
     (case jm_get (roomPreviewWarmupStateMap c) roomId of
        None \<Rightarrow> c
      | Some w \<Rightarrow>
          let c1 = change_warmup w (\<lambda>st. st\<lparr>paginationTimeoutId := None\<rparr>) c
          in (case jm_get (warmups c1) w of
                None \<Rightarrow> c1
              | Some st \<Rightarrow>
                  if paginationAttempts st \<ge> MAX_PAGINATION_ATTEMPTS then c1
                  else (change_warmup w (\<lambda>st. st\<lparr>paginationAttempts := paginationAttempts st + 1\<rparr>) c1)
                         \<lparr>paginations := paginations c1 @ [w]\<rparr>))"

definition paginated :: "string \<Rightarrow> nat \<Rightarrow> ClientState \<Rightarrow> ClientState" where
  "paginated roomId w c =
     (if w \<notin> set (paginations c) then c
      else let c1 = c\<lparr>paginations := remove1 w (paginations c)\<rparr>
           in (case jm_get (warmups c1) w of
                 None \<Rightarrow> c1
               | Some st \<Rightarrow>
                   if paginationAttempts st < MAX_PAGINATION_ATTEMPTS then arm_pagination roomId w c1 else c1))"

definition fire_timer :: "nat \<Rightarrow> ClientState \<Rightarrow> ClientState" where
  "fire_timer k c =
     (case jm_get (timers c) k of
        None \<Rightarrow> c
      | Some (PaginationTimer roomId) \<Rightarrow>
          runRoomPreviewWarmupPagination roomId (c\<lparr>timers := jm_del k (timers c)\<rparr>)
      | Some (StopTimer roomId) \<Rightarrow> stopRoomPreviewWarmup roomId (c\<lparr>timers := jm_del k (timers c)\<rparr>))"


definition pagination_failed :: "nat \<Rightarrow> ClientState \<Rightarrow> ClientState" where
  "pagination_failed w c = c\<lparr>paginations := remove1 w (paginations c)\<rparr>"

section \<open>Methods and callbacks\<close>

definition observeSyncStatus :: "ClientState \<Rightarrow> ClientState" where
  "observeSyncStatus = observe_once T_syncStatus"

definition unsubscribeSyncStatus :: "ClientState \<Rightarrow> ClientState" where
  "unsubscribeSyncStatus = stop_observing T_syncStatus"

definition observeRoomList :: "ClientState \<Rightarrow> ClientState" where
  "observeRoomList = observe_once T_roomList"

definition observeRoomInfo :: "string \<Rightarrow> ClientState \<Rightarrow> ClientState" where
  "observeRoomInfo roomId = observe_once (T_roomInfo roomId)"

definition observeRoomPaginationStatus :: "string \<Rightarrow> ClientState \<Rightarrow> ClientState" where
  "observeRoomPaginationStatus roomId = observe_once (T_pagination roomId)"

definition observeRoomPinnedTimeline :: "string \<Rightarrow> ClientState \<Rightarrow> ClientState" where
  "observeRoomPinnedTimeline roomId = observe_once (T_pinned roomId)"

definition observeMultispendGroup :: "string \<Rightarrow> ClientState \<Rightarrow> ClientState" where
  "observeMultispendGroup roomId = observe_once (T_multispend roomId)"

definition observeMultispendAccountInfo :: "string \<Rightarrow> ClientState \<Rightarrow> ClientState" where
  "observeMultispendAccountInfo roomId = observe_once (T_account roomId)"

definition unobserveRoomPinnedTimeline :: "string \<Rightarrow> ClientState \<Rightarrow> ClientState" where
  "unobserveRoomPinnedTimeline roomId = stop_observing (T_pinned roomId)"

definition unobserveMultispendAccount :: "string \<Rightarrow> ClientState \<Rightarrow> ClientState" where
  "unobserveMultispendAccount roomId = stop_observing (T_account roomId)"

definition observeMultispendEvent :: "string \<Rightarrow> string \<Rightarrow> ClientState \<Rightarrow> ClientState" where
  "observeMultispendEvent roomId eventId = observe_once (T_multispendEvent roomId eventId)"

definition unobserveMultispendEvent :: "string \<Rightarrow> string \<Rightarrow> ClientState \<Rightarrow> ClientState" where
  "unobserveMultispendEvent roomId eventId = stop_observing (T_multispendEvent roomId eventId)"

definition observeSpTransferState :: "string \<Rightarrow> string \<Rightarrow> ClientState \<Rightarrow> ClientState" where
  "observeSpTransferState roomId eventId = observe_once (T_spTransfer roomId eventId)"

definition unobserveSpTransferState :: "string \<Rightarrow> string \<Rightarrow> ClientState \<Rightarrow> ClientState" where
  "unobserveSpTransferState roomId eventId = stop_observing (T_spTransfer roomId eventId)"

definition observeRoom :: "string \<Rightarrow> ClientState \<Rightarrow> ClientState" where
  "observeRoom roomId c =
     observeMultispendGroup roomId (observeRoomTimeline roomId room
       (observeRoomPinnedTimeline roomId (observeRoomPaginationStatus roomId c)))"

definition unobserveRoom :: "string \<Rightarrow> ClientState \<Rightarrow> ClientState" where
  "unobserveRoom roomId c =
     stop_observing (T_multispend roomId) (stop_observing (T_pagination roomId)
       (unobserveRoomPinnedTimeline roomId (unobserveRoomTimeline roomId room c)))"

text \<open>The callback of the list of rooms observes the rooms that are new in it.\<close>

definition roomListCallback :: "string VectorDiff list \<Rightarrow> ClientState \<Rightarrow> ClientState" where
  "roomListCallback updates c = fold observeRoomInfo (getNewStreamIds updates Some) c"

text \<open>The callback of a room, with the room as it is emitted.\<close>

definition roomInfoCallback :: "MatrixRoom \<Rightarrow> ClientState \<Rightarrow> ClientState" where
  "roomInfoCallback r c =
     (let c' = reconcileRoomPreviewWarmup r c
      in if roomState r = invited then c'
         else if isDirect r then observeRoomTimeline (room_id r) dm c' else c')"

definition sendDirectMessage :: "string \<Rightarrow> ClientState \<Rightarrow> ClientState" where
  "sendDirectMessage roomId c = observeRoomTimeline roomId room (observeRoomInfo roomId c)"

definition refetchRoomList :: "ClientState \<Rightarrow> ClientState" where
  "refetchRoomList c = observeRoomList (stop_observing T_roomList c)"

datatype client_action =
    Start
  | ObserveRoom string
  | UnobserveRoom string
  | UnobservePinnedTimeline string
  | ObserveMultispendAccount string
  | UnobserveMultispendAccount string
  | ObserveMultispendEvent string string
  | UnobserveMultispendEvent string string
  | ObserveSpTransferState string string
  | UnobserveSpTransferState string string
  | RoomListCallback "string VectorDiff list"
  | RoomInfoCallback MatrixRoom
  | SendDirectMessage string
  | FireTimer nat
  | Paginated string nat
  | PaginationFailed nat
  | RefetchRoomList
  | ObserveSyncStatus
  | UnsubscribeSyncStatus

primrec client_step :: "ClientState \<Rightarrow> client_action \<Rightarrow> ClientState" where
  "client_step c Start = observeRoomList (observeSyncStatus c)"
| "client_step c (ObserveRoom i) = observeRoom i c"
| "client_step c (UnobserveRoom i) = unobserveRoom i c"
| "client_step c (UnobservePinnedTimeline i) = unobserveRoomPinnedTimeline i c"
| "client_step c (ObserveMultispendAccount i) = observeMultispendAccountInfo i c"
| "client_step c (UnobserveMultispendAccount i) = unobserveMultispendAccount i c"
| "client_step c (ObserveMultispendEvent i e) = observeMultispendEvent i e c"
| "client_step c (UnobserveMultispendEvent i e) = unobserveMultispendEvent i e c"
| "client_step c (ObserveSpTransferState i e) = observeSpTransferState i e c"
| "client_step c (UnobserveSpTransferState i e) = unobserveSpTransferState i e c"
| "client_step c (RoomListCallback us) = roomListCallback us c"
| "client_step c (RoomInfoCallback r) = roomInfoCallback r c"
| "client_step c (SendDirectMessage i) = sendDirectMessage i c"
| "client_step c (FireTimer k) = fire_timer k c"
| "client_step c (Paginated i w) = paginated i w c"
| "client_step c (PaginationFailed w) = pagination_failed w c"
| "client_step c RefetchRoomList = refetchRoomList c"
| "client_step c ObserveSyncStatus = observeSyncStatus c"
| "client_step c UnsubscribeSyncStatus = unsubscribeSyncStatus c"

section \<open>Streams and remembered functions\<close>

text \<open>The topics whose remembered functions are kept right.\<close>

fun exact_topic :: "topic \<Rightarrow> bool" where
  "exact_topic (T_multispendEvent _ _) \<longleftrightarrow> False"
| "exact_topic T_syncStatus \<longleftrightarrow> False"
| "exact_topic _ \<longleftrightarrow> True"

definition streams_of :: "ClientState \<Rightarrow> topic \<Rightarrow> nat set" where
  "streams_of c t = {n. (n, t) \<in> set (openStreams c)}"

definition streams_ok :: "ClientState \<Rightarrow> bool" where
  "streams_ok c \<longleftrightarrow>
     (\<forall>t. exact_topic t \<longrightarrow> streams_of c t = set_option (recorded c t)) \<and>
     (\<forall>t n. recorded c t = Some n \<longrightarrow> (\<forall>t'. (n, t') \<in> set (openStreams c) \<longrightarrow> t' = t)) \<and>
     (\<forall>(n, t) \<in> set (openStreams c). n < nextId c) \<and>
     (\<forall>t n. recorded c t = Some n \<longrightarrow> n < nextId c)"

lemma nested_get_set [simp]:
  "nested_get (nested_set i e v m) i' e' = (if i' = i \<and> e' = e then v else nested_get m i' e')"
  by (auto simp: nested_get_def nested_set_def items_of_def split: option.splits)

fun is_multispend_event :: "topic \<Rightarrow> bool" where
  "is_multispend_event (T_multispendEvent _ _) \<longleftrightarrow> True"
| "is_multispend_event _ \<longleftrightarrow> False"

lemma recorded_remember_plain:
  "\<not> is_multispend_event t \<Longrightarrow> recorded (remember t n c) t' = (if t' = t then Some n else recorded c t')"
  by (cases t; cases t') simp_all

lemma recorded_remember_event:
  "recorded (remember (T_multispendEvent i e) n c) t' =
     (case t' of
        T_multispendEvent i' e' \<Rightarrow> if i' = i then (if e' = e then Some n else None) else recorded c t'
      | _ \<Rightarrow> recorded c t')"
  by (cases t') (simp_all add: nested_get_def)

lemma recorded_remember:
  "exact_topic t' \<or> t' = t \<Longrightarrow> recorded (remember t n c) t' = (if t' = t then Some n else recorded c t')"
  "recorded (remember t n c) t' = Some k \<Longrightarrow> t' = t \<and> k = n \<or> recorded c t' = Some k"
proof -
  show "exact_topic t' \<or> t' = t \<Longrightarrow> recorded (remember t n c) t' = (if t' = t then Some n else recorded c t')"
  proof (cases "is_multispend_event t")
    case True
    then obtain i e where t: "t = T_multispendEvent i e" by (cases t) auto
    show "exact_topic t' \<or> t' = t \<Longrightarrow> recorded (remember t n c) t' = (if t' = t then Some n else recorded c t')"
      unfolding t recorded_remember_event by (cases t') simp_all
  qed (simp add: recorded_remember_plain)
  show "recorded (remember t n c) t' = Some k \<Longrightarrow> t' = t \<and> k = n \<or> recorded c t' = Some k"
  proof (cases "is_multispend_event t")
    case True
    then obtain i e where t: "t = T_multispendEvent i e" by (cases t) auto
    show "recorded (remember t n c) t' = Some k \<Longrightarrow> t' = t \<and> k = n \<or> recorded c t' = Some k"
      unfolding t recorded_remember_event by (cases t') (simp_all split: if_splits)
  qed (simp add: recorded_remember_plain split: if_splits)
qed

lemma recorded_forget:
  "recorded (forget t c) t' = (if t' = t \<and> t \<noteq> T_syncStatus then None else recorded c t')"
  by (cases t; cases t') simp_all

lemma remember_streams [simp]:
  "openStreams (remember t n c) = openStreams c" "nextId (remember t n c) = nextId c"
  "openStreams (forget t c) = openStreams c" "nextId (forget t c) = nextId c"
  by (cases t; simp)+

lemma recorded_other [simp]:
  "recorded (c\<lparr>nextId := x\<rparr>) t = recorded c t"
  "recorded (c\<lparr>openStreams := y\<rparr>) t = recorded c t"
  "recorded (c\<lparr>roomTimelineObservationReasonsMap := z\<rparr>) t = recorded c t"
  "recorded (c\<lparr>roomPreviewWarmupStateMap := a\<rparr>) t = recorded c t"
  "recorded (c\<lparr>warmups := b\<rparr>) t = recorded c t"
  "recorded (c\<lparr>timers := d\<rparr>) t = recorded c t"
  "recorded (c\<lparr>paginations := e\<rparr>) t = recorded c t"
  by (cases t; simp)+

lemma observe_ok:
  assumes "streams_ok c"
  shows "streams_ok (observe_once t c)"
proof (cases "recorded c t")
  case None
  let ?c = "remember t (nextId c) (c\<lparr>nextId := nextId c + 1, openStreams := openStreams c @ [(nextId c, t)]\<rparr>)"
  have rec: "recorded ?c t' = Some k \<Longrightarrow> t' = t \<and> k = nextId c \<or> recorded c t' = Some k" for t' k
    using recorded_remember(2) by fastforce
  have "exact_topic t' \<Longrightarrow> streams_of ?c t' = set_option (recorded ?c t')" for t'
    using assms None by (auto simp: streams_ok_def streams_of_def recorded_remember(1))
  moreover have "t2 = t1" if "recorded ?c t1 = Some n" "(n, t2) \<in> set (openStreams ?c)" for t1 t2 n
    using rec [OF that(1)] that(2) assms by (auto simp: streams_ok_def)
  moreover have "n < nextId ?c" if "recorded ?c t' = Some n" for t' n
    using rec [OF that] assms by (auto simp: streams_ok_def intro: less_SucI)
  ultimately have "streams_ok ?c" using assms unfolding streams_ok_def by (auto intro: less_SucI)
  with None show ?thesis by (simp add: observe_once_def open_stream_def)
qed (simp add: observe_once_def assms)

lemma stop_ok:
  assumes "streams_ok c"
  shows "streams_ok (stop_observing t c)"
proof (cases "recorded c t")
  case (Some n)
  let ?c = "forget t (close_stream n c)"
  have rec: "recorded ?c t' = (if t' = t \<and> t \<noteq> T_syncStatus then None else recorded c t')" for t'
    by (simp add: recorded_forget close_stream_def)
  have opened: "(k, t') \<in> set (openStreams (close_stream n c)) \<longleftrightarrow> (k, t') \<in> set (openStreams c) \<and> k \<noteq> n" for k t'
    by (auto simp: close_stream_def)
  have "streams_of ?c t' = set_option (recorded ?c t')" if "exact_topic t'" for t'
  proof (cases "t' = t")
    case True
    then have "streams_of c t = {n}" using assms Some that by (simp add: streams_ok_def)
    then have "(k, t) \<in> set (openStreams c) \<longleftrightarrow> k = n" for k by (auto simp: streams_of_def)
    moreover have "t \<noteq> T_syncStatus" using True that by auto
    ultimately show ?thesis using True by (simp add: streams_of_def opened rec)
  next
    case False
    have "(n, t') \<notin> set (openStreams c)" using assms Some False by (auto simp: streams_ok_def)
    moreover have "streams_of c t' = set_option (recorded c t')" using assms that by (simp add: streams_ok_def)
    ultimately show ?thesis using False by (auto simp: streams_of_def opened rec)
  qed
  moreover have "t2 = t1" if "recorded ?c t1 = Some k" "(k, t2) \<in> set (openStreams ?c)" for t1 t2 k
    using assms that by (auto simp: streams_ok_def opened rec split: if_splits)
  moreover have "k < nextId ?c" if "recorded ?c t' = Some k" for t' k
  proof -
    have "recorded c t' = Some k" using that by (simp add: rec split: if_splits)
    then show ?thesis using assms unfolding streams_ok_def by (simp add: close_stream_def)
  qed
  moreover have "\<forall>(k, t') \<in> set (openStreams ?c). k < nextId ?c"
    using assms by (auto simp: streams_ok_def close_stream_def)
  ultimately have "streams_ok ?c" unfolding streams_ok_def by blast
  with Some show ?thesis by (simp add: stop_observing_def)
qed (simp add: stop_observing_def assms)


section \<open>Timelines, their reasons, and warm-ups\<close>

abbreviation reasons_of :: "ClientState \<Rightarrow> string \<Rightarrow> RoomTimelineObservationReason list" where
  "reasons_of c i \<equiv> items_of (roomTimelineObservationReasonsMap c) i"

definition warming :: "ClientState \<Rightarrow> string \<Rightarrow> bool" where
  "warming c i \<longleftrightarrow> jm_get (roomPreviewWarmupStateMap c) i \<noteq> None"

definition reasons_ok :: "ClientState \<Rightarrow> bool" where
  "reasons_ok c \<longleftrightarrow> (\<forall>i. (recorded c (T_timeline i) \<noteq> None \<longleftrightarrow> reasons_of c i \<noteq> []))"

definition warmups_ok :: "ClientState \<Rightarrow> bool" where
  "warmups_ok c \<longleftrightarrow> (\<forall>i. previewWarmup \<in> set (reasons_of c i) \<longleftrightarrow> warming c i)"

definition attempts_ok :: "ClientState \<Rightarrow> bool" where
  "attempts_ok c \<longleftrightarrow>
     (\<forall>w st. jm_get (warmups c) w = Some st \<longrightarrow> paginationAttempts st \<le> MAX_PAGINATION_ATTEMPTS)"

definition client_inv :: "ClientState \<Rightarrow> bool" where
  "client_inv c \<longleftrightarrow> streams_ok c \<and> reasons_ok c \<and> warmups_ok c \<and> attempts_ok c"

fun is_timeline :: "topic \<Rightarrow> bool" where
  "is_timeline (T_timeline _) \<longleftrightarrow> True"
| "is_timeline _ \<longleftrightarrow> False"

lemma remember_rest [simp]:
  "roomTimelineObservationReasonsMap (remember t n c) = roomTimelineObservationReasonsMap c"
  "roomPreviewWarmupStateMap (remember t n c) = roomPreviewWarmupStateMap c"
  "warmups (remember t n c) = warmups c"
  "roomTimelineObservationReasonsMap (forget t c) = roomTimelineObservationReasonsMap c"
  "roomPreviewWarmupStateMap (forget t c) = roomPreviewWarmupStateMap c"
  "warmups (forget t c) = warmups c"
  by (cases t; simp)+

declare recorded.simps [simp del] remember.simps [simp del] forget.simps [simp del]

lemma observe_rest [simp]:
  "roomTimelineObservationReasonsMap (observe_once t c) = roomTimelineObservationReasonsMap c"
  "roomPreviewWarmupStateMap (observe_once t c) = roomPreviewWarmupStateMap c"
  "warmups (observe_once t c) = warmups c"
  by (simp_all add: observe_once_def open_stream_def)

lemma stop_rest [simp]:
  "roomTimelineObservationReasonsMap (stop_observing t c) = roomTimelineObservationReasonsMap c"
  "roomPreviewWarmupStateMap (stop_observing t c) = roomPreviewWarmupStateMap c"
  "warmups (stop_observing t c) = warmups c"
  by (auto simp: stop_observing_def close_stream_def split: option.splits)

lemma observe_recorded:
  "(\<exists>y. recorded (observe_once t c) (T_timeline i) = Some y) \<longleftrightarrow>
     t = T_timeline i \<or> (\<exists>y. recorded c (T_timeline i) = Some y)"
  by (auto simp: observe_once_def open_stream_def recorded_remember(1))

lemma stop_recorded:
  "recorded (stop_observing t c) (T_timeline i) = (if t = T_timeline i then None else recorded c (T_timeline i))"
  by (auto simp: stop_observing_def close_stream_def recorded_forget split: option.splits)

lemma inv_observe: "client_inv c \<Longrightarrow> \<not> is_timeline t \<Longrightarrow> client_inv (observe_once t c)"
  by (auto simp: client_inv_def observe_ok reasons_ok_def observe_recorded warmups_ok_def warming_def attempts_ok_def)

lemma inv_stop: "client_inv c \<Longrightarrow> \<not> is_timeline t \<Longrightarrow> client_inv (stop_observing t c)"
  by (auto simp: client_inv_def stop_ok reasons_ok_def stop_recorded warmups_ok_def warming_def attempts_ok_def)

text \<open>Changes of fields that hold no streams.\<close>

lemma streams_ok_fields [simp]:
  "streams_ok (c\<lparr>roomTimelineObservationReasonsMap := a\<rparr>) = streams_ok c"
  "streams_ok (c\<lparr>roomPreviewWarmupStateMap := b\<rparr>) = streams_ok c"
  "streams_ok (c\<lparr>warmups := d\<rparr>) = streams_ok c"
  "streams_ok (c\<lparr>timers := e\<rparr>) = streams_ok c"
  "streams_ok (c\<lparr>paginations := f\<rparr>) = streams_ok c"
  by (simp_all add: streams_ok_def streams_of_def)

lemma streams_ok_next: "streams_ok c \<Longrightarrow> nextId c \<le> n \<Longrightarrow> streams_ok (c\<lparr>nextId := n\<rparr>)"
  unfolding streams_ok_def streams_of_def by (auto intro: less_le_trans) (metis less_le_trans)

text \<open>A timeline with one reason more; only the warm-up reason has to be matched by a warm-up.\<close>

lemma timeline_observed:
  assumes "streams_ok c" "reasons_ok c"
  shows "streams_ok (observeRoomTimeline i r c) \<and> reasons_ok (observeRoomTimeline i r c)"
  using assms by (auto simp: observeRoomTimeline_def Let_def observe_ok reasons_ok_def observe_recorded js_set_add_def)

lemma reasons_observed:
  "set (reasons_of (observeRoomTimeline i r c) j) = (if j = i then insert r (set (reasons_of c i)) else set (reasons_of c j))"
  by (simp add: observeRoomTimeline_def Let_def)

lemma observed_rest [simp]:
  "roomPreviewWarmupStateMap (observeRoomTimeline i r c) = roomPreviewWarmupStateMap c"
  "warmups (observeRoomTimeline i r c) = warmups c"
  by (simp_all add: observeRoomTimeline_def Let_def)

lemma timeline_unobserved:
  assumes "streams_ok c" "reasons_ok c"
  shows "streams_ok (unobserveRoomTimeline i r c) \<and> reasons_ok (unobserveRoomTimeline i r c)"
proof (cases "jm_get (roomTimelineObservationReasonsMap c) i")
  case (Some reasons)
  then have own: "reasons_of c i = reasons" by (simp add: items_of_def)
  show ?thesis
  proof (cases "filter (\<lambda>q. q \<noteq> r) reasons = []")
    case True
    then show ?thesis using assms Some
      by (auto simp: unobserveRoomTimeline_def Let_def stop_ok reasons_ok_def stop_recorded)
  next
    case False
    then have "reasons \<noteq> []" by auto
    then show ?thesis using assms Some False own
      by (auto simp: unobserveRoomTimeline_def Let_def reasons_ok_def)
  qed
qed (simp add: unobserveRoomTimeline_def assms)

lemma reasons_unobserved:
  "set (reasons_of (unobserveRoomTimeline i r c) j) = (if j = i then set (reasons_of c i) - {r} else set (reasons_of c j))"
  by (auto simp: unobserveRoomTimeline_def Let_def items_of_def filter_empty_conv split: option.splits)

lemma unobserved_rest [simp]:
  "roomPreviewWarmupStateMap (unobserveRoomTimeline i r c) = roomPreviewWarmupStateMap c"
  "warmups (unobserveRoomTimeline i r c) = warmups c"
  by (auto simp: unobserveRoomTimeline_def Let_def split: option.splits)

lemma inv_observe_timeline: "client_inv c \<Longrightarrow> r \<noteq> previewWarmup \<Longrightarrow> client_inv (observeRoomTimeline i r c)"
  by (auto simp: client_inv_def timeline_observed warmups_ok_def reasons_observed warming_def attempts_ok_def)

lemma inv_unobserve_timeline: "client_inv c \<Longrightarrow> r \<noteq> previewWarmup \<Longrightarrow> client_inv (unobserveRoomTimeline i r c)"
  by (auto simp: client_inv_def timeline_unobserved warmups_ok_def reasons_unobserved warming_def attempts_ok_def)


text \<open>Timers and the objects of warm-ups.\<close>

definition same_observed :: "ClientState \<Rightarrow> ClientState \<Rightarrow> bool" where
  "same_observed c d \<longleftrightarrow>
     openStreams d = openStreams c \<and> recorded d = recorded c \<and> nextId c \<le> nextId d \<and>
     roomTimelineObservationReasonsMap d = roomTimelineObservationReasonsMap c"

lemma same_ok:
  assumes "same_observed c d"
  shows "streams_ok c \<Longrightarrow> streams_ok d" "reasons_ok c \<Longrightarrow> reasons_ok d"
  using assms unfolding same_observed_def streams_ok_def streams_of_def reasons_ok_def
  by (auto intro: less_le_trans) (metis less_le_trans)

lemma same_trans: "same_observed c d \<Longrightarrow> same_observed d e \<Longrightarrow> same_observed c e"
  by (auto simp: same_observed_def)

lemma same_fields [simp]:
  "same_observed c c"
  "same_observed c (c\<lparr>timers := a\<rparr>)"
  "same_observed c (c\<lparr>paginations := b\<rparr>)"
  "same_observed c (c\<lparr>roomPreviewWarmupStateMap := d\<rparr>)"
  "same_observed c (snd (set_timer t c))"
  "same_observed c (clear_timer n c)"
  "same_observed c (change_warmup w f c)"
  by (auto simp: same_observed_def set_timer_def clear_timer_def change_warmup_def fun_eq_iff split: option.splits)

lemma same_arm [simp]: "same_observed c (arm_pagination i w c)"
  by (auto simp: arm_pagination_def split: prod.splits intro!: same_trans [OF same_fields(5) same_fields(7)])
     (metis same_fields(5,7) same_trans snd_conv)

lemma map_timer [simp]:
  "roomPreviewWarmupStateMap (snd (set_timer t c)) = roomPreviewWarmupStateMap c"
  "roomPreviewWarmupStateMap (clear_timer n c) = roomPreviewWarmupStateMap c"
  "roomPreviewWarmupStateMap (change_warmup w f c) = roomPreviewWarmupStateMap c"
  "warmups (snd (set_timer t c)) = warmups c"
  "warmups (clear_timer n c) = warmups c"
  "paginations (change_warmup w f c) = paginations c"
  by (auto simp: set_timer_def clear_timer_def change_warmup_def split: option.splits)

lemma arm_split: "arm_pagination i w c =
  change_warmup w (\<lambda>st. st\<lparr>paginationTimeoutId := Some (nextId c)\<rparr>) (snd (set_timer (PaginationTimer i) c))"
  by (simp add: arm_pagination_def set_timer_def)

lemma attempts_change:
  assumes "attempts_ok c"
    and "\<And>st. jm_get (warmups c) w = Some st \<Longrightarrow> paginationAttempts st \<le> MAX_PAGINATION_ATTEMPTS \<Longrightarrow>
      paginationAttempts (f st) \<le> MAX_PAGINATION_ATTEMPTS"
  shows "attempts_ok (change_warmup w f c)"
  using assms by (auto simp: attempts_ok_def change_warmup_def split: option.splits)

lemma attempts_same_objects: "warmups d = warmups c \<Longrightarrow> attempts_ok d = attempts_ok c"
  by (simp add: attempts_ok_def)

lemma attempts_arm: "attempts_ok c \<Longrightarrow> attempts_ok (arm_pagination i w c)"
  by (auto simp: arm_split attempts_same_objects [of "snd (set_timer t c)" c for t] intro!: attempts_change)

lemma map_arm [simp]: "roomPreviewWarmupStateMap (arm_pagination i w c) = roomPreviewWarmupStateMap c"
  by (simp add: arm_split)

lemma warmups_same:
  "same_observed c d \<Longrightarrow> roomPreviewWarmupStateMap d = roomPreviewWarmupStateMap c \<Longrightarrow> warmups_ok c \<Longrightarrow> warmups_ok d"
  by (simp add: warmups_ok_def same_observed_def warming_def)

lemma inv_same:
  "client_inv c \<Longrightarrow> same_observed c d \<Longrightarrow> roomPreviewWarmupStateMap d = roomPreviewWarmupStateMap c \<Longrightarrow>
     attempts_ok d \<Longrightarrow> client_inv d"
  by (auto simp: client_inv_def intro: same_ok warmups_same)

lemma inv_start_warmup:
  assumes "client_inv c"
  shows "client_inv (startRoomPreviewWarmup i c)"
proof (cases "jm_get (roomPreviewWarmupStateMap c) i")
  case None
  define w where "w = nextId c"
  define c1 where "c1 = c\<lparr>nextId := w + 1, warmups := jm_set w \<lparr> paginationAttempts = 0,
    paginationTimeoutId = None, stopTimeoutId = None \<rparr> (warmups c),
    roomPreviewWarmupStateMap := jm_set i w (roomPreviewWarmupStateMap c)\<rparr>"
  define c2 where "c2 = observeRoomTimeline i previewWarmup c1"
  define c3 where "c3 = snd (set_timer (StopTimer i) (arm_pagination i w c2))"
  define c4 where "c4 = change_warmup w (\<lambda>st. st\<lparr>stopTimeoutId := Some (nextId (arm_pagination i w c2))\<rparr>) c3"
  have "same_observed c c1" by (simp add: c1_def w_def same_observed_def fun_eq_iff)
  then have "streams_ok c1" "reasons_ok c1" using assms same_ok by (auto simp: client_inv_def)
  then have c2: "streams_ok c2" "reasons_ok c2" by (simp_all add: c2_def timeline_observed)
  have w2: "warmups_ok c2"
    using assms by (auto simp: warmups_ok_def c2_def reasons_observed warming_def c1_def client_inv_def)
  have "attempts_ok c1" using assms by (auto simp: attempts_ok_def c1_def client_inv_def)
  then have "attempts_ok c2" by (simp add: c2_def attempts_ok_def)
  then have i2: "client_inv c2" using c2 w2 by (simp add: client_inv_def)
  have i3: "client_inv (arm_pagination i w c2)"
    by (rule inv_same [OF i2]) (use i2 in \<open>simp_all add: client_inv_def attempts_arm\<close>)
  have i4: "client_inv c3" unfolding c3_def
    by (rule inv_same [OF i3]) (use i3 in \<open>simp_all add: client_inv_def attempts_ok_def\<close>)
  have "client_inv c4" unfolding c4_def
    by (rule inv_same [OF i4]) (use i4 in \<open>auto simp: client_inv_def intro!: attempts_change\<close>)
  moreover have "startRoomPreviewWarmup i c = c4"
    by (simp only: startRoomPreviewWarmup_def None Let_def c4_def c3_def c2_def c1_def w_def set_timer_def
        prod.case snd_conv if_False simp_thms)
  ultimately show ?thesis by simp
qed (simp add: startRoomPreviewWarmup_def assms)

lemma inv_stop_warmup:
  assumes "client_inv c"
  shows "client_inv (stopRoomPreviewWarmup i c)"
proof (cases "jm_get (roomPreviewWarmupStateMap c) i")
  case (Some w)
  define c1 where "c1 = (case jm_get (warmups c) w of None \<Rightarrow> c
    | Some st \<Rightarrow> clear_timer (stopTimeoutId st) (clear_timer (paginationTimeoutId st) c))"
  have same: "same_observed c c1" "roomPreviewWarmupStateMap c1 = roomPreviewWarmupStateMap c" "warmups c1 = warmups c"
    by (auto simp: c1_def split: option.splits intro: same_trans [OF same_fields(6) same_fields(6)])
  have inv1: "client_inv c1"
    by (rule inv_same [OF assms]) (use assms same in \<open>simp_all add: client_inv_def attempts_ok_def\<close>)
  let ?c2 = "c1\<lparr>roomPreviewWarmupStateMap := jm_del i (roomPreviewWarmupStateMap c1)\<rparr>"
  have "streams_ok ?c2" "reasons_ok ?c2" using inv1 by (auto simp: client_inv_def reasons_ok_def)
  then have "streams_ok (unobserveRoomTimeline i previewWarmup ?c2)"
      "reasons_ok (unobserveRoomTimeline i previewWarmup ?c2)"
    by (simp_all add: timeline_unobserved)
  moreover have "warmups_ok (unobserveRoomTimeline i previewWarmup ?c2)"
    using inv1 by (auto simp: warmups_ok_def reasons_unobserved warming_def client_inv_def)
  moreover have "attempts_ok (unobserveRoomTimeline i previewWarmup ?c2)"
    using inv1 by (simp add: attempts_ok_def client_inv_def)
  ultimately show ?thesis using Some by (simp add: client_inv_def stopRoomPreviewWarmup_def c1_def Let_def)
qed (simp add: stopRoomPreviewWarmup_def assms)


lemma inv_run_pagination:
  assumes "client_inv c"
  shows "client_inv (runRoomPreviewWarmupPagination i c)"
proof (cases "jm_get (roomPreviewWarmupStateMap c) i")
  case (Some w)
  define c1 where "c1 = change_warmup w (\<lambda>st. st\<lparr>paginationTimeoutId := None\<rparr>) c"
  have i1: "client_inv c1" unfolding c1_def
    by (rule inv_same [OF assms]) (use assms in \<open>auto simp: client_inv_def intro!: attempts_change\<close>)
  show ?thesis
  proof (cases "jm_get (warmups c1) w")
    case None
    with Some i1 show ?thesis by (simp add: runRoomPreviewWarmupPagination_def c1_def [symmetric])
  next
    case (Some st)
    show ?thesis
    proof (cases "paginationAttempts st \<ge> MAX_PAGINATION_ATTEMPTS")
      case False
      let ?c2 = "change_warmup w (\<lambda>st. st\<lparr>paginationAttempts := paginationAttempts st + 1\<rparr>) c1"
      have "client_inv ?c2"
        by (rule inv_same [OF i1]) (use i1 Some False in \<open>auto simp: client_inv_def intro!: attempts_change\<close>)
      then have "client_inv (?c2\<lparr>paginations := paginations c1 @ [w]\<rparr>)"
        by (rule inv_same) (use \<open>client_inv ?c2\<close> in \<open>simp_all add: client_inv_def attempts_ok_def\<close>)
      with Some False \<open>jm_get (roomPreviewWarmupStateMap c) i = Some w\<close> show ?thesis
        by (simp add: runRoomPreviewWarmupPagination_def c1_def [symmetric])
    qed (use Some \<open>jm_get (roomPreviewWarmupStateMap c) i = Some w\<close> i1
        in \<open>simp add: runRoomPreviewWarmupPagination_def c1_def [symmetric]\<close>)
  qed
qed (simp add: runRoomPreviewWarmupPagination_def assms)

lemma inv_timers: "client_inv c \<Longrightarrow> client_inv (c\<lparr>timers := ts\<rparr>)"
proof -
  assume c: "client_inv c"
  show ?thesis by (rule inv_same [OF c]) (use c in \<open>simp_all add: client_inv_def attempts_ok_def\<close>)
qed

lemma inv_paginations: "client_inv c \<Longrightarrow> client_inv (c\<lparr>paginations := ws\<rparr>)"
proof -
  assume c: "client_inv c"
  show ?thesis by (rule inv_same [OF c]) (use c in \<open>simp_all add: client_inv_def attempts_ok_def\<close>)
qed

lemma inv_paginated: "client_inv c \<Longrightarrow> client_inv (paginated i w c)"
proof -
  assume c: "client_inv c"
  let ?c1 = "c\<lparr>paginations := remove1 w (paginations c)\<rparr>"
  have i1: "client_inv ?c1" using c by (rule inv_paginations)
  have "client_inv (arm_pagination i w ?c1)"
    by (rule inv_same [OF i1]) (use i1 in \<open>simp_all add: client_inv_def attempts_arm\<close>)
  with c i1 show ?thesis by (auto simp: paginated_def Let_def split: option.splits)
qed

lemma inv_fire: "client_inv c \<Longrightarrow> client_inv (fire_timer k c)"
  by (auto simp: fire_timer_def inv_timers inv_run_pagination inv_stop_warmup split: option.splits timer.splits)

lemma inv_room_list: "client_inv c \<Longrightarrow> client_inv (fold observeRoomInfo is c)"
  by (induction "is" arbitrary: c) (auto simp: inv_observe observeRoomInfo_def)

lemmas observers = observeSyncStatus_def unsubscribeSyncStatus_def observeRoomList_def observeRoomInfo_def observeRoomPaginationStatus_def observeRoomPinnedTimeline_def observeMultispendGroup_def
  observeMultispendAccountInfo_def unobserveRoomPinnedTimeline_def unobserveMultispendAccount_def observeMultispendEvent_def unobserveMultispendEvent_def
  observeSpTransferState_def unobserveSpTransferState_def

lemmas client_ops = observers observeRoom_def unobserveRoom_def roomListCallback_def roomInfoCallback_def Let_def
  reconcileRoomPreviewWarmup_def sendDirectMessage_def refetchRoomList_def
  pagination_failed_def

interpretation client: invariant_machine client_step "\<lambda>_. True" client_inv
proof
  fix c a
  assume "client_inv c"
  then show "client_inv (client_step c a)"
    by (cases a) (auto simp: client_ops inv_observe inv_stop inv_observe_timeline inv_unobserve_timeline
        inv_room_list inv_start_warmup inv_stop_warmup inv_fire inv_paginated inv_paginations)
qed

lemma recorded_initially [simp]: "recorded initialClientState t = None"
  by (cases t; simp add: recorded.simps nested_get_def initialClientState_def)

lemma initial_client: "client_inv initialClientState"
proof -
  have "streams_ok initialClientState" "reasons_ok initialClientState"
    by (simp_all add: streams_ok_def streams_of_def reasons_ok_def)
       (simp_all add: initialClientState_def items_of_def)
  moreover have "warmups_ok initialClientState" "attempts_ok initialClientState"
    by (simp_all add: warmups_ok_def warming_def attempts_ok_def initialClientState_def items_of_def)
  ultimately show ?thesis by (simp add: client_inv_def)
qed

lemma client_reachable: "client_inv (run client_step initialClientState actions)"
  by (rule client.run_inv [OF initial_client]) (simp add: list_all_iff)



text \<open>
  A preview is warmed up exactly as long as the warm-up holds the timeline of the room, and no
  warm-up asks for more than two pages, whenever its timers fire and its answers come.
\<close>

theorem warmup_bounded:
  "let c = run client_step initialClientState actions
   in (previewWarmup \<in> set (reasons_of c i) \<longleftrightarrow> warming c i) \<and>
      list_all (\<lambda>st. paginationAttempts st \<le> 2) (List.map_filter (jm_get (warmups c)) ws)"
  using client_reachable [of actions]
  by (auto simp: Let_def client_inv_def warmups_ok_def attempts_ok_def MAX_PAGINATION_ATTEMPTS_def
      list_all_iff List.map_filter_def)

section \<open>Multispend events leak their streams\<close>

text \<open>Two events of a group observed and then no longer observed, a number of times.\<close>

definition two_events :: "string \<Rightarrow> string \<Rightarrow> string \<Rightarrow> client_action list" where
  "two_events i e1 e2 = [ObserveMultispendEvent i e1, ObserveMultispendEvent i e2,
     UnobserveMultispendEvent i e1, UnobserveMultispendEvent i e2]"

definition rounds :: "nat \<Rightarrow> string \<Rightarrow> string \<Rightarrow> string \<Rightarrow> client_action list" where
  "rounds k i e1 e2 = concat (replicate k (two_events i e1 e2))"

text \<open>The open streams after a round, from a state that remembers none of the two events.\<close>

definition idle :: "string \<Rightarrow> string \<Rightarrow> string \<Rightarrow> ClientState \<Rightarrow> bool" where
  "idle i e1 e2 c \<longleftrightarrow> recorded c (T_multispendEvent i e1) = None \<and> recorded c (T_multispendEvent i e2) = None \<and>
     (\<forall>(n, t) \<in> set (openStreams c). n < nextId c)"

lemma one_round:
  assumes "idle i e1 e2 c" and "e1 \<noteq> e2"
  shows "let d = run client_step c (two_events i e1 e2) in
    openStreams d = openStreams c @ [(nextId c, T_multispendEvent i e1)] \<and> idle i e1 e2 d"
  using assms
  by (auto simp: two_events_def Let_def observers observe_once_def stop_observing_def open_stream_def close_stream_def
      recorded_remember recorded_remember_event recorded_forget idle_def filter_id_conv)

lemma run_rounds:
  "run client_step c (rounds (Suc k) i e1 e2) = run client_step (run client_step c (two_events i e1 e2)) (rounds k i e1 e2)"
  by (simp add: rounds_def run_append)

text \<open>
  C31. A group of which two events are observed and then no longer observed, k times, leaves k streams
  of the first event open: the client forgets its function when it observes the second.
\<close>

theorem multispend_event_streams_leak:
  assumes "e1 \<noteq> e2" and "idle i e1 e2 c" and "streams_of c (T_multispendEvent i e1) = {}"
  shows "card (streams_of (run client_step c (rounds k i e1 e2)) (T_multispendEvent i e1)) = k"
proof -
  let ?t = "T_multispendEvent i e1"
  have "idle i e1 e2 c \<Longrightarrow>
      card (streams_of (run client_step c (rounds k i e1 e2)) ?t) = card (streams_of c ?t) + k" for c
  proof (induction k arbitrary: c)
    case (Suc k)
    let ?d = "run client_step c (two_events i e1 e2)"
    have d: "openStreams ?d = openStreams c @ [(nextId c, ?t)]" "idle i e1 e2 ?d"
      using one_round [OF Suc.prems assms(1)] by (simp_all add: Let_def)
    have "streams_of ?d ?t = insert (nextId c) (streams_of c ?t)"
      by (auto simp: streams_of_def d(1))
    moreover have "nextId c \<notin> streams_of c ?t" using Suc.prems by (auto simp: streams_of_def idle_def)
    moreover have "finite (streams_of c ?t)"
      by (rule finite_subset [of _ "fst ` set (openStreams c)"]) (force simp: streams_of_def, simp)
    ultimately have "card (streams_of ?d ?t) = Suc (card (streams_of c ?t))" by simp
    then show ?case using Suc.IH [OF d(2)] by (simp add: run_rounds)
  qed (simp add: rounds_def)
  from this [OF assms(2)] assms(3) show ?thesis by simp
qed

theorem multispend_event_streams_leak_witness:
  "card (streams_of (run client_step initialClientState (rounds 3 ''room'' ''event1'' ''event2''))
     (T_multispendEvent ''room'' ''event1'')) = 3"
proof (rule multispend_event_streams_leak)
  have "openStreams initialClientState = []" by (simp add: initialClientState_def)
  then show "idle ''room'' ''event1'' ''event2'' initialClientState"
      "streams_of initialClientState (T_multispendEvent ''room'' ''event1'') = {}"
    by (simp_all add: idle_def streams_of_def)
qed simp

end
