(* ===== verification/Txn_Types.thy ===== *)
theory Txn_Types
  imports Multispend Amounts
begin

text \<open>
  The entries of the lists of transactions: \<^verbatim>\<open>RpcTransactionListEntry\<close> of
  \<^verbatim>\<open>ui/common/types/bindings.ts\<close> and \<^verbatim>\<open>MultispendTransactionListEntry\<close> of
  \<^verbatim>\<open>ui/common/types/fedimint.ts\<close>. A union is a datatype whose constructors are the values of its tag;
  a field that may be \<^verbatim>\<open>null\<close> is an option. Amounts are whole numbers of millisatoshis or cents.
\<close>

section \<open>States of the operations\<close>

datatype RpcLnPayState =
    lnPay_created
  | lnPay_canceled
  | lnPay_funded int
  | lnPay_waitingForRefund string
  | lnPay_awaitingChange
  | lnPay_success string
  | lnPay_refunded string
  | lnPay_failed

datatype RpcLnReceiveState =
    ln_created
  | ln_waitingForPayment string string
  | ln_canceled string
  | ln_funded
  | ln_awaitingFunds
  | ln_claimed

datatype RpcOnchainDepositState =
    deposit_waitingForTransaction
  | deposit_waitingForConfirmation string
  | deposit_confirmed string
  | deposit_claimed string
  | deposit_failed

datatype RpcOnchainWithdrawState = withdraw_created | withdraw_succeeded string | withdraw_failed string

datatype RpcOOBSpendState =
    oob_created
  | oob_userCanceledProcessing
  | oob_userCanceledSuccess
  | oob_userCanceledFailure
  | oob_refunded
  | oob_success

datatype RpcOOBReissueState = reissue_created | reissue_issuing | reissue_done | reissue_failed string

datatype RpcSPDepositState = sp_pendingDeposit | sp_completeDeposit int int | sp_depositNotInCache

datatype RpcSPWithdrawState = sp_pendingWithdrawal int | sp_completeWithdrawal int

datatype RpcSPV2DepositState =
    spv2_pendingDeposit int int
  | spv2_completedDeposit int int int
  | spv2_failedDeposit string
  | spv2_depositNotInCache

datatype RpcSPV2WithdrawalState =
    spv2_pendingWithdrawal int int
  | spv2_completedWithdrawal int int
  | spv2_failedWithdrawal string
  | spv2_withdrawalNotInCache

datatype SpV2TransferInKind = in_multispend | in_unknown

datatype SpV2TransferOutKind = out_multispend | out_matrixSpTransfer | out_spTransferUi | out_unknown

datatype RpcSPV2TransferInState = in_completedTransfer string int int SpV2TransferInKind | in_dataNotInCache

datatype RpcSPV2TransferOutState = out_completedTransfer string int int SpV2TransferOutKind | out_dataNotInCache

datatype RpcOperationFediFeeStatus =
    pendingSend int
  | pendingReceive int
  | fee_success int
  | failedSend int
  | failedReceive int

record FiatFXInfo =
  fiatCode :: string
  btcToFiatHundredths :: int

record FrontendMetadata =
  initialNotes :: "string option"
  recipientMatrixId :: "string option"
  senderMatrixId :: "string option"

section \<open>Events of a group wallet\<close>

record MultispendDepositEvent =
  md_counter :: int
  md_time :: int
  md_eventId :: string
  md_user :: string
  md_fiatAmount :: int
  md_txid :: string
  md_description :: string

record MultispendWithdrawalEvent =
  mw_counter :: int
  mw_time :: int
  mw_eventId :: string
  mw_request :: WithdrawRequestWithApprovals

section \<open>Entries\<close>

datatype TxnKind =
    fiFormationPayment int int
  | lnPay string int "RpcLnPayState option"
  | lnReceive string "RpcLnReceiveState option"
  | lnRecurringdReceive "RpcLnReceiveState option"
  | onchainWithdraw string int int "RpcOnchainWithdrawState option"
  | onchainDeposit string int "RpcOnchainDepositState option"
  | oobSend "RpcOOBSpendState option" "string option"
  | oobReceive "RpcOOBReissueState option"
  | oobCancel "RpcOOBReissueState option"
  | spDeposit RpcSPDepositState
  | spWithdraw "RpcSPWithdrawState option"
  | sPV2Deposit RpcSPV2DepositState
  | sPV2Withdrawal RpcSPV2WithdrawalState bool bool
  | sPV2TransferOut RpcSPV2TransferOutState
  | sPV2TransferIn RpcSPV2TransferInState
  | multispendDeposit MultispendDepositEvent
  | multispendWithdrawal MultispendWithdrawalEvent

record TransactionListEntry =
  txn_createdAt :: int
  txn_id :: string
  txn_amount :: int
  fediAppFeeStatus :: "RpcOperationFediFeeStatus option"
  fediGuardianFeeStatus :: "RpcOperationFediFeeStatus option"
  txnNotes :: "string option"
  txDateFiatInfo :: "FiatFXInfo option"
  frontendMetadata :: FrontendMetadata
  outcomeTime :: "int option"
  txn_kind :: TxnKind

text \<open>A transaction that comes with no time of creation: the time at which it was settled is taken.\<close>

record RpcTransaction =
  rpc_id :: string
  rpc_amount :: int
  rpc_fediAppFeeStatus :: "RpcOperationFediFeeStatus option"
  rpc_fediGuardianFeeStatus :: "RpcOperationFediFeeStatus option"
  rpc_txnNotes :: "string option"
  rpc_txDateFiatInfo :: "FiatFXInfo option"
  rpc_frontendMetadata :: FrontendMetadata
  rpc_outcomeTime :: "int option"
  rpc_kind :: TxnKind

definition coerceTxn :: "RpcTransaction \<Rightarrow> TransactionListEntry" where
  "coerceTxn txn = \<lparr> txn_createdAt = (case rpc_outcomeTime txn of None \<Rightarrow> 0 | Some time \<Rightarrow> time),
     txn_id = rpc_id txn, txn_amount = rpc_amount txn,
     fediAppFeeStatus = rpc_fediAppFeeStatus txn, fediGuardianFeeStatus = rpc_fediGuardianFeeStatus txn,
     txnNotes = rpc_txnNotes txn, txDateFiatInfo = rpc_txDateFiatInfo txn,
     frontendMetadata = rpc_frontendMetadata txn, outcomeTime = rpc_outcomeTime txn, txn_kind = rpc_kind txn \<rparr>"

definition coerced_entry :: "int \<Rightarrow> string \<Rightarrow> TxnKind \<Rightarrow> TransactionListEntry" where
  "coerced_entry time eventId kind =
     \<lparr> txn_createdAt = time, txn_id = eventId, txn_amount = 0, fediAppFeeStatus = None,
       fediGuardianFeeStatus = None, txnNotes = Some [], txDateFiatInfo = None,
       frontendMetadata = \<lparr> initialNotes = None, recipientMatrixId = None, senderMatrixId = None \<rparr>,
       outcomeTime = None, txn_kind = kind \<rparr>"

definition coerceMultispendTxn :: "MultispendWithdrawalEvent + MultispendDepositEvent \<Rightarrow> TransactionListEntry" where
  "coerceMultispendTxn event =
     (case event of
        Inr deposit \<Rightarrow> coerced_entry (md_time deposit) (md_eventId deposit) (multispendDeposit deposit)
      | Inl withdrawal \<Rightarrow>
          coerced_entry (mw_time withdrawal) (mw_eventId withdrawal) (multispendWithdrawal withdrawal))"

end
