(* ===== verification/Txn_Display.thy ===== *)
theory Txn_Display
  imports Txn_Types
begin

text \<open>
  \<^verbatim>\<open>ui/common/utils/transaction.ts\<close>: what is shown of a transaction. The translation function of
  \<^verbatim>\<open>i18next\<close> is the argument \<open>t\<close>, from a key and its named arguments to a text; the functions of the
  hooks that format amounts are arguments too, as is the formatting of dates. Each \<^verbatim>\<open>switch\<close> on the
  state of a kind is a function on the states of that kind; where the code returns early for a
  missing state, the case of \<open>None\<close> is that return.
\<close>

type_synonym tfun = "string \<Rightarrow> (string \<times> string) list \<Rightarrow> string"

datatype TransactionDirection = send | receive

datatype TransactionStatusBadge = incoming | outgoing | pending | expired | failed

datatype TransactionAmountState = amount_settled | amount_pending | amount_failed

section \<open>Direction, icon and type\<close>

primrec kind_direction :: "TxnKind \<Rightarrow> TransactionDirection" where
  "kind_direction (fiFormationPayment _ _) = send"
| "kind_direction (lnPay _ _ _) = send"
| "kind_direction (lnReceive _ _) = receive"
| "kind_direction (lnRecurringdReceive _) = receive"
| "kind_direction (onchainWithdraw _ _ _ _) = send"
| "kind_direction (onchainDeposit _ _ _) = receive"
| "kind_direction (oobSend _ _) = send"
| "kind_direction (oobReceive _) = receive"
| "kind_direction (oobCancel _) = receive"
| "kind_direction (spDeposit _) = send"
| "kind_direction (spWithdraw _) = receive"
| "kind_direction (sPV2Deposit _) = send"
| "kind_direction (sPV2Withdrawal _ _ _) = receive"
| "kind_direction (sPV2TransferOut _) = send"
| "kind_direction (sPV2TransferIn _) = receive"
| "kind_direction (multispendDeposit _) = receive"
| "kind_direction (multispendWithdrawal _) = send"

definition getTxnDirection :: "TransactionListEntry \<Rightarrow> TransactionDirection" where
  "getTxnDirection txn = kind_direction (txn_kind txn)"

definition isGuardianRemittanceWithdrawal :: "TransactionListEntry \<Rightarrow> bool" where
  "isGuardianRemittanceWithdrawal txn \<longleftrightarrow>
     (case txn_kind txn of sPV2Withdrawal _ _ guardian_remittance \<Rightarrow> guardian_remittance | _ \<Rightarrow> False)"

primrec in_kind :: "RpcSPV2TransferInState \<Rightarrow> SpV2TransferInKind option" where
  "in_kind (in_completedTransfer _ _ _ k) = Some k"
| "in_kind in_dataNotInCache = None"

primrec out_kind :: "RpcSPV2TransferOutState \<Rightarrow> SpV2TransferOutKind option" where
  "out_kind (out_completedTransfer _ _ _ k) = Some k"
| "out_kind out_dataNotInCache = None"

definition isMultispendTransfer :: "TransactionListEntry \<Rightarrow> bool" where
  "isMultispendTransfer txn \<longleftrightarrow>
     (case txn_kind txn of
        sPV2TransferOut st \<Rightarrow> out_kind st = Some out_multispend
      | sPV2TransferIn st \<Rightarrow> in_kind st = Some in_multispend
      | _ \<Rightarrow> False)"

record TxnIconDisplay =
  icon :: string
  icon_color :: string

definition makeTxnIconDisplay :: "TransactionListEntry \<Rightarrow> TxnIconDisplay" where
  "makeTxnIconDisplay txn =
     (let dollar = \<lparr> icon = ''DollarCircle'', icon_color = ''stable'' \<rparr>;
          chat_payment = \<lparr> icon = ''ChatPaymentCircle'', icon_color = ''bitcoin'' \<rparr>;
          lightning = \<lparr> icon = ''LightningCircle'', icon_color = ''bitcoin'' \<rparr>;
          bitcoin = \<lparr> icon = ''BitcoinCircle'', icon_color = ''bitcoin'' \<rparr>;
          on_chain = \<lparr> icon = ''OnChainCircle'', icon_color = ''bitcoin'' \<rparr>
      in if isMultispendTransfer txn then \<lparr> icon = ''MultispendGroupCircle'', icon_color = ''stable'' \<rparr>
         else if isGuardianRemittanceWithdrawal txn then bitcoin
         else (case txn_kind txn of
                 onchainDeposit _ _ _ \<Rightarrow> on_chain
               | onchainWithdraw _ _ _ _ \<Rightarrow> on_chain
               | spDeposit _ \<Rightarrow> dollar
               | spWithdraw _ \<Rightarrow> dollar
               | sPV2Deposit _ \<Rightarrow> dollar
               | sPV2Withdrawal _ _ _ \<Rightarrow> dollar
               | sPV2TransferIn _ \<Rightarrow> dollar
               | sPV2TransferOut _ \<Rightarrow> dollar
               | oobSend _ _ \<Rightarrow> chat_payment
               | oobReceive _ \<Rightarrow> chat_payment
               | oobCancel _ \<Rightarrow> chat_payment
               | lnPay _ _ _ \<Rightarrow> lightning
               | lnReceive _ _ \<Rightarrow> lightning
               | lnRecurringdReceive _ \<Rightarrow> lightning
               | _ \<Rightarrow> bitcoin))"

definition makeTxnTypeText :: "TransactionListEntry \<Rightarrow> tfun \<Rightarrow> string" where
  "makeTxnTypeText txn t =
     (case txn_kind txn of
        onchainDeposit _ _ _ \<Rightarrow> t ''words.onchain'' []
      | onchainWithdraw _ _ _ _ \<Rightarrow> t ''words.onchain'' []
      | lnPay _ _ _ \<Rightarrow> t ''words.lightning'' []
      | lnReceive _ _ \<Rightarrow> t ''words.lightning'' []
      | lnRecurringdReceive _ \<Rightarrow> t ''words.lnurl'' []
      | spDeposit _ \<Rightarrow> t ''feature.stabilitypool.stable-balance'' []
      | spWithdraw _ \<Rightarrow> t ''feature.stabilitypool.stable-balance'' []
      | sPV2Deposit _ \<Rightarrow> t ''feature.stabilitypool.stable-balance'' []
      | sPV2Withdrawal _ _ _ \<Rightarrow>
          if isGuardianRemittanceWithdrawal txn then t ''phrases.guardian-fee'' []
          else t ''feature.stabilitypool.stable-balance'' []
      | sPV2TransferIn _ \<Rightarrow>
          if isMultispendTransfer txn then t ''words.multispend'' []
          else t ''feature.stabilitypool.stable-balance'' []
      | sPV2TransferOut _ \<Rightarrow>
          if isMultispendTransfer txn then t ''words.multispend'' []
          else t ''feature.stabilitypool.stable-balance'' []
      | oobSend _ _ \<Rightarrow> t ''words.ecash'' []
      | oobReceive _ \<Rightarrow> t ''words.ecash'' []
      | oobCancel _ \<Rightarrow> t ''phrases.canceled-ecash-send'' []
      | multispendDeposit _ \<Rightarrow> t ''words.deposit'' []
      | multispendWithdrawal _ \<Rightarrow> t ''words.withdrawal'' []
      | fiFormationPayment _ _ \<Rightarrow> t ''words.federation'' [])"

section \<open>Titles\<close>

definition ln_title :: "tfun \<Rightarrow> RpcLnReceiveState option \<Rightarrow> string" where
  "ln_title t st =
     (case st of
        Some ln_claimed \<Rightarrow> t ''feature.receive.you-received'' []
      | Some (ln_canceled _) \<Rightarrow> t ''words.expired'' []
      | _ \<Rightarrow> t ''phrases.receive-pending'' [])"

definition deposit_title :: "tfun \<Rightarrow> RpcOnchainDepositState option \<Rightarrow> string" where
  "deposit_title t st =
     (case st of
        Some deposit_waitingForTransaction \<Rightarrow> t ''phrases.address-created'' []
      | Some (deposit_claimed _) \<Rightarrow> t ''feature.receive.you-received'' []
      | Some deposit_failed \<Rightarrow> t ''words.failed'' []
      | _ \<Rightarrow> t ''phrases.receive-pending'' [])"

definition makeTxnDetailTitleText :: "tfun \<Rightarrow> TransactionListEntry \<Rightarrow> string" where
  "makeTxnDetailTitleText t txn =
     (case txn_kind txn of
        lnPay _ _ _ \<Rightarrow> t ''feature.send.you-sent'' []
      | oobSend _ _ \<Rightarrow> t ''feature.send.you-sent'' []
      | onchainWithdraw _ _ _ _ \<Rightarrow> t ''feature.send.you-sent'' []
      | spDeposit _ \<Rightarrow> t ''feature.stabilitypool.you-deposited'' []
      | sPV2Deposit _ \<Rightarrow> t ''feature.stabilitypool.you-deposited'' []
      | spWithdraw _ \<Rightarrow> t ''feature.stabilitypool.you-withdrew'' []
      | sPV2Withdrawal _ _ _ \<Rightarrow>
          if isGuardianRemittanceWithdrawal txn then t ''feature.guardian-fees.transfer-success'' []
          else t ''feature.stabilitypool.you-withdrew'' []
      | oobReceive _ \<Rightarrow> t ''feature.receive.you-received'' []
      | oobCancel _ \<Rightarrow> t ''phrases.canceled-ecash-send'' []
      | lnReceive _ st \<Rightarrow> ln_title t st
      | lnRecurringdReceive st \<Rightarrow> ln_title t st
      | onchainDeposit _ _ st \<Rightarrow> deposit_title t st
      | sPV2TransferIn st \<Rightarrow>
          if in_kind st = Some in_multispend then t ''feature.stabilitypool.you-withdrew'' []
          else t ''feature.receive.you-received'' []
      | sPV2TransferOut st \<Rightarrow>
          if out_kind st = Some out_multispend then t ''feature.stabilitypool.you-deposited'' []
          else t ''feature.send.you-sent'' []
      | multispendDeposit _ \<Rightarrow> t ''feature.stabilitypool.you-deposited'' []
      | multispendWithdrawal _ \<Rightarrow> t ''feature.stabilitypool.you-withdrew'' []
      | fiFormationPayment _ _ \<Rightarrow> t ''feature.send.you-sent'' [])"

definition makeStabilityTxnDetailTitleText :: "tfun \<Rightarrow> TransactionListEntry \<Rightarrow> string" where
  "makeStabilityTxnDetailTitleText t txn =
     (case txn_kind txn of
        spDeposit _ \<Rightarrow> t ''feature.stabilitypool.you-deposited'' []
      | sPV2Deposit _ \<Rightarrow> t ''feature.stabilitypool.you-deposited'' []
      | sPV2TransferOut _ \<Rightarrow>
          if isMultispendTransfer txn then t ''feature.stabilitypool.you-deposited'' []
          else t ''feature.send.you-sent'' []
      | spWithdraw _ \<Rightarrow> t ''feature.stabilitypool.you-withdrew'' []
      | sPV2Withdrawal _ _ _ \<Rightarrow> t ''feature.stabilitypool.you-withdrew'' []
      | sPV2TransferIn _ \<Rightarrow>
          if isMultispendTransfer txn then t ''feature.stabilitypool.you-withdrew'' []
          else t ''feature.receive.you-received'' []
      | _ \<Rightarrow> t ''words.unknown'' [])"

section \<open>Status\<close>

definition lnPay_status :: "tfun \<Rightarrow> RpcLnPayState \<Rightarrow> string" where
  "lnPay_status t st =
     (case st of
        lnPay_created \<Rightarrow> t ''words.pending'' []
      | lnPay_funded _ \<Rightarrow> t ''words.pending'' []
      | lnPay_awaitingChange \<Rightarrow> t ''words.pending'' []
      | lnPay_waitingForRefund _ \<Rightarrow> t ''phrases.refund-pending'' []
      | lnPay_canceled \<Rightarrow> t ''words.failed'' []
      | lnPay_failed \<Rightarrow> t ''words.failed'' []
      | lnPay_refunded _ \<Rightarrow> t ''words.refunded'' []
      | lnPay_success _ \<Rightarrow> t ''words.sent'' [])"

definition onchainWithdraw_status :: "tfun \<Rightarrow> RpcOnchainWithdrawState \<Rightarrow> string" where
  "onchainWithdraw_status t st =
     (case st of
        withdraw_succeeded _ \<Rightarrow> t ''words.sent'' []
      | withdraw_failed _ \<Rightarrow> t ''words.failed'' []
      | withdraw_created \<Rightarrow> t ''words.pending'' [])"

definition oobSend_status :: "tfun \<Rightarrow> RpcOOBSpendState \<Rightarrow> string" where
  "oobSend_status t st =
     (case st of
        oob_refunded \<Rightarrow> t ''words.refunded'' []
      | oob_userCanceledSuccess \<Rightarrow> t ''words.canceled'' []
      | oob_userCanceledProcessing \<Rightarrow> t ''words.pending'' []
      | oob_userCanceledFailure \<Rightarrow> t ''words.sent'' []
      | oob_created \<Rightarrow> t ''words.sent'' []
      | oob_success \<Rightarrow> t ''words.sent'' [])"

definition spDeposit_status :: "tfun \<Rightarrow> RpcSPDepositState \<Rightarrow> string" where
  "spDeposit_status t st =
     (case st of
        sp_completeDeposit _ _ \<Rightarrow> t ''words.deposit'' []
      | sp_depositNotInCache \<Rightarrow> t ''words.pending'' []
      | sp_pendingDeposit \<Rightarrow> t ''words.pending'' [])"

definition sPV2Deposit_status :: "tfun \<Rightarrow> RpcSPV2DepositState \<Rightarrow> string" where
  "sPV2Deposit_status t st =
     (case st of
        spv2_completedDeposit _ _ _ \<Rightarrow> t ''words.deposit'' []
      | spv2_failedDeposit _ \<Rightarrow> t ''words.failed'' []
      | spv2_depositNotInCache \<Rightarrow> t ''words.pending'' []
      | spv2_pendingDeposit _ _ \<Rightarrow> t ''words.pending'' [])"

definition transferOut_status :: "tfun \<Rightarrow> RpcSPV2TransferOutState \<Rightarrow> string" where
  "transferOut_status t st =
     (case out_kind st of
        None \<Rightarrow> t ''words.pending'' []
      | Some out_multispend \<Rightarrow> t ''words.deposit'' []
      | Some _ \<Rightarrow> t ''words.sent'' [])"

definition transferIn_status :: "tfun \<Rightarrow> RpcSPV2TransferInState \<Rightarrow> string" where
  "transferIn_status t st =
     (case in_kind st of
        None \<Rightarrow> t ''words.pending'' []
      | Some in_multispend \<Rightarrow> t ''words.withdrawal'' []
      | Some in_unknown \<Rightarrow> t ''words.received'' [])"

definition lnReceive_status :: "tfun \<Rightarrow> RpcLnReceiveState \<Rightarrow> string" where
  "lnReceive_status t st =
     (case st of
        ln_canceled _ \<Rightarrow> t ''words.expired'' []
      | ln_claimed \<Rightarrow> t ''words.received'' []
      | ln_created \<Rightarrow> t ''words.pending'' []
      | ln_waitingForPayment _ _ \<Rightarrow> t ''words.pending'' []
      | ln_funded \<Rightarrow> t ''words.pending'' []
      | ln_awaitingFunds \<Rightarrow> t ''words.pending'' [])"

definition lnRecurringdReceive_status :: "tfun \<Rightarrow> RpcLnReceiveState \<Rightarrow> string" where
  "lnRecurringdReceive_status t st =
     (case st of
        ln_waitingForPayment _ _ \<Rightarrow> t ''words.pending'' []
      | ln_funded \<Rightarrow> t ''words.pending'' []
      | ln_awaitingFunds \<Rightarrow> t ''words.pending'' []
      | ln_canceled _ \<Rightarrow> t ''words.expired'' []
      | ln_created \<Rightarrow> t ''words.received'' []
      | ln_claimed \<Rightarrow> t ''words.received'' [])"

definition onchainDeposit_status :: "tfun \<Rightarrow> RpcOnchainDepositState \<Rightarrow> string" where
  "onchainDeposit_status t st =
     (case st of
        deposit_waitingForTransaction \<Rightarrow> t ''phrases.address-created'' []
      | deposit_claimed _ \<Rightarrow> t ''words.received'' []
      | deposit_failed \<Rightarrow> t ''words.failed'' []
      | deposit_waitingForConfirmation _ \<Rightarrow> t ''words.pending'' []
      | deposit_confirmed _ \<Rightarrow> t ''words.pending'' [])"

definition spWithdraw_status :: "tfun \<Rightarrow> RpcSPWithdrawState \<Rightarrow> string" where
  "spWithdraw_status t st =
     (case st of
        sp_pendingWithdrawal _ \<Rightarrow> t ''words.pending'' []
      | sp_completeWithdrawal _ \<Rightarrow> t ''words.withdrawal'' [])"

definition sPV2Withdrawal_status :: "tfun \<Rightarrow> RpcSPV2WithdrawalState \<Rightarrow> string" where
  "sPV2Withdrawal_status t st =
     (case st of
        spv2_withdrawalNotInCache \<Rightarrow> t ''words.pending'' []
      | spv2_pendingWithdrawal _ _ \<Rightarrow> t ''words.pending'' []
      | spv2_failedWithdrawal _ \<Rightarrow> t ''words.failed'' []
      | spv2_completedWithdrawal _ _ \<Rightarrow> t ''words.withdrawal'' [])"

definition oobReceive_status :: "tfun \<Rightarrow> RpcOOBReissueState \<Rightarrow> string" where
  "oobReceive_status t st =
     (case st of
        reissue_created \<Rightarrow> t ''words.pending'' []
      | reissue_issuing \<Rightarrow> t ''words.pending'' []
      | reissue_done \<Rightarrow> t ''words.complete'' []
      | reissue_failed _ \<Rightarrow> t ''words.failed'' [])"

definition oobCancel_status :: "tfun \<Rightarrow> RpcOOBReissueState \<Rightarrow> string" where
  "oobCancel_status t st =
     (case st of
        reissue_created \<Rightarrow> t ''words.pending'' []
      | reissue_issuing \<Rightarrow> t ''words.pending'' []
      | reissue_done \<Rightarrow> t ''words.canceled'' []
      | reissue_failed _ \<Rightarrow> t ''words.failed'' [])"

definition multispendWithdrawal_status :: "tfun \<Rightarrow> WithdrawTxSubmissionStatus \<Rightarrow> string" where
  "multispendWithdrawal_status t submission =
     (case submission of
        submission_unknown \<Rightarrow> t ''words.pending'' []
      | submission_accepted _ \<Rightarrow> t ''words.withdrawal'' []
      | submission_rejected _ \<Rightarrow> t ''words.failed'' [])"

definition or_pending :: "tfun \<Rightarrow> ('a \<Rightarrow> string) \<Rightarrow> 'a option \<Rightarrow> string" where
  "or_pending t f st = (case st of None \<Rightarrow> t ''words.pending'' [] | Some s \<Rightarrow> f s)"

definition makeTxnStatusText :: "tfun \<Rightarrow> TransactionListEntry \<Rightarrow> string" where
  "makeTxnStatusText t txn =
     (case txn_kind txn of
        fiFormationPayment seats_paid seats_total \<Rightarrow>
          if seats_paid = seats_total then t ''words.complete'' [] else t ''words.pending'' []
      | lnPay _ _ st \<Rightarrow> or_pending t (lnPay_status t) st
      | onchainWithdraw _ _ _ st \<Rightarrow> or_pending t (onchainWithdraw_status t) st
      | oobSend st _ \<Rightarrow> or_pending t (oobSend_status t) st
      | spDeposit st \<Rightarrow> spDeposit_status t st
      | sPV2Deposit st \<Rightarrow> sPV2Deposit_status t st
      | sPV2TransferOut st \<Rightarrow> transferOut_status t st
      | lnReceive _ st \<Rightarrow> or_pending t (lnReceive_status t) st
      | lnRecurringdReceive st \<Rightarrow> or_pending t (lnRecurringdReceive_status t) st
      | onchainDeposit _ _ st \<Rightarrow> or_pending t (onchainDeposit_status t) st
      | spWithdraw st \<Rightarrow> or_pending t (spWithdraw_status t) st
      | sPV2Withdrawal st _ _ \<Rightarrow> sPV2Withdrawal_status t st
      | oobReceive st \<Rightarrow> or_pending t (oobReceive_status t) st
      | oobCancel st \<Rightarrow> or_pending t (oobCancel_status t) st
      | sPV2TransferIn st \<Rightarrow> transferIn_status t st
      | multispendDeposit _ \<Rightarrow> t ''words.deposit'' []
      | multispendWithdrawal w \<Rightarrow> multispendWithdrawal_status t (txSubmissionStatus (mw_request w)))"

section \<open>Badges\<close>

definition lnPay_badge :: "RpcLnPayState \<Rightarrow> TransactionStatusBadge" where
  "lnPay_badge st =
     (case st of
        lnPay_created \<Rightarrow> pending
      | lnPay_funded _ \<Rightarrow> pending
      | lnPay_awaitingChange \<Rightarrow> pending
      | lnPay_waitingForRefund _ \<Rightarrow> pending
      | lnPay_canceled \<Rightarrow> expired
      | lnPay_refunded _ \<Rightarrow> failed
      | lnPay_failed \<Rightarrow> failed
      | lnPay_success _ \<Rightarrow> outgoing)"

definition onchainWithdraw_badge :: "RpcOnchainWithdrawState \<Rightarrow> TransactionStatusBadge" where
  "onchainWithdraw_badge st =
     (case st of
        withdraw_created \<Rightarrow> pending
      | withdraw_failed _ \<Rightarrow> failed
      | withdraw_succeeded _ \<Rightarrow> outgoing)"

definition oobSend_badge :: "RpcOOBSpendState \<Rightarrow> TransactionStatusBadge" where
  "oobSend_badge st =
     (case st of
        oob_created \<Rightarrow> outgoing
      | oob_userCanceledFailure \<Rightarrow> outgoing
      | oob_success \<Rightarrow> outgoing
      | oob_userCanceledSuccess \<Rightarrow> failed
      | oob_refunded \<Rightarrow> failed
      | oob_userCanceledProcessing \<Rightarrow> pending)"

definition spDeposit_badge :: "RpcSPDepositState \<Rightarrow> TransactionStatusBadge" where
  "spDeposit_badge st =
     (case st of
        sp_pendingDeposit \<Rightarrow> pending
      | sp_depositNotInCache \<Rightarrow> pending
      | sp_completeDeposit _ _ \<Rightarrow> outgoing)"

definition sPV2Deposit_badge :: "RpcSPV2DepositState \<Rightarrow> TransactionStatusBadge" where
  "sPV2Deposit_badge st =
     (case st of
        spv2_pendingDeposit _ _ \<Rightarrow> pending
      | spv2_depositNotInCache \<Rightarrow> pending
      | spv2_completedDeposit _ _ _ \<Rightarrow> outgoing
      | spv2_failedDeposit _ \<Rightarrow> failed)"

definition transferOut_badge :: "RpcSPV2TransferOutState \<Rightarrow> TransactionStatusBadge" where
  "transferOut_badge st =
     (case st of
        out_completedTransfer _ _ _ _ \<Rightarrow> outgoing
      | out_dataNotInCache \<Rightarrow> pending)"

definition transferIn_badge :: "RpcSPV2TransferInState \<Rightarrow> TransactionStatusBadge" where
  "transferIn_badge st =
     (case st of
        in_completedTransfer _ _ _ _ \<Rightarrow> incoming
      | in_dataNotInCache \<Rightarrow> pending)"

definition lnReceive_badge :: "RpcLnReceiveState \<Rightarrow> TransactionStatusBadge" where
  "lnReceive_badge st =
     (case st of
        ln_claimed \<Rightarrow> incoming
      | ln_canceled _ \<Rightarrow> expired
      | ln_created \<Rightarrow> pending
      | ln_waitingForPayment _ _ \<Rightarrow> pending
      | ln_funded \<Rightarrow> pending
      | ln_awaitingFunds \<Rightarrow> pending)"

definition lnRecurringdReceive_badge :: "RpcLnReceiveState \<Rightarrow> TransactionStatusBadge" where
  "lnRecurringdReceive_badge st =
     (case st of
        ln_claimed \<Rightarrow> incoming
      | ln_created \<Rightarrow> incoming
      | ln_canceled _ \<Rightarrow> expired
      | ln_waitingForPayment _ _ \<Rightarrow> pending
      | ln_funded \<Rightarrow> pending
      | ln_awaitingFunds \<Rightarrow> pending)"

definition onchainDeposit_badge :: "RpcOnchainDepositState \<Rightarrow> TransactionStatusBadge" where
  "onchainDeposit_badge st =
     (case st of
        deposit_claimed _ \<Rightarrow> incoming
      | deposit_failed \<Rightarrow> failed
      | deposit_waitingForTransaction \<Rightarrow> pending
      | deposit_waitingForConfirmation _ \<Rightarrow> pending
      | deposit_confirmed _ \<Rightarrow> pending)"

definition spWithdraw_badge :: "RpcSPWithdrawState \<Rightarrow> TransactionStatusBadge" where
  "spWithdraw_badge st =
     (case st of
        sp_completeWithdrawal _ \<Rightarrow> incoming
      | sp_pendingWithdrawal _ \<Rightarrow> pending)"

definition sPV2Withdrawal_badge :: "RpcSPV2WithdrawalState \<Rightarrow> TransactionStatusBadge" where
  "sPV2Withdrawal_badge st =
     (case st of
        spv2_completedWithdrawal _ _ \<Rightarrow> incoming
      | spv2_failedWithdrawal _ \<Rightarrow> failed
      | spv2_pendingWithdrawal _ _ \<Rightarrow> pending
      | spv2_withdrawalNotInCache \<Rightarrow> pending)"

text \<open>E-cash that is received and e-cash whose sending is canceled have the same badges.\<close>

definition reissue_badge :: "RpcOOBReissueState \<Rightarrow> TransactionStatusBadge" where
  "reissue_badge st =
     (case st of
        reissue_done \<Rightarrow> incoming
      | reissue_failed _ \<Rightarrow> failed
      | reissue_created \<Rightarrow> pending
      | reissue_issuing \<Rightarrow> pending)"

definition multispendWithdrawal_badge :: "WithdrawTxSubmissionStatus \<Rightarrow> TransactionStatusBadge" where
  "multispendWithdrawal_badge submission =
     (case submission of
        submission_unknown \<Rightarrow> pending
      | submission_accepted _ \<Rightarrow> outgoing
      | submission_rejected _ \<Rightarrow> failed)"

definition badge_or_pending :: "('a \<Rightarrow> TransactionStatusBadge) \<Rightarrow> 'a option \<Rightarrow> TransactionStatusBadge" where
  "badge_or_pending f st = (case st of None \<Rightarrow> pending | Some s \<Rightarrow> f s)"

definition makeTxnStatusBadge :: "TransactionListEntry \<Rightarrow> TransactionStatusBadge" where
  "makeTxnStatusBadge txn =
     (case txn_kind txn of
        fiFormationPayment seats_paid seats_total \<Rightarrow> if seats_paid = seats_total then outgoing else pending
      | lnPay _ _ st \<Rightarrow> badge_or_pending lnPay_badge st
      | onchainWithdraw _ _ _ st \<Rightarrow> badge_or_pending onchainWithdraw_badge st
      | oobSend st _ \<Rightarrow> badge_or_pending oobSend_badge st
      | spDeposit st \<Rightarrow> spDeposit_badge st
      | sPV2Deposit st \<Rightarrow> sPV2Deposit_badge st
      | sPV2TransferOut st \<Rightarrow> transferOut_badge st
      | lnReceive _ st \<Rightarrow> badge_or_pending lnReceive_badge st
      | lnRecurringdReceive st \<Rightarrow> badge_or_pending lnRecurringdReceive_badge st
      | onchainDeposit _ _ st \<Rightarrow> badge_or_pending onchainDeposit_badge st
      | spWithdraw st \<Rightarrow> badge_or_pending spWithdraw_badge st
      | sPV2Withdrawal st _ _ \<Rightarrow> sPV2Withdrawal_badge st
      | sPV2TransferIn st \<Rightarrow> transferIn_badge st
      | oobReceive st \<Rightarrow> badge_or_pending reissue_badge st
      | oobCancel st \<Rightarrow> badge_or_pending reissue_badge st
      | multispendDeposit _ \<Rightarrow> incoming
      | multispendWithdrawal w \<Rightarrow> multispendWithdrawal_badge (txSubmissionStatus (mw_request w)))"

primrec TransactionAmountStateMap :: "TransactionStatusBadge \<Rightarrow> TransactionAmountState" where
  "TransactionAmountStateMap incoming = amount_settled"
| "TransactionAmountStateMap outgoing = amount_settled"
| "TransactionAmountStateMap pending = amount_pending"
| "TransactionAmountStateMap expired = amount_failed"
| "TransactionAmountStateMap failed = amount_failed"

definition makeTransactionAmountState :: "TransactionListEntry \<Rightarrow> TransactionAmountState" where
  "makeTransactionAmountState txn = TransactionAmountStateMap (makeTxnStatusBadge txn)"

section \<open>Help and cancellation\<close>

text \<open>The button that asks for help; a transaction of a kind with a state is asked about when it has none.\<close>

definition shouldShowAskFedi :: "TransactionListEntry \<Rightarrow> bool" where
  "shouldShowAskFedi txn \<longleftrightarrow>
     (case txn_kind txn of
        fiFormationPayment _ _ \<Rightarrow> False
      | lnPay _ _ st \<Rightarrow> (case st of Some (lnPay_success _) \<Rightarrow> False | _ \<Rightarrow> True)
      | lnReceive _ st \<Rightarrow> st \<noteq> Some ln_claimed
      | lnRecurringdReceive st \<Rightarrow> st \<noteq> Some ln_claimed
      | onchainWithdraw _ _ _ st \<Rightarrow> (case st of Some (withdraw_succeeded _) \<Rightarrow> False | _ \<Rightarrow> True)
      | onchainDeposit _ _ st \<Rightarrow> (case st of Some (deposit_claimed _) \<Rightarrow> False | _ \<Rightarrow> True)
      | oobSend st _ \<Rightarrow> st \<notin> set [Some oob_success, Some oob_userCanceledFailure, Some oob_created]
      | oobReceive st \<Rightarrow> st \<noteq> Some reissue_done
      | oobCancel st \<Rightarrow> st \<noteq> Some reissue_done
      | spDeposit st \<Rightarrow> (case st of sp_completeDeposit _ _ \<Rightarrow> False | _ \<Rightarrow> True)
      | sPV2Deposit st \<Rightarrow> (case st of spv2_completedDeposit _ _ _ \<Rightarrow> False | _ \<Rightarrow> True)
      | spWithdraw st \<Rightarrow> (case st of Some (sp_completeWithdrawal _) \<Rightarrow> False | _ \<Rightarrow> True)
      | sPV2Withdrawal st _ _ \<Rightarrow> (case st of spv2_completedWithdrawal _ _ \<Rightarrow> False | _ \<Rightarrow> True)
      | sPV2TransferIn st \<Rightarrow> in_kind st = None
      | sPV2TransferOut st \<Rightarrow> out_kind st = None
      | multispendDeposit _ \<Rightarrow> False
      | multispendWithdrawal w \<Rightarrow>
          (case txSubmissionStatus (mw_request w) of submission_accepted _ \<Rightarrow> False | _ \<Rightarrow> True))"

definition getCancellableEcash :: "TransactionListEntry \<Rightarrow> string option" where
  "getCancellableEcash txn =
     (case txn_kind txn of
        oobSend st (Some oob_notes) \<Rightarrow>
          if oob_notes = [] then None
          else if recipientMatrixId (frontendMetadata txn) \<notin> {None, Some []} then None
          else if st \<in> set [None, Some oob_created, Some oob_success] then Some oob_notes
          else None
      | _ \<Rightarrow> None)"

section \<open>Fees\<close>

text \<open>A fee counts when it was sent or is being sent.\<close>

definition sent_fee :: "RpcOperationFediFeeStatus option \<Rightarrow> int option" where
  "sent_fee feeStatus =
     (case feeStatus of Some (fee_success fee) \<Rightarrow> Some fee | Some (pendingSend fee) \<Rightarrow> Some fee | _ \<Rightarrow> None)"

definition fee_or_zero :: "int option \<Rightarrow> int" where
  "fee_or_zero fee = (case fee of None \<Rightarrow> 0 | Some n \<Rightarrow> n)"

definition getTxnTotalFee :: "TransactionListEntry \<Rightarrow> int" where
  "getTxnTotalFee txn =
     fee_or_zero (sent_fee (fediAppFeeStatus txn)) + fee_or_zero (sent_fee (fediGuardianFeeStatus txn)) +
     (case txn_kind txn of
        lnPay _ lightning_fees _ \<Rightarrow> lightning_fees
      | onchainWithdraw _ onchain_fees _ _ \<Rightarrow> onchain_fees
      | onchainDeposit _ peg_in_fees _ \<Rightarrow> peg_in_fees
      | _ \<Rightarrow> 0)"

definition getTxnDisplayAmount :: "TransactionListEntry \<Rightarrow> int" where
  "getTxnDisplayAmount txn =
     (case txn_kind txn of
        onchainWithdraw _ _ _ _ \<Rightarrow> txn_amount txn + getTxnTotalFee txn
      | _ \<Rightarrow> txn_amount txn)"

record FormattedAmounts =
  formattedFiat :: string
  formattedSats :: string
  formattedPrimaryAmount :: string
  formattedSecondaryAmount :: string

record FeeItem =
  fee_label :: string
  formattedAmount :: string

definition fee_item :: "(int \<Rightarrow> FormattedAmounts) \<Rightarrow> string \<Rightarrow> int \<Rightarrow> FeeItem" where
  "fee_item makeFormattedAmountsFromMSats label fee =
     (let amounts = makeFormattedAmountsFromMSats fee
      in \<lparr> fee_label = label,
           formattedAmount = formattedPrimaryAmount amounts @ '' ('' @ formattedSecondaryAmount amounts @ '')'' \<rparr>)"

definition sent_fee_items ::
  "tfun \<Rightarrow> (int \<Rightarrow> FormattedAmounts) \<Rightarrow> TransactionListEntry \<Rightarrow> FeeItem list" where
  "sent_fee_items t fmt txn =
     (case sent_fee (fediAppFeeStatus txn) of
        None \<Rightarrow> []
      | Some fediFee \<Rightarrow> [fee_item fmt (t ''phrases.fedi-fee'' []) fediFee]) @
     (case sent_fee (fediGuardianFeeStatus txn) of
        None \<Rightarrow> []
      | Some guardianFee \<Rightarrow> [fee_item fmt (t ''phrases.federation-fee'' []) guardianFee])"

definition makeTxnFeeDetails ::
  "tfun \<Rightarrow> TransactionListEntry \<Rightarrow> (int \<Rightarrow> FormattedAmounts) \<Rightarrow> FeeItem list" where
  "makeTxnFeeDetails t txn fmt =
     sent_fee_items t fmt txn @
     (case txn_kind txn of
        lnPay _ lnFee _ \<Rightarrow> [fee_item fmt (t ''phrases.lightning-network'' []) lnFee]
      | onchainWithdraw _ onchainFee _ _ \<Rightarrow> [fee_item fmt (t ''phrases.network-fee'' []) onchainFee]
      | onchainDeposit _ pegInFees _ \<Rightarrow> [fee_item fmt (t ''phrases.peg-in-fee'' []) pegInFees]
      | _ \<Rightarrow> []) @
     [fee_item fmt (t ''phrases.total-fees'' []) (getTxnTotalFee txn)]"

definition fees_paid_so_far :: "TransactionListEntry \<Rightarrow> int option" where
  "fees_paid_so_far txn =
     (case txn_kind txn of
        spDeposit (sp_completeDeposit _ fees) \<Rightarrow> Some fees
      | sPV2Deposit (spv2_completedDeposit _ _ fees) \<Rightarrow> Some fees
      | _ \<Rightarrow> None)"

definition makeStabilityTxnFeeDetails ::
  "tfun \<Rightarrow> TransactionListEntry \<Rightarrow> (int \<Rightarrow> FormattedAmounts) \<Rightarrow> FeeItem list" where
  "makeStabilityTxnFeeDetails t txn fmt =
     (let totalFee = fee_or_zero (sent_fee (fediAppFeeStatus txn)) +
            fee_or_zero (sent_fee (fediGuardianFeeStatus txn)) + fee_or_zero (fees_paid_so_far txn)
      in sent_fee_items t fmt txn @
         (case fees_paid_so_far txn of
            None \<Rightarrow> []
          | Some feesPaidSoFar \<Rightarrow> [fee_item fmt (t ''feature.stabilitypool.fees-paid'' []) feesPaidSoFar]) @
         [fee_item fmt (t ''phrases.total-fees'' []) totalFee])"

section \<open>Amounts\<close>

definition is_transfer :: "TxnKind \<Rightarrow> bool" where
  "is_transfer kind \<longleftrightarrow> (case kind of sPV2TransferIn _ \<Rightarrow> True | sPV2TransferOut _ \<Rightarrow> True | _ \<Rightarrow> False)"

definition awaits_transaction :: "TxnKind \<Rightarrow> bool" where
  "awaits_transaction kind \<longleftrightarrow>
     (case kind of onchainDeposit _ _ st \<Rightarrow> st = Some deposit_waitingForTransaction | _ \<Rightarrow> False)"

definition lightning_canceled :: "TxnKind \<Rightarrow> bool" where
  "lightning_canceled kind \<longleftrightarrow>
     (case kind of
        lnPay _ _ st \<Rightarrow> st = Some lnPay_canceled
      | lnReceive _ (Some (ln_canceled _)) \<Rightarrow> True
      | lnRecurringdReceive (Some (ln_canceled _)) \<Rightarrow> True
      | _ \<Rightarrow> False)"

definition makeTxnSign :: "TransactionListEntry \<Rightarrow> bool \<Rightarrow> string" where
  "makeTxnSign txn flipSign =
     (let direction = getTxnDirection txn;
          isTransfer = is_transfer (txn_kind txn);
          isPlus = (if \<not> (flipSign \<and> \<not> isTransfer) then direction = receive else direction = send);
          s1 = (if isPlus then ''+'' else ''-'');
          s2 = (if awaits_transaction (txn_kind txn) then ''~'' else s1)
      in if lightning_canceled (txn_kind txn) then [] else s2)"

text \<open>The cents that the bridge gives for an operation of a pool.\<close>

definition txn_cents :: "TxnKind \<Rightarrow> int option" where
  "txn_cents kind =
     (case kind of
        spWithdraw (Some (sp_pendingWithdrawal cents)) \<Rightarrow> Some cents
      | spWithdraw (Some (sp_completeWithdrawal cents)) \<Rightarrow> Some cents
      | sPV2Withdrawal (spv2_pendingWithdrawal _ fiat_amount) _ _ \<Rightarrow> Some fiat_amount
      | sPV2Withdrawal (spv2_completedWithdrawal _ fiat_amount) _ _ \<Rightarrow> Some fiat_amount
      | spDeposit (sp_completeDeposit initial_amount_cents _) \<Rightarrow> Some initial_amount_cents
      | sPV2Deposit (spv2_pendingDeposit _ fiat_amount) \<Rightarrow> Some fiat_amount
      | sPV2Deposit (spv2_completedDeposit _ fiat_amount _) \<Rightarrow> Some fiat_amount
      | sPV2TransferIn (in_completedTransfer _ _ fiat_amount _) \<Rightarrow> Some fiat_amount
      | sPV2TransferOut (out_completedTransfer _ _ fiat_amount _) \<Rightarrow> Some fiat_amount
      | _ \<Rightarrow> None)"

text \<open>
  The text before the first space and the text between it and the next one, with what a template
  literal makes of a missing part.
\<close>

definition before_space :: "string \<Rightarrow> string" where
  "before_space s = takeWhile (\<lambda>c. c \<noteq> CHR '' '') s"

definition after_space :: "string \<Rightarrow> string" where
  "after_space s =
     (case dropWhile (\<lambda>c. c \<noteq> CHR '' '') s of [] \<Rightarrow> ''undefined'' | _ # rest \<Rightarrow> before_space rest)"

datatype txnDisplay = in_sats | in_fiat

definition makeTxnAmountText ::
  "TransactionListEntry \<Rightarrow> txnDisplay \<Rightarrow> bool \<Rightarrow> bool \<Rightarrow> string \<Rightarrow> (int \<Rightarrow> string \<Rightarrow> FormattedAmounts) \<Rightarrow>
     (int \<Rightarrow> string \<Rightarrow> string) \<Rightarrow> (js_num \<Rightarrow> string \<Rightarrow> FiatFXInfo \<Rightarrow> string) \<Rightarrow> string" where
  "makeTxnAmountText txn display flipSign includeCurrency preferredCurrency makeFormattedAmountsFromMSats
       convertCentsToFormattedFiat convertSatsToFormattedFiat =
     (let amount = getTxnDisplayAmount txn;
          sats = formattedSats (makeFormattedAmountsFromMSats amount ''end'');
          sign = makeTxnSign txn flipSign;
          (shown, currency) =
            (if display = in_fiat then
               (case txDateFiatInfo txn of
                  Some rates \<Rightarrow>
                    (convertSatsToFormattedFiat (msatToSat (Fin (of_int amount))) ''none'' rates, fiatCode rates)
                | None \<Rightarrow>
                    (case txn_cents (txn_kind txn) of
                       Some cents \<Rightarrow> (convertCentsToFormattedFiat cents ''none'', preferredCurrency)
                     | None \<Rightarrow>
                         (formattedFiat (makeFormattedAmountsFromMSats amount ''none''), preferredCurrency)))
             else (before_space sats, after_space sats));
          formatted = (if awaits_transaction (txn_kind txn) then [] else shown)
      in sign @ formatted @ (if includeCurrency then '' '' @ currency else []))"

section \<open>Details\<close>

record DetailItem =
  item_label :: string
  item_value :: string
  truncated :: bool
  copyable :: bool
  copiedMessage :: "string option"

definition plain_item :: "string \<Rightarrow> string \<Rightarrow> DetailItem" where
  "plain_item label text =
     \<lparr> item_label = label, item_value = text, truncated = False, copyable = False, copiedMessage = None \<rparr>"

definition copy_item :: "string \<Rightarrow> string \<Rightarrow> string \<Rightarrow> DetailItem" where
  "copy_item label text message =
     \<lparr> item_label = label, item_value = text, truncated = True, copyable = True, copiedMessage = Some message \<rparr>"

text \<open>
  \<^verbatim>\<open>DateUtils.formatTimestamp\<close> refuses a time that is written with thirteen characters or more, which
  it takes for milliseconds; the formatting itself is \<open>format_unix\<close>.
\<close>

definition formatTimestamp :: "(int \<Rightarrow> string \<Rightarrow> string) \<Rightarrow> int \<Rightarrow> string \<Rightarrow> string + string" where
  "formatTimestamp format_unix unixSeconds dateFormat =
     (if length (int_str unixSeconds) \<ge> 13 then Inl ''unixSeconds must be in seconds not ms''
      else Inr (format_unix unixSeconds dateFormat))"

definition CurrencyAliases :: "(string \<times> string) list" where
  "CurrencyAliases = map (\<lambda>alias. (alias, ''XAF'')) [''cameroon'', ''central_african_republic'', ''chad'',
       ''equatorial_guinea'', ''gabon'', ''republic_of_the_congo''] @
     map (\<lambda>alias. (alias, ''XOF'')) [''benin'', ''burkina_faso'', ''cote_d_ivoire'', ''guinea_bissau'', ''mali'',
       ''niger'', ''senegal'', ''togo'']"

definition getCurrencyCode :: "string \<Rightarrow> string" where
  "getCurrencyCode currency =
     (case map_of CurrencyAliases currency of Some code \<Rightarrow> code | None \<Rightarrow> currency)"

definition pool_operation :: "TxnKind \<Rightarrow> bool" where
  "pool_operation kind \<longleftrightarrow>
     (case kind of
        spWithdraw _ \<Rightarrow> True | spDeposit _ \<Rightarrow> True | sPV2Withdrawal _ _ _ \<Rightarrow> True | sPV2Deposit _ \<Rightarrow> True
      | _ \<Rightarrow> False)"

text \<open>The cents that only the states of the first version of the pool have.\<close>

definition legacy_cents :: "TxnKind \<Rightarrow> int option" where
  "legacy_cents kind =
     (case kind of
        spWithdraw (Some (sp_pendingWithdrawal cents)) \<Rightarrow> Some cents
      | spWithdraw (Some (sp_completeWithdrawal cents)) \<Rightarrow> Some cents
      | spDeposit (sp_completeDeposit cents _) \<Rightarrow> Some cents
      | _ \<Rightarrow> None)"

definition pool_items ::
  "tfun \<Rightarrow> TransactionListEntry \<Rightarrow> txnDisplay \<Rightarrow> (int \<Rightarrow> FormattedAmounts) \<Rightarrow> (int \<Rightarrow> string) \<Rightarrow> DetailItem list" where
  "pool_items t txn display fmt convertCentsToFormattedFiat =
     (if \<not> isGuardianRemittanceWithdrawal txn \<and> pool_operation (txn_kind txn)
      then plain_item (t ''feature.stabilitypool.current-value'' []) (formattedFiat (fmt (txn_amount txn))) #
           (case (display, legacy_cents (txn_kind txn)) of
              (in_sats, Some cents) \<Rightarrow>
                [plain_item (t ''feature.stabilitypool.withdrawal-value'' []) (convertCentsToFormattedFiat cents)]
            | _ \<Rightarrow> [])
      else [])"

definition lightning_items :: "tfun \<Rightarrow> TxnKind \<Rightarrow> DetailItem list" where
  "lightning_items t kind =
     (let request = (\<lambda>invoice. copy_item (t ''phrases.lightning-request'' []) invoice
                       (t ''phrases.copied-lightning-request'' []))
      in case kind of
           lnReceive invoice _ \<Rightarrow> [request invoice]
         | lnPay invoice _ (Some (lnPay_success preimage)) \<Rightarrow>
             [request invoice, copy_item (t ''words.preimage'' []) preimage (t ''phrases.copied-to-clipboard'' [])]
         | lnPay invoice _ _ \<Rightarrow> [request invoice]
         | _ \<Rightarrow> [])"

definition txid_item :: "tfun \<Rightarrow> string \<Rightarrow> DetailItem" where
  "txid_item t txid = copy_item (t ''phrases.transaction-id'' []) txid (t ''phrases.copied-transaction-id'' [])"

definition onchain_items :: "tfun \<Rightarrow> TxnKind \<Rightarrow> DetailItem list" where
  "onchain_items t kind =
     (let address = (\<lambda>label onchain_address. copy_item label onchain_address (t ''phrases.copied-bitcoin-address'' []))
      in case kind of
           onchainDeposit onchain_address _ st \<Rightarrow>
             address (if st = Some deposit_waitingForTransaction then t ''words.address'' [] else t ''words.to'' [])
               onchain_address #
             (case st of
                Some (deposit_waitingForConfirmation txid) \<Rightarrow> [txid_item t txid]
              | Some (deposit_confirmed txid) \<Rightarrow> [txid_item t txid]
              | Some (deposit_claimed txid) \<Rightarrow> [txid_item t txid]
              | _ \<Rightarrow> [])
         | onchainWithdraw onchain_address _ _ st \<Rightarrow>
             address (t ''words.to'' []) onchain_address #
             (case st of
                Some (withdraw_succeeded txid) \<Rightarrow> [txid_item t txid]
              | Some (withdraw_failed error) \<Rightarrow> [plain_item (t ''words.reason'' []) error]
              | _ \<Rightarrow> [])
         | _ \<Rightarrow> [])"

definition pool_direction_items :: "tfun \<Rightarrow> TransactionListEntry \<Rightarrow> string \<Rightarrow> DetailItem list" where
  "pool_direction_items t txn currency =
     (let balance = t ''feature.stabilitypool.currency-balance'' [(''currency'', getCurrencyCode currency)];
          deposit_to = [plain_item (t ''feature.stabilitypool.deposit-to'' []) balance];
          withdrawal_from = [plain_item (t ''feature.stabilitypool.withdrawal-from'' []) balance]
      in case txn_kind txn of
           spDeposit _ \<Rightarrow> deposit_to
         | sPV2Deposit _ \<Rightarrow> deposit_to
         | spWithdraw _ \<Rightarrow> withdrawal_from
         | sPV2Withdrawal _ _ _ \<Rightarrow> if isGuardianRemittanceWithdrawal txn then [] else withdrawal_from
         | _ \<Rightarrow> [])"

definition makeTxnDetailItems ::
  "(int \<Rightarrow> string \<Rightarrow> string) \<Rightarrow> tfun \<Rightarrow> TransactionListEntry \<Rightarrow> string option \<Rightarrow> txnDisplay \<Rightarrow> (int \<Rightarrow> FormattedAmounts) \<Rightarrow>
     (int \<Rightarrow> string) \<Rightarrow> string + DetailItem list" where
  "makeTxnDetailItems format_unix t txn currency display fmt convertCentsToFormattedFiat =
     (case formatTimestamp format_unix (txn_createdAt txn) ''MMM dd yyyy, h:mmaaa'' of
        Inl error \<Rightarrow> Inl error
      | Inr time \<Rightarrow>
          Inr ([plain_item (t ''words.type'' []) (makeTxnTypeText txn t),
                plain_item (t ''words.status'' []) (makeTxnStatusText t txn),
                plain_item (t ''words.time'' []) time] @
               pool_items t txn display fmt convertCentsToFormattedFiat @
               lightning_items t (txn_kind txn) @
               onchain_items t (txn_kind txn) @
               pool_direction_items t txn (case currency of None \<Rightarrow> ''USD'' | Some c \<Rightarrow> c)))"

definition stability_label :: "TransactionListEntry \<Rightarrow> string option" where
  "stability_label txn =
     (case txn_kind txn of
        spDeposit _ \<Rightarrow> Some ''feature.stabilitypool.deposit-amount''
      | sPV2Deposit _ \<Rightarrow> Some ''feature.stabilitypool.deposit-amount''
      | sPV2TransferIn _ \<Rightarrow>
          Some (if isMultispendTransfer txn then ''feature.stabilitypool.deposit-amount''
                else ''feature.stabilitypool.transfer-amount'')
      | spWithdraw _ \<Rightarrow> Some ''feature.stabilitypool.withdrawal-amount''
      | sPV2Withdrawal _ _ _ \<Rightarrow> Some ''feature.stabilitypool.withdrawal-amount''
      | sPV2TransferOut _ \<Rightarrow>
          Some (if isMultispendTransfer txn then ''feature.stabilitypool.withdrawal-amount''
                else ''feature.stabilitypool.transfer-amount'')
      | _ \<Rightarrow> None)"

definition makeStabilityTxnDetailItems ::
  "(int \<Rightarrow> string \<Rightarrow> string) \<Rightarrow> tfun \<Rightarrow> TransactionListEntry \<Rightarrow> (int \<Rightarrow> FormattedAmounts) \<Rightarrow>
     string + DetailItem list" where
  "makeStabilityTxnDetailItems format_unix t txn fmt =
     (case formatTimestamp format_unix (txn_createdAt txn) ''MMM dd yyyy, h:mmaaa'' of
        Inl error \<Rightarrow> Inl error
      | Inr time \<Rightarrow>
          Inr ((if txn_amount txn = 0 then []
                else (case stability_label txn of
                        None \<Rightarrow> []
                      | Some label \<Rightarrow> [plain_item (t label []) (formattedSats (fmt (txn_amount txn)))])) @
               [plain_item (t ''words.status'' []) (makeTxnStatusText t txn),
                plain_item (t ''words.time'' []) time]))"

end
