(* ===== verification/Txn_Csv.thy ===== *)
theory Txn_Csv
  imports Txn_Display
begin

text \<open>
  The history of transactions as a table: \<^verbatim>\<open>ui/common/utils/csv.ts\<close>, with the texts of the
  transactions of a group wallet of \<^verbatim>\<open>ui/common/utils/transaction.ts\<close>. The table is read back by a
  reader of the usual format (RFC 4180), written here as the specification of what is produced.
\<close>

section \<open>Transactions of a group wallet\<close>

text \<open>
  A submission is unknown, accepted or rejected, so the branches of the source after these three are
  never reached.
\<close>

definition makeMultispendTxnStatusText ::
  "tfun \<Rightarrow> TransactionListEntry \<Rightarrow> RpcMultispendGroupStatus option \<Rightarrow> bool \<Rightarrow> string" where
  "makeMultispendTxnStatusText t txn multispendStatus csvExport =
     (case multispendStatus of
        Some (finalized _ _) \<Rightarrow>
          (case txn_kind txn of
             multispendDeposit _ \<Rightarrow> if csvExport then t ''words.complete'' [] else t ''words.deposit'' []
           | multispendWithdrawal w \<Rightarrow>
               (case txSubmissionStatus (mw_request w) of
                  submission_unknown \<Rightarrow> t ''words.pending'' []
                | submission_accepted _ \<Rightarrow>
                    if csvExport then t ''words.complete'' [] else t ''words.withdrawal'' []
                | submission_rejected _ \<Rightarrow> t ''words.failed'' [])
           | _ \<Rightarrow> t ''words.unknown'' [])
      | _ \<Rightarrow> t ''words.unknown'' [])"

text \<open>The last four characters of the hash of the identifier.\<close>

definition getUserSuffix :: "(string \<Rightarrow> string) \<Rightarrow> string \<Rightarrow> string" where
  "getUserSuffix toSha256EncHex i =
     (let hash = toSha256EncHex i in CHR ''#'' # drop (length hash - 4) hash)"

definition display_name :: "obj \<Rightarrow> string" where
  "display_name user = (case obj_get user ''displayName'' of JStr name \<Rightarrow> name | _ \<Rightarrow> [])"

definition user_id :: "obj \<Rightarrow> string" where
  "user_id user = (case obj_get user ''id'' of JStr i \<Rightarrow> i | _ \<Rightarrow> [])"

definition makeNameWithSuffix :: "(string \<Rightarrow> string) \<Rightarrow> obj \<Rightarrow> string" where
  "makeNameWithSuffix sha user = display_name user @ '' '' @ getUserSuffix sha (user_id user)"

definition findUserDisplayName :: "(string \<Rightarrow> string) \<Rightarrow> string \<Rightarrow> obj list \<Rightarrow> string" where
  "findUserDisplayName sha userId members =
     (case find (\<lambda>m. obj_get m ''id'' = JStr userId) members of
        None \<Rightarrow> userId
      | Some user \<Rightarrow> makeNameWithSuffix sha user)"

text \<open>\<^verbatim>\<open>(ms / 1000).toFixed(0)\<close> on whole milliseconds, halves away from zero.\<close>

definition seconds_of :: "int \<Rightarrow> int" where
  "seconds_of ms = (if ms < 0 then - ((- ms + 500) div 1000) else (ms + 500) div 1000)"

definition named_member :: "(string \<Rightarrow> string) \<Rightarrow> string \<Rightarrow> string \<Rightarrow> obj list \<Rightarrow> DetailItem list" where
  "named_member sha label userId members =
     (case find (\<lambda>m. obj_get m ''id'' = JStr userId) members of
        None \<Rightarrow> []
      | Some m \<Rightarrow> if display_name m = [] then [] else [plain_item label (makeNameWithSuffix sha m)])"

definition cents_item :: "tfun \<Rightarrow> (int \<Rightarrow> string) \<Rightarrow> int \<Rightarrow> DetailItem list" where
  "cents_item t convertCentsToFormattedFiat cents =
     (if cents = 0 then [] else [plain_item (t ''words.amount'' []) (convertCentsToFormattedFiat cents)])"

definition multispend_time :: "TxnKind \<Rightarrow> int" where
  "multispend_time kind =
     (case kind of multispendDeposit d \<Rightarrow> md_time d | multispendWithdrawal w \<Rightarrow> mw_time w | _ \<Rightarrow> 0)"

definition makeMultispendTxnDetailItems ::
  "(int \<Rightarrow> string \<Rightarrow> string) \<Rightarrow> (string \<Rightarrow> string) \<Rightarrow> tfun \<Rightarrow> TransactionListEntry \<Rightarrow> obj list \<Rightarrow> (int \<Rightarrow> string) \<Rightarrow>
     string + DetailItem list" where
  "makeMultispendTxnDetailItems format_unix sha t txn members convertCentsToFormattedFiat =
     (case formatTimestamp format_unix (seconds_of (multispend_time (txn_kind txn))) ''MMM dd yyyy, h:mmaaa'' of
        Inl error \<Rightarrow> Inl error
      | Inr time \<Rightarrow>
          Inr ([plain_item (t ''words.type'' []) (t ''words.multispend'' []),
                plain_item (t ''words.time'' []) time] @
               (case txn_kind txn of
                  multispendDeposit d \<Rightarrow>
                    named_member sha (t ''words.depositor'' []) (md_user d) members @
                    cents_item t convertCentsToFormattedFiat (md_fiatAmount d)
                | multispendWithdrawal w \<Rightarrow>
                    named_member sha (t ''words.withdrawer'' []) (wd_sender (mw_request w)) members @
                    cents_item t convertCentsToFormattedFiat (wd_transfer_amount (mw_request w))
                | _ \<Rightarrow> [])))"

record MultispendWalletHeader =
  head_federationName :: string
  head_status :: string
  head_threshold :: nat
  head_totalSigners :: nat

definition wallet_header :: "string \<Rightarrow> GroupInvitation \<Rightarrow> MultispendWalletHeader" where
  "wallet_header statusText i = \<lparr> head_federationName = inv_federationName i, head_status = statusText,
     head_threshold = threshold i, head_totalSigners = length (signers i) \<rparr>"

definition makeMultispendWalletHeader :: "tfun \<Rightarrow> RpcMultispendGroupStatus option \<Rightarrow> MultispendWalletHeader" where
  "makeMultispendWalletHeader t multispendStatus =
     (case multispendStatus of
        Some (activeInvitation _ st) \<Rightarrow>
          wallet_header (t ''feature.multispend.waiting-for-approval'' []) (keys_invitation st)
      | Some (finalized _ g) \<Rightarrow> wallet_header (t ''words.active'' []) (fin_invitation g)
      | _ \<Rightarrow> \<lparr> head_federationName = [], head_status = t ''words.canceled'' [], head_threshold = 0,
               head_totalSigners = 0 \<rparr>)"

section \<open>Dates\<close>

text \<open>
  \<^verbatim>\<open>new Date(ms).toISOString()\<close>: the proleptic Gregorian date of the day, counted in eras of 400
  years that begin in March, and the time of the day; a time outside the range of dates throws.
\<close>

definition civil_date :: "int \<Rightarrow> int \<times> int \<times> int" where
  "civil_date days =
     (let z = days + 719468;
          era = z div 146097;
          doe = z mod 146097;
          yoe = (doe - doe div 1460 + doe div 36524 - doe div 146096) div 365;
          doy = doe - (365 * yoe + yoe div 4 - yoe div 100);
          mp = (5 * doy + 2) div 153;
          day = doy - (153 * mp + 2) div 5 + 1;
          month = (if mp < 10 then mp + 3 else mp - 9);
          year = yoe + era * 400 + (if month \<le> 2 then 1 else 0)
      in (year, month, day))"

definition padded :: "nat \<Rightarrow> int \<Rightarrow> string" where
  "padded d n = pad_zeros d (nat_str (nat n))"

definition year_text :: "int \<Rightarrow> string" where
  "year_text y =
     (if 0 \<le> y \<and> y \<le> 9999 then padded 4 y
      else (if y < 0 then ''-'' else ''+'') @ padded 6 \<bar>y\<bar>)"

definition toISOString :: "int \<Rightarrow> string + string" where
  "toISOString ms =
     (if \<bar>ms\<bar> > 8640000000000000 then Inl ''Invalid time value''
      else let (year, month, day) = civil_date (ms div 86400000);
               r = ms mod 86400000
           in Inr (year_text year @ ''-'' @ padded 2 month @ ''-'' @ padded 2 day @ ''T'' @
                padded 2 (r div 3600000) @ '':'' @ padded 2 (r div 60000 mod 60) @ '':'' @
                padded 2 (r div 1000 mod 60) @ ''.'' @ padded 3 (r mod 1000) @ ''Z''))"

section \<open>Tables\<close>

abbreviation quote_char :: char where
  "quote_char \<equiv> CHR 0x22"

definition CRLF :: string where
  "CRLF = [CHR 0x0D, CHR 0x0A]"

definition csv_escape :: "string \<Rightarrow> string" where
  "csv_escape s = concat (map (\<lambda>c. if c = quote_char then [quote_char, quote_char] else [c]) s)"

definition csv_cell :: "string \<Rightarrow> string" where
  "csv_cell s = quote_char # csv_escape s @ [quote_char]"

fun csv_join :: "string list \<Rightarrow> string" where
  "csv_join [] = []"
| "csv_join [s] = s"
| "csv_join (s # ss) = s @ '','' @ csv_join ss"

text \<open>A column is its name and the value it has for an item, or what that throws.\<close>

type_synonym 'a column = "string \<times> ('a \<Rightarrow> string + string)"

fun sequence_values :: "(string + string) list \<Rightarrow> string + string list" where
  "sequence_values [] = Inr []"
| "sequence_values (Inl e # vs) = Inl e"
| "sequence_values (Inr v # vs) = (case sequence_values vs of Inl e \<Rightarrow> Inl e | Inr rest \<Rightarrow> Inr (v # rest))"

definition row_values :: "'a column list \<Rightarrow> 'a \<Rightarrow> string + string list" where
  "row_values columns item = sequence_values (map (\<lambda>(name, getValue). getValue item) columns)"

fun add_rows :: "'a column list \<Rightarrow> 'a list \<Rightarrow> string \<Rightarrow> string + string" where
  "add_rows columns [] csv = Inr csv"
| "add_rows columns (item # items) csv =
     (case row_values columns item of
        Inl e \<Rightarrow> Inl e
      | Inr vs \<Rightarrow> add_rows columns items (csv @ CRLF @ csv_join (map csv_cell vs)))"

definition makeCSV :: "'a list \<Rightarrow> 'a column list \<Rightarrow> string + string" where
  "makeCSV items columns = add_rows columns items (csv_join (map fst columns))"

section \<open>Histories\<close>

definition is_refunded :: "TxnKind \<Rightarrow> bool" where
  "is_refunded kind \<longleftrightarrow>
     (case kind of oobSend st _ \<Rightarrow> st \<in> set [Some oob_refunded, Some oob_userCanceledSuccess] | _ \<Rightarrow> False)"

definition with_spend_state :: "RpcOOBSpendState \<Rightarrow> TransactionListEntry \<Rightarrow> TransactionListEntry" where
  "with_spend_state st tx =
     tx\<lparr>txn_kind := (case txn_kind tx of oobSend _ notes \<Rightarrow> oobSend (Some st) notes | k \<Rightarrow> k)\<rparr>"

definition split_refund :: "TransactionListEntry \<Rightarrow> TransactionListEntry list" where
  "split_refund tx =
     (if is_refunded (txn_kind tx)
      then [with_spend_state oob_success tx,
            (with_spend_state oob_refunded tx)
              \<lparr>txn_createdAt := (case outcomeTime tx of None \<Rightarrow> txn_createdAt tx | Some time \<Rightarrow> time)\<rparr>]
      else [tx])"

definition extractDepositsFromRefunds :: "TransactionListEntry list \<Rightarrow> TransactionListEntry list" where
  "extractDepositsFromRefunds txs = concat (map split_refund txs)"

definition direction_text :: "TransactionDirection \<Rightarrow> string" where
  "direction_text d = (case d of send \<Rightarrow> ''send'' | receive \<Rightarrow> ''receive'')"

definition fiat_cell :: "(js_num \<Rightarrow> string) \<Rightarrow> (int \<Rightarrow> string \<Rightarrow> FormattedAmounts) \<Rightarrow> TransactionListEntry \<Rightarrow> string" where
  "fiat_cell shown fmt tx =
     (case txDateFiatInfo tx of
        Some rates \<Rightarrow>
          (let historicalRate = getRateFromFiatFxInfo (Fin (of_int (btcToFiatHundredths rates)));
               btc = msatToBtc (Fin (of_int (txn_amount tx)))
           in toFixed_string shown FIAT_MAX_DECIMAL_PLACES (btcToFiat btc historicalRate) @ '' '' @ fiatCode rates)
      | None \<Rightarrow> formattedFiat (fmt (txn_amount tx) ''end''))"

definition sats_cell :: "(js_num \<Rightarrow> string) \<Rightarrow> int \<Rightarrow> string" where
  "sats_cell shown msats = shown (num_round (num_div (Fin (of_int msats)) (Fin 1000)))"

definition history_columns ::
  "(js_num \<Rightarrow> string) \<Rightarrow> (int \<Rightarrow> string \<Rightarrow> FormattedAmounts) \<Rightarrow> tfun \<Rightarrow> TransactionListEntry column list" where
  "history_columns shown fmt t =
     [(''ID'', \<lambda>tx. Inr (txn_id tx)),
      (''Created at'', \<lambda>tx. toISOString (txn_createdAt tx * 1000)),
      (''Direction'', \<lambda>tx. Inr (direction_text (getTxnDirection tx))),
      (''Type'', \<lambda>tx. Inr (makeTxnTypeText tx t)),
      (''Amount (fiat)'', \<lambda>tx. Inr (fiat_cell shown fmt tx)),
      (''Amount (sats)'', \<lambda>tx. Inr (sats_cell shown (txn_amount tx))),
      (''Notes'', \<lambda>tx. Inr (case txnNotes tx of None \<Rightarrow> [] | Some notes \<Rightarrow> notes)),
      (''Status'', \<lambda>tx. Inr (makeTxnStatusText t tx))]"

definition makeTransactionHistoryCSV ::
  "(js_num \<Rightarrow> string) \<Rightarrow> TransactionListEntry list \<Rightarrow> (int \<Rightarrow> string \<Rightarrow> FormattedAmounts) \<Rightarrow> tfun \<Rightarrow> string + string" where
  "makeTransactionHistoryCSV shown txs fmt t =
     makeCSV (sort_key txn_createdAt (extractDepositsFromRefunds txs)) (history_columns shown fmt t)"

definition event_cents :: "TxnKind \<Rightarrow> int" where
  "event_cents kind =
     (case kind of
        multispendDeposit d \<Rightarrow> md_fiatAmount d
      | multispendWithdrawal w \<Rightarrow> wd_transfer_amount (mw_request w)
      | _ \<Rightarrow> 0)"

definition multispend_columns ::
  "(string \<Rightarrow> string) \<Rightarrow> (int \<Rightarrow> string) \<Rightarrow> (int \<Rightarrow> string) \<Rightarrow> tfun \<Rightarrow> string option \<Rightarrow> RpcMultispendGroupStatus option \<Rightarrow>
     obj list \<Rightarrow> TransactionListEntry column list" where
  "multispend_columns sha formatUsdCents convertCentsToFormattedFiat t preferredCurrency multispendStatus members =
     [(''ID'', \<lambda>tx. Inr (txn_id tx)),
      (''Created at'', \<lambda>tx. toISOString (txn_createdAt tx)),
      (''Type'', \<lambda>tx. Inr (case txn_kind tx of
          multispendWithdrawal _ \<Rightarrow> t ''phrases.multispend-withdrawal'' []
        | multispendDeposit _ \<Rightarrow> t ''phrases.multispend-deposit'' []
        | _ \<Rightarrow> t ''words.unknown'' [])),
      (''Status'', \<lambda>tx. Inr (makeMultispendTxnStatusText t tx multispendStatus True)),
      (''Amount (USD)'', \<lambda>tx. Inr (if event_cents (txn_kind tx) = 0 then []
                                  else formatUsdCents (event_cents (txn_kind tx))))] @
     (case preferredCurrency of
        None \<Rightarrow> []
      | Some currency \<Rightarrow>
          if currency = [] \<or> currency = ''USD'' then []
          else [(''Amount ('' @ currency @ '')'', \<lambda>tx. Inr (if event_cents (txn_kind tx) = 0 then []
                   else convertCentsToFormattedFiat (event_cents (txn_kind tx))))]) @
     [(''Description'', \<lambda>tx. Inr (case txn_kind tx of
          multispendDeposit d \<Rightarrow> md_description d
        | multispendWithdrawal w \<Rightarrow> wd_description (mw_request w)
        | _ \<Rightarrow> [])),
      (''Depositor / Withdrawer'', \<lambda>tx. Inr (case txn_kind tx of
          multispendDeposit d \<Rightarrow> if md_user d = [] then [] else findUserDisplayName sha (md_user d) members
        | multispendWithdrawal w \<Rightarrow>
            if wd_sender (mw_request w) = [] then []
            else findUserDisplayName sha (wd_sender (mw_request w)) members
        | _ \<Rightarrow> []))]"

definition makeMultispendTransactionHistoryCSV ::
  "(string \<Rightarrow> string) \<Rightarrow> (int \<Rightarrow> string) \<Rightarrow> TransactionListEntry list \<Rightarrow> (int \<Rightarrow> string) \<Rightarrow> tfun \<Rightarrow> string option \<Rightarrow>
     RpcMultispendGroupStatus option \<Rightarrow> obj list \<Rightarrow> string + string" where
  "makeMultispendTransactionHistoryCSV sha formatUsdCents txs convertCents t preferredCurrency multispendStatus members =
     makeCSV (sort_key txn_createdAt txs)
       (multispend_columns sha formatUsdCents convertCents t preferredCurrency multispendStatus members)"

definition makeBase64CSVUri :: "(string \<Rightarrow> string) \<Rightarrow> string \<Rightarrow> string" where
  "makeBase64CSVUri base64_utf8 csv = ''data:text/csv;base64,'' @ base64_utf8 csv"

text \<open>A file name keeps letters, digits and hyphens; white space becomes a hyphen.\<close>

definition to_lower :: "char \<Rightarrow> char" where
  "to_lower c = (if 65 \<le> (of_char c :: nat) \<and> (of_char c :: nat) \<le> 90 then char_of ((of_char c :: nat) + 32) else c)"

definition is_space :: "char \<Rightarrow> bool" where
  "is_space c \<longleftrightarrow> (of_char c :: nat) \<in> set [9, 10, 11, 12, 13, 32, 160]"

definition filename_char :: "char \<Rightarrow> bool" where
  "filename_char c \<longleftrightarrow>
     (let n = (of_char c :: nat) in 97 \<le> n \<and> n \<le> 122 \<or> 65 \<le> n \<and> n \<le> 90 \<or> 48 \<le> n \<and> n \<le> 57 \<or> n = 45)"

definition makeCSVFilename :: "string \<Rightarrow> string" where
  "makeCSVFilename name =
     filter filename_char (map (\<lambda>c. if is_space c then CHR ''-'' else c) (map to_lower name)) @ ''.csv''"

end
