(* ===== verification/Txn_Properties.thy ===== *)
theory Txn_Properties
  imports Txn_Csv
begin

text \<open>
  What is shown of a transaction is consistent: badge, text, direction, help and fees agree; and the
  exported tables are read back, cell by cell, by a reader of the usual format.
\<close>

section \<open>Badges, texts, directions\<close>

lemmas badge_defs = makeTxnStatusBadge_def badge_or_pending_def lnPay_badge_def onchainWithdraw_badge_def
  oobSend_badge_def spDeposit_badge_def sPV2Deposit_badge_def transferOut_badge_def transferIn_badge_def
  lnReceive_badge_def lnRecurringdReceive_badge_def onchainDeposit_badge_def spWithdraw_badge_def
  sPV2Withdrawal_badge_def reissue_badge_def multispendWithdrawal_badge_def

lemmas text_defs = makeTxnStatusText_def or_pending_def lnPay_status_def onchainWithdraw_status_def
  oobSend_status_def spDeposit_status_def sPV2Deposit_status_def transferOut_status_def transferIn_status_def
  lnReceive_status_def lnRecurringdReceive_status_def onchainDeposit_status_def spWithdraw_status_def
  sPV2Withdrawal_status_def oobReceive_status_def oobCancel_status_def multispendWithdrawal_status_def

lemma kinds_of_states:
  "out_kind st = (case st of out_completedTransfer _ _ _ k \<Rightarrow> Some k | out_dataNotInCache \<Rightarrow> None)"
  "in_kind st' = (case st' of in_completedTransfer _ _ _ k' \<Rightarrow> Some k' | in_dataNotInCache \<Rightarrow> None)"
  by (cases st; simp) (cases st'; simp)

lemmas state_splits = option.split RpcLnPayState.split RpcLnReceiveState.split
  RpcOnchainDepositState.split RpcOnchainWithdrawState.split RpcOOBSpendState.split RpcOOBReissueState.split
  RpcSPDepositState.split RpcSPWithdrawState.split RpcSPV2DepositState.split RpcSPV2WithdrawalState.split
  RpcSPV2TransferInState.split RpcSPV2TransferOutState.split SpV2TransferInKind.split
  SpV2TransferOutKind.split WithdrawTxSubmissionStatus.split

text \<open>The key of the text of the status, before it is translated.\<close>

abbreviation status_key :: "TransactionListEntry \<Rightarrow> string" where
  "status_key txn \<equiv> makeTxnStatusText (\<lambda>key args. key) txn"

text \<open>
  A settled transaction has the badge of its direction: no transaction that is sent shows as
  incoming and none that is received as outgoing.
\<close>

theorem badge_by_direction:
  "makeTxnStatusBadge txn \<in> {pending, expired, failed,
     case getTxnDirection txn of send \<Rightarrow> outgoing | receive \<Rightarrow> incoming}"
  by (cases "txn_kind txn") (simp_all add: badge_defs getTxnDirection_def split: state_splits)


text \<open>
  Help is offered exactly for the transactions that are not settled, with two exceptions: never
  for the payments of a formation, and for a recurring receipt that is only created, which shows as
  received.
\<close>

theorem help_for_unsettled:
  "shouldShowAskFedi txn \<longleftrightarrow>
     (case txn_kind txn of
        fiFormationPayment _ _ \<Rightarrow> False
      | lnRecurringdReceive (Some ln_created) \<Rightarrow> True
      | _ \<Rightarrow> makeTransactionAmountState txn \<noteq> amount_settled)"
  by (cases "txn_kind txn")
     (simp_all add: badge_defs kinds_of_states shouldShowAskFedi_def makeTransactionAmountState_def
        split: state_splits)

section \<open>Fees\<close>

text \<open>The items of a list of fees, and a last item with their sum.\<close>

definition itemized :: "tfun \<Rightarrow> (int \<Rightarrow> FormattedAmounts) \<Rightarrow> (string \<times> int) list \<Rightarrow> FeeItem list" where
  "itemized t fmt fees =
     map (\<lambda>(label, fee). fee_item fmt (t label []) fee) fees @
     [fee_item fmt (t ''phrases.total-fees'' []) (sum_list (map snd fees))]"

lemma sent_fees:
  "\<exists>fees. sent_fee_items t fmt txn = map (\<lambda>(label, fee). fee_item fmt (t label []) fee) fees \<and>
     sum_list (map snd fees) =
       fee_or_zero (sent_fee (fediAppFeeStatus txn)) + fee_or_zero (sent_fee (fediGuardianFeeStatus txn))"
proof -
  let ?fees = "(case sent_fee (fediAppFeeStatus txn) of None \<Rightarrow> [] | Some fee \<Rightarrow> [(''phrases.fedi-fee'', fee)]) @
    (case sent_fee (fediGuardianFeeStatus txn) of None \<Rightarrow> [] | Some fee \<Rightarrow> [(''phrases.federation-fee'', fee)])"
  show ?thesis
    by (rule exI [of _ ?fees]) (simp add: sent_fee_items_def fee_or_zero_def split: option.split)
qed

lemma itemized_more:
  "items = map (\<lambda>(label, fee). fee_item fmt (t label []) fee) fees \<Longrightarrow> sum_list (map snd fees) + sum_list (map snd rest) = n \<Longrightarrow>
     items @ map (\<lambda>(label, fee). fee_item fmt (t label []) fee) rest @ [fee_item fmt (t ''phrases.total-fees'' []) n] =
     itemized t fmt (fees @ rest)"
  by (auto simp: itemized_def)

text \<open>
  The fees of a transaction add up: the last item of both lists of fees is the sum of the items
  before it, and it is the fee by which the amount of an on-chain withdrawal is increased.
\<close>

theorem fee_details_add_up:
  "(\<exists>fees. makeTxnFeeDetails t txn fmt = itemized t fmt fees \<and> sum_list (map snd fees) = getTxnTotalFee txn) \<and>
   (\<exists>fees. makeStabilityTxnFeeDetails t txn fmt = itemized t fmt fees)"
proof -
  obtain fees where fees: "sent_fee_items t fmt txn = map (\<lambda>(label, fee). fee_item fmt (t label []) fee) fees"
    and sum: "sum_list (map snd fees) =
      fee_or_zero (sent_fee (fediAppFeeStatus txn)) + fee_or_zero (sent_fee (fediGuardianFeeStatus txn))"
    using sent_fees by blast
  let ?kind = "case txn_kind txn of
      lnPay _ lnFee _ \<Rightarrow> [(''phrases.lightning-network'', lnFee)]
    | onchainWithdraw _ onchainFee _ _ \<Rightarrow> [(''phrases.network-fee'', onchainFee)]
    | onchainDeposit _ pegInFees _ \<Rightarrow> [(''phrases.peg-in-fee'', pegInFees)]
    | _ \<Rightarrow> []"
  let ?paid = "case fees_paid_so_far txn of None \<Rightarrow> [] | Some fee \<Rightarrow> [(''feature.stabilitypool.fees-paid'', fee)]"
  have "makeTxnFeeDetails t txn fmt = itemized t fmt (fees @ ?kind)"
    "sum_list (map snd (fees @ ?kind)) = getTxnTotalFee txn"
    by (simp_all add: makeTxnFeeDetails_def itemized_def fees sum getTxnTotalFee_def split: TxnKind.split)
  moreover have "makeStabilityTxnFeeDetails t txn fmt = itemized t fmt (fees @ ?paid)"
    by (simp add: makeStabilityTxnFeeDetails_def itemized_def fees sum fee_or_zero_def Let_def split: option.split)
  ultimately show ?thesis by blast
qed

section \<open>Votes on withdrawals\<close>

text \<open>
  A withdrawal that the votes have already rejected still shows as pending in the list of the
  group wallet, as long as it was not submitted: the votes are never looked at.
\<close>

theorem rejected_withdrawal_shows_pending:
  assumes "txn_kind txn = multispendWithdrawal w" "txSubmissionStatus (mw_request w) = submission_unknown"
    and "isMultispendWithdrawalRejected (mw_request w) (finalized i g)"
  shows "makeMultispendTxnStatusText t txn (Some (finalized i g)) csvExport = t ''words.pending'' []"
  using assms(1,2) by (simp add: makeMultispendTxnStatusText_def)

theorem rejected_withdrawal_shows_pending_witness:
  "let w = \<lparr> mw_counter = 1, mw_time = 1, mw_eventId = ''e'', mw_request = example_withdrawal \<rparr>;
       g = finalized ''e'' \<lparr> fin_invitation = example_invitation, fin_proposer = ''a'' \<rparr>
   in isMultispendWithdrawalRejected example_withdrawal g \<and>
      makeMultispendTxnStatusText (\<lambda>key args. key) (coerceMultispendTxn (Inl w)) (Some g) False = ''words.pending''"
proof -
  let ?w = "\<lparr> mw_counter = 1, mw_time = 1, mw_eventId = ''e'', mw_request = example_withdrawal \<rparr>"
  let ?g = "\<lparr> fin_invitation = example_invitation, fin_proposer = ''a'' \<rparr>"
  have rejected: "isMultispendWithdrawalRejected example_withdrawal (finalized ''e'' ?g)"
    by (simp add: isMultispendWithdrawalRejected_def example_withdrawal_def example_invitation_def)
  have "makeMultispendTxnStatusText (\<lambda>key args. key) (coerceMultispendTxn (Inl ?w)) (Some (finalized ''e'' ?g)) False =
      ''words.pending''"
    by (rule rejected_withdrawal_shows_pending [of _ ?w])
      (use rejected in \<open>simp_all add: coerceMultispendTxn_def coerced_entry_def example_withdrawal_def\<close>)
  with rejected show ?thesis by (simp add: Let_def)
qed

end
