(* ===== verification/Txn_Table.thy ===== *)
theory Txn_Table
  imports Txn_Csv
begin

text \<open>
  The exported tables: a reader of the usual format (RFC 4180) as the specification, and that it reads
  every table back.
\<close>

section \<open>The reader\<close>

datatype csv_mode = cell_start | plain_cell | quoted_cell | quote_seen | return_seen | malformed

record csv_reader =
  mode :: csv_mode
  cell :: string
  cells :: "string list"
  table :: "string list list"

definition end_cell :: "csv_reader \<Rightarrow> csv_reader" where
  "end_cell r = r\<lparr>mode := cell_start, cell := [], cells := cells r @ [cell r]\<rparr>"

definition end_row :: "csv_reader \<Rightarrow> csv_reader" where
  "end_row r = \<lparr> mode = cell_start, cell = [], cells = [], table = table r @ [cells r @ [cell r]] \<rparr>"

definition csv_step :: "csv_reader \<Rightarrow> char \<Rightarrow> csv_reader" where
  "csv_step r c =
     (case mode r of
        cell_start \<Rightarrow>
          if c = quote_char then r\<lparr>mode := quoted_cell\<rparr>
          else if c = CHR '','' then end_cell r
          else if c = CHR 0x0D then r\<lparr>mode := return_seen\<rparr>
          else r\<lparr>mode := plain_cell, cell := cell r @ [c]\<rparr>
      | plain_cell \<Rightarrow>
          if c = quote_char then r\<lparr>mode := malformed\<rparr>
          else if c = CHR '','' then end_cell r
          else if c = CHR 0x0D then r\<lparr>mode := return_seen\<rparr>
          else r\<lparr>cell := cell r @ [c]\<rparr>
      | quoted_cell \<Rightarrow>
          if c = quote_char then r\<lparr>mode := quote_seen\<rparr> else r\<lparr>cell := cell r @ [c]\<rparr>
      | quote_seen \<Rightarrow>
          if c = quote_char then r\<lparr>mode := quoted_cell, cell := cell r @ [quote_char]\<rparr>
          else if c = CHR '','' then end_cell r
          else if c = CHR 0x0D then r\<lparr>mode := return_seen\<rparr>
          else r\<lparr>mode := malformed\<rparr>
      | return_seen \<Rightarrow> if c = CHR 0x0A then end_row r else r\<lparr>mode := malformed\<rparr>
      | malformed \<Rightarrow> r)"

definition fresh_reader :: csv_reader where
  "fresh_reader = \<lparr> mode = cell_start, cell = [], cells = [], table = [] \<rparr>"

definition csv_read :: "string \<Rightarrow> string list list option" where
  "csv_read s =
     (let r = foldl csv_step fresh_reader s
      in if mode r \<in> set [quoted_cell, return_seen, malformed] then None
         else Some (table r @ [cells r @ [cell r]]))"

section \<open>Cells and rows\<close>

lemma read_escaped:
  "mode r = quoted_cell \<Longrightarrow> foldl csv_step r (csv_escape s) = r\<lparr>cell := cell r @ s\<rparr>"
proof (induction s arbitrary: r)
  case (Cons c s)
  let ?r = "r\<lparr>cell := cell r @ [c]\<rparr>"
  have "foldl csv_step r (csv_escape (c # s)) = foldl csv_step ?r (csv_escape s)"
    using Cons.prems by (cases r) (simp add: csv_escape_def csv_step_def)
  also have "\<dots> = ?r\<lparr>cell := cell ?r @ s\<rparr>" by (rule Cons.IH) (simp add: Cons.prems)
  finally show ?case by simp
qed (simp add: csv_escape_def)

lemma read_cell:
  "mode r = cell_start \<Longrightarrow> cell r = [] \<Longrightarrow>
     foldl csv_step r (csv_cell s) = r\<lparr>mode := quote_seen, cell := s\<rparr>"
  by (simp add: csv_cell_def csv_step_def [of r] read_escaped) (simp add: csv_step_def)

lemma read_cells:
  "mode r = cell_start \<Longrightarrow> cell r = [] \<Longrightarrow> vs \<noteq> [] \<Longrightarrow>
     foldl csv_step r (csv_join (map csv_cell vs)) =
       r\<lparr>mode := quote_seen, cell := last vs, cells := cells r @ butlast vs\<rparr>"
proof (induction vs arbitrary: r rule: csv_join.induct)
  case (3 v w vs)
  let ?r = "end_cell (r\<lparr>mode := quote_seen, cell := v\<rparr>)"
  have "foldl csv_step r (csv_join (map csv_cell (v # w # vs))) =
      foldl csv_step ?r (csv_join (map csv_cell (w # vs)))"
    using 3(2,3) by (simp add: read_cell) (simp add: csv_step_def)
  also have "\<dots> = ?r\<lparr>mode := quote_seen, cell := last (w # vs), cells := cells ?r @ butlast (w # vs)\<rparr>"
    by (rule 3(1)) (simp_all add: end_cell_def)
  finally show ?case by (simp add: end_cell_def)
qed (simp_all add: read_cell)

definition in_row :: "csv_reader \<Rightarrow> bool" where
  "in_row r \<longleftrightarrow> mode r \<in> {cell_start, plain_cell, quote_seen}"

lemma read_CRLF: "in_row r \<Longrightarrow> foldl csv_step r CRLF = end_row r"
  by (auto simp: in_row_def CRLF_def csv_step_def end_row_def)

text \<open>Names of columns are not quoted: they have none of the characters that have a meaning.\<close>

definition plain_name :: "string \<Rightarrow> bool" where
  "plain_name s \<longleftrightarrow> list_all (\<lambda>c. c \<notin> {quote_char, CHR '','', CHR 0x0D}) s"

lemma read_plain:
  "mode r = plain_cell \<Longrightarrow> plain_name s \<Longrightarrow> foldl csv_step r s = r\<lparr>cell := cell r @ s\<rparr>"
proof (induction s arbitrary: r)
  case (Cons c s)
  let ?r = "r\<lparr>cell := cell r @ [c]\<rparr>"
  have "foldl csv_step r (c # s) = foldl csv_step ?r s"
    using Cons.prems by (simp add: csv_step_def plain_name_def)
  also have "\<dots> = ?r\<lparr>cell := cell ?r @ s\<rparr>"
    by (rule Cons.IH) (use Cons.prems in \<open>simp_all add: plain_name_def\<close>)
  finally show ?case by simp
qed simp

lemma read_name:
  "mode r = cell_start \<Longrightarrow> cell r = [] \<Longrightarrow> plain_name s \<Longrightarrow>
     foldl csv_step r s = r\<lparr>mode := (if s = [] then cell_start else plain_cell), cell := s\<rparr>"
proof (cases s)
  case (Cons c cs)
  assume r: "mode r = cell_start" "cell r = []" "plain_name s"
  let ?r = "r\<lparr>mode := plain_cell, cell := [c]\<rparr>"
  have "foldl csv_step r s = foldl csv_step ?r cs"
    using r Cons by (simp add: csv_step_def plain_name_def)
  also have "\<dots> = ?r\<lparr>cell := cell ?r @ cs\<rparr>"
    by (rule read_plain) (use r Cons in \<open>simp_all add: plain_name_def\<close>)
  finally show ?thesis using Cons by simp
qed simp

lemma read_names:
  assumes "mode r = cell_start" "cell r = []" "names \<noteq> []" "list_all plain_name names"
  obtains m where "m \<in> {cell_start, plain_cell}"
    "foldl csv_step r (csv_join names) = r\<lparr>mode := m, cell := last names, cells := cells r @ butlast names\<rparr>"
proof -
  have "\<exists>m \<in> {cell_start, plain_cell}. foldl csv_step r (csv_join names) =
      r\<lparr>mode := m, cell := last names, cells := cells r @ butlast names\<rparr>"
    using assms
  proof (induction names arbitrary: r rule: csv_join.induct)
    case (2 s)
    then show ?case by (cases "s = []") (auto simp: read_name)
  next
    case (3 v w vs)
    let ?q = "r\<lparr>mode := (if v = [] then cell_start else plain_cell), cell := v\<rparr>"
    have "foldl csv_step r (csv_join (v # w # vs)) = foldl csv_step (csv_step ?q (CHR '','')) (csv_join (w # vs))"
      using 3(2,3,5) by (simp add: read_name)
    also have "csv_step ?q (CHR '','') = end_cell ?q" by (simp add: csv_step_def)
    finally have *: "foldl csv_step r (csv_join (v # w # vs)) = foldl csv_step (end_cell ?q) (csv_join (w # vs))" .
    have "\<exists>m \<in> {cell_start, plain_cell}. foldl csv_step (end_cell ?q) (csv_join (w # vs)) =
        (end_cell ?q)\<lparr>mode := m, cell := last (w # vs), cells := cells (end_cell ?q) @ butlast (w # vs)\<rparr>"
      by (rule 3(1)) (use 3(5) in \<open>simp_all add: end_cell_def\<close>)
    then show ?case unfolding * by (auto simp: end_cell_def)
  qed simp
  then show ?thesis using that by blast
qed

section \<open>Tables\<close>

lemma sequence_length: "sequence_values xs = Inr vs \<Longrightarrow> length vs = length xs"
  by (induction xs arbitrary: vs rule: sequence_values.induct) (auto split: sum.splits)

text \<open>The rows that are written, and how a row is added to a table.\<close>

definition table_of :: "csv_reader \<Rightarrow> string list list" where
  "table_of r = table r @ [cells r @ [cell r]]"

lemma read_row:
  assumes "in_row r" "vs \<noteq> []"
  shows "in_row (foldl csv_step r (CRLF @ csv_join (map csv_cell vs)))"
    and "table_of (foldl csv_step r (CRLF @ csv_join (map csv_cell vs))) = table_of r @ [vs]"
proof -
  let ?e = "end_row r"
  have "foldl csv_step r (CRLF @ csv_join (map csv_cell vs)) =
      ?e\<lparr>mode := quote_seen, cell := last vs, cells := cells ?e @ butlast vs\<rparr>"
    by (simp add: read_CRLF [OF assms(1)] read_cells [OF _ _ assms(2)] end_row_def)
  then show "in_row (foldl csv_step r (CRLF @ csv_join (map csv_cell vs)))"
    and "table_of (foldl csv_step r (CRLF @ csv_join (map csv_cell vs))) = table_of r @ [vs]"
    using assms(2) by (simp_all add: in_row_def table_of_def end_row_def)
qed

lemma read_add_rows:
  assumes "columns \<noteq> []" "list_all2 (\<lambda>item vs. row_values columns item = Inr vs) items rows"
    and "in_row (foldl csv_step fresh_reader csv)"
  shows "\<exists>out. add_rows columns items csv = Inr out \<and> in_row (foldl csv_step fresh_reader out) \<and>
    table_of (foldl csv_step fresh_reader out) = table_of (foldl csv_step fresh_reader csv) @ rows"
  using assms(2,3)
proof (induction items arbitrary: rows csv)
  case (Cons item items)
  then obtain vs rest where rows: "rows = vs # rest" "row_values columns item = Inr vs"
      "list_all2 (\<lambda>item vs. row_values columns item = Inr vs) items rest"
    by (auto simp: list_all2_Cons1)
  let ?csv = "csv @ CRLF @ csv_join (map csv_cell vs)"
  have "vs \<noteq> []" using sequence_length [OF rows(2) [unfolded row_values_def]] assms(1) by auto
  note row = read_row [OF Cons.prems(2) this]
  have "in_row (foldl csv_step fresh_reader ?csv)" using row(1) by simp
  from Cons.IH [OF rows(3) this] show ?case using rows(1,2) row(2) by auto
qed simp

lemma csv_read_in_row: "in_row (foldl csv_step fresh_reader s) \<Longrightarrow>
    csv_read s = Some (table_of (foldl csv_step fresh_reader s))"
  by (auto simp: csv_read_def Let_def in_row_def table_of_def)

lemma csv_roundtrip:
  assumes "columns \<noteq> []" "list_all (\<lambda>c. plain_name (fst c)) columns"
    and "list_all2 (\<lambda>item vs. row_values columns item = Inr vs) items rows"
  shows "\<exists>csv. makeCSV items columns = Inr csv \<and> csv_read csv = Some (map fst columns # rows)"
proof -
  let ?names = "map fst columns"
  have "list_all plain_name ?names" using assms(2) by (simp add: list_all_iff)
  from read_names [OF _ _ _ this, of fresh_reader] assms(1)
  obtain m where m: "m \<in> {cell_start, plain_cell}" "foldl csv_step fresh_reader (csv_join ?names) =
      fresh_reader\<lparr>mode := m, cell := last ?names, cells := cells fresh_reader @ butlast ?names\<rparr>"
    by (auto simp: fresh_reader_def)
  have "in_row (foldl csv_step fresh_reader (csv_join ?names))" using m by (auto simp: in_row_def)
  from read_add_rows [OF assms(1,3) this] obtain out where out: "makeCSV items columns = Inr out"
      "in_row (foldl csv_step fresh_reader out)"
      "table_of (foldl csv_step fresh_reader out) = table_of (foldl csv_step fresh_reader (csv_join ?names)) @ rows"
    by (auto simp: makeCSV_def)
  have "table_of (foldl csv_step fresh_reader (csv_join ?names)) = [?names]"
    unfolding m(2) using assms(1) by (simp add: table_of_def fresh_reader_def)
  with out csv_read_in_row show ?thesis by simp
qed

section \<open>The history of transactions\<close>

definition date_in_range :: "TransactionListEntry \<Rightarrow> bool" where
  "date_in_range tx \<longleftrightarrow> \<bar>txn_createdAt tx\<bar> \<le> 8640000000000"

definition date_text :: "int \<Rightarrow> string" where
  "date_text ms = (case toISOString ms of Inr text \<Rightarrow> text | Inl _ \<Rightarrow> [])"

definition history_row ::
  "(js_num \<Rightarrow> string) \<Rightarrow> (int \<Rightarrow> string \<Rightarrow> FormattedAmounts) \<Rightarrow> tfun \<Rightarrow> TransactionListEntry \<Rightarrow> string list" where
  "history_row shown fmt t tx =
     [txn_id tx, date_text (txn_createdAt tx * 1000), direction_text (getTxnDirection tx), makeTxnTypeText tx t,
      fiat_cell shown fmt tx, sats_cell shown (txn_amount tx),
      (case txnNotes tx of None \<Rightarrow> [] | Some notes \<Rightarrow> notes), makeTxnStatusText t tx]"

lemma history_row_values:
  "date_in_range tx \<Longrightarrow> row_values (history_columns shown fmt t) tx = Inr (history_row shown fmt t tx)"
  by (simp add: row_values_def history_columns_def history_row_def date_in_range_def date_text_def toISOString_def
      Let_def abs_mult split: prod.split)

lemma plain_history_names: "list_all (\<lambda>c. plain_name (fst c)) (history_columns shown fmt t)"
  by (simp add: history_columns_def plain_name_def)

text \<open>
  C26. The exported history is read back by a reader of the usual format: a row of names, then the rows
  of the transactions in order of time, whatever quotes, commas and line breaks are in the notes; an
  e-cash payment that was refunded has one row as a payment and one at the time of its refund.
\<close>

theorem history_reads_back:
  assumes "list_all date_in_range (extractDepositsFromRefunds txs)"
  shows "\<exists>csv. makeTransactionHistoryCSV shown txs fmt t = Inr csv \<and>
    csv_read csv = Some ([''ID'', ''Created at'', ''Direction'', ''Type'', ''Amount (fiat)'', ''Amount (sats)'',
        ''Notes'', ''Status''] #
      map (history_row shown fmt t) (sort_key txn_createdAt (extractDepositsFromRefunds txs)))"
proof -
  let ?txs = "sort_key txn_createdAt (extractDepositsFromRefunds txs)" and ?columns = "history_columns shown fmt t"
  have "list_all2 (\<lambda>tx vs. row_values ?columns tx = Inr vs) ?txs (map (history_row shown fmt t) ?txs)"
    using assms by (auto simp: list_all2_map2 list_all2_same list_all_iff history_row_values)
  from csv_roundtrip [OF _ plain_history_names this] show ?thesis
    by (auto simp: makeTransactionHistoryCSV_def history_columns_def)
qed

definition example_txn :: TransactionListEntry where
  "example_txn = \<lparr> txn_createdAt = 1700000000, txn_id = ''t1'', txn_amount = 2500, fediAppFeeStatus = None,
     fediGuardianFeeStatus = None, txnNotes = Some ''rent, May'', txDateFiatInfo = None,
     frontendMetadata = \<lparr> initialNotes = None, recipientMatrixId = None, senderMatrixId = None \<rparr>,
     outcomeTime = Some 1700000060, txn_kind = oobSend (Some oob_refunded) None \<rparr>"

abbreviation example_amounts :: "int \<Rightarrow> string \<Rightarrow> FormattedAmounts" where
  "example_amounts amt position \<equiv> \<lparr> formattedFiat = ''1.00 USD'', formattedSats = int_str (amt div 1000) @ '' SATS'',
     formattedPrimaryAmount = ''1.00 USD'', formattedSecondaryAmount = int_str (amt div 1000) @ '' SATS'' \<rparr>"

theorem history_reads_back_witness:
  "\<exists>csv. makeTransactionHistoryCSV (\<lambda>n. ''2'') [example_txn] example_amounts (\<lambda>key args. key) = Inr csv \<and>
    map_option length (csv_read csv) = Some 3"
proof -
  have "list_all date_in_range (extractDepositsFromRefunds [example_txn])"
    by (simp add: extractDepositsFromRefunds_def split_refund_def is_refunded_def example_txn_def
        date_in_range_def with_spend_state_def)
  from history_reads_back [OF this, of "\<lambda>n. ''2''" example_amounts "\<lambda>key args. key"] show ?thesis
    by (auto simp: extractDepositsFromRefunds_def split_refund_def is_refunded_def example_txn_def)
qed

text \<open>Both rows of a refund are marked as sent, the one of the deposit too.\<close>

lemma refund_rows:
  "is_refunded (txn_kind tx) \<Longrightarrow>
     map getTxnDirection (split_refund tx) = [send, send] \<and>
     map (makeTxnStatusText (\<lambda>key args. key)) (split_refund tx) = [''words.sent'', ''words.refunded'']"
  by (cases "txn_kind tx")
     (simp_all add: split_refund_def is_refunded_def with_spend_state_def getTxnDirection_def
        makeTxnStatusText_def or_pending_def oobSend_status_def)

end
