(* ===== verification/Matrix_Mentions.thy ===== *)
theory Matrix_Mentions
  imports Federation_Utils
begin

text \<open>
  \<^verbatim>\<open>ui/common/utils/matrix.ts\<close>: mentions of members in messages, from the typed text to the formatted
  body that is sent, and back to the runs of text and links that are shown. Members are JavaScript
  objects. Regular expressions are written out as functions: each of them is deterministic, so the
  first match is the only one. Texts are 8-bit, so lower case is that of Latin-1.
\<close>

section \<open>Texts\<close>

definition js_lower :: "char \<Rightarrow> char" where
  "js_lower c =
     (let n = of_char c :: nat
      in if 65 \<le> n \<and> n \<le> 90 \<or> 192 \<le> n \<and> n \<le> 222 \<and> n \<noteq> 215 then char_of (n + 32) else c)"

definition toLowerCase :: "string \<Rightarrow> string" where
  "toLowerCase s = map js_lower s"

definition js_trim :: "string \<Rightarrow> string" where
  "js_trim s = rev (dropWhile is_space (rev (dropWhile is_space s)))"

text \<open>\<^verbatim>\<open>s.replace(pattern, text)\<close> with a global literal pattern.\<close>

fun replace_all :: "string \<Rightarrow> string \<Rightarrow> string \<Rightarrow> string" where
  "replace_all pat rep [] = []"
| "replace_all pat rep (c # s) =
     (if pat \<noteq> [] \<and> take (length pat) (c # s) = pat
      then rep @ replace_all pat rep (drop (length pat - 1) s)
      else c # replace_all pat rep s)"

definition DQUOTE :: char where "DQUOTE = CHR 0x22"
definition SQUOTE :: char where "SQUOTE = CHR 0x27"

definition escapeHtml :: "string \<Rightarrow> string" where
  "escapeHtml s =
     replace_all ''&apos;'' [SQUOTE] (replace_all [SQUOTE] ''&#39;'' (replace_all [DQUOTE] ''&quot;''
       (replace_all ''>'' ''&gt;'' (replace_all ''<'' ''&lt;'' (replace_all ''&'' ''&amp;'' s)))))"

definition unescapeHtml :: "string \<Rightarrow> string" where
  "unescapeHtml s =
     replace_all ''&apos;'' [SQUOTE] (replace_all ''&amp;'' ''&'' (replace_all ''&#39;'' [SQUOTE]
       (replace_all ''&quot;'' [DQUOTE] (replace_all ''&gt;'' ''>'' (replace_all ''&lt;'' ''<'' s)))))"

definition MATRIX_URL_BASE :: string where "MATRIX_URL_BASE = ''https://matrix.to/#/''"
definition ROOM_MENTION :: string where "ROOM_MENTION = ''room''"

definition anchorForUser :: "string \<Rightarrow> string \<Rightarrow> string" where
  "anchorForUser userId display =
     ''<a href='' @ [DQUOTE] @ MATRIX_URL_BASE @ userId @ [DQUOTE] @ ''>'' @ escapeHtml display @ ''</a>''"

section \<open>From the typed text\<close>

text \<open>The name of a member, or the empty text, trimmed; and the local part of the identifier.\<close>

definition member_id :: "obj \<Rightarrow> string" where
  "member_id m = js_str (obj_get m ''id'')"

definition member_name :: "obj \<Rightarrow> string" where
  "member_name m = js_trim (case obj_get m ''displayName'' of JStr s \<Rightarrow> s | _ \<Rightarrow> [])"

definition local_part :: "obj \<Rightarrow> string" where
  "local_part m =
     takeWhile (\<lambda>c. c \<noteq> CHR '':'') (case member_id m of c # s \<Rightarrow> if c = CHR ''@'' then s else c # s | [] \<Rightarrow> [])"

definition byHandle :: "obj list \<Rightarrow> (string, obj) jsmap" where
  "byHandle roomMembers = foldl (\<lambda>acc m. jm_set (toLowerCase (local_part m)) m acc) [] roomMembers"

definition byDisplay :: "obj list \<Rightarrow> (string, obj) jsmap" where
  "byDisplay roomMembers =
     foldl (\<lambda>acc m. if member_name m = [] then acc else jm_set (toLowerCase (member_name m)) m acc) [] roomMembers"

definition displayNames :: "obj list \<Rightarrow> string list" where
  "displayNames roomMembers = sort_key (\<lambda>n. - int (length n)) (jm_keys (byDisplay roomMembers))"

definition is_delim :: "char option \<Rightarrow> bool" where
  "is_delim ch \<longleftrightarrow>
     (case ch of None \<Rightarrow> True
      | Some c \<Rightarrow> is_space c \<or> c \<in> set (''.,;:()'' @ [DQUOTE, SQUOTE, CHR 0x60] @ ''<>''))"

definition char_at :: "string \<Rightarrow> nat \<Rightarrow> char option" where
  "char_at s n = (if n < length s then Some (s ! n) else None)"

definition handle_char :: "char \<Rightarrow> bool" where
  "handle_char c \<longleftrightarrow>
     (let n = of_char c :: nat
      in 97 \<le> n \<and> n \<le> 122 \<or> 65 \<le> n \<and> n \<le> 90 \<or> 48 \<le> n \<and> n \<le> 57 \<or> c \<in> set ''._-'')"

text \<open>What an \<^verbatim>\<open>@\<close> that may begin a mention begins; each keeps what was typed after the \<^verbatim>\<open>@\<close>.\<close>

datatype mention =
    by_name obj string
  | everyone string
  | by_handle obj string
  | unknown_handle string
  | lone_at

fun mention_text :: "mention \<Rightarrow> string" where
  "mention_text (by_name m s) = s"
| "mention_text (everyone s) = s"
| "mention_text (by_handle m s) = s"
| "mention_text (unknown_handle s) = s"
| "mention_text lone_at = []"

definition matched_name :: "obj list \<Rightarrow> string \<Rightarrow> (string \<times> obj) option" where
  "matched_name roomMembers after =
     (case find (\<lambda>name. take (length name) (toLowerCase after) = name \<and> is_delim (char_at after (length name)))
             (displayNames roomMembers) of
        None \<Rightarrow> None
      | Some name \<Rightarrow>
          map_option (\<lambda>m. (take (length name) after, m)) (jm_get (byDisplay roomMembers) name))"

definition next_mention :: "obj list \<Rightarrow> string \<Rightarrow> mention" where
  "next_mention roomMembers after =
     (case matched_name roomMembers after of
        Some (matchedName, m) \<Rightarrow> by_name m matchedName
      | None \<Rightarrow>
          let raw = take 64 (takeWhile handle_char after)
          in if raw = [] then lone_at
             else if toLowerCase raw = ROOM_MENTION \<or> toLowerCase raw = ''everyone'' then everyone raw
             else case jm_get (byHandle roomMembers) (toLowerCase raw) of
                    Some m \<Rightarrow> by_handle m raw
                  | None \<Rightarrow> unknown_handle raw)"

record parse_state =
  plainBuf :: string
  out_html :: string
  found_ids :: "string list"
  hasRoom :: bool

definition flushPlain :: "parse_state \<Rightarrow> parse_state" where
  "flushPlain st = st\<lparr>out_html := out_html st @ escapeHtml (plainBuf st), plainBuf := []\<rparr>"

definition add_user :: "string \<Rightarrow> string list \<Rightarrow> string list" where
  "add_user i ids = (if i \<in> set ids then ids else ids @ [i])"

definition emit :: "string \<Rightarrow> parse_state \<Rightarrow> parse_state" where
  "emit s st = (let st' = flushPlain st in st'\<lparr>out_html := out_html st' @ s\<rparr>)"

definition emit_member :: "obj \<Rightarrow> string \<Rightarrow> parse_state \<Rightarrow> parse_state" where
  "emit_member m display st =
     (let st' = emit (anchorForUser (member_id m) (CHR ''@'' # display)) st
      in st'\<lparr>found_ids := add_user (member_id m) (found_ids st')\<rparr>)"

definition or_else :: "string \<Rightarrow> string \<Rightarrow> string" where
  "or_else a b = (if a = [] then b else a)"

fun emit_mention :: "mention \<Rightarrow> parse_state \<Rightarrow> parse_state" where
  "emit_mention (by_name m matchedName) st = emit_member m (or_else (member_name m) matchedName) st"
| "emit_mention (everyone raw) st = (emit (CHR ''@'' # raw) st)\<lparr>hasRoom := True\<rparr>"
| "emit_mention (by_handle m raw) st = emit_member m (or_else (member_name m) (member_id m)) st"
| "emit_mention (unknown_handle raw) st = emit (CHR ''@'' # raw) st"
| "emit_mention lone_at st = emit ''@'' st"

text \<open>The loop: the character before, and what is left of the body.\<close>

fun parse_loop :: "obj list \<Rightarrow> char option \<Rightarrow> string \<Rightarrow> parse_state \<Rightarrow> parse_state" where
  "parse_loop roomMembers prior [] st = flushPlain st"
| "parse_loop roomMembers prior (ch # after) st =
     (if ch = CHR ''@'' \<and> is_delim prior
      then let m = next_mention roomMembers after
           in parse_loop roomMembers (Some (last (ch # mention_text m)))
                (drop (length (mention_text m)) after) (emit_mention m st)
      else parse_loop roomMembers (Some ch) after (st\<lparr>plainBuf := plainBuf st @ [ch]\<rparr>))"

record MatrixMentions =
  mm_user_ids :: "string list option"
  mm_room :: "bool option"

definition parseMentionsFromText :: "string \<Rightarrow> obj list \<Rightarrow> MatrixMentions \<times> string" where
  "parseMentionsFromText body roomMembers =
     (let st = parse_loop roomMembers None body \<lparr> plainBuf = [], out_html = [], found_ids = [], hasRoom = False \<rparr>
      in (\<lparr> mm_user_ids = (if found_ids st = [] then None else Some (found_ids st)),
            mm_room = (if hasRoom st then Some True else None) \<rparr>, out_html st))"

section \<open>What is sent\<close>

record RpcMentions =
  mention_users :: "string list"
  mention_room :: bool

definition toRpcMentions :: "MatrixMentions \<Rightarrow> RpcMentions option" where
  "toRpcMentions m =
     (let ids = filter (\<lambda>i. i \<noteq> []) (case mm_user_ids m of None \<Rightarrow> [] | Some xs \<Rightarrow> xs);
          r = (mm_room m = Some True)
      in if length ids = 0 \<and> \<not> r then None else Some \<lparr> mention_users = ids, mention_room = r \<rparr>)"

definition hasMentions :: "RpcMentions option \<Rightarrow> bool" where
  "hasMentions m \<longleftrightarrow> (case m of None \<Rightarrow> False | Some x \<Rightarrow> length (mention_users x) > 0 \<or> mention_room x)"

fun has_anchors :: "string \<Rightarrow> bool" where
  "has_anchors (c # x # y # s) \<longleftrightarrow>
     c = CHR ''<'' \<and> js_lower x = CHR ''a'' \<and> is_space y \<or> has_anchors (x # y # s)"
| "has_anchors _ \<longleftrightarrow> False"

text \<open>The mentions and the formatted body of the payload, where it has one.\<close>

definition prepareMentionsDataPayload ::
  "string \<Rightarrow> obj list \<Rightarrow> string option \<Rightarrow> RpcMentions option \<times> string option" where
  "prepareMentionsDataPayload body members excludeUserId =
     (case parseMentionsFromText body members of
        (mentions, formattedBody) \<Rightarrow>
          let rpcMentions =
                (case (toRpcMentions mentions, excludeUserId) of
                   (Some m, Some (c # s)) \<Rightarrow>
                     let users' = filter (\<lambda>u. u \<noteq> c # s) (mention_users m)
                     in if length users' > 0 \<or> mention_room m then Some (m\<lparr>mention_users := users'\<rparr>) else None
                 | (r, _) \<Rightarrow> r)
          in case rpcMentions of
               None \<Rightarrow> (None, if has_anchors formattedBody then Some formattedBody else None)
             | Some m \<Rightarrow> (Some m, Some formattedBody))"

section \<open>What is shown\<close>

datatype HtmlRun = link_run string string | text_run string

text \<open>A tag of an anchor at the head of a text, \<^verbatim>\<open><a\s+href="([^"]+)"[^>]*>(.*?)</a>\<close>: where it leads, what is inside, the rest.\<close>

definition line_end :: "char \<Rightarrow> bool" where
  "line_end c \<longleftrightarrow> c = CHR 0x0A \<or> c = CHR 0x0D"

fun up_to_close :: "string \<Rightarrow> (string \<times> string) option" where
  "up_to_close [] = None"
| "up_to_close (c # r) =
     (if toLowerCase (take 4 (c # r)) = ''</a>'' then Some ([], drop 3 r)
      else if line_end c then None
      else map_option (\<lambda>(inner, rest). (c # inner, rest)) (up_to_close r))"

definition anchor_match :: "string \<Rightarrow> (string \<times> string \<times> string) option" where
  "anchor_match s =
     (let tail = drop 2 s; attr = dropWhile is_space tail; quoted = drop 6 attr;
          href = takeWhile (\<lambda>c. c \<noteq> DQUOTE) quoted; closing = dropWhile (\<lambda>c. c \<noteq> DQUOTE) quoted;
          body = dropWhile (\<lambda>c. c \<noteq> CHR ''>'') (drop 1 closing)
      in if toLowerCase (take 2 s) = ''<a'' \<and> takeWhile is_space tail \<noteq> [] \<and>
            toLowerCase (take 6 attr) = ''href='' @ [DQUOTE] \<and> href \<noteq> [] \<and> closing \<noteq> [] \<and> body \<noteq> []
         then map_option (\<lambda>(inner, rest). (href, inner, rest)) (up_to_close (drop 1 body))
         else None)"

text \<open>A line break \<^verbatim>\<open><br\s*/?>\<close> at the head of a text: the rest after it.\<close>

definition br_match :: "string \<Rightarrow> string option" where
  "br_match s =
     (let r = dropWhile is_space (drop 3 s)
      in if toLowerCase (take 3 s) \<noteq> ''<br'' then None
         else if take 1 r = ''>'' then Some (drop 1 r)
         else if take 2 r = ''/>'' then Some (drop 2 r)
         else None)"

lemma up_to_close_length: "up_to_close s = Some (inner, rest) \<Longrightarrow> length rest \<le> length s"
proof (induction s arbitrary: inner)
  case (Cons c s)
  then show ?case by (fastforce split: if_splits)
qed simp

lemma dropWhile_shorter: "length xs \<le> n \<Longrightarrow> length (dropWhile P xs) \<le> n"
  using length_dropWhile_le [of P xs] by linarith

lemma drop_shorter: "length xs \<le> n \<Longrightarrow> length (drop k xs) \<le> n"
  by simp

lemma anchor_match_shorter: "anchor_match s = Some (href, inner, rest) \<Longrightarrow> length rest < length s"
proof -
  assume m: "anchor_match s = Some (href, inner, rest)"
  let ?body = "dropWhile (\<lambda>c. c \<noteq> CHR ''>'')
    (drop 1 (dropWhile (\<lambda>c. c \<noteq> DQUOTE) (drop 6 (dropWhile is_space (drop 2 s)))))"
  from m have start: "toLowerCase (take 2 s) = ''<a''" and "up_to_close (drop 1 ?body) = Some (inner, rest)"
    by (auto simp: anchor_match_def Let_def split: if_splits)
  then have "length rest \<le> length (drop 1 ?body)" using up_to_close_length by blast
  also have "\<dots> \<le> length (drop 2 s)" by (intro drop_shorter dropWhile_shorter order.refl)
  also have "\<dots> < length s" using start by (cases s) (auto simp: toLowerCase_def)
  finally show ?thesis .
qed

lemma br_match_shorter: "br_match s = Some r \<Longrightarrow> length r < length s"
proof -
  assume m: "br_match s = Some r"
  let ?r = "dropWhile is_space (drop 3 s)"
  from m have start: "toLowerCase (take 3 s) = ''<br''" and "r = drop 1 ?r \<or> r = drop 2 ?r"
    by (auto simp: br_match_def Let_def split: if_splits)
  then have "length r \<le> length (drop 3 s)" by (metis drop_shorter dropWhile_shorter order.refl)
  also have "\<dots> < length s" using start by (cases s) (auto simp: toLowerCase_def)
  finally show ?thesis .
qed

text \<open>The pieces between line breaks, and the text without tags.\<close>

function br_split :: "string \<Rightarrow> string \<Rightarrow> string list" where
  "br_split piece s =
     (case s of
        [] \<Rightarrow> [piece]
      | c # r \<Rightarrow>
          (case br_match s of
             Some rest \<Rightarrow> piece # br_split [] rest
           | None \<Rightarrow> br_split (piece @ [c]) r))"
  by auto
termination by (relation "measure (\<lambda>(piece, s). length s)") (auto dest: br_match_shorter)

declare br_split.simps [simp del]

function strip_tags :: "string \<Rightarrow> string" where
  "strip_tags [] = []"
| "strip_tags (c # s) =
     (if c = CHR ''<'' \<and> CHR ''>'' \<in> set s then strip_tags (drop 1 (dropWhile (\<lambda>d. d \<noteq> CHR ''>'') s))
      else c # strip_tags s)"
  by pat_completeness auto
termination
  by (relation "measure length") (auto simp: le_imp_less_Suc dropWhile_shorter drop_shorter simp del: length_drop)

text \<open>The runs of a text without anchors, and of the whole.\<close>

fun with_breaks :: "string list \<Rightarrow> HtmlRun list" where
  "with_breaks [] = []"
| "with_breaks (p # ps) =
     (if p = [] then [] else [text_run (unescapeHtml p)]) @
     (if ps = [] then [] else text_run [CHR 0x0A] # with_breaks ps)"

definition text_runs :: "string \<Rightarrow> HtmlRun list" where
  "text_runs chunk = with_breaks (br_split [] chunk)"

function split_runs :: "string \<Rightarrow> string \<Rightarrow> HtmlRun list" where
  "split_runs chunk s =
     (case s of
        [] \<Rightarrow> text_runs chunk
      | c # r \<Rightarrow>
          (case anchor_match s of
             Some (href, inner, rest) \<Rightarrow>
               text_runs chunk @ link_run href (unescapeHtml (strip_tags inner)) # split_runs [] rest
           | None \<Rightarrow> split_runs (chunk @ [c]) r))"
  by auto
termination by (relation "measure (\<lambda>(chunk, s). length s)") (auto dest: anchor_match_shorter)

declare split_runs.simps [simp del]

definition splitHtmlRuns :: "string \<Rightarrow> HtmlRun list" where
  "splitHtmlRuns html = split_runs [] html"

end
