(* ===== verification/Chat_Payments.thy ===== *)
theory Chat_Payments
  imports Matrix_Selectors Matrix_Mentions Wallet
begin

text \<open>
  Payments in chats: the thunks of \<^verbatim>\<open>ui/common/redux/matrix.ts\<close> that send, claim, reclaim, cancel,
  accept and reject them, and the check that claims what arrives, which \<^verbatim>\<open>ui/common/redux/index.ts\<close>
  starts. A thunk is a tree of calls of the bridge: after each call it goes on with the answer, and a
  rejected call rejects the thunk. So several thunks can run at the same time, their answers in any
  order. Parameters: identifiers made by \<^verbatim>\<open>uuidv4\<close>, and \<open>formatSats\<close>, which formats with \<^verbatim>\<open>Intl\<close>.
  Amounts are whole millisatoshis.
\<close>

section \<open>Thunks\<close>

record FrontendMetadata =
  recipientMatrixId :: "string option"
  senderMatrixId :: "string option"
  initialNotes :: "string option"

record MatrixCreateRoomOptions =
  create_name :: string
  create_events_default :: "int option"
  create_visibility :: "string option"
  create_history :: "string option"

text \<open>
  The calls of the thunks that are not about payments. The texts of messages come with their mentions and the
  formatted body, where there is one.
\<close>

datatype chat_call =
    chat_createRoom MatrixCreateRoomOptions
  | chat_setRoomTopic string string
  | chat_setAllowKnocking string bool
  | chat_parseInvoice string
  | chat_sendText string string "RpcMentions option" "string option"
  | chat_sendReply string string string "RpcMentions option" "string option"
  | chat_editMessage string string string "RpcMentions option" "string option"
  | chat_toggleReaction string string string
  | chat_createOrGetDm string

text \<open>What a thunk asks: the bridge, or the client of the chat, which forwards to it.\<close>

datatype bridge_call =
    call_generateEcash int string bool FrontendMetadata
  | call_updateTransactionNotes string string string
  | call_receiveEcash string string FrontendMetadata
  | call_parseEcash string
  | call_cancelEcash string string
  | call_getTransaction string string
  | call_getPrevPayInvoiceResult string string
  | call_sendMessage string RpcMsgLikeKind
  | call_markRoomAsUnread string bool
  | call_chat chat_call

text \<open>
  The answers, by what the calls give: e-cash with its operation, the operation of a receipt, the
  joined federation of e-cash, the kind of a transaction, whether an invoice was paid, a room, an
  invoice with its amount, a truth value, or nothing.
\<close>

datatype bridge_answer =
    answer_error string
  | answer_void
  | answer_ecash string string
  | answer_receipt "string option"
  | answer_parsed "string option"
  | answer_transaction "string option"
  | answer_completed bool
  | answer_room string
  | answer_invoice "int option" string

text \<open>\<open>Dispatches b t\<close> starts \<open>b\<close> without waiting for it and goes on with \<open>t\<close>.\<close>

datatype thunk =
    Fulfilled jv
  | Rejected string
  | Calls bridge_call "bridge_answer \<Rightarrow> thunk"
  | Dispatches thunk thunk

text \<open>An awaited call: its error rejects the thunk. A bridge gives each call an answer of its kind.\<close>

definition awaits :: "bridge_call \<Rightarrow> (bridge_answer \<Rightarrow> 'a option) \<Rightarrow> ('a \<Rightarrow> thunk) \<Rightarrow> thunk" where
  "awaits c read k = Calls c (\<lambda>a.
     case read a of
       Some x \<Rightarrow> k x
     | None \<Rightarrow> Rejected (case a of answer_error e \<Rightarrow> e | _ \<Rightarrow> []))"

fun as_void :: "bridge_answer \<Rightarrow> unit option" where
  "as_void answer_void = Some ()"
| "as_void _ = None"

fun as_ecash :: "bridge_answer \<Rightarrow> (string \<times> string) option" where
  "as_ecash (answer_ecash ecash operationId) = Some (ecash, operationId)"
| "as_ecash _ = None"

fun as_receipt :: "bridge_answer \<Rightarrow> string option option" where
  "as_receipt (answer_receipt operationId) = Some operationId"
| "as_receipt _ = None"

fun as_parsed :: "bridge_answer \<Rightarrow> string option option" where
  "as_parsed (answer_parsed joinedFederation) = Some joinedFederation"
| "as_parsed _ = None"

fun as_transaction :: "bridge_answer \<Rightarrow> string option option" where
  "as_transaction (answer_transaction kind) = Some kind"
| "as_transaction _ = None"

fun as_room :: "bridge_answer \<Rightarrow> string option" where
  "as_room (answer_room roomId) = Some roomId"
| "as_room _ = None"

fun as_completed :: "bridge_answer \<Rightarrow> bool option" where
  "as_completed (answer_completed done) = Some done"
| "as_completed _ = None"

text \<open>A \<^verbatim>\<open>try\<close> around the whole body, whose \<^verbatim>\<open>catch\<close> only logs.\<close>

primrec caught :: "thunk \<Rightarrow> thunk" where
  "caught (Fulfilled v) = Fulfilled v"
| "caught (Rejected e) = Fulfilled JUndef"
| "caught (Calls c k) = Calls c (\<lambda>a. caught (k a))"
| "caught (Dispatches b t) = Dispatches b (caught t)"

text \<open>A text that is there and not empty, as the conditions of the code ask.\<close>

definition present :: "string option \<Rightarrow> string option" where
  "present s = (case s of None \<Rightarrow> None | Some x \<Rightarrow> if x = [] then None else Some x)"

definition sendPayment :: "string \<Rightarrow> RpcPaymentMessageContent \<Rightarrow> thunk \<Rightarrow> thunk" where
  "sendPayment roomId p t = awaits (call_sendMessage roomId (payment p)) as_void (\<lambda>_. t)"

definition sent_text :: "(int \<Rightarrow> string) \<Rightarrow> string \<Rightarrow> int \<Rightarrow> string \<Rightarrow> string" where
  "sent_text formatSats verb amount rest = verb @ '' payment of '' @ formatSats amount @ '' SATS.'' @ rest"

section \<open>Sending, claiming and reclaiming\<close>

definition sendMatrixPaymentPush ::
  "(int \<Rightarrow> string) \<Rightarrow> string \<Rightarrow> MatrixState \<Rightarrow> FederationState \<Rightarrow>
     string \<Rightarrow> string \<Rightarrow> string \<Rightarrow> int \<Rightarrow> string option \<Rightarrow> thunk" where
  "sendMatrixPaymentPush formatSats uuid s fs federationId roomId recipientId amount notes =
     (case selectMatrixAuth s of
        None \<Rightarrow> Rejected ''Not authenticated''
      | Some matrixAuth \<Rightarrow>
          (case selectLoadedFederation fs federationId of
             None \<Rightarrow> Rejected ''Federation not found''
           | Some loadedFederation \<Rightarrow>
               let msats = amount * 1000;
                   includeInvite = shouldShowInviteCode (own_entries (obj_get loadedFederation ''meta''));
                   frontendMetadata =
                     \<lparr> recipientMatrixId = Some recipientId, senderMatrixId = Some (auth_userId matrixAuth),
                       initialNotes = notes \<rparr>
               in awaits (call_generateEcash msats federationId includeInvite frontendMetadata) as_ecash
                    (\<lambda>(ecash, operationId).
                       awaits (call_updateTransactionNotes operationId
                           (case notes of None \<Rightarrow> [] | Some n \<Rightarrow> n) federationId) as_void
                         (\<lambda>_. sendPayment roomId
                            \<lparr> pay_body = sent_text formatSats ''Sent'' amount '' Use the Fedi app to accept this payment.'',
                              pay_status = pushed, pay_paymentId = uuid, pay_recipientId = Some recipientId,
                              pay_senderOperationId = Some operationId, pay_receiverOperationId = None,
                              pay_amount = msats, pay_senderId = Some (auth_userId matrixAuth),
                              pay_ecash = Some ecash, pay_federationId = Some (js_str (obj_get loadedFederation ''id'')),
                              pay_bolt11 = None, pay_inviteCode = None \<rparr>
                            (Fulfilled (JStr operationId))))))"

definition sendMatrixPaymentRequest ::
  "(int \<Rightarrow> string) \<Rightarrow> string \<Rightarrow> MatrixState \<Rightarrow> string \<Rightarrow> string \<Rightarrow> int \<Rightarrow> thunk" where
  "sendMatrixPaymentRequest formatSats uuid s federationId roomId amount =
     (case selectMatrixAuth s of
        None \<Rightarrow> Rejected ''Not authenticated''
      | Some matrixAuth \<Rightarrow>
          sendPayment roomId
            \<lparr> pay_body = sent_text formatSats ''Requested'' amount '' Use the Fedi app to complete this request.'',
              pay_status = requested, pay_paymentId = uuid, pay_recipientId = Some (auth_userId matrixAuth),
              pay_senderOperationId = None, pay_receiverOperationId = None, pay_amount = amount * 1000,
              pay_senderId = None, pay_ecash = None, pay_federationId = Some federationId,
              pay_bolt11 = None, pay_inviteCode = None \<rparr>
            (Fulfilled JUndef))"

definition claimMatrixPayment :: "MatrixState \<Rightarrow> string \<Rightarrow> RpcPaymentMessageContent \<Rightarrow> thunk" where
  "claimMatrixPayment s roomId p =
     (case selectMatrixAuth s of
        None \<Rightarrow> Rejected ''Not authenticated''
      | Some matrixAuth \<Rightarrow>
          (case present (pay_ecash p) of
             None \<Rightarrow> Rejected ''Payment message is missing ecash token''
           | Some ecash \<Rightarrow>
               (case present (pay_federationId p) of
                  None \<Rightarrow> Rejected ''Payment message is missing federationId''
                | Some federationId \<Rightarrow>
                    awaits (call_receiveEcash ecash federationId
                        \<lparr> recipientMatrixId = Some (auth_userId matrixAuth),
                          senderMatrixId = present (pay_senderId p), initialNotes = None \<rparr>) as_receipt
                      (\<lambda>receiverOperationId.
                         sendPayment roomId
                           (p\<lparr>pay_body := ''Payment received.'', pay_status := received,
                              pay_receiverOperationId := receiverOperationId\<rparr>)
                           (awaits (call_markRoomAsUnread roomId True) as_void (\<lambda>_. Fulfilled JUndef))))))"

text \<open>\<^verbatim>\<open>cancelEcash\<close> of \<^verbatim>\<open>redux/wallet.ts\<close>.\<close>

definition cancelEcash_thunk :: "string \<Rightarrow> thunk" where
  "cancelEcash_thunk ecash =
     awaits (call_parseEcash ecash) as_parsed
       (\<lambda>joinedFederation.
          case cancelEcash joinedFederation of
            Inl e \<Rightarrow> Rejected e
          | Inr federationId \<Rightarrow> awaits (call_cancelEcash ecash federationId) as_void (\<lambda>_. Fulfilled JUndef))"

definition tryReclaimMatrixPayment :: "RpcPaymentMessageContent \<Rightarrow> thunk" where
  "tryReclaimMatrixPayment p =
     (case (present (pay_ecash p), present (pay_federationId p), present (pay_senderOperationId p)) of
        (Some ecash, Some federationId, Some senderOperationId) \<Rightarrow>
          if pay_status p \<noteq> rejected then Fulfilled JUndef
          else awaits (call_getTransaction federationId senderOperationId) as_transaction
                 (\<lambda>kind. if kind \<noteq> Some ''oobSend'' then Fulfilled JUndef
                    else Dispatches (cancelEcash_thunk ecash) (Fulfilled JUndef))
      | _ \<Rightarrow> Fulfilled JUndef)"

definition cancelMatrixPayment :: "string \<Rightarrow> RpcPaymentMessageContent \<Rightarrow> thunk" where
  "cancelMatrixPayment roomId p =
     (let canceled_message =
            sendPayment roomId (p\<lparr>pay_body := ''Payment canceled.'', pay_status := canceled\<rparr>) (Fulfilled JUndef)
      in case (present (pay_ecash p), present (pay_federationId p)) of
           (Some ecash, Some federationId) \<Rightarrow>
             awaits (call_cancelEcash ecash federationId) as_void (\<lambda>_. canceled_message)
         | _ \<Rightarrow> canceled_message)"

section \<open>Requests\<close>

definition acceptMatrixPaymentRequest ::
  "(int \<Rightarrow> string) \<Rightarrow> MatrixState \<Rightarrow> FederationState \<Rightarrow> string \<Rightarrow> RpcPaymentMessageContent \<Rightarrow> thunk" where
  "acceptMatrixPaymentRequest formatSats s fs roomId p =
     (case selectMatrixAuth s of
        None \<Rightarrow> Rejected ''Not authenticated''
      | Some matrixAuth \<Rightarrow>
          if pay_status p \<noteq> requested then Rejected ''Can only accept payment requests''
          else (case present (pay_federationId p) of
             None \<Rightarrow> Rejected ''Payment missing federationId''
           | Some federationId \<Rightarrow>
               if pay_amount p = 0 then Rejected ''Payment request missing amount''
               else
                 let federationMeta =
                       (case selectLoadedFederation fs federationId of
                          None \<Rightarrow> [] | Some f \<Rightarrow> own_entries (obj_get f ''meta''))
                 in awaits (call_generateEcash (pay_amount p) federationId (shouldShowInviteCode federationMeta)
                        \<lparr> recipientMatrixId = present (pay_recipientId p),
                          senderMatrixId = Some (auth_userId matrixAuth), initialNotes = Some [] \<rparr>) as_ecash
                      (\<lambda>(ecash, senderOperationId).
                         sendPayment roomId
                           (p\<lparr>pay_body := sent_text formatSats ''Sent'' (pay_amount p div 1000) [],
                              pay_status := accepted, pay_senderId := Some (auth_userId matrixAuth),
                              pay_senderOperationId := Some senderOperationId, pay_ecash := Some ecash\<rparr>)
                           (Fulfilled JUndef))))"

definition rejectMatrixPaymentRequest :: "string \<Rightarrow> RpcPaymentMessageContent \<Rightarrow> thunk" where
  "rejectMatrixPaymentRequest roomId p =
     sendPayment roomId (p\<lparr>pay_body := ''Payment request rejected.'', pay_status := rejected\<rparr>) (Fulfilled JUndef)"

text \<open>\<open>from\<close> is the sender of the event.\<close>

definition checkBolt11PaymentResult ::
  "MatrixState \<Rightarrow> FederationState \<Rightarrow> string \<Rightarrow> string \<Rightarrow> RpcPaymentMessageContent \<Rightarrow> thunk" where
  "checkBolt11PaymentResult s fs roomId from_user p = caught
     (case selectMatrixAuth s of
        None \<Rightarrow> Rejected ''Not authenticated''
      | Some matrixAuth \<Rightarrow>
          (case present (pay_bolt11 p) of
             None \<Rightarrow> Fulfilled JUndef
           | Some bolt11 \<Rightarrow>
               if pay_status p \<noteq> requested then Fulfilled JUndef
               else if from_user \<noteq> auth_userId matrixAuth then Fulfilled JUndef
               else (case selectLastUsedFederation fs of
                  None \<Rightarrow> Fulfilled JUndef
                | Some lastUsedFederation \<Rightarrow>
                    awaits (call_getPrevPayInvoiceResult bolt11 (js_str (obj_get lastUsedFederation ''id''))) as_completed
                      (\<lambda>completed.
                         if completed
                         then sendPayment roomId
                                (p\<lparr>pay_body := ''Payment successful.'', pay_status := received,
                                   pay_senderId := Some (auth_userId matrixAuth)\<rparr>) (Fulfilled JUndef)
                         else Fulfilled JUndef))))"

section \<open>What is asked\<close>

fun next_call :: "thunk \<Rightarrow> bridge_call list" where
  "next_call (Calls c k) = [c]"
| "next_call _ = []"

text \<open>A thunk up to its next call: what it starts on the way, and the rest.\<close>

fun peel :: "thunk \<Rightarrow> thunk list \<times> thunk" where
  "peel (Dispatches b t) = (case peel t of (bs, t') \<Rightarrow> (b # bs, t'))"
| "peel t = ([], t)"

fun answered :: "bridge_answer \<Rightarrow> thunk \<Rightarrow> thunk" where
  "answered a (Calls c k) = k a"
| "answered a t = t"

text \<open>The calls of one thunk with the answers it gets, up to its end or to the last answer.\<close>

fun exchange :: "thunk \<Rightarrow> bridge_answer list \<Rightarrow> (bridge_call \<times> bridge_answer option) list" where
  "exchange (Calls c k) [] = [(c, None)]"
| "exchange (Calls c k) (a # as) = (c, Some a) # exchange (k a) as"
| "exchange (Dispatches b t) as = exchange t as"
| "exchange (Fulfilled v) as = []"
| "exchange (Rejected e) as = []"

text \<open>How it ends: \<open>None\<close> while an answer is missing.\<close>

fun ends :: "thunk \<Rightarrow> bridge_answer list \<Rightarrow> (string + jv) option" where
  "ends (Fulfilled v) as = Some (Inr v)"
| "ends (Rejected e) as = Some (Inl e)"
| "ends (Dispatches b t) as = ends t as"
| "ends (Calls c k) [] = None"
| "ends (Calls c k) (a # as) = ends (k a) as"

section \<open>The check for payments that can be claimed\<close>

text \<open>
  \<open>receivedPayments\<close> is the set that \<^verbatim>\<open>initializeCommonStore\<close> makes once. \<open>running\<close> are the claims and
  reclaims that were started, each with its payment; \<open>background\<close> what nobody waits for; \<open>asked\<close> records
  the calls in their order.
\<close>

record claims =
  receivedPayments :: "string list"
  running :: "(string \<times> thunk) list"
  background :: "thunk list"
  asked :: "(string \<times> bridge_call) list"

definition no_claims :: claims where
  "no_claims = \<lparr> receivedPayments = [], running = [], background = [], asked = [] \<rparr>"

definition start_thunk :: "string \<Rightarrow> thunk \<Rightarrow> claims \<Rightarrow> claims" where
  "start_thunk i t s =
     (case peel t of
        (bs, t') \<Rightarrow> s\<lparr>running := running s @ [(i, t')], background := background s @ bs,
                      asked := asked s @ map (Pair i) (next_call t')\<rparr>)"

text \<open>The two callbacks of \<^verbatim>\<open>forEach\<close>.\<close>

definition attempt :: "(MatrixEvent \<Rightarrow> RpcPaymentMessageContent \<Rightarrow> thunk) \<Rightarrow> MatrixEvent \<Rightarrow> claims \<Rightarrow> claims" where
  "attempt mk event s =
     (case payment_of (content event) of
        None \<Rightarrow> s
      | Some p \<Rightarrow>
          if pay_paymentId p \<in> set (receivedPayments s) then s
          else start_thunk (pay_paymentId p) (mk event p)
                 (s\<lparr>receivedPayments := receivedPayments s @ [pay_paymentId p]\<rparr>))"

definition timeline_to_check :: "MatrixState \<Rightarrow> string option \<Rightarrow> MatrixEvent option list option" where
  "timeline_to_check s roomId =
     (case present roomId of
        Some i \<Rightarrow> jm_get (roomTimelines s) i
      | None \<Rightarrow> Some (concat (jm_values (roomTimelines s))))"

definition checkForReceivablePayments ::
  "MatrixState \<Rightarrow> FederationState \<Rightarrow> string option \<Rightarrow> claims \<Rightarrow> claims" where
  "checkForReceivablePayments s fs roomId c =
     (case present (map_option auth_userId (auth s)) of
        None \<Rightarrow> c
      | Some myId \<Rightarrow>
          (case timeline_to_check s roomId of
             None \<Rightarrow> c
           | Some timeline \<Rightarrow>
               let walletFederations = selectLoadedFederations fs;
                   claimed = fold (attempt (\<lambda>event. claimMatrixPayment s (ev_roomId event)))
                     (getReceivablePaymentEvents timeline myId walletFederations) c
               in fold (attempt (\<lambda>event. tryReclaimMatrixPayment))
                    (getReclaimablePaymentEvents timeline myId walletFederations) claimed))"

text \<open>
  What happens: a check, an answer for the n-th running thunk or for one in the background, or the
  \<^verbatim>\<open>then\<close> or \<^verbatim>\<open>catch\<close> of a running thunk that has come to its end.
\<close>

datatype claim_event =
    check MatrixState FederationState "string option"
  | answer nat bridge_answer
  | answer_background nat bridge_answer
  | settles nat

definition answer_running :: "nat \<Rightarrow> bridge_answer \<Rightarrow> claims \<Rightarrow> claims" where
  "answer_running n a s =
     (if n < length (running s) then
        (case running s ! n of
           (i, t) \<Rightarrow>
             (case t of
                Calls c k \<Rightarrow>
                  (case peel (k a) of
                     (bs, t') \<Rightarrow> s\<lparr>running := (running s)[n := (i, t')], background := background s @ bs,
                                  asked := asked s @ map (Pair i) (next_call t')\<rparr>)
              | _ \<Rightarrow> s))
      else s)"

definition answer_unwatched :: "nat \<Rightarrow> bridge_answer \<Rightarrow> claims \<Rightarrow> claims" where
  "answer_unwatched n a s =
     (if n < length (background s)
      then (case peel (answered a (background s ! n)) of
              (bs, t') \<Rightarrow> s\<lparr>background := (background s)[n := t'] @ bs\<rparr>)
      else s)"

definition remove_nth :: "nat \<Rightarrow> 'a list \<Rightarrow> 'a list" where
  "remove_nth n xs = take n xs @ drop (Suc n) xs"

definition settle_running :: "nat \<Rightarrow> claims \<Rightarrow> claims" where
  "settle_running n s =
     (if n < length (running s) then
        (case running s ! n of
           (i, Fulfilled v) \<Rightarrow> s\<lparr>running := remove_nth n (running s)\<rparr>
         | (i, Rejected e) \<Rightarrow>
             s\<lparr>running := remove_nth n (running s), receivedPayments := removeAll i (receivedPayments s)\<rparr>
         | (i, _) \<Rightarrow> s)
      else s)"

fun claim_step :: "claims \<Rightarrow> claim_event \<Rightarrow> claims" where
  "claim_step c (check s fs roomId) = checkForReceivablePayments s fs roomId c"
| "claim_step c (answer n a) = answer_running n a c"
| "claim_step c (answer_background n a) = answer_unwatched n a c"
| "claim_step c (settles n) = settle_running n c"

text \<open>
  The listener of \<^verbatim>\<open>redux/index.ts\<close> debounces the check for 300 milliseconds: of the calls before the
  timer fires only the arguments of the last are kept.
\<close>

datatype debounce_event = called "string option" | fires

fun debounced :: "string option option \<Rightarrow> debounce_event list \<Rightarrow> string option list" where
  "debounced pending [] = []"
| "debounced pending (called roomId # es) = debounced (Some roomId) es"
| "debounced pending (fires # es) =
     (case pending of None \<Rightarrow> debounced None es | Some roomId \<Rightarrow> roomId # debounced None es)"

section \<open>What can be done with a payment\<close>

text \<open>
  The selectors of \<^verbatim>\<open>redux/matrix.ts\<close> on the loaded federations, and the icon, the text and the buttons
  that \<^verbatim>\<open>useMatrixPaymentEvent\<close> of \<^verbatim>\<open>hooks/matrix.ts\<close> gives a payment. \<open>t\<close> is the translation function.
\<close>

definition balance_exceeds :: "int \<Rightarrow> obj \<Rightarrow> bool" where
  "balance_exceeds amount f \<longleftrightarrow>
     (case obj_get f ''balance'' of JNum balance \<Rightarrow> balance \<noteq> 0 \<and> balance > amount | _ \<Rightarrow> False)"

definition is_federation :: "string option \<Rightarrow> obj \<Rightarrow> bool" where
  "is_federation federationId f \<longleftrightarrow> (case federationId of None \<Rightarrow> False | Some i \<Rightarrow> has_id i f)"

definition selectCanPayFromOtherFeds :: "FederationState \<Rightarrow> RpcPaymentMessageContent \<Rightarrow> bool" where
  "selectCanPayFromOtherFeds fs p = list_ex (balance_exceeds (pay_amount p)) (selectLoadedFederations fs)"

definition selectCanSendPayment :: "FederationState \<Rightarrow> RpcPaymentMessageContent \<Rightarrow> bool" where
  "selectCanSendPayment fs p =
     list_ex (\<lambda>f. is_federation (pay_federationId p) f \<and> balance_exceeds (pay_amount p) f) (selectLoadedFederations fs)"

definition selectCanClaimPayment :: "FederationState \<Rightarrow> RpcPaymentMessageContent \<Rightarrow> bool" where
  "selectCanClaimPayment fs p = list_ex (is_federation (pay_federationId p)) (selectLoadedFederations fs)"

datatype payment_handler =
  handleViewBolt11 | handleCopyBolt11 | handleRejectRequest | handleAcceptForeignEcash | handleCancel | handleAcceptRequest

record ChatEventAction =
  act_label :: string
  act_handler :: payment_handler
  act_loading :: bool
  act_disabled :: bool

text \<open>What the hook knows beside the event: its flags, and the names of the optional callbacks it was given.\<close>

record payment_hook =
  isOffline :: bool
  isCanceling :: bool
  isAccepting :: bool
  isRejecting :: bool
  has_onViewBolt11 :: bool
  has_onCopyBolt11 :: bool
  has_onPayWithForeignEcash :: bool
  isDm :: bool
  canClaimPayment :: bool
  myUserId :: "string option"
  paymentSenderName :: "string option"

definition bolt11_buttons :: "(string \<Rightarrow> (string \<times> string) list \<Rightarrow> string) \<Rightarrow> payment_hook \<Rightarrow> bool \<Rightarrow> ChatEventAction list" where
  "bolt11_buttons t h isBolt11 =
     (if isBolt11
      then (if has_onViewBolt11 h then [\<lparr> act_label = t ''words.view'' [], act_handler = handleViewBolt11,
                act_loading = False, act_disabled = False \<rparr>] else []) @
           (if has_onCopyBolt11 h then [\<lparr> act_label = t ''words.copy'' [], act_handler = handleCopyBolt11,
                act_loading = False, act_disabled = False \<rparr>] else [])
      else [])"

definition cancel_button :: "(string \<Rightarrow> (string \<times> string) list \<Rightarrow> string) \<Rightarrow> payment_hook \<Rightarrow> ChatEventAction" where
  "cancel_button t h = \<lparr> act_label = t ''words.cancel'' [], act_handler = handleCancel,
     act_loading = isCanceling h, act_disabled = isOffline h \<rparr>"

definition reject_button :: "(string \<Rightarrow> (string \<times> string) list \<Rightarrow> string) \<Rightarrow> payment_hook \<Rightarrow> ChatEventAction" where
  "reject_button t h = \<lparr> act_label = t ''words.reject'' [], act_handler = handleRejectRequest,
     act_loading = isRejecting h, act_disabled = isAccepting h \<rparr>"

text \<open>\<open>from_user\<close> is the sender of the event; the result is the icon, the text and the buttons.\<close>

definition useMatrixPaymentEvent ::
  "(string \<Rightarrow> (string \<times> string) list \<Rightarrow> string) \<Rightarrow> payment_hook \<Rightarrow> string \<Rightarrow> RpcPaymentMessageContent \<Rightarrow>
     string option \<times> string option \<times> ChatEventAction list" where
  "useMatrixPaymentEvent t h from_user p =
     (let isSentByMe = (pay_senderId p = myUserId h);
          isRecipient = (pay_recipientId p = myUserId h);
          isBolt11 = (present (pay_bolt11 p) \<noteq> None);
          buttons = bolt11_buttons t h isBolt11
      in case pay_status p of
           received \<Rightarrow>
             (Some ''check'',
              Some (if isBolt11 then t ''words.complete'' []
                    else if isRecipient then t ''words.received'' [] else t ''words.paid'' []), buttons)
         | rejected \<Rightarrow> (Some ''reject'', Some (t ''words.rejected'' []), buttons)
         | canceled \<Rightarrow> (Some ''x'', Some (t ''words.canceled'' []), buttons)
         | requested \<Rightarrow>
             (None, None,
              if isBolt11 then buttons @ (if Some from_user = myUserId h then [cancel_button t h] else [])
              else if isRecipient then [cancel_button t h]
              else (if isDm h then [reject_button t h] else []) @
                [\<lparr> act_label = t ''words.pay'' [], act_handler = handleAcceptRequest,
                   act_loading = isAccepting h, act_disabled = isRejecting h \<rparr>])
         | st \<Rightarrow>
             if \<not> canClaimPayment h
             then (None, None,
               [reject_button t h,
                \<lparr> act_label = t ''words.accept'' [], act_handler = handleAcceptForeignEcash,
                  act_loading = isRejecting h, act_disabled = isAccepting h \<rparr>])
             else if isRecipient then (Some ''loading'', Some (t ''words.receiving'' [] @ ''...''), buttons)
             else if isSentByMe
             then (if st = accepted then Some ''check'' else None,
                   if st = accepted then Some (t ''words.sent'' []) else None, [cancel_button t h])
             else (Some ''check'',
                   Some (t ''feature.chat.paid-by-name''
                     [(''name'', case present (paymentSenderName h) of Some n \<Rightarrow> n | None \<Rightarrow> matrixIdToUsername (Some from_user))]),
                   buttons))"

text \<open>
  What the button to pay does: pay, or reject the request and let the screen pay with other e-cash, or
  show an error.
\<close>

datatype accept_outcome = pays thunk | pays_with_foreign_ecash thunk | shows_error string

definition handleAccept ::
  "(int \<Rightarrow> string) \<Rightarrow> payment_hook \<Rightarrow> MatrixState \<Rightarrow> FederationState \<Rightarrow> string \<Rightarrow> RpcPaymentMessageContent \<Rightarrow>
     accept_outcome" where
  "handleAccept formatSats h s fs roomId p =
     (if selectCanSendPayment fs p then pays (acceptMatrixPaymentRequest formatSats s fs roomId p)
      else if has_onPayWithForeignEcash h \<and> selectCanPayFromOtherFeds fs p
      then pays_with_foreign_ecash (rejectMatrixPaymentRequest roomId p)
      else shows_error ''errors.please-join-a-federation'')"

end
