(* ===== verification/Chat_Payments_Properties.thy ===== *)
theory Chat_Payments_Properties
  imports Chat_Payments
begin

text \<open>
  What holds of payments in chats: no payment is claimed twice at the same time or again after it was
  claimed, no message promises money before the bridge has it, an answered payment is not claimed
  again, and an accepted request can be claimed by the one who asked; and where the code falls short.
\<close>

section \<open>Claims do not overlap\<close>

definition running_ids :: "claims \<Rightarrow> string list" where
  "running_ids c = map fst (running c)"

definition claims_ok :: "claims \<Rightarrow> bool" where
  "claims_ok c \<longleftrightarrow> distinct (running_ids c) \<and> set (running_ids c) \<subseteq> set (receivedPayments c)"

text \<open>A payment whose claim or reclaim came to a good end, and what was asked for a payment.\<close>

definition closed_payment :: "string \<Rightarrow> claims \<Rightarrow> bool" where
  "closed_payment i c \<longleftrightarrow> i \<in> set (receivedPayments c) \<and> i \<notin> set (running_ids c)"

definition asked_for :: "string \<Rightarrow> claims \<Rightarrow> bridge_call list" where
  "asked_for i c = map snd (filter (\<lambda>(j, _). j = i) (asked c))"

text \<open>What a step may do to the payment \<open>i\<close> when it is closed: nothing.\<close>

definition keeps_closed :: "string \<Rightarrow> claims \<Rightarrow> claims \<Rightarrow> bool" where
  "keeps_closed i c c' \<longleftrightarrow> closed_payment i c \<longrightarrow> closed_payment i c' \<and> asked_for i c' = asked_for i c"

lemma keeps_closed_refl [simp]: "keeps_closed i c c"
  by (simp add: keeps_closed_def)

lemma keeps_closed_trans: "keeps_closed i a b \<Longrightarrow> keeps_closed i b c \<Longrightarrow> keeps_closed i a c"
  by (auto simp: keeps_closed_def)

lemma asked_for_other:
  "asked c' = asked c @ map (Pair j) calls \<Longrightarrow> i \<noteq> j \<Longrightarrow> asked_for i c' = asked_for i c"
proof -
  have "filter (\<lambda>(k, _). k = i) (map (Pair j) calls) = []" if "i \<noteq> j" using that by (induction calls) auto
  then show "asked c' = asked c @ map (Pair j) calls \<Longrightarrow> i \<noteq> j \<Longrightarrow> asked_for i c' = asked_for i c"
    by (simp add: asked_for_def)
qed

lemma remove_nth_distinct:
  assumes "distinct xs" and "n < length xs"
  shows "distinct (remove_nth n xs)" and "set (remove_nth n xs) = set xs - {xs ! n}"
proof -
  have xs: "xs = take n xs @ xs ! n # drop (Suc n) xs" using assms(2) by (rule id_take_nth_drop)
  have "distinct (take n xs @ xs ! n # drop (Suc n) xs)" using assms(1) xs by simp
  then show "distinct (remove_nth n xs)" and "set (remove_nth n xs) = set xs - {xs ! n}"
    unfolding remove_nth_def by (simp, subst (2) xs, auto)
qed

text \<open>Each operation in terms of the identifiers it leaves and of what it asks.\<close>

lemma attempt_cases:
  obtains "attempt mk event c = c"
  | j where "j \<notin> set (receivedPayments c)" and "running_ids (attempt mk event c) = running_ids c @ [j]"
      and "receivedPayments (attempt mk event c) = receivedPayments c @ [j]"
      and "asked_for i (attempt mk event c) = asked_for i c \<or> i = j"
proof (cases "attempt mk event c = c")
  case False
  then obtain p where p: "payment_of (content event) = Some p"
    and new: "pay_paymentId p \<notin> set (receivedPayments c)"
    by (auto simp: attempt_def split: option.splits if_splits)
  obtain bs t where "peel (mk event p) = (bs, t)" by force
  then have "asked (attempt mk event c) = asked c @ map (Pair (pay_paymentId p)) (next_call t)"
    and "running_ids (attempt mk event c) = running_ids c @ [pay_paymentId p]"
    and "receivedPayments (attempt mk event c) = receivedPayments c @ [pay_paymentId p]"
    using p new by (simp_all add: attempt_def start_thunk_def running_ids_def)
  then show thesis using that(2) [OF new] asked_for_other by blast
qed

lemma attempt_ok: "(claims_ok c \<longrightarrow> claims_ok (attempt mk event c)) \<and> keeps_closed i c (attempt mk event c)"
  by (rule attempt_cases [where mk = mk and event = event and c = c and i = i])
     (auto simp: claims_ok_def keeps_closed_def closed_payment_def)

lemma fold_attempts:
  "(claims_ok c \<longrightarrow> claims_ok (fold (attempt mk) events c)) \<and> keeps_closed i c (fold (attempt mk) events c)"
proof (induction events arbitrary: c)
  case (Cons e events)
  from Cons [of "attempt mk e c"] show ?case
    using attempt_ok [of c mk e i] keeps_closed_trans by auto
qed simp

lemma check_ok:
  "(claims_ok c \<longrightarrow> claims_ok (checkForReceivablePayments s fs roomId c)) \<and>
   keeps_closed i c (checkForReceivablePayments s fs roomId c)"
proof -
  have two: "(claims_ok c \<longrightarrow> claims_ok (fold (attempt f) xs (fold (attempt g) ys c))) \<and>
      keeps_closed i c (fold (attempt f) xs (fold (attempt g) ys c))" for f g xs ys
    using fold_attempts [of c g ys i] fold_attempts [of "fold (attempt g) ys c" f xs i] keeps_closed_trans by blast
  show ?thesis
    unfolding checkForReceivablePayments_def Let_def by (simp add: two split: option.split)
qed

lemma running_cases:
  obtains "answer_running n a c = c"
  | j where "j \<in> set (running_ids c)" and "running_ids (answer_running n a c) = running_ids c"
      and "receivedPayments (answer_running n a c) = receivedPayments c"
      and "asked_for i (answer_running n a c) = asked_for i c \<or> i = j"
proof (cases "n < length (running c) \<and> (\<exists>f k. snd (running c ! n) = Calls f k)")
  case True
  then obtain j f k where n: "n < length (running c)" and nth: "running c ! n = (j, Calls f k)"
    by (metis prod.collapse)
  obtain bs t' where peel: "peel (k a) = (bs, t')" by force
  have "j \<in> set (running_ids c)" using n nth by (force simp: running_ids_def in_set_conv_nth)
  moreover have "map fst ((running c)[n := (j, t')]) = map fst (running c)"
    using n nth by (simp add: map_update list_update_same_conv)
  moreover have "asked (answer_running n a c) = asked c @ map (Pair j) (next_call t')"
    using n nth peel by (simp add: answer_running_def)
  then have "asked_for i (answer_running n a c) = asked_for i c \<or> i = j" using asked_for_other by blast
  ultimately show thesis
    using that(2) [of j] n nth peel by (simp add: answer_running_def running_ids_def)
next
  case False
  then have "answer_running n a c = c"
    by (cases "running c ! n"; cases "snd (running c ! n)") (auto simp: answer_running_def)
  then show thesis by (rule that(1))
qed

lemma answer_ok: "(claims_ok c \<longrightarrow> claims_ok (answer_running n a c)) \<and> keeps_closed i c (answer_running n a c)"
  by (rule running_cases [where n = n and a = a and c = c and i = i])
     (auto simp: claims_ok_def keeps_closed_def closed_payment_def)

lemma background_ok:
  "(claims_ok c \<longrightarrow> claims_ok (answer_unwatched n a c)) \<and> keeps_closed i c (answer_unwatched n a c)"
  by (simp add: answer_unwatched_def claims_ok_def keeps_closed_def closed_payment_def asked_for_def
      running_ids_def split: prod.splits)

lemma settle_cases:
  obtains "settle_running n c = c"
  | j where "n < length (running_ids c)" and "running_ids c ! n = j"
      and "running_ids (settle_running n c) = remove_nth n (running_ids c)"
      and "receivedPayments (settle_running n c) \<in> {receivedPayments c, removeAll j (receivedPayments c)}"
      and "asked (settle_running n c) = asked c"
proof (cases "settle_running n c = c")
  case False
  then obtain j t where n: "n < length (running c)" and nth: "running c ! n = (j, t)"
    by (cases "running c ! n") (auto simp: settle_running_def split: if_splits)
  have map: "map fst (remove_nth n (running c)) = remove_nth n (map fst (running c))"
    by (simp add: remove_nth_def take_map drop_map)
  show thesis
    using False that(2) [of j] n nth
    by (cases t) (simp_all add: settle_running_def running_ids_def map)
qed

lemma settle_ok:
  assumes "claims_ok c"
  shows "claims_ok (settle_running n c) \<and> keeps_closed i c (settle_running n c)"
proof (rule settle_cases [of n c])
  fix j
  assume n: "n < length (running_ids c)" and j: "running_ids c ! n = j"
    and ids: "running_ids (settle_running n c) = remove_nth n (running_ids c)"
    and kept: "receivedPayments (settle_running n c) \<in> {receivedPayments c, removeAll j (receivedPayments c)}"
    and asked: "asked (settle_running n c) = asked c"
  have "distinct (running_ids c)" using assms by (simp add: claims_ok_def)
  note removed = remove_nth_distinct [OF this n, unfolded j]
  have "j \<in> set (running_ids c)" using n j by force
  then show ?thesis
    using removed ids kept asked assms
    by (auto simp: claims_ok_def keeps_closed_def closed_payment_def asked_for_def)
qed (simp add: assms)

lemma claim_step_ok: "claims_ok c \<Longrightarrow> claims_ok (claim_step c e) \<and> keeps_closed i c (claim_step c e)"
  by (cases e) (auto simp: check_ok answer_ok background_ok settle_ok)

interpretation claim_machine: invariant_machine claim_step "\<lambda>_. True" claims_ok
  by unfold_locales (use claim_step_ok in blast)

lemma claims_reachable: "claims_ok (run claim_step no_claims es)"
  by (rule claim_machine.run_inv) (simp_all add: claims_ok_def no_claims_def running_ids_def list_all_iff)

lemma keeps_closed_run: "claims_ok c \<Longrightarrow> keeps_closed i c (run claim_step c es)"
proof (induction es arbitrary: c)
  case (Cons e es)
  then show ?case using claim_step_ok [OF Cons.prems, of e i] keeps_closed_trans by auto
qed (simp add: keeps_closed_def)

text \<open>
  C4. Whatever events arrive and in whatever order the bridge answers, no payment is claimed or
  reclaimed twice at the same time, and every payment being claimed is remembered.
\<close>

theorem claims_never_overlap:
  "distinct (running_ids (run claim_step no_claims es)) \<and>
   set (running_ids (run claim_step no_claims es)) \<subseteq> set (receivedPayments (run claim_step no_claims es))"
  using claims_reachable [of es] by (simp add: claims_ok_def)


section \<open>Messages and money\<close>

lemma exchange_awaits:
  "exchange (awaits c read k) as =
     (case as of
        [] \<Rightarrow> [(c, None)]
      | a # as' \<Rightarrow> (c, Some a) # (case read a of None \<Rightarrow> [] | Some x \<Rightarrow> exchange (k x) as'))"
  by (cases as) (auto simp: awaits_def split: option.split)

lemma present_Some: "present s = Some x \<longleftrightarrow> s = Some x \<and> x \<noteq> []"
  by (auto simp: present_def split: option.splits)

lemma as_receipt_iff: "as_receipt a = Some op \<longleftrightarrow> a = answer_receipt op"
  by (cases a) auto

lemma as_ecash_iff: "as_ecash a = Some (e, op) \<longleftrightarrow> a = answer_ecash e op"
  by (cases a) auto

lemmas exchange_simps = exchange_awaits sendPayment_def present_Some as_receipt_iff as_ecash_iff

lemma claim_sends:
  assumes "(call_sendMessage r (payment m), x) \<in> set (exchange (claimMatrixPayment s roomId p) as)"
  obtains ecash f md op where "pay_ecash p = Some ecash" and "pay_federationId p = Some f" and "r = roomId"
    and "m = p\<lparr>pay_body := ''Payment received.'', pay_status := received, pay_receiverOperationId := op\<rparr>"
    and "(call_receiveEcash ecash f md, Some (answer_receipt op)) \<in> set (exchange (claimMatrixPayment s roomId p) as)"
proof -
  from assms obtain who where "selectMatrixAuth s = Some who"
    by (cases "selectMatrixAuth s") (auto simp: claimMatrixPayment_def)
  moreover from assms this obtain ecash where ecash: "present (pay_ecash p) = Some ecash"
    by (cases "present (pay_ecash p)") (auto simp: claimMatrixPayment_def)
  moreover from assms calculation obtain f where f: "present (pay_federationId p) = Some f"
    by (cases "present (pay_federationId p)") (auto simp: claimMatrixPayment_def)
  ultimately obtain md where t: "claimMatrixPayment s roomId p = awaits (call_receiveEcash ecash f md) as_receipt
      (\<lambda>op. sendPayment roomId (p\<lparr>pay_body := ''Payment received.'', pay_status := received,
         pay_receiverOperationId := op\<rparr>) (awaits (call_markRoomAsUnread roomId True) as_void (\<lambda>_. Fulfilled JUndef)))"
    by (simp add: claimMatrixPayment_def)
  obtain a as' where as: "as = a # as'" using assms by (cases as) (auto simp: t exchange_awaits)
  obtain op where "a = answer_receipt op" using assms by (cases a) (auto simp: t as exchange_awaits)
  with assms ecash f show thesis
    by (intro that [of ecash f op md]) (auto simp: t as exchange_simps split: list.splits option.splits)
qed

lemma accept_sends:
  assumes "(call_sendMessage r (payment m), x) \<in> set (exchange (acceptMatrixPaymentRequest fmt s fs roomId p) as)"
  obtains ecash f incl md op who where "pay_status p = requested" and "pay_federationId p = Some f" and "r = roomId"
    and "m = p\<lparr>pay_body := sent_text fmt ''Sent'' (pay_amount p div 1000) [], pay_status := accepted,
           pay_senderId := Some who, pay_senderOperationId := Some op, pay_ecash := Some ecash\<rparr>"
    and "(call_generateEcash (pay_amount p) f incl md, Some (answer_ecash ecash op))
           \<in> set (exchange (acceptMatrixPaymentRequest fmt s fs roomId p) as)"
proof -
  from assms obtain who where "selectMatrixAuth s = Some who"
    by (cases "selectMatrixAuth s") (auto simp: acceptMatrixPaymentRequest_def)
  moreover from assms this have req: "pay_status p = requested"
    by (cases "pay_status p = requested") (auto simp: acceptMatrixPaymentRequest_def)
  moreover from assms calculation obtain f where f: "present (pay_federationId p) = Some f"
    by (cases "present (pay_federationId p)") (auto simp: acceptMatrixPaymentRequest_def)
  moreover from assms calculation have "pay_amount p \<noteq> 0"
    by (cases "pay_amount p = 0") (auto simp: acceptMatrixPaymentRequest_def)
  ultimately obtain incl md where
    t: "acceptMatrixPaymentRequest fmt s fs roomId p = awaits (call_generateEcash (pay_amount p) f incl md) as_ecash
      (\<lambda>(ecash, op). sendPayment roomId
         (p\<lparr>pay_body := sent_text fmt ''Sent'' (pay_amount p div 1000) [], pay_status := accepted,
            pay_senderId := Some (auth_userId who), pay_senderOperationId := Some op, pay_ecash := Some ecash\<rparr>)
         (Fulfilled JUndef))"
    by (simp add: acceptMatrixPaymentRequest_def Let_def)
  obtain a as' where as: "as = a # as'" using assms by (cases as) (auto simp: t exchange_awaits)
  obtain ecash op where "a = answer_ecash ecash op" using assms by (cases a) (auto simp: t as exchange_awaits)
  with assms f req show thesis
    by (intro that [of f ecash op "auth_userId who" incl md])
       (auto simp: t as exchange_simps split: list.splits option.splits)
qed

lemma reject_sends:
  "(call_sendMessage r (payment m), x) \<in> set (exchange (rejectMatrixPaymentRequest roomId p) as) \<Longrightarrow>
     m = p\<lparr>pay_body := ''Payment request rejected.'', pay_status := rejected\<rparr>"
  by (auto simp: rejectMatrixPaymentRequest_def exchange_simps split: list.splits option.splits)

lemma cancel_sends:
  "(call_sendMessage r (payment m), x) \<in> set (exchange (cancelMatrixPayment roomId p) as) \<Longrightarrow>
     m = p\<lparr>pay_body := ''Payment canceled.'', pay_status := canceled\<rparr>"
  by (auto simp: cancelMatrixPayment_def Let_def exchange_simps split: list.splits option.splits)

text \<open>The last event of a payment decides.\<close>

lemma last_event_decides:
  assumes "payment_id ev = Some i" and "is_receivable myId feds (Some ev)"
  shows "e \<in> set (getReceivablePaymentEvents (timeline @ [Some ev]) myId feds) \<and> payment_id e = Some i \<longleftrightarrow>
    e = ev \<and> has_status [accepted, pushed] ev"
proof -
  have "payment_of (content ev) \<noteq> None" using assms(1) by (auto simp: payment_id_def)
  then have step: "foldl (note_payment myId feds) [] (timeline @ [Some ev]) =
      jm_set i ev (foldl (note_payment myId feds) [] timeline)"
    using assms by (auto simp: note_payment_def payment_id_def)
  let ?m = "foldl (note_payment myId feds) [] (timeline @ [Some ev])"
  have at_i: "jm_get ?m i = Some ev" unfolding step by simp
  have "e = ev" if "(j, e) \<in> set ?m" and "payment_id e = Some i" for j
  proof -
    have "payment_id e = Some j" using noted_ids [of myId feds "timeline @ [Some ev]"] that(1)
      by (auto simp: list_all_iff)
    then show "e = ev"
      using that at_i jm_get_iff_mem [OF noted_distinct, of myId feds "timeline @ [Some ev]" j e] by simp
  qed
  moreover have "(i, ev) \<in> set ?m"
    using at_i jm_get_iff_mem [OF noted_distinct, of myId feds "timeline @ [Some ev]" i ev] by simp
  ultimately show ?thesis
    using assms(1) by (auto simp: getReceivablePaymentEvents_def jm_values_def image_iff Bex_def)
qed

lemma receivable_event:
  assumes "e \<in> set (getReceivablePaymentEvents timeline myId feds)"
  shows "is_receivable myId feds (Some e)"
proof -
  obtain i where "(i, e) \<in> set (foldl (note_payment myId feds) [] timeline)"
    using assms by (auto simp: getReceivablePaymentEvents_def jm_values_def)
  then have "e \<in> set (receivable_for myId feds timeline i)" unfolding noted_mem using last_in_set by blast
  then show ?thesis unfolding receivable_for_mem by blast
qed

text \<open>
  C9. Once the message that answers a payment has arrived (claimed, rejected or canceled), the payment is
  not offered for a claim again, on whatever device the conversation is read.
\<close>

theorem answered_payment_closes:
  assumes "e \<in> set (getReceivablePaymentEvents timeline myId feds)" and "payment_of (content e) = Some p"
    and "t \<in> {claimMatrixPayment s roomId p, rejectMatrixPaymentRequest roomId p, cancelMatrixPayment roomId p}"
    and "(call_sendMessage r (payment m), x) \<in> set (exchange t as)" and "content ev = payment m"
  shows "payment_id e \<notin> payment_id ` set (getReceivablePaymentEvents (timeline @ [Some ev]) myId feds)"
proof -
  from assms(3,4) have m: "pay_paymentId m = pay_paymentId p" "pay_recipientId m = pay_recipientId p"
      "pay_federationId m = pay_federationId p" "pay_status m \<in> {received, rejected, canceled}"
    by (auto dest!: reject_sends cancel_sends elim!: claim_sends)
  have e: "payment_id e = Some (pay_paymentId p)" using assms(2) by (simp add: payment_id_def)
  have "is_receivable myId feds (Some ev)"
    using receivable_event [OF assms(1)] assms(2,5) m by (simp add: is_receivable_def)
  moreover have "payment_id ev = Some (pay_paymentId p)" using assms(5) m by (simp add: payment_id_def)
  moreover have "\<not> has_status [accepted, pushed] ev" using assms(5) m(4) by (auto simp: has_status_def)
  ultimately show ?thesis using e last_event_decides by fastforce
qed

text \<open>
  C10. Whoever accepts a request sends the e-cash that the bridge made for exactly the requested amount, and
  the message is offered to the one who asked for a claim, when the federation is joined there.
\<close>

theorem accepted_request_claimable:
  assumes "(call_sendMessage r (payment m), x) \<in> set (exchange (acceptMatrixPaymentRequest fmt s fs roomId p) as)"
    and "pay_recipientId p = Some requester" and "can_reissue feds (pay_federationId p)" and "content ev = payment m"
  shows "ev \<in> set (getReceivablePaymentEvents (timeline @ [Some ev]) requester feds) \<and>
    (\<exists>ecash f incl md op. pay_ecash m = Some ecash \<and> pay_federationId m = Some f \<and> pay_amount m = pay_amount p \<and>
       (call_generateEcash (pay_amount p) f incl md, Some (answer_ecash ecash op))
         \<in> set (exchange (acceptMatrixPaymentRequest fmt s fs roomId p) as))"
proof (rule accept_sends [OF assms(1)])
  fix ecash f incl md op who
  assume f: "pay_federationId p = Some f"
    and m: "m = p\<lparr>pay_body := sent_text fmt ''Sent'' (pay_amount p div 1000) [], pay_status := accepted,
           pay_senderId := Some who, pay_senderOperationId := Some op, pay_ecash := Some ecash\<rparr>"
    and gen: "(call_generateEcash (pay_amount p) f incl md, Some (answer_ecash ecash op))
           \<in> set (exchange (acceptMatrixPaymentRequest fmt s fs roomId p) as)"
  have "payment_id ev = Some (pay_paymentId p)" and "is_receivable requester feds (Some ev)"
    and "has_status [accepted, pushed] ev"
    using assms(2-4) m by (simp_all add: payment_id_def is_receivable_def has_status_def)
  then have "ev \<in> set (getReceivablePaymentEvents (timeline @ [Some ev]) requester feds)"
    using last_event_decides by blast
  then show ?thesis using f m gen by auto
qed

section \<open>Examples\<close>

definition example_payment :: "RpcMatrixPaymentStatus \<Rightarrow> RpcPaymentMessageContent" where
  "example_payment st =
     \<lparr> pay_body = [], pay_status = st, pay_paymentId = ''p'', pay_recipientId = Some ''@me:h'',
       pay_senderOperationId = Some ''op'', pay_receiverOperationId = None, pay_amount = 5000,
       pay_senderId = Some ''@you:h'', pay_ecash = Some ''notes'', pay_federationId = Some ''f'',
       pay_bolt11 = None, pay_inviteCode = None \<rparr>"

definition example_event :: "RpcPaymentMessageContent \<Rightarrow> MatrixEvent" where
  "example_event p =
     \<lparr> ev_id = ''e'', ev_roomId = ''!r:h'', content = payment p, timestamp = 1, sender = ''@you:h'',
       inReply = None, canReact = True, reactions = [] \<rparr>"

lemma example_event_simps [simp]:
  "content (example_event p) = payment p" "payment_id (example_event p) = Some (pay_paymentId p)"
  "pay_paymentId (example_payment st) = ''p''" "pay_recipientId (example_payment st) = Some ''@me:h''"
  by (simp_all add: example_event_def payment_id_def example_payment_def)

definition example_chat :: "string \<Rightarrow> MatrixEvent list \<Rightarrow> MatrixState" where
  "example_chat userId events = initialMatrixState
     \<lparr>auth := Some \<lparr> auth_userId = userId, auth_deviceId = ''d'', auth_displayName = ''n'', auth_avatarUrl = None \<rparr>,
      roomTimelines := [(''!r:h'', map Some events)]\<rparr>"

definition example_federations :: FederationState where
  "example_federations = initialFederationState
     \<lparr>federations := [[(''id'', JStr ''f''), (''init_state'', JStr ''ready''), (''meta'', JObj [])]]\<rparr>"

definition example_claim :: "claim_event list" where
  "example_claim =
     [check (example_chat ''@me:h'' [example_event (example_payment pushed)]) example_federations None,
      answer 0 (answer_receipt None), answer 0 answer_void, answer 0 answer_void, settles 0]"

lemma example_claim_closes: "closed_payment ''p'' (run claim_step no_claims example_claim)"
  by code_simp


lemma example_receivable:
  "example_event (example_payment pushed) \<in>
     set (getReceivablePaymentEvents [Some (example_event (example_payment pushed))] ''@me:h''
       (selectLoadedFederations example_federations))"
  by code_simp

theorem answered_payment_closes_witness:
  "Some ''p'' \<notin> payment_id ` set (getReceivablePaymentEvents
     ([Some (example_event (example_payment pushed))] @
      [Some (example_event ((example_payment pushed)\<lparr>pay_body := ''Payment request rejected.'', pay_status := rejected\<rparr>))])
     ''@me:h'' (selectLoadedFederations example_federations))"
proof -
  let ?p = "example_payment pushed"
  let ?m = "?p\<lparr>pay_body := ''Payment request rejected.'', pay_status := rejected\<rparr>"
  have "(call_sendMessage ''!r:h'' (payment ?m), None) \<in> set (exchange (rejectMatrixPaymentRequest ''!r:h'' ?p) [])"
    by (simp add: rejectMatrixPaymentRequest_def sendPayment_def awaits_def)
  from answered_payment_closes [OF example_receivable _ _ this, where s = initialMatrixState and ev = "example_event ?m"
      and p = ?p and roomId = "''!r:h''"]
  show ?thesis by simp
qed

theorem accepted_request_claimable_witness:
  "\<exists>m. (call_sendMessage ''!r:h'' (payment m), None) \<in> set (exchange (acceptMatrixPaymentRequest (\<lambda>_. [])
       (example_chat ''@you:h'' []) example_federations ''!r:h'' (example_payment requested)) [answer_ecash ''e'' ''o'']) \<and>
     example_event m \<in> set (getReceivablePaymentEvents ([] @ [Some (example_event m)]) ''@me:h''
       (selectLoadedFederations example_federations))"
proof -
  let ?p = "example_payment requested"
  let ?t = "acceptMatrixPaymentRequest (\<lambda>_. []) (example_chat ''@you:h'' []) example_federations ''!r:h'' ?p"
  let ?m = "?p\<lparr>pay_body := ''Sent payment of  SATS.'', pay_status := accepted, pay_senderId := Some ''@you:h'',
      pay_senderOperationId := Some ''o'', pay_ecash := Some ''e''\<rparr>"
  have sent: "(call_sendMessage ''!r:h'' (payment ?m), None) \<in> set (exchange ?t [answer_ecash ''e'' ''o''])"
    by (simp add: acceptMatrixPaymentRequest_def exchange_simps present_def example_payment_def example_chat_def
        selectMatrixAuth_def sent_text_def Let_def)
  have "can_reissue (selectLoadedFederations example_federations) (pay_federationId ?p)"
    by code_simp
  from accepted_request_claimable [OF sent _ this, where requester = "''@me:h''" and ev = "example_event ?m"
      and timeline = "[]"] sent
  show ?thesis by auto
qed

section \<open>Where money can be lost\<close>

text \<open>Two members of a group accept the same request before the first acceptance is claimed.\<close>

definition accepted_by :: "string \<Rightarrow> string \<Rightarrow> MatrixEvent" where
  "accepted_by who ecash = example_event ((example_payment accepted)\<lparr>pay_senderId := Some who, pay_ecash := Some ecash\<rparr>)"

definition double_acceptance :: "claim_event list" where
  "double_acceptance =
     [check (example_chat ''@me:h'' [accepted_by ''@a:h'' ''ecashA'']) example_federations None,
      check (example_chat ''@me:h'' [accepted_by ''@a:h'' ''ecashA'', accepted_by ''@b:h'' ''ecashB'']) example_federations None,
      answer 0 (answer_receipt None), answer 0 answer_void, answer 0 answer_void, settles 0]"


fun was_rejected :: "thunk \<Rightarrow> bool" where
  "was_rejected (Rejected _) = True"
| "was_rejected _ = False"

definition failed_reclaim :: "string \<Rightarrow> claim_event list" where
  "failed_reclaim e =
     [check (example_chat ''@you:h'' [example_event (example_payment rejected)]) example_federations None,
      answer 0 (answer_transaction (Some ''oobSend'')), settles 0, answer_background 0 (answer_error e)]"


section \<open>Who can answer a payment\<close>

text \<open>
  A payment that can be claimed here shows no button to reject it; one of a federation that is not joined
  here shows it to everyone in the room, the sender and onlookers included.
\<close>

theorem anyone_may_reject:
  assumes "pay_status p \<in> {pushed, accepted}"
  shows "handleRejectRequest \<in> act_handler ` set (snd (snd (useMatrixPaymentEvent t h from_user p)))
    \<longleftrightarrow> \<not> canClaimPayment h"
proof -
  have "handleRejectRequest \<notin> act_handler ` set (bolt11_buttons t h b)" for b by (auto simp: bolt11_buttons_def)
  moreover have "act_handler (cancel_button t h) \<noteq> handleRejectRequest"
    and "act_handler (reject_button t h) = handleRejectRequest" by (simp_all add: cancel_button_def reject_button_def)
  moreover have "pay_status p = pushed \<or> pay_status p = accepted" using assms by simp
  ultimately show ?thesis by (elim disjE) (simp_all add: useMatrixPaymentEvent_def Let_def)
qed

theorem anyone_may_reject_witness:
  "handleRejectRequest \<in> act_handler ` set (snd (snd (useMatrixPaymentEvent (\<lambda>k _. k)
     \<lparr> isOffline = False, isCanceling = False, isAccepting = False, isRejecting = False, has_onViewBolt11 = False,
       has_onCopyBolt11 = False, has_onPayWithForeignEcash = False, isDm = False, canClaimPayment = False,
       myUserId = Some ''@onlooker:h'', paymentSenderName = None \<rparr> ''@you:h'' (example_payment pushed))))"
  using anyone_may_reject [of "example_payment pushed" "\<lambda>k _. k" _ "''@you:h''"]
  by (simp add: example_payment_def)

section \<open>Rooms that are not checked\<close>

text \<open>
  The check is debounced for all rooms together: when several rooms get events within the delay only the
  last one is checked.
\<close>

lemma debounced_last: "debounced pending (map called (r # rs) @ [fires]) = [last (r # rs)]"
  by (induction rs arbitrary: pending r) auto

lemma rooms_not_checked:
  "Some i \<notin> set (debounced None [called (Some i), called (Some j), fires]) \<longleftrightarrow> i \<noteq> j"
  by auto

end
