(* ===== verification/Chat_Thunks.thy ===== *)
theory Chat_Thunks
  imports Chat_Payments_Properties
begin

text \<open>
  The other thunks of \<^verbatim>\<open>ui/common/redux/matrix.ts\<close> that decide something: creating rooms, sending and
  editing messages, reactions, what the slice does with the events of the client, and the previews of
  default chats. They are trees of calls as in \<open>Chat_Payments\<close>; flags of features are arguments.
\<close>

section \<open>Rooms\<close>

definition createMatrixRoom :: "string \<Rightarrow> bool \<Rightarrow> bool option \<Rightarrow> bool option \<Rightarrow> bool \<Rightarrow> thunk" where
  "createMatrixRoom name_arg broadcast isPublicArg knockArg knockingEnabled =
     (let public = (isPublicArg = Some True);
          roomArgs = \<lparr> create_name = name_arg,
            create_events_default = (if broadcast then Some MatrixPowerLevel_Moderator else None),
            create_visibility = (if public then Some ''public'' else None),
            create_history = (if public then Some ''world_readable'' else None) \<rparr>
      in awaits (call_chat (chat_createRoom roomArgs)) as_room
           (\<lambda>roomId.
              let result = Fulfilled (JObj [(''roomId'', JStr roomId)]);
                  knocking = (if isPublicArg \<noteq> Some True \<and> knockArg = Some True \<and> knockingEnabled
                    then awaits (call_chat (chat_setAllowKnocking roomId True)) as_void (\<lambda>_. result)
                    else result)
              in if public
                 then awaits (call_chat (chat_setRoomTopic roomId roomId)) as_void (\<lambda>_. knocking)
                 else knocking))"

text \<open>
  The listener of \<^verbatim>\<open>startMatrixClient\<close> for information about a room: whether it joins the room, and the
  bot it remembers, with its room. \<open>transferMode\<close> is the mode of the flag \<^verbatim>\<open>sp_transfer_ui\<close>.
\<close>

definition GUARDIANITO_BOT_DISPLAY_NAME :: string where
  "GUARDIANITO_BOT_DISPLAY_NAME = ''G-Bot''"

definition autoJoinRooms :: "string option \<Rightarrow> bool" where
  "autoJoinRooms transferMode \<longleftrightarrow> transferMode \<noteq> Some ''Chat''"

definition joins_invited_room :: "string option \<Rightarrow> MatrixRoom \<Rightarrow> bool" where
  "joins_invited_room transferMode r \<longleftrightarrow>
     roomState r = invited \<and>
     (autoJoinRooms transferMode \<or> room_name r = GUARDIANITO_BOT_DISPLAY_NAME \<or> \<not> isDirect r)"

definition remembered_bot :: "MatrixRoom \<Rightarrow> (string \<times> string) option" where
  "remembered_bot r =
     (if room_name r = GUARDIANITO_BOT_DISPLAY_NAME
      then (case directUserId r of Some (c # u) \<Rightarrow> Some (c # u, room_id r) | _ \<Rightarrow> None)
      else None)"

text \<open>The events of the client, and the actions that \<^verbatim>\<open>startMatrixClient\<close> dispatches for them.\<close>

datatype client_event =
    on_auth "MatrixAuth option"
  | on_roomListUpdate "MatrixRoomListItem VectorDiff list"
  | on_roomInfo MatrixRoom
  | on_roomMember obj
  | on_roomMembers string "obj list"
  | on_roomTimelineUpdate string "MatrixEvent option VectorDiff list"
  | on_roomPinnedTimelineUpdate string "RpcTimelineItem VectorDiff list"
  | on_roomTimelinePaginationStatus string string
  | on_roomPowerLevels string obj
  | on_roomNotificationMode string string
  | on_multispendUpdate string "RpcMultispendGroupStatus option"
  | on_multispendEventUpdate string string "MsEventData option"
  | on_multispendAccountUpdate string "jv option"
  | on_multispendTransactions string "MultispendListedEvent list option"
  | on_spTransferStateUpdate string string RpcSpTransferState
  | on_ignoredUsers "string list"
  | on_error string
  | on_status MatrixSyncStatus

definition dispatched :: "MatrixState \<Rightarrow> client_event \<Rightarrow> matrix_action list" where
  "dispatched s e =
     (case e of
        on_auth a \<Rightarrow> [Chat (SetMatrixAuth a)]
      | on_roomListUpdate updates \<Rightarrow> [Room (HandleMatrixRoomListStreamUpdates updates)]
      | on_roomInfo r \<Rightarrow> [Room (AddMatrixRoomInfo r)]
      | on_roomMember m \<Rightarrow> [Room (AddMatrixRoomMember m)]
      | on_roomMembers i ms \<Rightarrow> [Room (SetMatrixRoomMembers i ms)]
      | on_roomTimelineUpdate i us \<Rightarrow> [Room (HandleMatrixRoomTimelineStreamUpdates i us)]
      | on_roomPinnedTimelineUpdate i us \<Rightarrow> [Room (HandleMatrixRoomPinnedTimelineStreamUpdates i us)]
      | on_roomTimelinePaginationStatus i p \<Rightarrow> [Room (HandleMatrixRoomTimelinePaginationStatus i p)]
      | on_roomPowerLevels i p \<Rightarrow> [Room (SetMatrixRoomPowerLevels i p)]
      | on_roomNotificationMode i m \<Rightarrow> [Room (SetMatrixRoomNotificationMode i m)]
      | on_multispendUpdate i st \<Rightarrow> (case st of None \<Rightarrow> [] | Some x \<Rightarrow> [Room (SetMatrixRoomMultispendStatus i x)])
      | on_multispendEventUpdate i ev u \<Rightarrow>
          (case u of None \<Rightarrow> [] | Some x \<Rightarrow> [Room (UpdateMatrixRoomMultispendEvent i ev x)])
      | on_multispendAccountUpdate i a \<Rightarrow>
          (case a of None \<Rightarrow> [] | Some x \<Rightarrow> [Room (SetMatrixRoomMultispendAccountInfo i x)])
      | on_multispendTransactions i ts \<Rightarrow>
          (case ts of None \<Rightarrow> [] | Some x \<Rightarrow> [Room (UpdateMatrixRoomMultispendTxns i x)])
      | on_spTransferStateUpdate i ev st \<Rightarrow> [Room (SetSpTransferState i ev st)]
      | on_ignoredUsers ids \<Rightarrow> [Chat (SetMatrixIgnoredUsers ids)]
      | on_error err \<Rightarrow> [Chat (AddMatrixError err)]
      | on_status st \<Rightarrow> if st = status s then [] else [Chat (SetMatrixStatus st)])"

definition on_client_event :: "deep_equal \<Rightarrow> MatrixState \<Rightarrow> client_event \<Rightarrow> MatrixState" where
  "on_client_event isEqual s e = foldl (matrixSlice isEqual) s (dispatched s e)"

section \<open>Messages\<close>

text \<open>The mentions that are sent with a message: none instead of empty ones.\<close>

definition sendMatrixMessageWithMentions :: "string \<Rightarrow> string \<Rightarrow> RpcMentions option \<Rightarrow> string option \<Rightarrow> thunk" where
  "sendMatrixMessageWithMentions roomId body mentions extra =
     awaits (call_chat (chat_sendText roomId body (if hasMentions mentions then mentions else None) extra)) as_void
       (\<lambda>_. Fulfilled JUndef)"

definition sendMatrixReplyWithMentions ::
  "string \<Rightarrow> string \<Rightarrow> string \<Rightarrow> RpcMentions option \<Rightarrow> string option \<Rightarrow> thunk" where
  "sendMatrixReplyWithMentions roomId replyToEventId body mentions extra =
     awaits (call_chat (chat_sendReply roomId replyToEventId body mentions extra)) as_void (\<lambda>_. Fulfilled JUndef)"

definition editMatrixMessageWithMentions ::
  "string \<Rightarrow> string \<Rightarrow> string \<Rightarrow> RpcMentions option \<Rightarrow> string option \<Rightarrow> thunk" where
  "editMatrixMessageWithMentions roomId eventId body mentions extra =
     awaits (call_chat (chat_editMessage roomId eventId body mentions extra)) as_void (\<lambda>_. Fulfilled JUndef)"

definition mentions_in_room :: "MatrixState \<Rightarrow> string \<Rightarrow> string \<Rightarrow> RpcMentions option \<times> string option" where
  "mentions_in_room s roomId body = prepareMentionsDataPayload body (selectMatrixRoomMembers s roomId) (my_id s)"

definition editMatrixMessage :: "MatrixState \<Rightarrow> string \<Rightarrow> string \<Rightarrow> string \<Rightarrow> thunk" where
  "editMatrixMessage s roomId eventId body =
     (case mentions_in_room s roomId body of
        (mentions, extra) \<Rightarrow> editMatrixMessageWithMentions roomId eventId body mentions extra)"

text \<open>
  A copied invoice is sent as a request, when it is one and has an amount; an error of the parser is caught and
  the message is sent as it is, while an error of sending the request is not, since it is not awaited there.
\<close>

definition sendMatrixMessage ::
  "(int \<Rightarrow> string) \<Rightarrow> string \<Rightarrow> (string \<Rightarrow> bool) \<Rightarrow> MatrixState \<Rightarrow> string \<Rightarrow> string \<Rightarrow> string option \<Rightarrow> bool \<Rightarrow> thunk" where
  "sendMatrixMessage formatSats uuid isBolt11 s roomId body repliedEventId interceptBolt11 =
     (let regular =
            (case mentions_in_room s roomId body of
               (mentions, extra) \<Rightarrow>
                 (case present repliedEventId of
                    Some replyToEventId \<Rightarrow> sendMatrixReplyWithMentions roomId replyToEventId body mentions extra
                  | None \<Rightarrow> sendMatrixMessageWithMentions roomId body mentions extra))
      in if interceptBolt11 \<and> isBolt11 body
         then Calls (call_chat (chat_parseInvoice body)) (\<lambda>a.
           case a of
             answer_invoice (Some amount) invoice \<Rightarrow>
               if amount = 0 then regular
               else sendPayment roomId
                 \<lparr> pay_body = sent_text formatSats ''Requested'' (amount div 1000)
                     '' Use the Fedi app to complete this request.'',
                   pay_status = requested, pay_paymentId = uuid, pay_recipientId = None,
                   pay_senderOperationId = None, pay_receiverOperationId = None, pay_amount = amount,
                   pay_senderId = None, pay_ecash = None, pay_federationId = None,
                   pay_bolt11 = Some invoice, pay_inviteCode = None \<rparr> (Fulfilled JUndef)
           | _ \<Rightarrow> regular)
         else regular)"

definition toggleMatrixReaction :: "MatrixState \<Rightarrow> string \<Rightarrow> string \<Rightarrow> string \<Rightarrow> thunk" where
  "toggleMatrixReaction s roomId eventId reactionKey =
     (let full = (case find (\<lambda>e. ev_id e = eventId) (selectMatrixRoomRawEvents s roomId) of
                    None \<Rightarrow> False
                  | Some event \<Rightarrow>
                      canReact event \<and> \<not> list_ex (\<lambda>r. reaction_key r = reactionKey) (reactions event) \<and>
                      length (reactions event) \<ge> MAX_CHAT_REACTION_EMOJIS)
      in if full then Rejected ''errors.chat-reaction-limit-exceeded''
         else awaits (call_chat (chat_toggleReaction roomId eventId reactionKey)) as_completed (\<lambda>b. Fulfilled (JBool b)))"

text \<open>
  A direct message: a reply goes to the room there is, and else the room is made and then observed
  (the observations are in \<open>Matrix_Client\<close>).
\<close>

definition sendMatrixDirectMessage :: "MatrixState \<Rightarrow> string \<Rightarrow> string \<Rightarrow> string option \<Rightarrow> thunk" where
  "sendMatrixDirectMessage s userId body repliedEventId =
     (case present repliedEventId of
        Some replyTo \<Rightarrow>
          (case selectMatrixDirectMessageRoom s userId of
             None \<Rightarrow> Rejected ''Cannot reply to message in new direct message room''
           | Some existingRoom \<Rightarrow>
               awaits (call_chat (chat_sendReply (room_id existingRoom) replyTo body None None)) as_void
                 (\<lambda>_. Fulfilled (JObj [(''roomId'', JStr (room_id existingRoom))])))
      | None \<Rightarrow>
          awaits (call_chat (chat_createOrGetDm userId)) as_room
            (\<lambda>roomId. awaits (call_sendMessage roomId (m_text \<lparr> txt_body = body, txt_formatted = None \<rparr>)) as_void
               (\<lambda>_. Fulfilled (JObj [(''roomId'', JStr roomId)]))))"

text \<open>What leaving a conversation does to the state: the answer that is being written is forgotten.\<close>

definition unobserveMatrixRoom :: "string \<Rightarrow> MatrixState \<Rightarrow> MatrixState" where
  "unobserveMatrixRoom roomId s =
     (if fst (replyingToMessage s) = Some roomId then s\<lparr>replyingToMessage := (None, None)\<rparr> else s)"

section \<open>Default chats\<close>

text \<open>
  The previews of the default chats of a community or federation: \<open>preview\<close> is the answer for a room
  (\<open>None\<close> when it was rejected) of the call that the flag of private rooms chooses. The metadata holds a list
  of identifiers there.
\<close>

definition default_rooms :: "(string \<Rightarrow> jv option) \<Rightarrow> obj \<Rightarrow> string list" where
  "default_rooms parse meta =
     (case getDefaultGroupChats parse meta of
        JArr ids \<Rightarrow> List.map_filter (\<lambda>v. case v of JStr i \<Rightarrow> Some i | _ \<Rightarrow> None) ids
      | _ \<Rightarrow> [])"

definition previewDefaultChats ::
  "(string \<Rightarrow> jv option) \<Rightarrow> (string \<Rightarrow> MatrixGroupPreview option) \<Rightarrow> MatrixState \<Rightarrow> obj option \<Rightarrow> MatrixGroupPreview list" where
  "previewDefaultChats parse preview s entity =
     (case (auth s, entity) of
        (Some a, Some e) \<Rightarrow>
          map (\<lambda>i. case preview i of Some p \<Rightarrow> p | None \<Rightarrow> makeUnpreviewableDefaultChat i)
            (default_rooms parse (own_entries (obj_get e ''meta'')))
      | _ \<Rightarrow> [])"

definition previewAllDefaultChats ::
  "(string \<Rightarrow> jv option) \<Rightarrow> (string \<Rightarrow> MatrixGroupPreview option) \<Rightarrow> MatrixState \<Rightarrow> FederationState \<Rightarrow> MatrixGroupPreview list" where
  "previewAllDefaultChats parse preview s fs =
     concat (map (\<lambda>f. previewDefaultChats parse preview s (selectLoadedFederation fs (js_str (obj_get f ''id''))))
       (selectLoadedFederations fs)) @
     concat (map (\<lambda>c. previewDefaultChats parse preview s (find (has_id (js_str (obj_get c ''id''))) (communities fs)))
       (communities fs))"

definition selectDefaultMatrixRoomIds :: "(string \<Rightarrow> jv option) \<Rightarrow> FederationState \<Rightarrow> obj option \<Rightarrow> string list" where
  "selectDefaultMatrixRoomIds parse fs globalCommunityMeta =
     concat (map (\<lambda>f. default_rooms parse (own_entries (obj_get f ''meta''))) (selectLoadedFederations fs)) @
     (case globalCommunityMeta of None \<Rightarrow> [] | Some m \<Rightarrow> default_rooms parse m)"

definition selectIsDefaultGroup :: "(string \<Rightarrow> jv option) \<Rightarrow> FederationState \<Rightarrow> obj option \<Rightarrow> string \<Rightarrow> bool" where
  "selectIsDefaultGroup parse fs globalCommunityMeta i \<longleftrightarrow>
     i \<in> set (selectDefaultMatrixRoomIds parse fs globalCommunityMeta)"

definition selectShouldShowJoinOnChatPreview :: "(string \<Rightarrow> jv option) \<Rightarrow> obj option \<Rightarrow> string \<Rightarrow> bool" where
  "selectShouldShowJoinOnChatPreview parse globalCommunityMeta roomId \<longleftrightarrow>
     (case globalCommunityMeta of None \<Rightarrow> True | Some m \<Rightarrow> roomId \<notin> set (default_rooms parse m))"

definition selectCommunityDefaultRoomIds :: "(string \<Rightarrow> jv option) \<Rightarrow> FederationState \<Rightarrow> string \<Rightarrow> string list" where
  "selectCommunityDefaultRoomIds parse fs federationId =
     (case selectLoadedFederation fs federationId of
        None \<Rightarrow> []
      | Some f \<Rightarrow> default_rooms parse (own_entries (obj_get f ''meta'')))"

section \<open>What is sent\<close>

text \<open>No message goes out twice, and an intercepted invoice asks for exactly its amount.\<close>

lemma intercepted_invoice:
  assumes "interceptBolt11" and "isBolt11 body" and "amount \<noteq> 0"
  shows "exchange (sendMatrixMessage fmt uuid isBolt11 s roomId body reply_to interceptBolt11) [answer_invoice (Some amount) invoice, a] =
     [(call_chat (chat_parseInvoice body), Some (answer_invoice (Some amount) invoice)),
      (call_sendMessage roomId (payment
         \<lparr> pay_body = sent_text fmt ''Requested'' (amount div 1000) '' Use the Fedi app to complete this request.'',
           pay_status = requested, pay_paymentId = uuid, pay_recipientId = None, pay_senderOperationId = None,
           pay_receiverOperationId = None, pay_amount = amount, pay_senderId = None, pay_ecash = None,
           pay_federationId = None, pay_bolt11 = Some invoice, pay_inviteCode = None \<rparr>), Some a)]"
  using assms by (simp add: sendMatrixMessage_def Let_def sendPayment_def awaits_def split: option.split)

text \<open>Only a private room is opened to requests, when that was asked for and is enabled.\<close>

lemma private_knocking:
  "(call_chat (chat_setAllowKnocking r b), x) \<in> set (exchange (createMatrixRoom n bc pub knock enabled) as) \<Longrightarrow>
     pub \<noteq> Some True \<and> knock = Some True \<and> enabled"
  by (auto simp: createMatrixRoom_def Let_def exchange_awaits split: list.splits option.splits if_splits)

end
