(* ===== verification/Mentions_Properties.thy ===== *)
theory Mentions_Properties
  imports Matrix_Mentions
begin

text \<open>
  A message with mentions reads back: the formatted body that is sent splits into exactly the texts that were
  typed and one link for each mention, whatever characters the texts and the names contain.
\<close>

section \<open>Escaping\<close>

definition esc :: "char \<Rightarrow> string" where
  "esc c = (if c = CHR ''&'' then ''&amp;'' else if c = CHR ''<'' then ''&lt;'' else if c = CHR ''>'' then ''&gt;''
     else if c = DQUOTE then ''&quot;'' else if c = SQUOTE then ''&#39;'' else [c])"

definition fix_apos :: "string \<Rightarrow> string" where
  "fix_apos s = replace_all ''&apos;'' [SQUOTE] s"

lemma replace_all_tokens:
  "(\<And>c r. replace_all p q (f c @ r) = g c @ replace_all p q r) \<Longrightarrow>
     replace_all p q (concat (map f s)) = concat (map g s)"
  by (induction s) auto

lemmas char_codes = DQUOTE_def SQUOTE_def

lemma replace_char: "replace_all [a] q s = concat (map (\<lambda>c. if c = a then q else [c]) s)"
  by (induction s) auto

lemma replace_char_map:
  "replace_all [a] q (concat (map f s)) = concat (map (\<lambda>c. replace_all [a] q (f c)) s)"
  by (induction s) (auto simp: replace_char)

lemma escape_esc: "escapeHtml s = concat (map esc s)"
proof -
  have "replace_all [SQUOTE] ''&#39;'' (replace_all [DQUOTE] ''&quot;'' (replace_all ''>'' ''&gt;''
      (replace_all ''<'' ''&lt;'' (replace_all ''&'' ''&amp;'' s)))) = concat (map esc s)"
    unfolding replace_char [of "CHR ''&''"] replace_char_map
    by (rule arg_cong [where f = concat], rule map_cong) (auto simp: esc_def char_codes)
  moreover have "replace_all ''&apos;'' [SQUOTE] (concat (map esc s)) = concat (map esc s)"
    by (rule replace_all_tokens) (auto simp: esc_def char_codes)
  ultimately show ?thesis by (simp add: escapeHtml_def)
qed

lemma escape_append [simp]: "escapeHtml (a @ b) = escapeHtml a @ escapeHtml b"
  by (simp add: escape_esc)

lemma escape_Nil [simp]: "escapeHtml [] = []"
  by (simp add: escape_esc)

text \<open>What is unescaped after each replacement.\<close>

definition unesc :: "char set \<Rightarrow> char \<Rightarrow> string" where
  "unesc cs c = (if c \<in> cs then [c] else esc c)"

lemma special_cases:
  obtains "c = CHR ''&''" | "c = CHR ''<''" | "c = CHR ''>''" | "c = DQUOTE" | "c = SQUOTE" | "esc c = [c]" "c \<noteq> CHR ''&''"
  by (cases "c = CHR ''&''"; cases "c = CHR ''<''"; cases "c = CHR ''>''"; cases "c = DQUOTE"; cases "c = SQUOTE")
     (auto simp: esc_def)

lemma unesc_step:
  assumes "CHR ''&'' \<notin> cs"
  shows "replace_all ''&lt;'' ''<'' (concat (map (unesc cs) s)) = concat (map (unesc (insert (CHR ''<'') cs)) s)"
    and "replace_all ''&gt;'' ''>'' (concat (map (unesc cs) s)) = concat (map (unesc (insert (CHR ''>'') cs)) s)"
    and "replace_all ''&quot;'' [DQUOTE] (concat (map (unesc cs) s)) = concat (map (unesc (insert DQUOTE cs)) s)"
    and "replace_all ''&#39;'' [SQUOTE] (concat (map (unesc cs) s)) = concat (map (unesc (insert SQUOTE cs)) s)"
  by (rule replace_all_tokens, rule_tac c = c in special_cases;
      use assms in \<open>simp add: unesc_def esc_def char_codes\<close>)+

lemma unescape_escape: "unescapeHtml (escapeHtml s) = fix_apos s"
proof -
  have "concat (map esc s) = concat (map (unesc {}) s)" by (simp add: unesc_def [abs_def])
  moreover have "replace_all ''&#39;'' [SQUOTE] (replace_all ''&quot;'' [DQUOTE] (replace_all ''&gt;'' ''>''
      (replace_all ''&lt;'' ''<'' (concat (map (unesc {}) s)))))
    = concat (map (unesc {SQUOTE, DQUOTE, CHR ''>'', CHR ''<''}) s)"
    by (simp add: unesc_step [unfolded char_codes] char_codes)
  moreover have "replace_all ''&amp;'' ''&'' (concat (map (unesc {SQUOTE, DQUOTE, CHR ''>'', CHR ''<''}) s)) =
      concat (map (\<lambda>c. [c]) s)"
    by (rule replace_all_tokens) (auto simp: unesc_def esc_def char_codes)
  ultimately show ?thesis by (simp add: unescapeHtml_def escape_esc fix_apos_def)
qed

lemma escape_no_tags: "CHR ''<'' \<notin> set (escapeHtml s)" "CHR ''>'' \<notin> set (escapeHtml s)"
  by (auto simp: escape_esc esc_def char_codes split: if_splits)

section \<open>Splitting\<close>

lemma js_lower_lt [simp]: "js_lower c = CHR ''<'' \<longleftrightarrow> c = CHR ''<''"
proof -
  have "c = CHR ''<''" if "js_lower c = CHR ''<''"
  proof (cases "js_lower c = c")
    case False
    then have "of_char (js_lower c) \<ge> (97 :: nat)"
      by (auto simp: js_lower_def Let_def of_char_of take_bit_nat_def mod_less split: if_splits)
    then show ?thesis using that by simp
  qed (use that in simp)
  then show ?thesis by (auto simp: js_lower_def)
qed

lemma lower_lt: "c \<noteq> CHR ''<'' \<Longrightarrow> toLowerCase (c # s) \<noteq> CHR ''<'' # r"
  by (simp add: toLowerCase_def)

lemma br_split_plain: "CHR ''<'' \<notin> set s \<Longrightarrow> br_split piece s = [piece @ s]"
proof (induction s arbitrary: piece)
  case (Cons c s)
  have "br_match (c # s) = None" using Cons.prems by (auto simp: br_match_def Let_def lower_lt)
  then show ?case using Cons by (subst br_split.simps) simp
qed (simp add: br_split.simps)


lemma strip_tags_plain: "CHR ''<'' \<notin> set s \<Longrightarrow> strip_tags s = s"
  by (induction s) auto

lemma anchor_match_plain: "c \<noteq> CHR ''<'' \<Longrightarrow> anchor_match (c # s) = None"
  by (simp add: anchor_match_def Let_def toLowerCase_def)

lemma split_runs_plain: "CHR ''<'' \<notin> set w \<Longrightarrow> split_runs chunk (w @ s) = split_runs (chunk @ w) s"
proof (induction w arbitrary: chunk)
  case (Cons c w)
  then have "anchor_match (c # w @ s) = None" by (intro anchor_match_plain) auto
  then show ?case using Cons by (subst split_runs.simps) simp
qed simp

lemma up_to_close_plain:
  "CHR ''<'' \<notin> set w \<Longrightarrow> list_all (\<lambda>c. \<not> line_end c) w \<Longrightarrow> up_to_close (w @ ''</a>'' @ s) = Some (w, s)"
proof (induction w)
  case (Cons c w)
  then have "toLowerCase (take 4 (c # w @ ''</a>'' @ s)) \<noteq> ''</a>''" by (auto simp: toLowerCase_def)
  then show ?case using Cons by simp
qed (simp add: toLowerCase_def js_lower_def)

lemma up_to_quote:
  assumes "q \<notin> set h"
  shows "takeWhile (\<lambda>c. c \<noteq> q) (h @ q # r) = h" and "dropWhile (\<lambda>c. c \<noteq> q) (h @ q # r) = q # r"
  using assms by (induction h) auto

lemma anchor_match_shape:
  assumes "DQUOTE \<notin> set h" and "h \<noteq> []"
  shows "anchor_match (''<a href='' @ DQUOTE # h @ DQUOTE # CHR ''>'' # b) =
    map_option (\<lambda>(inner, rest). (h, inner, rest)) (up_to_close b)"
proof -
  have "toLowerCase ''<a'' = ''<a''" and "toLowerCase (''href='' @ [DQUOTE]) = ''href='' @ [DQUOTE]"
    and "is_space (CHR '' '')" and "\<not> is_space (CHR ''h'')"
    by (simp_all add: toLowerCase_def js_lower_def is_space_def DQUOTE_def)
  then show ?thesis
    using assms by (simp add: anchor_match_def Let_def up_to_quote)
qed

lemma esc_line_end: "\<not> line_end c \<Longrightarrow> list_all (\<lambda>d. \<not> line_end d) (esc c)"
  by (rule special_cases [of c]) (simp_all add: esc_def char_codes line_end_def)

lemma escape_line_end: "list_all (\<lambda>c. \<not> line_end c) s \<Longrightarrow> list_all (\<lambda>c. \<not> line_end c) (escapeHtml s)"
  by (induction s) (simp_all add: escape_esc esc_line_end)

lemma anchor_match_anchor:
  assumes "DQUOTE \<notin> set i" and "list_all (\<lambda>c. \<not> line_end c) display"
  shows "anchor_match (anchorForUser i display @ s) = Some (MATRIX_URL_BASE @ i, escapeHtml display, s)"
proof -
  have close: "up_to_close (escapeHtml display @ ''</a>'' @ s) = Some (escapeHtml display, s)"
    by (rule up_to_close_plain [OF escape_no_tags(1) escape_line_end [OF assms(2)]])
  have "DQUOTE \<notin> set (MATRIX_URL_BASE @ i)" and "MATRIX_URL_BASE @ i \<noteq> []"
    using assms(1) by (simp_all add: MATRIX_URL_BASE_def DQUOTE_def)
  from anchor_match_shape [OF this, of "escapeHtml display @ ''</a>'' @ s"] close
  show ?thesis by (simp add: anchorForUser_def)
qed

section \<open>The pieces of a message\<close>

text \<open>A character that is no mention, or a mention.\<close>

fun message_pieces :: "obj list \<Rightarrow> char option \<Rightarrow> string \<Rightarrow> (char + mention) list" where
  "message_pieces ms prior [] = []"
| "message_pieces ms prior (ch # after) =
     (if ch = CHR ''@'' \<and> is_delim prior
      then let m = next_mention ms after
           in Inr m # message_pieces ms (Some (last (ch # mention_text m))) (drop (length (mention_text m)) after)
      else Inl ch # message_pieces ms (Some ch) after)"

fun typed :: "char + mention \<Rightarrow> string" where
  "typed (Inl c) = [c]"
| "typed (Inr m) = CHR ''@'' # mention_text m"

text \<open>The member a mention links to, and the name shown for it.\<close>

fun linked :: "char + mention \<Rightarrow> (string \<times> string) option" where
  "linked (Inr (by_name m s)) = Some (member_id m, or_else (member_name m) s)"
| "linked (Inr (by_handle m s)) = Some (member_id m, or_else (member_name m) (member_id m))"
| "linked _ = None"

definition text_part :: "string \<Rightarrow> HtmlRun list" where
  "text_part s = (if s = [] then [] else [text_run (fix_apos s)])"

text \<open>The runs a message should show: what was typed, and a link for each mention of a member.\<close>

fun shown_runs :: "string \<Rightarrow> (char + mention) list \<Rightarrow> HtmlRun list" where
  "shown_runs before_link [] = text_part before_link"
| "shown_runs before_link (p # ps) =
     (case linked p of
        None \<Rightarrow> shown_runs (before_link @ typed p) ps
      | Some (i, display) \<Rightarrow>
          text_part before_link @ link_run (MATRIX_URL_BASE @ i) (fix_apos (CHR ''@'' # display)) # shown_runs [] ps)"

definition html_of :: "char + mention \<Rightarrow> string" where
  "html_of p = (case linked p of None \<Rightarrow> escapeHtml (typed p) | Some (i, display) \<Rightarrow> anchorForUser i (CHR ''@'' # display))"

definition mentioned :: "(char + mention) list \<Rightarrow> string list" where
  "mentioned ps = fold add_user (map fst (List.map_filter linked ps)) []"

lemma escape_handle: "list_all handle_char s \<Longrightarrow> escapeHtml (CHR ''@'' # s) = CHR ''@'' # s"
proof -
  have "esc c = [c]" if "handle_char c" for c
    by (rule special_cases [of c]) (use that in \<open>simp_all add: handle_char_def Let_def char_codes\<close>)
  then show "list_all handle_char s \<Longrightarrow> escapeHtml (CHR ''@'' # s) = CHR ''@'' # s"
    by (induction s) (simp_all add: escape_esc esc_def char_codes)
qed

text \<open>What is recognised: members of the room, and texts made of the characters of handles.\<close>

fun mention_ok :: "obj list \<Rightarrow> mention \<Rightarrow> bool" where
  "mention_ok ms (by_name m s) \<longleftrightarrow> m \<in> set ms \<and> member_name m \<noteq> []"
| "mention_ok ms (by_handle m s) \<longleftrightarrow> m \<in> set ms"
| "mention_ok ms (everyone s) \<longleftrightarrow> list_all handle_char s"
| "mention_ok ms (unknown_handle s) \<longleftrightarrow> list_all handle_char s"
| "mention_ok ms lone_at \<longleftrightarrow> True"

lemma byHandle_mem: "jm_get (byHandle ms) k = Some m \<Longrightarrow> m \<in> set ms"
  unfolding byHandle_def by (induction ms rule: rev_induct) (auto split: if_splits)

lemma byDisplay_mem: "jm_get (byDisplay ms) k = Some m \<Longrightarrow> m \<in> set ms \<and> member_name m \<noteq> []"
  unfolding byDisplay_def by (induction ms rule: rev_induct) (auto split: if_splits)

lemma next_mention_ok:
  "mention_ok ms (next_mention ms after) \<and> take (length (mention_text (next_mention ms after))) after = mention_text (next_mention ms after)"
proof (cases "matched_name ms after")
  case (Some nm)
  then obtain name m where "jm_get (byDisplay ms) name = Some m" and "nm = (take (length name) after, m)"
    by (auto simp: matched_name_def split: option.splits)
  with Some show ?thesis using byDisplay_mem by (auto simp: next_mention_def min_def)
next
  case None
  let ?raw = "take 64 (takeWhile handle_char after)"
  have "list_all handle_char ?raw" by (auto simp: list_all_iff dest!: in_set_takeD set_takeWhileD)
  moreover have "take (length ?raw) after = ?raw"
    by (metis takeWhile_eq_take take_take length_take min.commute min_def)
  ultimately show ?thesis
    using None byHandle_mem by (auto simp: next_mention_def Let_def split: option.splits)
qed

lemma pieces_ok: "p \<in> set (message_pieces ms prior s) \<Longrightarrow> case p of Inl c \<Rightarrow> True | Inr m \<Rightarrow> mention_ok ms m"
  by (induction ms prior s rule: message_pieces.induct) (auto simp: Let_def next_mention_ok split: if_splits)

lemma pieces_typed: "concat (map typed (message_pieces ms prior s)) = s"
proof (induction ms prior s rule: message_pieces.induct)
  case (2 ms prior ch after)
  then show ?case
    using next_mention_ok [of ms after] append_take_drop_id [of "length (mention_text (next_mention ms after))" after]
    by (auto simp: Let_def)
qed simp

lemma emit_mention_html:
  assumes "mention_ok ms m"
  shows "out_html (emit_mention m st) = out_html st @ escapeHtml (plainBuf st) @ html_of (Inr m)"
    and "plainBuf (emit_mention m st) = []"
    and "found_ids (emit_mention m st) = fold add_user (map fst (List.map_filter linked [Inr m])) (found_ids st)"
  using assms escape_handle [of "mention_text m"] escape_handle [of "[]"]
  by (cases m; simp add: emit_def emit_member_def flushPlain_def html_of_def Let_def List.map_filter_simps)+

lemma parse_loop_pieces:
  "out_html (parse_loop ms prior s st) =
     out_html st @ escapeHtml (plainBuf st) @ concat (map html_of (message_pieces ms prior s)) \<and>
   found_ids (parse_loop ms prior s st) =
     fold add_user (map fst (List.map_filter linked (message_pieces ms prior s))) (found_ids st)"
proof (induction ms prior s st rule: parse_loop.induct)
  case (1 ms prior st)
  then show ?case by (simp add: flushPlain_def List.map_filter_simps)
next
  case (2 ms prior ch after st)
  note ok = next_mention_ok [of ms after, THEN conjunct1]
  show ?case
    using 2 emit_mention_html [OF ok, of st]
    by (auto simp: Let_def html_of_def List.map_filter_simps split: option.splits)
qed

section \<open>Reading back\<close>

text \<open>A member whose identifier has no quotation mark, and no line ends in identifier and name.\<close>

definition plain_member :: "obj \<Rightarrow> bool" where
  "plain_member m \<longleftrightarrow> DQUOTE \<notin> set (member_id m) \<and> list_all (\<lambda>c. \<not> line_end c) (member_id m) \<and>
     list_all (\<lambda>c. \<not> line_end c) (member_name m)"

lemma split_anchor:
  assumes "DQUOTE \<notin> set i" and "list_all (\<lambda>c. \<not> line_end c) display"
  shows "split_runs chunk (anchorForUser i display @ s) =
    text_runs chunk @ link_run (MATRIX_URL_BASE @ i) (fix_apos display) # split_runs [] s"
proof -
  obtain c r where cons: "anchorForUser i display @ s = c # r" by (simp add: anchorForUser_def)
  then show ?thesis
    using anchor_match_anchor [OF assms, of s] strip_tags_plain [OF escape_no_tags(1)] unescape_escape
    by (subst split_runs.simps) simp
qed

lemma text_runs_escape: "text_runs (escapeHtml s) = text_part s"
proof (cases "s = []")
  case False
  then have "escapeHtml s \<noteq> []" by (cases s) (auto simp: escape_esc esc_def)
  then show ?thesis
    using False br_split_plain [OF escape_no_tags(1), of "[]" s]
    by (simp add: text_runs_def text_part_def unescape_escape)
qed (simp add: text_runs_def text_part_def br_split.simps)

lemma split_pieces:
  assumes "list_all plain_member ms" and "\<forall>p \<in> set ps. case p of Inl c \<Rightarrow> True | Inr m \<Rightarrow> mention_ok ms m"
  shows "split_runs (escapeHtml s) (concat (map html_of ps)) = shown_runs s ps"
  using assms(2)
proof (induction ps arbitrary: s)
  case Nil
  then show ?case by (simp add: split_runs.simps text_runs_escape)
next
  case (Cons p ps)
  then have ih: "split_runs (escapeHtml s) (concat (map html_of ps)) = shown_runs s ps" for s by simp
  show ?case
  proof (cases "linked p")
    case None
    then have "split_runs (escapeHtml s) (concat (map html_of (p # ps))) =
        split_runs (escapeHtml (s @ typed p)) (concat (map html_of ps))"
      by (simp add: html_of_def split_runs_plain escape_no_tags)
    with None ih [of "s @ typed p"] show ?thesis by simp
  next
    case (Some l)
    then obtain i d where l: "l = (i, d)" by force
    from Some l Cons.prems obtain m where m: "m \<in> set ms" "i = member_id m" "d \<in> {member_name m, member_id m}"
      by (cases p rule: linked.cases) (auto simp: or_else_def)
    then have "plain_member m" using assms(1) by (simp add: list_all_iff)
    then have "DQUOTE \<notin> set i" and "list_all (\<lambda>c. \<not> line_end c) d" using m(2,3) by (auto simp: plain_member_def)
    moreover have "\<not> line_end (CHR ''@'')" by (simp add: line_end_def)
    ultimately have "DQUOTE \<notin> set i" and "list_all (\<lambda>c. \<not> line_end c) (CHR ''@'' # d)" by simp_all
    note split = split_anchor [OF this]
    have "html_of p = anchorForUser i (CHR ''@'' # d)" using Some l by (simp add: html_of_def)
    then show ?thesis using split Some l ih [of "[]"] by (simp add: text_runs_escape)
  qed
qed


definition example_members :: "obj list" where
  "example_members =
     [[(''id'', JStr ''@al:h''), (''displayName'', JStr ''A <b>'')], [(''id'', JStr ''@bob:h''), (''displayName'', JNull)]]"


text \<open>
  A handle before a full stop is not recognised, since the characters of handles include it; a name is.
\<close>

lemma handle_before_full_stop:
  "mentioned (message_pieces example_members None ''ask @bob.'') = [] \<and>
   mentioned (message_pieces example_members None ''ask @a <b>.'') = [''@al:h'']"
  by code_simp

text \<open>Unescaping is not the inverse of escaping: a text that spells out an apostrophe is changed.\<close>

lemma apostrophe_changed:
  "unescapeHtml (escapeHtml ''&apos;'') = [SQUOTE]"
  by (simp add: unescape_escape fix_apos_def)

lemma escape_restores: "fix_apos s = s \<Longrightarrow> unescapeHtml (escapeHtml s) = s"
  by (simp add: unescape_escape)

section \<open>What is sent\<close>

text \<open>One's own identifier is not among the mentions, and what is mentioned otherwise is kept.\<close>

lemma own_mention_dropped:
  "me \<noteq> [] \<Longrightarrow> fst (prepareMentionsDataPayload body members (Some me)) = Some m \<Longrightarrow>
     me \<notin> set (mention_users m) \<and> hasMentions (Some m)"
  by (cases me) (auto simp: prepareMentionsDataPayload_def toRpcMentions_def hasMentions_def Let_def
      split: prod.splits option.splits if_splits)

end
