(* ===== verification/Matrix_Text.thy ===== *)
theory Matrix_Text
  imports Matrix_Mentions Matrix_Selectors
begin

text \<open>
  \<^verbatim>\<open>ui/common/utils/matrix.ts\<close>: the texts of payments, the links to rooms and users, replies without
  what they quote, previews of rooms and of messages, and the comparisons that decide whether a row is
  rendered again. \<open>t\<close> is the translation function; the functions that format amounts are parameters.
  Regular expressions are written out as functions.
\<close>

type_synonym tfun = "string \<Rightarrow> (string \<times> string) list \<Rightarrow> string"

section \<open>The text of a payment\<close>

definition label_of :: "obj option \<Rightarrow> string option \<Rightarrow> string" where
  "label_of user i =
     (case user of
        None \<Rightarrow> matrixIdToUsername i
      | Some u \<Rightarrow> (case obj_get u ''displayName'' of JStr n \<Rightarrow> or_else n (matrixIdToUsername i) | _ \<Rightarrow> matrixIdToUsername i))"

text \<open>
  \<open>formatted\<close> is the pair of amounts, of the transaction when it is known and else of the amount of the
  content.
\<close>

definition makeMatrixPaymentText ::
  "tfun \<Rightarrow> (int \<Rightarrow> string \<times> string) \<Rightarrow> (string \<times> string) option \<Rightarrow> string \<Rightarrow> RpcPaymentMessageContent \<Rightarrow> string \<Rightarrow>
     obj option \<Rightarrow> obj option \<Rightarrow> obj option \<Rightarrow> string" where
  "makeMatrixPaymentText t fromMSats fromTxn eventSenderId p myId eventSender paymentSender paymentRecipient =
     (let (formattedPrimaryAmount, formattedSecondaryAmount) =
            (case fromTxn of Some a \<Rightarrow> a | None \<Rightarrow> fromMSats (pay_amount p));
          named = (\<lambda>name recipient. [(''name'', name), (''recipient'', recipient),
            (''fiat'', formattedPrimaryAmount), (''amount'', formattedSecondaryAmount), (''memo'', [])]);
          previewStringParams = named (label_of eventSender (Some eventSenderId))
            (label_of paymentRecipient (pay_recipientId p))
      in if (case pay_bolt11 p of None \<Rightarrow> False | Some b \<Rightarrow> b \<noteq> [])
         then t ''feature.chat.lightning-invoice-chat''
                [(''amountString'', formattedPrimaryAmount @ '' ('' @ formattedSecondaryAmount @ '')'')]
         else if Some eventSenderId = pay_recipientId p
         then t (if eventSenderId = myId then ''feature.chat.you-requested-payment'' else ''feature.chat.they-requested-payment'')
                previewStringParams
         else if pay_recipientId p = Some myId then t ''feature.chat.they-sent-payment'' previewStringParams
         else if pay_senderId p = Some myId then t ''feature.chat.you-sent-payment'' previewStringParams
         else t ''feature.chat.other-sent-payment''
                (named (label_of paymentSender (pay_senderId p)) (label_of eventSender (Some eventSenderId))))"

section \<open>Links\<close>

definition encodeFediMatrixUserUri :: "(string \<Rightarrow> string) \<Rightarrow> string \<Rightarrow> bool \<Rightarrow> string" where
  "encodeFediMatrixUserUri encodeURIComponent i deep =
     (if deep then ''fedi://user/'' @ encodeURIComponent i else ''fedi:user:'' @ i)"

text \<open>An identifier: the sigil, at least one character that is no colon, a colon, and at least one character.\<close>

definition valid_id :: "char \<Rightarrow> string \<Rightarrow> bool" where
  "valid_id sigil i \<longleftrightarrow>
     (case i of
        [] \<Rightarrow> False
      | c # r \<Rightarrow>
          c = sigil \<and> takeWhile (\<lambda>d. d \<noteq> CHR '':'') r \<noteq> [] \<and>
          (case dropWhile (\<lambda>d. d \<noteq> CHR '':'') r of
             [] \<Rightarrow> False
           | _ # host \<Rightarrow> host \<noteq> [] \<and> list_all (\<lambda>d. \<not> line_end d) host))"

definition isValidMatrixUserId :: "string \<Rightarrow> bool" where
  "isValidMatrixUserId = valid_id (CHR ''@'')"

definition isValidMatrixRoomId :: "string \<Rightarrow> bool" where
  "isValidMatrixRoomId = valid_id (CHR ''!'')"

text \<open>\<^verbatim>\<open>uri.replace(/https?:\/\//g, '')\<close>\<close>

fun strip_http :: "string \<Rightarrow> string" where
  "strip_http [] = []"
| "strip_http (c # s) =
     (if take 7 (c # s) = ''http://'' then strip_http (drop 6 s)
      else if take 8 (c # s) = ''https://'' then strip_http (drop 7 s)
      else c # strip_http s)"

text \<open>The rest after a prefix, in whatever case.\<close>

definition after_prefix :: "string \<Rightarrow> string \<Rightarrow> string option" where
  "after_prefix p s = (if toLowerCase (take (length p) s) = p then Some (drop (length p) s) else None)"

definition either :: "'a option \<Rightarrow> 'a option \<Rightarrow> 'a option" where
  "either a b = (case a of Some x \<Rightarrow> Some x | None \<Rightarrow> b)"

text \<open>\<^verbatim>\<open>^fedi(?::|:\/\/)kind[:/]\<close>\<close>

definition after_scheme :: "string \<Rightarrow> string \<Rightarrow> string option" where
  "after_scheme kind s =
     either (either (after_prefix (''fedi:'' @ kind @ '':'') s) (after_prefix (''fedi:'' @ kind @ ''/'') s))
            (either (after_prefix (''fedi://'' @ kind @ '':'') s) (after_prefix (''fedi://'' @ kind @ ''/'') s))"

text \<open>\<^verbatim>\<open>(.+?)(?:::|$)\<close>: at least one character, up to the first two colons or to the end.\<close>

fun up_to_colons :: "string \<Rightarrow> string option" where
  "up_to_colons [] = None"
| "up_to_colons (c # s) =
     (if line_end c then None
      else if s = [] \<or> take 2 s = ''::'' then Some [c]
      else map_option ((#) c) (up_to_colons s))"

definition decodeFediMatrixRoomUri :: "string \<Rightarrow> string + string" where
  "decodeFediMatrixRoomUri uri =
     (case after_scheme ''room'' (strip_http uri) of
        None \<Rightarrow> Inl ''feature.chat.invalid-room''
      | Some r \<Rightarrow>
          (case up_to_colons r of
             None \<Rightarrow> Inl ''feature.chat.invalid-room''
           | Some decodedId \<Rightarrow>
               if isValidMatrixRoomId decodedId then Inr decodedId else Inl ''feature.chat.invalid-room''))"

definition decodeFediMatrixUserUri :: "string \<Rightarrow> string + string" where
  "decodeFediMatrixUserUri uri =
     (case after_scheme ''user'' (strip_http uri) of
        None \<Rightarrow> Inl ''feature.chat.invalid-member''
      | Some i \<Rightarrow>
          if i \<noteq> [] \<and> list_all (\<lambda>c. \<not> line_end c) i \<and> isValidMatrixUserId i then Inr i
          else Inl ''feature.chat.invalid-member'')"

section \<open>Replies\<close>

text \<open>The body of a content, where its kind has one.\<close>

fun body_of :: "RpcMsgLikeKind \<Rightarrow> string option" where
  "body_of (m_text c) = Some (txt_body c)"
| "body_of (m_notice c) = Some (txt_body c)"
| "body_of (m_emote c) = Some (txt_body c)"
| "body_of (federationInvite c) = Some (txt_body c)"
| "body_of (communityInvite c) = Some (txt_body c)"
| "body_of (m_file c) = Some (media_body c)"
| "body_of (m_image c) = Some (media_body c)"
| "body_of (m_video c) = Some (media_body c)"
| "body_of (m_audio c) = Some (media_body c)"
| "body_of (m_poll c) = Some (poll_body c)"
| "body_of (payment p) = Some (pay_body p)"
| "body_of (form b) = Some b"
| "body_of (preview_media b) = Some b"
| "body_of _ = None"

fun formatted_of :: "RpcMsgLikeKind \<Rightarrow> string option" where
  "formatted_of (m_text c) = txt_formatted c"
| "formatted_of (m_notice c) = txt_formatted c"
| "formatted_of (m_emote c) = txt_formatted c"
| "formatted_of (federationInvite c) = txt_formatted c"
| "formatted_of (communityInvite c) = txt_formatted c"
| "formatted_of _ = None"

definition isRepliableContent :: "inReply_details option \<Rightarrow> bool" where
  "isRepliableContent reply_arg \<longleftrightarrow>
     (case reply_arg of Some (reply_ready i c) \<Rightarrow> body_of c \<noteq> None | _ \<Rightarrow> False)"

definition isReply :: "MatrixEvent \<Rightarrow> bool" where
  "isReply event \<longleftrightarrow> inReply event \<noteq> None"

definition getReplyData :: "MatrixEvent \<Rightarrow> (string \<times> RpcMsgLikeKind) option" where
  "getReplyData event =
     (if isRepliableContent (inReply event)
      then (case inReply event of Some (reply_ready i c) \<Rightarrow> Some (i, c) | _ \<Rightarrow> None)
      else None)"

definition getReplyEventId :: "MatrixEvent \<Rightarrow> string option" where
  "getReplyEventId event = map_option fst (getReplyData event)"

definition HTML_ENTITIES :: "(string \<times> string) list" where
  "HTML_ENTITIES = [(''&amp;'', ''&''), (''&lt;'', ''<''), (''&gt;'', ''>''), (''&quot;'', [DQUOTE]),
     (''&#39;'', [SQUOTE]), (''&nbsp;'', '' '')]"

definition word_char :: "char \<Rightarrow> bool" where
  "word_char c \<longleftrightarrow>
     (let n = of_char c :: nat in 97 \<le> n \<and> n \<le> 122 \<or> 65 \<le> n \<and> n \<le> 90 \<or> 48 \<le> n \<and> n \<le> 57 \<or> n = 95)"

text \<open>\<^verbatim>\<open>/&[#\w]+;/g\<close>\<close>

fun decodeHtmlEntities :: "string \<Rightarrow> string" where
  "decodeHtmlEntities [] = []"
| "decodeHtmlEntities (c # s) =
     (let name = takeWhile (\<lambda>d. d = CHR ''#'' \<or> word_char d) s; rest = drop (length name) s
      in if c = CHR ''&'' \<and> name \<noteq> [] \<and> take 1 rest = '';''
         then (case map_of HTML_ENTITIES (''&'' @ name @ '';'') of
                 Some e \<Rightarrow> e
               | None \<Rightarrow> ''&'' @ name @ '';'') @ decodeHtmlEntities (drop (length name + 1) s)
         else c # decodeHtmlEntities s)"

definition starts_with :: "string \<Rightarrow> string \<Rightarrow> bool" where
  "starts_with p s \<longleftrightarrow> take (length p) s = p"

text \<open>The identifier in a line that begins with \<^verbatim>\<open>> <@...>\<close>.\<close>

definition quoted_user :: "string \<Rightarrow> string option" where
  "quoted_user line =
     (let name = takeWhile (\<lambda>c. c \<noteq> CHR ''>'') (drop 4 line)
      in if starts_with ''> <@'' line \<and> name \<noteq> [] \<and> length name < length (drop 4 line) then Some name else None)"

text \<open>
  The loop over the lines: the number of quoting lines so far, the user they quote, and whether the loop
  left because of another user.
\<close>

fun quote_lines :: "string option \<Rightarrow> string list \<Rightarrow> nat \<times> bool" where
  "quote_lines firstQuoteUser [] = (0, True)"
| "quote_lines firstQuoteUser (line # lines) =
     (case quoted_user line of
        None \<Rightarrow> (0, True)
      | Some currentUser \<Rightarrow>
          (case firstQuoteUser of
             Some u \<Rightarrow>
               if currentUser \<noteq> u then (0, False)
               else (case quote_lines firstQuoteUser lines of (n, same) \<Rightarrow> (n + 1, same))
           | None \<Rightarrow> (case quote_lines (Some currentUser) lines of (n, same) \<Rightarrow> (n + 1, same))))"

text \<open>The lines after the quotation, where there is one.\<close>

definition findLastQuoteLineIndex :: "string list \<Rightarrow> nat option" where
  "findLastQuoteLineIndex lines =
     (case quote_lines None lines of
        (n, allQuotesFromSameUser) \<Rightarrow>
          if 0 < n \<and> n < length lines \<and> allQuotesFromSameUser then Some n else None)"

fun split_lines :: "string \<Rightarrow> string list" where
  "split_lines [] = [[]]"
| "split_lines (c # s) =
     (if c = CHR 0x0A then [] # split_lines s
      else (case split_lines s of [] \<Rightarrow> [[c]] | l # ls \<Rightarrow> (c # l) # ls))"

fun join_lines :: "string list \<Rightarrow> string" where
  "join_lines [] = []"
| "join_lines [l] = l"
| "join_lines (l # ls) = l @ CHR 0x0A # join_lines ls"

text \<open>\<^verbatim>\<open>formattedBody.replace(/<mx-reply>[\s\S]*?<\/mx-reply>/g, '')\<close>\<close>

fun after_first :: "string \<Rightarrow> string \<Rightarrow> string option" where
  "after_first p [] = (if p = [] then Some [] else None)"
| "after_first p (c # s) =
     (if take (length p) (c # s) = p then Some (drop (length p) (c # s)) else after_first p s)"

lemma after_first_shorter: "after_first p s = Some r \<Longrightarrow> length r \<le> length s"
proof (induction s)
  case (Cons c s)
  then show ?case by (fastforce split: if_splits)
qed (auto split: if_splits)

function strip_mx_reply :: "string \<Rightarrow> string" where
  "strip_mx_reply s =
     (case s of
        [] \<Rightarrow> []
      | c # r \<Rightarrow>
          (case (if starts_with ''<mx-reply>'' s then after_first ''</mx-reply>'' (drop 9 r) else None) of
             Some rest \<Rightarrow> strip_mx_reply rest
           | None \<Rightarrow> c # strip_mx_reply r))"
  by auto
termination
  by (relation "measure length") (auto dest!: after_first_shorter split: if_splits)

declare strip_mx_reply.simps [simp del]

definition br_to_newline :: "string \<Rightarrow> string" where
  "br_to_newline s = join_lines (br_split [] s)"

definition contains_text :: "string \<Rightarrow> string \<Rightarrow> bool" where
  "contains_text p s \<longleftrightarrow> after_first p s \<noteq> None"

definition stripReplyFromBody :: "string \<Rightarrow> string option \<Rightarrow> string" where
  "stripReplyFromBody body formattedBody =
     (let lines = split_lines body;
          multi = (if length lines \<ge> 2 then findLastQuoteLineIndex lines else None)
      in if (case formattedBody of None \<Rightarrow> False | Some f \<Rightarrow> contains_text ''<mx-reply>'' f)
         then decodeHtmlEntities (strip_tags (br_to_newline (strip_mx_reply (the formattedBody))))
         else if length lines \<ge> 3 \<and> starts_with ''> <@'' (lines ! 0) \<and> lines ! 1 = []
         then decodeHtmlEntities (join_lines (drop 2 lines))
         else case multi of
                Some n \<Rightarrow> decodeHtmlEntities (join_lines (drop n lines))
              | None \<Rightarrow>
                  (case formattedBody of
                     Some (c # f) \<Rightarrow> decodeHtmlEntities (strip_tags (br_to_newline (c # f)))
                   | _ \<Rightarrow> decodeHtmlEntities body))"

definition getEventBodyPreview :: "nat \<Rightarrow> MatrixEvent \<Rightarrow> string" where
  "getEventBodyPreview maxLength event =
     (let body = (case body_of (content event) of Some b \<Rightarrow> b | None \<Rightarrow> ''Message'')
      in or_else (take maxLength (stripReplyFromBody body (formatted_of (content event)))) ''Message'')"

section \<open>Tokens for everyone\<close>

datatype EveryoneRun = text_token string | everyone_token string

text \<open>\<^verbatim>\<open>@(?:everyone|room)\b\<close> at the head of a text, in whatever case: its length.\<close>

definition everyone_match :: "string \<Rightarrow> nat option" where
  "everyone_match s =
     (let at = (\<lambda>p. toLowerCase (take (length p) s) = p \<and>
                     (case char_at s (length p) of None \<Rightarrow> True | Some c \<Rightarrow> \<not> word_char c))
      in if at ''@everyone'' then Some 9 else if at (CHR ''@'' # ROOM_MENTION) then Some 5 else None)"

function everyone_runs :: "string \<Rightarrow> string \<Rightarrow> EveryoneRun list" where
  "everyone_runs chunk s =
     (case s of
        [] \<Rightarrow> (if chunk = [] then [] else [text_token chunk])
      | c # r \<Rightarrow>
          (case everyone_match s of
             Some n \<Rightarrow>
               (if chunk = [] then [] else [text_token chunk]) @ everyone_token (take n s) # everyone_runs [] (drop n s)
           | None \<Rightarrow> everyone_runs (chunk @ [c]) r))"
  by auto
termination
  by (relation "measure (\<lambda>(chunk, s). length s)") (auto simp: everyone_match_def Let_def split: if_splits)

declare everyone_runs.simps [simp del]

definition splitEveryoneRuns :: "string \<Rightarrow> EveryoneRun list" where
  "splitEveryoneRuns text_arg = everyone_runs [] text_arg"

section \<open>Previews\<close>

definition getEventPreviewTextKey :: "MatrixEvent \<Rightarrow> string option" where
  "getEventPreviewTextKey event =
     map_of [(''failedToParseCustom'', ''feature.chat.new-message''), (''unknown'', ''feature.chat.new-message''),
       (''unableToDecrypt'', ''feature.chat.message-private''), (''xyz.fedi.multispend'', ''feature.chat.multispend-preview''),
       (''spTransfer'', ''feature.chat.sp-transfer-preview''), (''redacted'', ''feature.chat.message-deleted'')]
       (msgtype (content event))"

definition getRoomPreviewText :: "tfun \<Rightarrow> MatrixRoom \<Rightarrow> string" where
  "getRoomPreviewText t r =
     (if isBlocked r = Some True then t ''feature.chat.user-is-blocked'' []
      else case room_preview r of
             None \<Rightarrow> t ''feature.chat.no-messages'' []
           | Some preview \<Rightarrow>
               if isPreviewableRoomMemberEvent preview
               then (case room_member_of (content preview) of
                       Some m \<Rightarrow> t ''feature.chat.member-joined''
                         [(''user'', or_else (case member_userDisplayName m of Some n \<Rightarrow> n | None \<Rightarrow> [])
                            (matrixIdToUsername (Some (member_userId m))))]
                     | None \<Rightarrow> [])
               else if isRoomMemberEvent preview then t ''feature.chat.no-messages'' []
               else case getEventPreviewTextKey preview of
                      Some key \<Rightarrow> t key []
                    | None \<Rightarrow> getEventBodyPreview 50 preview)"

definition getUserLabel :: "obj \<Rightarrow> string" where
  "getUserLabel u =
     (case List.map_filter (\<lambda>key. case obj_get u key of JStr s \<Rightarrow> if js_trim s = [] then None else Some s | _ \<Rightarrow> None)
             [''displayName'', ''username'', ''name''] of
        [] \<Rightarrow> []
      | v # _ \<Rightarrow> v)"

section \<open>Comparisons\<close>

text \<open>
  Whether two polls are the same for the row that shows them. The lists of votes are compared as references:
  \<open>sameArray key\<close> is whether both polls hold the same array under the key. The votes are an object, which has
  no length, so the comparison of the lengths compares \<^verbatim>\<open>undefined\<close> with itself.
\<close>

definition arePollEventsEqual ::
  "(string \<Rightarrow> bool) \<Rightarrow> string \<times> RpcPollResult \<Rightarrow> string \<times> RpcPollResult \<Rightarrow> bool" where
  "arePollEventsEqual sameArray a b \<longleftrightarrow>
     fst a = fst b \<and> poll_endTime (snd a) = poll_endTime (snd b) \<and>
     length (poll_answers (snd a)) = length (poll_answers (snd b)) \<and>
     list_all sameArray (jm_keys (poll_votes (snd a)))"

text \<open>The comparisons of rooms; a preview is compared as a reference, which \<open>samePreview\<close> tells.\<close>

definition areChatListRoomRenderFieldsEqual ::
  "(MatrixRoom \<Rightarrow> MatrixRoom \<Rightarrow> bool) \<Rightarrow> MatrixRoom \<Rightarrow> MatrixRoom \<Rightarrow> bool" where
  "areChatListRoomRenderFieldsEqual samePreview a b \<longleftrightarrow>
     room_id a = room_id b \<and> room_name a = room_name b \<and> isDirect a = isDirect b \<and>
     broadcastOnly a = broadcastOnly b \<and> room_avatarUrl a = room_avatarUrl b \<and>
     directUserId a = directUserId b \<and> isBlocked a = isBlocked b \<and> roomState a = roomState b \<and>
     notificationCount a = notificationCount b \<and> isMarkedUnread a = isMarkedUnread b \<and> samePreview a b"

definition areChatListRoomsEqual ::
  "(MatrixRoom \<Rightarrow> MatrixRoom \<Rightarrow> bool) \<Rightarrow> MatrixRoom list \<Rightarrow> MatrixRoom list \<Rightarrow> bool" where
  "areChatListRoomsEqual samePreview a b \<longleftrightarrow>
     length a = length b \<and> list_all (\<lambda>(x, y). areChatListRoomRenderFieldsEqual samePreview x y) (zip a b)"

definition areMatrixRoomPreviewInputsEqual ::
  "(MatrixRoom \<Rightarrow> MatrixRoom \<Rightarrow> bool) \<Rightarrow> MatrixRoom option \<Rightarrow> MatrixRoom option \<Rightarrow> bool" where
  "areMatrixRoomPreviewInputsEqual samePreview a b \<longleftrightarrow>
     (case (a, b) of
        (None, None) \<Rightarrow> True
      | (Some x, Some y) \<Rightarrow>
          room_id x = room_id y \<and> samePreview x y \<and> notificationCount x = notificationCount y \<and>
          isMarkedUnread x = isMarkedUnread y \<and> isBlocked x = isBlocked y \<and> broadcastOnly x = broadcastOnly y \<and>
          isPublic x = isPublic y \<and> roomState x = roomState y
      | _ \<Rightarrow> False)"

end
