(* ===== verification/Matrix_Text_Properties.thy ===== *)
theory Matrix_Text_Properties
  imports Matrix_Text
begin

text \<open>
  Links to rooms and users read back, the quotation of a reply is removed, tokens for everyone split a text
  without loss, and a poll that gets its first votes counts as unchanged.
\<close>

section \<open>Links\<close>

text \<open>No link inside of an identifier: it has no slash.\<close>

lemma strip_http_plain: "CHR ''/'' \<notin> set s \<Longrightarrow> strip_http s = s"
proof (induction s)
  case (Cons c s)
  have "take 7 (c # s) \<noteq> ''http://''" and "take 8 (c # s) \<noteq> ''https://''"
    using Cons.prems set_take_subset [of 7 "c # s"] set_take_subset [of 8 "c # s"] by auto
  then show ?case using Cons by (subst strip_http.simps(2)) (simp del: take_Suc_Cons add: numeral_eq_Suc)
qed simp

lemma contains_Cons: "contains_text p (c # s) \<longleftrightarrow> take (length p) (c # s) = p \<or> contains_text p s"
  by (simp add: contains_text_def)

lemma up_to_colons_id:
  assumes "i \<noteq> []" and "list_all (\<lambda>c. \<not> line_end c) i" and "\<not> contains_text ''::'' (i @ '':'')"
  shows "up_to_colons (i @ '':::'') = Some i"
  using assms
proof (induction i)
  case (Cons c i)
  show ?case
  proof (cases i)
    case Nil
    then show ?thesis using Cons.prems by simp
  next
    case (Cons d j)
    have "\<not> contains_text ''::'' (i @ '':'')" using Cons.prems(3) by (simp add: contains_Cons)
    moreover from this have "take 2 (i @ '':::'') \<noteq> ''::''" using Cons by (cases j) (auto simp: contains_Cons)
    ultimately show ?thesis using Cons.IH Cons.prems(2) Cons by simp
  qed
qed simp

lemma after_scheme_room: "after_scheme ''room'' (''fedi:room:'' @ s) = Some s"
  by (simp add: after_scheme_def after_prefix_def either_def toLowerCase_def js_lower_def)

lemma after_scheme_user: "after_scheme ''user'' (''fedi:user:'' @ s) = Some s"
  by (simp add: after_scheme_def after_prefix_def either_def toLowerCase_def js_lower_def)

text \<open>
  The link to a room leads back to it, for identifiers without slashes, line ends, empty parts and a
  colon at the end.
\<close>

theorem room_uri_roundtrip:
  assumes "isValidMatrixRoomId i" and "CHR ''/'' \<notin> set i" and "list_all (\<lambda>c. \<not> line_end c) i"
    and "\<not> contains_text ''::'' (i @ '':'')"
  shows "decodeFediMatrixRoomUri (encodeFediMatrixRoomUri encodeURIComponent i False) = Inr i"
proof -
  have "i \<noteq> []" using assms(1) by (auto simp: isValidMatrixRoomId_def valid_id_def)
  moreover have "strip_http (''fedi:room:'' @ i @ '':::'') = ''fedi:room:'' @ i @ '':::''"
    using assms(2) by (intro strip_http_plain) auto
  moreover from calculation(1) have "up_to_colons (i @ '':::'') = Some i" by (rule up_to_colons_id [OF _ assms(3,4)])
  ultimately show ?thesis
    using assms(1)
    by (simp only: decodeFediMatrixRoomUri_def encodeFediMatrixRoomUri_def if_False after_scheme_room option.case if_True)
qed

theorem room_uri_roundtrip_witness:
  "decodeFediMatrixRoomUri (encodeFediMatrixRoomUri id ''!abc:h.org:8448'' False) = Inr ''!abc:h.org:8448''"
proof -
  have "isValidMatrixRoomId ''!abc:h.org:8448''" and "CHR ''/'' \<notin> set ''!abc:h.org:8448''"
    and "list_all (\<lambda>c. \<not> line_end c) ''!abc:h.org:8448''"
    and "\<not> contains_text ''::'' (''!abc:h.org:8448'' @ '':'')" by code_simp+
  then show ?thesis by (rule room_uri_roundtrip)
qed

lemma user_uri_roundtrip:
  assumes "isValidMatrixUserId i" and "CHR ''/'' \<notin> set i" and "list_all (\<lambda>c. \<not> line_end c) i"
  shows "decodeFediMatrixUserUri (encodeFediMatrixUserUri encodeURIComponent i False) = Inr i"
proof -
  have "i \<noteq> []" using assms(1) by (auto simp: isValidMatrixUserId_def valid_id_def)
  moreover have "strip_http (''fedi:user:'' @ i) = ''fedi:user:'' @ i"
    using assms(2) by (intro strip_http_plain) auto
  ultimately show ?thesis
    using assms
    by (simp only: decodeFediMatrixUserUri_def encodeFediMatrixUserUri_def if_False after_scheme_user option.case) simp
qed

section \<open>Replies\<close>

lemma join_split: "join_lines (split_lines s) = s"
proof (induction s)
  case (Cons c s)
  then show ?case by (cases "split_lines s" rule: join_lines.cases) (auto split: list.splits)
qed simp

lemma split_lines_not_Nil [simp]: "split_lines s \<noteq> []"
  by (cases s) (auto split: list.splits)

lemma split_first: "CHR 0x0A \<notin> set l \<Longrightarrow> split_lines (l @ CHR 0x0A # s) = l # split_lines s"
  by (induction l) auto

text \<open>
  The text of a reply to a one-line message is what is left when the quotation is removed, whatever the
  reply contains.
\<close>

theorem reply_fallback_removed:
  assumes "CHR 0x0A \<notin> set quoted" and "formattedBody = None"
  shows "stripReplyFromBody (''> <@'' @ quoted @ [CHR 0x0A, CHR 0x0A] @ reply_text) formattedBody =
    decodeHtmlEntities reply_text"
proof -
  let ?q = "''> <@'' @ quoted"
  have "split_lines (?q @ CHR 0x0A # CHR 0x0A # reply_text) = ?q # [] # split_lines reply_text"
    using split_first [of ?q "CHR 0x0A # reply_text"] assms(1) by simp
  moreover have "length (split_lines reply_text) \<ge> 1" by (cases "split_lines reply_text") auto
  ultimately show ?thesis
    using assms(2) by (simp add: stripReplyFromBody_def Let_def starts_with_def join_split)
qed

theorem reply_fallback_removed_witness:
  "stripReplyFromBody (''> <@a:h> hi'' @ [CHR 0x0A, CHR 0x0A] @ ''yes &amp; no'') None = ''yes & no''"
  using reply_fallback_removed [of "''a:h> hi''" None "''yes &amp; no''"]
  by (simp add: word_char_def Let_def HTML_ENTITIES_def)

section \<open>Tokens for everyone\<close>

fun run_text :: "EveryoneRun \<Rightarrow> string" where
  "run_text (text_token s) = s"
| "run_text (everyone_token s) = s"

lemma everyone_runs_lossless: "concat (map run_text (everyone_runs chunk s)) = chunk @ s"
proof (induction chunk s rule: everyone_runs.induct)
  case (1 chunk s)
  show ?case
  proof (cases s)
    case (Cons c r)
    show ?thesis
    proof (cases "everyone_match s")
      case None
      then show ?thesis using 1(1) [OF Cons] None Cons by (subst everyone_runs.simps) simp
    next
      case (Some n)
      then have "concat (map run_text (everyone_runs [] (drop n s))) = drop n s" using 1(2) [OF Cons] Some by simp
      moreover have "everyone_runs chunk s = (if chunk = [] then [] else [text_token chunk]) @
          everyone_token (take n s) # everyone_runs [] (drop n s)"
        using Some Cons by (subst everyone_runs.simps) simp
      ultimately show ?thesis by simp
    qed
  qed (simp add: everyone_runs.simps)
qed

lemma splitEveryoneRuns_lossless: "concat (map run_text (splitEveryoneRuns s)) = s"
  by (simp add: splitEveryoneRuns_def everyone_runs_lossless)

section \<open>Polls\<close>

text \<open>
  A poll without votes counts as equal to the same poll with any votes: the first votes do not make its
  row render again.
\<close>

theorem first_votes_not_shown:
  "arePollEventsEqual sameArray (i, p\<lparr>poll_votes := []\<rparr>) (i, p\<lparr>poll_votes := votes\<rparr>)"
  by (simp add: arePollEventsEqual_def jm_keys_def)

end
