(* ===== verification/Fi_Slice.thy ===== *)
theory Fi_Slice
  imports Fi_Simulator Js_Double
begin

text \<open>
  \<^verbatim>\<open>ui/common/redux/fi.ts\<close>: what the application keeps of the wallet service that is being set up. The
  statuses are those the bridge, or the simulator of \<open>Fi_Simulator\<close>, reports. The slice remembers how
  far a formation has been seen to get, so that the screens never go back. A thunk is the call it makes
  and the action of the answer. The balances of federations are an argument, from the federation slice.
\<close>

section \<open>Sizes and fees\<close>

definition WALLET_SERVICE_SIZE_OPTIONS :: "nat list" where
  "WALLET_SERVICE_SIZE_OPTIONS = [7, 10, 13, 16, 19]"

definition RECOMMENDED_WALLET_SERVICE_SIZE :: nat where "RECOMMENDED_WALLET_SERVICE_SIZE = 10"
definition MIN_WALLET_SERVICE_SIZE :: nat where "MIN_WALLET_SERVICE_SIZE = hd WALLET_SERVICE_SIZE_OPTIONS"
definition MAX_WALLET_SERVICE_SIZE :: nat where "MAX_WALLET_SERVICE_SIZE = last WALLET_SERVICE_SIZE_OPTIONS"
definition MAX_GUARDIAN_FEE_PPM :: int where "MAX_GUARDIAN_FEE_PPM = 210000"
definition MIN_GUARDIAN_FEE_PPM :: int where "MIN_GUARDIAN_FEE_PPM = 1500"
definition GUARDIAN_FEE_PPM_OPTIONS :: "int list" where "GUARDIAN_FEE_PPM_OPTIONS = [1500, 5000, 10000]"
definition DEFAULT_GUARDIAN_FEE_PPM :: int where "DEFAULT_GUARDIAN_FEE_PPM = 5000"
definition PPM_DENOMINATOR :: js_num where "PPM_DENOMINATOR = Fin 1000000"

definition guardianFeePercentToPpm :: "js_num \<Rightarrow> js_num" where
  "guardianFeePercentToPpm percent = num_floor (num_mul percent (num_div PPM_DENOMINATOR (Fin 100)))"

definition guardianFeePpmToPercent :: "js_num \<Rightarrow> js_num" where
  "guardianFeePpmToPercent ppm = num_mul (num_div ppm PPM_DENOMINATOR) (Fin 100)"

definition walletServiceFaultTolerance :: "int \<Rightarrow> int" where
  "walletServiceFaultTolerance n = (n - 1) div 3"

section \<open>State\<close>

record CreationHighWaterMark =
  hw_formationId :: string
  hw_stage :: nat
  hw_isComplete :: bool
  hasFormed :: bool

record WalletServiceDraft =
  draft_name :: string
  draft_size :: nat

text \<open>An operation as the bridge reports it, with the phases of its gateway items.\<close>

datatype item_phase = ip_pending | ip_running | ip_actionRequired | ip_completed | ip_failed | ip_cancelled

record RpcFiLiquidityItemStatus =
  item_is_gateway :: bool
  item_phase_of :: item_phase

record reported_operation = RpcFiLiquidityOperation +
  itemStatuses :: "RpcFiLiquidityItemStatus list"

record FiLiquidity =
  liq_operation :: "reported_operation option"
  hasRead :: bool
  liq_errorCode :: "string option"
  isRequesting :: bool

record FiState =
  fi_status :: "RpcFiStatus option"
  clientError :: "RpcFiOperationError option"
  creationHighWaterMark :: "CreationHighWaterMark option"
  draft :: WalletServiceDraft
  selectionPreview :: "RpcFiSelectionPreview option"
  replacementPreview :: "RpcFiReplacementPreview option"
  eligiblePayers :: "(string \<times> msats) list option"
  payerError :: "RpcFiOperationError option"
  operationError :: "RpcFiOperationError option"
  liquidity :: FiLiquidity

definition no_liquidity :: FiLiquidity where
  "no_liquidity = \<lparr> liq_operation = None, hasRead = False, liq_errorCode = None, isRequesting = False \<rparr>"

definition initialFiState :: FiState where
  "initialFiState =
     \<lparr> fi_status = None, clientError = None, creationHighWaterMark = None,
       draft = \<lparr> draft_name = [], draft_size = RECOMMENDED_WALLET_SERVICE_SIZE \<rparr>,
       selectionPreview = None, replacementPreview = None, eligiblePayers = None, payerError = None,
       operationError = None, liquidity = no_liquidity \<rparr>"

definition formationIsComplete :: "RpcFiFormationSnapshot \<Rightarrow> bool" where
  "formationIsComplete formation \<longleftrightarrow> phase formation = formed \<or> walletServiceCreated (milestones formation)"

definition getWalletServiceCreationStage :: "RpcFiFormationSnapshot \<Rightarrow> nat" where
  "getWalletServiceCreationStage formation =
     (if guardiansConfirmed (milestones formation) then 3
      else if ecashSent (milestones formation) then 2 else 1)"

definition recordCreationHighWaterMark :: "FiState \<Rightarrow> FiState" where
  "recordCreationHighWaterMark s =
     (case fi_status s of
        Some (status_formation formation) \<Rightarrow>
          let previous = (case creationHighWaterMark s of
                None \<Rightarrow> None | Some m \<Rightarrow> if hw_formationId m = formationId formation then Some m else None)
          in s\<lparr>creationHighWaterMark := Some
                 \<lparr> hw_formationId = formationId formation,
                   hw_stage = max (getWalletServiceCreationStage formation)
                     (case previous of None \<Rightarrow> 1 | Some m \<Rightarrow> hw_stage m),
                   hw_isComplete = (formationIsComplete formation \<or>
                     (case previous of None \<Rightarrow> False | Some m \<Rightarrow> hw_isComplete m)),
                   hasFormed = (phase formation = formed \<or>
                     (case previous of None \<Rightarrow> False | Some m \<Rightarrow> hasFormed m)) \<rparr>\<rparr>
      | _ \<Rightarrow> s\<lparr>creationHighWaterMark := None\<rparr>)"

section \<open>What is logged of a status\<close>

datatype RpcFiClientStatus = client_ready RpcFiStatus | client_failed RpcFiOperationError

definition tallySeatPhases :: "RpcFiSeatProgress list \<Rightarrow> (seat_phase, nat) jsmap" where
  "tallySeatPhases seat_list =
     foldl (\<lambda>tally seat. jm_set (seat_phase seat)
       ((case jm_get tally (seat_phase seat) of None \<Rightarrow> 0 | Some n \<Rightarrow> n) + 1) tally) [] seat_list"

definition action_type :: "RpcFiFormationActionRequired \<Rightarrow> string" where
  "action_type a = (case a of AuthorizePayments r \<Rightarrow> ''authorizePayments''
     | AuthorizeReplacementPayments r \<Rightarrow> ''authorizeReplacementPayments'' | ReplaceGuardians r \<Rightarrow> ''replaceGuardians'')"

record formation_summary =
  sum_formationId :: string
  sum_phase :: FormationPhaseName
  sum_freshness :: freshness
  sum_actionRequired :: "string option"
  sum_lastError :: "string option"
  sum_paymentOutputsStarted :: bool
  sum_hasInviteCode :: bool
  sum_milestones :: RpcFiFormationMilestones
  sum_seats :: "(seat_phase, nat) jsmap"

datatype fi_summary = sum_failed string string | sum_idle | sum_formation formation_summary

definition summarizeFiClientStatus :: "RpcFiClientStatus \<Rightarrow> fi_summary" where
  "summarizeFiClientStatus st =
     (case st of
        client_failed e \<Rightarrow> sum_failed (err_code e) (err_message e)
      | client_ready status_idle \<Rightarrow> sum_idle
      | client_ready (status_formation f) \<Rightarrow>
          sum_formation \<lparr> sum_formationId = formationId f, sum_phase = phase f, sum_freshness = f_freshness f,
            sum_actionRequired = map_option action_type (actionRequired f), sum_lastError = lastError f,
            sum_paymentOutputsStarted = paymentOutputsStarted f, sum_hasInviteCode = (f_inviteCode f \<noteq> None),
            sum_milestones = milestones f, sum_seats = tallySeatPhases (seats f) \<rparr>)"

datatype log_level = log_info | log_warn | log_error

text \<open>The level and the fields of the line, when there is one to write.\<close>

definition describeFiClientStatusChange ::
  "RpcFiClientStatus option \<Rightarrow> RpcFiClientStatus \<Rightarrow> (log_level \<times> fi_summary) option" where
  "describeFiClientStatusChange previous next_status =
     (let fields = summarizeFiClientStatus next_status
      in if map_option summarizeFiClientStatus previous = Some fields then None
         else Some (case fields of
                      sum_failed c m \<Rightarrow> log_error
                    | sum_idle \<Rightarrow> log_info
                    | sum_formation f \<Rightarrow> if sum_lastError f \<noteq> None then log_warn else log_info, fields))"

section \<open>Reducers\<close>

definition setFiClientStatus :: "RpcFiClientStatus \<Rightarrow> FiState \<Rightarrow> FiState" where
  "setFiClientStatus st s =
     (case st of
        client_ready x \<Rightarrow> recordCreationHighWaterMark (s\<lparr>fi_status := Some x, clientError := None\<rparr>)
      | client_failed e \<Rightarrow> s\<lparr>clientError := Some e\<rparr>)"

definition setFiStatus :: "RpcFiStatus \<Rightarrow> FiState \<Rightarrow> FiState" where
  "setFiStatus x s = recordCreationHighWaterMark (s\<lparr>fi_status := Some x, clientError := None\<rparr>)"

definition change_liquidity :: "(FiLiquidity \<Rightarrow> FiLiquidity) \<Rightarrow> FiState \<Rightarrow> FiState" where
  "change_liquidity f s = s\<lparr>liquidity := f (liquidity s)\<rparr>"

definition currentFormationId :: "FiState \<Rightarrow> string option" where
  "currentFormationId s = (case fi_status s of Some (status_formation f) \<Rightarrow> Some (formationId f) | _ \<Rightarrow> None)"

definition setFiLiquidityOperation :: "reported_operation \<Rightarrow> FiState \<Rightarrow> FiState" where
  "setFiLiquidityOperation operation s =
     (if (case currentFormationId s of Some i \<Rightarrow> i \<noteq> [] \<and> op_formationId operation \<noteq> i | None \<Rightarrow> False) then s
      else change_liquidity (\<lambda>_. \<lparr> liq_operation = Some operation, hasRead = True, liq_errorCode = None,
        isRequesting = False \<rparr>) s)"

datatype fi_reducer =
    SetFiClientStatus RpcFiClientStatus
  | SetFiStatus RpcFiStatus
  | SetWalletServiceDraft "string option" "nat option"
  | ClearFiOperationError
  | SetFiLiquidityOperation reported_operation
  | RecordFiLiquidityAbsent
  | SetFiLiquidityRequesting bool
  | ClearFiLiquidity
  | SetFiLiquidityError string
  | ClearFiLiquidityError
  | ClearWalletServiceSelectionPreview

primrec fi_reduce :: "FiState \<Rightarrow> fi_reducer \<Rightarrow> FiState" where
  "fi_reduce s (SetFiClientStatus st) = setFiClientStatus st s"
| "fi_reduce s (SetFiStatus st) = setFiStatus st s"
| "fi_reduce s (SetWalletServiceDraft n k) =
     s\<lparr>draft := \<lparr> draft_name = (case n of Some x \<Rightarrow> x | None \<Rightarrow> draft_name (draft s)),
                  draft_size = (case k of Some x \<Rightarrow> x | None \<Rightarrow> draft_size (draft s)) \<rparr>\<rparr>"
| "fi_reduce s ClearFiOperationError = s\<lparr>operationError := None\<rparr>"
| "fi_reduce s (SetFiLiquidityOperation operation) = setFiLiquidityOperation operation s"
| "fi_reduce s RecordFiLiquidityAbsent = change_liquidity (hasRead_update (\<lambda>_. True)) s"
| "fi_reduce s (SetFiLiquidityRequesting b) = change_liquidity (isRequesting_update (\<lambda>_. b)) s"
| "fi_reduce s ClearFiLiquidity = change_liquidity (\<lambda>_. no_liquidity) s"
| "fi_reduce s (SetFiLiquidityError e) =
     change_liquidity (\<lambda>l. l\<lparr>liq_errorCode := Some e, hasRead := True, isRequesting := False\<rparr>) s"
| "fi_reduce s ClearFiLiquidityError = change_liquidity (liq_errorCode_update (\<lambda>_. None)) s"
| "fi_reduce s ClearWalletServiceSelectionPreview =
     s\<lparr>selectionPreview := None, eligiblePayers := None, payerError := None\<rparr>"

text \<open>The actions of the thunks; a rejection without a payload has no error.\<close>

datatype fi_thunk_action =
    PrepareWalletServicePaymentPending
  | PrepareWalletServicePaymentFulfilled RpcFiSelectionPreview "(string \<times> msats) list" "RpcFiOperationError option"
  | PrepareWalletServicePaymentRejected "RpcFiOperationError option"
  | RefreshWalletServiceEligiblePayersFulfilled "(string \<times> msats) list" "RpcFiOperationError option"
  | CreateWalletServicePending
  | CreateWalletServiceFulfilled
  | CreateWalletServiceRejected "RpcFiOperationError option"
  | AuthorizeWalletServicePaymentsPending
  | AuthorizeWalletServicePaymentsRejected "RpcFiOperationError option"
  | PreviewWalletServiceReplacementsPending
  | PreviewWalletServiceReplacementsFulfilled RpcFiReplacementPreview
  | PreviewWalletServiceReplacementsRejected "RpcFiOperationError option"
  | ApplyWalletServiceReplacementsPending
  | ApplyWalletServiceReplacementsFulfilled
  | ApplyWalletServiceReplacementsRejected "RpcFiOperationError option"
  | ResumeWalletServicePending
  | ResumeWalletServiceRejected "RpcFiOperationError option"

definition needs_reauthorization :: "RpcFiOperationError option \<Rightarrow> bool" where
  "needs_reauthorization e \<longleftrightarrow>
     (case e of
        None \<Rightarrow> False
      | Some x \<Rightarrow> (case err_detail x of Some (SelectionReauthorizationRequired _) \<Rightarrow> True | _ \<Rightarrow> False))"

primrec fi_thunk_reduce :: "FiState \<Rightarrow> fi_thunk_action \<Rightarrow> FiState" where
  "fi_thunk_reduce s PrepareWalletServicePaymentPending = s\<lparr>operationError := None, payerError := None\<rparr>"
| "fi_thunk_reduce s (PrepareWalletServicePaymentFulfilled preview payer_list e) =
     s\<lparr>selectionPreview := Some preview, eligiblePayers := Some payer_list, payerError := e\<rparr>"
| "fi_thunk_reduce s (PrepareWalletServicePaymentRejected e) = s\<lparr>operationError := e\<rparr>"
| "fi_thunk_reduce s (RefreshWalletServiceEligiblePayersFulfilled payer_list e) =
     s\<lparr>eligiblePayers := Some payer_list, payerError := e\<rparr>"
| "fi_thunk_reduce s CreateWalletServicePending = s\<lparr>operationError := None\<rparr>"
| "fi_thunk_reduce s CreateWalletServiceFulfilled =
     s\<lparr>selectionPreview := None, eligiblePayers := None, payerError := None\<rparr>"
| "fi_thunk_reduce s (CreateWalletServiceRejected e) =
     (let s' = s\<lparr>operationError := e\<rparr>
      in if needs_reauthorization e then s'\<lparr>selectionPreview := None\<rparr> else s')"
| "fi_thunk_reduce s AuthorizeWalletServicePaymentsPending = s\<lparr>operationError := None\<rparr>"
| "fi_thunk_reduce s (AuthorizeWalletServicePaymentsRejected e) = s\<lparr>operationError := e\<rparr>"
| "fi_thunk_reduce s PreviewWalletServiceReplacementsPending = s\<lparr>operationError := None\<rparr>"
| "fi_thunk_reduce s (PreviewWalletServiceReplacementsFulfilled preview) = s\<lparr>replacementPreview := Some preview\<rparr>"
| "fi_thunk_reduce s (PreviewWalletServiceReplacementsRejected e) =
     s\<lparr>replacementPreview := None, operationError := e\<rparr>"
| "fi_thunk_reduce s ApplyWalletServiceReplacementsPending = s\<lparr>operationError := None\<rparr>"
| "fi_thunk_reduce s ApplyWalletServiceReplacementsFulfilled = s\<lparr>replacementPreview := None\<rparr>"
| "fi_thunk_reduce s (ApplyWalletServiceReplacementsRejected e) =
     s\<lparr>replacementPreview := None, operationError := e\<rparr>"
| "fi_thunk_reduce s ResumeWalletServicePending = s\<lparr>operationError := None\<rparr>"
| "fi_thunk_reduce s (ResumeWalletServiceRejected e) = s\<lparr>operationError := e\<rparr>"

datatype fi_action = Fi fi_reducer | Fi_thunk fi_thunk_action

definition fiSlice :: "FiState \<Rightarrow> fi_action \<Rightarrow> FiState" where
  "fiSlice s a = (case a of Fi r \<Rightarrow> fi_reduce s r | Fi_thunk t \<Rightarrow> fi_thunk_reduce s t)"

section \<open>Thunks\<close>

text \<open>The answers are an error or a result; \<open>None\<close> is success without a result.\<close>

definition prepareWalletServicePayment ::
  "RpcFiOperationError + RpcFiSelectionPreview \<Rightarrow> RpcFiOperationError + (string \<times> msats) list \<Rightarrow> fi_thunk_action" where
  "prepareWalletServicePayment previewResult payersResult =
     (case previewResult of
        Inl e \<Rightarrow> PrepareWalletServicePaymentRejected (Some e)
      | Inr preview \<Rightarrow>
          (case payersResult of
             Inl e \<Rightarrow> PrepareWalletServicePaymentFulfilled preview [] (Some e)
           | Inr payer_list \<Rightarrow> PrepareWalletServicePaymentFulfilled preview payer_list None))"

definition refreshWalletServiceEligiblePayers ::
  "RpcFiOperationError + (string \<times> msats) list \<Rightarrow> fi_thunk_action" where
  "refreshWalletServiceEligiblePayers payersResult =
     (case payersResult of
        Inl e \<Rightarrow> RefreshWalletServiceEligiblePayersFulfilled [] (Some e)
      | Inr payer_list \<Rightarrow> RefreshWalletServiceEligiblePayersFulfilled payer_list None)"

text \<open>The call that pays: the preview, the name and size of the draft, the paying federation, the limit.\<close>

definition payAndCreate_call ::
  "FiState \<Rightarrow> string \<Rightarrow> RpcFiOperationError + string \<times> RpcFiFormationIntent \<times> string \<times> msats" where
  "payAndCreate_call s paymentFederation =
     (case selectionPreview s of
        None \<Rightarrow> Inl \<lparr> err_code = ''selection'', err_message = ''no selection preview to pay for'', err_detail = None \<rparr>
      | Some preview \<Rightarrow>
          Inr (previewId preview,
            \<lparr> want_federationName = (if draft_name (draft s) = [] then None else Some (draft_name (draft s))),
              want_federationSize = draft_size (draft s) \<rparr>,
            paymentFederation, totalAdvertisedMsats preview))"

definition createWalletService :: "FiState \<Rightarrow> string \<Rightarrow> RpcFiOperationError option \<Rightarrow> fi_thunk_action" where
  "createWalletService s paymentFederation result =
     (case payAndCreate_call s paymentFederation of
        Inl e \<Rightarrow> CreateWalletServiceRejected (Some e)
      | Inr call \<Rightarrow>
          (case result of Some e \<Rightarrow> CreateWalletServiceRejected (Some e) | None \<Rightarrow> CreateWalletServiceFulfilled))"

definition previewWalletServiceReplacements ::
  "RpcFiOperationError + RpcFiReplacementPreview \<Rightarrow> fi_thunk_action" where
  "previewWalletServiceReplacements result =
     (case result of
        Inl e \<Rightarrow> PreviewWalletServiceReplacementsRejected (Some e)
      | Inr preview \<Rightarrow> PreviewWalletServiceReplacementsFulfilled preview)"

definition applyWalletServiceReplacements :: "RpcFiOperationError option \<Rightarrow> fi_thunk_action" where
  "applyWalletServiceReplacements result =
     (case result of Some e \<Rightarrow> ApplyWalletServiceReplacementsRejected (Some e)
      | None \<Rightarrow> ApplyWalletServiceReplacementsFulfilled)"

text \<open>The thunks whose fulfilled action no reducer handles: \<open>None\<close> for that action.\<close>

definition authorizeWalletServicePayments :: "RpcFiOperationError option \<Rightarrow> fi_thunk_action option" where
  "authorizeWalletServicePayments result = map_option (\<lambda>e. AuthorizeWalletServicePaymentsRejected (Some e)) result"

definition resumeWalletService :: "RpcFiOperationError option \<Rightarrow> fi_thunk_action option" where
  "resumeWalletService result = map_option (\<lambda>e. ResumeWalletServiceRejected (Some e)) result"

section \<open>Selectors\<close>

definition selectFiFormation :: "FiState \<Rightarrow> RpcFiFormationSnapshot option" where
  "selectFiFormation s = (case fi_status s of Some (status_formation f) \<Rightarrow> Some f | _ \<Rightarrow> None)"

definition selectCanSubmitWalletServiceDraft :: "FiState \<Rightarrow> bool" where
  "selectCanSubmitWalletServiceDraft s \<longleftrightarrow> draft_size (draft s) \<ge> MIN_WALLET_SERVICE_SIZE"

definition selectWalletServiceEligiblePayerIds :: "FiState \<Rightarrow> string list" where
  "selectWalletServiceEligiblePayerIds s = map fst (case eligiblePayers s of None \<Rightarrow> [] | Some ps \<Rightarrow> ps)"

definition selectCanPayForWalletService :: "(string \<Rightarrow> msats) \<Rightarrow> FiState \<Rightarrow> string option \<Rightarrow> bool" where
  "selectCanPayForWalletService balance s federationId \<longleftrightarrow>
     (case (selectionPreview s, eligiblePayers s, federationId) of
        (Some preview, Some payer_list, Some i) \<Rightarrow>
          i \<noteq> [] \<and> find (\<lambda>p. fst p = i) payer_list \<noteq> None \<and> balance i \<ge> totalAdvertisedMsats preview
      | _ \<Rightarrow> False)"

datatype WalletServicePayerAvailability = pa_unknown | pa_available | pa_noTrustedFederation | pa_lookupFailed

definition selectWalletServicePayerAvailability :: "FiState \<Rightarrow> WalletServicePayerAvailability" where
  "selectWalletServicePayerAvailability s =
     (if payerError s \<noteq> None then pa_lookupFailed
      else case eligiblePayers s of
             None \<Rightarrow> pa_unknown
           | Some ps \<Rightarrow> if length ps > 0 then pa_available else pa_noTrustedFederation)"

definition selectWalletServiceCreationProgress :: "FiState \<Rightarrow> (nat \<times> bool) option" where
  "selectWalletServiceCreationProgress s =
     (case selectFiFormation s of
        None \<Rightarrow> None
      | Some formation \<Rightarrow>
          let mark = (case creationHighWaterMark s of
                None \<Rightarrow> None | Some m \<Rightarrow> if hw_formationId m = formationId formation then Some m else None)
          in Some (max (getWalletServiceCreationStage formation) (case mark of None \<Rightarrow> 0 | Some m \<Rightarrow> hw_stage m),
                   formationIsComplete formation \<or> (case mark of None \<Rightarrow> False | Some m \<Rightarrow> hw_isComplete m)))"

datatype WalletServiceLightningStage =
  ls_requested | ls_allocating | ls_providerComplete | ls_verifying | ls_ready | ls_actionRequired

definition findGatewayItem :: "reported_operation \<Rightarrow> RpcFiLiquidityItemStatus option" where
  "findGatewayItem operation = find item_is_gateway (itemStatuses operation)"

definition toLightningStage :: "reported_operation \<Rightarrow> WalletServiceLightningStage" where
  "toLightningStage operation =
     (if gatewayViewVerified operation then ls_ready
      else case findGatewayItem operation of
             None \<Rightarrow> ls_requested
           | Some item \<Rightarrow>
               (case item_phase_of item of
                  ip_actionRequired \<Rightarrow> ls_actionRequired
                | ip_completed \<Rightarrow> ls_verifying
                | ip_running \<Rightarrow> ls_allocating
                | _ \<Rightarrow> ls_requested))"

datatype WalletServiceLightningStatus = lst_unknown | lst_idle | lst_attaching | lst_attached | lst_failed

definition selectWalletServiceLightningStatus :: "FiState \<Rightarrow> WalletServiceLightningStatus" where
  "selectWalletServiceLightningStatus s =
     (let l = liquidity s
      in if \<not> hasRead l then lst_unknown
         else if (case liq_errorCode l of None \<Rightarrow> False | Some e \<Rightarrow> e \<noteq> []) then lst_failed
         else case liq_operation l of
                None \<Rightarrow> lst_idle
              | Some operation \<Rightarrow>
                  if op_phase operation = lp_rejected then lst_failed
                  else if gatewayViewVerified operation then lst_attached else lst_attaching)"

definition selectWalletServiceLightningStage :: "FiState \<Rightarrow> WalletServiceLightningStage option" where
  "selectWalletServiceLightningStage s = map_option toLightningStage (liq_operation (liquidity s))"

definition selectIsWalletServiceLightningRunning :: "FiState \<Rightarrow> bool" where
  "selectIsWalletServiceLightningRunning s \<longleftrightarrow> selectWalletServiceLightningStatus s = lst_attaching"

datatype flow_status = flow_unknown | flow_none | flow_inProgress | flow_formed

definition selectWalletServiceFlowStatus :: "FiState \<Rightarrow> flow_status" where
  "selectWalletServiceFlowStatus s =
     (case fi_status s of
        None \<Rightarrow> flow_unknown
      | Some status_idle \<Rightarrow> flow_none
      | Some (status_formation f) \<Rightarrow> if phase f = formed then flow_formed else flow_inProgress)"

definition selectFiPaymentRequirements :: "FiState \<Rightarrow> RpcFiPaymentRequirements option" where
  "selectFiPaymentRequirements s =
     (case selectFiFormation s of
        None \<Rightarrow> None
      | Some f \<Rightarrow>
          (case actionRequired f of
             Some (AuthorizePayments r) \<Rightarrow> Some r
           | Some (AuthorizeReplacementPayments r) \<Rightarrow> Some r
           | _ \<Rightarrow> None))"

definition selectFiReplacementRequirements :: "FiState \<Rightarrow> RpcFiGuardianReplacementRequirements option" where
  "selectFiReplacementRequirements s =
     (case selectFiFormation s of
        None \<Rightarrow> None
      | Some f \<Rightarrow> (case actionRequired f of Some (ReplaceGuardians r) \<Rightarrow> Some r | _ \<Rightarrow> None))"

definition SEAT_PHASE_COUNTS_AS_CONFIRMED :: "seat_phase \<Rightarrow> bool" where
  "SEAT_PHASE_COUNTS_AS_CONFIRMED p \<longleftrightarrow> p \<in> set [sp_guardianCodeReady, sp_dkgUnderway, sp_running]"

definition selectWalletServiceGuardianProgress :: "FiState \<Rightarrow> (nat \<times> nat) option" where
  "selectWalletServiceGuardianProgress s =
     (case selectFiFormation s of
        None \<Rightarrow> None
      | Some f \<Rightarrow>
          if length (seats f) = 0 then None
          else Some (length (filter (\<lambda>seat. SEAT_PHASE_COUNTS_AS_CONFIRMED (seat_phase seat)) (seats f)),
                     length (seats f)))"

text \<open>
  What the payers still need. The selector remembers its last answer under a key; \<open>memo\<close> is what it
  remembers, and it gives the answer with the new memory.
\<close>

record WalletServicePaymentShortfall =
  sf_federationId :: string
  shortfallMsats :: msats
  requiredMsats :: msats

type_synonym shortfall_key = "string \<times> msats \<times> (string \<times> msats) list"

definition required_by_payer :: "RpcFiSeatPaymentRequirement list \<Rightarrow> (string, msats) jsmap" where
  "required_by_payer seat_list =
     foldl (\<lambda>acc seat. jm_set (paymentFederationId seat)
       ((case jm_get acc (paymentFederationId seat) of None \<Rightarrow> 0 | Some n \<Rightarrow> n) + pay_amountMsats seat) acc) [] seat_list"

definition shortfall_of :: "(string \<Rightarrow> msats) \<Rightarrow> (string, msats) jsmap \<Rightarrow> WalletServicePaymentShortfall option" where
  "shortfall_of balance required =
     map_option (\<lambda>(i, n). \<lparr> sf_federationId = i, shortfallMsats = n - balance i, requiredMsats = n \<rparr>)
       (find (\<lambda>(i, n). balance i < n) required)"

definition selectWalletServicePaymentShortfall ::
  "(string \<Rightarrow> msats) \<Rightarrow> (shortfall_key \<times> WalletServicePaymentShortfall option) option \<Rightarrow> FiState \<Rightarrow>
     WalletServicePaymentShortfall option \<times> (shortfall_key \<times> WalletServicePaymentShortfall option) option" where
  "selectWalletServicePaymentShortfall balance memo s =
     (case selectFiPaymentRequirements s of
        None \<Rightarrow> (None, memo)
      | Some requirements \<Rightarrow>
          let required = required_by_payer (req_seats requirements);
              key = (authorizationId requirements, req_totalMsats requirements,
                     map (\<lambda>(i, n). (i, balance i)) required);
              result = shortfall_of balance required
          in case memo of
               Some (k, r) \<Rightarrow> if k = key then (r, memo) else (result, Some (key, result))
             | None \<Rightarrow> (result, Some (key, result)))"

definition TERMINAL_FI_ERROR_CODES :: "string list" where
  "TERMINAL_FI_ERROR_CODES = [''invalidIntent'', ''invalidOptions'', ''abandonUnavailable'']"

definition isTerminalWalletServiceError :: "string option \<Rightarrow> bool" where
  "isTerminalWalletServiceError c \<longleftrightarrow> (case c of None \<Rightarrow> False | Some x \<Rightarrow> x \<noteq> [] \<and> x \<in> set TERMINAL_FI_ERROR_CODES)"

definition FI_ERROR_MESSAGE_KEYS :: "(string \<times> string) list" where
  "FI_ERROR_MESSAGE_KEYS = map (\<lambda>(c, m). (c, ''feature.wallet-service.error-'' @ m))
     [(''abandonUnavailable'', ''abandon-unavailable''), (''busy'', ''busy''),
      (''capabilityUnavailable'', ''capability-unavailable''), (''fleetManager'', ''fleet-manager''),
      (''identity'', ''generic''), (''invalidFleetManagers'', ''invalid-fleet-managers''),
      (''invalidIntent'', ''invalid-intent''), (''invalidOptions'', ''invalid-options''),
      (''liquidity'', ''liquidity''), (''maintenanceConsensusInvalid'', ''maintenance-invalid''),
      (''maintenanceConsensusTooLarge'', ''maintenance-too-large''), (''maintenanceConvergence'', ''maintenance-timeout''),
      (''maintenanceRejected'', ''maintenance-rejected''), (''maintenanceWrongState'', ''maintenance-wrong-state''),
      (''noActiveFormation'', ''no-active-formation''), (''payment'', ''payment''),
      (''pushNotifications'', ''push-notifications''), (''registry'', ''registry''), (''selection'', ''selection''),
      (''selectionReauthorizationRequired'', ''selection-changed''), (''storage'', ''generic''), (''timeout'', ''timeout'')]"

definition getWalletServiceErrorKey :: "string option \<Rightarrow> string" where
  "getWalletServiceErrorKey c =
     (case c of
        None \<Rightarrow> ''feature.wallet-service.error-generic''
      | Some x \<Rightarrow> (case map_of FI_ERROR_MESSAGE_KEYS x of Some k \<Rightarrow> k | None \<Rightarrow> ''feature.wallet-service.error-generic''))"

definition getWalletServiceRetryableError :: "(string \<Rightarrow> string) \<Rightarrow> string option \<Rightarrow> string" where
  "getWalletServiceRetryableError t c =
     t (getWalletServiceErrorKey c) @ '' '' @ t ''feature.wallet-service.try-again-hint''"

definition selectFiInviteCode :: "FiState \<Rightarrow> string option" where
  "selectFiInviteCode s = (case selectFiFormation s of None \<Rightarrow> None | Some f \<Rightarrow> f_inviteCode f)"

definition selectFiFormationName :: "FiState \<Rightarrow> string option" where
  "selectFiFormationName s = map_option (\<lambda>f. federationName (intent f)) (selectFiFormation s)"

definition selectFiLastErrorCode :: "FiState \<Rightarrow> string option" where
  "selectFiLastErrorCode s = (case selectFiFormation s of None \<Rightarrow> None | Some f \<Rightarrow> lastError f)"

definition selectFiIsUnsynced :: "FiState \<Rightarrow> bool" where
  "selectFiIsUnsynced s \<longleftrightarrow> (case selectFiFormation s of None \<Rightarrow> False | Some f \<Rightarrow> f_freshness f = unsynced)"

definition selectWalletServiceMaxTotalMsats :: "FiState \<Rightarrow> msats option" where
  "selectWalletServiceMaxTotalMsats s = (case selectFiFormation s of None \<Rightarrow> None | Some f \<Rightarrow> maxTotalMsats (intent f))"

definition selectIsWalletServiceMaintenanceReady :: "FiState \<Rightarrow> bool" where
  "selectIsWalletServiceMaintenanceReady s \<longleftrightarrow>
     (case selectFiFormation s of None \<Rightarrow> False | Some f \<Rightarrow> phase f = formed)"

definition selectIsWalletServiceFormed :: "FiState \<Rightarrow> bool" where
  "selectIsWalletServiceFormed s \<longleftrightarrow>
     selectIsWalletServiceMaintenanceReady s \<or>
     (case creationHighWaterMark s of None \<Rightarrow> False | Some m \<Rightarrow> hasFormed m)"

end
