(* ===== verification/Fi_Slice_Properties.thy ===== *)
theory Fi_Slice_Properties
  imports Fi_Slice Amounts
begin

text \<open>
  What the application shows of a wallet service that is being set up: its progress never goes back while one
  formation is reported, what the payers still need is exact, and where the shown values fall short.
\<close>

section \<open>The mark is never behind the status\<close>

definition mark_ok :: "FiState \<Rightarrow> bool" where
  "mark_ok s \<longleftrightarrow>
     (case selectFiFormation s of
        None \<Rightarrow> creationHighWaterMark s = None
      | Some f \<Rightarrow>
          (case creationHighWaterMark s of
             None \<Rightarrow> False
           | Some m \<Rightarrow> hw_formationId m = formationId f \<and> getWalletServiceCreationStage f \<le> hw_stage m \<and>
               (formationIsComplete f \<longrightarrow> hw_isComplete m) \<and> (phase f = formed \<longrightarrow> hasFormed m)))"

lemma record_ok: "mark_ok (recordCreationHighWaterMark s)"
  by (auto simp: mark_ok_def recordCreationHighWaterMark_def selectFiFormation_def Let_def
      split: option.splits RpcFiStatus.splits)

text \<open>The actions that report no status leave status and mark alone.\<close>

definition reports_status :: "fi_action \<Rightarrow> bool" where
  "reports_status a \<longleftrightarrow>
     (case a of Fi (SetFiClientStatus (client_ready x)) \<Rightarrow> True | Fi (SetFiStatus x) \<Rightarrow> True | _ \<Rightarrow> False)"

lemma other_actions:
  assumes "\<not> reports_status a"
  shows "fi_status (fiSlice s a) = fi_status s" and "creationHighWaterMark (fiSlice s a) = creationHighWaterMark s"
proof -
  have "fi_status (fi_thunk_reduce s t) = fi_status s \<and>
      creationHighWaterMark (fi_thunk_reduce s t) = creationHighWaterMark s" for t
    by (cases t) (simp_all add: Let_def)
  moreover have "fi_status (fi_reduce s r) = fi_status s \<and>
      creationHighWaterMark (fi_reduce s r) = creationHighWaterMark s" if "a = Fi r" for r
    using assms that
    by (cases r) (auto simp: reports_status_def setFiClientStatus_def setFiLiquidityOperation_def
        change_liquidity_def split: RpcFiClientStatus.splits option.splits)
  ultimately show "fi_status (fiSlice s a) = fi_status s"
    and "creationHighWaterMark (fiSlice s a) = creationHighWaterMark s"
    by (cases a; simp add: fiSlice_def)+
qed

lemma reporting_action:
  assumes "reports_status a"
  obtains x where "fiSlice s a = setFiStatus x s" and "a = Fi (SetFiStatus x) \<or> a = Fi (SetFiClientStatus (client_ready x))"
  using assms
  by (auto simp: reports_status_def fiSlice_def setFiClientStatus_def setFiStatus_def
      split: fi_action.splits fi_reducer.splits RpcFiClientStatus.splits)

lemma mark_ok_step: "mark_ok s \<Longrightarrow> mark_ok (fiSlice s a)"
proof (cases "reports_status a")
  case True
  then obtain x where "fiSlice s a = setFiStatus x s" by (rule reporting_action)
  then show ?thesis by (simp add: setFiStatus_def record_ok)
next
  case False
  moreover assume "mark_ok s"
  ultimately show ?thesis unfolding mark_ok_def selectFiFormation_def other_actions [OF False] by simp
qed

interpretation fi_machine: invariant_machine fiSlice "\<lambda>_. True" mark_ok
  by unfold_locales (rule mark_ok_step)

lemma mark_reachable: "mark_ok (run fiSlice initialFiState es)"
  by (rule fi_machine.run_inv) (simp_all add: mark_ok_def initialFiState_def selectFiFormation_def list_all_iff)

section \<open>Progress does not go back\<close>

text \<open>An action that reports nothing but the formation \<open>i\<close>.\<close>

definition reports_only :: "string \<Rightarrow> fi_action \<Rightarrow> bool" where
  "reports_only i a \<longleftrightarrow>
     (case a of
        Fi (SetFiClientStatus (client_ready x)) \<Rightarrow> (case x of status_formation f \<Rightarrow> formationId f = i | _ \<Rightarrow> False)
      | Fi (SetFiStatus x) \<Rightarrow> (case x of status_formation f \<Rightarrow> formationId f = i | _ \<Rightarrow> False)
      | _ \<Rightarrow> True)"

text \<open>What is shown of the setup: the stage, whether it is complete, whether it has formed.\<close>

definition shown_setup :: "FiState \<Rightarrow> nat \<times> bool \<times> bool" where
  "shown_setup s =
     (case selectWalletServiceCreationProgress s of
        None \<Rightarrow> (0, False, False)
      | Some (stage, isDone) \<Rightarrow> (stage, isDone, selectIsWalletServiceFormed s))"

definition at_least :: "nat \<times> bool \<times> bool \<Rightarrow> nat \<times> bool \<times> bool \<Rightarrow> bool" where
  "at_least a b \<longleftrightarrow> fst b \<le> fst a \<and> (fst (snd b) \<longrightarrow> fst (snd a)) \<and> (snd (snd b) \<longrightarrow> snd (snd a))"

lemma at_least_refl: "at_least a a" and at_least_trans: "at_least a b \<Longrightarrow> at_least b c \<Longrightarrow> at_least a c"
  by (auto simp: at_least_def)

lemma shown_mark:
  assumes "mark_ok s" and "currentFormationId s = Some i"
  obtains m where "creationHighWaterMark s = Some m" and "hw_formationId m = i"
    and "shown_setup s = (hw_stage m, hw_isComplete m, hasFormed m)"
proof -
  from assms(2) obtain f where f: "fi_status s = Some (status_formation f)" "formationId f = i"
    by (auto simp: currentFormationId_def split: option.splits RpcFiStatus.splits)
  with assms(1) obtain m where "creationHighWaterMark s = Some m" and "hw_formationId m = i"
      "getWalletServiceCreationStage f \<le> hw_stage m"
      "formationIsComplete f \<longrightarrow> hw_isComplete m" "phase f = formed \<longrightarrow> hasFormed m"
    by (auto simp: mark_ok_def selectFiFormation_def split: option.splits)
  with f show thesis
    by (intro that [of m]) (auto simp: shown_setup_def selectWalletServiceCreationProgress_def selectFiFormation_def
        selectIsWalletServiceFormed_def selectIsWalletServiceMaintenanceReady_def Let_def)
qed

lemma step_forward:
  assumes "mark_ok s" and "currentFormationId s = Some i" and "reports_only i a"
  shows "currentFormationId (fiSlice s a) = Some i \<and> at_least (shown_setup (fiSlice s a)) (shown_setup s)"
proof (cases "reports_status a")
  case False
  note same = other_actions [OF False, of s]
  have "shown_setup (fiSlice s a) = shown_setup s"
    unfolding shown_setup_def selectWalletServiceCreationProgress_def selectFiFormation_def
      selectIsWalletServiceFormed_def selectIsWalletServiceMaintenanceReady_def same by simp
  then show ?thesis using same assms(2) by (simp add: currentFormationId_def at_least_refl)
next
  case True
  then obtain x where x: "fiSlice s a = setFiStatus x s"
      "a = Fi (SetFiStatus x) \<or> a = Fi (SetFiClientStatus (client_ready x))" by (rule reporting_action)
  then obtain f where f: "x = status_formation f" "formationId f = i"
    using assms(3) by (cases x) (auto simp: reports_only_def)
  then have current: "currentFormationId (fiSlice s a) = Some i"
    by (simp add: x(1) setFiStatus_def recordCreationHighWaterMark_def currentFormationId_def Let_def)
  obtain m where m: "creationHighWaterMark s = Some m" "hw_formationId m = i"
      "shown_setup s = (hw_stage m, hw_isComplete m, hasFormed m)" by (rule shown_mark [OF assms(1,2)])
  obtain m' where m': "creationHighWaterMark (fiSlice s a) = Some m'"
      "shown_setup (fiSlice s a) = (hw_stage m', hw_isComplete m', hasFormed m')"
    by (rule shown_mark [OF mark_ok_step [OF assms(1)] current])
  have "hw_stage m \<le> hw_stage m' \<and> (hw_isComplete m \<longrightarrow> hw_isComplete m') \<and> (hasFormed m \<longrightarrow> hasFormed m')"
    using m' m(1,2) f by (auto simp: x(1) setFiStatus_def recordCreationHighWaterMark_def Let_def)
  then show ?thesis using current m(3) m'(2) by (simp add: at_least_def)
qed

lemma run_forward:
  "mark_ok s \<Longrightarrow> currentFormationId s = Some i \<Longrightarrow> list_all (reports_only i) es \<Longrightarrow>
     at_least (shown_setup (run fiSlice s es)) (shown_setup s)"
proof (induction es arbitrary: s)
  case (Cons a es)
  then have "currentFormationId (fiSlice s a) = Some i" and forward: "at_least (shown_setup (fiSlice s a)) (shown_setup s)"
    using step_forward by (simp_all add: list_all_iff)
  then show ?case
    using Cons.IH [of "fiSlice s a"] mark_ok_step [OF Cons.prems(1), of a] Cons.prems(3) at_least_trans by simp
qed (simp add: at_least_refl)

text \<open>
  C13. While one formation is reported, whatever the reports say and whatever else happens, the stage that is
  shown, that the setup is complete and that it has formed never go back.
\<close>

theorem setup_never_goes_back:
  assumes "currentFormationId (run fiSlice initialFiState es) = Some i" and "list_all (reports_only i) es'"
  shows "at_least (shown_setup (run fiSlice initialFiState (es @ es'))) (shown_setup (run fiSlice initialFiState es))"
  using run_forward [OF mark_reachable assms] by (simp add: run_append)

definition example_formation :: "FormationPhaseName \<Rightarrow> bool \<Rightarrow> RpcFiFormationSnapshot" where
  "example_formation p confirmed =
     \<lparr> formationId = ''f'', phase = p,
       intent = \<lparr> federationName = ''n'', federationSize = 7, guardianFeePpm = 0, maxTotalMsats = None \<rparr>,
       seats = [], f_freshness = unsynced, actionRequired = None, paymentOutputsStarted = False,
       milestones = \<lparr> ecashSent = True, guardiansConfirmed = confirmed, walletServiceCreated = False \<rparr>,
       f_inviteCode = None, lastError = None \<rparr>"

definition report :: "FormationPhaseName \<Rightarrow> bool \<Rightarrow> fi_action" where
  "report p confirmed = Fi (SetFiStatus (status_formation (example_formation p confirmed)))"

theorem setup_never_goes_back_witness:
  "at_least (shown_setup (run fiSlice initialFiState ([report formed True] @ [report publishingSeatBindings False])))
     (3, True, True)"
proof -
  have current: "currentFormationId (run fiSlice initialFiState [report formed True]) = Some ''f''"
    and only: "list_all (reports_only ''f'') [report publishingSeatBindings False]"
    and now: "shown_setup (run fiSlice initialFiState [report formed True]) = (3, True, True)" by code_simp+
  from setup_never_goes_back [OF current only] show ?thesis by (simp only: now)
qed

text \<open>
  The status of the flow, by which the entry points are routed, reads the live phase and does go back.
\<close>

lemma flow_status_goes_back:
  "selectWalletServiceFlowStatus (run fiSlice initialFiState [report formed True]) = flow_formed"
  "selectWalletServiceFlowStatus (run fiSlice initialFiState [report formed True, report publishingSeatBindings True]) =
     flow_inProgress"
  by code_simp+

section \<open>What the payers still need\<close>

definition needed_from :: "RpcFiSeatPaymentRequirement list \<Rightarrow> string \<Rightarrow> msats" where
  "needed_from seat_list i = sum_list (map pay_amountMsats (filter (\<lambda>seat. paymentFederationId seat = i) seat_list))"

lemma required_snoc:
  "required_by_payer (seat_list @ [seat]) =
     jm_set (paymentFederationId seat)
       ((case jm_get (required_by_payer seat_list) (paymentFederationId seat) of None \<Rightarrow> 0 | Some n \<Rightarrow> n) +
         pay_amountMsats seat) (required_by_payer seat_list)"
  by (simp add: required_by_payer_def)

lemma required_distinct: "distinct (jm_keys (required_by_payer seat_list))"
  by (induction seat_list rule: rev_induct) (simp_all add: required_snoc jm_distinct_set, simp add: required_by_payer_def jm_keys_def)

lemma required_get:
  "jm_get (required_by_payer seat_list) i =
     (if i \<in> paymentFederationId ` set seat_list then Some (needed_from seat_list i) else None)"
proof (induction seat_list arbitrary: i rule: rev_induct)
  case (snoc seat seat_list)
  have "needed_from seat_list i = 0" if "i \<notin> paymentFederationId ` set seat_list" for i
  proof -
    have "filter (\<lambda>seat. paymentFederationId seat = i) seat_list = []" using that by (auto simp: filter_empty_conv)
    then show ?thesis by (simp add: needed_from_def)
  qed
  then show ?case by (auto simp: required_snoc snoc.IH) (auto simp: needed_from_def)
qed (simp add: required_by_payer_def)

lemma required_mem:
  "(i, n) \<in> set (required_by_payer seat_list) \<longleftrightarrow>
     i \<in> paymentFederationId ` set seat_list \<and> n = needed_from seat_list i"
  using jm_get_iff_mem [OF required_distinct, of seat_list i n] required_get [of seat_list i]
  by (auto split: if_splits)

text \<open>
  The shortfall of a payment that waits for its approval: without one every payer has, in its live balance,
  what all of its seats cost together; with one the named payer lacks exactly that much.
\<close>

theorem shortfall_exact:
  assumes "selectFiPaymentRequirements s = Some r"
  shows "case fst (selectWalletServicePaymentShortfall balance None s) of
      None \<Rightarrow> \<forall>i \<in> paymentFederationId ` set (req_seats r). needed_from (req_seats r) i \<le> balance i
    | Some x \<Rightarrow> sf_federationId x \<in> paymentFederationId ` set (req_seats r) \<and>
        requiredMsats x = needed_from (req_seats r) (sf_federationId x) \<and>
        shortfallMsats x = requiredMsats x - balance (sf_federationId x) \<and> shortfallMsats x > 0"
proof (cases "find (\<lambda>(i, n). balance i < n) (required_by_payer (req_seats r))")
  case None
  then have "needed_from (req_seats r) i \<le> balance i" if "i \<in> paymentFederationId ` set (req_seats r)" for i
    using that required_mem [of i "needed_from (req_seats r) i"] by (fastforce simp: find_None_iff)
  then show ?thesis
    using None assms by (simp add: selectWalletServicePaymentShortfall_def shortfall_of_def Let_def)
next
  case (Some p)
  obtain i n where p: "p = (i, n)" by force
  with Some have "(i, n) \<in> set (required_by_payer (req_seats r))" and "balance i < n"
    by (auto simp: find_Some_iff in_set_conv_nth)
  then show ?thesis
    using Some p assms required_mem [of i n "req_seats r"]
    by (simp add: selectWalletServicePaymentShortfall_def shortfall_of_def Let_def)
qed

definition example_needs :: FiState where
  "example_needs = initialFiState\<lparr>fi_status := Some (status_formation
     (example_formation awaitingPaymentReadiness False\<lparr>actionRequired := Some (AuthorizePayments
        \<lparr> authorizationId = ''a'', req_totalMsats = 7, req_maxTotalMsats = None,
          req_seats = map (\<lambda>(k, i, n). \<lparr> pay_index = k, pay_fmanId = None, pay_fmanName = None, pay_quoteId = [],
            paymentFederationId = i, pay_amountMsats = n \<rparr>) [(0, ''p'', 3), (1, ''p'', 4)] \<rparr>)\<rparr>))\<rparr>"

definition example_shortfall :: WalletServicePaymentShortfall where
  "example_shortfall = \<lparr> sf_federationId = ''p'', shortfallMsats = 2, requiredMsats = 7 \<rparr>"

theorem shortfall_exact_witness:
  "fst (selectWalletServicePaymentShortfall (\<lambda>_. 5) None example_needs) = Some example_shortfall \<and>
   shortfallMsats example_shortfall > 0"
proof -
  obtain r where r: "selectFiPaymentRequirements example_needs = Some r"
    by (cases "selectFiPaymentRequirements example_needs") (simp, code_simp, blast)
  have now: "fst (selectWalletServicePaymentShortfall (\<lambda>_. 5) None example_needs) = Some example_shortfall" by code_simp
  from shortfall_exact [OF r, of "\<lambda>_. 5"] show ?thesis by (simp add: now)
qed

text \<open>The memory of the selector gives the same answer, for requirements that their key identifies.\<close>

lemma shortfall_memo:
  assumes "selectFiPaymentRequirements s = Some r"
    and "memo = Some (k, x)"
    and "k = (authorizationId r, req_totalMsats r, map (\<lambda>(i, n). (i, balance i)) (required_by_payer (req_seats r))) \<Longrightarrow>
           x = shortfall_of balance (required_by_payer (req_seats r))"
  shows "fst (selectWalletServicePaymentShortfall balance memo s) =
    fst (selectWalletServicePaymentShortfall balance None s)"
  using assms by (auto simp: selectWalletServicePaymentShortfall_def Let_def)

section \<open>Fees and liquidity\<close>

text \<open>
  A fee that is typed in percent is rounded down after a product in double precision: 0.57 percent is taken
  as 5699 parts per million, one less than it says.
\<close>

theorem typed_fee_loses_a_part:
  "guardianFeePercentToPpm (rounded (57 / 100)) = Fin 5699 \<and>
   guardianFeePercentToPpm (rounded (58 / 100)) = Fin 5800"
proof -
  have a: "fl (57 / 100) = 5134103575202365 / 9007199254740992"
    using fl_eqI [of "- 1" "57 / 100" 5134103575202365] by (simp add: two_to_def)
  have b: "fl (29 / 50) = 5224175567749775 / 9007199254740992"
    using fl_eqI [of "- 1" "29 / 50" 5224175567749775] by (simp add: two_to_def)
  have c: "fl (3208814734501478125 / 562949953421312) = 6267216278323199 / 1099511627776"
    using fl_eqI [of 12 "3208814734501478125 / 562949953421312" 6267216278323199] by (simp add: two_to_def)
  have d: "fl (3265109729843609375 / 562949953421312) = 5800"
    using fl_eqI [of 12 "3265109729843609375 / 562949953421312" 6377167441100800] by (simp add: two_to_def)
  have "rounded (57 / 100) = Fin (5134103575202365 / 9007199254740992)" and
    "rounded (29 / 50) = Fin (5224175567749775 / 9007199254740992)" and
    "rounded (3208814734501478125 / 562949953421312) = Fin (6267216278323199 / 1099511627776)" and
    "rounded (3265109729843609375 / 562949953421312) = Fin 5800"
    using a b c d by (simp_all add: rounded_def Let_def)
  moreover have "rounded 10000 = Fin 10000" using rounded_int [of 10000] by simp
  moreover have "\<lfloor>6267216278323199 / 1099511627776 :: rat\<rfloor> = 5699" by (rule floor_unique) simp_all
  ultimately show ?thesis
    by (simp add: guardianFeePercentToPpm_def PPM_DENOMINATOR_def)
qed

lemma failed_gateway_reads_as_requested:
  assumes "\<not> gatewayViewVerified operation" and "findGatewayItem operation = Some item"
    and "item_phase_of item \<in> {ip_failed, ip_cancelled}"
  shows "toLightningStage operation = ls_requested"
  using assms by (auto simp: toLightningStage_def)

lemma fault_tolerance: "n \<ge> 1 \<Longrightarrow> 3 * walletServiceFaultTolerance n < n"
  by (simp add: walletServiceFaultTolerance_def)

end
