(* ===== verification/Utf8.thy ===== *)
theory Utf8
  imports Js_Prelude
begin

text \<open>
  Texts as bytes: what the platform's \<^verbatim>\<open>TextEncoder\<close> and \<^verbatim>\<open>Buffer\<close> do with well-formed UTF-8. A text
  is a list of code points, a byte a natural number below 256. Shared by \<open>Qr_Frames\<close> and
  \<open>Tar_Archive\<close>. The decoder is a reference for the hypotheses about the one of the platform.
\<close>

section \<open>Encoding\<close>

definition scalar :: "nat \<Rightarrow> bool" where
  "scalar c \<longleftrightarrow> c < 0x110000 \<and> \<not> (0xD800 \<le> c \<and> c < 0xE000)"

definition utf8_char :: "nat \<Rightarrow> nat list" where
  "utf8_char c =
     (if c < 0x80 then [c]
      else if c < 0x800 then [0xC0 + c div 64, 0x80 + c mod 64]
      else if c < 0x10000 then [0xE0 + c div 4096, 0x80 + c div 64 mod 64, 0x80 + c mod 64]
      else [0xF0 + c div 262144, 0x80 + c div 4096 mod 64, 0x80 + c div 64 mod 64, 0x80 + c mod 64])"

definition utf8 :: "nat list \<Rightarrow> nat list" where
  "utf8 cs = concat (map utf8_char cs)"

text \<open>The code units of a JavaScript string.\<close>

definition utf16_char :: "nat \<Rightarrow> nat list" where
  "utf16_char c =
     (if c < 0x10000 then [c] else [0xD800 + (c - 0x10000) div 1024, 0xDC00 + (c - 0x10000) mod 1024])"

definition utf16 :: "nat list \<Rightarrow> nat list" where
  "utf16 cs = concat (map utf16_char cs)"

lemma utf8_simps [simp]:
  "utf8 [] = []" "utf8 (c # cs) = utf8_char c @ utf8 cs" "utf8 (cs @ ds) = utf8 cs @ utf8 ds"
  by (simp_all add: utf8_def)

lemma utf16_simps [simp]:
  "utf16 [] = []" "utf16 (c # cs) = utf16_char c @ utf16 cs"
  by (simp_all add: utf16_def)

lemma utf8_char_not_Nil [simp]: "utf8_char c \<noteq> []"
  by (simp add: utf8_char_def)

lemma utf8_ascii: "list_all (\<lambda>c. c < 0x80) cs \<Longrightarrow> utf8 cs = cs"
  by (induction cs) (simp_all add: utf8_char_def)

lemma utf16_small: "list_all (\<lambda>c. c < 0x10000) cs \<Longrightarrow> utf16 cs = cs"
  by (induction cs) (simp_all add: utf16_char_def)

section \<open>Bytes of characters\<close>

text \<open>How many bytes the character has that begins with a byte; 0 when none does.\<close>

definition lead_width :: "nat \<Rightarrow> nat" where
  "lead_width b =
     (if b < 0x80 then 1 else if b div 32 = 6 then 2 else if b div 16 = 14 then 3 else if b div 8 = 30 then 4 else 0)"

definition later_byte :: "nat \<Rightarrow> bool" where
  "later_byte b \<longleftrightarrow> b div 64 = 2"

lemma utf8_char_bytes:
  assumes "scalar c"
  obtains b bs where "utf8_char c = b # bs" and "lead_width b = length (b # bs)" and "list_all later_byte bs"
    and "\<not> later_byte b"
proof -
  have c: "c < 0x110000" using assms by (simp add: scalar_def)
  have head: "(k * m + x) div m = k" if "x < m" for k m x :: nat using that by simp
  have quot: "c div m < n" if "c < n * m" for m n :: nat
    using that by (simp add: less_mult_imp_div_less)
  have a: "(192 + c div 64) div 32 = 6" "(192 + c div 64) div 64 = 3" if "c < 0x800"
    using quot [of 32 64] head [of "c div 64" 32 6] head [of "c div 64" 64 3] that by simp_all
  have b: "(224 + c div 4096) div 16 = 14" "(224 + c div 4096) div 32 = 7" "(224 + c div 4096) div 64 = 3" if "c < 0x10000"
    using quot [of 16 4096] head [of "c div 4096" 16 14] head [of "c div 4096" 32 7]
      head [of "32 + c div 4096" 64 3] that by simp_all
  have d: "(240 + c div 262144) div 8 = 30" "(240 + c div 262144) div 16 = 15" "(240 + c div 262144) div 32 = 7"
      "(240 + c div 262144) div 64 = 3"
    using quot [of 8 262144] c head [of "c div 262144" 8 30] head [of "c div 262144" 16 15]
      head [of "16 + c div 262144" 32 7] head [of "48 + c div 262144" 64 3] by simp_all
  have later: "later_byte (128 + x mod 64)" for x unfolding later_byte_def using head [of "x mod 64" 64 2] by simp
  consider "c < 0x80" | "0x80 \<le> c" "c < 0x800" | "0x800 \<le> c" "c < 0x10000" | "0x10000 \<le> c" by linarith
  then show thesis
  proof cases
    case 1
    then show ?thesis by (intro that [of c "[]"]) (simp_all add: utf8_char_def lead_width_def later_byte_def)
  next
    case 2
    then have "lead_width (192 + c div 64) = 2" and "\<not> later_byte (192 + c div 64)"
      using a by (simp_all add: lead_width_def later_byte_def)
    then show ?thesis
      using 2 later by (intro that [of "192 + c div 64" "[128 + c mod 64]"]) (simp_all add: utf8_char_def)
  next
    case 3
    then have "lead_width (224 + c div 4096) = 3" and "\<not> later_byte (224 + c div 4096)"
      using b by (simp_all add: lead_width_def later_byte_def)
    then show ?thesis
      using 3 later
      by (intro that [of "224 + c div 4096" "[128 + c div 64 mod 64, 128 + c mod 64]"]) (simp_all add: utf8_char_def)
  next
    case 4
    then have "lead_width (240 + c div 262144) = 4" and "\<not> later_byte (240 + c div 262144)"
      using d by (simp_all add: lead_width_def later_byte_def)
    then show ?thesis
      using 4 later
      by (intro that [of "240 + c div 262144" "[128 + c div 4096 mod 64, 128 + c div 64 mod 64, 128 + c mod 64]"])
         (simp_all add: utf8_char_def)
  qed
qed

lemma later_no_lead: "later_byte b \<Longrightarrow> lead_width b = 0"
  by (auto simp: later_byte_def lead_width_def)

section \<open>Where characters end\<close>

definition boundary :: "nat list \<Rightarrow> nat \<Rightarrow> bool" where
  "boundary cs n \<longleftrightarrow> (\<exists>ds es. cs = ds @ es \<and> n = length (utf8 ds))"

lemma boundary_0 [simp]: "boundary cs 0"
  by (auto simp: boundary_def intro: exI [of _ "[]"])

lemma boundary_end [simp]: "boundary cs (length (utf8 cs))"
  by (auto simp: boundary_def intro: exI [of _ cs])

lemma boundary_Cons: "boundary (c # cs) n \<longleftrightarrow> n = 0 \<or> (\<exists>m. n = length (utf8_char c) + m \<and> boundary cs m)"
proof
  assume "boundary (c # cs) n"
  then obtain ds es where "c # cs = ds @ es" and n: "n = length (utf8 ds)" by (auto simp: boundary_def)
  then show "n = 0 \<or> (\<exists>m. n = length (utf8_char c) + m \<and> boundary cs m)"
    by (cases ds) (auto simp: boundary_def)
next
  assume "n = 0 \<or> (\<exists>m. n = length (utf8_char c) + m \<and> boundary cs m)"
  then show "boundary (c # cs) n"
  proof
    assume "\<exists>m. n = length (utf8_char c) + m \<and> boundary cs m"
    then obtain ds es where "cs = ds @ es" and "n = length (utf8 (c # ds))" by (auto simp: boundary_def)
    then show ?thesis unfolding boundary_def by (metis append_Cons)
  qed simp
qed

text \<open>The character that begins at a position has as many bytes as its first byte says.\<close>

lemma spans_boundary:
  assumes "list_all scalar cs" and "i < length (utf8 cs)" and "lead_width (utf8 cs ! i) = w" and "0 < w"
  shows "boundary cs i \<and> boundary cs (i + w) \<and> i + w \<le> length (utf8 cs) \<and>
    (\<forall>n. i < n \<and> n < i + w \<longrightarrow> \<not> boundary cs n)"
  using assms
proof (induction cs arbitrary: i)
  case (Cons c cs)
  then have "scalar c" by simp
  then obtain b bs where u: "utf8_char c = b # bs" and lead: "lead_width b = length (b # bs)"
    and later: "list_all later_byte bs" by (rule utf8_char_bytes)
  consider "i = 0" | "0 < i" "i < length (b # bs)" | "length (b # bs) \<le> i" by linarith
  then show ?case
  proof cases
    case 1
    then show ?thesis using Cons.prems u lead by (auto simp: boundary_Cons)
  next
    case 2
    then have "later_byte (utf8 (c # cs) ! i)"
      using later by (cases i) (auto simp: u nth_append list_all_length)
    then show ?thesis using Cons.prems(3,4) later_no_lead by simp
  next
    case 3
    define j where "j = i - length (b # bs)"
    have j: "i = length (utf8_char c) + j" and nth: "utf8 (c # cs) ! i = utf8 cs ! j"
      using 3 by (auto simp: j_def u nth_append)
    with Cons.prems have "boundary cs j \<and> boundary cs (j + w) \<and> j + w \<le> length (utf8 cs) \<and>
        (\<forall>n. j < n \<and> n < j + w \<longrightarrow> \<not> boundary cs n)"
      by (intro Cons.IH) auto
    then show ?thesis unfolding boundary_Cons by (auto simp: j add.assoc)
  qed
qed simp

lemma inside_spans:
  assumes "list_all scalar cs" and "n \<le> length (utf8 cs)" and "\<not> boundary cs n"
  obtains i w where "i < n" and "n < i + w" and "w \<le> 4" and "i < length (utf8 cs)" and "lead_width (utf8 cs ! i) = w"
proof -
  have "\<exists>i w. i < n \<and> n < i + w \<and> i < length (utf8 cs) \<and> lead_width (utf8 cs ! i) = w"
    using assms
  proof (induction cs arbitrary: n)
    case (Cons c cs)
    then have "scalar c" by simp
    then obtain b bs where u: "utf8_char c = b # bs" and lead: "lead_width b = length (b # bs)"
      by (rule utf8_char_bytes)
    consider "n = 0" | "0 < n" "n < length (b # bs)" | "length (b # bs) \<le> n" by linarith
    then show ?case
    proof cases
      case 2
      then show ?thesis using u lead by (intro exI [of _ "0 :: nat"] exI [of _ "length (b # bs)"]) auto
    next
      case 3
      define m where "m = n - length (b # bs)"
      have m: "n = length (utf8_char c) + m" using 3 by (simp add: m_def u)
      with Cons.prems have "\<not> boundary cs m" by (auto simp: boundary_Cons)
      then obtain i w where "i < m" "m < i + w" "i < length (utf8 cs)" "lead_width (utf8 cs ! i) = w"
        using Cons.IH [of m] Cons.prems m by auto
      then show ?thesis
        by (intro exI [of _ "length (utf8_char c) + i"] exI [of _ w]) (auto simp: m)
    qed (use Cons.prems in simp)
  qed simp
  moreover have "lead_width b \<le> 4" for b by (simp add: lead_width_def)
  ultimately show thesis using that by blast
qed

lemma later_inside:
  assumes "list_all scalar cs" and "n < length (utf8 cs)"
  shows "later_byte (utf8 cs ! n) \<longleftrightarrow> \<not> boundary cs n"
  using assms
proof (induction cs arbitrary: n)
  case (Cons c cs)
  then have "scalar c" by simp
  then obtain b bs where u: "utf8_char c = b # bs" and later: "list_all later_byte bs" and first: "\<not> later_byte b"
    by (rule utf8_char_bytes)
  consider "n = 0" | "0 < n" "n < length (b # bs)" | "length (b # bs) \<le> n" by linarith
  then show ?case
  proof cases
    case 2
    then show ?thesis using later by (cases n) (auto simp: u nth_append list_all_length boundary_Cons)
  next
    case 3
    define m where "m = n - length (b # bs)"
    have m: "n = length (utf8_char c) + m" using 3 by (simp add: m_def u)
    then have "utf8 (c # cs) ! n = utf8 cs ! m" by (simp add: nth_append)
    then show ?thesis using Cons.IH [of m] Cons.prems m by (auto simp: boundary_Cons)
  qed (simp add: u first)
qed simp

lemma slice_boundaries:
  assumes "boundary cs m" and "boundary cs n" and "m \<le> n"
  obtains ds es fs where "cs = ds @ es @ fs" and "take (n - m) (drop m (utf8 cs)) = utf8 es"
proof -
  from assms(1) obtain ds r where 1: "cs = ds @ r" "m = length (utf8 ds)" by (auto simp: boundary_def)
  from assms(2) obtain p fs where 2: "cs = p @ fs" "n = length (utf8 p)" by (auto simp: boundary_def)
  have "length ds \<le> length p \<or> length (utf8 ds) = length (utf8 p)"
  proof (rule ccontr)
    assume no: "\<not> (length ds \<le> length p \<or> length (utf8 ds) = length (utf8 p))"
    then obtain es where "ds = p @ es" using 1(1) 2(1) by (metis append_eq_append_conv_if nat_le_linear append_eq_append_conv2)
    with no show False using assms(3) 1(2) 2(2) by simp
  qed
  then show thesis
  proof
    assume "length ds \<le> length p"
    then obtain es where p: "p = ds @ es" using 1(1) 2(1) by (metis append_eq_append_conv_if append_take_drop_id)
    show thesis by (rule that [of ds es fs]) (use p 1 2 in auto)
  next
    assume "length (utf8 ds) = length (utf8 p)"
    then show thesis using that [of ds "[]" r] 1 2 by simp
  qed
qed

section \<open>A reference decoder\<close>

text \<open>
  What a leading byte has of the code point, and the code point of a leading byte with those after it. A byte
  that does not begin a character is U+FFFD, as the platform's decoders do it.
\<close>

definition lead_bits :: "nat \<Rightarrow> nat" where
  "lead_bits b =
     (if lead_width b = 1 then b else if lead_width b = 2 then b mod 32 else if lead_width b = 3 then b mod 16 else b mod 8)"

definition code_point :: "nat \<Rightarrow> nat list \<Rightarrow> nat" where
  "code_point b bs = foldl (\<lambda>acc x. acc * 64 + x mod 64) (lead_bits b) bs"

function utf8_decode :: "nat list \<Rightarrow> nat list" where
  "utf8_decode [] = []"
| "utf8_decode (b # r) =
     (let w = lead_width b; tail = take (w - 1) r; c = code_point b tail
      in if 0 < w \<and> length tail = w - 1 \<and> list_all later_byte tail \<and> scalar c \<and> utf8_char c = b # tail
         then c # utf8_decode (drop (w - 1) r)
         else 0xFFFD # utf8_decode r)"
  by pat_completeness auto
termination by (relation "measure length") auto

declare utf8_decode.simps(2) [simp del]

text \<open>A code point from its groups of six bits.\<close>

lemma six_bits: "c div (m * 64) * 64 + c div m mod 64 = c div m" for c m :: nat
  by (metis div_mult2_eq div_mult_mod_eq)

lemma later_bits: "(128 + x mod 64) mod 64 = x mod 64" for x :: nat
  using mod_mult_self3 [of 2 64 "x mod 64"] by simp

lemma utf8_decode_char:
  assumes "scalar c"
  shows "utf8_decode (utf8_char c @ bs) = c # utf8_decode bs"
proof -
  have c: "c < 0x110000" using assms by (simp add: scalar_def)
  obtain b tl where u: "utf8_char c = b # tl" and lead: "lead_width b = Suc (length tl)" and later: "list_all later_byte tl"
    using assms by (rule utf8_char_bytes) simp
  have "code_point b tl = c"
  proof -
    consider "c < 0x80" | "0x80 \<le> c" "c < 0x800" | "0x800 \<le> c" "c < 0x10000" | "0x10000 \<le> c" by linarith
    then show ?thesis
    proof cases
      case 2
      then have "c div 64 < 32" by (simp add: less_mult_imp_div_less)
      then have "(192 + c div 64) mod 32 = c div 64" using mod_mult_self3 [of 6 32 "c div 64"] by simp
      then show ?thesis using u lead 2 by (auto simp: utf8_char_def later_bits code_point_def lead_bits_def)
    next
      case 3
      then have "c div 4096 < 16" by (simp add: less_mult_imp_div_less)
      then have "(224 + c div 4096) mod 16 = c div 4096" using mod_mult_self3 [of 14 16 "c div 4096"] by simp
      then show ?thesis using u lead 3 six_bits [of c 64]
        by (auto simp: utf8_char_def later_bits code_point_def lead_bits_def)
    next
      case 4
      have "c div 262144 < 8" using c by (simp add: less_mult_imp_div_less)
      then have "(240 + c div 262144) mod 8 = c div 262144" using mod_mult_self3 [of 30 8 "c div 262144"] by simp
      then show ?thesis using u lead 4 six_bits [of c 4096] six_bits [of c 64]
        by (auto simp: utf8_char_def later_bits code_point_def lead_bits_def)
    qed (use u lead in \<open>auto simp: utf8_char_def code_point_def lead_bits_def\<close>)
  qed
  then show ?thesis
    using u lead later assms by (simp add: utf8_decode.simps(2) Let_def)
qed

lemma utf8_decode_utf8: "list_all scalar cs \<Longrightarrow> utf8_decode (utf8 cs) = cs"
  by (induction cs) (simp_all add: utf8_decode_char)

end
