(* ===== verification/Qr_Frames.thy ===== *)
theory Qr_Frames
  imports Utf8
begin

text \<open>
  \<^verbatim>\<open>ui/common/utils/istextorbinary.ts\<close> and \<^verbatim>\<open>ui/common/utils/qrFrames.ts\<close>: whether bytes are text, and the
  bytes that a sequence of QR codes carries for e-cash. The package \<^verbatim>\<open>buffer\<close> is a parameter, a record of
  its four conversions; what is used of it is that it converts well-formed text and that base64 gives the
  bytes back. Strings are lists of code units here. \<^verbatim>\<open>buf[i]\<close> out of range is \<^verbatim>\<open>undefined\<close>, which the
  operators take as 0.
\<close>

record buffer_api =
  from_utf8 :: "nat list \<Rightarrow> nat list"
  to_utf8 :: "nat list \<Rightarrow> nat list"
  from_base64 :: "nat list \<Rightarrow> nat list"
  to_base64 :: "nat list \<Rightarrow> nat list"

definition buffer_laws :: "buffer_api \<Rightarrow> bool" where
  "buffer_laws api \<longleftrightarrow>
     (\<forall>cs. list_all scalar cs \<longrightarrow> from_utf8 api (utf16 cs) = utf8 cs \<and> to_utf8 api (utf8 cs) = utf16 cs) \<and>
     (\<forall>bytes. list_all (\<lambda>b. b < 256) bytes \<longrightarrow> from_base64 api (to_base64 api bytes) = bytes)"

section \<open>Text or binary\<close>

definition byte_at :: "nat list \<Rightarrow> nat \<Rightarrow> nat" where
  "byte_at buf i = (if i < length buf then buf ! i else 0)"

definition isFirstByteOf4ByteChar :: "nat \<Rightarrow> bool" where
  "isFirstByteOf4ByteChar byte \<longleftrightarrow> drop_bit 3 byte = 30"

definition isFirstByteOf3ByteChar :: "nat \<Rightarrow> bool" where
  "isFirstByteOf3ByteChar byte \<longleftrightarrow> drop_bit 4 byte = 14"

definition isFirstByteOf2ByteChar :: "nat \<Rightarrow> bool" where
  "isFirstByteOf2ByteChar byte \<longleftrightarrow> drop_bit 5 byte = 6"

definition isLaterByteOfUtf8 :: "nat \<Rightarrow> bool" where
  "isLaterByteOfUtf8 byte \<longleftrightarrow> drop_bit 6 byte = 2"

text \<open>\<open>None\<close> is \<^verbatim>\<open>-1\<close>.\<close>

definition getChunkBegin :: "nat list \<Rightarrow> nat \<Rightarrow> nat option" where
  "getChunkBegin buf chunkBegin =
     (if chunkBegin = 0 then Some 0
      else if \<not> isLaterByteOfUtf8 (byte_at buf chunkBegin) then Some chunkBegin
      else if chunkBegin \<ge> 3 \<and> isFirstByteOf4ByteChar (byte_at buf (chunkBegin - 3)) then Some (chunkBegin - 3)
      else if chunkBegin \<ge> 2 \<and> (isFirstByteOf4ByteChar (byte_at buf (chunkBegin - 2)) \<or>
             isFirstByteOf3ByteChar (byte_at buf (chunkBegin - 2))) then Some (chunkBegin - 2)
      else if isFirstByteOf4ByteChar (byte_at buf (chunkBegin - 1)) \<or>
             isFirstByteOf3ByteChar (byte_at buf (chunkBegin - 1)) \<or>
             isFirstByteOf2ByteChar (byte_at buf (chunkBegin - 1)) then Some (chunkBegin - 1)
      else None)"

definition getChunkEnd :: "nat list \<Rightarrow> nat \<Rightarrow> nat" where
  "getChunkEnd buf chunkEnd =
     (if chunkEnd = length buf then chunkEnd
      else if chunkEnd \<ge> 3 \<and> isFirstByteOf4ByteChar (byte_at buf (chunkEnd - 3)) then chunkEnd + 1
      else if chunkEnd \<ge> 2 \<and> isFirstByteOf4ByteChar (byte_at buf (chunkEnd - 2)) then chunkEnd + 2
      else if chunkEnd \<ge> 2 \<and> isFirstByteOf3ByteChar (byte_at buf (chunkEnd - 2)) then chunkEnd + 1
      else if chunkEnd \<ge> 1 \<and> isFirstByteOf4ByteChar (byte_at buf (chunkEnd - 1)) then chunkEnd + 3
      else if chunkEnd \<ge> 1 \<and> isFirstByteOf3ByteChar (byte_at buf (chunkEnd - 1)) then chunkEnd + 2
      else if chunkEnd \<ge> 1 \<and> isFirstByteOf2ByteChar (byte_at buf (chunkEnd - 1)) then chunkEnd + 1
      else chunkEnd)"

datatype encoding = enc_utf8 | enc_binary

record EncodingOpts =
  opt_chunkLength :: "nat option"
  opt_chunkBegin :: "nat option"

text \<open>The branch with a given begin, and the whole: the start, the middle, the end.\<close>

definition chunk_encoding :: "(nat list \<Rightarrow> nat list) \<Rightarrow> nat list \<Rightarrow> nat \<Rightarrow> nat \<Rightarrow> encoding" where
  "chunk_encoding to_text buffer chunkLength begin_arg =
     (case getChunkBegin buffer begin_arg of
        None \<Rightarrow> enc_binary
      | Some chunkBegin \<Rightarrow>
          let chunkEnd = getChunkEnd buffer (min (length buffer) (chunkBegin + chunkLength))
          in if chunkEnd > length buffer then enc_binary
             else if list_ex (\<lambda>charCode. charCode = 65533 \<or> charCode \<le> 8)
                       (to_text (take (chunkEnd - chunkBegin) (drop chunkBegin buffer))) then enc_binary
             else enc_utf8)"

definition getBufferEncoding :: "(nat list \<Rightarrow> nat list) \<Rightarrow> nat list option \<Rightarrow> EncodingOpts \<Rightarrow> encoding option" where
  "getBufferEncoding to_text buffer opts =
     (case buffer of
        None \<Rightarrow> None
      | Some buf \<Rightarrow>
          let chunkLength = (case opt_chunkLength opts of None \<Rightarrow> 24 | Some l \<Rightarrow> l)
          in case opt_chunkBegin opts of
               Some chunkBegin \<Rightarrow> Some (chunk_encoding to_text buf chunkLength chunkBegin)
             | None \<Rightarrow>
                 Some (if chunk_encoding to_text buf chunkLength 0 = enc_utf8 \<and>
                          chunk_encoding to_text buf chunkLength (length buf div 2 - chunkLength) = enc_utf8
                       then chunk_encoding to_text buf chunkLength (length buf - chunkLength)
                       else enc_binary))"

section \<open>E-cash in frames\<close>

definition v2_prefix :: "nat list" where
  "v2_prefix = map of_char ''fedimint''"

definition ecashToQrFrameData :: "buffer_api \<Rightarrow> nat list \<Rightarrow> nat list" where
  "ecashToQrFrameData api ecash =
     (if take (length v2_prefix) ecash = v2_prefix then from_utf8 api ecash else from_base64 api ecash)"

definition no_opts :: EncodingOpts where
  "no_opts = \<lparr> opt_chunkLength = None, opt_chunkBegin = None \<rparr>"

definition qrFrameDataToString :: "buffer_api \<Rightarrow> nat list \<Rightarrow> nat list" where
  "qrFrameDataToString api bytes =
     (if getBufferEncoding (to_utf8 api) (Some bytes) no_opts = Some enc_binary then to_base64 api bytes
      else to_utf8 api bytes)"

section \<open>Chunks begin and end between characters\<close>

lemma first_byte_width:
  "isFirstByteOf4ByteChar b \<longleftrightarrow> lead_width b = 4"
  "isFirstByteOf3ByteChar b \<longleftrightarrow> lead_width b = 3"
  "isFirstByteOf2ByteChar b \<longleftrightarrow> lead_width b = 2"
  "isLaterByteOfUtf8 b \<longleftrightarrow> later_byte b"
proof -
  have quot: "b div m = k \<longleftrightarrow> k * m \<le> b \<and> b < k * m + m" if "0 < m" for m k
    using that dividend_less_div_times [of m b] by (auto intro!: div_nat_eqI simp: mult.commute)
  have "b div 8 = 30 \<longleftrightarrow> 240 \<le> b \<and> b < 248" "b div 16 = 14 \<longleftrightarrow> 224 \<le> b \<and> b < 240"
    "b div 32 = 6 \<longleftrightarrow> 192 \<le> b \<and> b < 224" using quot [of 8 30] quot [of 16 14] quot [of 32 6] by simp_all
  then show "isFirstByteOf4ByteChar b \<longleftrightarrow> lead_width b = 4" "isFirstByteOf3ByteChar b \<longleftrightarrow> lead_width b = 3"
    "isFirstByteOf2ByteChar b \<longleftrightarrow> lead_width b = 2" "isLaterByteOfUtf8 b \<longleftrightarrow> later_byte b"
    by (auto simp: isFirstByteOf4ByteChar_def isFirstByteOf3ByteChar_def isFirstByteOf2ByteChar_def
        isLaterByteOfUtf8_def later_byte_def lead_width_def drop_bit_eq_div)
qed

text \<open>A position inside a character: the character begins one to three bytes before and is long enough.\<close>

lemma inside_character:
  assumes "list_all scalar cs" and "n < length (utf8 cs)" and "\<not> boundary cs n"
  obtains d where "d \<in> {1, 2, 3}" and "d \<le> n" and "lead_width (byte_at (utf8 cs) (n - d)) \<in> {d<..4}"
proof -
  obtain i w where "i < n" "n < i + w" "w \<le> 4" "lead_width (utf8 cs ! i) = w"
    using inside_spans [OF assms(1) _ assms(3)] assms(2) by auto
  moreover from this have "n - i \<in> {1, 2, 3}" by (simp add: eval_nat_numeral) linarith
  ultimately show thesis using that [of "n - i"] assms(2) by (auto simp: byte_at_def)
qed

lemma leads_span:
  assumes "list_all scalar cs" and "d \<le> n" and "n < length (utf8 cs)" and "d < w" and "0 < d"
    and "lead_width (byte_at (utf8 cs) (n - d)) = w"
  shows "boundary cs (n - d) \<and> boundary cs (n - d + w) \<and> n - d + w \<le> length (utf8 cs)"
  using spans_boundary [OF assms(1), of "n - d" w] assms by (auto simp: byte_at_def)

lemma chunk_end_boundary:
  assumes "list_all scalar cs" and "n \<le> length (utf8 cs)"
  shows "boundary cs (getChunkEnd (utf8 cs) n) \<and> n \<le> getChunkEnd (utf8 cs) n \<and> getChunkEnd (utf8 cs) n \<le> length (utf8 cs)"
proof (cases "n = length (utf8 cs)")
  case False
  with assms(2) have n: "n < length (utf8 cs)" by simp
  note span = leads_span [OF assms(1) _ n]
  have "boundary cs n"
    if "\<not> (3 \<le> n \<and> lead_width (byte_at (utf8 cs) (n - 3)) = 4)"
      "\<not> (2 \<le> n \<and> lead_width (byte_at (utf8 cs) (n - 2)) \<in> {3, 4})"
      "\<not> (1 \<le> n \<and> lead_width (byte_at (utf8 cs) (n - 1)) \<in> {2, 3, 4})"
  proof (rule ccontr)
    assume "\<not> boundary cs n"
    then obtain d where "d \<in> {1, 2, 3}" "d \<le> n" "lead_width (byte_at (utf8 cs) (n - d)) \<in> {d<..4}"
      using inside_character [OF assms(1) n] by blast
    then show False using that by (auto simp: numeral_eq_Suc atMost_Suc less_Suc_eq_le le_Suc_eq)
  qed
  then show ?thesis
    using False n span [of 3 4] span [of 2 4] span [of 2 3] span [of 1 4] span [of 1 3] span [of 1 2]
    by (auto simp: getChunkEnd_def first_byte_width add.commute)
qed (simp add: getChunkEnd_def)

lemma chunk_begin_boundary:
  assumes "list_all scalar cs" and "n < length (utf8 cs)"
  obtains m where "getChunkBegin (utf8 cs) n = Some m" and "boundary cs m" and "m \<le> n"
proof (cases "boundary cs n")
  case True
  then have "\<not> later_byte (utf8 cs ! n)" using later_inside [OF assms] by simp
  then show thesis using True that [of n] assms(2) by (auto simp: getChunkBegin_def first_byte_width byte_at_def)
next
  case False
  then have later: "later_byte (byte_at (utf8 cs) n)" using later_inside [OF assms] assms(2) by (simp add: byte_at_def)
  have "n \<noteq> 0" using False by (cases n) simp_all
  obtain d where d: "d \<in> {1, 2, 3}" "d \<le> n" "lead_width (byte_at (utf8 cs) (n - d)) \<in> {d<..4}"
    using inside_character [OF assms False] .
  note span = leads_span [OF assms(1) _ assms(2)]
  have "d = 1 \<Longrightarrow> lead_width (byte_at (utf8 cs) (n - 1)) \<in> {2, 3, 4}" "d = 2 \<Longrightarrow> lead_width (byte_at (utf8 cs) (n - 2)) \<in> {3, 4}"
    "d = 3 \<Longrightarrow> lead_width (byte_at (utf8 cs) (n - 3)) = 4" using d by auto
  then have "case getChunkBegin (utf8 cs) n of None \<Rightarrow> False | Some m \<Rightarrow> boundary cs m \<and> m \<le> n"
    using d later \<open>n \<noteq> 0\<close> span [of 3 4] span [of 2 4] span [of 2 3] span [of 1 4] span [of 1 3] span [of 1 2]
    by (auto simp: getChunkBegin_def first_byte_width)
  then show thesis using that by (auto split: option.splits)
qed

end
