(* ===== verification/Qr_Frames_Properties.thy ===== *)
theory Qr_Frames_Properties
  imports Qr_Frames
begin

text \<open>
  Text is never taken for binary, wherever a chunk cuts it, and e-cash survives the frames; with a reference
  implementation of the package \<^verbatim>\<open>buffer\<close> that has the properties assumed of it.
\<close>

section \<open>Text is judged as text\<close>

definition text_ok :: "nat list \<Rightarrow> bool" where
  "text_ok cs \<longleftrightarrow> list_all (\<lambda>c. scalar c \<and> 8 < c \<and> c \<noteq> 65533) cs"

lemma text_ok_scalar: "text_ok cs \<Longrightarrow> list_all scalar cs"
  by (auto simp: text_ok_def list_all_iff)

lemma utf16_units: "text_ok cs \<Longrightarrow> \<not> list_ex (\<lambda>u. u = 65533 \<or> u \<le> 8) (utf16 cs)"
proof (induction cs)
  case (Cons c cs)
  then have c: "scalar c" "8 < c" "c \<noteq> 65533" by (simp_all add: text_ok_def)
  then have "(c - 0x10000) div 1024 < 1024" if "\<not> c < 0x10000" by (intro less_mult_imp_div_less) (simp add: scalar_def, linarith)
  then have "\<forall>u \<in> set (utf16_char c). u \<noteq> 65533 \<and> 8 < u"
    using c by (auto simp: utf16_char_def)
  then show ?case using Cons by (auto simp: text_ok_def list_ex_iff)
qed simp

lemma text_ok_append: "text_ok (ds @ es) \<longleftrightarrow> text_ok ds \<and> text_ok es"
  by (auto simp: text_ok_def)

lemma chunk_is_text:
  assumes "buffer_laws api" and "text_ok cs"
  shows "chunk_encoding (to_utf8 api) (utf8 cs) l b = enc_utf8"
proof (cases "b < length (utf8 cs)")
  case True
  note sc = text_ok_scalar [OF assms(2)]
  obtain m where m: "getChunkBegin (utf8 cs) b = Some m" "boundary cs m" "m \<le> b"
    using chunk_begin_boundary [OF sc True] .
  let ?e = "getChunkEnd (utf8 cs) (min (length (utf8 cs)) (m + l))"
  have "boundary cs ?e" and "min (length (utf8 cs)) (m + l) \<le> ?e" and last: "?e \<le> length (utf8 cs)"
    using chunk_end_boundary [OF sc, of "min (length (utf8 cs)) (m + l)"] by simp_all
  moreover have "m \<le> min (length (utf8 cs)) (m + l)" using m(3) True by simp
  ultimately have "boundary cs ?e" and "m \<le> ?e" by linarith+
  then obtain ds es fs where "cs = ds @ es @ fs" and slice: "take (?e - m) (drop m (utf8 cs)) = utf8 es"
    by (rule slice_boundaries [OF m(2)])
  then have "text_ok es" using assms(2) by (simp add: text_ok_append)
  then have "\<not> list_ex (\<lambda>u. u = 65533 \<or> u \<le> 8) (to_utf8 api (utf8 es))"
    using assms(1) text_ok_scalar utf16_units by (simp add: buffer_laws_def)
  then show ?thesis using m(1) last slice by (simp add: chunk_encoding_def Let_def)
next
  case False
  then have "getChunkBegin (utf8 cs) b = Some b"
    by (auto simp: getChunkBegin_def byte_at_def isLaterByteOfUtf8_def)
  moreover have "to_utf8 api [] = []" using assms(1) by (auto simp: buffer_laws_def dest: spec [of _ "[]"])
  ultimately show ?thesis using False by (simp add: chunk_encoding_def getChunkEnd_def Let_def min_absorb1)
qed

text \<open>
  C24. Text in UTF-8 without control characters is judged as text, whatever its length and wherever the chunks
  begin and end: no character is cut in two.
\<close>

theorem text_judged_text:
  assumes "buffer_laws api" and "text_ok cs"
  shows "getBufferEncoding (to_utf8 api) (Some (utf8 cs)) opts = Some enc_utf8"
  using chunk_is_text [OF assms] by (simp add: getBufferEncoding_def Let_def split: option.split)

section \<open>E-cash through frames\<close>

text \<open>
  The e-cash that is shown: text with the prefix of version 2, or the base64 text of bytes that are not text.
\<close>

definition framed_ecash :: "buffer_api \<Rightarrow> nat list \<Rightarrow> bool" where
  "framed_ecash api s \<longleftrightarrow>
     (if take (length v2_prefix) s = v2_prefix then \<exists>cs. text_ok cs \<and> s = utf16 cs
      else \<exists>bytes. list_all (\<lambda>b. b < 256) bytes \<and> s = to_base64 api bytes \<and>
             getBufferEncoding (to_utf8 api) (Some bytes) no_opts = Some enc_binary)"


text \<open>E-cash of version 1 whose bytes happen to be text comes out as that text and not as base64.\<close>

lemma base64_of_text_misread:
  assumes "buffer_laws api" and "text_ok cs" and "list_all (\<lambda>b. b < 256) (utf8 cs)"
    and "take (length v2_prefix) (to_base64 api (utf8 cs)) \<noteq> v2_prefix"
  shows "qrFrameDataToString api (ecashToQrFrameData api (to_base64 api (utf8 cs))) = utf16 cs"
proof -
  have "getBufferEncoding (to_utf8 api) (Some (utf8 cs)) no_opts = Some enc_utf8"
    using chunk_is_text [OF assms(1,2)] by (simp add: getBufferEncoding_def no_opts_def Let_def)
  then show ?thesis
    using assms text_ok_scalar by (simp add: qrFrameDataToString_def ecashToQrFrameData_def buffer_laws_def)
qed

section \<open>A reference implementation\<close>

text \<open>A lone surrogate is U+FFFD, and base64 is that of RFC 4648.\<close>

fun utf16_decode :: "nat list \<Rightarrow> nat list" where
  "utf16_decode (u # v # s) =
     (if 0xD800 \<le> u \<and> u < 0xDC00 \<and> 0xDC00 \<le> v \<and> v < 0xE000
      then (0x10000 + (u - 0xD800) * 1024 + (v - 0xDC00)) # utf16_decode s
      else (if 0xD800 \<le> u \<and> u < 0xE000 then 0xFFFD else u) # utf16_decode (v # s))"
| "utf16_decode [u] = [if 0xD800 \<le> u \<and> u < 0xE000 then 0xFFFD else u]"
| "utf16_decode [] = []"

lemma utf16_decode_utf16: "list_all scalar cs \<Longrightarrow> utf16_decode (utf16 cs) = cs"
proof (induction cs)
  case (Cons c cs)
  have pair: "utf16_decode (utf16_char c @ s) = c # utf16_decode s" if "scalar c" for s
  proof (cases "c < 0x10000")
    case True
    then show ?thesis using that by (cases s) (auto simp: utf16_char_def scalar_def)
  next
    case False
    then have "(c - 0x10000) div 1024 < 1024" using that by (intro less_mult_imp_div_less) (simp add: scalar_def)
    moreover have "65536 + (c - 0x10000) div 1024 * 1024 + (c - 0x10000) mod 1024 = c"
      using False by (simp only: add.assoc div_mult_mod_eq)
    ultimately show ?thesis using False by (simp add: utf16_char_def)
  qed
  then show ?case using Cons by simp
qed simp

definition base64_alphabet :: "nat list" where
  "base64_alphabet = [65..<91] @ [97..<123] @ [48..<58] @ [43, 47]"

definition sextet :: "nat \<Rightarrow> nat" where
  "sextet n = base64_alphabet ! n"

definition sextet_value :: "nat \<Rightarrow> nat" where
  "sextet_value c = (if 65 \<le> c \<and> c < 91 then c - 65 else if 97 \<le> c \<and> c < 123 then c - 71
     else if 48 \<le> c \<and> c < 58 then c + 4 else if c = 43 then 62 else 63)"

lemma sextet_value_sextet: "n < 64 \<Longrightarrow> sextet_value (sextet n) = n" and sextet_no_pad: "n < 64 \<Longrightarrow> sextet n \<noteq> 61"
proof -
  have "list_all (\<lambda>n. sextet_value (sextet n) = n \<and> sextet n \<noteq> 61) [0..<64]" by code_simp
  then show "n < 64 \<Longrightarrow> sextet_value (sextet n) = n" and "n < 64 \<Longrightarrow> sextet n \<noteq> 61" by (auto simp: list_all_iff)
qed

fun base64 :: "nat list \<Rightarrow> nat list" where
  "base64 (a # b # c # s) =
     sextet (a div 4) # sextet (a mod 4 * 16 + b div 16) # sextet (b mod 16 * 4 + c div 64) # sextet (c mod 64) # base64 s"
| "base64 [a, b] = [sextet (a div 4), sextet (a mod 4 * 16 + b div 16), sextet (b mod 16 * 4), 61]"
| "base64 [a] = [sextet (a div 4), sextet (a mod 4 * 16), 61, 61]"
| "base64 [] = []"

fun base64_bytes :: "nat list \<Rightarrow> nat list" where
  "base64_bytes (w # x # y # z # s) =
     (let p = sextet_value w; q = sextet_value x; r = sextet_value y; t = sextet_value z
      in (p * 4 + q div 16) #
         (if y = 61 then [] else (q mod 16 * 16 + r div 4) # (if z = 61 then [] else [r mod 4 * 64 + t])) @
         base64_bytes s)"
| "base64_bytes _ = []"

lemma six_of_eight:
  fixes a b c :: nat
  assumes "a < 256" and "b < 256" and "c < 256"
  shows "a div 4 < 64" and "a mod 4 * 16 + b div 16 < 64" and "b mod 16 * 4 + c div 64 < 64"
    and "(a mod 4 * 16 + b div 16) div 16 = a mod 4" and "(a mod 4 * 16 + b div 16) mod 16 = b div 16"
    and "(b mod 16 * 4 + c div 64) div 4 = b mod 16" and "(b mod 16 * 4 + c div 64) mod 4 = c div 64"
proof -
  have quot: "x div 4 < 64" "x div 16 < 16" "x div 64 < 4" if "x < 256" for x :: nat
    using that by (simp_all add: less_mult_imp_div_less)
  have parts: "(k * m + x) div m = k" "(k * m + x) mod m = x" if "x < m" for k m x :: nat using that by simp_all
  show "a div 4 < 64" using quot assms by simp
  have "a mod 4 < 4" "b mod 16 < 16" by simp_all
  then show "a mod 4 * 16 + b div 16 < 64" "b mod 16 * 4 + c div 64 < 64"
    using quot(2) [OF assms(2)] quot(3) [OF assms(3)] by linarith+
  show "(a mod 4 * 16 + b div 16) div 16 = a mod 4" "(a mod 4 * 16 + b div 16) mod 16 = b div 16"
    "(b mod 16 * 4 + c div 64) div 4 = b mod 16" "(b mod 16 * 4 + c div 64) mod 4 = c div 64"
    by (rule parts, rule quot, fact)+
qed

lemma base64_roundtrip: "list_all (\<lambda>b. b < 256) bytes \<Longrightarrow> base64_bytes (base64 bytes) = bytes"
proof (induction bytes rule: base64.induct)
  case (1 a b c s)
  then have byte: "a < 256" "b < 256" "c < 256" by simp_all
  show ?case
    using 1 six_of_eight [OF byte] sextet_no_pad by (simp add: Let_def sextet_value_sextet)
next
  case (2 a b)
  then have byte: "a < 256" "b < 256" by simp_all
  show ?case
    using six_of_eight [OF byte, of 0] sextet_no_pad by (simp add: Let_def sextet_value_sextet)
next
  case (3 a)
  then have byte: "a < 256" by simp
  show ?case
    using six_of_eight [OF byte, of 0 0] by (simp add: Let_def sextet_value_sextet)
qed simp

definition reference_buffer :: buffer_api where
  "reference_buffer =
     \<lparr> from_utf8 = (\<lambda>s. utf8 (utf16_decode s)), to_utf8 = (\<lambda>bs. utf16 (utf8_decode bs)),
       from_base64 = base64_bytes, to_base64 = base64 \<rparr>"

lemma reference_buffer_laws: "buffer_laws reference_buffer"
  by (simp add: buffer_laws_def reference_buffer_def utf8_decode_utf8 utf16_decode_utf16 base64_roundtrip)

theorem text_judged_text_witness:
  "getBufferEncoding (to_utf8 reference_buffer) (Some (utf8 (replicate 30 0x1F600)))
     \<lparr> opt_chunkLength = Some 5, opt_chunkBegin = Some 7 \<rparr> = Some enc_utf8"
  by (rule text_judged_text [OF reference_buffer_laws]) (simp add: text_ok_def scalar_def list_all_iff)

definition example_bytes :: "nat list" where
  "example_bytes = [0, 255, 7, 128]"

lemma example_bytes_frames: "framed_ecash reference_buffer (base64 example_bytes)"
proof -
  have "take (length v2_prefix) (base64 example_bytes) \<noteq> v2_prefix"
    by (simp add: v2_prefix_def example_bytes_def sextet_def base64_alphabet_def upt_rec_numeral)
  moreover have "getBufferEncoding (to_utf8 reference_buffer) (Some example_bytes) no_opts = Some enc_binary"
    by (simp add: getBufferEncoding_def no_opts_def chunk_encoding_def getChunkBegin_def getChunkEnd_def Let_def
        example_bytes_def reference_buffer_def utf8_decode.simps(2) lead_width_def code_point_def lead_bits_def
        scalar_def utf8_char_def utf16_char_def)
  moreover have "list_all (\<lambda>b. b < 256) example_bytes" by (simp add: example_bytes_def)
  ultimately show ?thesis by (auto simp: framed_ecash_def reference_buffer_def)
qed


end
