(* ===== verification/Tar_Archive.thy ===== *)
theory Tar_Archive
  imports Utf8
begin

text \<open>
  \<^verbatim>\<open>ui/common/utils/targz.ts\<close>: the archive in which logs are shared. Bytes are natural numbers; the clock
  and \<^verbatim>\<open>pako.gzip\<close> are parameters. All writes into the header stay inside of it, so \<^verbatim>\<open>set\<close> never throws.
  The specification is a reader of the format (POSIX \<^verbatim>\<open>ustar\<close>), which checks the checksum and the magic.
\<close>

section \<open>Writing\<close>

datatype file_content = text_content string | byte_content "nat list"

record tar_file =
  file_name :: string
  file_content :: file_content

text \<open>\<^verbatim>\<open>new TextEncoder().encode(s)\<close>\<close>

definition encode_text :: "string \<Rightarrow> nat list" where
  "encode_text s = utf8 (map of_char s)"

definition write_bytes :: "nat list \<Rightarrow> nat \<Rightarrow> nat list \<Rightarrow> nat list" where
  "write_bytes buf offset bytes = take offset buf @ bytes @ drop (offset + length bytes) buf"

definition writeString :: "nat \<Rightarrow> string \<Rightarrow> nat \<Rightarrow> nat list \<Rightarrow> nat list" where
  "writeString offset str len buf = write_bytes buf offset (take len (encode_text str))"

fun octal :: "nat \<Rightarrow> string" where
  "octal n = (if n < 8 then [digit_char n] else octal (n div 8) @ [digit_char (n mod 8)])"

declare octal.simps [simp del]

definition padOctal :: "nat \<Rightarrow> nat \<Rightarrow> string" where
  "padOctal num digits = replicate (digits - length (octal num)) CHR ''0'' @ octal num"

definition NUL :: char where "NUL = CHR 0x00"

definition MODE_FIELD :: string where "MODE_FIELD = ''0000644'' @ [NUL]"
definition ID_FIELD :: string where "ID_FIELD = ''0000000'' @ [NUL]"
definition MAGIC_FIELD :: string where "MAGIC_FIELD = ''ustar'' @ [NUL]"

definition tar_header :: "string \<Rightarrow> nat \<Rightarrow> nat \<Rightarrow> nat list" where
  "tar_header name byteLength now =
     (let h0 = replicate 512 0;
          h1 = writeString 0 name 100 h0;
          h2 = writeString 100 MODE_FIELD 8 h1;
          h3 = writeString 108 ID_FIELD 8 h2;
          h4 = writeString 116 ID_FIELD 8 h3;
          h5 = writeString 124 (padOctal byteLength 11 @ [NUL]) 12 h4;
          h6 = writeString 136 (padOctal (now div 1000) 11 @ [NUL]) 12 h5;
          h7 = writeString 148 ''        '' 8 h6;
          h8 = h7[156 := 48];
          h9 = writeString 257 MAGIC_FIELD 6 h8;
          header = writeString 263 ''00'' 2 h9;
          checksum = foldl (+) 0 header
      in writeString 148 (padOctal checksum 6 @ [NUL, CHR '' '']) 8 header)"

definition padded_length :: "nat \<Rightarrow> nat" where
  "padded_length n = (n + 511) div 512 * 512"

definition createTarEntry :: "nat \<Rightarrow> string \<Rightarrow> nat list \<Rightarrow> nat list" where
  "createTarEntry now name data =
     tar_header name (length data) now @ write_bytes (replicate (padded_length (length data)) 0) 0 data"

definition content_bytes :: "file_content \<Rightarrow> nat list" where
  "content_bytes c = (case c of text_content s \<Rightarrow> encode_text s | byte_content bs \<Rightarrow> bs)"

text \<open>\<open>clock i\<close> is what \<^verbatim>\<open>Date.now()\<close> gives for the i-th file.\<close>

definition tar_blocks :: "(nat \<Rightarrow> nat) \<Rightarrow> tar_file list \<Rightarrow> nat list" where
  "tar_blocks clock files =
     concat (map (\<lambda>(i, f). createTarEntry (clock i) (file_name f) (content_bytes (file_content f))) (enumerate 0 files)) @
     replicate 1024 0"

definition makeTarGz :: "(nat list \<Rightarrow> nat list) \<Rightarrow> (nat \<Rightarrow> nat) \<Rightarrow> tar_file list \<Rightarrow> nat list" where
  "makeTarGz gzip clock files = gzip (tar_blocks clock files)"

section \<open>Reading\<close>

definition octal_byte :: "nat \<Rightarrow> bool" where
  "octal_byte b \<longleftrightarrow> 48 \<le> b \<and> b < 56"

definition read_octal :: "nat list \<Rightarrow> nat" where
  "read_octal bs = foldl (\<lambda>n b. n * 8 + (b - 48)) 0 (takeWhile octal_byte bs)"

definition tar_field :: "nat \<Rightarrow> nat \<Rightarrow> nat list \<Rightarrow> nat list" where
  "tar_field offset len h = take len (drop offset h)"

definition header_ok :: "nat list \<Rightarrow> bool" where
  "header_ok h \<longleftrightarrow>
     tar_field 257 8 h = map of_char ''ustar'' @ [0, 48, 48] \<and> h ! 156 = 48 \<and>
     read_octal (tar_field 148 8 h) = sum_list (take 148 h @ replicate 8 32 @ drop 156 h)"

text \<open>A member: its name, when it was written, its bytes.\<close>

function untar :: "nat list \<Rightarrow> (nat list \<times> nat \<times> nat list) list option" where
  "untar bs =
     (let h = take 512 bs; rest = drop 512 bs; len = read_octal (tar_field 124 12 h)
      in if length bs < 512 then None
         else if list_all (\<lambda>b. b = 0) h then Some []
         else if \<not> header_ok h \<or> length rest < padded_length len then None
         else map_option ((#) (takeWhile (\<lambda>b. b \<noteq> 0) (tar_field 0 100 h), read_octal (tar_field 136 12 h), take len rest))
                (untar (drop (padded_length len) rest)))"
  by auto
termination by (relation "measure length") auto

declare untar.simps [simp del]

section \<open>Octal numbers\<close>

lemma octal_chars: "list_all octal_byte (map of_char (octal n))"
proof (induction n rule: octal.induct)
  case (1 n)
  have "octal_byte (48 + k)" if "k < 8" for k using that by (simp add: octal_byte_def)
  then show ?case using 1 by (subst octal.simps) (auto simp: of_char_digit)
qed

lemma read_octal_digits:
  assumes "list_all octal_byte bs" and "\<not> octal_byte b"
  shows "read_octal (bs @ b # r) = foldl (\<lambda>n b. n * 8 + (b - 48)) 0 bs"
  using assms by (simp add: read_octal_def list_all_iff)

lemma octal_value: "foldl (\<lambda>n b. n * 8 + (b - 48)) 0 (map of_char (octal n)) = n"
proof (induction n rule: octal.induct)
  case (1 n)
  then show ?case
    by (subst octal.simps) (auto simp: of_char_digit)
qed

lemma octal_length: "n < 8 ^ Suc k \<Longrightarrow> length (octal n) \<le> Suc k"
proof (induction k arbitrary: n)
  case 0
  then show ?case by (subst octal.simps) simp
next
  case (Suc k)
  then have "n div 8 < 8 ^ Suc k" by (simp add: less_mult_imp_div_less)
  then show ?case using Suc.IH by (subst octal.simps) simp
qed

lemma zeros_value: "foldl (\<lambda>n b. n * 8 + (b - 48)) 0 (replicate k (48 :: nat)) = 0"
  by (induction k) simp_all

lemma encode_octal: "encode_text (padOctal n k @ s) = map of_char (padOctal n k) @ encode_text s"
proof -
  have "list_all (\<lambda>c. c < 0x80) (map of_char (padOctal n k) :: nat list)"
    using octal_chars [of n] by (auto simp: padOctal_def list_all_iff octal_byte_def)
  then show ?thesis by (simp add: encode_text_def utf8_ascii)
qed

text \<open>A number field: its digits, of the given width, and a byte that is no digit.\<close>

lemma number_field:
  assumes "n < 8 ^ Suc k"
  shows "length (padOctal n (Suc k)) = Suc k" and "\<not> octal_byte b \<Longrightarrow> read_octal (map of_char (padOctal n (Suc k)) @ b # r) = n"
proof -
  show "length (padOctal n (Suc k)) = Suc k" using octal_length [OF assms] by (simp add: padOctal_def)
  have "list_all octal_byte (map of_char (padOctal n (Suc k)))"
    using octal_chars [of n] by (auto simp: padOctal_def list_all_iff octal_byte_def)
  then show "read_octal (map of_char (padOctal n (Suc k)) @ b # r) = n" if "\<not> octal_byte b"
    using that by (simp add: read_octal_digits) (simp add: padOctal_def zeros_value octal_value)
qed

section \<open>The header\<close>

lemma write_after:
  "length p = offset \<Longrightarrow> write_bytes (p @ q) offset bytes = p @ bytes @ drop (length bytes) q"
  by (simp add: write_bytes_def)

text \<open>The fields of a header one after the other; \<open>chk\<close> are the eight bytes of the checksum.\<close>

definition header_fields :: "nat list \<Rightarrow> nat \<Rightarrow> nat \<Rightarrow> nat list \<Rightarrow> nat list" where
  "header_fields name byteLength mtime chk =
     name @ replicate (100 - length name) 0 @ encode_text MODE_FIELD @ encode_text ID_FIELD @
     encode_text ID_FIELD @ encode_text (padOctal byteLength 11 @ [NUL]) @ encode_text (padOctal mtime 11 @ [NUL]) @
     chk @ [48] @ replicate 100 0 @ encode_text MAGIC_FIELD @ encode_text ''00'' @ replicate 247 0"

lemma encode_texts [simp]:
  "encode_text MODE_FIELD = [48, 48, 48, 48, 54, 52, 52, 0]"
  "encode_text ID_FIELD = [48, 48, 48, 48, 48, 48, 48, 0]"
  "encode_text ''        '' = replicate 8 32"
  "encode_text MAGIC_FIELD = [117, 115, 116, 97, 114, 0]"
  "encode_text ''00'' = [48, 48]"
  by (simp_all add: encode_text_def utf8_char_def MODE_FIELD_def ID_FIELD_def MAGIC_FIELD_def NUL_def eval_nat_numeral)

lemma length_number: "n < 8 ^ 11 \<Longrightarrow> length (encode_text (padOctal n 11 @ [NUL])) = 12"
  using number_field(1) [of n 10] by (simp add: encode_octal) (simp add: encode_text_def utf8_char_def NUL_def)

lemma foldl_plus_sum_list: "foldl (+) 0 xs = sum_list (xs :: nat list)"
  by (induction xs rule: rev_induct) simp_all

lemma zeros_split: "k \<le> n \<Longrightarrow> replicate n (0 :: nat) = replicate k 0 @ replicate (n - k) 0"
  by (metis le_add_diff_inverse replicate_add)

lemma char_less: "(of_char c :: nat) < 256"
  using of_char_mod_256 [of c, where ?'a = nat] by (metis mod_less_divisor zero_less_numeral)

lemma encode_bytes: "b \<in> set (encode_text s) \<Longrightarrow> b < 256"
proof -
  have "x < 256" if "x \<in> set (utf8_char c)" and "c < 256" for x c
  proof -
    have "c div 64 < 4" using that(2) by (simp add: less_mult_imp_div_less)
    moreover have "c mod 64 < 64" by simp
    ultimately show ?thesis using that by (auto simp: utf8_char_def split: if_splits)
  qed
  then show "b \<in> set (encode_text s) \<Longrightarrow> b < 256"
    using char_less by (force simp: encode_text_def utf8_def)
qed

lemma sum_bound: "\<forall>b \<in> set bs. b < 256 \<Longrightarrow> sum_list bs \<le> 255 * length (bs :: nat list)"
  by (induction bs) (auto simp: less_Suc_eq_le)

text \<open>The sum of the bytes of a header, with spaces for the checksum, has at most six octal digits.\<close>

definition header_sum :: "nat list \<Rightarrow> nat \<Rightarrow> nat \<Rightarrow> nat" where
  "header_sum name byteLength mtime = sum_list (header_fields name byteLength mtime (replicate 8 32))"

definition checksum_field :: "nat \<Rightarrow> nat list" where
  "checksum_field n = encode_text (padOctal n 6 @ [NUL, CHR '' ''])"

lemma header_sum_bound:
  assumes "length (encode_text name) \<le> 100" and "n < 8 ^ 11" and "m < 8 ^ 11"
  shows "header_sum (encode_text name) n m < 8 ^ 6"
proof -
  let ?h = "header_fields (encode_text name) n m (replicate 8 32)"
  have "length ?h = 512" using assms length_number by (simp add: header_fields_def)
  moreover have "\<forall>b \<in> set ?h. b < 256" using encode_bytes by (auto simp: header_fields_def)
  ultimately show ?thesis using sum_bound [of ?h] by (simp add: header_sum_def)
qed

lemma checksum_field_eq: "n < 8 ^ 6 \<Longrightarrow> checksum_field n = map of_char (padOctal n 6) @ [0, 32]"
  by (simp add: checksum_field_def encode_octal) (simp add: encode_text_def utf8_char_def NUL_def)

lemma length_checksum_field: "n < 8 ^ 6 \<Longrightarrow> length (checksum_field n) = 8"
  using number_field(1) [of n 5] by (simp add: checksum_field_eq)

lemma write_exact:
  "length p = offset \<Longrightarrow> length q = length bytes \<Longrightarrow> write_bytes (p @ q @ r) offset bytes = p @ bytes @ r"
  by (simp add: write_bytes_def)

lemma header_shape:
  assumes name: "length (encode_text name) \<le> 100" and "byteLength < 8 ^ 11" and "now div 1000 < 8 ^ 11"
  shows "tar_header name byteLength now = header_fields (encode_text name) byteLength (now div 1000)
    (checksum_field (header_sum (encode_text name) byteLength (now div 1000)))"
proof -
  let ?n = "encode_text name" and ?m = "[48, 48, 48, 48, 54, 52, 52, 0] :: nat list"
    and ?u = "[48, 48, 48, 48, 48, 48, 48, 0] :: nat list" and ?s = "encode_text (padOctal byteLength 11 @ [NUL])"
    and ?t = "encode_text (padOctal (now div 1000) 11 @ [NUL])"
  let ?p1 = "?n @ replicate (100 - length ?n) 0"
  let ?p4 = "?p1 @ ?m @ ?u @ ?u"
  let ?p6 = "?p4 @ ?s @ ?t"
  let ?rest = "[48] @ replicate 100 0 @ [117, 115, 116, 97, 114, 0] @ [48, 48] @ replicate 247 (0 :: nat)"
  have len: "length ?s = 12" "length ?t = 12" using length_number assms by simp_all
  have p1: "length ?p1 = 100" using name by simp
  have 1: "writeString 0 name 100 (replicate 512 0) = ?p1 @ replicate 412 0"
  proof -
    have "replicate (512 - length ?n) (0 :: nat) = replicate (100 - length ?n) 0 @ replicate 412 0"
      using name zeros_split [of "100 - length ?n" "512 - length ?n"] by simp
    then show ?thesis using name by (simp add: writeString_def write_bytes_def)
  qed
  have 4: "writeString 116 ID_FIELD 8 (writeString 108 ID_FIELD 8
      (writeString 100 MODE_FIELD 8 (?p1 @ replicate 412 0))) = ?p4 @ replicate 388 0"
    using write_after [OF p1, of "replicate 412 0" ?m] write_after [of "?p1 @ ?m" 108 "replicate 404 0" ?u]
      write_after [of "?p1 @ ?m @ ?u" 116 "replicate 396 0" ?u] p1
    by (simp add: writeString_def)
  have 6: "writeString 136 (padOctal (now div 1000) 11 @ [NUL]) 12
      (writeString 124 (padOctal byteLength 11 @ [NUL]) 12 (?p4 @ replicate 388 0)) = ?p6 @ replicate 364 0"
    using write_after [of ?p4 124 "replicate 388 0" ?s] write_after [of "?p4 @ ?s" 136 "replicate 376 0" ?t] len p1
    by (simp add: writeString_def)
  have 9: "writeString 263 ''00'' 2 (writeString 257 MAGIC_FIELD 6
      ((writeString 148 ''        '' 8 (?p6 @ replicate 364 0))[156 := 48])) = ?p6 @ replicate 8 32 @ ?rest"
  proof -
    have "writeString 148 ''        '' 8 (?p6 @ replicate 364 0) = (?p6 @ replicate 8 32) @ replicate 356 0"
      using write_after [of ?p6 148 "replicate 364 0" "replicate 8 32"] len p1 by (simp add: writeString_def)
    moreover have "((?p6 @ replicate 8 32) @ replicate 356 0)[156 := 48] = (?p6 @ replicate 8 32) @ 48 # replicate 355 0"
      using list_update_length [of "?p6 @ replicate 8 32" 0 "replicate 355 0" 48] replicate_Suc [of 355 "0 :: nat"] len p1
      by simp
    moreover have "(?p6 @ replicate 8 32) @ 48 # replicate 355 0 =
        ((?p6 @ replicate 8 32) @ [48] @ replicate 100 0) @ replicate 255 0"
      using zeros_split [of 100 355] by simp
    ultimately show ?thesis
      using write_after [of "(?p6 @ replicate 8 32) @ [48] @ replicate 100 0" 257 "replicate 255 0" "[117, 115, 116, 97, 114, 0]"]
        write_after [of "((?p6 @ replicate 8 32) @ [48] @ replicate 100 0) @ [117, 115, 116, 97, 114, 0]" 263 "replicate 249 0" "[48, 48]"] len p1
      by (simp add: writeString_def)
  qed
  have fields: "header_fields ?n byteLength (now div 1000) chk = ?p6 @ chk @ ?rest" for chk
    by (simp add: header_fields_def)
  let ?c = "header_sum ?n byteLength (now div 1000)"
  have "tar_header name byteLength now =
      writeString 148 (padOctal (sum_list (?p6 @ replicate 8 32 @ ?rest)) 6 @ [NUL, CHR '' '']) 8 (?p6 @ replicate 8 32 @ ?rest)"
    unfolding tar_header_def Let_def 1 4 6 9 foldl_plus_sum_list ..
  also have "\<dots> = write_bytes (?p6 @ replicate 8 32 @ ?rest) 148 (take 8 (checksum_field ?c))"
    unfolding writeString_def header_sum_def checksum_field_def fields ..
  also have "\<dots> = ?p6 @ checksum_field ?c @ ?rest"
  proof -
    have "length (checksum_field ?c) = 8" using header_sum_bound assms length_checksum_field by blast
    moreover have "length ?p6 = 148" using len p1 by simp
    ultimately show ?thesis by (subst write_exact) simp_all
  qed
  finally show ?thesis by (simp only: fields)
qed

section \<open>Reading what was written\<close>

text \<open>What a reader finds in a header.\<close>

lemma header_reads:
  assumes name: "length name \<le> 100" and size: "n < 8 ^ 11" and time: "m < 8 ^ 11"
    and sum: "header_sum name n m < 8 ^ 6" and chk: "chk = checksum_field (header_sum name n m)"
  shows "tar_field 0 100 (header_fields name n m chk) = name @ replicate (100 - length name) 0"
    and "read_octal (tar_field 124 12 (header_fields name n m chk)) = n"
    and "read_octal (tar_field 136 12 (header_fields name n m chk)) = m"
    and "header_ok (header_fields name n m chk)" and "length (header_fields name n m chk) = 512"
proof -
  let ?z = "replicate (100 - length name) 0"
  let ?s = "map of_char (padOctal n 11) @ [0] :: nat list" and ?t = "map of_char (padOctal m 11) @ [0] :: nat list"
  let ?ids = "[48, 48, 48, 48, 54, 52, 52, 0, 48, 48, 48, 48, 48, 48, 48, 0, 48, 48, 48, 48, 48, 48, 48, 0] :: nat list"
  let ?tail = "[117, 115, 116, 97, 114, 0, 48, 48] :: nat list"
  have number: "encode_text (padOctal k 11 @ [NUL]) = map of_char (padOctal k 11) @ [0]" for k
    by (simp add: encode_octal) (simp add: encode_text_def utf8_char_def NUL_def)
  have shape: "header_fields name n m c =
      (name @ ?z) @ ?ids @ ?s @ ?t @ c @ [48] @ replicate 100 0 @ ?tail @ replicate 247 0" for c
    by (simp add: header_fields_def number)
  have len: "length (name @ ?z) = 100" "length ?ids = 24" "length ?s = 12" "length ?t = 12" "length chk = 8"
    using name number_field(1) [of n 10] number_field(1) [of m 10] size time length_checksum_field [OF sum] chk by simp_all
  have at: "tar_field k l (p @ q @ r) = q" if "length p = k" "length q = l" for k l p q r
    using that by (simp add: tar_field_def)
  show "tar_field 0 100 (header_fields name n m chk) = name @ ?z"
    using at [of "[]" 0 "name @ ?z" 100] len unfolding shape by simp
  have "tar_field 124 12 (header_fields name n m chk) = ?s"
    using at [of "(name @ ?z) @ ?ids" 124 ?s 12] len unfolding shape by simp
  then show "read_octal (tar_field 124 12 (header_fields name n m chk)) = n"
    using number_field(2) [of n 10 0 "[]"] size by (simp add: octal_byte_def)
  have "tar_field 136 12 (header_fields name n m chk) = ?t"
    using at [of "(name @ ?z) @ ?ids @ ?s" 136 ?t 12] len unfolding shape by simp
  then show "read_octal (tar_field 136 12 (header_fields name n m chk)) = m"
    using number_field(2) [of m 10 0 "[]"] time by (simp add: octal_byte_def)
  show "length (header_fields name n m chk) = 512" using len unfolding shape by simp
  let ?before = "(name @ ?z) @ ?ids @ ?s @ ?t"
  have before: "length ?before = 148" using len by simp
  have "tar_field 148 8 (header_fields name n m chk) = chk"
    using at [OF before len(5)] unfolding shape by simp
  then have "read_octal (tar_field 148 8 (header_fields name n m chk)) = header_sum name n m"
    using number_field(2) [of "header_sum name n m" 5 0 "[32]"] sum chk by (simp add: checksum_field_eq octal_byte_def)
  moreover have "take 148 (header_fields name n m chk) @ replicate 8 32 @ drop 156 (header_fields name n m chk) =
      header_fields name n m (replicate 8 32)"
  proof -
    have "take 148 (p @ q @ r) @ z @ drop 156 (p @ q @ r) = p @ z @ r" if "length p = 148" "length q = 8" for p q z r
      using that by simp
    from this [OF before len(5)] show ?thesis unfolding shape by (simp only: append.assoc)
  qed
  moreover have "tar_field 257 8 (header_fields name n m chk) = ?tail"
    using at [of "?before @ chk @ [48] @ replicate 100 0" 257 ?tail 8] before len(5) unfolding shape
    by (simp only: append.assoc) simp
  moreover have "header_fields name n m chk ! 156 = 48"
  proof -
    have "(p @ q @ [48] @ r) ! 156 = 48" if "length p = 148" "length q = 8" for p q r :: "nat list"
      using that by (simp add: nth_append)
    from this [OF before len(5)] show ?thesis unfolding shape by (simp only: append.assoc)
  qed
  moreover have "map of_char ''ustar'' @ [0, 48, 48] = ?tail" by simp
  ultimately show "header_ok (header_fields name n m chk)"
    unfolding header_ok_def header_sum_def by (simp only:)
qed

lemma padded_length_le: "n \<le> padded_length n"
  using div_mult_mod_eq [of "n + 511" 512] mod_less_divisor [of 512 "n + 511"] unfolding padded_length_def by linarith

text \<open>A file that fits the format: its name, its length and its time.\<close>

definition archivable :: "nat \<Rightarrow> tar_file \<Rightarrow> bool" where
  "archivable now f \<longleftrightarrow>
     length (encode_text (file_name f)) \<le> 100 \<and> 0 \<notin> set (encode_text (file_name f)) \<and>
     length (content_bytes (file_content f)) < 8 ^ 11 \<and> now div 1000 < 8 ^ 11"

definition archived :: "nat \<Rightarrow> tar_file \<Rightarrow> nat list \<times> nat \<times> nat list" where
  "archived now f = (encode_text (file_name f), now div 1000, content_bytes (file_content f))"

lemma untar_entry:
  assumes "archivable now f"
  shows "untar (createTarEntry now (file_name f) (content_bytes (file_content f)) @ bs) =
    map_option ((#) (archived now f)) (untar bs)"
proof -
  let ?n = "encode_text (file_name f)" and ?d = "content_bytes (file_content f)" and ?m = "now div 1000"
  let ?chk = "checksum_field (header_sum ?n (length ?d) ?m)"
  define h where "h = header_fields ?n (length ?d) ?m ?chk"
  have ok: "length ?n \<le> 100" "length ?d < 8 ^ 11" "?m < 8 ^ 11" and name: "0 \<notin> set ?n"
    using assms by (simp_all add: archivable_def)
  note reads = header_reads [OF ok header_sum_bound [OF ok] refl, folded h_def]
  have pad: "length ?d \<le> padded_length (length ?d)" by (rule padded_length_le)
  have entry: "createTarEntry now (file_name f) ?d @ bs =
      h @ ?d @ replicate (padded_length (length ?d) - length ?d) 0 @ bs"
    using header_shape [OF ok] by (simp add: createTarEntry_def write_bytes_def h_def)
  have "h ! 156 = 48" using reads(4) by (simp add: header_ok_def)
  then have "\<not> list_all (\<lambda>b. b = 0) h" using reads(5) by (auto simp: list_all_length intro: exI [of _ 156])
  moreover have "takeWhile (\<lambda>b. b \<noteq> 0) (tar_field 0 100 h) = ?n"
    using name unfolding reads(1) by (subst takeWhile_append2) (auto simp: takeWhile_replicate intro: gr0I)
  ultimately show ?thesis
    using reads(2-5) pad unfolding entry
    by (subst untar.simps) (simp add: Let_def archived_def)
qed

lemma untar_end: "untar (replicate 1024 0) = Some []"
  by (subst untar.simps) (simp add: Let_def list_all_iff)

text \<open>
  C25. A reader of the format finds in the archive the files that were put in, in their order, with their names,
  times and bytes, and every checksum is right.
\<close>

theorem archive_reads_back:
  assumes "list_all (\<lambda>(i, f). archivable (clock i) f) (enumerate 0 files)"
  shows "untar (tar_blocks clock files) = Some (map (\<lambda>(i, f). archived (clock i) f) (enumerate 0 files))"
proof -
  have "list_all (\<lambda>(i, f). archivable (clock i) f) entries \<Longrightarrow>
      untar (concat (map (\<lambda>(i, f). createTarEntry (clock i) (file_name f) (content_bytes (file_content f))) entries) @
        replicate 1024 0) = Some (map (\<lambda>(i, f). archived (clock i) f) entries)" for entries
    by (induction entries) (auto simp: untar_end untar_entry)
  then show ?thesis using assms by (simp add: tar_blocks_def)
qed

theorem archive_reads_back_witness:
  "untar (tar_blocks (\<lambda>_. 1700000000000)
     [\<lparr> file_name = ''app.log'', file_content = text_content ''ok'' \<rparr>,
      \<lparr> file_name = ''db'', file_content = byte_content [0, 255] \<rparr>]) =
     Some [(map of_char ''app.log'', 1700000000, map of_char ''ok''), (map of_char ''db'', 1700000000, [0, 255])]"
proof -
  let ?files = "[\<lparr> file_name = ''app.log'', file_content = text_content ''ok'' \<rparr>,
      \<lparr> file_name = ''db'', file_content = byte_content [0, 255] \<rparr>]"
  have "list_all (\<lambda>(i, f). archivable 1700000000000 f) (enumerate 0 ?files)"
    by (simp add: archivable_def content_bytes_def encode_text_def utf8_char_def)
  from archive_reads_back [of "\<lambda>_. 1700000000000", OF this] show ?thesis
    by (simp add: archived_def content_bytes_def encode_text_def utf8_char_def)
qed

text \<open>A longer name is cut off after 100 bytes, also inside a character, so two files can get the same name.\<close>

lemma long_names_clash:
  assumes "take 100 (encode_text a) = take 100 (encode_text b)"
  shows "createTarEntry now a data = createTarEntry now b data"
  using assms by (simp add: createTarEntry_def tar_header_def writeString_def Let_def)

end
