(* ===== verification/Spec2Isabelle.thy ===== *)
theory Spec2Isabelle
  imports Vector_Diff_Stream Storage_Migration_Proofs State_Persistence Redux_Utils Transactions
    Chat_Rows Fi_Simulator_Properties Fi_Transport Browser App_Store_Properties Cashu Federation_Balances Wallet_Properties Matrix_Properties Matrix_Client Txn_Properties Txn_Table
    Chat_Thunks Mentions_Properties Matrix_Text_Properties Fi_Slice_Properties Qr_Frames_Properties Tar_Archive
begin

text \<open>
  A verification of the core logic of Fedi, a Bitcoin wallet and chat application. The program
  is a TypeScript monorepo (\<^verbatim>\<open>src/ui\<close>) on top of a Rust bridge (\<^verbatim>\<open>src/bridge\<close>); the bridge is reached
  by remote calls only. The logic shared by the native and the web application lives in
  \<^verbatim>\<open>src/ui/common\<close>, and that is what is modelled here: the definitions are translations of the
  functions under \<^verbatim>\<open>utils\<close>, \<^verbatim>\<open>redux\<close> and \<^verbatim>\<open>types\<close> with their own names where possible.

  The parts and how they interact. The bridge delivers lists as streams of vector diffs; the
  matrix client folds them into arrays (\<^verbatim>\<open>utils/stream.ts\<close>), opens and closes the streams
  (\<^verbatim>\<open>utils/MatrixChatClient.ts\<close>), and the chat slice (\<^verbatim>\<open>redux/matrix.ts\<close>) keeps what they deliver. What a
  conversation shows of its events, which payments in them can be claimed, mentions, links and the
  groups that hold money together are computed by \<^verbatim>\<open>utils/matrix.ts\<close>; the thunks of the slice send
  messages and payments, and one of them, which \<^verbatim>\<open>redux/index.ts\<close> starts after every change of a
  timeline, claims what has arrived; the chat screen turns the events into rows
  (\<^verbatim>\<open>utils/chatConversationRows.ts\<close>). Redux slices hold the state; they merge entities with the helpers
  of \<^verbatim>\<open>utils/redux.ts\<close>. The federation slice (\<^verbatim>\<open>redux/federation.ts\<close>) keeps the joined federations and
  communities and reads their metadata (\<^verbatim>\<open>utils/FederationUtils.ts\<close>); the wallet slice
  (\<^verbatim>\<open>redux/wallet.ts\<close>) deposits to and withdraws from the stability pool (\<^verbatim>\<open>utils/stabilitypool.ts\<close>) with
  the conversions of \<^verbatim>\<open>utils/AmountUtils.ts\<close>; the transactions slice (\<^verbatim>\<open>redux/transactions.ts\<close>) keeps a
  cache of pages fetched from the bridge, shown by \<^verbatim>\<open>utils/transaction.ts\<close> and exported by
  \<^verbatim>\<open>utils/csv.ts\<close>. Mini-apps and their browser are \<^verbatim>\<open>redux/mod.ts\<close> and \<^verbatim>\<open>redux/browser.ts\<close>. Tokens of
  cashu are read by \<^verbatim>\<open>utils/cashu.ts\<close> on top of the decoder \<^verbatim>\<open>utils/cbor.ts\<close>. After every action the
  application asks whether a persisted field changed, writes the state if so, and at start reads it
  back (\<^verbatim>\<open>redux/index.ts\<close>, \<^verbatim>\<open>redux/storage.ts\<close>) and migrates it from whatever version wrote it
  (\<^verbatim>\<open>utils/storage.ts\<close>, \<^verbatim>\<open>types/storage.ts\<close>, with the chat helpers of \<^verbatim>\<open>utils/chat.ts\<close>). Where the bridge
  has no wallet-service (FI) calls, a simulator answers them (\<^verbatim>\<open>utils/fi\<close>): a transport wrapper routes
  each call to the simulator or to the real bridge; the slice \<^verbatim>\<open>redux/fi.ts\<close> keeps what is reported.

  Theories, shared ones first:
  \<^item> \<open>Js_Prelude\<close>: insertion-ordered maps (JavaScript objects), array searches, 32-bit operators,
    strings, and the locale \<open>invariant_machine\<close> (runs of a step function keep an invariant).
  \<^item> \<open>Js_Value\<close>: untyped JSON values, property access, spread, \<^verbatim>\<open>===\<close>, truthiness, lodash's sorting,
    and the executable types that describe an interface.
  \<^item> \<open>Js_Double\<close>: JavaScript numbers as exact rationals, every operation rounded to the nearest
    double, and the decimal roundings the code uses.
  \<^item> \<open>Vector_Diff_Stream\<close>: \<^verbatim>\<open>utils/stream.ts\<close>. A diff is one constructor of \<^verbatim>\<open>VectorDiff\<close>, a throw is
    \<open>Inl\<close>. The functions are refined to operations on an abstract vector.
  \<^item> \<open>Redux_Utils\<close>: the upsert helpers of \<^verbatim>\<open>utils/redux.ts\<close>.

  Stored state and the store:
  \<^item> \<open>Legacy_Chat\<close>: the helpers of \<^verbatim>\<open>utils/chat.ts\<close> the migrations call.
  \<^item> \<open>Stored_State\<close>: the fifty interfaces of \<^verbatim>\<open>types/storage.ts\<close> as schemas.
  \<^item> \<open>Storage_Migration\<close>, \<open>Storage_Migration_Proofs\<close>: the forty-nine blocks of
    \<^verbatim>\<open>migrateStoredState\<close>, each a function on the stored object, and the chain. An outer \<open>None\<close> is a
    rejected promise. Each block takes an instance of its interface to one of the next.
  \<^item> \<open>State_Persistence\<close>: \<^verbatim>\<open>transformStateToStorage\<close> and \<^verbatim>\<open>hasStorageStateChanged\<close>.
  \<^item> \<open>Settings_Slices\<close>, \<open>Mod_Slice\<close>, \<open>Browser\<close>: the small slices, mini-apps with their permissions, and
    the browser with its histories. A reducer takes the name of an action and its payload.
  \<^item> \<open>App_Store\<close>, \<open>App_Store_Properties\<close>: the store as it runs. The store is the object of the slice
    states; a run is a sequence of actions, saves that finish, and loads. What
    \<^verbatim>\<open>JSON.parse(JSON.stringify(v))\<close> makes of a value is one function, so the storage holds values; a
    text that does not parse is a case of its own. The promise of a dispatched thunk is always
    fulfilled, as in the toolkit.

  Federations and money:
  \<^item> \<open>Federation_Utils\<close>: metadata of federations and communities (objects of texts).
  \<^item> \<open>Federation_Slice\<close>, \<open>Federation_Thunks\<close>, \<open>Federation_Balances\<close>, \<open>Federation_Properties\<close>: the state and
    every reducer, the selectors, and the thunks as functions from the state they find and the
    answers of the bridge to the state after the actions they dispatch.
  \<^item> \<open>Amounts\<close>, \<open>Stability_Pool\<close>, \<open>Wallet\<close>, \<open>Wallet_Properties\<close>: conversions in double precision, the
    amounts of pool operations and how their promises settle, the wallet state of each federation.
  \<^item> \<open>Transactions\<close>: state, reducers, thunk decisions and selectors of \<^verbatim>\<open>redux/transactions.ts\<close>.
  \<^item> \<open>Txn_Types\<close>, \<open>Txn_Display\<close>, \<open>Txn_Properties\<close>: a transaction of each kind and what is shown of it:
    texts, directions, badges, amounts, fees, details. The translation function is a parameter.
  \<^item> \<open>Txn_Csv\<close>, \<open>Txn_Table\<close>: the exported tables, and a reader of RFC 4180 as their specification.
  \<^item> \<open>Cbor\<close>, \<open>Cbor_Roundtrip\<close>, \<open>Cashu\<close>: the decoder, a reference encoder, and tokens with their melting.

  Chat:
  \<^item> \<open>Matrix_Events\<close>, \<open>Chat_Events\<close>: events, payments sent as several events, pins, and reactions.
  \<^item> \<open>Matrix_Slice\<close>, \<open>Matrix_Selectors\<close>, \<open>Matrix_Properties\<close>: the chat state, its reducers, what the
    screens read of it, and its invariants over runs. Members and users are JavaScript objects.
  \<^item> \<open>Multispend\<close>: groups with signers: roles, votes, the state of a withdrawal.
  \<^item> \<open>Matrix_Client\<close>: subscriptions. A stream is a number and the open streams are part of the state;
    the warm-up of a room with its timers is a step machine of its own.
  \<^item> \<open>Chat_Payments\<close>, \<open>Chat_Payments_Properties\<close>: sending, claiming, reclaiming, canceling, accepting and
    rejecting payments, and what can be done with one. A thunk is a tree: a call of the bridge with the
    continuation for each answer, an end, or another thunk it starts without waiting. \<open>claim_step\<close> is
    one event of the claims: a check, an answer for any of the running thunks, or the end of one.
  \<^item> \<open>Chat_Thunks\<close>: the other thunks of \<^verbatim>\<open>redux/matrix.ts\<close> that decide something, in the same form, and
    what the slice does with each event of the client.
  \<^item> \<open>Matrix_Mentions\<close>, \<open>Mentions_Properties\<close>: mentions from the typed text to the formatted body and to
    the runs that are shown.
  \<^item> \<open>Matrix_Text\<close>, \<open>Matrix_Text_Properties\<close>: texts of payments, links to rooms and users, replies without
    what they quote, previews, and the comparisons that decide whether a row is rendered again.
  \<^item> \<open>Chat_Rows\<close>: \<^verbatim>\<open>makeChatConversationRows\<close>, its three passes and the declarative description of
    grouping, layout and separators they implement.

  Bytes that leave the application:
  \<^item> \<open>Utf8\<close>: UTF-8 and UTF-16, where the characters of encoded text begin and end, and a reference decoder.
  \<^item> \<open>Qr_Frames\<close>, \<open>Qr_Frames_Properties\<close>: whether bytes are text (\<^verbatim>\<open>utils/istextorbinary.ts\<close>) and e-cash in
    sequences of QR codes (\<^verbatim>\<open>utils/qrFrames.ts\<close>). The package \<^verbatim>\<open>buffer\<close> is a record of four functions with
    laws, and a reference implementation has them.
  \<^item> \<open>Tar_Archive\<close>: the archive of logs (\<^verbatim>\<open>utils/targz.ts\<close>), with a reader of the format as specification.

  The wallet service:
  \<^item> \<open>Fi_Scenarios\<close>: the scenario table and the mock wallets.
  \<^item> \<open>Fi_Simulator\<close>: the class \<^verbatim>\<open>FiSimulator\<close>. The record \<open>FiSimulator\<close> holds its fields and what it
    sent out (stream updates, events); each method is a function from the arguments and the state
    to the new state and the reply. A method that awaits is cut in two at the await, and what it
    keeps on its stack is a \<open>continuation\<close> in the list \<open>inflight\<close>; the phase timer is a flag and the
    first publications to subscribers a queue. \<open>sim_step\<close> is one turn of the event loop: a call, the
    resumption of any of the suspended calls, the timer, or an action of the developer screen, in
    any order. The clock is an argument of every step that reads it.
  \<^item> \<open>Fi_Simulator_Proofs\<close>: the invariants of the simulator (stream numbering, formation, money,
    previews), each an instance of \<open>invariant_machine\<close>.
  \<^item> \<open>Fi_Simulator_Properties\<close>, \<open>Fi_Transport\<close>: the properties of the simulator, and the wrapper of
    \<^verbatim>\<open>utils/fi/mockTransport.ts\<close> with the reply of the real bridge as an argument.

  \<^item> \<open>Fi_Slice\<close>, \<open>Fi_Slice_Properties\<close>: the slice \<^verbatim>\<open>redux/fi.ts\<close>: its state, reducers, thunks and selectors.

  What the lemmas show. Streams: diffs that are valid for the sender's vector end in exactly that
  vector, mapping commutes with applying, and the ids reported as new are complete. Storage: every
  stored state of every version migrates to an instance of the latest interface without throwing,
  user preferences are kept, the writer covers the interface, what is saved is what the state holds,
  and what is loaded is what was saved. Slices: one entry for each transaction, federation, chat and
  multispend event, in their order, in every reachable state; the histories of the browser stay in
  their bounds; leaving a federation forgets it; an automatic join happens once. Amounts: a deposit
  with its fee stays within the balance, a withdrawal within what is locked and staged, and satoshis
  survive the conversion to bitcoin and back. Decoders: the decoder of CBOR returns on every input and
  inverts the encoder; version 4 tokens read as what they say. Chat: what a conversation shows is
  every event that is not a payment and one row for each payment; claims touch open payments of mine
  only; claims never overlap and a claimed payment is not asked for again, in every interleaving of
  checks and answers; an answered payment is not offered again, an accepted request can be claimed, and
  two cases in which money is lost are stated; a message is shown as typed with its mentions as links;
  subscriptions do not leak, with one exception that is stated. Chat rows: one row per event,
  and each row says what the description says. Transactions: badge and text agree, fees add up, and
  an exported table reads back cell by cell. Bytes:
  text is never taken for binary, e-cash survives the frames, and an archive is read back with all its
  files. Simulator: in every interleaving the snapshot agrees
  with its phase, no wallet is overdrawn, no stream has a gap, a formation does not pass its
  scenario's failure, and one without a failure completes; what is shown of a setup never goes back.
  Theorems of kind error state where the
  code does not do what its comments say.

  Modelling choices. A JavaScript object whose keys are data is an insertion-ordered map; the key
  \<^verbatim>\<open>__proto__\<close> is treated where data of others can contain it (\<open>Cbor\<close>) and is otherwise a key like
  any. Strings are lists of 8-bit characters, so a code unit above 255 has no image; lower case and white
  space are those of Latin-1. Regular expressions are written out as functions; those modelled are
  deterministic, so the match is the first one. \<^verbatim>\<open>undefined\<close> and \<^verbatim>\<open>null\<close> are told apart where the code does. References
  are modelled where the code compares or mutates them (the merge helpers say whether a value is
  the old one); memoized selectors are the functions they memoize.
  Parameters stand for what is not in the repository: base64, UTF-8, \<^verbatim>\<open>JSON.parse\<close>, hashes, urls, dates,
  identifiers made at random, translations, lodash's comparison of objects, the answers of the bridge and of mints, and clocks.

  Bounds. Recursion is structural or on a list, with these exceptions: the walk of the seeded
  formation to its parking phase (\<open>seed_walk\<close>) has as many turns as there are phases; the nesting of
  CBOR has as much fuel as the data has bytes plus one, which is proved enough; the rounding of
  doubles searches an exponent among finitely many. Numbers are \<open>int\<close> where the program has counts,
  times and amounts of millisatoshis, all far below \<^verbatim>\<open>2^53\<close>, where JavaScript numbers are exact
  integers; amounts in satoshis, bitcoin and fiat are doubles. The hash of an identifier, which the
  code computes with 32-bit operators, keeps its width.

  Not modelled: rendering and navigation (\<^verbatim>\<open>src/ui/native\<close>, \<^verbatim>\<open>src/ui/web\<close>, and \<^verbatim>\<open>hooks\<close> except what is
  shown of a payment), the bridge and its
  generated bindings beyond the types used, the forwarding wrapper \<^verbatim>\<open>utils/fedimint.ts\<close>, injected
  scripts, logging, the delays themselves, the formats of \<^verbatim>\<open>Intl\<close>, parsers built on packages outside
  the repository (\<^verbatim>\<open>utils/parser.ts\<close>, \<^verbatim>\<open>utils/lnurl.ts\<close>), recovery (\<^verbatim>\<open>redux/recovery.ts\<close>), and of the
  slices the thunks that only forward to the bridge.
\<close>

end
